(* ===== verification/Prelude.thy ===== *)
theory Prelude
  imports Main "HOL-Library.AList" "HOL-Library.Sublist" "HOL-Library.Char_ord"
    "HOL-Library.List_Lexorder" "HOL-Library.Product_Lexorder"
begin

text \<open>
  The vocabulary that every component of the development shares: Go strings and the functions
  of the package \<open>strings\<close> that the service calls, the wrap-around of Go's 64-bit \<open>int\<close>,
  the keep-first de-duplication that several loops of the service perform, and the small facts
  about association lists, results and lists that the component theories rely on.

  A Go string is a byte sequence, and so is an Isabelle \<^typ>\<open>string\<close> (a list of 8-bit
  characters), so \<open>len\<close> is \<^const>\<open>length\<close>. White space is the full Unicode set that
  \<open>strings.TrimSpace\<close> strips, recognised on its UTF-8 encodings. Letter case is folded for
  the 26 ASCII letters; the bytes of other letters are left as they are, so a statement about
  \<open>ToLower\<close> speaks of strings whose non-ASCII letters are already in lower case.
\<close>

section \<open>Collections of facts\<close>

named_theorems go_string_simps \<open>rewriting with the string functions\<close>
named_theorems sql_simps \<open>unfolding the table and statement layer\<close>
named_theorems repo_defs \<open>definitions of the repository operations\<close>
named_theorems svc_defs \<open>definitions of the service operations\<close>

type_synonym time = int
type_synonym gostring = string

section \<open>White space and case\<close>

definition space1 :: "char \<Rightarrow> bool" where
  "space1 c = (let n = (of_char c :: nat) in n = 32 \<or> (9 \<le> n \<and> n \<le> 13))"

text \<open>U+0085 and U+00A0 are two bytes in UTF-8.\<close>

definition space2 :: "char \<Rightarrow> char \<Rightarrow> bool" where
  "space2 c d = (of_char c = (0xC2::nat) \<and> (of_char d = (0x85::nat) \<or> of_char d = (0xA0::nat)))"

text \<open>U+1680, U+2000 to U+200A, U+2028, U+2029, U+202F, U+205F and U+3000 are three bytes.\<close>

definition space3 :: "char \<Rightarrow> char \<Rightarrow> char \<Rightarrow> bool" where
  "space3 c d e = (let a = (of_char c :: nat); b = (of_char d :: nat); z = (of_char e :: nat) in
     (a = 0xE1 \<and> b = 0x9A \<and> z = 0x80)
     \<or> (a = 0xE2 \<and> b = 0x80 \<and> ((0x80 \<le> z \<and> z \<le> 0x8A) \<or> z = 0xA8 \<or> z = 0xA9 \<or> z = 0xAF))
     \<or> (a = 0xE2 \<and> b = 0x81 \<and> z = 0x9F)
     \<or> (a = 0xE3 \<and> b = 0x80 \<and> z = 0x80))"

fun trim_front :: "('a \<Rightarrow> bool) \<Rightarrow> ('a \<Rightarrow> 'a \<Rightarrow> bool) \<Rightarrow> ('a \<Rightarrow> 'a \<Rightarrow> 'a \<Rightarrow> bool) \<Rightarrow> 'a list \<Rightarrow> 'a list" where
  "trim_front p1 p2 p3 [] = []"
| "trim_front p1 p2 p3 [c] = (if p1 c then [] else [c])"
| "trim_front p1 p2 p3 [c, d] =
     (if p1 c then trim_front p1 p2 p3 [d] else if p2 c d then [] else [c, d])"
| "trim_front p1 p2 p3 (c # d # e # cs) =
     (if p1 c then trim_front p1 p2 p3 (d # e # cs)
      else if p2 c d then trim_front p1 p2 p3 (e # cs)
      else if p3 c d e then trim_front p1 p2 p3 cs
      else c # d # e # cs)"

definition trim_left :: "gostring \<Rightarrow> gostring" where
  "trim_left s = trim_front space1 space2 space3 s"

definition trim_right :: "gostring \<Rightarrow> gostring" where
  "trim_right s = rev (trim_front space1 (\<lambda>d c. space2 c d) (\<lambda>e d c. space3 c d e) (rev s))"

definition TrimSpace :: "gostring \<Rightarrow> gostring" where
  "TrimSpace s = trim_right (trim_left s)"

text \<open>Letter case is folded for ASCII letters only, also by \<open>EqualFold\<close> and \<open>ToUpper\<close>; the Go functions
  fold all of Unicode. The two agree on ASCII texts.\<close>

definition to_lower_char :: "char \<Rightarrow> char" where
  "to_lower_char c = (let n = (of_char c :: nat) in if 65 \<le> n \<and> n \<le> 90 then char_of (n + 32) else c)"

definition ToLower :: "gostring \<Rightarrow> gostring" where
  "ToLower s = map to_lower_char s"

definition EqualFold :: "gostring \<Rightarrow> gostring \<Rightarrow> bool" where
  "EqualFold a b = (ToLower a = ToLower b)"

section \<open>Searching, splitting and joining\<close>

definition nul :: gostring where
  "nul = [CHR 0x00]"

fun join_with :: "gostring \<Rightarrow> gostring list \<Rightarrow> gostring" where
  "join_with sep [] = []"
| "join_with sep [x] = x"
| "join_with sep (x # y # xs) = x @ sep @ join_with sep (y # xs)"

text \<open>\<open>strings.Cut(s, sep)\<close> for a separator of one byte: the text before the first
  occurrence, the text after it, and whether there was one.\<close>

fun cut_at :: "char \<Rightarrow> gostring \<Rightarrow> gostring \<times> gostring \<times> bool" where
  "cut_at sep [] = ([], [], False)"
| "cut_at sep (c # cs) =
     (if c = sep then ([], cs, True)
      else case cut_at sep cs of (a, b, found) \<Rightarrow> (if found then (c # a, b, True) else (c # cs, [], False)))"

section \<open>Machine integers\<close>

text \<open>The value of a Go \<open>int\<close> expression on a 64-bit platform.\<close>

definition wrap64 :: "int \<Rightarrow> int" where
  "wrap64 x = (x + 2 ^ 63) mod 2 ^ 64 - 2 ^ 63"

section \<open>Keeping the first occurrence\<close>

text \<open>What the loops with a \<open>seen\<close> set compute, as a function on lists.\<close>

fun nub_from :: "'a list \<Rightarrow> 'a list \<Rightarrow> 'a list" where
  "nub_from seen [] = []"
| "nub_from seen (x # xs) = (if x \<in> set seen then nub_from seen xs else x # nub_from (x # seen) xs)"

abbreviation nub :: "'a list \<Rightarrow> 'a list" where
  "nub xs \<equiv> nub_from [] xs"

section \<open>Lemmas on strings\<close>

lemma trim_front_idem [simp]:
  "trim_front p1 p2 p3 (trim_front p1 p2 p3 xs) = trim_front p1 p2 p3 xs"
  by (induction p1 p2 p3 xs rule: trim_front.induct) auto

lemma trim_front_suffix: "suffix (trim_front p1 p2 p3 xs) xs"
  by (induction p1 p2 p3 xs rule: trim_front.induct) (auto simp: suffix_ConsI)

lemma trim_front_fixed_take:
  assumes "trim_front p1 p2 p3 xs = xs"
  shows "trim_front p1 p2 p3 (take n xs) = take n xs"
proof (cases xs rule: remdups_adj.cases)
  case 1 then show ?thesis by simp
next
  case (2 x) with assms show ?thesis by (cases n) (auto split: if_splits)
next
  case (3 c d zs)
  have len: "length (trim_front p1 p2 p3 ys) \<le> length ys" for ys
    using trim_front_suffix[of p1 p2 p3 ys] by (rule suffix_length_le)
  have not_shorter: "trim_front p1 p2 p3 ys \<noteq> x # ys" for x ys
    using len[of ys] by (metis impossible_Cons)
  have not_shorter2: "trim_front p1 p2 p3 ys \<noteq> x # y # ys" for x y ys
    using len[of ys] by (metis Suc_n_not_le_n length_Cons le_Suc_eq le_trans)
  have not_shorter3: "trim_front p1 p2 p3 ys \<noteq> x # y # z # ys" for x y z ys
    using len[of ys] by auto
  show ?thesis
  proof (cases zs)
    case Nil
    with 3 assms not_shorter not_shorter2 show ?thesis
      by (cases n; cases "n - 1"; cases "n - 2") (auto split: if_splits)
  next
    case (Cons e cs)
    with 3 assms have np: "\<not> p1 c" "\<not> p2 c d" "\<not> p3 c d e"
      using not_shorter not_shorter2 not_shorter3 by (auto split: if_splits)
    show ?thesis
    proof (cases n)
      case (Suc m)
      note n = Suc
      show ?thesis
      proof (cases m)
        case (Suc k)
        with n 3 Cons np show ?thesis by (cases k) auto
      qed (use n 3 Cons np in auto)
    qed (use 3 in auto)
  qed
qed

lemma trim_right_prefix: "\<exists>n. trim_right s = take n s"
proof -
  obtain zs where zs: "rev s = zs @ trim_front space1 (\<lambda>d c. space2 c d) (\<lambda>e d c. space3 c d e) (rev s)"
    using trim_front_suffix[of space1 "\<lambda>d c. space2 c d" "\<lambda>e d c. space3 c d e" "rev s"]
    by (auto simp: suffix_def)
  then have "s = trim_right s @ rev zs"
    unfolding trim_right_def by (metis rev_append rev_rev_ident)
  then show ?thesis by (metis append_eq_conv_conj)
qed

lemma TrimSpace_idem [simp, go_string_simps]: "TrimSpace (TrimSpace s) = TrimSpace s"
proof -
  obtain n where n: "trim_right (trim_left s) = take n (trim_left s)"
    using trim_right_prefix by blast
  have "trim_left (trim_right (trim_left s)) = trim_right (trim_left s)"
    unfolding n by (simp add: trim_left_def trim_front_fixed_take)
  then show ?thesis by (simp add: TrimSpace_def trim_right_def)
qed

lemma set_trim_front: "c \<in> set (trim_front P Q R s) \<Longrightarrow> c \<in> set s"
  by (induction P Q R s rule: trim_front.induct) (auto split: if_splits)

lemma set_TrimSpace: "c \<in> set (TrimSpace s) \<Longrightarrow> c \<in> set s"
  by (auto simp: TrimSpace_def trim_left_def trim_right_def dest!: set_trim_front)

lemma TrimSpace_Nil [simp, go_string_simps]: "TrimSpace [] = []"
  by (simp add: TrimSpace_def trim_left_def trim_right_def)

lemma of_char_to_lower:
  "(of_char (to_lower_char c) :: nat) = (if 65 \<le> (of_char c :: nat) \<and> (of_char c :: nat) \<le> 90 then of_char c + 32 else of_char c)"
  by (simp add: to_lower_char_def Let_def)

lemma to_lower_char_idem: "to_lower_char (to_lower_char c) = to_lower_char c"
  by (simp add: to_lower_char_def Let_def)

lemma ToLower_idem [simp, go_string_simps]: "ToLower (ToLower s) = ToLower s"
  by (simp add: ToLower_def to_lower_char_idem)

lemma ToLower_Nil_iff [simp]: "ToLower s = [] \<longleftrightarrow> s = []"
  by (simp add: ToLower_def)

lemma ToLower_Nil [simp]: "ToLower [] = []"
  by (simp add: ToLower_def)

lemma length_ToLower [simp]: "length (ToLower s) = length s"
  by (simp add: ToLower_def)

lemma to_lower_char_nul: "to_lower_char c = CHR 0x00 \<longleftrightarrow> c = CHR 0x00"
proof
  assume "to_lower_char c = CHR 0x00"
  then have "of_char (to_lower_char c) = (0::nat)" by simp
  then have "of_char c = (0::nat)"
    by (simp add: to_lower_char_def Let_def split: if_splits)
  then have "of_char c = (of_char (CHR 0x00) :: nat)" by simp
  then show "c = CHR 0x00" by (simp only: of_char_eq_iff)
qed (simp add: to_lower_char_def)


lemma nul_in_ToLower [simp]: "CHR 0x00 \<in> set (ToLower s) \<longleftrightarrow> CHR 0x00 \<in> set s"
  by (auto simp: ToLower_def image_iff to_lower_char_nul eq_commute[of "CHR 0x00"])

lemma cut_at_found:
  "sep \<notin> set a \<Longrightarrow> cut_at sep (a @ sep # b) = (a, b, True)"
  by (induction a) auto

lemma cut_at_absent: "sep \<notin> set a \<Longrightarrow> cut_at sep a = (a, [], False)"
  by (induction a) auto

lemma cut_at_True: "cut_at sep s = (a, b, True) \<Longrightarrow> s = a @ sep # b \<and> sep \<notin> set a"
  by (induction s arbitrary: a) (auto split: if_splits prod.splits)

lemma join_with_Cons: "xs \<noteq> [] \<Longrightarrow> join_with sep (x # xs) = x @ sep @ join_with sep xs"
  by (cases xs) auto

text \<open>Splitting at a separator is unambiguous when the first part does not contain it.\<close>

lemma append_sep_inject:
  fixes c :: char
  assumes "a @ c # s = b @ c # t" "c \<notin> set a" "c \<notin> set b"
  shows "a = b \<and> s = t"
proof -
  have "(a, s, True) = cut_at c (a @ c # s)" using assms(2) by (simp add: cut_at_found)
  also have "\<dots> = cut_at c (b @ c # t)" by (simp only: assms(1))
  also have "\<dots> = (b, t, True)" using assms(3) by (simp add: cut_at_found)
  finally show ?thesis by simp
qed

lemma join_nul_inject:
  "length xs = length ys \<Longrightarrow> \<forall>x\<in>set xs. CHR 0x00 \<notin> set x \<Longrightarrow> \<forall>y\<in>set ys. CHR 0x00 \<notin> set y
   \<Longrightarrow> join_with nul xs = join_with nul ys \<Longrightarrow> xs = ys"
proof (induction xs ys rule: list_induct2)
  case (Cons x xs y ys)
  show ?case
  proof (cases "xs = []")
    case True with Cons show ?thesis by auto
  next
    case False
    with Cons.hyps have ys: "ys \<noteq> []" by auto
    from Cons.prems(3) False ys
    have "x @ CHR 0x00 # join_with nul xs = y @ CHR 0x00 # join_with nul ys"
      by (simp add: join_with_Cons nul_def)
    then have "x = y \<and> join_with nul xs = join_with nul ys"
      using Cons.prems by (intro append_sep_inject) auto
    with Cons show ?thesis by auto
  qed
qed simp

section \<open>Lemmas on machine integers and lists\<close>

lemma wrap64_id: "- (2 ^ 63) \<le> x \<Longrightarrow> x < 2 ^ 63 \<Longrightarrow> wrap64 x = x"
  by (simp add: wrap64_def)

lemma wrap64_range: "- (2 ^ 63) \<le> wrap64 x \<and> wrap64 x < 2 ^ 63"
proof -
  have "0 \<le> (x + 2 ^ 63) mod 2 ^ 64" "(x + 2 ^ 63) mod 2 ^ 64 < (2 ^ 64 :: int)" by simp_all
  then show ?thesis by (simp add: wrap64_def)
qed

lemma set_nub_from: "set (nub_from seen xs) = set xs - set seen"
  by (induction seen xs rule: nub_from.induct) auto

lemma distinct_nub_from: "distinct (nub_from seen xs)"
  by (induction seen xs rule: nub_from.induct) (auto simp: set_nub_from)

lemma set_nub [simp]: "set (nub xs) = set xs"
  by (simp add: set_nub_from)

lemma distinct_nub [simp]: "distinct (nub xs)"
  by (rule distinct_nub_from)

lemma length_nub_le: "length (nub_from seen xs) \<le> length xs"
  by (induction seen xs rule: nub_from.induct) auto

lemma nub_from_cong: "set seen = set seen' \<Longrightarrow> nub_from seen xs = nub_from seen' xs"
proof (induction xs arbitrary: seen seen')
  case (Cons x xs)
  have "nub_from (x # seen) xs = nub_from (x # seen') xs"
    by (rule Cons.IH) (simp add: Cons.prems)
  moreover have "nub_from seen xs = nub_from seen' xs" by (rule Cons.IH) (rule Cons.prems)
  ultimately show ?case by (simp add: Cons.prems)
qed simp

lemma find_Some_in: "find P xs = Some x \<Longrightarrow> x \<in> set xs \<and> P x"
  by (induction xs) (auto split: if_splits)

lemma find_None_all: "find P xs = None \<Longrightarrow> x \<in> set xs \<Longrightarrow> \<not> P x"
  by (induction xs) (auto split: if_splits)

end
