(* ===== verification/Errors.thy ===== *)
theory Errors
  imports Prelude
begin

text \<open>
  Error values: the structured application error of \<open>internal/apperror/error.go\<close>, the sentinel
  errors the service compares with, driver errors, and the wrapping that \<open>fmt.Errorf\<close> with
  \<open>%w\<close> performs. \<open>errors.Is\<close> and \<open>errors.As\<close> walk the chain of wrapped errors. The
  numbers behind the codes belong to the shared \<open>errorcode\<close> package, so the codes are
  symbolic constants; the HTTP statuses are those of \<open>net/http\<close>.

  A Go function that returns \<open>(T, error)\<close> is modelled by \<open>goerr + 'a\<close>, one that returns
  \<open>error\<close> by \<open>goerr option\<close>.
\<close>

section \<open>Error values\<close>

datatype errcode =
    CodeOK | CodeInvalidArgument | CodeNotFound | CodeRequestTimeout | CodeTooManyRequests
  | CodeUnauthorized | CodeForbidden | CodeConflict | CodeRequestInProgress | CodeStaleVersion
  | CodeInternal | CodeDependencyUnavailable

datatype sentinel =
    ErrNotFound | ErrStaleVersion \<comment> \<open>package authorization\<close>
  | SqlErrNoRows \<comment> \<open>database/sql\<close>
  | ErrMissingAuditActor \<comment> \<open>package database\<close>
  | PolicyErrNotFound | PolicyErrStaleVersion \<comment> \<open>package routepolicy\<close>
  | PlatformErrInvalid | PlatformErrMissing | PlatformErrDenied \<comment> \<open>the shared routepolicy package\<close>
  | AuthzErrDenied | AuthzErrDecisionUnavailable | AuthzErrInvalidPrincipal \<comment> \<open>the shared authz package\<close>
  | ContextCanceled

datatype goerr =
    AppError (err_Code: errcode) (err_Message: gostring) (err_HTTPStatus: int) (err_Err: "goerr option")
  | Sentinel sentinel
  | MySQLError nat gostring
  | PgError gostring gostring
  | OtherError gostring
  | Wrapf gostring goerr \<comment> \<open>\<open>fmt.Errorf("text: %w", err)\<close>\<close>
  | WrapSuffix goerr gostring \<comment> \<open>\<open>fmt.Errorf("%w: text", err)\<close>\<close>

type_synonym 'a result = "goerr + 'a"

section \<open>The constructors of package apperror\<close>

definition NewError :: "errcode \<Rightarrow> gostring \<Rightarrow> int \<Rightarrow> goerr option \<Rightarrow> goerr" where
  "NewError code message status err = AppError code message status err"

definition Invalid :: "gostring \<Rightarrow> goerr option \<Rightarrow> goerr" where
  "Invalid message err = NewError CodeInvalidArgument message 400 err"

definition NotFound :: "gostring \<Rightarrow> goerr" where
  "NotFound message = NewError CodeNotFound message 404 None"

definition Conflict :: "gostring \<Rightarrow> goerr option \<Rightarrow> goerr" where
  "Conflict message err = NewError CodeConflict message 409 err"

definition StaleVersion :: "goerr \<Rightarrow> goerr" where
  "StaleVersion err = NewError CodeStaleVersion ''resource version is stale'' 409 (Some err)"

definition RequestInProgress :: goerr where
  "RequestInProgress = NewError CodeRequestInProgress ''request is already processing'' 409 None"

definition Unauthorized :: "gostring \<Rightarrow> goerr" where
  "Unauthorized message = NewError CodeUnauthorized message 401 None"

definition Forbidden :: "gostring \<Rightarrow> goerr" where
  "Forbidden message = NewError CodeForbidden message 403 None"

definition TooManyRequests :: goerr where
  "TooManyRequests = NewError CodeTooManyRequests ''too many requests'' 429 None"

definition RequestTimeout :: goerr where
  "RequestTimeout = NewError CodeRequestTimeout ''request timeout'' 504 None"

definition Unavailable :: "gostring \<Rightarrow> goerr option \<Rightarrow> goerr" where
  "Unavailable message err = NewError CodeDependencyUnavailable message 503 err"

definition Internal :: "goerr \<Rightarrow> goerr" where
  "Internal err = NewError CodeInternal ''internal server error'' 500 (Some err)"

lemmas apperror_defs =
  NewError_def Invalid_def NotFound_def Conflict_def StaleVersion_def RequestInProgress_def
  Unauthorized_def Forbidden_def TooManyRequests_def RequestTimeout_def Unavailable_def Internal_def

section \<open>Walking the chain\<close>

text \<open>The text of an error; the texts of the sentinels are an argument, since most of them
  belong to other packages.\<close>

fun error_text :: "(sentinel \<Rightarrow> gostring) \<Rightarrow> goerr \<Rightarrow> gostring" where
  "error_text txt (AppError c m s (Some e)) = error_text txt e"
| "error_text txt (AppError c m s None) = m"
| "error_text txt (Sentinel t) = txt t"
| "error_text txt (MySQLError n m) = m"
| "error_text txt (PgError c m) = m"
| "error_text txt (OtherError m) = m"
| "error_text txt (Wrapf m e) = m @ '': '' @ error_text txt e"
| "error_text txt (WrapSuffix e m) = error_text txt e @ '': '' @ m"

fun unwrap :: "goerr \<Rightarrow> goerr option" where
  "unwrap (AppError c m s e) = e"
| "unwrap (Wrapf m e) = Some e"
| "unwrap (WrapSuffix e m) = Some e"
| "unwrap e = None"

fun err_is :: "sentinel \<Rightarrow> goerr \<Rightarrow> bool" where
  "err_is t (Sentinel u) = (t = u)"
| "err_is t (AppError c m s (Some e)) = err_is t e"
| "err_is t (Wrapf m e) = err_is t e"
| "err_is t (WrapSuffix e m) = err_is t e"
| "err_is t e = False"

fun as_app :: "goerr \<Rightarrow> goerr option" where
  "as_app (AppError c m s e) = Some (AppError c m s e)"
| "as_app (Wrapf m e) = as_app e"
| "as_app (WrapSuffix e m) = as_app e"
| "as_app e = None"

fun as_mysql :: "goerr \<Rightarrow> nat option" where
  "as_mysql (MySQLError n m) = Some n"
| "as_mysql (AppError c m s (Some e)) = as_mysql e"
| "as_mysql (Wrapf m e) = as_mysql e"
| "as_mysql (WrapSuffix e m) = as_mysql e"
| "as_mysql e = None"

fun as_pg :: "goerr \<Rightarrow> gostring option" where
  "as_pg (PgError c m) = Some c"
| "as_pg (AppError c m s (Some e)) = as_pg e"
| "as_pg (Wrapf m e) = as_pg e"
| "as_pg (WrapSuffix e m) = as_pg e"
| "as_pg e = None"

section \<open>Translation at the service boundary\<close>

definition authorizationUniqueViolation :: "goerr \<Rightarrow> bool" where
  "authorizationUniqueViolation err =
     (case as_mysql err of
        Some number \<Rightarrow> number = 1062
      | None \<Rightarrow> (case as_pg err of Some code \<Rightarrow> code = ''23505'' | None \<Rightarrow> False))"

definition translate :: "goerr \<Rightarrow> goerr" where
  "translate err =
     (if as_app err \<noteq> None then err
      else if err_is ErrNotFound err then NotFound ''authorization resource not found''
      else if err_is ErrStaleVersion err then StaleVersion err
      else if authorizationUniqueViolation err then Conflict ''authorization resource already exists'' (Some err)
      else Internal err)"

text \<open>\<open>return value, translate(err)\<close>, where a nil error stays nil.\<close>

definition translated :: "goerr + 'a \<Rightarrow> goerr + 'a" where
  "translated r = map_sum translate id r"

definition code_of :: "goerr \<Rightarrow> errcode" where
  "code_of err = (case as_app err of Some (AppError c m s e) \<Rightarrow> c | _ \<Rightarrow> CodeInternal)"

section \<open>Lemmas\<close>

lemma as_app_AppError: "as_app err = Some e \<Longrightarrow> \<exists>c m s e'. e = AppError c m s e'"
  by (induction err rule: as_app.induct) auto

lemma as_app_constructors [simp]:
  "as_app (Invalid m e) = Some (Invalid m e)"
  "as_app (NotFound m) = Some (NotFound m)"
  "as_app (Conflict m e) = Some (Conflict m e)"
  "as_app (StaleVersion e') = Some (StaleVersion e')"
  "as_app (Unauthorized m) = Some (Unauthorized m)"
  "as_app (Forbidden m) = Some (Forbidden m)"
  "as_app (Unavailable m e) = Some (Unavailable m e)"
  "as_app (Internal e') = Some (Internal e')"
  by (simp_all add: apperror_defs)

lemma code_of_constructors [simp]:
  "code_of (Invalid m e) = CodeInvalidArgument"
  "code_of (NotFound m) = CodeNotFound"
  "code_of (Conflict m e) = CodeConflict"
  "code_of (StaleVersion e') = CodeStaleVersion"
  "code_of (Unauthorized m) = CodeUnauthorized"
  "code_of (Forbidden m) = CodeForbidden"
  "code_of (Unavailable m e) = CodeDependencyUnavailable"
  "code_of (Internal e') = CodeInternal"
  by (simp_all add: apperror_defs code_of_def)

lemma err_is_Some: "err_is t err \<Longrightarrow> as_app err = None \<Longrightarrow> err_is u err \<longleftrightarrow> u = t"
  by (induction t err rule: err_is.induct) auto

lemma translate_app [simp]: "as_app err \<noteq> None \<Longrightarrow> translate err = err"
  by (simp add: translate_def)

lemma translate_is_app: "as_app (translate err) \<noteq> None"
  by (auto simp: translate_def)

lemma translate_idem [simp]: "translate (translate err) = translate err"
  by (rule translate_app) (rule translate_is_app)

lemma translated_simps [simp]:
  "translated (Inr x) = Inr x" "translated (Inl e) = Inl (translate e)"
  by (simp_all add: translated_def)

lemma translated_Inr_iff [simp]: "translated r = Inr x \<longleftrightarrow> r = Inr x"
  by (cases r) auto

text \<open>Every translated error carries one of six codes unless the error was structured already.\<close>

lemma code_of_translate:
  "as_app err = None \<Longrightarrow>
   code_of (translate err) =
     (if err_is ErrNotFound err then CodeNotFound
      else if err_is ErrStaleVersion err then CodeStaleVersion
      else if authorizationUniqueViolation err then CodeConflict else CodeInternal)"
  by (simp add: translate_def)

end
