(* ===== verification/Model.thy ===== *)
theory Model
  imports Errors
begin

text \<open>
  The data of the authorization domain (\<open>internal/authorization/model.go\<close>), the caller's
  identity and the request context. Field names carry a short prefix per struct, since Isabelle
  selectors share one name space. Times are nanosecond counts; a Go map from strings to strings
  is an association list with distinct keys.
\<close>

section \<open>Domain structs\<close>

record AuditFields =
  Version :: int
  CreatedAt :: time
  UpdatedAt :: time
  CreatedBy :: gostring
  UpdatedBy :: gostring

record Permission =
  p_ID :: gostring
  p_TenantID :: gostring
  p_Code :: gostring
  p_Name :: gostring
  p_ResourceType :: gostring
  p_Action :: gostring
  p_ConditionExpression :: gostring
  p_Status :: gostring
  p_Audit :: AuditFields

record Role =
  r_ID :: gostring
  r_TenantID :: gostring
  r_Code :: gostring
  r_Name :: gostring
  r_Description :: gostring
  r_DataScope :: gostring
  r_Status :: gostring
  r_Audit :: AuditFields

record RolePermission =
  rp_ID :: gostring
  rp_TenantID :: gostring
  rp_RoleID :: gostring
  rp_PermissionID :: gostring
  rp_Status :: gostring
  rp_Audit :: AuditFields

record Binding =
  b_ID :: gostring
  b_TenantID :: gostring
  b_SubjectID :: gostring
  b_SubjectType :: gostring
  b_RoleID :: gostring
  b_OrganizationUnitID :: gostring
  b_Status :: gostring
  b_Audit :: AuditFields

record PermissionFilter =
  pf_Keyword :: gostring
  pf_IDs :: "gostring list"
  pf_Statuses :: "gostring list"
  pf_ResourceTypes :: "gostring list"
  pf_Actions :: "gostring list"
  pf_CreatedFrom :: "time option"
  pf_CreatedTo :: "time option"

record RoleFilter =
  rf_Keyword :: gostring
  rf_IDs :: "gostring list"
  rf_Statuses :: "gostring list"
  rf_DataScopes :: "gostring list"
  rf_CreatedFrom :: "time option"
  rf_CreatedTo :: "time option"

record BindingFilter =
  bf_SubjectID :: gostring
  bf_SubjectType :: gostring
  bf_IDs :: "gostring list"
  bf_RoleIDs :: "gostring list"
  bf_Statuses :: "gostring list"
  bf_OrganizationUnitIDs :: "gostring list"
  bf_CreatedFrom :: "time option"
  bf_CreatedTo :: "time option"

record Decision =
  d_Allowed :: bool
  d_DecisionID :: gostring
  d_Reason :: gostring
  d_PolicyVersion :: nat
  d_DataScope :: gostring
  d_OrganizationUnitIDs :: "gostring list"

record 'a Page =
  pg_Items :: "'a list"
  pg_Total :: int
  pg_Page :: int
  pg_PageSize :: int

record OutboxEvent =
  oe_ID :: gostring
  oe_Subject :: gostring
  oe_Envelope :: gostring
  oe_AvailableAt :: time
  oe_Audit :: AuditFields

section \<open>Callers and contexts\<close>

text \<open>The part of the shared \<open>principal.Principal\<close> that the service reads.\<close>

datatype PrincipalType = TypeUser | TypeServiceAccount | TypeSystem | TypeOther gostring

record Principal =
  pr_ID :: gostring
  pr_Type :: PrincipalType
  pr_TenantID :: gostring
  pr_MembershipID :: gostring

text \<open>The values a request context carries. \<open>authorizedManagementTenant\<close> is the value under
  \<open>authorizedManagementTenantKey\<close>.\<close>

record ctx =
  ctx_principal :: "Principal option"
  authorizedManagementTenant :: "gostring option"
  ctx_requestID :: "gostring option"
  ctx_clientIP :: gostring
  ctx_userAgent :: gostring
  ctx_idempotencyKey :: "gostring option"
  ctx_environment :: "gostring option"

type_synonym attributes = "(gostring \<times> gostring) list"

end
