(* ===== verification/Database.thy ===== *)
theory Database
  imports Model
begin

text \<open>
  The relational layer: the tables of the authorization schema as lists of rows, the constraints
  and audit triggers that the migrations install (\<open>migrations/postgres/000002\<close>, \<open>000006\<close>,
  \<open>000007\<close>), and the transaction wrapper of \<open>internal/database/transaction.go\<close>.

  The database server is outside the repository. What it may do at a statement is a field of the
  connection: \<open>fault\<close> gives, for the label of a statement, the driver error it fails with, or
  \<open>None\<close>; every theorem holds for every such function. A statement that does not fail has the
  effect its SQL text describes. A failed commit leaves the tables as they were.
\<close>

section \<open>Rows, tables and connections\<close>

datatype 'a row = Row (row_val: 'a) (row_deleted_at: "time option")

type_synonym 'a table = "'a row list"

record PolicyVersionRow =
  pv_TenantID :: gostring
  pv_PolicyVersion :: nat
  pv_Audit :: AuditFields

record SubjectGroup =
  sg_TenantID :: gostring
  sg_MembershipID :: gostring
  sg_GroupID :: gostring
  sg_Status :: gostring
  sg_SourceOccurredAt :: time
  sg_Audit :: AuditFields

record ProcessedEvent =
  pe_EventID :: gostring
  pe_EventType :: gostring
  pe_Audit :: AuditFields

record database =
  permissions :: "Permission table"
  roles :: "Role table"
  role_permissions :: "RolePermission table"
  role_bindings :: "Binding table"
  subject_groups :: "SubjectGroup table"
  policy_versions :: "PolicyVersionRow table"
  processed_events :: "ProcessedEvent table"
  outbox_events :: "OutboxEvent list"

text \<open>\<open>app_actor\<close> is the session setting \<open>app.actor_id\<close> that the audit trigger reads and
  \<open>collation\<close> the sort key of the database's collation. \<open>err_texts\<close> are the texts of the
  sentinel errors.\<close>

record conn =
  db_available :: bool
  driverName :: gostring
  fault :: "gostring \<Rightarrow> goerr option"
  stmt_time :: time
  app_actor :: gostring
  collation :: "gostring \<Rightarrow> gostring"
  err_texts :: "sentinel \<Rightarrow> gostring"

definition is_mysql :: "conn \<Rightarrow> bool" where
  "is_mysql c = (driverName c = ''mysql'')"

definition live :: "'a table \<Rightarrow> 'a list" where
  "live t = map row_val (filter (\<lambda>r. row_deleted_at r = None) t)"

definition update_where :: "('a \<Rightarrow> bool) \<Rightarrow> ('a \<Rightarrow> 'a) \<Rightarrow> 'a table \<Rightarrow> 'a table" where
  "update_where P f t =
     map (\<lambda>r. if row_deleted_at r = None \<and> P (row_val r) then Row (f (row_val r)) None else r) t"

definition count_where :: "('a \<Rightarrow> bool) \<Rightarrow> 'a table \<Rightarrow> nat" where
  "count_where P t = length (filter P (live t))"

definition insert_row :: "'a \<Rightarrow> 'a table \<Rightarrow> 'a table" where
  "insert_row v t = t @ [Row v None]"

section \<open>Statements\<close>

text \<open>\<open>sqlx.GetContext\<close>: the first row of the answer, \<open>sql.ErrNoRows\<close> when there is none.\<close>

definition GetContext :: "conn \<Rightarrow> gostring \<Rightarrow> 'a list \<Rightarrow> 'a result" where
  "GetContext c label rows =
     (case fault c label of
        Some e \<Rightarrow> Inl e
      | None \<Rightarrow> (case rows of [] \<Rightarrow> Inl (Sentinel SqlErrNoRows) | x # _ \<Rightarrow> Inr x))"

definition SelectContext :: "conn \<Rightarrow> gostring \<Rightarrow> 'a list \<Rightarrow> 'a list result" where
  "SelectContext c label rows = (case fault c label of Some e \<Rightarrow> Inl e | None \<Rightarrow> Inr rows)"

text \<open>A write to an audited table: the trigger raises an exception when no actor is set.\<close>

definition audited_fault :: "conn \<Rightarrow> gostring \<Rightarrow> goerr option" where
  "audited_fault c label =
     (case fault c label of
        Some e \<Rightarrow> Some e
      | None \<Rightarrow> if app_actor c = [] then Some (OtherError ''app.actor_id must be set for audited writes'') else None)"

definition audit_insert :: "conn \<Rightarrow> AuditFields" where
  "audit_insert c = \<lparr>Version = 1, CreatedAt = stmt_time c, UpdatedAt = stmt_time c,
     CreatedBy = app_actor c, UpdatedBy = app_actor c\<rparr>"

definition audit_update :: "conn \<Rightarrow> AuditFields \<Rightarrow> AuditFields" where
  "audit_update c old = \<lparr>Version = Version old + 1, CreatedAt = CreatedAt old, UpdatedAt = stmt_time c,
     CreatedBy = CreatedBy old, UpdatedBy = app_actor c\<rparr>"

definition unique_violation :: "conn \<Rightarrow> goerr" where
  "unique_violation c = (if is_mysql c then MySQLError 1062 ''Duplicate entry''
     else PgError ''23505'' ''duplicate key value violates unique constraint'')"

definition foreign_key_violation :: "conn \<Rightarrow> goerr" where
  "foreign_key_violation c = (if is_mysql c then MySQLError 1452 ''a foreign key constraint fails''
     else PgError ''23503'' ''violates foreign key constraint'')"

section \<open>Constraints of the schema\<close>

definition permission_unique :: "Permission table \<Rightarrow> Permission \<Rightarrow> bool" where
  "permission_unique t v = list_all (\<lambda>r. let q = row_val r in
     p_ID q \<noteq> p_ID v
     \<and> \<not> (p_TenantID q = p_TenantID v \<and> p_Code q = p_Code v)
     \<and> \<not> (p_TenantID q = p_TenantID v \<and> p_ResourceType q = p_ResourceType v \<and> p_Action q = p_Action v)) t"

definition role_unique :: "Role table \<Rightarrow> Role \<Rightarrow> bool" where
  "role_unique t v = list_all (\<lambda>r. let q = row_val r in
     r_ID q \<noteq> r_ID v \<and> \<not> (r_TenantID q = r_TenantID v \<and> r_Code q = r_Code v)) t"

definition role_permission_unique :: "RolePermission table \<Rightarrow> RolePermission \<Rightarrow> bool" where
  "role_permission_unique t v = list_all (\<lambda>r. let q = row_val r in
     rp_ID q \<noteq> rp_ID v \<and> \<not> (rp_RoleID q = rp_RoleID v \<and> rp_PermissionID q = rp_PermissionID v)) t"

text \<open>The unique index \<open>uq_role_bindings_subject_role\<close> covers revoked bindings too.\<close>

definition binding_unique :: "Binding table \<Rightarrow> Binding \<Rightarrow> bool" where
  "binding_unique t v = list_all (\<lambda>r. let q = row_val r in
     b_ID q \<noteq> b_ID v
     \<and> \<not> (b_TenantID q = b_TenantID v \<and> b_SubjectType q = b_SubjectType v
          \<and> b_SubjectID q = b_SubjectID v \<and> b_RoleID q = b_RoleID v)) t"

definition role_exists :: "database \<Rightarrow> gostring \<Rightarrow> bool" where
  "role_exists db i = list_ex (\<lambda>r. r_ID (row_val r) = i) (roles db)"

definition permission_exists :: "database \<Rightarrow> gostring \<Rightarrow> bool" where
  "permission_exists db i = list_ex (\<lambda>r. p_ID (row_val r) = i) (permissions db)"

section \<open>Transactions\<close>

definition setAuditActor :: "conn \<Rightarrow> ctx \<Rightarrow> conn result" where
  "setAuditActor c x =
     (case ctx_principal x of
        None \<Rightarrow> Inl (Sentinel ErrMissingAuditActor)
      | Some actor \<Rightarrow>
          if TrimSpace (pr_ID actor) = [] then Inl (Sentinel ErrMissingAuditActor)
          else if driverName c = ''mysql'' \<or> driverName c = ''pgx'' \<or> driverName c = ''postgres''
                  \<or> driverName c = ''kingbase''
               then (case fault c ''set transaction audit actor'' of
                       Some e \<Rightarrow> Inl (Wrapf ''set transaction audit actor'' e)
                     | None \<Rightarrow> Inr (c\<lparr>app_actor := pr_ID actor\<rparr>))
               else Inr c)"

text \<open>\<open>Transactor.Within\<close>: an \<open>Inl\<close> means that nothing was committed, an \<open>Inr\<close> carries the
  committed tables and the values the closure assigned.\<close>

definition Within ::
  "conn \<Rightarrow> ctx \<Rightarrow> (conn \<Rightarrow> 'd \<Rightarrow> goerr + ('a \<times> 'd)) \<Rightarrow> 'd \<Rightarrow> goerr + ('a \<times> 'd)" where
  "Within c x fn db =
     (if \<not> db_available c then Inl (OtherError ''begin transaction: database is disabled'')
      else case fault c ''begin transaction'' of
        Some e \<Rightarrow> Inl (Wrapf ''begin transaction'' e)
      | None \<Rightarrow> (case setAuditActor c x of
          Inl e \<Rightarrow> Inl e
        | Inr tx \<Rightarrow> (case fn tx db of
            Inl e \<Rightarrow> (case fault c ''rollback'' of
                Some rollbackErr \<Rightarrow> Inl (Wrapf (''rollback transaction after '' @ error_text (err_texts c) e) rollbackErr)
              | None \<Rightarrow> Inl e)
          | Inr r \<Rightarrow> (case fault c ''commit transaction'' of
                Some e \<Rightarrow> Inl (Wrapf ''commit transaction'' e)
              | None \<Rightarrow> Inr r))))"

section \<open>Lemmas on tables\<close>

lemma live_insert_row [simp]: "live (insert_row v t) = live t @ [v]"
  by (simp add: live_def insert_row_def)

lemma live_update_where [simp]:
  "live (update_where P f t) = map (\<lambda>v. if P v then f v else v) (live t)"
  by (induction t) (auto simp: live_def update_where_def)

lemma set_insert_row [simp]: "set (insert_row v t) = insert (Row v None) (set t)"
  by (simp add: insert_row_def)

lemma live_subset: "v \<in> set (live t) \<Longrightarrow> \<exists>r\<in>set t. row_val r = v"
  by (auto simp: live_def)

lemma map_update_where:
  assumes "\<And>v. key (f v) = key v"
  shows "map (key \<circ> row_val) (update_where P f t) = map (key \<circ> row_val) t"
  using assms by (simp add: update_where_def)

lemma update_where_rows:
  "r \<in> set (update_where P f t) \<Longrightarrow> \<exists>q\<in>set t. row_val r = row_val q \<or> (P (row_val q) \<and> row_val r = f (row_val q))"
  by (auto simp: update_where_def split: if_splits)

lemma insert_row_neq [simp]: "insert_row v t \<noteq> t"
  by (simp add: insert_row_def)

lemma GetContext_Inr: "GetContext c l rows = Inr x \<longleftrightarrow> fault c l = None \<and> (\<exists>ys. rows = x # ys)"
  by (auto simp: GetContext_def split: option.splits list.splits)

lemma SelectContext_Inr: "SelectContext c l rows = Inr xs \<longleftrightarrow> fault c l = None \<and> xs = rows"
  by (auto simp: SelectContext_def split: option.splits)

lemma audited_fault_None: "audited_fault c l = None \<longleftrightarrow> fault c l = None \<and> app_actor c \<noteq> []"
  by (auto simp: audited_fault_def split: option.splits if_splits)

lemma audit_update_Version [simp]: "Version (audit_update c a) = Version a + 1"
  by (simp add: audit_update_def)

lemma audit_insert_Version [simp]: "Version (audit_insert c) = 1"
  by (simp add: audit_insert_def)

lemma unique_violation_translate:
  "translate (Wrapf m (unique_violation c)) =
   Conflict ''authorization resource already exists'' (Some (Wrapf m (unique_violation c)))"
  by (simp add: translate_def unique_violation_def authorizationUniqueViolation_def)

section \<open>Lemmas on transactions\<close>

lemma setAuditActor_Inr:
  assumes "setAuditActor c x = Inr tx"
  shows "\<exists>a. ctx_principal x = Some a \<and> TrimSpace (pr_ID a) \<noteq> [] \<and> (tx = c\<lparr>app_actor := pr_ID a\<rparr> \<or> tx = c)"
  using assms by (auto simp: setAuditActor_def split: option.splits if_splits)

lemma Within_Inr_iff:
  "Within c x fn db = Inr r \<longleftrightarrow>
     db_available c \<and> fault c ''begin transaction'' = None \<and> fault c ''commit transaction'' = None \<and>
     (\<exists>tx. setAuditActor c x = Inr tx \<and> fn tx db = Inr r)"
  by (auto simp: Within_def split: option.splits sum.splits)

lemma Within_Inl_closure:
  "db_available c \<Longrightarrow> fault c ''begin transaction'' = None \<Longrightarrow> fault c ''rollback'' = None \<Longrightarrow>
   setAuditActor c x = Inr tx \<Longrightarrow> fn tx db = Inl e \<Longrightarrow> Within c x fn db = Inl e"
  by (simp add: Within_def)

section \<open>Optimistic locking\<close>

text \<open>
  The contract of a table whose rows are updated with \<open>WHERE ... version = ?\<close>: a write succeeds
  only against the version it names and moves that row, and no other, to the next version. A
  writer that read the row before another writer's update therefore fails.
\<close>

locale versioned_store =
  fixes get :: "'s \<Rightarrow> 'k \<Rightarrow> 'v option"
    and ver :: "'v \<Rightarrow> int"
    and put :: "'k \<Rightarrow> 'w \<Rightarrow> int \<Rightarrow> 's \<Rightarrow> 's option"
    and inv :: "'s \<Rightarrow> bool"
  assumes put_old: "inv s \<Longrightarrow> put k x n s = Some s' \<Longrightarrow> \<exists>v. get s k = Some v \<and> ver v = n"
    and put_new: "inv s \<Longrightarrow> put k x n s = Some s' \<Longrightarrow> \<exists>v. get s' k = Some v \<and> ver v = n + 1"
    and put_other: "inv s \<Longrightarrow> put k x n s = Some s' \<Longrightarrow> k' \<noteq> k \<Longrightarrow> get s' k' = get s k'"
    and put_inv: "inv s \<Longrightarrow> put k x n s = Some s' \<Longrightarrow> inv s'"
begin

text \<open>Two writers with the same expected version: the second one fails.\<close>

lemma no_lost_update:
  assumes "inv s" "put k x n s = Some s'"
  shows "put k y n s' = None"
proof (rule ccontr)
  assume "put k y n s' \<noteq> None"
  then obtain s'' where "put k y n s' = Some s''" by blast
  with assms have "\<exists>v. get s' k = Some v \<and> ver v = n" by (meson put_inv put_old)
  moreover have "\<exists>v. get s' k = Some v \<and> ver v = n + 1" using assms by (rule put_new)
  ultimately show False by auto
qed

fun writes :: "('k \<times> 'w \<times> int) list \<Rightarrow> 's \<Rightarrow> 's" where
  "writes [] s = s"
| "writes ((k, x, n) # ws) s = writes ws (case put k x n s of None \<Rightarrow> s | Some s' \<Rightarrow> s')"

text \<open>Whatever writers do, the version of a row never decreases.\<close>

lemma writes_mono:
  "inv s \<Longrightarrow> get s k = Some v \<Longrightarrow> inv (writes ws s) \<and> (\<exists>v'. get (writes ws s) k = Some v' \<and> ver v \<le> ver v')"
proof (induction ws s arbitrary: v rule: writes.induct)
  case (2 k' x n ws s)
  show ?case
  proof (cases "put k' x n s")
    case None with 2 show ?thesis by simp
  next
    case (Some s')
    have inv': "inv s'" using "2.prems"(1) Some by (rule put_inv)
    have "\<exists>v'. get s' k = Some v' \<and> ver v \<le> ver v'"
    proof (cases "k' = k")
      case True
      then show ?thesis
        using put_old[OF "2.prems"(1) Some] put_new[OF "2.prems"(1) Some] "2.prems"(2) by auto
    next
      case False
      then show ?thesis using put_other[OF "2.prems"(1) Some, of k] "2.prems"(2) by auto
    qed
    then obtain v' where v': "get s' k = Some v'" "ver v \<le> ver v'" by blast
    from "2.IH"[of v'] inv' v'(1) Some show ?thesis using v'(2) by fastforce
  qed
qed auto

text \<open>A writer holding an outdated version fails after any number of other writes.\<close>

lemma stale_write_fails:
  assumes "inv s" "put k x n s = Some s'"
  shows "put k y n (writes ws s') = None"
proof (rule ccontr)
  assume "put k y n (writes ws s') \<noteq> None"
  then obtain s'' where s'': "put k y n (writes ws s') = Some s''" by blast
  obtain v where v: "get s' k = Some v" "ver v = n + 1" using put_new[OF assms] by blast
  have w: "inv (writes ws s') \<and> (\<exists>v'. get (writes ws s') k = Some v' \<and> ver v \<le> ver v')"
    by (rule writes_mono[OF put_inv[OF assms] v(1)])
  then show False using put_old[OF _ s''] v(2) by auto
qed

end

end
