(* ===== verification/Repository.thy ===== *)
theory Repository
  imports Database
begin

text \<open>
  The SQL repository of \<open>internal/authorization/repository.go\<close>. Every method is one definition
  over the tables of theory Database, with the name of the Go method after the prefix
  \<open>repo_\<close>. A \<open>WHERE\<close> clause is the list of its conjuncts, built by the same steps as the Go
  slice \<open>where\<close>; a join is a nested comprehension over the live rows.
\<close>

section \<open>Error wrapping\<close>

definition wrap :: "gostring \<Rightarrow> 'a result \<Rightarrow> 'a result" where
  "wrap operation r = map_sum (Wrapf operation) id r"

definition mapNotFound :: "gostring \<Rightarrow> 'a result \<Rightarrow> 'a result" where
  "mapNotFound operation r =
     map_sum (\<lambda>e. if err_is SqlErrNoRows e then Sentinel ErrNotFound else Wrapf operation e) id r"

definition affected :: "conn \<Rightarrow> (nat \<times> 'd) result \<Rightarrow> gostring \<Rightarrow> 'd result" where
  "affected c r operation =
     (case r of
        Inl e \<Rightarrow> Inl (Wrapf operation e)
      | Inr (count, d) \<Rightarrow>
          (case fault c (operation @ '' affected rows'') of
             Some e \<Rightarrow> Inl (Wrapf (operation @ '' affected rows'') e)
           | None \<Rightarrow> if count = 0 then Inl (Sentinel ErrStaleVersion) else Inr d))"

text \<open>\<open>nullableID\<close> stores the empty string as \<open>NULL\<close>; \<open>COALESCE(..., '')\<close> reads it back.\<close>

definition nullableID :: "gostring \<Rightarrow> gostring option" where
  "nullableID value = (if value = [] then None else Some value)"

definition coalesce :: "gostring option \<Rightarrow> gostring" where
  "coalesce v = (case v of None \<Rightarrow> [] | Some s \<Rightarrow> s)"

definition tenantBootstrapID :: "(gostring \<Rightarrow> gostring) \<Rightarrow> gostring \<Rightarrow> gostring \<Rightarrow> gostring" where
  "tenantBootstrapID uuid_SHA1 kind tenantID =
     uuid_SHA1 (''authorization:tenant-bootstrap:'' @ kind @ '':'' @ tenantID)"

section \<open>Statements of the repository\<close>

text \<open>An \<open>UPDATE\<close> of an audited table: the number of rows changed and the new table.\<close>

definition exec_update :: "conn \<Rightarrow> gostring \<Rightarrow> ('a \<Rightarrow> bool) \<Rightarrow> ('a \<Rightarrow> 'a) \<Rightarrow> 'a table \<Rightarrow> (nat \<times> 'a table) result" where
  "exec_update c label P f t =
     (case fault c label of
        Some e \<Rightarrow> Inl e
      | None \<Rightarrow>
          if 0 < count_where P t \<and> app_actor c = []
          then Inl (OtherError ''app.actor_id must be set for audited writes'')
          else Inr (count_where P t, update_where P f t))"

text \<open>An \<open>INSERT\<close> of an audited table with its unique and foreign-key checks.\<close>

definition exec_insert :: "conn \<Rightarrow> gostring \<Rightarrow> bool \<Rightarrow> bool \<Rightarrow> 'd \<Rightarrow> 'd result" where
  "exec_insert c label unique_ok references_ok d =
     (case audited_fault c label of
        Some e \<Rightarrow> Inl e
      | None \<Rightarrow> if \<not> unique_ok then Inl (unique_violation c)
          else if \<not> references_ok then Inl (foreign_key_violation c) else Inr d)"

text \<open>\<open>INSERT ... ON CONFLICT DO NOTHING\<close>, and MySQL's \<open>INSERT IGNORE\<close>, which also turns a
  foreign-key violation into a skipped row.\<close>

definition exec_insert_ignore :: "conn \<Rightarrow> gostring \<Rightarrow> bool \<Rightarrow> bool \<Rightarrow> 'd \<Rightarrow> 'd \<Rightarrow> 'd result" where
  "exec_insert_ignore c label unique_ok references_ok unchanged inserted =
     (case audited_fault c label of
        Some e \<Rightarrow> Inl e
      | None \<Rightarrow> if \<not> unique_ok then Inr unchanged
          else if \<not> references_ok then (if is_mysql c then Inr unchanged else Inl (foreign_key_violation c))
          else Inr inserted)"

text \<open>SQL \<open>LIKE\<close> with the default escape character.\<close>

fun sql_like :: "gostring \<Rightarrow> gostring \<Rightarrow> bool" where
  "sql_like [] s = (s = [])"
| "sql_like (c # p) s =
     (if c = CHR ''%'' then sql_like p s \<or> (case s of [] \<Rightarrow> False | _ # t \<Rightarrow> sql_like (c # p) t)
      else if c = CHR ''_'' then (case s of [] \<Rightarrow> False | _ # t \<Rightarrow> sql_like p t)
      else if c = CHR 0x5C
           then (case p of
                   [] \<Rightarrow> False
                 | d # q \<Rightarrow> (case s of [] \<Rightarrow> False | x # t \<Rightarrow> x = d \<and> sql_like q t))
      else (case s of [] \<Rightarrow> False | x # t \<Rightarrow> x = c \<and> sql_like p t))"

declare sql_like.simps [simp del]

type_synonym 'a clauses = "('a \<Rightarrow> bool) list"

definition appendSetFilters :: "'a clauses \<Rightarrow> (('a \<Rightarrow> gostring) \<times> gostring list) list \<Rightarrow> 'a clauses" where
  "appendSetFilters wh filters =
     wh @ concat (map (\<lambda>(column, values). if values = [] then [] else [\<lambda>r. column r \<in> set values]) filters)"

definition appendTimeRange :: "'a clauses \<Rightarrow> ('a \<Rightarrow> time) \<Rightarrow> time option \<Rightarrow> time option \<Rightarrow> 'a clauses" where
  "appendTimeRange wh created from until =
     wh @ (case from of None \<Rightarrow> [] | Some t \<Rightarrow> [\<lambda>r. t \<le> created r])
        @ (case until of None \<Rightarrow> [] | Some t \<Rightarrow> [\<lambda>r. created r < t])"

definition satisfies :: "'a clauses \<Rightarrow> 'a \<Rightarrow> bool" where
  "satisfies wh r = list_all (\<lambda>q. q r) wh"

text \<open>\<open>listPage\<close>: the count, then one page of the ordered rows. The server rejects a negative
  \<open>OFFSET\<close> or \<open>LIMIT\<close>.\<close>

definition listPage :: "conn \<Rightarrow> gostring \<Rightarrow> 'a list \<Rightarrow> 'a clauses \<Rightarrow> ('a list \<Rightarrow> 'a list) \<Rightarrow> int \<Rightarrow> int \<Rightarrow> ('a list \<times> int) result" where
  "listPage c tbl rows wh order limit offset =
     (case fault c (''build '' @ tbl @ '' count'') of
        Some e \<Rightarrow> Inl (Wrapf (''build '' @ tbl @ '' count'') e)
      | None \<Rightarrow> (case fault c (''count '' @ tbl) of
          Some e \<Rightarrow> Inl (Wrapf (''count '' @ tbl) e)
        | None \<Rightarrow> (case fault c (''build '' @ tbl @ '' list'') of
            Some e \<Rightarrow> Inl (Wrapf (''build '' @ tbl @ '' list'') e)
          | None \<Rightarrow>
              (let matching = filter (satisfies wh) rows in
               case (if limit < 0 then Some (PgError ''2201W'' ''LIMIT must not be negative'')
                     else if offset < 0 then Some (PgError ''2201X'' ''OFFSET must not be negative'')
                     else fault c (''list '' @ tbl)) of
                 Some e \<Rightarrow> Inl (Wrapf (''list '' @ tbl) e)
               | None \<Rightarrow> Inr (take (nat limit) (drop (nat offset) (order matching)), int (length matching))))))"

definition by_code_id :: "conn \<Rightarrow> ('a \<Rightarrow> gostring) \<Rightarrow> ('a \<Rightarrow> gostring) \<Rightarrow> 'a list \<Rightarrow> 'a list" where
  "by_code_id c code ident rows = sort_key (\<lambda>r. (collation c (code r), collation c (ident r))) rows"

definition keyword_pattern :: "gostring \<Rightarrow> gostring" where
  "keyword_pattern keyword = ''%'' @ keyword @ ''%''"

definition lower_like :: "gostring \<Rightarrow> gostring \<Rightarrow> bool" where
  "lower_like pattern value = sql_like (ToLower pattern) (ToLower value)"

section \<open>Permissions\<close>

definition repo_CreatePermission :: "conn \<Rightarrow> Permission \<Rightarrow> database \<Rightarrow> database result" where
  "repo_CreatePermission c value db =
     wrap ''insert permission''
       (exec_insert c ''insert permission'' (permission_unique (permissions db) value) True
          (db\<lparr>permissions := insert_row (value\<lparr>p_Audit := audit_insert c\<rparr>) (permissions db)\<rparr>))"

definition repo_SearchPermissions ::
  "conn \<Rightarrow> database \<Rightarrow> gostring \<Rightarrow> PermissionFilter \<Rightarrow> int \<Rightarrow> int \<Rightarrow> (Permission list \<times> int) result" where
  "repo_SearchPermissions c db tenantID f limit offset =
     (let where0 = [\<lambda>p. p_TenantID p = tenantID];
          pattern = keyword_pattern (pf_Keyword f);
          where1 = (if pf_Keyword f \<noteq> []
                    then where0 @ [\<lambda>p. lower_like pattern (p_Code p) \<or> lower_like pattern (p_Name p)
                                      \<or> lower_like pattern (p_ResourceType p) \<or> lower_like pattern (p_Action p)]
                    else where0);
          where2 = appendSetFilters where1 [(p_ID, pf_IDs f), (p_Status, pf_Statuses f),
                     (p_ResourceType, pf_ResourceTypes f), (p_Action, pf_Actions f)];
          where3 = appendTimeRange where2 (\<lambda>p. CreatedAt (p_Audit p)) (pf_CreatedFrom f) (pf_CreatedTo f)
      in listPage c ''permissions'' (live (permissions db)) where3 (by_code_id c p_Code p_ID) limit offset)"

definition empty_permission_filter :: PermissionFilter where
  "empty_permission_filter = \<lparr>pf_Keyword = [], pf_IDs = [], pf_Statuses = [], pf_ResourceTypes = [],
     pf_Actions = [], pf_CreatedFrom = None, pf_CreatedTo = None\<rparr>"

definition repo_ListPermissions :: "conn \<Rightarrow> database \<Rightarrow> gostring \<Rightarrow> int \<Rightarrow> int \<Rightarrow> (Permission list \<times> int) result" where
  "repo_ListPermissions c db tenantID limit offset =
     repo_SearchPermissions c db tenantID empty_permission_filter limit offset"

definition repo_ListPermissionCatalog ::
  "conn \<Rightarrow> database \<Rightarrow> gostring \<Rightarrow> gostring \<Rightarrow> int \<Rightarrow> int \<Rightarrow> (Permission list \<times> int) result" where
  "repo_ListPermissionCatalog c db tenantID search limit offset =
     (let pattern = keyword_pattern (ToLower (TrimSpace search));
          matching = filter (\<lambda>p. p_TenantID p = tenantID \<and> p_Status p = ''active'' \<and>
             (pattern = ''%%'' \<or> sql_like pattern (ToLower (p_Code p)) \<or> sql_like pattern (ToLower (p_Name p))
              \<or> sql_like pattern (ToLower (p_ResourceType p)) \<or> sql_like pattern (ToLower (p_Action p))))
             (live (permissions db))
      in case fault c ''count permission catalog'' of
           Some e \<Rightarrow> Inl (Wrapf ''count permission catalog'' e)
         | None \<Rightarrow>
             (case (if limit < 0 then Some (PgError ''2201W'' ''LIMIT must not be negative'')
                    else if offset < 0 then Some (PgError ''2201X'' ''OFFSET must not be negative'')
                    else fault c ''list permission catalog'') of
                Some e \<Rightarrow> Inl (Wrapf ''list permission catalog'' e)
              | None \<Rightarrow> Inr (take (nat limit) (drop (nat offset) (by_code_id c p_Code p_ID matching)),
                            int (length matching))))"

definition repo_GetPermission :: "conn \<Rightarrow> database \<Rightarrow> gostring \<Rightarrow> gostring \<Rightarrow> Permission result" where
  "repo_GetPermission c db tenantID ident =
     mapNotFound ''select permission''
       (GetContext c ''select permission'' (filter (\<lambda>p. p_TenantID p = tenantID \<and> p_ID p = ident) (live (permissions db))))"

definition repo_UpdatePermission :: "conn \<Rightarrow> Permission \<Rightarrow> database \<Rightarrow> database result" where
  "repo_UpdatePermission c value db =
     affected c
       (map_sum id (\<lambda>(n, t). (n, db\<lparr>permissions := t\<rparr>))
         (exec_update c ''update permission''
           (\<lambda>p. p_TenantID p = p_TenantID value \<and> p_ID p = p_ID value \<and> Version (p_Audit p) = Version (p_Audit value))
           (\<lambda>p. p\<lparr>p_Name := p_Name value, p_ConditionExpression := p_ConditionExpression value,
                  p_Status := p_Status value, p_Audit := audit_update c (p_Audit p)\<rparr>)
           (permissions db)))
       ''update permission''"

section \<open>Roles\<close>

definition repo_CreateRole :: "conn \<Rightarrow> Role \<Rightarrow> database \<Rightarrow> database result" where
  "repo_CreateRole c value db =
     wrap ''insert role''
       (exec_insert c ''insert role'' (role_unique (roles db) value) True
          (db\<lparr>roles := insert_row (value\<lparr>r_Audit := audit_insert c\<rparr>) (roles db)\<rparr>))"

definition repo_GetRole :: "conn \<Rightarrow> database \<Rightarrow> gostring \<Rightarrow> gostring \<Rightarrow> Role result" where
  "repo_GetRole c db tenantID ident =
     mapNotFound ''select role''
       (GetContext c ''select role'' (filter (\<lambda>r. r_TenantID r = tenantID \<and> r_ID r = ident) (live (roles db))))"

definition repo_UpdateRole :: "conn \<Rightarrow> Role \<Rightarrow> database \<Rightarrow> database result" where
  "repo_UpdateRole c value db =
     affected c
       (map_sum id (\<lambda>(n, t). (n, db\<lparr>roles := t\<rparr>))
         (exec_update c ''update role''
           (\<lambda>r. r_TenantID r = r_TenantID value \<and> r_ID r = r_ID value \<and> Version (r_Audit r) = Version (r_Audit value))
           (\<lambda>r. r\<lparr>r_Name := r_Name value, r_Description := r_Description value, r_DataScope := r_DataScope value,
                  r_Status := r_Status value, r_Audit := audit_update c (r_Audit r)\<rparr>)
           (roles db)))
       ''update role''"

definition repo_SearchRolesFiltered ::
  "conn \<Rightarrow> database \<Rightarrow> gostring \<Rightarrow> RoleFilter \<Rightarrow> int \<Rightarrow> int \<Rightarrow> (Role list \<times> int) result" where
  "repo_SearchRolesFiltered c db tenantID f limit offset =
     (let where0 = [\<lambda>r. r_TenantID r = tenantID];
          pattern = keyword_pattern (rf_Keyword f);
          where1 = (if rf_Keyword f \<noteq> []
                    then where0 @ [\<lambda>r. lower_like pattern (r_Code r) \<or> lower_like pattern (r_Name r)]
                    else where0);
          where2 = appendSetFilters where1 [(r_ID, rf_IDs f), (r_Status, rf_Statuses f), (r_DataScope, rf_DataScopes f)];
          where3 = appendTimeRange where2 (\<lambda>r. CreatedAt (r_Audit r)) (rf_CreatedFrom f) (rf_CreatedTo f)
      in listPage c ''roles'' (live (roles db)) where3 (by_code_id c r_Code r_ID) limit offset)"

definition empty_role_filter :: RoleFilter where
  "empty_role_filter = \<lparr>rf_Keyword = [], rf_IDs = [], rf_Statuses = [], rf_DataScopes = [],
     rf_CreatedFrom = None, rf_CreatedTo = None\<rparr>"

definition repo_ListRoles :: "conn \<Rightarrow> database \<Rightarrow> gostring \<Rightarrow> int \<Rightarrow> int \<Rightarrow> (Role list \<times> int) result" where
  "repo_ListRoles c db tenantID limit offset =
     (let matching = filter (\<lambda>r. r_TenantID r = tenantID) (live (roles db)) in
      case fault c ''count roles'' of
        Some e \<Rightarrow> Inl (Wrapf ''count roles'' e)
      | None \<Rightarrow>
          (case (if limit < 0 then Some (PgError ''2201W'' ''LIMIT must not be negative'')
                 else if offset < 0 then Some (PgError ''2201X'' ''OFFSET must not be negative'')
                 else fault c ''list roles'') of
             Some e \<Rightarrow> Inl (Wrapf ''list roles'' e)
           | None \<Rightarrow> Inr (take (nat limit) (drop (nat offset) (by_code_id c r_Code r_ID matching)),
                         int (length matching))))"

definition repo_SearchRoles ::
  "conn \<Rightarrow> database \<Rightarrow> gostring \<Rightarrow> gostring \<Rightarrow> gostring \<Rightarrow> int \<Rightarrow> int \<Rightarrow> (Role list \<times> int) result" where
  "repo_SearchRoles c db tenantID keyword status limit offset =
     (let statuses = (if status \<noteq> [] then [status] else []) in
      repo_SearchRolesFiltered c db tenantID
        (empty_role_filter\<lparr>rf_Keyword := keyword, rf_Statuses := statuses\<rparr>) limit offset)"

definition repo_BatchGetRoles :: "conn \<Rightarrow> database \<Rightarrow> gostring \<Rightarrow> gostring list \<Rightarrow> Role list result" where
  "repo_BatchGetRoles c db tenantID ids =
     (case fault c ''build batch role query'' of
        Some e \<Rightarrow> Inl (Wrapf ''build batch role query'' e)
      | None \<Rightarrow> wrap ''batch get roles''
          (SelectContext c ''batch get roles''
            (sort_key (\<lambda>r. collation c (r_ID r))
              (filter (\<lambda>r. r_TenantID r = tenantID \<and> r_ID r \<in> set ids) (live (roles db))))))"

section \<open>Role permissions\<close>

definition repo_CreateRolePermission :: "conn \<Rightarrow> RolePermission \<Rightarrow> database \<Rightarrow> database result" where
  "repo_CreateRolePermission c value db =
     wrap ''insert role permission''
       (exec_insert c ''insert role permission'' (role_permission_unique (role_permissions db) value)
          (role_exists db (rp_RoleID value) \<and> permission_exists db (rp_PermissionID value))
          (db\<lparr>role_permissions := insert_row (value\<lparr>rp_Audit := audit_insert c\<rparr>) (role_permissions db)\<rparr>))"

definition repo_GetRolePermission :: "conn \<Rightarrow> database \<Rightarrow> gostring \<Rightarrow> gostring \<Rightarrow> RolePermission result" where
  "repo_GetRolePermission c db tenantID ident =
     mapNotFound ''select role permission''
       (GetContext c ''select role permission''
         (filter (\<lambda>x. rp_TenantID x = tenantID \<and> rp_ID x = ident) (live (role_permissions db))))"

definition repo_GetRolePermissionByPair :: "conn \<Rightarrow> database \<Rightarrow> gostring \<Rightarrow> gostring \<Rightarrow> gostring \<Rightarrow> RolePermission result" where
  "repo_GetRolePermissionByPair c db tenantID roleID permissionID =
     mapNotFound ''select role permission by pair''
       (GetContext c ''select role permission by pair''
         (filter (\<lambda>x. rp_TenantID x = tenantID \<and> rp_RoleID x = roleID \<and> rp_PermissionID x = permissionID)
            (live (role_permissions db))))"

definition repo_UpdateRolePermission :: "conn \<Rightarrow> RolePermission \<Rightarrow> database \<Rightarrow> database result" where
  "repo_UpdateRolePermission c value db =
     affected c
       (map_sum id (\<lambda>(n, t). (n, db\<lparr>role_permissions := t\<rparr>))
         (exec_update c ''update role permission''
           (\<lambda>x. rp_TenantID x = rp_TenantID value \<and> rp_ID x = rp_ID value \<and> Version (rp_Audit x) = Version (rp_Audit value))
           (\<lambda>x. x\<lparr>rp_Status := rp_Status value, rp_Audit := audit_update c (rp_Audit x)\<rparr>)
           (role_permissions db)))
       ''update role permission''"

definition repo_ListRolePermissions :: "conn \<Rightarrow> database \<Rightarrow> gostring \<Rightarrow> gostring \<Rightarrow> RolePermission list result" where
  "repo_ListRolePermissions c db tenantID roleID =
     wrap ''list role permissions''
       (SelectContext c ''list role permissions''
         (sort_key (\<lambda>x. (CreatedAt (rp_Audit x), collation c (rp_ID x)))
           (filter (\<lambda>x. rp_TenantID x = tenantID \<and> rp_RoleID x = roleID) (live (role_permissions db)))))"

definition repo_BatchGetRolePermissions ::
  "conn \<Rightarrow> database \<Rightarrow> gostring \<Rightarrow> gostring \<Rightarrow> gostring list \<Rightarrow> RolePermission list result" where
  "repo_BatchGetRolePermissions c db tenantID roleID permissionIDs =
     (case fault c ''build batch role permission query'' of
        Some e \<Rightarrow> Inl (Wrapf ''build batch role permission query'' e)
      | None \<Rightarrow> wrap ''batch get role permissions''
          (SelectContext c ''batch get role permissions''
            (sort_key (\<lambda>x. collation c (rp_ID x))
              (filter (\<lambda>x. rp_TenantID x = tenantID \<and> rp_RoleID x = roleID \<and> rp_PermissionID x \<in> set permissionIDs)
                (live (role_permissions db))))))"

section \<open>Bindings\<close>

definition repo_CreateBinding :: "conn \<Rightarrow> Binding \<Rightarrow> database \<Rightarrow> database result" where
  "repo_CreateBinding c value db =
     wrap ''insert role binding''
       (exec_insert c ''insert role binding'' (binding_unique (role_bindings db) value) (role_exists db (b_RoleID value))
          (db\<lparr>role_bindings := insert_row
               (value\<lparr>b_OrganizationUnitID := coalesce (nullableID (b_OrganizationUnitID value)), b_Audit := audit_insert c\<rparr>)
               (role_bindings db)\<rparr>))"

definition repo_GetBinding :: "conn \<Rightarrow> database \<Rightarrow> gostring \<Rightarrow> gostring \<Rightarrow> Binding result" where
  "repo_GetBinding c db tenantID ident =
     mapNotFound ''select role binding''
       (GetContext c ''select role binding''
         (filter (\<lambda>b. b_TenantID b = tenantID \<and> b_ID b = ident) (live (role_bindings db))))"

definition repo_UpdateBinding :: "conn \<Rightarrow> Binding \<Rightarrow> database \<Rightarrow> database result" where
  "repo_UpdateBinding c value db =
     affected c
       (map_sum id (\<lambda>(n, t). (n, db\<lparr>role_bindings := t\<rparr>))
         (exec_update c ''update role binding''
           (\<lambda>b. b_TenantID b = b_TenantID value \<and> b_ID b = b_ID value \<and> Version (b_Audit b) = Version (b_Audit value))
           (\<lambda>b. b\<lparr>b_Status := b_Status value, b_Audit := audit_update c (b_Audit b)\<rparr>)
           (role_bindings db)))
       ''update role binding''"

definition repo_SearchBindings ::
  "conn \<Rightarrow> database \<Rightarrow> gostring \<Rightarrow> BindingFilter \<Rightarrow> int \<Rightarrow> int \<Rightarrow> (Binding list \<times> int) result" where
  "repo_SearchBindings c db tenantID f limit offset =
     (let where0 = [\<lambda>b. b_TenantID b = tenantID];
          where1 = (if bf_SubjectID f \<noteq> []
                    then where0 @ [\<lambda>b. b_SubjectID b = bf_SubjectID f, \<lambda>b. b_SubjectType b = bf_SubjectType f]
                    else where0);
          where2 = appendSetFilters where1 [(b_ID, bf_IDs f), (b_RoleID, bf_RoleIDs f), (b_Status, bf_Statuses f),
                     (b_OrganizationUnitID, bf_OrganizationUnitIDs f)];
          where3 = appendTimeRange where2 (\<lambda>b. CreatedAt (b_Audit b)) (bf_CreatedFrom f) (bf_CreatedTo f)
      in listPage c ''role_bindings'' (live (role_bindings db)) where3
           (\<lambda>rows. rev (sort_key (\<lambda>b. (CreatedAt (b_Audit b), collation c (b_ID b))) rows)) limit offset)"

definition empty_binding_filter :: BindingFilter where
  "empty_binding_filter = \<lparr>bf_SubjectID = [], bf_SubjectType = [], bf_IDs = [], bf_RoleIDs = [],
     bf_Statuses = [], bf_OrganizationUnitIDs = [], bf_CreatedFrom = None, bf_CreatedTo = None\<rparr>"

definition repo_ListBindings ::
  "conn \<Rightarrow> database \<Rightarrow> gostring \<Rightarrow> gostring \<Rightarrow> gostring \<Rightarrow> int \<Rightarrow> int \<Rightarrow> (Binding list \<times> int) result" where
  "repo_ListBindings c db tenantID subjectID subjectType limit offset =
     repo_SearchBindings c db tenantID
       (empty_binding_filter\<lparr>bf_SubjectID := subjectID, bf_SubjectType := subjectType\<rparr>) limit offset"

section \<open>Policy versions and the outbox\<close>

definition repo_PolicyVersion :: "conn \<Rightarrow> database \<Rightarrow> gostring \<Rightarrow> nat result" where
  "repo_PolicyVersion c db tenantID =
     (case GetContext c ''select policy version'' (filter (\<lambda>v. pv_TenantID v = tenantID) (live (policy_versions db))) of
        Inr v \<Rightarrow> Inr (pv_PolicyVersion v)
      | Inl e \<Rightarrow> if err_is SqlErrNoRows e then Inr 0 else Inl (Wrapf ''select policy version'' e))"

definition bumped_row :: "conn \<Rightarrow> PolicyVersionRow \<Rightarrow> PolicyVersionRow" where
  "bumped_row c v = v\<lparr>pv_PolicyVersion := pv_PolicyVersion v + 1, pv_Audit := audit_update c (pv_Audit v)\<rparr>"

text \<open>The upsert of \<open>authorization_policy_versions\<close>, whose primary key is the tenant; both
  dialects have this effect. The version is a natural number; its column is a \<open>BIGINT\<close>, so a tenant
  is taken to see fewer than \<open>2 ^ 63\<close> mutations.\<close>

definition upsert_policy_version :: "conn \<Rightarrow> gostring \<Rightarrow> PolicyVersionRow table \<Rightarrow> PolicyVersionRow table" where
  "upsert_policy_version c tenantID t =
     (if list_ex (\<lambda>r. pv_TenantID (row_val r) = tenantID) t
      then map (\<lambda>r. if pv_TenantID (row_val r) = tenantID then Row (bumped_row c (row_val r)) (row_deleted_at r) else r) t
      else insert_row \<lparr>pv_TenantID = tenantID, pv_PolicyVersion = 1, pv_Audit = audit_insert c\<rparr> t)"

definition repo_BumpPolicyVersion :: "conn \<Rightarrow> gostring \<Rightarrow> database \<Rightarrow> (nat \<times> database) result" where
  "repo_BumpPolicyVersion c tenantID db =
     (case audited_fault c ''bump policy version'' of
        Some e \<Rightarrow> Inl (Wrapf ''bump policy version'' e)
      | None \<Rightarrow>
          (let t = upsert_policy_version c tenantID (policy_versions db) in
           case GetContext c ''select bumped policy version'' (filter (\<lambda>v. pv_TenantID v = tenantID) (map row_val t)) of
             Inl e \<Rightarrow> Inl (Wrapf ''select bumped policy version'' e)
           | Inr v \<Rightarrow> Inr (pv_PolicyVersion v, db\<lparr>policy_versions := t\<rparr>)))"

definition repo_AddOutbox :: "conn \<Rightarrow> OutboxEvent \<Rightarrow> database \<Rightarrow> database result" where
  "repo_AddOutbox c event db =
     wrap ''insert authorization outbox''
       (case fault c ''insert authorization outbox'' of
          Some e \<Rightarrow> Inl e
        | None \<Rightarrow>
            if list_ex (\<lambda>o'. oe_ID o' = oe_ID event \<and> CreatedAt (oe_Audit o') = CreatedAt (oe_Audit event)) (outbox_events db)
            then Inl (unique_violation c)
            else Inr (db\<lparr>outbox_events := outbox_events db @ [event]\<rparr>))"

section \<open>Resolving grants\<close>

record resolvedGrant =
  g_DataScope :: gostring
  g_OrganizationUnitID :: gostring
  g_ConditionExpression :: gostring

record resolvedPermissionCodeGrant =
  cg_Code :: gostring
  cg_ResourceType :: gostring
  cg_Action :: gostring
  cg_ConditionExpression :: gostring

text \<open>The subject condition of both queries: a binding of the subject itself or, for a
  membership, a binding of a group the membership is an active member of.\<close>

definition binding_of_subject :: "database \<Rightarrow> gostring \<Rightarrow> gostring \<Rightarrow> gostring \<Rightarrow> Binding \<Rightarrow> bool" where
  "binding_of_subject db tenantID subjectID subjectType rb =
     (b_TenantID rb = tenantID \<and>
      ((b_SubjectID rb = subjectID \<and> b_SubjectType rb = subjectType) \<or>
       (subjectType = ''membership'' \<and> b_SubjectType rb = ''group'' \<and>
        list_ex (\<lambda>sg. sg_TenantID sg = b_TenantID rb \<and> sg_MembershipID sg = subjectID
                    \<and> sg_GroupID sg = b_SubjectID rb \<and> sg_Status sg = ''active'')
          (live (subject_groups db)))))"

text \<open>The joined rows of both queries, in the order of the tables; the statements have no \<open>ORDER BY\<close>,
  so a database may return them in another order, which matters only for the order in which the
  organization units of a decision are listed and for which failing condition is reported. Texts are compared exactly, as PostgreSQL does;
  the collation of the MySQL schema also takes texts as equal that differ only in letter case.\<close>

definition granted :: "database \<Rightarrow> gostring \<Rightarrow> gostring \<Rightarrow> gostring \<Rightarrow> (Binding \<times> Role \<times> RolePermission \<times> Permission) list" where
  "granted db tenantID subjectID subjectType =
     [(rb, r, rp, p).
        rb \<leftarrow> live (role_bindings db), binding_of_subject db tenantID subjectID subjectType rb, b_Status rb = ''active'',
        r \<leftarrow> live (roles db), r_ID r = b_RoleID rb, r_Status r = ''active'',
        rp \<leftarrow> live (role_permissions db), rp_RoleID rp = r_ID r, rp_Status rp = ''active'',
        p \<leftarrow> live (permissions db), p_ID p = rp_PermissionID rp, p_Status p = ''active'']"

definition repo_Resolve ::
  "conn \<Rightarrow> database \<Rightarrow> gostring \<Rightarrow> gostring \<Rightarrow> gostring \<Rightarrow> gostring \<Rightarrow> gostring \<Rightarrow> (resolvedGrant list \<times> nat) result" where
  "repo_Resolve c db tenantID subjectID subjectType resourceType action =
     (case SelectContext c ''resolve authorization grants''
             [\<lparr>g_DataScope = r_DataScope r, g_OrganizationUnitID = b_OrganizationUnitID rb,
               g_ConditionExpression = p_ConditionExpression p\<rparr>.
               (rb, r, rp, p) \<leftarrow> granted db tenantID subjectID subjectType,
               (p_ResourceType p = resourceType \<or> p_ResourceType p = ''*'') \<and> (p_Action p = action \<or> p_Action p = ''*'')] of
        Inl e \<Rightarrow> Inl (Wrapf ''resolve authorization grants'' e)
      | Inr grants \<Rightarrow> (case repo_PolicyVersion c db tenantID of
            Inl e \<Rightarrow> Inl e
          | Inr version \<Rightarrow> Inr (grants, version)))"

definition repo_ResolvePermissionCodes ::
  "conn \<Rightarrow> database \<Rightarrow> gostring \<Rightarrow> gostring \<Rightarrow> gostring \<Rightarrow> gostring list \<Rightarrow> (resolvedPermissionCodeGrant list \<times> nat) result" where
  "repo_ResolvePermissionCodes c db tenantID subjectID subjectType codes =
     (case fault c ''build permission code query'' of
        Some e \<Rightarrow> Inl (Wrapf ''build permission code query'' e)
      | None \<Rightarrow>
         (case SelectContext c ''resolve permission code grants''
             (remdups [\<lparr>cg_Code = p_Code p, cg_ResourceType = p_ResourceType p, cg_Action = p_Action p,
               cg_ConditionExpression = p_ConditionExpression p\<rparr>.
               (rb, r, rp, p) \<leftarrow> granted db tenantID subjectID subjectType,
               p_Code p \<in> set codes \<or> (p_ResourceType p = ''*'' \<and> p_Action p = ''*'')]) of
            Inl e \<Rightarrow> Inl (Wrapf ''resolve permission code grants'' e)
          | Inr grants \<Rightarrow> (case repo_PolicyVersion c db tenantID of
              Inl e \<Rightarrow> Inl e
            | Inr version \<Rightarrow> Inr (grants, version))))"

section \<open>Bootstrapping a tenant's owner\<close>

definition owner_permission :: "conn \<Rightarrow> gostring \<Rightarrow> gostring \<Rightarrow> Permission" where
  "owner_permission c ident tenantID = \<lparr>p_ID = ident, p_TenantID = tenantID, p_Code = ''tenant.owner-admin'',
     p_Name = ''Tenant owner administrator'', p_ResourceType = ''*'', p_Action = ''*'', p_ConditionExpression = [],
     p_Status = ''active'', p_Audit = audit_insert c\<rparr>"

definition owner_role :: "conn \<Rightarrow> gostring \<Rightarrow> gostring \<Rightarrow> Role" where
  "owner_role c ident tenantID = \<lparr>r_ID = ident, r_TenantID = tenantID, r_Code = ''tenant-owner-admin'',
     r_Name = ''Tenant owner administrator'', r_Description = ''Full access for the tenant owner'',
     r_DataScope = ''all'', r_Status = ''active'', r_Audit = audit_insert c\<rparr>"

definition owner_role_permission :: "conn \<Rightarrow> gostring \<Rightarrow> gostring \<Rightarrow> gostring \<Rightarrow> gostring \<Rightarrow> RolePermission" where
  "owner_role_permission c ident tenantID roleID permissionID = \<lparr>rp_ID = ident, rp_TenantID = tenantID,
     rp_RoleID = roleID, rp_PermissionID = permissionID, rp_Status = ''active'', rp_Audit = audit_insert c\<rparr>"

definition owner_binding :: "conn \<Rightarrow> gostring \<Rightarrow> gostring \<Rightarrow> gostring \<Rightarrow> gostring \<Rightarrow> Binding" where
  "owner_binding c ident tenantID membershipID roleID = \<lparr>b_ID = ident, b_TenantID = tenantID,
     b_SubjectID = membershipID, b_SubjectType = ''membership'', b_RoleID = roleID, b_OrganizationUnitID = [],
     b_Status = ''active'', b_Audit = audit_insert c\<rparr>"

definition repo_BootstrapTenantOwner ::
  "(gostring \<Rightarrow> gostring) \<Rightarrow> conn \<Rightarrow> gostring \<Rightarrow> gostring \<Rightarrow> database \<Rightarrow> database result" where
  "repo_BootstrapTenantOwner sha1 c tenantID membershipID db0 =
     (let permissionID = tenantBootstrapID sha1 ''permission'' tenantID;
          roleID = tenantBootstrapID sha1 ''role'' tenantID;
          rolePermissionID = tenantBootstrapID sha1 ''role-permission'' tenantID;
          bindingID = tenantBootstrapID sha1 (''binding:'' @ membershipID) tenantID;
          p = owner_permission c permissionID tenantID;
          r = owner_role c roleID tenantID;
          rp = owner_role_permission c rolePermissionID tenantID roleID permissionID;
          b = owner_binding c bindingID tenantID membershipID roleID in
      case exec_insert_ignore c ''bootstrap permission'' (permission_unique (permissions db0) p) True
             db0 (db0\<lparr>permissions := insert_row p (permissions db0)\<rparr>) of
        Inl e \<Rightarrow> Inl (Wrapf ''bootstrap tenant owner permission'' e)
      | Inr db1 \<Rightarrow>
      (case exec_insert_ignore c ''bootstrap role'' (role_unique (roles db1) r) True
             db1 (db1\<lparr>roles := insert_row r (roles db1)\<rparr>) of
        Inl e \<Rightarrow> Inl (Wrapf ''bootstrap tenant owner role'' e)
      | Inr db2 \<Rightarrow>
      (case exec_insert_ignore c ''bootstrap role permission'' (role_permission_unique (role_permissions db2) rp)
             (role_exists db2 roleID \<and> permission_exists db2 permissionID)
             db2 (db2\<lparr>role_permissions := insert_row rp (role_permissions db2)\<rparr>) of
        Inl e \<Rightarrow> Inl (Wrapf ''bootstrap tenant owner role permission'' e)
      | Inr db3 \<Rightarrow>
      (case exec_insert_ignore c ''bootstrap owner binding'' (binding_unique (role_bindings db3) b) (role_exists db3 roleID)
             db3 (db3\<lparr>role_bindings := insert_row b (role_bindings db3)\<rparr>) of
        Inl e \<Rightarrow> Inl (Wrapf ''bootstrap tenant owner owner binding'' e)
      | Inr db4 \<Rightarrow> Inr db4))))"

end
