(* ===== verification/Repository_Laws.thy ===== *)
theory Repository_Laws
  imports Repository
begin

text \<open>
  What the repository promises to its clients: optimistic locking of the four audited entity
  tables (the contract \<open>versioned_store\<close>, interpreted on the table updates), the tenant
  well-formedness of the tables and its preservation, isolation of the resolved grants, the
  behaviour of paging and of the policy-version counter.
\<close>

section \<open>Audited tables are versioned stores\<close>

locale audited_table =
  fixes key :: "'a \<Rightarrow> 'k"
    and ver :: "'a \<Rightarrow> int"
    and upd :: "'w \<Rightarrow> 'a \<Rightarrow> 'a"
  assumes upd_key: "key (upd w v) = key v"
    and upd_ver: "ver (upd w v) = ver v + 1"
begin

definition tget :: "'a table \<Rightarrow> 'k \<Rightarrow> 'a option" where
  "tget t k = find (\<lambda>v. key v = k) (live t)"

definition tput :: "'k \<Rightarrow> 'w \<Rightarrow> int \<Rightarrow> 'a table \<Rightarrow> 'a table option" where
  "tput k w n t =
     (if count_where (\<lambda>v. key v = k \<and> ver v = n) t = 0 then None
      else Some (update_where (\<lambda>v. key v = k \<and> ver v = n) (upd w) t))"

definition tinv :: "'a table \<Rightarrow> bool" where
  "tinv t = distinct (map key (live t))"

lemma find_updated:
  "distinct (map key xs) \<Longrightarrow> filter (\<lambda>v. key v = k \<and> ver v = n) xs \<noteq> [] \<Longrightarrow>
   \<exists>v. find (\<lambda>v. key v = k) xs = Some v \<and> ver v = n \<and>
       find (\<lambda>v. key v = k) (map (\<lambda>v. if key v = k \<and> ver v = n then upd w v else v) xs) = Some (upd w v)"
proof (induction xs)
  case (Cons x xs)
  show ?case
  proof (cases "key x = k")
    case True
    have "\<forall>v\<in>set xs. key v \<noteq> k"
      using Cons.prems(1) True by (auto simp: image_iff)
    then have "filter (\<lambda>v. key v = k \<and> ver v = n) xs = []"
      by (simp add: filter_empty_conv)
    then have "ver x = n" using Cons.prems(2) by (auto split: if_splits)
    with True show ?thesis by (simp add: upd_key)
  next
    case False
    with Cons show ?thesis by auto
  qed
qed simp

lemma find_other:
  "k' \<noteq> k \<Longrightarrow> find (\<lambda>v. key v = k') (map (\<lambda>v. if key v = k \<and> ver v = n then upd w v else v) xs)
     = find (\<lambda>v. key v = k') xs"
  by (induction xs) (auto simp: upd_key)

lemma map_key_updated:
  "map key (map (\<lambda>v. if key v = k \<and> ver v = n then upd w v else v) xs) = map key xs"
  by (induction xs) (auto simp: upd_key)

end

sublocale audited_table \<subseteq> versioned_store tget ver tput tinv
proof
  fix s s' k x n
  assume inv: "tinv s" and put: "tput k x n s = Some s'"
  from put have ne: "filter (\<lambda>v. key v = k \<and> ver v = n) (live s) \<noteq> []"
    and s': "s' = update_where (\<lambda>v. key v = k \<and> ver v = n) (upd x) s"
    by (auto simp: tput_def count_where_def split: if_splits)
  note found = find_updated[OF inv[unfolded tinv_def] ne, of x]
  from found show "\<exists>v. tget s k = Some v \<and> ver v = n" by (auto simp: tget_def)
  from found show "\<exists>v. tget s' k = Some v \<and> ver v = n + 1" by (auto simp: tget_def s' upd_ver)
  show "tinv s'" using inv by (simp only: tinv_def s' live_update_where map_key_updated)
  show "tget s' k' = tget s k'" if "k' \<noteq> k" for k'
    unfolding tget_def s' live_update_where by (rule find_other) (rule that)
qed

interpretation perm: audited_table "\<lambda>p. (p_TenantID p, p_ID p)" "\<lambda>p. Version (p_Audit p)"
  "\<lambda>(c, value) p. p\<lparr>p_Name := p_Name value, p_ConditionExpression := p_ConditionExpression value,
     p_Status := p_Status value, p_Audit := audit_update c (p_Audit p)\<rparr>"
  by unfold_locales auto

interpretation role: audited_table "\<lambda>r. (r_TenantID r, r_ID r)" "\<lambda>r. Version (r_Audit r)"
  "\<lambda>(c, value) r. r\<lparr>r_Name := r_Name value, r_Description := r_Description value, r_DataScope := r_DataScope value,
     r_Status := r_Status value, r_Audit := audit_update c (r_Audit r)\<rparr>"
  by unfold_locales auto

interpretation role_perm: audited_table "\<lambda>x. (rp_TenantID x, rp_ID x)" "\<lambda>x. Version (rp_Audit x)"
  "\<lambda>(c, value) x. x\<lparr>rp_Status := rp_Status value, rp_Audit := audit_update c (rp_Audit x)\<rparr>"
  by unfold_locales auto

interpretation binding: audited_table "\<lambda>b. (b_TenantID b, b_ID b)" "\<lambda>b. Version (b_Audit b)"
  "\<lambda>(c, value) b. b\<lparr>b_Status := b_Status value, b_Audit := audit_update c (b_Audit b)\<rparr>"
  by unfold_locales auto

section \<open>The update statements are conditional writes\<close>

lemma affected_exec_update:
  "affected c (map_sum id (\<lambda>(n, t). (n, F t)) (exec_update c l P f t)) op = Inr d \<longleftrightarrow>
     fault c l = None \<and> fault c (op @ '' affected rows'') = None \<and> app_actor c \<noteq> [] \<and>
     count_where P t \<noteq> 0 \<and> d = F (update_where P f t)"
  by (auto simp: affected_def exec_update_def split: option.splits if_splits)

lemma affected_stale:
  "fault c l = None \<Longrightarrow> fault c (op @ '' affected rows'') = None \<Longrightarrow> count_where P t = 0 \<Longrightarrow>
   affected c (map_sum id (\<lambda>(n, t). (n, F t)) (exec_update c l P f t)) op = Inl (Sentinel ErrStaleVersion)"
  by (simp add: affected_def exec_update_def)

text \<open>A statement label at which a connection does not fail.\<close>

definition healthy :: "conn \<Rightarrow> bool" where
  "healthy c = (db_available c \<and> (\<forall>l. fault c l = None) \<and> app_actor c \<noteq> [])"

lemma repo_UpdatePermission_Inr:
  assumes "repo_UpdatePermission c value db = Inr db'"
  shows "\<exists>t. perm.tput (p_TenantID value, p_ID value) (c, value) (Version (p_Audit value)) (permissions db) = Some t
             \<and> db' = db\<lparr>permissions := t\<rparr>"
proof -
  from assms have "count_where (\<lambda>p. p_TenantID p = p_TenantID value \<and> p_ID p = p_ID value \<and>
      Version (p_Audit p) = Version (p_Audit value)) (permissions db) \<noteq> 0" and
    "db' = db\<lparr>permissions := update_where (\<lambda>p. p_TenantID p = p_TenantID value \<and> p_ID p = p_ID value \<and>
      Version (p_Audit p) = Version (p_Audit value))
      (\<lambda>p. p\<lparr>p_Name := p_Name value, p_ConditionExpression := p_ConditionExpression value,
         p_Status := p_Status value, p_Audit := audit_update c (p_Audit p)\<rparr>) (permissions db)\<rparr>"
    by (simp_all add: repo_UpdatePermission_def affected_exec_update)
  then show ?thesis by (simp add: perm.tput_def)
qed

lemma repo_UpdateRole_Inr:
  assumes "repo_UpdateRole c value db = Inr db'"
  shows "\<exists>t. role.tput (r_TenantID value, r_ID value) (c, value) (Version (r_Audit value)) (roles db) = Some t
             \<and> db' = db\<lparr>roles := t\<rparr>"
  using assms by (simp add: repo_UpdateRole_def affected_exec_update role.tput_def conj_assoc)

lemma repo_UpdateRolePermission_Inr:
  assumes "repo_UpdateRolePermission c value db = Inr db'"
  shows "\<exists>t. role_perm.tput (rp_TenantID value, rp_ID value) (c, value) (Version (rp_Audit value)) (role_permissions db) = Some t
             \<and> db' = db\<lparr>role_permissions := t\<rparr>"
  using assms by (simp add: repo_UpdateRolePermission_def affected_exec_update role_perm.tput_def conj_assoc)

lemma repo_UpdateBinding_Inr:
  assumes "repo_UpdateBinding c value db = Inr db'"
  shows "\<exists>t. binding.tput (b_TenantID value, b_ID value) (c, value) (Version (b_Audit value)) (role_bindings db) = Some t
             \<and> db' = db\<lparr>role_bindings := t\<rparr>"
  using assms by (simp add: repo_UpdateBinding_def affected_exec_update binding.tput_def conj_assoc)

section \<open>Well-formed tables\<close>

text \<open>The keys that references are made of.\<close>

definition perm_keys :: "database \<Rightarrow> (gostring \<times> gostring) list" where
  "perm_keys db = map ((\<lambda>p. (p_ID p, p_TenantID p)) \<circ> row_val) (permissions db)"

definition role_keys :: "database \<Rightarrow> (gostring \<times> gostring) list" where
  "role_keys db = map ((\<lambda>r. (r_ID r, r_TenantID r)) \<circ> row_val) (roles db)"

definition rp_keys :: "database \<Rightarrow> (gostring \<times> gostring \<times> gostring \<times> gostring) list" where
  "rp_keys db = map ((\<lambda>x. (rp_ID x, rp_TenantID x, rp_RoleID x, rp_PermissionID x)) \<circ> row_val) (role_permissions db)"

definition binding_keys :: "database \<Rightarrow> (gostring \<times> gostring \<times> gostring \<times> gostring) list" where
  "binding_keys db = map ((\<lambda>b. (b_ID b, b_TenantID b, b_RoleID b, b_SubjectType b)) \<circ> row_val) (role_bindings db)"

text \<open>Primary keys are unique, and every role permission and every binding refers to a role (and
  a permission) that exists and belongs to the same tenant.\<close>

definition keys_wf ::
  "(gostring \<times> gostring) list \<Rightarrow> (gostring \<times> gostring) list \<Rightarrow> (gostring \<times> gostring \<times> gostring \<times> gostring) list
   \<Rightarrow> (gostring \<times> gostring \<times> gostring \<times> gostring) list \<Rightarrow> bool" where
  "keys_wf P R X B =
     (distinct (map fst P) \<and> distinct (map fst R) \<and> distinct (map fst X) \<and> distinct (map fst B) \<and>
      (\<forall>x\<in>set X. case x of (i, t, ri, pi) \<Rightarrow> (ri, t) \<in> set R \<and> (pi, t) \<in> set P) \<and>
      (\<forall>b\<in>set B. case b of (i, t, ri, st) \<Rightarrow> (ri, t) \<in> set R))"

definition db_wf :: "database \<Rightarrow> bool" where
  "db_wf db = keys_wf (perm_keys db) (role_keys db) (rp_keys db) (binding_keys db)"

lemmas key_defs = perm_keys_def role_keys_def rp_keys_def binding_keys_def

lemma db_wf_cong:
  "perm_keys db' = perm_keys db \<Longrightarrow> role_keys db' = role_keys db \<Longrightarrow> rp_keys db' = rp_keys db \<Longrightarrow>
   binding_keys db' = binding_keys db \<Longrightarrow> db_wf db' = db_wf db"
  by (simp add: db_wf_def)

lemma keys_frame [simp]:
  "perm_keys (db\<lparr>roles := x1\<rparr>) = perm_keys db" "perm_keys (db\<lparr>role_permissions := x2\<rparr>) = perm_keys db"
  "perm_keys (db\<lparr>role_bindings := x3\<rparr>) = perm_keys db" "perm_keys (db\<lparr>policy_versions := x4\<rparr>) = perm_keys db"
  "perm_keys (db\<lparr>outbox_events := x5\<rparr>) = perm_keys db" "perm_keys (db\<lparr>subject_groups := x6\<rparr>) = perm_keys db"
  "perm_keys (db\<lparr>processed_events := x7\<rparr>) = perm_keys db"
  "role_keys (db\<lparr>permissions := x0\<rparr>) = role_keys db" "role_keys (db\<lparr>role_permissions := x2\<rparr>) = role_keys db"
  "role_keys (db\<lparr>role_bindings := x3\<rparr>) = role_keys db" "role_keys (db\<lparr>policy_versions := x4\<rparr>) = role_keys db"
  "role_keys (db\<lparr>outbox_events := x5\<rparr>) = role_keys db" "role_keys (db\<lparr>subject_groups := x6\<rparr>) = role_keys db"
  "role_keys (db\<lparr>processed_events := x7\<rparr>) = role_keys db"
  "rp_keys (db\<lparr>permissions := x0\<rparr>) = rp_keys db" "rp_keys (db\<lparr>roles := x1\<rparr>) = rp_keys db"
  "rp_keys (db\<lparr>role_bindings := x3\<rparr>) = rp_keys db" "rp_keys (db\<lparr>policy_versions := x4\<rparr>) = rp_keys db"
  "rp_keys (db\<lparr>outbox_events := x5\<rparr>) = rp_keys db" "rp_keys (db\<lparr>subject_groups := x6\<rparr>) = rp_keys db"
  "rp_keys (db\<lparr>processed_events := x7\<rparr>) = rp_keys db"
  "binding_keys (db\<lparr>permissions := x0\<rparr>) = binding_keys db" "binding_keys (db\<lparr>roles := x1\<rparr>) = binding_keys db"
  "binding_keys (db\<lparr>role_permissions := x2\<rparr>) = binding_keys db" "binding_keys (db\<lparr>policy_versions := x4\<rparr>) = binding_keys db"
  "binding_keys (db\<lparr>outbox_events := x5\<rparr>) = binding_keys db" "binding_keys (db\<lparr>subject_groups := x6\<rparr>) = binding_keys db"
  "binding_keys (db\<lparr>processed_events := x7\<rparr>) = binding_keys db"
  by (simp_all add: key_defs)

lemma keys_insert [simp]:
  "perm_keys (db\<lparr>permissions := insert_row p (permissions db)\<rparr>) = perm_keys db @ [(p_ID p, p_TenantID p)]"
  "role_keys (db\<lparr>roles := insert_row r (roles db)\<rparr>) = role_keys db @ [(r_ID r, r_TenantID r)]"
  "rp_keys (db\<lparr>role_permissions := insert_row x (role_permissions db)\<rparr>)
     = rp_keys db @ [(rp_ID x, rp_TenantID x, rp_RoleID x, rp_PermissionID x)]"
  "binding_keys (db\<lparr>role_bindings := insert_row b (role_bindings db)\<rparr>)
     = binding_keys db @ [(b_ID b, b_TenantID b, b_RoleID b, b_SubjectType b)]"
  by (simp_all add: key_defs insert_row_def)

lemma unique_new_id:
  "permission_unique (permissions db) p \<Longrightarrow> p_ID p \<notin> fst ` set (perm_keys db)"
  "role_unique (roles db) r \<Longrightarrow> r_ID r \<notin> fst ` set (role_keys db)"
  "role_permission_unique (role_permissions db) x \<Longrightarrow> rp_ID x \<notin> fst ` set (rp_keys db)"
  "binding_unique (role_bindings db) b \<Longrightarrow> b_ID b \<notin> fst ` set (binding_keys db)"
  by (auto simp: permission_unique_def role_unique_def role_permission_unique_def binding_unique_def
      key_defs list_all_iff Let_def)

lemma exec_insert_Inr:
  "wrap l (exec_insert c l' u f d) = Inr d' \<longleftrightarrow> audited_fault c l' = None \<and> u \<and> f \<and> d' = d"
  by (auto simp: wrap_def exec_insert_def split: option.splits if_splits)

lemma repo_CreatePermission_wf:
  assumes "repo_CreatePermission c p db = Inr db'" "db_wf db"
  shows "db_wf db'"
proof -
  from assms(1) have u: "permission_unique (permissions db) p"
    and db': "db' = db\<lparr>permissions := insert_row (p\<lparr>p_Audit := audit_insert c\<rparr>) (permissions db)\<rparr>"
    by (simp_all add: repo_CreatePermission_def exec_insert_Inr)
  show ?thesis
    using assms(2) unique_new_id(1)[OF u] by (auto simp: db_wf_def keys_wf_def db')
qed

lemma repo_CreateRole_wf:
  assumes "repo_CreateRole c r db = Inr db'" "db_wf db"
  shows "db_wf db'"
proof -
  from assms(1) have u: "role_unique (roles db) r"
    and db': "db' = db\<lparr>roles := insert_row (r\<lparr>r_Audit := audit_insert c\<rparr>) (roles db)\<rparr>"
    by (simp_all add: repo_CreateRole_def exec_insert_Inr)
  show ?thesis
    using assms(2) unique_new_id(2)[OF u] by (auto simp: db_wf_def keys_wf_def db')
qed

lemma repo_CreateRolePermission_wf:
  assumes "repo_CreateRolePermission c x db = Inr db'" "db_wf db"
    and "(rp_RoleID x, rp_TenantID x) \<in> set (role_keys db)" "(rp_PermissionID x, rp_TenantID x) \<in> set (perm_keys db)"
  shows "db_wf db'"
proof -
  from assms(1) have u: "role_permission_unique (role_permissions db) x"
    and db': "db' = db\<lparr>role_permissions := insert_row (x\<lparr>rp_Audit := audit_insert c\<rparr>) (role_permissions db)\<rparr>"
    by (simp_all add: repo_CreateRolePermission_def exec_insert_Inr)
  show ?thesis
    using assms(2-4) unique_new_id(3)[OF u] by (auto simp: db_wf_def keys_wf_def db')
qed

lemma repo_CreateBinding_wf:
  assumes "repo_CreateBinding c b db = Inr db'" "db_wf db" "(b_RoleID b, b_TenantID b) \<in> set (role_keys db)"
  shows "db_wf db'"
proof -
  from assms(1) have u: "binding_unique (role_bindings db) b"
    and db': "db' = db\<lparr>role_bindings := insert_row (b\<lparr>b_OrganizationUnitID := coalesce (nullableID (b_OrganizationUnitID b)),
                b_Audit := audit_insert c\<rparr>) (role_bindings db)\<rparr>"
    by (simp_all add: repo_CreateBinding_def exec_insert_Inr)
  show ?thesis
    using assms(2,3) unique_new_id(4)[OF u] by (auto simp: db_wf_def keys_wf_def db')
qed

lemma repo_update_keys:
  "repo_UpdatePermission c p db = Inr db' \<Longrightarrow> perm_keys db' = perm_keys db \<and> role_keys db' = role_keys db
     \<and> rp_keys db' = rp_keys db \<and> binding_keys db' = binding_keys db"
  "repo_UpdateRole c r db = Inr db' \<Longrightarrow> perm_keys db' = perm_keys db \<and> role_keys db' = role_keys db
     \<and> rp_keys db' = rp_keys db \<and> binding_keys db' = binding_keys db"
  "repo_UpdateRolePermission c x db = Inr db' \<Longrightarrow> perm_keys db' = perm_keys db \<and> role_keys db' = role_keys db
     \<and> rp_keys db' = rp_keys db \<and> binding_keys db' = binding_keys db"
  "repo_UpdateBinding c b db = Inr db' \<Longrightarrow> perm_keys db' = perm_keys db \<and> role_keys db' = role_keys db
     \<and> rp_keys db' = rp_keys db \<and> binding_keys db' = binding_keys db"
  by (auto simp: repo_UpdatePermission_def repo_UpdateRole_def repo_UpdateRolePermission_def repo_UpdateBinding_def
      affected_exec_update key_defs update_where_def split: prod.splits)

lemma repo_update_wf:
  "repo_UpdatePermission c p db = Inr db' \<Longrightarrow> db_wf db \<Longrightarrow> db_wf db'"
  "repo_UpdateRole c r db = Inr db' \<Longrightarrow> db_wf db \<Longrightarrow> db_wf db'"
  "repo_UpdateRolePermission c x db = Inr db' \<Longrightarrow> db_wf db \<Longrightarrow> db_wf db'"
  "repo_UpdateBinding c b db = Inr db' \<Longrightarrow> db_wf db \<Longrightarrow> db_wf db'"
  by (simp_all only: db_wf_def repo_update_keys)

lemma rows_in_keys:
  "r \<in> set (live (roles db)) \<Longrightarrow> (r_ID r, r_TenantID r) \<in> set (role_keys db)"
  "p \<in> set (live (permissions db)) \<Longrightarrow> (p_ID p, p_TenantID p) \<in> set (perm_keys db)"
  "x \<in> set (live (role_permissions db)) \<Longrightarrow> (rp_ID x, rp_TenantID x, rp_RoleID x, rp_PermissionID x) \<in> set (rp_keys db)"
  "b \<in> set (live (role_bindings db)) \<Longrightarrow> (b_ID b, b_TenantID b, b_RoleID b, b_SubjectType b) \<in> set (binding_keys db)"
  by (auto simp: key_defs live_def)

section \<open>Isolation of the resolved grants\<close>

lemma distinct_fst_functional:
  "distinct (map fst xs) \<Longrightarrow> (k, v) \<in> set xs \<Longrightarrow> (k, w) \<in> set xs \<Longrightarrow> v = w"
  by (metis eq_key_imp_eq_value)

lemma granted_iff:
  "(rb, r, rp, p) \<in> set (granted db t s st) \<longleftrightarrow>
     rb \<in> set (live (role_bindings db)) \<and> binding_of_subject db t s st rb \<and> b_Status rb = ''active'' \<and>
     r \<in> set (live (roles db)) \<and> r_ID r = b_RoleID rb \<and> r_Status r = ''active'' \<and>
     rp \<in> set (live (role_permissions db)) \<and> rp_RoleID rp = r_ID r \<and> rp_Status rp = ''active'' \<and>
     p \<in> set (live (permissions db)) \<and> p_ID p = rp_PermissionID rp \<and> p_Status p = ''active''"
  by (auto simp: granted_def)

text \<open>The joins of \<open>Resolve\<close> compare ids only; the references of a well-formed database keep
  every joined row inside the tenant of the binding.\<close>

lemma granted_tenant:
  assumes wf: "db_wf db" and g: "(rb, r, rp, p) \<in> set (granted db tenantID subjectID subjectType)"
  shows "b_TenantID rb = tenantID \<and> r_TenantID r = tenantID \<and> rp_TenantID rp = tenantID \<and> p_TenantID p = tenantID"
proof -
  from g have rb: "rb \<in> set (live (role_bindings db))" "b_TenantID rb = tenantID"
    and r: "r \<in> set (live (roles db))" "r_ID r = b_RoleID rb"
    and rp: "rp \<in> set (live (role_permissions db))" "rp_RoleID rp = r_ID r"
    and p: "p \<in> set (live (permissions db))" "p_ID p = rp_PermissionID rp"
    by (auto simp: granted_def binding_of_subject_def split: if_splits)
  note keys = rows_in_keys(1)[OF r(1)] rows_in_keys(2)[OF p(1)] rows_in_keys(3)[OF rp(1)] rows_in_keys(4)[OF rb(1)]
  have R: "distinct (map fst (role_keys db))" and P: "distinct (map fst (perm_keys db))"
    using wf by (simp_all add: db_wf_def keys_wf_def)
  have "(b_RoleID rb, tenantID) \<in> set (role_keys db)"
    and rp': "(rp_RoleID rp, rp_TenantID rp) \<in> set (role_keys db)"
      "(rp_PermissionID rp, rp_TenantID rp) \<in> set (perm_keys db)"
    using wf keys rb(2) by (force simp: db_wf_def keys_wf_def)+
  then have r_t: "r_TenantID r = tenantID"
    using distinct_fst_functional[OF R] keys(1) r(2) by metis
  have rp_t: "rp_TenantID rp = tenantID"
    using distinct_fst_functional[OF R] keys(1) rp'(1) rp(2) r_t by metis
  have "p_TenantID p = tenantID"
    using distinct_fst_functional[OF P] keys(2) rp'(2) p(2) rp_t by metis
  with rb(2) r_t rp_t show ?thesis by simp
qed

section \<open>The policy version of a tenant\<close>

definition policy_version_of :: "database \<Rightarrow> gostring \<Rightarrow> nat" where
  "policy_version_of db tenantID =
     (case filter (\<lambda>v. pv_TenantID v = tenantID) (live (policy_versions db)) of [] \<Rightarrow> 0 | v # _ \<Rightarrow> pv_PolicyVersion v)"

text \<open>No statement of the service marks a policy version as deleted.\<close>

definition pv_live :: "database \<Rightarrow> bool" where
  "pv_live db = list_all (\<lambda>r. row_deleted_at r = None) (policy_versions db)"

lemma repo_PolicyVersion_eq:
  "fault c ''select policy version'' = None \<Longrightarrow> repo_PolicyVersion c db t = Inr (policy_version_of db t)"
  by (simp add: repo_PolicyVersion_def policy_version_of_def GetContext_def split: list.splits)

lemma repo_PolicyVersion_Inr:
  "repo_PolicyVersion c db t = Inr n \<Longrightarrow> err_is SqlErrNoRows (the (fault c ''select policy version'')) = False \<Longrightarrow>
   n = policy_version_of db t"
  by (auto simp: repo_PolicyVersion_def policy_version_of_def GetContext_def split: list.splits option.splits if_splits)

lemma live_all: "list_all (\<lambda>r. row_deleted_at r = None) t \<Longrightarrow> live t = map row_val t"
  by (induction t) (auto simp: live_def)

lemma filter_upsert_other:
  "u \<noteq> t \<Longrightarrow> filter (\<lambda>v. pv_TenantID v = u) (map row_val (upsert_policy_version c t tb))
     = filter (\<lambda>v. pv_TenantID v = u) (map row_val tb)"
proof -
  assume u: "u \<noteq> t"
  have "filter (\<lambda>v. pv_TenantID v = u) (map row_val
      (map (\<lambda>r. if pv_TenantID (row_val r) = t then Row (bumped_row c (row_val r)) (row_deleted_at r) else r) tb))
     = filter (\<lambda>v. pv_TenantID v = u) (map row_val tb)"
    using u by (induction tb) (auto simp: bumped_row_def)
  then show ?thesis using u by (simp add: upsert_policy_version_def insert_row_def)
qed

lemma filter_upsert_same:
  "\<exists>v vs. filter (\<lambda>v. pv_TenantID v = t) (map row_val (upsert_policy_version c t tb)) = v # vs \<and>
     pv_PolicyVersion v = (case filter (\<lambda>v. pv_TenantID v = t) (map row_val tb) of [] \<Rightarrow> 0 | w # _ \<Rightarrow> pv_PolicyVersion w) + 1"
proof (cases "list_ex (\<lambda>r. pv_TenantID (row_val r) = t) tb")
  case True
  have "filter (\<lambda>v. pv_TenantID v = t) (map row_val
      (map (\<lambda>r. if pv_TenantID (row_val r) = t then Row (bumped_row c (row_val r)) (row_deleted_at r) else r) tb))
     = map (bumped_row c) (filter (\<lambda>v. pv_TenantID v = t) (map row_val tb))"
    by (induction tb) (auto simp: bumped_row_def)
  moreover have "filter (\<lambda>v. pv_TenantID v = t) (map row_val tb) \<noteq> []"
    using True by (auto simp: list_ex_iff filter_empty_conv)
  ultimately show ?thesis
    using True by (auto simp: upsert_policy_version_def bumped_row_def neq_Nil_conv simp del: map_map filter_map)
next
  case False
  then have "filter (\<lambda>v. pv_TenantID v = t) (map row_val tb) = []"
    by (auto simp: list_ex_iff filter_empty_conv)
  with False show ?thesis by (simp add: upsert_policy_version_def insert_row_def)
qed

lemma upsert_live:
  "list_all (\<lambda>r. row_deleted_at r = None) tb \<Longrightarrow> list_all (\<lambda>r. row_deleted_at r = None) (upsert_policy_version c t tb)"
  by (auto simp: upsert_policy_version_def list_all_iff)

lemma repo_BumpPolicyVersion_Inr:
  assumes bump: "repo_BumpPolicyVersion c t db = Inr (n, db')" and live: "pv_live db"
  shows "n = policy_version_of db t + 1 \<and> policy_version_of db' t = n \<and> pv_live db' \<and>
         (\<forall>u. u \<noteq> t \<longrightarrow> policy_version_of db' u = policy_version_of db u) \<and>
         (\<exists>tb. db' = db\<lparr>policy_versions := tb\<rparr>)"
proof -
  let ?tb = "upsert_policy_version c t (policy_versions db)"
  have l: "list_all (\<lambda>r. row_deleted_at r = None) (policy_versions db)" using live by (simp add: pv_live_def)
  obtain v vs where v: "filter (\<lambda>v. pv_TenantID v = t) (map row_val ?tb) = v # vs"
    "pv_PolicyVersion v = (case filter (\<lambda>v. pv_TenantID v = t) (map row_val (policy_versions db)) of
        [] \<Rightarrow> 0 | w # _ \<Rightarrow> pv_PolicyVersion w) + 1"
    using filter_upsert_same by blast
  from bump v(1) have db': "db' = db\<lparr>policy_versions := ?tb\<rparr>" and n: "n = pv_PolicyVersion v"
    by (auto simp: repo_BumpPolicyVersion_def Let_def GetContext_def split: option.splits)
  show ?thesis
    using v l upsert_live[OF l, of c t] filter_upsert_other[of _ t c "policy_versions db"]
    by (auto simp: n db' policy_version_of_def live_all pv_live_def)
qed

lemma repo_BumpPolicyVersion_wf:
  "repo_BumpPolicyVersion c t db = Inr (n, db') \<Longrightarrow> db_wf db' = db_wf db"
  by (rule db_wf_cong) (auto simp: repo_BumpPolicyVersion_def Let_def split: option.splits sum.splits)

lemma repo_AddOutbox_Inr:
  "repo_AddOutbox c event db = Inr db' \<Longrightarrow> db' = db\<lparr>outbox_events := outbox_events db @ [event]\<rparr>"
  by (auto simp: repo_AddOutbox_def wrap_def split: option.splits if_splits)

lemma repo_AddOutbox_wf: "repo_AddOutbox c event db = Inr db' \<Longrightarrow> db_wf db' = db_wf db"
  by (rule db_wf_cong) (auto dest!: repo_AddOutbox_Inr)

section \<open>Searching and paging\<close>

definition no_wildcard :: "gostring \<Rightarrow> bool" where
  "no_wildcard s = list_all (\<lambda>c. c \<noteq> CHR ''%'' \<and> c \<noteq> CHR ''_'' \<and> c \<noteq> CHR 0x5C) s"

lemma sql_like_percent: "sql_like (CHR ''%'' # q) s \<longleftrightarrow> (\<exists>u t. s = u @ t \<and> sql_like q t)"
proof (induction s)
  case Nil show ?case by (simp add: sql_like.simps)
next
  case (Cons x s)
  have "sql_like (CHR ''%'' # q) (x # s) \<longleftrightarrow> sql_like q (x # s) \<or> sql_like (CHR ''%'' # q) s"
    by (simp add: sql_like.simps(2))
  also have "\<dots> \<longleftrightarrow> (\<exists>u t. x # s = u @ t \<and> sql_like q t)"
    unfolding Cons.IH by (auto simp: Cons_eq_append_conv)
  finally show ?case .
qed

lemma sql_like_literal:
  "no_wildcard p \<Longrightarrow> sql_like (p @ q) s \<longleftrightarrow> (\<exists>t. s = p @ t \<and> sql_like q t)"
proof (induction p arbitrary: s)
  case (Cons c p)
  then show ?case by (cases s) (auto simp: no_wildcard_def sql_like.simps(2))
qed simp

lemma no_wildcard_ToLower: "no_wildcard (ToLower s) \<longleftrightarrow> no_wildcard s"
proof -
  have "to_lower_char c = d \<longleftrightarrow> c = d" if d: "of_char d \<in> {37, 95, 92::nat}" for c d
  proof -
    have "to_lower_char c = d \<longleftrightarrow> of_char (to_lower_char c) = (of_char d :: nat)" by simp
    also have "\<dots> \<longleftrightarrow> of_char c = (of_char d :: nat)"
      using d by (auto simp: of_char_to_lower)
    finally show ?thesis by simp
  qed
  from this[of "CHR ''%''"] this[of "CHR ''_''"] this[of "CHR 0x5C"]
  show ?thesis by (auto simp: no_wildcard_def ToLower_def list_all_iff)
qed

text \<open>A keyword without wildcard characters selects exactly the values that contain it,
  whatever the case of its letters.\<close>

lemma lower_like_contains:
  assumes "no_wildcard k"
  shows "lower_like (keyword_pattern k) v \<longleftrightarrow> sublist (ToLower k) (ToLower v)"
proof -
  have pat: "ToLower (keyword_pattern k) = CHR ''%'' # ToLower k @ ''%''"
    by (simp add: keyword_pattern_def ToLower_def to_lower_char_def)
  have tail: "sql_like ''%'' t" for t by (auto simp: sql_like_percent sql_like.simps(1))
  have "lower_like (keyword_pattern k) v \<longleftrightarrow> (\<exists>u t. ToLower v = u @ t \<and> sql_like (ToLower k @ ''%'') t)"
    unfolding lower_like_def pat by (rule sql_like_percent)
  also have "\<dots> \<longleftrightarrow> (\<exists>u w. ToLower v = u @ ToLower k @ w)"
    using assms by (auto simp: sql_like_literal no_wildcard_ToLower tail simp del: append_assoc simp add: append_assoc)
  finally show ?thesis by (simp add: sublist_def)
qed

lemma listPage_Inr:
  assumes "listPage c tbl rows wh order limit offset = Inr (items, count)"
  shows "0 \<le> limit \<and> 0 \<le> offset \<and> items = take (nat limit) (drop (nat offset) (order (filter (satisfies wh) rows)))
         \<and> count = int (length (filter (satisfies wh) rows))"
  using assms by (auto simp: listPage_def Let_def split: option.splits if_splits)

text \<open>Consecutive pages tile the ordered answer.\<close>

lemma pages_tile: "concat (map (\<lambda>i. take s (drop (i * s) xs)) [0..<n]) = take (n * s) xs"
  by (induction n) (simp_all add: take_add[symmetric] add.commute)

end
