(* ===== verification/Decision_Cache.thy ===== *)
theory Decision_Cache
  imports Repository_Laws
begin

text \<open>
  The decision cache: the cache part of \<open>internal/authorization/service.go\<close>
  (\<open>decisionCacheKey\<close>, \<open>cachedDecision\<close>, \<open>storeDecision\<close>, \<open>invalidateTenant\<close>,
  \<open>InvalidateSubject\<close>, \<open>cachedTenantVersions\<close>) and the runtime that keeps the replicas'
  caches coherent (\<open>internal/authorization/decision_cache_runtime.go\<close>).

  The Go map is an association list; every operation that iterates over the map has a result
  that does not depend on the order. A critical section of \<open>cacheMu\<close> is one step. What a
  clock reads is an argument of the operation. JSON encoding, the publication on the message
  bus and the policy-version reads are arguments too.
\<close>

section \<open>Cache operations\<close>

record decisionCacheEntry =
  ce_decision :: Decision
  ce_expiresAt :: time

type_synonym cache = "(gostring \<times> decisionCacheEntry) list"

text \<open>A read of a Go map from strings to strings: a missing key reads as the empty string.\<close>

definition map_read :: "attributes \<Rightarrow> gostring \<Rightarrow> gostring" where
  "map_read attributes key = (case map_of attributes key of None \<Rightarrow> [] | Some v \<Rightarrow> v)"

definition attribute_parts :: "attributes \<Rightarrow> gostring list" where
  "attribute_parts attributes =
     map (\<lambda>key. key @ ''='' @ map_read attributes key) (sort (map fst attributes))"

definition decisionCacheKey ::
  "gostring \<Rightarrow> gostring \<Rightarrow> gostring \<Rightarrow> gostring \<Rightarrow> gostring \<Rightarrow> gostring \<Rightarrow> attributes \<Rightarrow> gostring" where
  "decisionCacheKey tenantID subjectID subjectType resourceType resourceID action attributes =
     join_with nul ([tenantID, subjectID, ToLower subjectType, ToLower resourceType, resourceID, ToLower action]
                    @ attribute_parts attributes)"

definition cachedDecision :: "time \<Rightarrow> gostring \<Rightarrow> cache \<Rightarrow> Decision option \<times> cache" where
  "cachedDecision now key cache =
     (case map_of cache key of
        None \<Rightarrow> (None, cache)
      | Some entry \<Rightarrow>
          if \<not> now < ce_expiresAt entry then (None, AList.delete key cache)
          else (Some (ce_decision entry), cache))"

definition storeDecision :: "time \<Rightarrow> time \<Rightarrow> gostring \<Rightarrow> Decision \<Rightarrow> cache \<Rightarrow> cache" where
  "storeDecision cacheTTL now key decision cache =
     AList.update key \<lparr>ce_decision = decision, ce_expiresAt = now + cacheTTL\<rparr> cache"

text \<open>The loop \<open>for key := range s.cache { if HasPrefix(key, prefix) { delete(s.cache, key) } }\<close>.\<close>

definition delete_prefix :: "gostring \<Rightarrow> cache \<Rightarrow> cache" where
  "delete_prefix pre cache = filter (\<lambda>(key, entry). \<not> prefix pre key) cache"

definition invalidateTenant :: "gostring \<Rightarrow> cache \<Rightarrow> cache" where
  "invalidateTenant tenantID cache = delete_prefix (TrimSpace tenantID @ nul) cache"

definition validSubjectType :: "gostring \<Rightarrow> bool" where
  "validSubjectType value =
     (value = ''membership'' \<or> value = ''service_account'' \<or> value = ''group'' \<or> value = ''user'')"

definition InvalidateSubject :: "gostring \<Rightarrow> gostring \<Rightarrow> gostring \<Rightarrow> cache \<Rightarrow> goerr option \<times> cache" where
  "InvalidateSubject tenantID0 subjectID0 subjectType0 cache =
     (let tenantID = TrimSpace tenantID0; subjectID = TrimSpace subjectID0;
          subjectType = ToLower (TrimSpace subjectType0) in
      if tenantID = [] \<or> subjectID = [] \<or> \<not> validSubjectType subjectType
      then (Some (Invalid ''tenant_id and a valid subject are required'' None), cache)
      else (None, delete_prefix (tenantID @ nul @ subjectID @ nul @ subjectType @ nul) cache))"

text \<open>The tenant of a key, \<open>strings.Cut(key, NUL)\<close>.\<close>

definition key_tenant :: "gostring \<Rightarrow> gostring" where
  "key_tenant key = fst (cut_at (CHR 0x00) key)"

definition note_version :: "gostring \<times> decisionCacheEntry \<Rightarrow> (gostring \<times> nat) list \<Rightarrow> (gostring \<times> nat) list" where
  "note_version ke versions =
     (case ke of (key, entry) \<Rightarrow>
        let tenantID = key_tenant key; v = d_PolicyVersion (ce_decision entry) in
        case map_of versions tenantID of
          None \<Rightarrow> AList.update tenantID v versions
        | Some current \<Rightarrow> if v > current then AList.update tenantID v versions else versions)"

definition cachedTenantVersions :: "cache \<Rightarrow> (gostring \<times> nat) list" where
  "cachedTenantVersions cache = foldl (\<lambda>versions ke. note_version ke versions) [] cache"

section \<open>The cache runtime\<close>

record decisionInvalidation =
  di_TenantID :: gostring
  di_PolicyVersion :: nat

record DecisionCacheRuntime =
  rt_redis :: bool \<comment> \<open>whether the Redis client is configured\<close>
  rt_channel :: gostring
  rt_interval :: time
  rt_metrics :: bool \<comment> \<open>metrics present and enabled\<close>

text \<open>What the runtime leaves outside the cache: counter increments, published payloads and
  warnings.\<close>

record runtime_log =
  counted :: "(gostring \<times> gostring) list"
  published :: "(gostring \<times> gostring) list"
  warned :: "gostring list"

definition NewDecisionCacheRuntime ::
  "bool \<Rightarrow> bool \<Rightarrow> gostring \<Rightarrow> gostring \<Rightarrow> time \<Rightarrow> time \<Rightarrow> time \<Rightarrow> DecisionCacheRuntime \<times> time" where
  "NewDecisionCacheRuntime client metrics activeProfile appName policyRefreshInterval decisionCacheTTL cacheTTL =
     (let interval = (if policyRefreshInterval \<le> 0 then 30 * 10 ^ 9 else policyRefreshInterval) in
      (\<lparr>rt_redis = client, rt_channel = activeProfile @ '':'' @ appName @ '':decision-cache:changed'',
        rt_interval = interval, rt_metrics = metrics\<rparr>,
       if decisionCacheTTL > 0 then decisionCacheTTL else cacheTTL))"

definition observe :: "DecisionCacheRuntime \<Rightarrow> gostring \<Rightarrow> goerr option \<Rightarrow> runtime_log \<Rightarrow> runtime_log" where
  "observe r source err log =
     (if \<not> rt_metrics r then log
      else log\<lparr>counted := counted log @ [(source, if err \<noteq> None then ''failure'' else ''success'')]\<rparr>)"

text \<open>\<open>json.Marshal\<close> and the publication are arguments; a message is published when neither
  fails.\<close>

definition Notify ::
  "(decisionInvalidation \<Rightarrow> gostring result) \<Rightarrow> goerr option \<Rightarrow> DecisionCacheRuntime \<Rightarrow> gostring \<Rightarrow> nat
   \<Rightarrow> runtime_log \<Rightarrow> runtime_log" where
  "Notify marshal publish r tenantID policyVersion log =
     (if \<not> rt_redis r then log
      else case marshal \<lparr>di_TenantID = tenantID, di_PolicyVersion = policyVersion\<rparr> of
        Inl e \<Rightarrow> (observe r ''publish'' (Some e) log)\<lparr>warned := warned log @ [''publish decision cache invalidation'']\<rparr>
      | Inr payload \<Rightarrow>
          (case publish of
             None \<Rightarrow> (observe r ''publish'' None log)\<lparr>published := published log @ [(rt_channel r, payload)]\<rparr>
           | Some e \<Rightarrow> (observe r ''publish'' (Some e) log)\<lparr>warned := warned log @ [''publish decision cache invalidation'']\<rparr>))"

definition handleMessage ::
  "(gostring \<Rightarrow> decisionInvalidation result) \<Rightarrow> DecisionCacheRuntime \<Rightarrow> gostring \<Rightarrow> cache \<times> runtime_log
   \<Rightarrow> cache \<times> runtime_log" where
  "handleMessage unmarshal r payload s =
     (case s of (cache, log) \<Rightarrow>
       (case unmarshal payload of
          Inl e \<Rightarrow> (cache, (observe r ''redis'' (Some e) log)\<lparr>warned := warned log @ [''decode decision cache invalidation'']\<rparr>)
        | Inr message \<Rightarrow>
            if di_TenantID message \<noteq> []
            then (invalidateTenant (di_TenantID message) cache, observe r ''redis'' None log)
            else (cache, (observe r ''redis'' (Some (OtherError ''empty tenant id'')) log)
                          \<lparr>warned := warned log @ [''decode decision cache invalidation'']\<rparr>)))"

definition repair_tenant ::
  "(gostring \<Rightarrow> nat result) \<Rightarrow> DecisionCacheRuntime \<Rightarrow> gostring \<times> nat \<Rightarrow> cache \<times> runtime_log \<Rightarrow> cache \<times> runtime_log" where
  "repair_tenant policyVersion r tv s =
     (case tv of (tenantID, cachedVersion) \<Rightarrow> case s of (cache, log) \<Rightarrow>
       (case policyVersion tenantID of
          Inl e \<Rightarrow> (cache, (observe r ''poll'' (Some e) log)\<lparr>warned := warned log @ [''check authorization policy version'']\<rparr>)
        | Inr currentVersion \<Rightarrow>
            ((if currentVersion \<noteq> cachedVersion then invalidateTenant tenantID cache else cache),
             observe r ''poll'' None log)))"

definition repair ::
  "(gostring \<Rightarrow> conn) \<Rightarrow> database \<Rightarrow> DecisionCacheRuntime \<Rightarrow> cache \<times> runtime_log \<Rightarrow> cache \<times> runtime_log" where
  "repair cs db r s =
     foldl (\<lambda>s tv. repair_tenant (\<lambda>t. repo_PolicyVersion (cs t) db t) r tv s) s (cachedTenantVersions (fst s))"

text \<open>The select loop of \<open>run\<close>. A poll carries the database it reads from.\<close>

datatype runtime_event = Done | Message "gostring option" | Ticker "gostring \<Rightarrow> conn" database

fun run_loop ::
  "(gostring \<Rightarrow> decisionInvalidation result) \<Rightarrow> DecisionCacheRuntime \<Rightarrow> runtime_event list \<Rightarrow> cache \<times> runtime_log
   \<Rightarrow> cache \<times> runtime_log" where
  "run_loop unmarshal r [] s = s"
| "run_loop unmarshal r (Done # es) s = s"
| "run_loop unmarshal r (Message m # es) s =
     run_loop unmarshal r es (case m of Some payload \<Rightarrow> (if rt_redis r then handleMessage unmarshal r payload s else s) | None \<Rightarrow> s)"
| "run_loop unmarshal r (Ticker cs db # es) s = run_loop unmarshal r es (repair cs db r s)"

section \<open>A cache with expiry as an interface\<close>

text \<open>
  What the service relies on: a lookup returns what was stored last for the key unless it has
  expired or was dropped. The freshness of every answer follows from these laws alone.
\<close>

datatype ('k, 'v) cache_op = Lookup 'k | Store 'k 'v | Drop "'k \<Rightarrow> bool"

locale timed_cache =
  fixes lookup :: "time \<Rightarrow> 'k \<Rightarrow> 'c \<Rightarrow> 'v option \<times> 'c"
    and store :: "time \<Rightarrow> 'k \<Rightarrow> 'v \<Rightarrow> 'c \<Rightarrow> 'c"
    and discard :: "('k \<Rightarrow> bool) \<Rightarrow> 'c \<Rightarrow> 'c"
    and empty :: 'c
    and ttl :: time
  assumes lookup_empty: "fst (lookup t k empty) = None"
    and lookup_store: "fst (lookup t k (store t' k v c)) = (if t < t' + ttl then Some v else None)"
    and lookup_store_other: "k' \<noteq> k \<Longrightarrow> fst (lookup t k' (store t' k v c)) = fst (lookup t k' c)"
    and lookup_discard: "fst (lookup t k (discard P c)) = (if P k then None else fst (lookup t k c))"
    and lookup_lookup: "fst (lookup t k (snd (lookup t' k' c))) = Some v \<Longrightarrow> fst (lookup t k c) = Some v"
begin

fun perform :: "time \<times> ('k, 'v) cache_op \<Rightarrow> 'c \<Rightarrow> 'c" where
  "perform (t, Lookup k) c = snd (lookup t k c)"
| "perform (t, Store k v) c = store t k v c"
| "perform (t, Drop P) c = discard P c"

definition performs :: "(time \<times> ('k, 'v) cache_op) list \<Rightarrow> 'c" where
  "performs ops = foldl (\<lambda>c x. perform x c) empty ops"

fun touches :: "'k \<Rightarrow> time \<times> ('k, 'v) cache_op \<Rightarrow> bool" where
  "touches k (t, Lookup k') = False"
| "touches k (t, Store k' v) = (k' = k)"
| "touches k (t, Drop P) = P k"

lemma performs_snoc: "performs (ops @ [x]) = perform x (performs ops)"
  by (simp add: performs_def)

theorem answer_is_fresh:
  "fst (lookup now k (performs ops)) = Some v \<Longrightarrow>
   \<exists>earlier t later. ops = earlier @ (t, Store k v) # later \<and> now < t + ttl \<and> (\<forall>x\<in>set later. \<not> touches k x)"
proof (induction ops rule: rev_induct)
  case Nil then show ?case by (simp add: performs_def lookup_empty)
next
  case (snoc x ops)
  obtain t operation where x: "x = (t, operation)" by (cases x)
  show ?case
  proof (cases "touches k x")
    case True
    then show ?thesis
      using snoc.prems x
      by (cases operation) (auto simp: performs_snoc lookup_store lookup_discard split: if_splits intro!: exI[of _ ops])
  next
    case False
    then have "fst (lookup now k (performs ops)) = Some v"
      using snoc.prems x
      by (cases operation) (auto simp: performs_snoc lookup_store_other lookup_discard dest: lookup_lookup)
    then obtain earlier t' later where "ops = earlier @ (t', Store k v) # later" "now < t' + ttl" "\<forall>x\<in>set later. \<not> touches k x"
      using snoc.IH by blast
    with False show ?thesis
      by (intro exI[of _ earlier] exI[of _ t'] exI[of _ "later @ [x]"]) auto
  qed
qed

end

definition discard_keys :: "(gostring \<Rightarrow> bool) \<Rightarrow> cache \<Rightarrow> cache" where
  "discard_keys P cache = filter (\<lambda>(key, entry). \<not> P key) cache"

lemma map_of_filter_keys: "map_of (filter (\<lambda>(key, entry). \<not> P key) cache) k = (if P k then None else map_of cache k)"
  by (induction cache) auto

lemma delete_prefix_discard: "delete_prefix pre = discard_keys (prefix pre)"
  by (rule ext) (simp add: delete_prefix_def discard_keys_def)

interpretation dc: timed_cache cachedDecision "storeDecision cacheTTL" discard_keys "[]" cacheTTL for cacheTTL
  by unfold_locales
    (auto simp: cachedDecision_def storeDecision_def discard_keys_def map_of_filter_keys update_conv' delete_conv'
      map_of_delete split: option.splits if_splits)

section \<open>Keys\<close>

abbreviation nulfree :: "gostring \<Rightarrow> bool" where
  "nulfree s \<equiv> CHR 0x00 \<notin> set s"

lemma nul_count: "xs \<noteq> [] \<Longrightarrow> \<forall>x\<in>set xs. nulfree x \<Longrightarrow> count_list (join_with nul xs) (CHR 0x00) = length xs - 1"
proof (induction xs rule: induct_list012)
  case (3 x y xs)
  then show ?case by (simp add: nul_def count_list_0_iff)
qed (auto simp: count_list_0_iff)

lemma join_nul_inject_any:
  assumes "xs \<noteq> []" "ys \<noteq> []" "\<forall>x\<in>set xs. nulfree x" "\<forall>y\<in>set ys. nulfree y"
    and eq: "join_with nul xs = join_with nul ys"
  shows "xs = ys"
proof -
  have "length xs - 1 = length ys - 1"
    using nul_count[OF assms(1,3)] nul_count[OF assms(2,4)] eq by simp
  with assms(1,2) have "length xs = length ys"
    by (metis One_nat_def Suc_pred length_greater_0_conv)
  then show ?thesis using assms(3,4) eq by (rule join_nul_inject)
qed

text \<open>Attributes whose encoding is unambiguous: no NUL byte, and no equals sign in a name.\<close>

definition plain_attributes :: "attributes \<Rightarrow> bool" where
  "plain_attributes a = (distinct (map fst a) \<and> list_all (\<lambda>(k, v). nulfree k \<and> nulfree v \<and> CHR ''='' \<notin> set k) a)"

lemma map_read_in: "(k, v) \<in> set a \<Longrightarrow> distinct (map fst a) \<Longrightarrow> map_read a k = v"
  by (simp add: map_read_def)

lemma attribute_parts_nulfree: "plain_attributes a \<Longrightarrow> \<forall>x\<in>set (attribute_parts a). nulfree x"
  by (auto simp: attribute_parts_def plain_attributes_def list_all_iff map_read_in)

lemma equals_parts_inject:
  "\<forall>k\<in>set ks. CHR ''='' \<notin> set k \<Longrightarrow> \<forall>k\<in>set ls. CHR ''='' \<notin> set k \<Longrightarrow>
   map (\<lambda>k. k @ ''='' @ f k) ks = map (\<lambda>k. k @ ''='' @ g k) ls \<Longrightarrow> ks = ls \<and> (\<forall>k\<in>set ks. f k = g k)"
proof (induction ks arbitrary: ls)
  case (Cons k ks)
  then obtain l ls' where ls: "ls = l # ls'" by (cases ls) auto
  have "k = l \<and> f k = g l"
    using Cons.prems by (intro append_sep_inject[of k "CHR ''=''"]) (auto simp: ls)
  moreover have "ks = ls' \<and> (\<forall>k\<in>set ks. f k = g k)"
    using Cons.prems by (intro Cons.IH) (auto simp: ls)
  ultimately show ?case by (auto simp: ls)
qed simp

lemma attribute_parts_inject:
  assumes "plain_attributes a" "plain_attributes b" "attribute_parts a = attribute_parts b"
  shows "map_of a = map_of b"
proof -
  have "sort (map fst a) = sort (map fst b) \<and> (\<forall>k\<in>set (sort (map fst a)). map_read a k = map_read b k)"
    using assms unfolding attribute_parts_def
    by (intro equals_parts_inject) (auto simp: plain_attributes_def list_all_iff)
  then have dom: "fst ` set a = fst ` set b" and val: "\<forall>k\<in>fst ` set a. map_read a k = map_read b k"
    by (metis set_map set_sort, metis set_map set_sort)
  show ?thesis
  proof
    fix k
    show "map_of a k = map_of b k"
    proof (cases "k \<in> fst ` set a")
      case True
      then obtain v w where "map_of a k = Some v" "map_of b k = Some w"
        using dom by (metis map_of_eq_None_iff not_None_eq)
      moreover have "map_read a k = map_read b k" using val True by blast
      ultimately show ?thesis by (simp add: map_read_def)
    next
      case False
      then have "map_of a k = None" "map_of b k = None" using dom by (simp_all add: map_of_eq_None_iff)
      then show ?thesis by simp
    qed
  qed
qed

text \<open>A key identifies the request up to the letter case of subject type, resource type and
  action.\<close>

lemma decisionCacheKey_inject:
  assumes "decisionCacheKey t s st rt rid a attrs = decisionCacheKey t' s' st' rt' rid' a' attrs'"
    and "list_all nulfree [t, s, st, rt, rid, a, t', s', st', rt', rid', a']"
    and "plain_attributes attrs" "plain_attributes attrs'"
  shows "t = t' \<and> s = s' \<and> ToLower st = ToLower st' \<and> ToLower rt = ToLower rt' \<and> rid = rid'
         \<and> ToLower a = ToLower a' \<and> map_of attrs = map_of attrs'"
proof -
  have "[t, s, ToLower st, ToLower rt, rid, ToLower a] @ attribute_parts attrs
      = [t', s', ToLower st', ToLower rt', rid', ToLower a'] @ attribute_parts attrs'"
    using assms attribute_parts_nulfree[OF assms(3)] attribute_parts_nulfree[OF assms(4)]
    by (intro join_nul_inject_any) (auto simp: decisionCacheKey_def)
  then show ?thesis using attribute_parts_inject[OF assms(3,4)] by simp
qed

lemma decisionCacheKey_shape:
  "\<exists>rest. decisionCacheKey t s st rt rid a attrs = t @ nul @ s @ nul @ ToLower st @ nul @ rest"
  by (simp add: decisionCacheKey_def)

lemma prefix_sep:
  fixes c :: char
  assumes "c \<notin> set a" "c \<notin> set b"
  shows "prefix (a @ c # p) (b @ c # q) \<longleftrightarrow> a = b \<and> prefix p q"
proof
  assume "prefix (a @ c # p) (b @ c # q)"
  then obtain z where "b @ c # q = a @ c # (p @ z)" by (auto simp: prefix_def)
  then have "b = a \<and> q = p @ z" using assms by (intro append_sep_inject) auto
  then show "a = b \<and> prefix p q" by (simp add: prefix_def)
qed (auto simp: prefix_def)

text \<open>Invalidation of a tenant hits exactly the keys of that tenant, invalidation of a subject
  exactly the keys of that subject.\<close>

lemma tenant_prefix_iff:
  "nulfree t \<Longrightarrow> nulfree u \<Longrightarrow> prefix (u @ nul) (decisionCacheKey t s st rt rid a attrs) \<longleftrightarrow> u = t"
  using decisionCacheKey_shape[of t s st rt rid a attrs] by (auto simp: nul_def prefix_sep)

lemma subject_prefix_iff:
  "list_all nulfree [t, s, st, u, v, w] \<Longrightarrow>
   prefix (u @ nul @ v @ nul @ w @ nul) (decisionCacheKey t s st rt rid a attrs) \<longleftrightarrow> u = t \<and> v = s \<and> w = ToLower st"
  using decisionCacheKey_shape[of t s st rt rid a attrs] by (auto simp: nul_def prefix_sep)

lemma key_tenant_key [simp]: "nulfree t \<Longrightarrow> key_tenant (decisionCacheKey t s st rt rid a attrs) = t"
  using decisionCacheKey_shape[of t s st rt rid a attrs] by (auto simp: nul_def key_tenant_def cut_at_found)

text \<open>A key with a tenant part.\<close>

definition tenant_key :: "gostring \<Rightarrow> bool" where
  "tenant_key key = (CHR 0x00 \<in> set key)"

lemma prefix_key_tenant:
  assumes "tenant_key key" "nulfree u"
  shows "prefix (u @ nul) key \<longleftrightarrow> key_tenant key = u"
proof -
  obtain a b where ab: "key = a @ CHR 0x00 # b" "nulfree a"
    using assms(1) by (metis split_list_first tenant_key_def)
  then show ?thesis using assms(2) by (auto simp: nul_def prefix_sep key_tenant_def cut_at_found)
qed

section \<open>Repair\<close>

definition tenant_versions :: "cache \<Rightarrow> gostring \<Rightarrow> nat list" where
  "tenant_versions cache t = map (\<lambda>(k, e). d_PolicyVersion (ce_decision e)) (filter (\<lambda>(k, e). key_tenant k = t) cache)"

definition max_version :: "cache \<Rightarrow> gostring \<Rightarrow> nat option" where
  "max_version cache t = (if tenant_versions cache t = [] then None else Some (Max (set (tenant_versions cache t))))"

lemma tenant_versions_Nil [simp]: "tenant_versions [] t = []"
  by (simp add: tenant_versions_def)

lemma tenant_versions_snoc [simp]:
  "tenant_versions (cache @ [(k, e)]) t =
     tenant_versions cache t @ (if key_tenant k = t then [d_PolicyVersion (ce_decision e)] else [])"
  by (simp add: tenant_versions_def)

lemma map_of_note_version:
  "map_of (note_version (k, e) vs) t =
     (if t = key_tenant k
      then Some (case map_of vs t of None \<Rightarrow> d_PolicyVersion (ce_decision e)
                 | Some v \<Rightarrow> max v (d_PolicyVersion (ce_decision e)))
      else map_of vs t)"
  by (auto simp: note_version_def Let_def update_conv' max_def split: option.splits)

lemma max_version_snoc:
  "max_version (cache @ [(k, e)]) t =
     (if t = key_tenant k
      then Some (case max_version cache t of None \<Rightarrow> d_PolicyVersion (ce_decision e)
                 | Some v \<Rightarrow> max v (d_PolicyVersion (ce_decision e)))
      else max_version cache t)"
  by (cases "tenant_versions cache t = []") (auto simp: max_version_def max.commute)

lemma cachedTenantVersions_max: "map_of (cachedTenantVersions cache) t = max_version cache t"
proof (induction cache rule: rev_induct)
  case Nil show ?case by (simp add: cachedTenantVersions_def max_version_def)
next
  case (snoc ke cache)
  obtain k e where ke: "ke = (k, e)" by (cases ke)
  have "cachedTenantVersions (cache @ [ke]) = note_version (k, e) (cachedTenantVersions cache)"
    by (simp add: cachedTenantVersions_def ke)
  then show ?case by (simp only: map_of_note_version max_version_snoc ke snoc.IH)
qed

lemma distinct_note_version: "distinct (map fst vs) \<Longrightarrow> distinct (map fst (note_version ke vs))"
  by (cases ke) (auto simp: note_version_def Let_def distinct_update split: option.splits)

lemma distinct_cachedTenantVersions: "distinct (map fst (cachedTenantVersions cache))"
proof (induction cache rule: rev_induct)
  case Nil show ?case by (simp add: cachedTenantVersions_def)
next
  case (snoc ke cache)
  then show ?case by (simp add: cachedTenantVersions_def distinct_note_version)
qed

lemma cachedTenantVersions_tenant:
  "(t, v) \<in> set (cachedTenantVersions cache) \<Longrightarrow> \<exists>k e. (k, e) \<in> set cache \<and> key_tenant k = t"
proof -
  assume "(t, v) \<in> set (cachedTenantVersions cache)"
  then have "max_version cache t = Some v"
    by (simp add: cachedTenantVersions_max[symmetric] distinct_cachedTenantVersions)
  then have "tenant_versions cache t \<noteq> []" by (auto simp: max_version_def)
  then show ?thesis by (auto simp: tenant_versions_def filter_empty_conv)
qed

definition stale_version :: "(gostring \<Rightarrow> nat result) \<Rightarrow> gostring \<times> nat \<Rightarrow> bool" where
  "stale_version policyVersion tv = (case tv of (t, v) \<Rightarrow> (case policyVersion t of Inl e \<Rightarrow> False | Inr n \<Rightarrow> n \<noteq> v))"

lemma repair_tenant_cache:
  "fst (repair_tenant pv r tv s) = filter (\<lambda>(k, e). \<not> (stale_version pv tv \<and> prefix (TrimSpace (fst tv) @ nul) k)) (fst s)"
  by (auto simp: repair_tenant_def stale_version_def invalidateTenant_def delete_prefix_def split: prod.splits sum.splits
      intro!: filter_cong filter_True[symmetric])

lemma repair_tenants_cache:
  "fst (foldl (\<lambda>s tv. repair_tenant pv r tv s) s tvs) =
   filter (\<lambda>(k, e). \<not> list_ex (\<lambda>tv. stale_version pv tv \<and> prefix (TrimSpace (fst tv) @ nul) k) tvs) (fst s)"
  by (induction tvs arbitrary: s) (auto simp: repair_tenant_cache intro!: filter_cong)

text \<open>The keys that \<open>CheckWithAttributes\<close> builds for trimmed tenant ids.\<close>

definition cache_keys_ok :: "cache \<Rightarrow> bool" where
  "cache_keys_ok cache = list_all (\<lambda>(k, e). tenant_key k \<and> TrimSpace (key_tenant k) = key_tenant k) cache"

lemma nulfree_key_tenant: "tenant_key k \<Longrightarrow> nulfree (key_tenant k)"
proof -
  assume "tenant_key k"
  then obtain a b where "k = a @ CHR 0x00 # b" "nulfree a" by (metis split_list_first tenant_key_def)
  then show ?thesis by (simp add: key_tenant_def cut_at_found)
qed

lemma repair_keeps:
  assumes ok: "cache_keys_ok cache" and ke: "(k, e) \<in> set cache"
  shows "list_ex (\<lambda>tv. stale_version pv tv \<and> prefix (TrimSpace (fst tv) @ nul) k) (cachedTenantVersions cache)
         \<longleftrightarrow> (case pv (key_tenant k) of Inl e \<Rightarrow> False | Inr n \<Rightarrow> max_version cache (key_tenant k) \<noteq> Some n)"
    (is "?lhs \<longleftrightarrow> ?rhs")
proof -
  have k: "tenant_key k" using ok ke by (auto simp: cache_keys_ok_def list_all_iff)
  have tn: "prefix (TrimSpace t @ nul) k \<longleftrightarrow> key_tenant k = t" if tv: "(t, v) \<in> set (cachedTenantVersions cache)" for t v
  proof -
    obtain k' e' where "(k', e') \<in> set cache" "key_tenant k' = t"
      using cachedTenantVersions_tenant[OF tv] by blast
    then have "TrimSpace t = t" "nulfree t"
      using ok nulfree_key_tenant by (fastforce simp: cache_keys_ok_def list_all_iff)+
    then show ?thesis using prefix_key_tenant[OF k] by simp
  qed
  have "tenant_versions cache (key_tenant k) \<noteq> []"
    using ke by (auto simp: tenant_versions_def filter_empty_conv)
  then obtain v where v: "max_version cache (key_tenant k) = Some v" by (simp add: max_version_def)
  then have "map_of (cachedTenantVersions cache) (key_tenant k) = Some v" by (simp add: cachedTenantVersions_max)
  then have iff: "(key_tenant k, w) \<in> set (cachedTenantVersions cache) \<longleftrightarrow> w = v" for w
    using distinct_cachedTenantVersions[of cache] by (metis map_of_SomeD map_of_eq_Some_iff option.inject)
  have "?lhs \<longleftrightarrow> stale_version pv (key_tenant k, v)"
    using tn iff by (force simp: list_ex_iff)
  then show ?thesis using v by (auto simp: stale_version_def split: sum.splits)
qed

lemma repair_exact:
  assumes "cache_keys_ok cache"
  shows "fst (repair cs db r (cache, log)) =
    filter (\<lambda>(k, e). case repo_PolicyVersion (cs (key_tenant k)) db (key_tenant k) of
        Inl err \<Rightarrow> True | Inr n \<Rightarrow> max_version cache (key_tenant k) = Some n) cache"
  unfolding repair_def repair_tenants_cache fst_conv
  using repair_keeps[OF assms] by (auto intro!: filter_cong split: sum.splits)

end
