(* ===== verification/Validation.thy ===== *)
theory Validation
  imports Decision_Cache
begin

text \<open>
  Normalisation and validation of requests: the pure helpers at the end of
  \<open>internal/authorization/service.go\<close>. A function that normalises its argument in place
  through a pointer returns the normalised value.
\<close>

section \<open>Pages and filters\<close>

definition normalizePage :: "int \<Rightarrow> int \<Rightarrow> (int \<times> int) result" where
  "normalizePage page0 pageSize0 =
     (let page = (if page0 \<le> 0 then 1 else page0);
          pageSize = (if pageSize0 \<le> 0 then 20 else pageSize0) in
      if pageSize > 100 then Inl (Invalid ''page_size must not exceed 100'' None) else Inr (page, pageSize))"

text \<open>The offset \<open>(page-1)*pageSize\<close> in Go's 64-bit \<open>int\<close>.\<close>

definition page_offset :: "int \<Rightarrow> int \<Rightarrow> int" where
  "page_offset page pageSize = wrap64 (wrap64 (page - 1) * pageSize)"

text \<open>The loop with a \<open>seen\<close> set that \<open>normalizeFilterSets\<close>, \<open>BatchGetRoles\<close> and
  \<open>BatchGetRolePermissions\<close> share.\<close>

fun unique_trimmed :: "gostring \<Rightarrow> gostring list \<Rightarrow> gostring list \<Rightarrow> gostring list \<Rightarrow> gostring list result" where
  "unique_trimmed name seen normalized [] = Inr normalized"
| "unique_trimmed name seen normalized (value0 # values) =
     (let value = TrimSpace value0 in
      if value = [] then Inl (Invalid (name @ '' must not contain empty values'') None)
      else if value \<notin> set seen then unique_trimmed name (value # seen) (normalized @ [value]) values
      else unique_trimmed name seen normalized values)"

fun normalizeFilterSets :: "(gostring \<times> gostring list) list \<Rightarrow> gostring list list result" where
  "normalizeFilterSets [] = Inr []"
| "normalizeFilterSets ((name, values) # sets) =
     (if length values > 100 then Inl (Invalid (name @ '' must not contain more than 100 values'') None)
      else case unique_trimmed name [] [] values of
        Inl e \<Rightarrow> Inl e
      | Inr normalized \<Rightarrow> (case normalizeFilterSets sets of Inl e \<Rightarrow> Inl e | Inr rest \<Rightarrow> Inr (normalized # rest)))"

definition validateCreatedRange :: "time option \<Rightarrow> time option \<Rightarrow> goerr option" where
  "validateCreatedRange from until =
     (case (from, until) of
        (Some f, Some t) \<Rightarrow> if \<not> f < t then Some (Invalid ''created_from must be earlier than created_to'' None) else None
      | _ \<Rightarrow> None)"

definition lowerValues :: "gostring list \<Rightarrow> gostring list" where
  "lowerValues values = map ToLower values"

definition validDataScope :: "gostring \<Rightarrow> bool" where
  "validDataScope value =
     (value = ''none'' \<or> value = ''self'' \<or> value = ''organization'' \<or> value = ''tenant'' \<or> value = ''all'')"

definition normalizePermissionFilter :: "PermissionFilter \<Rightarrow> PermissionFilter result" where
  "normalizePermissionFilter f =
     (let keyword = TrimSpace (pf_Keyword f) in
      if length keyword > 100 then Inl (Invalid ''permission keyword must not exceed 100 bytes'' None)
      else case normalizeFilterSets [(''permission_ids'', pf_IDs f), (''statuses'', pf_Statuses f),
                  (''resource_types'', pf_ResourceTypes f), (''actions'', pf_Actions f)] of
        Inl e \<Rightarrow> Inl e
      | Inr sets \<Rightarrow>
          (let statuses = lowerValues (sets ! 1); resourceTypes = lowerValues (sets ! 2); actions = lowerValues (sets ! 3) in
           if list_ex (\<lambda>status. status \<noteq> ''active'' \<and> status \<noteq> ''disabled'') statuses
           then Inl (Invalid ''invalid permission status'' None)
           else case validateCreatedRange (pf_CreatedFrom f) (pf_CreatedTo f) of
             Some e \<Rightarrow> Inl e
           | None \<Rightarrow> Inr (f\<lparr>pf_Keyword := keyword, pf_IDs := sets ! 0, pf_Statuses := statuses,
                          pf_ResourceTypes := resourceTypes, pf_Actions := actions\<rparr>)))"

definition normalizeRoleFilter :: "RoleFilter \<Rightarrow> RoleFilter result" where
  "normalizeRoleFilter f =
     (let keyword = TrimSpace (rf_Keyword f) in
      if length keyword > 100 then Inl (Invalid ''role keyword must not exceed 100 bytes'' None)
      else case normalizeFilterSets [(''role_ids'', rf_IDs f), (''statuses'', rf_Statuses f), (''data_scopes'', rf_DataScopes f)] of
        Inl e \<Rightarrow> Inl e
      | Inr sets \<Rightarrow>
          (let statuses = lowerValues (sets ! 1); dataScopes = lowerValues (sets ! 2) in
           if list_ex (\<lambda>status. status \<noteq> ''active'' \<and> status \<noteq> ''disabled'') statuses
           then Inl (Invalid ''invalid role status'' None)
           else if list_ex (\<lambda>scope. \<not> validDataScope scope) dataScopes
           then Inl (Invalid ''invalid role data scope'' None)
           else case validateCreatedRange (rf_CreatedFrom f) (rf_CreatedTo f) of
             Some e \<Rightarrow> Inl e
           | None \<Rightarrow> Inr (f\<lparr>rf_Keyword := keyword, rf_IDs := sets ! 0, rf_Statuses := statuses, rf_DataScopes := dataScopes\<rparr>)))"

definition normalizeBindingFilter :: "BindingFilter \<Rightarrow> BindingFilter result" where
  "normalizeBindingFilter f =
     (case normalizeFilterSets [(''binding_ids'', bf_IDs f), (''role_ids'', bf_RoleIDs f), (''statuses'', bf_Statuses f),
             (''organization_unit_ids'', bf_OrganizationUnitIDs f)] of
        Inl e \<Rightarrow> Inl e
      | Inr sets \<Rightarrow>
          (let statuses = lowerValues (sets ! 2) in
           if list_ex (\<lambda>status. status \<noteq> ''active'' \<and> status \<noteq> ''revoked'') statuses
           then Inl (Invalid ''invalid binding status'' None)
           else case validateCreatedRange (bf_CreatedFrom f) (bf_CreatedTo f) of
             Some e \<Rightarrow> Inl e
           | None \<Rightarrow> Inr (f\<lparr>bf_IDs := sets ! 0, bf_RoleIDs := sets ! 1, bf_Statuses := statuses,
                          bf_OrganizationUnitIDs := sets ! 3\<rparr>)))"

section \<open>Scopes and subjects\<close>

text \<open>\<open>platformTenantID\<close> is \<open>platformauthz.PlatformTenantID\<close> of the shared package.\<close>

definition validSubjectForTenant :: "gostring \<Rightarrow> gostring \<Rightarrow> gostring \<Rightarrow> bool" where
  "validSubjectForTenant platformTenantID tenantID subjectType =
     (if \<not> validSubjectType subjectType then False
      else if TrimSpace tenantID = platformTenantID
      then subjectType = ''user'' \<or> subjectType = ''service_account''
      else subjectType = ''membership'' \<or> subjectType = ''group'' \<or> subjectType = ''service_account'')"

definition scopeRank :: "gostring \<Rightarrow> int" where
  "scopeRank value =
     (if value = ''self'' then 1 else if value = ''organization'' then 2
      else if value = ''tenant'' then 3 else if value = ''all'' then 4 else 0)"

definition appendUnique :: "gostring list \<Rightarrow> gostring \<Rightarrow> gostring list" where
  "appendUnique values value = (if list_ex (\<lambda>current. current = value) values then values else values @ [value])"

datatype SubjectTypeProto =
  SUBJECT_TYPE_UNSPECIFIED | SUBJECT_TYPE_MEMBERSHIP | SUBJECT_TYPE_SERVICE_ACCOUNT | SUBJECT_TYPE_GROUP | SUBJECT_TYPE_USER

definition subjectTypeProto :: "gostring \<Rightarrow> SubjectTypeProto" where
  "subjectTypeProto value =
     (if value = ''membership'' then SUBJECT_TYPE_MEMBERSHIP
      else if value = ''service_account'' then SUBJECT_TYPE_SERVICE_ACCOUNT
      else if value = ''group'' then SUBJECT_TYPE_GROUP
      else if value = ''user'' then SUBJECT_TYPE_USER
      else SUBJECT_TYPE_UNSPECIFIED)"

section \<open>Lemmas\<close>

lemma unique_trimmed_nub:
  "unique_trimmed name seen normalized vals =
     (if list_ex (\<lambda>v. TrimSpace v = []) vals
      then Inl (Invalid (name @ '' must not contain empty values'') None)
      else Inr (normalized @ nub_from seen (map TrimSpace vals)))"
  by (induction name seen normalized vals rule: unique_trimmed.induct) (auto simp: Let_def)

lemma normalizePage_Inr:
  "normalizePage p s = Inr (page, psz) \<Longrightarrow> 1 \<le> page \<and> 1 \<le> psz \<and> psz \<le> 100"
  by (auto simp: normalizePage_def Let_def split: if_splits)

lemma normalizePage_idem:
  "normalizePage p s = Inr (page, psz) \<Longrightarrow> normalizePage page psz = Inr (page, psz)"
  by (auto simp: normalizePage_def Let_def split: if_splits)

text \<open>The offset does not wrap for the first \<open>2^56\<close> pages.\<close>

lemma page_offset_exact:
  assumes "1 \<le> page" "page \<le> 2 ^ 56" "1 \<le> psz" "psz \<le> 100"
  shows "page_offset page psz = (page - 1) * psz"
proof -
  have w: "wrap64 (page - 1) = page - 1" using assms by (intro wrap64_id) simp_all
  have "(page - 1) * psz \<le> (2 ^ 56 - 1) * 100" using assms by (intro mult_mono) simp_all
  moreover have "0 \<le> (page - 1) * psz" using assms by simp
  ultimately show ?thesis unfolding page_offset_def w by (intro wrap64_id) simp_all
qed

lemma page_offset_nonneg:
  "1 \<le> page \<Longrightarrow> page \<le> 2 ^ 56 \<Longrightarrow> 1 \<le> psz \<Longrightarrow> psz \<le> 100 \<Longrightarrow> 0 \<le> page_offset page psz"
  by (simp add: page_offset_exact)

lemma normalizeFilterSets_Inr:
  "normalizeFilterSets sets = Inr out \<Longrightarrow>
   out = map (\<lambda>(n, vs). nub (map TrimSpace vs)) sets \<and>
   list_all (\<lambda>(n, vs). length vs \<le> 100 \<and> \<not> list_ex (\<lambda>v. TrimSpace v = []) vs) sets"
  by (induction sets arbitrary: out rule: normalizeFilterSets.induct)
    (auto simp: unique_trimmed_nub split: if_splits sum.splits)

lemma normalizeFilterSets_out:
  assumes "normalizeFilterSets sets = Inr out"
  shows "list_all (\<lambda>vs. distinct vs \<and> length vs \<le> 100 \<and> list_all (\<lambda>v. v \<noteq> [] \<and> TrimSpace v = v) vs) out"
proof -
  note n = normalizeFilterSets_Inr[OF assms]
  have "length (nub (map TrimSpace vs)) \<le> 100" if "length vs \<le> 100" for vs
    using length_nub_le[of "[]" "map TrimSpace vs"] that by simp
  then show ?thesis using n by (fastforce simp: list_all_iff list_ex_iff)
qed

lemma validSubjectType_lower: "validSubjectType st \<Longrightarrow> ToLower st = st"
  by (auto simp: validSubjectType_def ToLower_def to_lower_char_def)

lemma validSubjectForTenant_type: "validSubjectForTenant p t st \<Longrightarrow> validSubjectType st"
  by (simp add: validSubjectForTenant_def split: if_splits)

lemma set_appendUnique [simp]: "set (appendUnique vs v) = insert v (set vs)"
  by (auto simp: appendUnique_def list_ex_iff)

lemma distinct_appendUnique: "distinct vs \<Longrightarrow> distinct (appendUnique vs v)"
  by (auto simp: appendUnique_def list_ex_iff)

lemma scopeRank_inj: "validDataScope a \<Longrightarrow> validDataScope b \<Longrightarrow> scopeRank a = scopeRank b \<Longrightarrow> a = b"
  by (auto simp: validDataScope_def scopeRank_def)

lemma scopeRank_range: "0 \<le> scopeRank v \<and> scopeRank v \<le> 4"
  by (simp add: scopeRank_def)

lemma subjectTypeProto_inject:
  "validSubjectType a \<Longrightarrow> subjectTypeProto a = subjectTypeProto b \<Longrightarrow> a = b"
  by (auto simp: validSubjectType_def subjectTypeProto_def split: if_splits)

end
