(* ===== verification/Service_Core.thy ===== *)
theory Service_Core
  imports Validation
begin

text \<open>
  The core of \<open>authorization.Service\<close>: its state and collaborators, the tenant check
  \<open>enforceInteractiveTenant\<close> and \<open>mutate\<close>, the transaction that every change of the policy
  goes through.

  \<open>env\<close> holds what the service obtains from outside the repository: the shared packages
  (\<open>platformauthz\<close>, \<open>audit\<close>, \<open>eventbus\<close>, \<open>operationlog\<close>, \<open>securitylog\<close>), protobuf, the
  CEL engine, clocks and fresh identifiers. \<open>conn_of n\<close> is the connection of the \<open>n\<close>-th
  statement or transaction of an operation, with whatever faults it has. \<open>world\<close> is the state
  the service changes: the database, its own decision cache, and what it sends to the
  notification channel and the two logs.
\<close>

section \<open>Environment and state\<close>

record Metadata =
  md_EventID :: gostring
  md_EventType :: gostring
  md_AggregateID :: gostring
  md_AggregateType :: gostring
  md_TenantID :: gostring
  md_SchemaVersion :: nat
  md_ActorID :: gostring
  md_OccurredAt :: time

record AuthorizationChangedEvent =
  ev_TenantId :: gostring
  ev_SubjectId :: gostring
  ev_SubjectType :: SubjectTypeProto
  ev_PolicyVersion :: nat
  ev_Reason :: gostring

record EventEnvelope =
  en_EventId :: gostring
  en_Body :: gostring

record operation_entry =
  ol_Operation :: gostring
  ol_ResourceType :: gostring
  ol_ResourceID :: gostring
  ol_Source :: gostring
  ol_Protocol :: gostring
  ol_Request :: "(gostring \<times> gostring) list"
  ol_RequestID :: gostring
  ol_Succeeded :: bool
  ol_ErrorMessage :: gostring

record security_entry =
  sl_SubjectID :: gostring
  sl_SubjectType :: gostring
  sl_TenantID :: gostring
  sl_Succeeded :: bool
  sl_Reason :: gostring
  sl_RequestID :: gostring
  sl_ClientIP :: gostring
  sl_UserAgent :: gostring
  sl_ErrorMessage :: gostring

text \<open>A recorder that is present: whether it is enabled, the outcome of \<open>Record\<close>, and
  \<open>FailClosed\<close> (of the security recorder).\<close>

record 'e recorder =
  rec_Enabled :: bool
  rec_Record :: "'e \<Rightarrow> goerr option"
  rec_FailClosed :: bool

record activation =
  act_tenant_id :: gostring
  act_subject_id :: gostring
  act_resource_id :: gostring
  act_attributes :: attributes

datatype cel_value = CelBool bool | CelOther

record env =
  PlatformTenantID :: gostring
  clock :: "nat \<Rightarrow> time" \<comment> \<open>the n-th reading of \<open>s.now()\<close> in an operation\<close>
  uuid_NewString :: "nat \<Rightarrow> gostring" \<comment> \<open>the n-th fresh identifier of an operation\<close>
  conn_of :: "nat \<Rightarrow> conn"
  audit_New :: "ctx \<Rightarrow> time \<Rightarrow> AuditFields option"
  audit_UpdatedBy :: "ctx \<Rightarrow> time \<Rightarrow> (gostring \<times> time) option"
  cel_Compile :: "gostring \<Rightarrow> gostring result" \<comment> \<open>an expression to its syntax tree\<close>
  cel_Program :: "gostring \<Rightarrow> gostring result"
  cel_Eval :: "gostring \<Rightarrow> activation \<Rightarrow> cel_value result"
  eventbus_NewEnvelope :: "Metadata \<Rightarrow> AuthorizationChangedEvent \<Rightarrow> EventEnvelope result"
  proto_Marshal :: "EventEnvelope \<Rightarrow> gostring result"
  operations :: "operation_entry recorder option"
  security :: "security_entry recorder option"
  notify_set :: bool
  sentinel_texts :: "sentinel \<Rightarrow> gostring"

record world =
  w_db :: database
  w_cache :: cache
  w_cacheTTL :: time
  w_notified :: "(gostring \<times> nat) list"
  w_operations :: "operation_entry list"
  w_security :: "security_entry list"

section \<open>The tenant check\<close>

definition enforceInteractiveTenant :: "env \<Rightarrow> ctx \<Rightarrow> gostring \<Rightarrow> goerr option" where
  "enforceInteractiveTenant e x targetTenantID =
     (case authorizedManagementTenant x of
        Some authorizedTenantID \<Rightarrow>
          if TrimSpace targetTenantID = authorizedTenantID then None
          else Some (Forbidden ''authorization resource belongs to another tenant scope'')
      | None \<Rightarrow>
          (case ctx_principal x of
             None \<Rightarrow> Some (Unauthorized ''authenticated caller is required'')
           | Some caller \<Rightarrow>
               if TrimSpace (pr_ID caller) = [] then Some (Unauthorized ''authenticated caller is required'')
               else if pr_Type caller \<noteq> TypeUser then None
               else if TrimSpace (pr_TenantID caller) \<noteq> [] \<and> TrimSpace (pr_MembershipID caller) = []
               then Some (Forbidden ''tenant-scoped user membership is required'')
               else
                 let expectedTenantID =
                   (if TrimSpace (pr_TenantID caller) \<noteq> [] then TrimSpace (pr_TenantID caller) else PlatformTenantID e)
                 in if TrimSpace targetTenantID \<noteq> expectedTenantID
                    then Some (Forbidden ''authorization resource belongs to another tenant scope'')
                    else None))"

section \<open>Mutations\<close>

text \<open>The closure that \<open>mutate\<close> hands to \<open>Within\<close>: the operation, the version bump and the
  outbox event, in this order, and the version it assigns to \<open>committedPolicyVersion\<close>.\<close>

definition changed_event :: "gostring \<Rightarrow> gostring \<Rightarrow> gostring \<Rightarrow> nat \<Rightarrow> gostring \<Rightarrow> AuthorizationChangedEvent" where
  "changed_event tenantID subjectID subjectType policyVersion reason =
     \<lparr>ev_TenantId = tenantID, ev_SubjectId = subjectID, ev_SubjectType = subjectTypeProto subjectType,
      ev_PolicyVersion = policyVersion, ev_Reason = reason\<rparr>"

definition changed_metadata :: "env \<Rightarrow> gostring \<Rightarrow> AuditFields \<Rightarrow> Metadata" where
  "changed_metadata e tenantID flds =
     \<lparr>md_EventID = uuid_NewString e 1, md_EventType = ''platform.authorization.v1.AuthorizationChanged'',
      md_AggregateID = tenantID, md_AggregateType = ''authorization_policy'', md_TenantID = tenantID,
      md_SchemaVersion = 1, md_ActorID = UpdatedBy flds, md_OccurredAt = UpdatedAt flds\<rparr>"

definition mutate_tx ::
  "env \<Rightarrow> gostring \<Rightarrow> gostring \<Rightarrow> gostring \<Rightarrow> gostring \<Rightarrow> AuditFields \<Rightarrow> (conn \<Rightarrow> database \<Rightarrow> database result)
   \<Rightarrow> conn \<Rightarrow> database \<Rightarrow> (nat \<times> database) result" where
  "mutate_tx e tenantID subjectID subjectType reason flds operation tx db =
     (case operation tx db of
        Inl err \<Rightarrow> Inl err
      | Inr db1 \<Rightarrow>
     (case repo_BumpPolicyVersion tx tenantID db1 of
        Inl err \<Rightarrow> Inl err
      | Inr (policyVersion, db2) \<Rightarrow>
     (case eventbus_NewEnvelope e (changed_metadata e tenantID flds)
             (changed_event tenantID subjectID subjectType policyVersion reason) of
        Inl err \<Rightarrow> Inl (Wrapf ''build authorization event'' err)
      | Inr envelope \<Rightarrow>
     (case proto_Marshal e envelope of
        Inl err \<Rightarrow> Inl (Wrapf ''marshal authorization event'' err)
      | Inr encoded \<Rightarrow>
     (case repo_AddOutbox tx \<lparr>oe_ID = en_EventId envelope, oe_Subject = ''platform.authorization.changed.v1'',
              oe_Envelope = encoded, oe_AvailableAt = UpdatedAt flds, oe_Audit = flds\<rparr> db2 of
        Inl err \<Rightarrow> Inl err
      | Inr db3 \<Rightarrow> Inr (policyVersion, db3))))))"

definition request_id :: "ctx \<Rightarrow> gostring" where
  "request_id x = (case ctx_requestID x of None \<Rightarrow> [] | Some s \<Rightarrow> s)"

definition error_message :: "env \<Rightarrow> goerr option \<Rightarrow> gostring" where
  "error_message e err = (case err of None \<Rightarrow> [] | Some er \<Rightarrow> error_text (sentinel_texts e) er)"

text \<open>The operation-log part: the entry that reaches the recorder and the error it gives rise
  to. The duration of the entry is not modelled.\<close>

definition record_operation ::
  "env \<Rightarrow> ctx \<Rightarrow> gostring \<Rightarrow> gostring \<Rightarrow> gostring \<Rightarrow> gostring \<Rightarrow> goerr option \<Rightarrow> operation_entry list \<times> goerr option" where
  "record_operation e x tenantID subjectID subjectType reason err =
     (case operations e of
        None \<Rightarrow> ([], None)
      | Some r \<Rightarrow>
          if \<not> rec_Enabled r then ([], None)
          else
            let entry = \<lparr>ol_Operation = ''authorization.'' @ reason, ol_ResourceType = ''authorization_policy'',
                  ol_ResourceID = tenantID, ol_Source = ''authorization-service'', ol_Protocol = ''internal'',
                  ol_Request = [(''tenant_id'', tenantID), (''subject_id'', subjectID), (''subject_type'', subjectType)],
                  ol_RequestID = request_id x, ol_Succeeded = (err = None), ol_ErrorMessage = error_message e err\<rparr>
            in ([entry],
                case rec_Record r entry of
                  Some recordErr \<Rightarrow> if err = None then Some (Unavailable ''operation log unavailable'' (Some recordErr)) else None
                | None \<Rightarrow> None))"

definition record_security ::
  "env \<Rightarrow> ctx \<Rightarrow> gostring \<Rightarrow> gostring \<Rightarrow> gostring \<Rightarrow> gostring \<Rightarrow> goerr option \<Rightarrow> security_entry list \<times> goerr option" where
  "record_security e x tenantID subjectID subjectType reason err =
     (case security e of
        None \<Rightarrow> ([], None)
      | Some r \<Rightarrow>
          if \<not> rec_Enabled r then ([], None)
          else
            let entry = \<lparr>sl_SubjectID = subjectID, sl_SubjectType = subjectType, sl_TenantID = tenantID,
                  sl_Succeeded = (err = None), sl_Reason = reason, sl_RequestID = request_id x,
                  sl_ClientIP = ctx_clientIP x, sl_UserAgent = ctx_userAgent x, sl_ErrorMessage = error_message e err\<rparr>
            in ([entry],
                case rec_Record r entry of
                  Some recordErr \<Rightarrow>
                    if err = None \<and> rec_FailClosed r then Some (Unavailable ''security log unavailable'' (Some recordErr)) else None
                | None \<Rightarrow> None))"

definition mutate ::
  "env \<Rightarrow> ctx \<Rightarrow> nat \<Rightarrow> gostring \<Rightarrow> gostring \<Rightarrow> gostring \<Rightarrow> gostring \<Rightarrow> AuditFields
   \<Rightarrow> (conn \<Rightarrow> database \<Rightarrow> database result) \<Rightarrow> world \<Rightarrow> goerr option \<times> world" where
  "mutate e x n tenantID subjectID subjectType reason flds operation w =
     (let outcome = Within (conn_of e n) x (mutate_tx e tenantID subjectID subjectType reason flds operation) (w_db w);
          err = (case outcome of Inl er \<Rightarrow> Some (translate er) | Inr r \<Rightarrow> None);
          w1 = (case outcome of
                  Inl er \<Rightarrow> w
                | Inr (committedPolicyVersion, db) \<Rightarrow>
                    w\<lparr>w_db := db, w_cache := invalidateTenant tenantID (w_cache w),
                      w_notified := w_notified w @ (if notify_set e then [(tenantID, committedPolicyVersion)] else [])\<rparr>);
          opl = record_operation e x tenantID subjectID subjectType reason err;
          secl = record_security e x tenantID subjectID subjectType reason err;
          recordingErr = (case snd secl of Some er \<Rightarrow> Some er | None \<Rightarrow> snd opl);
          w2 = w1\<lparr>w_operations := w_operations w1 @ fst opl, w_security := w_security w1 @ fst secl\<rparr>
      in ((case recordingErr of Some er \<Rightarrow> Some er | None \<Rightarrow> err), w2))"

section \<open>Laws of the tenant check\<close>

text \<open>The tenant scope of a caller: the tenant authorised by the management check, otherwise the
  caller's own tenant, the platform tenant for a user outside tenants, and any tenant for a
  service account.\<close>

definition caller_may_manage :: "env \<Rightarrow> ctx \<Rightarrow> gostring \<Rightarrow> bool" where
  "caller_may_manage e x t =
     (case authorizedManagementTenant x of
        Some a \<Rightarrow> TrimSpace t = a
      | None \<Rightarrow> (case ctx_principal x of
          None \<Rightarrow> False
        | Some p \<Rightarrow> TrimSpace (pr_ID p) \<noteq> [] \<and>
            (pr_Type p = TypeUser \<longrightarrow>
              (if TrimSpace (pr_TenantID p) = [] then TrimSpace t = PlatformTenantID e
               else TrimSpace (pr_MembershipID p) \<noteq> [] \<and> TrimSpace t = TrimSpace (pr_TenantID p)))))"

lemma enforce_None_iff: "enforceInteractiveTenant e x t = None \<longleftrightarrow> caller_may_manage e x t"
  by (auto simp: enforceInteractiveTenant_def caller_may_manage_def Let_def split: option.splits)

lemma caller_may_manage_trim [simp]: "caller_may_manage e x (TrimSpace t) = caller_may_manage e x t"
  by (simp only: caller_may_manage_def TrimSpace_idem)

lemma enforce_code:
  "enforceInteractiveTenant e x t = Some err \<Longrightarrow> code_of err = CodeForbidden \<or> code_of err = CodeUnauthorized"
  by (auto simp: enforceInteractiveTenant_def Let_def split: option.splits if_splits)

lemma enforce_trim [simp]: "enforceInteractiveTenant e x (TrimSpace t) = enforceInteractiveTenant e x t"
  by (simp only: enforceInteractiveTenant_def TrimSpace_idem)

section \<open>Laws of mutate\<close>

text \<open>A committed mutation.\<close>

definition committed ::
  "env \<Rightarrow> ctx \<Rightarrow> nat \<Rightarrow> gostring \<Rightarrow> gostring \<Rightarrow> gostring \<Rightarrow> gostring \<Rightarrow> AuditFields
   \<Rightarrow> (conn \<Rightarrow> database \<Rightarrow> database result) \<Rightarrow> world \<Rightarrow> (nat \<times> database) option" where
  "committed e x n tenantID subjectID subjectType reason flds operation w =
     (case Within (conn_of e n) x (mutate_tx e tenantID subjectID subjectType reason flds operation) (w_db w) of
        Inl er \<Rightarrow> None | Inr r \<Rightarrow> Some r)"

lemma record_error_code:
  "snd (record_operation e x t s st rs err) = Some er \<Longrightarrow> err = None \<and> code_of er = CodeDependencyUnavailable"
  "snd (record_security e x t s st rs err) = Some er \<Longrightarrow> err = None \<and> code_of er = CodeDependencyUnavailable"
  by (auto simp: record_operation_def record_security_def Let_def split: option.splits if_splits)

lemma mutate_tx_Inr:
  assumes "mutate_tx e t s st rs flds operation tx db = Inr (v, db')"
  shows "\<exists>db1 db2 event. operation tx db = Inr db1 \<and> repo_BumpPolicyVersion tx t db1 = Inr (v, db2) \<and>
           repo_AddOutbox tx event db2 = Inr db' \<and> oe_Subject event = ''platform.authorization.changed.v1'' \<and>
           (\<exists>envelope. eventbus_NewEnvelope e (changed_metadata e t flds) (changed_event t s st v rs) = Inr envelope
              \<and> proto_Marshal e envelope = Inr (oe_Envelope event) \<and> oe_ID event = en_EventId envelope)"
  using assms by (auto simp: mutate_tx_def split: sum.splits prod.splits)

text \<open>Either nothing was committed, then database, cache and notifications are untouched and an
  error is returned; or the transaction was committed, then the tenant's cached decisions are
  gone and the only error possible is an unavailable log.\<close>

lemma mutate_cases:
  assumes "mutate e x n t s st rs flds operation w = (err, w')"
  obtains
    (rolled_back) er where "committed e x n t s st rs flds operation w = None"
      "err = Some (translate er)" "w_db w' = w_db w" "w_cache w' = w_cache w" "w_notified w' = w_notified w"
      "w_cacheTTL w' = w_cacheTTL w"
      "Within (conn_of e n) x (mutate_tx e t s st rs flds operation) (w_db w) = Inl er"
  | (applied) v where "committed e x n t s st rs flds operation w = Some (v, w_db w')"
      "w_cache w' = invalidateTenant t (w_cache w)" "w_cacheTTL w' = w_cacheTTL w"
      "w_notified w' = w_notified w @ (if notify_set e then [(t, v)] else [])"
      "err = None \<or> code_of (the err) = CodeDependencyUnavailable"
proof (cases "Within (conn_of e n) x (mutate_tx e t s st rs flds operation) (w_db w)")
  case (Inl er)
  have "snd (record_operation e x t s st rs (Some er')) = None" "snd (record_security e x t s st rs (Some er')) = None" for er'
    using record_error_code by (metis not_None_eq)+
  with Inl assms show ?thesis by (intro rolled_back[of er]) (auto simp: mutate_def Let_def committed_def)
next
  case (Inr r)
  obtain v db where r: "r = (v, db)" by (cases r)
  have "err = None \<or> code_of (the err) = CodeDependencyUnavailable"
    using Inr assms record_error_code[of e x t s st rs None]
    by (auto simp: mutate_def Let_def r split: option.splits)
  with Inr assms show ?thesis by (intro applied[of v]) (auto simp: mutate_def Let_def committed_def r)
qed

lemma committedD:
  assumes "committed e x n t s st rs flds operation w = Some (v, db')"
  obtains tx db1 db2 event where "setAuditActor (conn_of e n) x = Inr tx" "operation tx (w_db w) = Inr db1"
    "repo_BumpPolicyVersion tx t db1 = Inr (v, db2)" "repo_AddOutbox tx event db2 = Inr db'"
    "oe_Subject event = ''platform.authorization.changed.v1''"
    "\<exists>envelope. eventbus_NewEnvelope e (changed_metadata e t flds) (changed_event t s st v rs) = Inr envelope
              \<and> proto_Marshal e envelope = Inr (oe_Envelope event) \<and> oe_ID event = en_EventId envelope"
proof -
  from assms obtain tx where tx: "setAuditActor (conn_of e n) x = Inr tx"
    and m: "mutate_tx e t s st rs flds operation tx (w_db w) = Inr (v, db')"
    by (auto simp: committed_def Within_Inr_iff split: sum.splits)
  from mutate_tx_Inr[OF m] tx show ?thesis by (metis that)
qed

lemma committed_wf:
  assumes "committed e x n t s st rs flds operation w = Some (v, db')"
    and "\<And>tx db1. operation tx (w_db w) = Inr db1 \<Longrightarrow> db_wf db1"
  shows "db_wf db'"
  using assms(1) by (rule committedD) (use assms(2) repo_BumpPolicyVersion_wf repo_AddOutbox_wf in blast)

lemma mutate_wf:
  assumes "mutate e x n t s st rs flds operation w = (err, w')" "db_wf (w_db w)"
    and "\<And>tx db1. operation tx (w_db w) = Inr db1 \<Longrightarrow> db_wf db1"
  shows "db_wf (w_db w')"
  using assms(1) by (cases rule: mutate_cases) (use assms(2,3) committed_wf in auto)

end
