(* ===== verification/Service.thy ===== *)
theory Service
  imports Service_Core
begin

text \<open>
  The management operations of \<open>authorization.Service\<close>: permissions, roles, role permissions
  and bindings. Every method of the Go type is one definition with the method's name after the
  prefix \<open>svc_\<close>, its guards in the order of the code. An operation that changes state returns
  its result and the new world; an operation that only reads returns its result. \<open>conn_of e n\<close>
  is used for the \<open>n\<close>-th access to the database.
\<close>

section \<open>Permissions\<close>

definition compile_issue :: "env \<Rightarrow> gostring \<Rightarrow> goerr option" where
  "compile_issue e condition =
     (if condition \<noteq> []
      then (case cel_Compile e condition of
              Inl issue \<Rightarrow> Some (Invalid ''invalid ABAC condition expression'' (Some issue))
            | Inr ast \<Rightarrow> None)
      else None)"

definition no_actor :: goerr where
  "no_actor = Unauthorized ''authenticated actor is required''"

definition svc_CreatePermission ::
  "env \<Rightarrow> ctx \<Rightarrow> gostring \<Rightarrow> gostring \<Rightarrow> gostring \<Rightarrow> gostring \<Rightarrow> gostring \<Rightarrow> gostring list \<Rightarrow> world
   \<Rightarrow> Permission result \<times> world" where
  "svc_CreatePermission e x tenantID0 code0 name0 resourceType0 action0 conditionExpression w =
     (let tenantID = TrimSpace tenantID0; code = ToLower (TrimSpace code0); name = TrimSpace name0;
          resourceType = ToLower (TrimSpace resourceType0); action = ToLower (TrimSpace action0) in
      if tenantID = [] \<or> code = [] \<or> name = [] \<or> resourceType = [] \<or> action = []
      then (Inl (Invalid ''tenant_id, code, name, resource_type and action are required'' None), w)
      else case enforceInteractiveTenant e x tenantID of
        Some err \<Rightarrow> (Inl err, w)
      | None \<Rightarrow>
      (let condition = (case conditionExpression of [] \<Rightarrow> [] | ce # _ \<Rightarrow> TrimSpace ce) in
       case compile_issue e condition of
        Some err \<Rightarrow> (Inl err, w)
      | None \<Rightarrow>
      (case audit_New e x (clock e 0) of
        None \<Rightarrow> (Inl no_actor, w)
      | Some flds \<Rightarrow>
          let value = \<lparr>p_ID = uuid_NewString e 0, p_TenantID = tenantID, p_Code = code, p_Name = name,
                       p_ResourceType = resourceType, p_Action = action, p_ConditionExpression = condition,
                       p_Status = ''active'', p_Audit = flds\<rparr> in
          case mutate e x 0 tenantID [] ''unspecified'' ''permission_created'' flds
                 (\<lambda>tx db. repo_CreatePermission tx value db) w of
            (Some err, w') \<Rightarrow> (Inl err, w')
          | (None, w') \<Rightarrow> (Inr value, w'))))"

definition page_of :: "int \<Rightarrow> int \<Rightarrow> ('a list \<times> int) result \<Rightarrow> 'a Page result" where
  "page_of page pageSize r =
     translated (map_sum id (\<lambda>(items, count). \<lparr>pg_Items = items, pg_Total = count, pg_Page = page, pg_PageSize = pageSize\<rparr>) r)"

definition svc_SearchPermissions ::
  "env \<Rightarrow> ctx \<Rightarrow> gostring \<Rightarrow> PermissionFilter \<Rightarrow> int \<Rightarrow> int \<Rightarrow> world \<Rightarrow> Permission Page result" where
  "svc_SearchPermissions e x tenantID0 f0 page0 pageSize0 w =
     (let tenantID = TrimSpace tenantID0 in
      case enforceInteractiveTenant e x tenantID of
        Some err \<Rightarrow> Inl err
      | None \<Rightarrow> (case normalizePermissionFilter f0 of
          Inl err \<Rightarrow> Inl err
        | Inr f \<Rightarrow> (case normalizePage page0 pageSize0 of
            Inl err \<Rightarrow> Inl err
          | Inr (page, pageSize) \<Rightarrow>
              page_of page pageSize
                (repo_SearchPermissions (conn_of e 0) (w_db w) tenantID f pageSize (page_offset page pageSize)))))"

definition svc_ListPermissions :: "env \<Rightarrow> ctx \<Rightarrow> gostring \<Rightarrow> int \<Rightarrow> int \<Rightarrow> world \<Rightarrow> Permission Page result" where
  "svc_ListPermissions e x tenantID page pageSize w =
     svc_SearchPermissions e x tenantID empty_permission_filter page pageSize w"

definition svc_ListPermissionCatalog ::
  "env \<Rightarrow> ctx \<Rightarrow> gostring \<Rightarrow> gostring \<Rightarrow> int \<Rightarrow> int \<Rightarrow> world \<Rightarrow> Permission Page result" where
  "svc_ListPermissionCatalog e x tenantID0 search0 page0 pageSize0 w =
     (let tenantID = TrimSpace tenantID0; search = TrimSpace search0 in
      if tenantID = [] \<or> length search > 100 then Inl (Invalid ''invalid permission catalog query'' None)
      else case normalizePage page0 pageSize0 of
        Inl err \<Rightarrow> Inl err
      | Inr (page, pageSize) \<Rightarrow>
          page_of page pageSize
            (repo_ListPermissionCatalog (conn_of e 0) (w_db w) tenantID search pageSize (page_offset page pageSize)))"

definition svc_UpdatePermission ::
  "env \<Rightarrow> ctx \<Rightarrow> gostring \<Rightarrow> gostring \<Rightarrow> gostring \<Rightarrow> gostring \<Rightarrow> gostring \<Rightarrow> int \<Rightarrow> world \<Rightarrow> Permission result \<times> world" where
  "svc_UpdatePermission e x tenantID0 id0 name0 conditionExpression0 status0 version w =
     (let tenantID = TrimSpace tenantID0; ident = TrimSpace id0; name = TrimSpace name0;
          conditionExpression = TrimSpace conditionExpression0; status = ToLower (TrimSpace status0) in
      if tenantID = [] \<or> ident = [] \<or> name = [] \<or> version < 1 \<or> (status \<noteq> ''active'' \<and> status \<noteq> ''disabled'')
      then (Inl (Invalid ''invalid permission update'' None), w)
      else case compile_issue e conditionExpression of
        Some err \<Rightarrow> (Inl err, w)
      | None \<Rightarrow> (case enforceInteractiveTenant e x tenantID of
        Some err \<Rightarrow> (Inl err, w)
      | None \<Rightarrow> (case repo_GetPermission (conn_of e 0) (w_db w) tenantID ident of
        Inl err \<Rightarrow> (Inl (translate err), w)
      | Inr current \<Rightarrow> (case audit_UpdatedBy e x (clock e 0) of
        None \<Rightarrow> (Inl no_actor, w)
      | Some (actor, now) \<Rightarrow>
          let value = current\<lparr>p_Name := name, p_ConditionExpression := conditionExpression, p_Status := status,
                p_Audit := (p_Audit current)\<lparr>Version := version, UpdatedAt := now, UpdatedBy := actor\<rparr>\<rparr>;
              flds = \<lparr>Version = version, CreatedAt = CreatedAt (p_Audit current), UpdatedAt = now,
                      CreatedBy = CreatedBy (p_Audit current), UpdatedBy = actor\<rparr> in
          case mutate e x 1 (p_TenantID current) [] ''unspecified'' ''permission_updated'' flds
                 (\<lambda>tx db. repo_UpdatePermission tx value db) w of
            (Some err, w') \<Rightarrow> (Inl err, w')
          | (None, w') \<Rightarrow> (repo_GetPermission (conn_of e 2) (w_db w') tenantID ident, w')))))"

definition svc_GetPermission :: "env \<Rightarrow> ctx \<Rightarrow> gostring \<Rightarrow> gostring \<Rightarrow> world \<Rightarrow> Permission result" where
  "svc_GetPermission e x tenantID0 id0 w =
     (let tenantID = TrimSpace tenantID0; ident = TrimSpace id0 in
      if tenantID = [] \<or> ident = [] then Inl (Invalid ''permission_id is required'' None)
      else case enforceInteractiveTenant e x tenantID of
        Some err \<Rightarrow> Inl err
      | None \<Rightarrow> translated (repo_GetPermission (conn_of e 0) (w_db w) tenantID ident))"

section \<open>Roles\<close>

definition svc_CreateRole ::
  "env \<Rightarrow> ctx \<Rightarrow> gostring \<Rightarrow> gostring \<Rightarrow> gostring \<Rightarrow> gostring \<Rightarrow> gostring \<Rightarrow> world \<Rightarrow> Role result \<times> world" where
  "svc_CreateRole e x tenantID0 code0 name0 description dataScope0 w =
     (let tenantID = TrimSpace tenantID0; code = ToLower (TrimSpace code0); name = TrimSpace name0;
          dataScope = ToLower (TrimSpace dataScope0) in
      if tenantID = [] \<or> code = [] \<or> name = [] \<or> \<not> validDataScope dataScope
      then (Inl (Invalid ''invalid role'' None), w)
      else case enforceInteractiveTenant e x tenantID of
        Some err \<Rightarrow> (Inl err, w)
      | None \<Rightarrow> (case audit_New e x (clock e 0) of
        None \<Rightarrow> (Inl no_actor, w)
      | Some flds \<Rightarrow>
          let value = \<lparr>r_ID = uuid_NewString e 0, r_TenantID = tenantID, r_Code = code, r_Name = name,
                       r_Description = TrimSpace description, r_DataScope = dataScope, r_Status = ''active'',
                       r_Audit = flds\<rparr> in
          case mutate e x 0 tenantID [] ''unspecified'' ''role_created'' flds (\<lambda>tx db. repo_CreateRole tx value db) w of
            (Some err, w') \<Rightarrow> (Inl err, w')
          | (None, w') \<Rightarrow> (Inr value, w')))"

definition svc_UpdateRole ::
  "env \<Rightarrow> ctx \<Rightarrow> gostring \<Rightarrow> gostring \<Rightarrow> gostring \<Rightarrow> gostring \<Rightarrow> gostring \<Rightarrow> gostring \<Rightarrow> int \<Rightarrow> world
   \<Rightarrow> Role result \<times> world" where
  "svc_UpdateRole e x tenantID0 ident name description dataScope status version w =
     (let tenantID = TrimSpace tenantID0 in
      if tenantID = [] \<or> ident = [] \<or> TrimSpace name = [] \<or> version < 1 \<or> \<not> validDataScope dataScope
         \<or> (status \<noteq> ''active'' \<and> status \<noteq> ''disabled'')
      then (Inl (Invalid ''invalid role update'' None), w)
      else case enforceInteractiveTenant e x tenantID of
        Some err \<Rightarrow> (Inl err, w)
      | None \<Rightarrow> (case repo_GetRole (conn_of e 0) (w_db w) tenantID ident of
        Inl err \<Rightarrow> (Inl (translate err), w)
      | Inr current \<Rightarrow> (case audit_UpdatedBy e x (clock e 0) of
        None \<Rightarrow> (Inl no_actor, w)
      | Some (actor, now) \<Rightarrow>
          let value = current\<lparr>r_Name := TrimSpace name, r_Description := TrimSpace description, r_DataScope := dataScope,
                r_Status := status, r_Audit := (r_Audit current)\<lparr>Version := version, UpdatedAt := now, UpdatedBy := actor\<rparr>\<rparr>;
              flds = \<lparr>Version = version, CreatedAt = CreatedAt (r_Audit current), UpdatedAt = now,
                      CreatedBy = CreatedBy (r_Audit current), UpdatedBy = actor\<rparr> in
          case mutate e x 1 (r_TenantID current) [] ''unspecified'' ''role_updated'' flds
                 (\<lambda>tx db. repo_UpdateRole tx value db) w of
            (Some err, w') \<Rightarrow> (Inl err, w')
          | (None, w') \<Rightarrow> (repo_GetRole (conn_of e 2) (w_db w') tenantID ident, w'))))"

definition svc_GetRole :: "env \<Rightarrow> ctx \<Rightarrow> gostring \<Rightarrow> gostring \<Rightarrow> world \<Rightarrow> Role result" where
  "svc_GetRole e x tenantID0 id0 w =
     (let tenantID = TrimSpace tenantID0; ident = TrimSpace id0 in
      if tenantID = [] \<or> ident = [] then Inl (Invalid ''role_id is required'' None)
      else case enforceInteractiveTenant e x tenantID of
        Some err \<Rightarrow> Inl err
      | None \<Rightarrow> translated (repo_GetRole (conn_of e 0) (w_db w) tenantID ident))"

definition svc_SearchRolesFiltered ::
  "env \<Rightarrow> ctx \<Rightarrow> gostring \<Rightarrow> RoleFilter \<Rightarrow> int \<Rightarrow> int \<Rightarrow> world \<Rightarrow> Role Page result" where
  "svc_SearchRolesFiltered e x tenantID0 f0 page0 pageSize0 w =
     (let tenantID = TrimSpace tenantID0 in
      case enforceInteractiveTenant e x tenantID of
        Some err \<Rightarrow> Inl err
      | None \<Rightarrow> (case normalizeRoleFilter f0 of
          Inl err \<Rightarrow> Inl err
        | Inr f \<Rightarrow> (case normalizePage page0 pageSize0 of
            Inl err \<Rightarrow> Inl err
          | Inr (page, pageSize) \<Rightarrow>
              page_of page pageSize
                (repo_SearchRolesFiltered (conn_of e 0) (w_db w) tenantID f pageSize (page_offset page pageSize)))))"

definition svc_ListRoles :: "env \<Rightarrow> ctx \<Rightarrow> gostring \<Rightarrow> int \<Rightarrow> int \<Rightarrow> world \<Rightarrow> Role Page result" where
  "svc_ListRoles e x tenantID page pageSize w = svc_SearchRolesFiltered e x tenantID empty_role_filter page pageSize w"

definition svc_SearchRoles ::
  "env \<Rightarrow> ctx \<Rightarrow> gostring \<Rightarrow> gostring \<Rightarrow> gostring \<Rightarrow> int \<Rightarrow> int \<Rightarrow> world \<Rightarrow> Role Page result" where
  "svc_SearchRoles e x tenantID0 keyword0 status0 page0 pageSize0 w =
     (let tenantID = TrimSpace tenantID0; keyword = TrimSpace keyword0; status = TrimSpace status0 in
      if length keyword > 100 then Inl (Invalid ''role keyword must not exceed 100 bytes'' None)
      else if status \<noteq> [] \<and> status \<noteq> ''active'' \<and> status \<noteq> ''disabled'' then Inl (Invalid ''invalid role status'' None)
      else case enforceInteractiveTenant e x tenantID of
        Some err \<Rightarrow> Inl err
      | None \<Rightarrow> (case normalizePage page0 pageSize0 of
          Inl err \<Rightarrow> Inl err
        | Inr (page, pageSize) \<Rightarrow>
            page_of page pageSize
              (repo_SearchRoles (conn_of e 0) (w_db w) tenantID keyword status pageSize (page_offset page pageSize))))"

definition svc_BatchGetRoles :: "env \<Rightarrow> ctx \<Rightarrow> gostring \<Rightarrow> gostring list \<Rightarrow> world \<Rightarrow> Role list result" where
  "svc_BatchGetRoles e x tenantID0 ids w =
     (let tenantID = TrimSpace tenantID0 in
      case enforceInteractiveTenant e x tenantID of
        Some err \<Rightarrow> Inl err
      | None \<Rightarrow> (case unique_trimmed ''role_ids'' [] [] ids of
          Inl err \<Rightarrow> Inl err
        | Inr unique \<Rightarrow>
            if length unique = 0 then Inr []
            else if length unique > 100 then Inl (Invalid ''role_ids must not contain more than 100 values'' None)
            else translated (repo_BatchGetRoles (conn_of e 0) (w_db w) tenantID unique)))"

section \<open>Role permissions\<close>

definition svc_GrantRolePermission ::
  "env \<Rightarrow> ctx \<Rightarrow> gostring \<Rightarrow> gostring \<Rightarrow> gostring \<Rightarrow> world \<Rightarrow> RolePermission result \<times> world" where
  "svc_GrantRolePermission e x tenantID roleID permissionID w =
     (case repo_GetRole (conn_of e 0) (w_db w) tenantID roleID of
        Inl err \<Rightarrow> (Inl (translate err), w)
      | Inr role \<Rightarrow> (case repo_GetPermission (conn_of e 1) (w_db w) tenantID permissionID of
        Inl err \<Rightarrow> (Inl (translate err), w)
      | Inr permission \<Rightarrow>
      (if tenantID = [] \<or> tenantID \<noteq> r_TenantID role \<or> tenantID \<noteq> p_TenantID permission
       then (Inl (Invalid ''role and permission must belong to tenant'' None), w)
       else case enforceInteractiveTenant e x tenantID of
        Some err \<Rightarrow> (Inl err, w)
      | None \<Rightarrow>
          (let existing = repo_GetRolePermissionByPair (conn_of e 2) (w_db w) tenantID roleID permissionID;
               proceed = (\<lambda>flds operation.
                  case mutate e x 3 tenantID [] ''unspecified'' ''role_permission_granted'' flds operation w of
                    (Some err, w') \<Rightarrow> (Inl err, w')
                  | (None, w') \<Rightarrow> (repo_GetRolePermissionByPair (conn_of e 4) (w_db w') tenantID roleID permissionID, w'))
           in case existing of
             Inr old \<Rightarrow>
               if rp_Status old = ''active'' then (Inr old, w)
               else (case audit_New e x (clock e 0) of
                       None \<Rightarrow> (Inl no_actor, w)
                     | Some flds \<Rightarrow> proceed flds (\<lambda>tx db. repo_UpdateRolePermission tx
                         (old\<lparr>rp_Status := ''active'',
                              rp_Audit := (rp_Audit old)\<lparr>UpdatedAt := UpdatedAt flds, UpdatedBy := UpdatedBy flds\<rparr>\<rparr>) db))
           | Inl existingErr \<Rightarrow>
               if \<not> err_is ErrNotFound existingErr then (Inl (translate existingErr), w)
               else (case audit_New e x (clock e 0) of
                       None \<Rightarrow> (Inl no_actor, w)
                     | Some flds \<Rightarrow> proceed flds (\<lambda>tx db. repo_CreateRolePermission tx
                         \<lparr>rp_ID = uuid_NewString e 0, rp_TenantID = tenantID, rp_RoleID = roleID,
                          rp_PermissionID = permissionID, rp_Status = ''active'', rp_Audit = flds\<rparr> db))))))"

definition svc_RevokeRolePermission ::
  "env \<Rightarrow> ctx \<Rightarrow> gostring \<Rightarrow> gostring \<Rightarrow> int \<Rightarrow> world \<Rightarrow> RolePermission result \<times> world" where
  "svc_RevokeRolePermission e x tenantID0 ident version w =
     (let tenantID = TrimSpace tenantID0 in
      case enforceInteractiveTenant e x tenantID of
        Some err \<Rightarrow> (Inl err, w)
      | None \<Rightarrow> (case repo_GetRolePermission (conn_of e 0) (w_db w) tenantID ident of
        Inl err \<Rightarrow> (Inl (translate err), w)
      | Inr value0 \<Rightarrow> (case audit_UpdatedBy e x (clock e 0) of
        None \<Rightarrow> (Inl no_actor, w)
      | Some (actor, now) \<Rightarrow>
          let value = value0\<lparr>rp_Status := ''revoked'',
                rp_Audit := (rp_Audit value0)\<lparr>Version := version, UpdatedAt := now, UpdatedBy := actor\<rparr>\<rparr>;
              flds = \<lparr>Version = version, CreatedAt = CreatedAt (rp_Audit value), UpdatedAt = now,
                      CreatedBy = CreatedBy (rp_Audit value), UpdatedBy = actor\<rparr> in
          case mutate e x 1 (rp_TenantID value) [] ''unspecified'' ''role_permission_revoked'' flds
                 (\<lambda>tx db. repo_UpdateRolePermission tx value db) w of
            (Some err, w') \<Rightarrow> (Inl err, w')
          | (None, w') \<Rightarrow> (repo_GetRolePermission (conn_of e 2) (w_db w') tenantID ident, w'))))"

definition svc_ListRolePermissions :: "env \<Rightarrow> ctx \<Rightarrow> gostring \<Rightarrow> gostring \<Rightarrow> world \<Rightarrow> RolePermission list result" where
  "svc_ListRolePermissions e x tenantID roleID w =
     (case enforceInteractiveTenant e x tenantID of
        Some err \<Rightarrow> Inl err
      | None \<Rightarrow> (case repo_GetRole (conn_of e 0) (w_db w) tenantID roleID of
          Inl err \<Rightarrow> Inl (translate err)
        | Inr role \<Rightarrow> translated (repo_ListRolePermissions (conn_of e 1) (w_db w) tenantID roleID)))"

definition svc_BatchGetRolePermissions ::
  "env \<Rightarrow> ctx \<Rightarrow> gostring \<Rightarrow> gostring \<Rightarrow> gostring list \<Rightarrow> world \<Rightarrow> RolePermission list result" where
  "svc_BatchGetRolePermissions e x tenantID0 roleID0 permissionIDs w =
     (let tenantID = TrimSpace tenantID0; roleID = TrimSpace roleID0 in
      if tenantID = [] \<or> roleID = [] then Inl (Invalid ''role_id is required'' None)
      else case enforceInteractiveTenant e x tenantID of
        Some err \<Rightarrow> Inl err
      | None \<Rightarrow> (case repo_GetRole (conn_of e 0) (w_db w) tenantID roleID of
          Inl err \<Rightarrow> Inl (translate err)
        | Inr role \<Rightarrow> (case unique_trimmed ''permission_ids'' [] [] permissionIDs of
            Inl err \<Rightarrow> Inl err
          | Inr unique \<Rightarrow>
              if length unique = 0 then Inr []
              else if length unique > 100 then Inl (Invalid ''permission_ids must not contain more than 100 values'' None)
              else translated (repo_BatchGetRolePermissions (conn_of e 1) (w_db w) tenantID roleID unique))))"

section \<open>Bindings\<close>

definition svc_CreateBinding ::
  "env \<Rightarrow> ctx \<Rightarrow> gostring \<Rightarrow> gostring \<Rightarrow> gostring \<Rightarrow> gostring \<Rightarrow> gostring \<Rightarrow> world \<Rightarrow> Binding result \<times> world" where
  "svc_CreateBinding e x tenantID subjectID subjectType0 roleID organizationUnitID w =
     (case repo_GetRole (conn_of e 0) (w_db w) tenantID roleID of
        Inl err \<Rightarrow> (Inl (translate err), w)
      | Inr role \<Rightarrow>
      (let subjectType = ToLower (TrimSpace subjectType0) in
       if tenantID = [] \<or> subjectID = [] \<or> r_TenantID role \<noteq> tenantID
          \<or> \<not> validSubjectForTenant (PlatformTenantID e) tenantID subjectType
       then (Inl (Invalid ''invalid role binding'' None), w)
       else case enforceInteractiveTenant e x tenantID of
        Some err \<Rightarrow> (Inl err, w)
      | None \<Rightarrow> (case audit_New e x (clock e 0) of
        None \<Rightarrow> (Inl no_actor, w)
      | Some flds \<Rightarrow>
          let value = \<lparr>b_ID = uuid_NewString e 0, b_TenantID = tenantID, b_SubjectID = subjectID,
                       b_SubjectType = subjectType, b_RoleID = roleID, b_OrganizationUnitID = organizationUnitID,
                       b_Status = ''active'', b_Audit = flds\<rparr> in
          case mutate e x 1 tenantID subjectID subjectType ''binding_created'' flds (\<lambda>tx db. repo_CreateBinding tx value db) w of
            (Some err, w') \<Rightarrow> (Inl err, w')
          | (None, w') \<Rightarrow> (Inr value, w'))))"

definition svc_RevokeBinding ::
  "env \<Rightarrow> ctx \<Rightarrow> gostring \<Rightarrow> gostring \<Rightarrow> int \<Rightarrow> world \<Rightarrow> Binding result \<times> world" where
  "svc_RevokeBinding e x tenantID ident version w =
     (case enforceInteractiveTenant e x tenantID of
        Some err \<Rightarrow> (Inl err, w)
      | None \<Rightarrow> (case repo_GetBinding (conn_of e 0) (w_db w) tenantID ident of
        Inl err \<Rightarrow> (Inl (translate err), w)
      | Inr value0 \<Rightarrow> (case audit_UpdatedBy e x (clock e 0) of
        None \<Rightarrow> (Inl no_actor, w)
      | Some (actor, now) \<Rightarrow>
          let value = value0\<lparr>b_Status := ''revoked'',
                b_Audit := (b_Audit value0)\<lparr>Version := version, UpdatedAt := now, UpdatedBy := actor\<rparr>\<rparr>;
              flds = \<lparr>Version = version, CreatedAt = CreatedAt (b_Audit value), UpdatedAt = now,
                      CreatedBy = CreatedBy (b_Audit value), UpdatedBy = actor\<rparr> in
          case mutate e x 1 (b_TenantID value) (b_SubjectID value) (b_SubjectType value) ''binding_revoked'' flds
                 (\<lambda>tx db. repo_UpdateBinding tx value db) w of
            (Some err, w') \<Rightarrow> (Inl err, w')
          | (None, w') \<Rightarrow> (repo_GetBinding (conn_of e 2) (w_db w') tenantID ident, w'))))"

definition svc_GetBinding :: "env \<Rightarrow> ctx \<Rightarrow> gostring \<Rightarrow> gostring \<Rightarrow> world \<Rightarrow> Binding result" where
  "svc_GetBinding e x tenantID0 id0 w =
     (let tenantID = TrimSpace tenantID0; ident = TrimSpace id0 in
      if tenantID = [] \<or> ident = [] then Inl (Invalid ''binding_id is required'' None)
      else case enforceInteractiveTenant e x tenantID of
        Some err \<Rightarrow> Inl err
      | None \<Rightarrow> translated (repo_GetBinding (conn_of e 0) (w_db w) tenantID ident))"

definition svc_SearchBindings ::
  "env \<Rightarrow> ctx \<Rightarrow> gostring \<Rightarrow> BindingFilter \<Rightarrow> int \<Rightarrow> int \<Rightarrow> world \<Rightarrow> Binding Page result" where
  "svc_SearchBindings e x tenantID0 f00 page0 pageSize0 w =
     (let tenantID = TrimSpace tenantID0;
          f0 = f00\<lparr>bf_SubjectID := TrimSpace (bf_SubjectID f00), bf_SubjectType := ToLower (TrimSpace (bf_SubjectType f00))\<rparr> in
      if (bf_SubjectID f0 = []) \<noteq> (bf_SubjectType f0 = []) \<or> (bf_SubjectType f0 \<noteq> [] \<and> \<not> validSubjectType (bf_SubjectType f0))
      then Inl (Invalid ''subject_id and a valid subject_type must be provided together'' None)
      else case enforceInteractiveTenant e x tenantID of
        Some err \<Rightarrow> Inl err
      | None \<Rightarrow> (case normalizeBindingFilter f0 of
          Inl err \<Rightarrow> Inl err
        | Inr f \<Rightarrow> (case normalizePage page0 pageSize0 of
            Inl err \<Rightarrow> Inl err
          | Inr (page, pageSize) \<Rightarrow>
              page_of page pageSize
                (repo_SearchBindings (conn_of e 0) (w_db w) tenantID f pageSize (page_offset page pageSize)))))"

definition svc_ListBindings ::
  "env \<Rightarrow> ctx \<Rightarrow> gostring \<Rightarrow> gostring \<Rightarrow> gostring \<Rightarrow> int \<Rightarrow> int \<Rightarrow> world \<Rightarrow> Binding Page result" where
  "svc_ListBindings e x tenantID subjectID subjectType page pageSize w =
     svc_SearchBindings e x tenantID (empty_binding_filter\<lparr>bf_SubjectID := subjectID, bf_SubjectType := subjectType\<rparr>)
       page pageSize w"

end
