(* ===== verification/Service_Laws.thy ===== *)
theory Service_Laws
  imports Service
begin

text \<open>
  What the management operations guarantee together: every operation is a step that either
  changes nothing or commits one mutation confined to a tenant its caller may manage. From the
  step relation follow the preservation of the tenant invariant over every history, the
  isolation of the other tenants, and that their decisions do not change.
\<close>

section \<open>The view of a tenant\<close>

definition of_tenant :: "('a \<Rightarrow> gostring) \<Rightarrow> gostring \<Rightarrow> 'a table \<Rightarrow> 'a table" where
  "of_tenant T u t = filter (\<lambda>r. T (row_val r) = u) t"

text \<open>The rows of the tenant \<open>u\<close>.\<close>

definition tenant_view :: "gostring \<Rightarrow> database \<Rightarrow> database" where
  "tenant_view u db = \<lparr>permissions = of_tenant p_TenantID u (permissions db), roles = of_tenant r_TenantID u (roles db),
     role_permissions = of_tenant rp_TenantID u (role_permissions db), role_bindings = of_tenant b_TenantID u (role_bindings db),
     subject_groups = of_tenant sg_TenantID u (subject_groups db),
     policy_versions = of_tenant pv_TenantID u (policy_versions db), processed_events = [], outbox_events = []\<rparr>"

lemma of_tenant_insert [simp]:
  "of_tenant T u (insert_row v t) = (if T v = u then insert_row v (of_tenant T u t) else of_tenant T u t)"
  by (simp add: of_tenant_def insert_row_def)

lemma of_tenant_update:
  assumes "\<And>v. P v \<Longrightarrow> T v = t" "\<And>v. T (f v) = T v" "u \<noteq> t"
  shows "of_tenant T u (update_where P f tb) = of_tenant T u tb"
  using assms by (induction tb) (auto simp: of_tenant_def update_where_def)

lemma live_of_tenant: "live (of_tenant T u t) = filter (\<lambda>v. T v = u) (live t)"
  by (induction t) (auto simp: live_def of_tenant_def)

lemma of_tenant_upsert: "u \<noteq> t \<Longrightarrow> of_tenant pv_TenantID u (upsert_policy_version c t tb) = of_tenant pv_TenantID u tb"
proof -
  assume u: "u \<noteq> t"
  have "of_tenant pv_TenantID u
      (map (\<lambda>r. if pv_TenantID (row_val r) = t then Row (bumped_row c (row_val r)) (row_deleted_at r) else r) tb)
     = of_tenant pv_TenantID u tb"
    using u by (induction tb) (auto simp: bumped_row_def of_tenant_def)
  then show ?thesis using u by (auto simp: upsert_policy_version_def)
qed

lemma policy_version_view: "policy_version_of (tenant_view u db) u = policy_version_of db u"
  by (simp add: policy_version_of_def tenant_view_def live_of_tenant)

lemma policy_version_outbox [simp]:
  "policy_version_of (db\<lparr>outbox_events := es\<rparr>) t = policy_version_of db t" "pv_live (db\<lparr>outbox_events := es\<rparr>) = pv_live db"
  by (simp_all add: policy_version_of_def pv_live_def)

section \<open>Confined operations\<close>

definition confined :: "gostring \<Rightarrow> (conn \<Rightarrow> database \<Rightarrow> database result) \<Rightarrow> database \<Rightarrow> bool" where
  "confined t operation db =
     (\<forall>tx db1. operation tx db = Inr db1 \<longrightarrow>
        (db_wf db \<longrightarrow> db_wf db1) \<and> policy_versions db1 = policy_versions db \<and> outbox_events db1 = outbox_events db \<and>
        (\<forall>u. u \<noteq> t \<longrightarrow> tenant_view u db1 = tenant_view u db))"

lemma confined_CreatePermission: "confined (p_TenantID v) (\<lambda>tx db. repo_CreatePermission tx v db) db"
proof -
  have "policy_versions db1 = policy_versions db \<and> outbox_events db1 = outbox_events db \<and>
        (\<forall>u. u \<noteq> p_TenantID v \<longrightarrow> tenant_view u db1 = tenant_view u db)" if "repo_CreatePermission tx v db = Inr db1" for tx db1
    using that by (simp add: repo_CreatePermission_def exec_insert_Inr tenant_view_def)
  then show ?thesis using repo_CreatePermission_wf by (fastforce simp: confined_def)
qed

lemma confined_CreateRole: "confined (r_TenantID v) (\<lambda>tx db. repo_CreateRole tx v db) db"
proof -
  have "policy_versions db1 = policy_versions db \<and> outbox_events db1 = outbox_events db \<and>
        (\<forall>u. u \<noteq> r_TenantID v \<longrightarrow> tenant_view u db1 = tenant_view u db)" if "repo_CreateRole tx v db = Inr db1" for tx db1
    using that by (simp add: repo_CreateRole_def exec_insert_Inr tenant_view_def)
  then show ?thesis using repo_CreateRole_wf by (fastforce simp: confined_def)
qed

lemma confined_CreateRolePermission:
  assumes "(rp_RoleID v, rp_TenantID v) \<in> set (role_keys db)" "(rp_PermissionID v, rp_TenantID v) \<in> set (perm_keys db)"
  shows "confined (rp_TenantID v) (\<lambda>tx db. repo_CreateRolePermission tx v db) db"
proof -
  have "policy_versions db1 = policy_versions db \<and> outbox_events db1 = outbox_events db \<and>
        (\<forall>u. u \<noteq> rp_TenantID v \<longrightarrow> tenant_view u db1 = tenant_view u db)" if "repo_CreateRolePermission tx v db = Inr db1" for tx db1
    using that by (simp add: repo_CreateRolePermission_def exec_insert_Inr tenant_view_def)
  then show ?thesis using repo_CreateRolePermission_wf[OF _ _ assms] by (fastforce simp: confined_def)
qed

lemma confined_CreateBinding:
  assumes "(b_RoleID v, b_TenantID v) \<in> set (role_keys db)"
  shows "confined (b_TenantID v) (\<lambda>tx db. repo_CreateBinding tx v db) db"
proof -
  have "policy_versions db1 = policy_versions db \<and> outbox_events db1 = outbox_events db \<and>
        (\<forall>u. u \<noteq> b_TenantID v \<longrightarrow> tenant_view u db1 = tenant_view u db)" if "repo_CreateBinding tx v db = Inr db1" for tx db1
    using that by (simp add: repo_CreateBinding_def exec_insert_Inr tenant_view_def)
  then show ?thesis using repo_CreateBinding_wf[OF _ _ assms] by (fastforce simp: confined_def)
qed

lemma confined_UpdatePermission: "confined (p_TenantID v) (\<lambda>tx db. repo_UpdatePermission tx v db) db"
proof -
  have "policy_versions db1 = policy_versions db \<and> outbox_events db1 = outbox_events db \<and>
        (\<forall>u. u \<noteq> p_TenantID v \<longrightarrow> tenant_view u db1 = tenant_view u db)" if "repo_UpdatePermission tx v db = Inr db1" for tx db1
    using that by (auto simp: repo_UpdatePermission_def affected_exec_update tenant_view_def
        intro!: of_tenant_update[where t = "p_TenantID v"])
  then show ?thesis using repo_update_wf(1) by (fastforce simp: confined_def)
qed

lemma confined_UpdateRole: "confined (r_TenantID v) (\<lambda>tx db. repo_UpdateRole tx v db) db"
proof -
  have "policy_versions db1 = policy_versions db \<and> outbox_events db1 = outbox_events db \<and>
        (\<forall>u. u \<noteq> r_TenantID v \<longrightarrow> tenant_view u db1 = tenant_view u db)" if "repo_UpdateRole tx v db = Inr db1" for tx db1
    using that by (auto simp: repo_UpdateRole_def affected_exec_update tenant_view_def
        intro!: of_tenant_update[where t = "r_TenantID v"])
  then show ?thesis using repo_update_wf(2) by (fastforce simp: confined_def)
qed

lemma confined_UpdateRolePermission: "confined (rp_TenantID v) (\<lambda>tx db. repo_UpdateRolePermission tx v db) db"
proof -
  have "policy_versions db1 = policy_versions db \<and> outbox_events db1 = outbox_events db \<and>
        (\<forall>u. u \<noteq> rp_TenantID v \<longrightarrow> tenant_view u db1 = tenant_view u db)" if "repo_UpdateRolePermission tx v db = Inr db1" for tx db1
    using that by (auto simp: repo_UpdateRolePermission_def affected_exec_update tenant_view_def
        intro!: of_tenant_update[where t = "rp_TenantID v"])
  then show ?thesis using repo_update_wf(3) by (fastforce simp: confined_def)
qed

lemma confined_UpdateBinding: "confined (b_TenantID v) (\<lambda>tx db. repo_UpdateBinding tx v db) db"
proof -
  have "policy_versions db1 = policy_versions db \<and> outbox_events db1 = outbox_events db \<and>
        (\<forall>u. u \<noteq> b_TenantID v \<longrightarrow> tenant_view u db1 = tenant_view u db)" if "repo_UpdateBinding tx v db = Inr db1" for tx db1
    using that by (auto simp: repo_UpdateBinding_def affected_exec_update tenant_view_def
        intro!: of_tenant_update[where t = "b_TenantID v"])
  then show ?thesis using repo_update_wf(4) by (fastforce simp: confined_def)
qed

section \<open>What reads return\<close>

lemma mapNotFound_Inr [simp]: "mapNotFound l r = Inr v \<longleftrightarrow> r = Inr v"
  by (cases r) (auto simp: mapNotFound_def)

lemma filter_hd_in: "filter P xs = y # ys \<Longrightarrow> y \<in> set xs \<and> P y"
  by (metis (mono_tags, lifting) filter_eq_ConsD in_set_conv_decomp)

lemma repo_GetPermission_Inr:
  "repo_GetPermission c db t i = Inr p \<Longrightarrow> p_TenantID p = t \<and> p_ID p = i \<and> p \<in> set (live (permissions db))"
  by (auto simp: repo_GetPermission_def GetContext_Inr dest!: filter_hd_in)

lemma repo_GetRole_Inr:
  "repo_GetRole c db t i = Inr r \<Longrightarrow> r_TenantID r = t \<and> r_ID r = i \<and> r \<in> set (live (roles db))"
  by (auto simp: repo_GetRole_def GetContext_Inr dest!: filter_hd_in)

lemma repo_GetPermission_key: "repo_GetPermission c db t i = Inr p \<Longrightarrow> (i, t) \<in> set (perm_keys db)"
  using repo_GetPermission_Inr rows_in_keys(2) by blast

lemma repo_GetRole_key: "repo_GetRole c db t i = Inr r \<Longrightarrow> (i, t) \<in> set (role_keys db)"
  using repo_GetRole_Inr rows_in_keys(1) by blast

lemma repo_GetRolePermission_Inr:
  "repo_GetRolePermission c db t i = Inr v \<Longrightarrow> rp_TenantID v = t \<and> rp_ID v = i \<and> v \<in> set (live (role_permissions db))"
  by (auto simp: repo_GetRolePermission_def GetContext_Inr dest!: filter_hd_in)

lemma repo_GetRolePermissionByPair_Inr:
  "repo_GetRolePermissionByPair c db t i j = Inr v \<Longrightarrow>
   rp_TenantID v = t \<and> rp_RoleID v = i \<and> rp_PermissionID v = j \<and> v \<in> set (live (role_permissions db))"
  by (auto simp: repo_GetRolePermissionByPair_def GetContext_Inr dest!: filter_hd_in)

lemma repo_GetBinding_Inr:
  "repo_GetBinding c db t i = Inr v \<Longrightarrow> b_TenantID v = t \<and> b_ID v = i \<and> v \<in> set (live (role_bindings db))"
  by (auto simp: repo_GetBinding_def GetContext_Inr dest!: filter_hd_in)

section \<open>Service steps\<close>

inductive service_step :: "env \<Rightarrow> ctx \<Rightarrow> world \<Rightarrow> world \<Rightarrow> bool" for e x where
  Unchanged: "service_step e x w w"
| Mutation: "mutate e x n t s st rs flds operation w = (err, w') \<Longrightarrow> caller_may_manage e x t \<Longrightarrow>
    confined t operation (w_db w) \<Longrightarrow> service_step e x w w'"

lemma mutate_case_step:
  assumes "caller_may_manage e x t" "confined t operation (w_db w)"
    and "(case mutate e x n t s st rs flds operation w of (Some err, w') \<Rightarrow> (Inl err, w') | (None, w') \<Rightarrow> (f w', w')) = (r, w1)"
  shows "service_step e x w w1"
proof -
  obtain err w2 where m: "mutate e x n t s st rs flds operation w = (err, w2)" by fastforce
  with assms(3) have "w1 = w2" by (auto split: option.splits)
  with m assms(1,2) show ?thesis by (auto intro: Mutation)
qed

lemmas confined_ops =
  confined_CreatePermission confined_CreateRole confined_CreateRolePermission confined_CreateBinding
  confined_UpdatePermission confined_UpdateRole confined_UpdateRolePermission confined_UpdateBinding

lemma confined_at: "confined t' operation db \<Longrightarrow> t' = t \<Longrightarrow> confined t operation db"
  by simp

lemmas step_intros = Unchanged mutate_case_step[rotated 2]

lemma svc_CreatePermission_step:
  assumes "svc_CreatePermission e x t code name rt act ce w = (r, w')"
  shows "service_step e x w w'"
  using assms unfolding svc_CreatePermission_def Let_def
  by (auto simp: enforce_None_iff split: if_splits option.splits intro: Unchanged
      elim!: mutate_case_step[rotated 2] intro!: confined_at[OF confined_CreatePermission])

lemma svc_UpdatePermission_step:
  assumes "svc_UpdatePermission e x t i name ce st v w = (r, w')"
  shows "service_step e x w w'"
  using assms unfolding svc_UpdatePermission_def Let_def
  by (auto simp: enforce_None_iff split: if_splits option.splits sum.splits intro: Unchanged dest!: repo_GetPermission_Inr
      elim!: mutate_case_step[rotated 2] intro!: confined_at[OF confined_UpdatePermission])

lemma svc_CreateRole_step:
  assumes "svc_CreateRole e x t code name d ds w = (r, w')"
  shows "service_step e x w w'"
  using assms unfolding svc_CreateRole_def Let_def
  by (auto simp: enforce_None_iff split: if_splits option.splits intro: Unchanged
      elim!: mutate_case_step[rotated 2] intro!: confined_at[OF confined_CreateRole])

lemma svc_UpdateRole_step:
  assumes "svc_UpdateRole e x t i name d ds st v w = (r, w')"
  shows "service_step e x w w'"
  using assms unfolding svc_UpdateRole_def Let_def
  by (auto simp: enforce_None_iff split: if_splits option.splits sum.splits intro: Unchanged dest!: repo_GetRole_Inr
      elim!: mutate_case_step[rotated 2] intro!: confined_at[OF confined_UpdateRole])

lemma svc_GrantRolePermission_step:
  assumes "svc_GrantRolePermission e x t i j w = (r, w')"
  shows "service_step e x w w'"
proof (cases "repo_GetRole (conn_of e 0) (w_db w) t i")
  case (Inl a) with assms show ?thesis by (auto simp: svc_GrantRolePermission_def intro: Unchanged)
next
  case role: (Inr role)
  show ?thesis
  proof (cases "repo_GetPermission (conn_of e 1) (w_db w) t j")
    case (Inl a) with assms role show ?thesis by (auto simp: svc_GrantRolePermission_def intro: Unchanged)
  next
    case perm: (Inr perm)
    have keys: "(i, t) \<in> set (role_keys (w_db w))" "(j, t) \<in> set (perm_keys (w_db w))"
      using repo_GetRole_key[OF role] repo_GetPermission_key[OF perm] by simp_all
    from assms role perm keys show ?thesis unfolding svc_GrantRolePermission_def Let_def
      by (auto simp: enforce_None_iff split: if_splits option.splits sum.splits intro: Unchanged
          dest!: repo_GetRolePermissionByPair_Inr elim!: mutate_case_step[rotated 2]
          intro!: confined_at[OF confined_UpdateRolePermission] confined_at[OF confined_CreateRolePermission])
  qed
qed

lemma svc_RevokeRolePermission_step:
  assumes "svc_RevokeRolePermission e x t i v w = (r, w')"
  shows "service_step e x w w'"
  using assms unfolding svc_RevokeRolePermission_def Let_def
  by (auto simp: enforce_None_iff split: if_splits option.splits sum.splits intro: Unchanged dest!: repo_GetRolePermission_Inr
      elim!: mutate_case_step[rotated 2] intro!: confined_at[OF confined_UpdateRolePermission])

lemma svc_CreateBinding_step:
  assumes "svc_CreateBinding e x t s st i ou w = (r, w')"
  shows "service_step e x w w'"
proof (cases "repo_GetRole (conn_of e 0) (w_db w) t i")
  case (Inl a) with assms show ?thesis by (auto simp: svc_CreateBinding_def intro: Unchanged)
next
  case role: (Inr role)
  have keys: "(i, t) \<in> set (role_keys (w_db w))"
    using repo_GetRole_key[OF role] .
  from assms role keys show ?thesis unfolding svc_CreateBinding_def Let_def
    by (auto simp: enforce_None_iff split: if_splits option.splits intro: Unchanged
        elim!: mutate_case_step[rotated 2] intro!: confined_at[OF confined_CreateBinding])
qed

lemma svc_RevokeBinding_step:
  assumes "svc_RevokeBinding e x t i v w = (r, w')"
  shows "service_step e x w w'"
  using assms unfolding svc_RevokeBinding_def Let_def
  by (auto simp: enforce_None_iff split: if_splits option.splits sum.splits intro: Unchanged dest!: repo_GetBinding_Inr
      elim!: mutate_case_step[rotated 2] intro!: confined_at[OF confined_UpdateBinding])

section \<open>Effects of a step\<close>

text \<open>The well-formed worlds.\<close>

definition world_ok :: "world \<Rightarrow> bool" where
  "world_ok w = (db_wf (w_db w) \<and> pv_live (w_db w))"

text \<open>The effect of a committed mutation for the tenant \<open>t\<close>.\<close>

definition mutation_effect :: "env \<Rightarrow> gostring \<Rightarrow> world \<Rightarrow> world \<Rightarrow> bool" where
  "mutation_effect e t w w' =
     (policy_version_of (w_db w') t = policy_version_of (w_db w) t + 1 \<and>
      (\<forall>u. u \<noteq> t \<longrightarrow> tenant_view u (w_db w') = tenant_view u (w_db w)) \<and>
      (\<exists>event. outbox_events (w_db w') = outbox_events (w_db w) @ [event] \<and> oe_Subject event = ''platform.authorization.changed.v1'') \<and>
      w_cache w' = invalidateTenant t (w_cache w) \<and>
      w_notified w' = w_notified w @ (if notify_set e then [(t, policy_version_of (w_db w') t)] else []))"

lemma committed_effect:
  assumes "committed e x n t s st rs flds operation w = Some (v, db')" "confined t operation (w_db w)" "world_ok w"
  shows "db_wf db' \<and> pv_live db' \<and> v = policy_version_of (w_db w) t + 1 \<and> policy_version_of db' t = v \<and>
    (\<forall>u. u \<noteq> t \<longrightarrow> tenant_view u db' = tenant_view u (w_db w)) \<and>
    (\<exists>event. outbox_events db' = outbox_events (w_db w) @ [event] \<and> oe_Subject event = ''platform.authorization.changed.v1'')"
  using assms(1)
proof (rule committedD)
  fix tx db1 db2 event
  assume o: "operation tx (w_db w) = Inr db1" and b: "repo_BumpPolicyVersion tx t db1 = Inr (v, db2)"
    and a: "repo_AddOutbox tx event db2 = Inr db'" and ev: "oe_Subject event = ''platform.authorization.changed.v1''"
  from o assms(2,3) have c: "db_wf db1" "policy_versions db1 = policy_versions (w_db w)" "outbox_events db1 = outbox_events (w_db w)"
    "\<forall>u. u \<noteq> t \<longrightarrow> tenant_view u db1 = tenant_view u (w_db w)"
    by (auto simp: confined_def world_ok_def)
  have pv: "policy_version_of db1 u = policy_version_of (w_db w) u" "pv_live db1" for u
    using c(2) assms(3) by (simp_all add: policy_version_of_def pv_live_def world_ok_def)
  note bump = repo_BumpPolicyVersion_Inr[OF b pv(2)]
  note db' = repo_AddOutbox_Inr[OF a]
  have "tenant_view u db' = tenant_view u db1" if "u \<noteq> t" for u
    using b of_tenant_upsert[OF that, of tx "policy_versions db1"]
    by (auto simp: db' tenant_view_def repo_BumpPolicyVersion_def Let_def split: option.splits sum.splits)
  moreover have "db_wf db'" using c(1) repo_BumpPolicyVersion_wf[OF b] repo_AddOutbox_wf[OF a] by simp
  ultimately show ?thesis using bump c(3,4) ev by (auto simp: db' pv(1))
qed

lemma service_step_effect:
  assumes "service_step e x w w'" "world_ok w"
  shows "world_ok w' \<and>
    (w_db w' = w_db w \<and> w_cache w' = w_cache w \<and> w_notified w' = w_notified w
     \<or> (\<exists>t. caller_may_manage e x t \<and> mutation_effect e t w w'))"
  using assms(1)
proof (cases rule: service_step.cases)
  case Unchanged with assms(2) show ?thesis by simp
next
  case (Mutation n t s st rs flds operation err)
  from Mutation(1) show ?thesis
  proof (cases rule: mutate_cases)
    case (rolled_back er) with assms(2) show ?thesis by (simp add: world_ok_def)
  next
    case (applied v)
    from committed_effect[OF applied(1) Mutation(3) assms(2)]
    have "mutation_effect e t w w'" "world_ok w'"
      using applied by (auto simp: mutation_effect_def world_ok_def)
    with Mutation(2) show ?thesis by blast
  qed
qed

section \<open>Histories\<close>

datatype command =
    CmdCreatePermission gostring gostring gostring gostring gostring "gostring list"
  | CmdUpdatePermission gostring gostring gostring gostring gostring int
  | CmdCreateRole gostring gostring gostring gostring gostring
  | CmdUpdateRole gostring gostring gostring gostring gostring gostring int
  | CmdGrantRolePermission gostring gostring gostring
  | CmdRevokeRolePermission gostring gostring int
  | CmdCreateBinding gostring gostring gostring gostring gostring
  | CmdRevokeBinding gostring gostring int

text \<open>The mutating operations as one function of the request.\<close>

fun exec_command :: "env \<Rightarrow> ctx \<Rightarrow> command \<Rightarrow> world \<Rightarrow> world" where
  "exec_command e x (CmdCreatePermission t c n rt a ce) w = snd (svc_CreatePermission e x t c n rt a ce w)"
| "exec_command e x (CmdUpdatePermission t i n ce st v) w = snd (svc_UpdatePermission e x t i n ce st v w)"
| "exec_command e x (CmdCreateRole t c n d ds) w = snd (svc_CreateRole e x t c n d ds w)"
| "exec_command e x (CmdUpdateRole t i n d ds st v) w = snd (svc_UpdateRole e x t i n d ds st v w)"
| "exec_command e x (CmdGrantRolePermission t i j) w = snd (svc_GrantRolePermission e x t i j w)"
| "exec_command e x (CmdRevokeRolePermission t i v) w = snd (svc_RevokeRolePermission e x t i v w)"
| "exec_command e x (CmdCreateBinding t s st i ou) w = snd (svc_CreateBinding e x t s st i ou w)"
| "exec_command e x (CmdRevokeBinding t i v) w = snd (svc_RevokeBinding e x t i v w)"

lemmas svc_steps =
  svc_CreatePermission_step svc_UpdatePermission_step svc_CreateRole_step svc_UpdateRole_step
  svc_GrantRolePermission_step svc_RevokeRolePermission_step svc_CreateBinding_step svc_RevokeBinding_step

lemma exec_command_step: "service_step e x w (exec_command e x cmd w)"
  by (cases cmd) (simp_all, (metis prod.collapse svc_steps)+)

definition run_history :: "(env \<times> ctx \<times> command) list \<Rightarrow> world \<Rightarrow> world" where
  "run_history h w = foldl (\<lambda>w (e, x, cmd). exec_command e x cmd w) w h"

lemma run_history_simps [simp]:
  "run_history [] w = w" "run_history ((e, x, cmd) # h) w = run_history h (exec_command e x cmd w)"
  by (simp_all add: run_history_def)

lemma run_history_ok: "world_ok w \<Longrightarrow> world_ok (run_history h w)"
proof (induction h arbitrary: w)
  case (Cons a h)
  then show ?case using service_step_effect[OF exec_command_step] by (cases a) auto
qed simp

lemma step_other_tenant:
  assumes "service_step e x w w'" "world_ok w" "\<not> caller_may_manage e x u"
  shows "tenant_view u (w_db w') = tenant_view u (w_db w)"
  using service_step_effect[OF assms(1,2)] assms(3) unfolding mutation_effect_def by metis

lemma history_other_tenant:
  assumes "world_ok w" "\<forall>(e, x, cmd)\<in>set h. \<not> caller_may_manage e x u"
  shows "tenant_view u (w_db (run_history h w)) = tenant_view u (w_db w)"
  using assms
proof (induction h arbitrary: w)
  case (Cons a h)
  obtain e x cmd where a: "a = (e, x, cmd)" by (cases a)
  have "world_ok (exec_command e x cmd w)"
    using service_step_effect[OF exec_command_step Cons.prems(1)] by blast
  then show ?case
    using Cons step_other_tenant[OF exec_command_step Cons.prems(1), of e x u cmd] by (simp add: a)
qed simp

section \<open>Decisions depend on the tenant's own rows\<close>

lemma concat_map_filter:
  "(\<And>v. v \<in> set vs \<Longrightarrow> \<not> P v \<Longrightarrow> f v = []) \<Longrightarrow> concat (map f (filter P vs)) = concat (map f vs)"
  by (induction vs) auto

definition grants_rp :: "database \<Rightarrow> Binding \<Rightarrow> Role \<Rightarrow> RolePermission \<Rightarrow> (Binding \<times> Role \<times> RolePermission \<times> Permission) list" where
  "grants_rp db rb r rp =
     concat (map (\<lambda>p. if p_ID p = rp_PermissionID rp \<and> p_Status p = ''active'' then [(rb, r, rp, p)] else []) (live (permissions db)))"

definition grants_r :: "database \<Rightarrow> Binding \<Rightarrow> Role \<Rightarrow> (Binding \<times> Role \<times> RolePermission \<times> Permission) list" where
  "grants_r db rb r =
     concat (map (\<lambda>rp. if rp_RoleID rp = r_ID r \<and> rp_Status rp = ''active'' then grants_rp db rb r rp else []) (live (role_permissions db)))"

definition grants_rb :: "database \<Rightarrow> Binding \<Rightarrow> (Binding \<times> Role \<times> RolePermission \<times> Permission) list" where
  "grants_rb db rb =
     concat (map (\<lambda>r. if r_ID r = b_RoleID rb \<and> r_Status r = ''active'' then grants_r db rb r else []) (live (roles db)))"

lemma nested_if: "(if a then if b then xs else [] else []) = (if a \<and> b then xs else [])"
  by simp

lemma granted_nested:
  "granted db t s st =
     concat (map (\<lambda>rb. if binding_of_subject db t s st rb \<and> b_Status rb = ''active'' then grants_rb db rb else [])
       (live (role_bindings db)))"
  unfolding granted_def grants_rb_def grants_r_def grants_rp_def nested_if ..

lemma view_live [simp]:
  "live (permissions (tenant_view u db)) = filter (\<lambda>v. p_TenantID v = u) (live (permissions db))"
  "live (roles (tenant_view u db)) = filter (\<lambda>v. r_TenantID v = u) (live (roles db))"
  "live (role_permissions (tenant_view u db)) = filter (\<lambda>v. rp_TenantID v = u) (live (role_permissions db))"
  "live (role_bindings (tenant_view u db)) = filter (\<lambda>v. b_TenantID v = u) (live (role_bindings db))"
  "live (subject_groups (tenant_view u db)) = filter (\<lambda>v. sg_TenantID v = u) (live (subject_groups db))"
  by (simp_all add: tenant_view_def live_of_tenant)

lemma references_same_tenant:
  assumes "db_wf db"
  shows "p \<in> set (live (permissions db)) \<Longrightarrow> rp \<in> set (live (role_permissions db)) \<Longrightarrow> p_ID p = rp_PermissionID rp \<Longrightarrow>
           p_TenantID p = rp_TenantID rp"
    and "r \<in> set (live (roles db)) \<Longrightarrow> rp \<in> set (live (role_permissions db)) \<Longrightarrow> rp_RoleID rp = r_ID r \<Longrightarrow>
           rp_TenantID rp = r_TenantID r"
    and "r \<in> set (live (roles db)) \<Longrightarrow> rb \<in> set (live (role_bindings db)) \<Longrightarrow> r_ID r = b_RoleID rb \<Longrightarrow>
           r_TenantID r = b_TenantID rb"
proof -
  have wf: "distinct (map fst (role_keys db))" "distinct (map fst (perm_keys db))"
    "\<forall>(i, t, ri, pi)\<in>set (rp_keys db). (ri, t) \<in> set (role_keys db) \<and> (pi, t) \<in> set (perm_keys db)"
    "\<forall>(i, t, ri, st)\<in>set (binding_keys db). (ri, t) \<in> set (role_keys db)"
    using assms by (simp_all add: db_wf_def keys_wf_def)
  show "p_TenantID p = rp_TenantID rp"
    if "p \<in> set (live (permissions db))" "rp \<in> set (live (role_permissions db))" "p_ID p = rp_PermissionID rp"
    using distinct_fst_functional[OF wf(2)] rows_in_keys(2)[OF that(1)] rows_in_keys(3)[OF that(2)] wf(3) that(3) by fastforce
  show "rp_TenantID rp = r_TenantID r"
    if "r \<in> set (live (roles db))" "rp \<in> set (live (role_permissions db))" "rp_RoleID rp = r_ID r"
    using distinct_fst_functional[OF wf(1)] rows_in_keys(1)[OF that(1)] rows_in_keys(3)[OF that(2)] wf(3) that(3) by fastforce
  show "r_TenantID r = b_TenantID rb"
    if "r \<in> set (live (roles db))" "rb \<in> set (live (role_bindings db))" "r_ID r = b_RoleID rb"
    using distinct_fst_functional[OF wf(1)] rows_in_keys(1)[OF that(1)] rows_in_keys(4)[OF that(2)] wf(4) that(3) by fastforce
qed

lemma grants_rp_view:
  "db_wf db \<Longrightarrow> rp \<in> set (live (role_permissions db)) \<Longrightarrow> rp_TenantID rp = u \<Longrightarrow>
   grants_rp (tenant_view u db) rb r rp = grants_rp db rb r rp"
  unfolding grants_rp_def view_live by (rule concat_map_filter) (auto dest: references_same_tenant(1))

lemma grants_r_view:
  assumes "db_wf db" "r \<in> set (live (roles db))" "r_TenantID r = u"
  shows "grants_r (tenant_view u db) rb r = grants_r db rb r"
proof -
  have "grants_r (tenant_view u db) rb r = concat (map (\<lambda>rp. if rp_RoleID rp = r_ID r \<and> rp_Status rp = ''active''
      then grants_rp db rb r rp else []) (filter (\<lambda>v. rp_TenantID v = u) (live (role_permissions db))))"
    unfolding grants_r_def view_live
    using grants_rp_view[OF assms(1)] by (intro arg_cong[of _ _ concat] map_cong refl) auto
  also have "\<dots> = grants_r db rb r"
    unfolding grants_r_def using assms by (intro concat_map_filter) (auto dest: references_same_tenant(2))
  finally show ?thesis .
qed

lemma grants_rb_view:
  assumes "db_wf db" "rb \<in> set (live (role_bindings db))" "b_TenantID rb = u"
  shows "grants_rb (tenant_view u db) rb = grants_rb db rb"
proof -
  have "grants_rb (tenant_view u db) rb = concat (map (\<lambda>r. if r_ID r = b_RoleID rb \<and> r_Status r = ''active''
      then grants_r db rb r else []) (filter (\<lambda>v. r_TenantID v = u) (live (roles db))))"
    unfolding grants_rb_def view_live
    using grants_r_view[OF assms(1)] by (intro arg_cong[of _ _ concat] map_cong refl) auto
  also have "\<dots> = grants_rb db rb"
    unfolding grants_rb_def using assms by (intro concat_map_filter) (auto dest: references_same_tenant(3))
  finally show ?thesis .
qed

lemma binding_of_subject_view: "binding_of_subject (tenant_view u db) u s st rb = binding_of_subject db u s st rb"
  by (auto simp: binding_of_subject_def list_ex_iff)

lemma granted_view:
  assumes "db_wf db"
  shows "granted (tenant_view u db) u s st = granted db u s st"
proof -
  have "granted (tenant_view u db) u s st =
      concat (map (\<lambda>rb. if binding_of_subject db u s st rb \<and> b_Status rb = ''active'' then grants_rb db rb else [])
        (filter (\<lambda>v. b_TenantID v = u) (live (role_bindings db))))"
    unfolding granted_nested view_live binding_of_subject_view
    using grants_rb_view[OF assms] by (intro arg_cong[of _ _ concat] map_cong refl) auto
  also have "\<dots> = granted db u s st"
    unfolding granted_nested by (intro concat_map_filter) (auto simp: binding_of_subject_def)
  finally show ?thesis .
qed

lemma repo_PolicyVersion_view: "repo_PolicyVersion c (tenant_view u db) u = repo_PolicyVersion c db u"
  by (simp add: repo_PolicyVersion_def tenant_view_def live_of_tenant)

lemma resolve_view:
  "db_wf db \<Longrightarrow> repo_Resolve c (tenant_view u db) u s st rt a = repo_Resolve c db u s st rt a"
  "db_wf db \<Longrightarrow> repo_ResolvePermissionCodes c (tenant_view u db) u s st codes = repo_ResolvePermissionCodes c db u s st codes"
  by (simp_all only: repo_Resolve_def repo_ResolvePermissionCodes_def granted_view repo_PolicyVersion_view)

end
