(* ===== verification/Decisions.thy ===== *)
theory Decisions
  imports Service_Laws
begin

text \<open>
  Decisions: \<open>CheckWithAttributes\<close>, \<open>CheckPermissionCodes\<close>, \<open>AuthorizeUserManagementScope\<close>
  (\<open>internal/authorization/service.go\<close>) and the in-process authorizer
  (\<open>internal/authorization/enforcer.go\<close>). The CEL engine is a parameter: \<open>cel_Compile\<close>,
  \<open>cel_Program\<close> and \<open>cel_Eval\<close> of the environment.
\<close>

section \<open>Evaluating grants\<close>

definition matchesCondition ::
  "env \<Rightarrow> gostring \<Rightarrow> gostring \<Rightarrow> gostring \<Rightarrow> gostring \<Rightarrow> attributes \<Rightarrow> bool result" where
  "matchesCondition e expression tenantID subjectID resourceID attributes =
     (if TrimSpace expression = [] then Inr True
      else case cel_Compile e expression of
        Inl issue \<Rightarrow> Inl issue
      | Inr ast \<Rightarrow> (case cel_Program e ast of
        Inl err \<Rightarrow> Inl err
      | Inr program \<Rightarrow>
          (case cel_Eval e program \<lparr>act_tenant_id = tenantID, act_subject_id = subjectID,
                  act_resource_id = resourceID, act_attributes = attributes\<rparr> of
             Inl err \<Rightarrow> Inl err
           | Inr (CelBool matched) \<Rightarrow> Inr matched
           | Inr CelOther \<Rightarrow> Inl (OtherError ''ABAC condition must return boolean''))))"

text \<open>The body of the loop over the grants, for a grant whose condition holds.\<close>

definition apply_grant :: "Decision \<Rightarrow> resolvedGrant \<Rightarrow> Decision" where
  "apply_grant d0 grant =
     (let d1 = d0\<lparr>d_Allowed := True, d_Reason := ''matching active role grant''\<rparr>;
          d2 = (if scopeRank (g_DataScope grant) > scopeRank (d_DataScope d1)
                then d1\<lparr>d_DataScope := g_DataScope grant\<rparr> else d1) in
      if g_DataScope grant = ''organization'' \<and> g_OrganizationUnitID grant \<noteq> []
      then d2\<lparr>d_OrganizationUnitIDs := appendUnique (d_OrganizationUnitIDs d2) (g_OrganizationUnitID grant)\<rparr>
      else d2)"

fun evaluate_grants :: "(resolvedGrant \<Rightarrow> bool result) \<Rightarrow> resolvedGrant list \<Rightarrow> Decision \<Rightarrow> Decision result" where
  "evaluate_grants matches [] decision = Inr decision"
| "evaluate_grants matches (grant # grants) decision =
     (case matches grant of
        Inl err \<Rightarrow> Inl (Internal err)
      | Inr matched \<Rightarrow>
          if \<not> matched then evaluate_grants matches grants decision
          else evaluate_grants matches grants (apply_grant decision grant))"

text \<open>A check is one step: the tables that it resolves grants from and the cache that it fills belong
  to the same state. A mutation that commits and invalidates between the two statements of the
  code, after which the check stores a decision of the old policy, is not modelled; such an entry
  lives until it expires or the tenant is next invalidated.\<close>

definition svc_CheckWithAttributes ::
  "env \<Rightarrow> ctx \<Rightarrow> gostring \<Rightarrow> gostring \<Rightarrow> gostring \<Rightarrow> gostring \<Rightarrow> gostring \<Rightarrow> gostring \<Rightarrow> attributes \<Rightarrow> world
   \<Rightarrow> Decision result \<times> world" where
  "svc_CheckWithAttributes e x tenantID subjectID subjectType resourceType resourceID action attributes w =
     (if tenantID = [] \<or> subjectID = [] \<or> \<not> validSubjectType subjectType \<or> resourceType = [] \<or> action = []
      then (Inl (Invalid ''invalid authorization check'' None), w)
      else
        let cacheKey = decisionCacheKey tenantID subjectID subjectType resourceType resourceID action attributes in
        case cachedDecision (clock e 0) cacheKey (w_cache w) of
          (Some decision, cache) \<Rightarrow> (Inr decision, w\<lparr>w_cache := cache\<rparr>)
        | (None, cache) \<Rightarrow>
        (case repo_Resolve (conn_of e 0) (w_db w) tenantID subjectID subjectType resourceType action of
           Inl err \<Rightarrow> (Inl (translate err), w\<lparr>w_cache := cache\<rparr>)
         | Inr (grants, policyVersion) \<Rightarrow>
             (let decision = \<lparr>d_Allowed = False, d_DecisionID = uuid_NewString e 0, d_Reason = [],
                    d_PolicyVersion = policyVersion, d_DataScope = ''none'', d_OrganizationUnitIDs = []\<rparr> in
              if grants = []
              then (let denied = decision\<lparr>d_Reason := ''no matching active grant''\<rparr> in
                    (Inr denied, w\<lparr>w_cache := storeDecision (w_cacheTTL w) (clock e 1) cacheKey denied cache\<rparr>))
              else case evaluate_grants
                     (\<lambda>grant. matchesCondition e (g_ConditionExpression grant) tenantID subjectID resourceID attributes)
                     grants decision of
                Inl err \<Rightarrow> (Inl err, w\<lparr>w_cache := cache\<rparr>)
              | Inr d \<Rightarrow>
                  (let final = (if \<not> d_Allowed d then d\<lparr>d_Reason := ''ABAC condition did not match''\<rparr> else d) in
                   (Inr final, w\<lparr>w_cache := storeDecision (w_cacheTTL w) (clock e 1) cacheKey final cache\<rparr>)))))"

definition svc_Check ::
  "env \<Rightarrow> ctx \<Rightarrow> gostring \<Rightarrow> gostring \<Rightarrow> gostring \<Rightarrow> gostring \<Rightarrow> gostring \<Rightarrow> world \<Rightarrow> Decision result \<times> world" where
  "svc_Check e x tenantID subjectID subjectType resourceType action w =
     svc_CheckWithAttributes e x tenantID subjectID subjectType resourceType [] action [] w"

section \<open>Permission codes\<close>

record PermissionCodeDecision =
  pcd_AllowedCodes :: "gostring list"
  pcd_PolicyVersion :: nat

fun unique_codes :: "gostring list \<Rightarrow> gostring list \<Rightarrow> gostring list \<Rightarrow> gostring list" where
  "unique_codes seen codes [] = codes"
| "unique_codes seen codes (requestedCode # requested) =
     (let code = ToLower (TrimSpace requestedCode) in
      if code = [] then unique_codes seen codes requested
      else if code \<notin> set seen then unique_codes (code # seen) (codes @ [code]) requested
      else unique_codes seen codes requested)"

fun allowed_codes :: "resolvedPermissionCodeGrant list \<Rightarrow> gostring list \<Rightarrow> bool \<Rightarrow> gostring list \<times> bool" where
  "allowed_codes [] allowed allowAll = (allowed, allowAll)"
| "allowed_codes (grant # grants) allowed allowAll =
     (if TrimSpace (cg_ConditionExpression grant) \<noteq> [] then allowed_codes grants allowed allowAll
      else allowed_codes grants (cg_Code grant # allowed)
             (if cg_ResourceType grant = ''*'' \<and> cg_Action grant = ''*'' then True else allowAll))"

definition svc_CheckPermissionCodes ::
  "env \<Rightarrow> ctx \<Rightarrow> gostring \<Rightarrow> gostring \<Rightarrow> gostring \<Rightarrow> gostring list \<Rightarrow> world \<Rightarrow> PermissionCodeDecision result" where
  "svc_CheckPermissionCodes e x tenantID0 subjectID0 subjectType0 requested w =
     (let tenantID = TrimSpace tenantID0; subjectID = TrimSpace subjectID0; subjectType = ToLower (TrimSpace subjectType0);
          invalid = Invalid ''tenant_id, a valid subject, and 1 to 100 permission_codes are required'' None in
      if length requested = 0 \<or> length requested > 100 then Inl invalid
      else
        let codes = unique_codes [] [] requested in
        if tenantID = [] \<or> subjectID = [] \<or> \<not> validSubjectType subjectType \<or> length codes = 0 then Inl invalid
        else case repo_ResolvePermissionCodes (conn_of e 0) (w_db w) tenantID subjectID subjectType codes of
          Inl err \<Rightarrow> Inl (translate err)
        | Inr (grants, policyVersion) \<Rightarrow>
            (case allowed_codes grants [] False of (allowed, allowAll) \<Rightarrow>
              Inr \<lparr>pcd_AllowedCodes = filter (\<lambda>code. code \<in> set allowed \<or> allowAll) codes,
                   pcd_PolicyVersion = policyVersion\<rparr>))"

section \<open>Management scope\<close>

definition svc_AuthorizeUserManagementScope ::
  "env \<Rightarrow> ctx \<Rightarrow> gostring \<Rightarrow> gostring \<Rightarrow> gostring \<Rightarrow> gostring \<Rightarrow> world \<Rightarrow> (ctx \<times> gostring) result \<times> world" where
  "svc_AuthorizeUserManagementScope e x selectedTenantID0 scope0 resource action w =
     (let selectedTenantID = TrimSpace selectedTenantID0;
          scope1 = ToLower (TrimSpace scope0);
          scope = (if scope1 = [] then ''tenant'' else scope1);
          required = Forbidden ''tenant-scoped user membership is required'' in
      case ctx_principal x of
        None \<Rightarrow> (Inl required, w)
      | Some caller \<Rightarrow>
          if pr_Type caller \<noteq> TypeUser \<or> TrimSpace (pr_MembershipID caller) = []
             \<or> TrimSpace (pr_TenantID caller) \<noteq> selectedTenantID
          then (Inl required, w)
          else if scope \<noteq> ''platform'' \<and> scope \<noteq> ''tenant''
          then (Inl (Invalid ''permission_scope must be tenant or platform'' None), w)
          else
            let (targetTenantID, subjectID, subjectType) =
                  (if scope = ''platform'' then (PlatformTenantID e, pr_ID caller, ''user'')
                   else (selectedTenantID, pr_MembershipID caller, ''membership'')) in
            case svc_CheckWithAttributes e x targetTenantID subjectID subjectType resource [] action [] w of
              (Inl err, w') \<Rightarrow> (Inl err, w')
            | (Inr decision, w') \<Rightarrow>
                if \<not> d_Allowed decision then (Inl (Forbidden ''management permission denied''), w')
                else (Inr (x\<lparr>authorizedManagementTenant := Some targetTenantID\<rparr>, targetTenantID), w'))"

section \<open>The in-process authorizer\<close>

datatype Scope = ScopePrincipal | ScopePlatform | ScopeTenant | ScopeOther gostring

record Requirement =
  req_Scope :: Scope
  req_Resource :: gostring
  req_ResourceID :: gostring
  req_Action :: gostring
  req_Attributes :: attributes

definition localAuthorizationTarget :: "gostring \<Rightarrow> Principal \<Rightarrow> Scope \<Rightarrow> (gostring \<times> gostring \<times> gostring) result" where
  "localAuthorizationTarget platformTenantID identity scope0 =
     (let scope = (if scope0 = ScopePrincipal
                   then (if TrimSpace (pr_TenantID identity) = [] then ScopePlatform else ScopeTenant)
                   else scope0);
          invalid = Inl (Sentinel AuthzErrInvalidPrincipal) in
      if scope = ScopePlatform
      then (case pr_Type identity of
              TypeUser \<Rightarrow> if pr_ID identity \<noteq> [] then Inr (platformTenantID, pr_ID identity, ''user'') else invalid
            | TypeServiceAccount \<Rightarrow> if pr_ID identity \<noteq> [] then Inr (platformTenantID, pr_ID identity, ''service_account'') else invalid
            | TypeSystem \<Rightarrow> if pr_ID identity \<noteq> [] then Inr (platformTenantID, pr_ID identity, ''service_account'') else invalid
            | TypeOther other \<Rightarrow> invalid)
      else if scope \<noteq> ScopeTenant \<or> TrimSpace (pr_TenantID identity) = [] then invalid
      else (case pr_Type identity of
              TypeUser \<Rightarrow> if pr_MembershipID identity \<noteq> []
                          then Inr (pr_TenantID identity, pr_MembershipID identity, ''membership'') else invalid
            | TypeServiceAccount \<Rightarrow> if pr_ID identity \<noteq> []
                          then Inr (pr_TenantID identity, pr_ID identity, ''service_account'') else invalid
            | TypeSystem \<Rightarrow> if pr_ID identity \<noteq> []
                          then Inr (pr_TenantID identity, pr_ID identity, ''service_account'') else invalid
            | TypeOther other \<Rightarrow> invalid))"

definition Authorize :: "env \<Rightarrow> ctx \<Rightarrow> Principal \<Rightarrow> Requirement \<Rightarrow> world \<Rightarrow> goerr option \<times> world" where
  "Authorize e x identity requirement w =
     (case localAuthorizationTarget (PlatformTenantID e) identity (req_Scope requirement) of
        Inl err \<Rightarrow> (Some err, w)
      | Inr (tenantID, subjectID, subjectType) \<Rightarrow>
          (case svc_CheckWithAttributes e x tenantID subjectID subjectType (req_Resource requirement)
                  (req_ResourceID requirement) (req_Action requirement) (req_Attributes requirement) w of
             (Inl err, w') \<Rightarrow> (Some (WrapSuffix (Sentinel AuthzErrDecisionUnavailable) (error_text (sentinel_texts e) err)), w')
           | (Inr decision, w') \<Rightarrow>
               if \<not> d_Allowed decision then (Some (Sentinel AuthzErrDenied), w') else (None, w')))"

section \<open>What the grant loop computes\<close>

lemma apply_grant_simps [simp]:
  "d_Allowed (apply_grant d g)" "d_Reason (apply_grant d g) = ''matching active role grant''"
  "d_PolicyVersion (apply_grant d g) = d_PolicyVersion d" "d_DecisionID (apply_grant d g) = d_DecisionID d"
  by (simp_all add: apply_grant_def Let_def)

lemma apply_grant_rank: "scopeRank (d_DataScope (apply_grant d g)) = max (scopeRank (d_DataScope d)) (scopeRank (g_DataScope g))"
  by (simp add: apply_grant_def Let_def)

definition organization_ids :: "resolvedGrant list \<Rightarrow> gostring list" where
  "organization_ids gs = map g_OrganizationUnitID
     (filter (\<lambda>g. g_DataScope g = ''organization'' \<and> g_OrganizationUnitID g \<noteq> []) gs)"

lemma apply_grant_units:
  "set (d_OrganizationUnitIDs (apply_grant d g)) = set (d_OrganizationUnitIDs d) \<union> set (organization_ids [g])"
  "distinct (d_OrganizationUnitIDs d) \<Longrightarrow> distinct (d_OrganizationUnitIDs (apply_grant d g))"
  by (auto simp: apply_grant_def Let_def organization_ids_def distinct_appendUnique)

definition matching :: "(resolvedGrant \<Rightarrow> bool result) \<Rightarrow> resolvedGrant list \<Rightarrow> resolvedGrant list" where
  "matching m gs = filter (\<lambda>g. m g = Inr True) gs"

lemma evaluate_grants_fold:
  "(\<forall>g\<in>set gs. \<exists>b. m g = Inr b) \<Longrightarrow> evaluate_grants m gs d = Inr (foldl apply_grant d (matching m gs))"
  by (induction gs arbitrary: d) (auto simp: matching_def)

lemma evaluate_grants_total:
  "evaluate_grants m gs d = Inr d' \<Longrightarrow> \<forall>g\<in>set gs. \<exists>b. m g = Inr b"
  by (induction gs arbitrary: d) (auto split: sum.splits if_splits)

lemma evaluate_grants_error:
  "evaluate_grants m gs d = Inl err \<Longrightarrow> \<exists>g\<in>set gs. \<exists>er. m g = Inl er \<and> err = Internal er"
  by (induction gs arbitrary: d) (auto split: sum.splits if_splits)

lemma fold_apply_grant:
  "d_Allowed (foldl apply_grant d gs) \<longleftrightarrow> d_Allowed d \<or> gs \<noteq> []"
  "d_PolicyVersion (foldl apply_grant d gs) = d_PolicyVersion d"
  "set (d_OrganizationUnitIDs (foldl apply_grant d gs)) = set (d_OrganizationUnitIDs d) \<union> set (organization_ids gs)"
  "distinct (d_OrganizationUnitIDs d) \<Longrightarrow> distinct (d_OrganizationUnitIDs (foldl apply_grant d gs))"
  "scopeRank (d_DataScope (foldl apply_grant d gs)) = fold max (map (\<lambda>g. scopeRank (g_DataScope g)) gs) (scopeRank (d_DataScope d))"
proof (induction gs arbitrary: d)
  case (Cons g gs)
  { case 1 show ?case by (simp add: Cons(1)) }
  { case 2 show ?case by (simp add: Cons(2)) }
  { case 3 show ?case by (auto simp: Cons(3) apply_grant_units organization_ids_def) }
  { case 4 then show ?case by (simp add: Cons(4) apply_grant_units) }
  { case 5 show ?case by (simp add: Cons(5) apply_grant_rank max.commute) }
qed (simp_all add: organization_ids_def)

lemma fold_apply_grant_scope:
  "d_DataScope (foldl apply_grant d gs) = d_DataScope d \<or> (\<exists>g\<in>set gs. d_DataScope (foldl apply_grant d gs) = g_DataScope g)"
proof (induction gs arbitrary: d)
  case (Cons g gs)
  have "d_DataScope (apply_grant d g) = d_DataScope d \<or> d_DataScope (apply_grant d g) = g_DataScope g"
    by (simp add: apply_grant_def Let_def)
  with Cons[of "apply_grant d g"] show ?case by auto
qed simp

lemma fold_max_le: "x \<le> fold max xs (x :: int)" and fold_max_ge: "y \<in> set xs \<Longrightarrow> y \<le> fold max xs (x :: int)"
proof -
  show le: "x \<le> fold max xs x" for xs and x :: int
  proof (induction xs arbitrary: x)
    case (Cons z xs) show ?case using Cons[of "max z x"] by simp
  qed simp
  show "y \<in> set xs \<Longrightarrow> y \<le> fold max xs x"
  proof (induction xs arbitrary: x)
    case (Cons z xs) then show ?case using le[of "max z x" xs] by auto
  qed simp
qed

section \<open>What a check returns\<close>

text \<open>The specification of a decision: the grants of the subject that name the resource and the
  action, or the wildcard, and whose condition holds.\<close>

definition applicable ::
  "env \<Rightarrow> database \<Rightarrow> gostring \<Rightarrow> gostring \<Rightarrow> gostring \<Rightarrow> gostring \<Rightarrow> gostring \<Rightarrow> gostring \<Rightarrow> attributes
   \<Rightarrow> (Binding \<times> Role \<times> RolePermission \<times> Permission) list" where
  "applicable e db t s st rt rid a attrs =
     filter (\<lambda>(rb, r, rp, p). (p_ResourceType p = rt \<or> p_ResourceType p = ''*'') \<and> (p_Action p = a \<or> p_Action p = ''*'')
               \<and> matchesCondition e (p_ConditionExpression p) t s rid attrs = Inr True) (granted db t s st)"

definition grant_of :: "Binding \<times> Role \<times> RolePermission \<times> Permission \<Rightarrow> resolvedGrant" where
  "grant_of q = (case q of (rb, r, rp, p) \<Rightarrow> \<lparr>g_DataScope = r_DataScope r, g_OrganizationUnitID = b_OrganizationUnitID rb,
     g_ConditionExpression = p_ConditionExpression p\<rparr>)"

lemma concat_map_if: "concat (map (\<lambda>q. if P q then [f q] else []) xs) = map f (filter P xs)"
  by (induction xs) auto

lemma repo_Resolve_Inr:
  assumes "repo_Resolve c db t s st rt a = Inr (grants, v)"
  shows "grants = map grant_of (filter (\<lambda>(rb, r, rp, p). (p_ResourceType p = rt \<or> p_ResourceType p = ''*'') \<and>
           (p_Action p = a \<or> p_Action p = ''*'')) (granted db t s st)) \<and> repo_PolicyVersion c db t = Inr v"
proof -
  have "(\<lambda>(rb, r, rp, p). if (p_ResourceType p = rt \<or> p_ResourceType p = ''*'') \<and> (p_Action p = a \<or> p_Action p = ''*'')
      then [\<lparr>g_DataScope = r_DataScope r, g_OrganizationUnitID = b_OrganizationUnitID rb,
             g_ConditionExpression = p_ConditionExpression p\<rparr>] else [])
    = (\<lambda>q. if (case q of (rb, r, rp, p) \<Rightarrow> (p_ResourceType p = rt \<or> p_ResourceType p = ''*'') \<and> (p_Action p = a \<or> p_Action p = ''*''))
           then [grant_of q] else [])"
    by (auto simp: grant_of_def)
  with assms show ?thesis
    by (auto simp: repo_Resolve_def SelectContext_def concat_map_if split: option.splits sum.splits)
qed

lemma matching_applicable:
  assumes "repo_Resolve c db t s st rt a = Inr (grants, v)"
  shows "matching (\<lambda>g. matchesCondition e (g_ConditionExpression g) t s rid attrs) grants
         = map grant_of (applicable e db t s st rt rid a attrs)"
  using repo_Resolve_Inr[OF assms]
  by (auto simp: matching_def filter_map o_def applicable_def grant_of_def split_def conj_ac intro!: arg_cong[of _ _ "map _"] filter_cong)

definition cache_misses ::
  "env \<Rightarrow> gostring \<Rightarrow> gostring \<Rightarrow> gostring \<Rightarrow> gostring \<Rightarrow> gostring \<Rightarrow> gostring \<Rightarrow> attributes \<Rightarrow> world \<Rightarrow> bool" where
  "cache_misses e t s st rt rid a attrs w \<longleftrightarrow>
     fst (cachedDecision (clock e 0) (decisionCacheKey t s st rt rid a attrs) (w_cache w)) = None"

lemma check_miss:
  assumes "svc_CheckWithAttributes e x t s st rt rid a attrs w = (Inr d, w')" "cache_misses e t s st rt rid a attrs w"
  obtains grants v where "repo_Resolve (conn_of e 0) (w_db w) t s st rt a = Inr (grants, v)"
    "d_PolicyVersion d = v"
    "d_Allowed d \<longleftrightarrow> matching (\<lambda>g. matchesCondition e (g_ConditionExpression g) t s rid attrs) grants \<noteq> []"
    "\<exists>d0. d_DataScope d0 = ''none'' \<and> d_OrganizationUnitIDs d0 = [] \<and> \<not> d_Allowed d0 \<and>
       d_DataScope d = d_DataScope (foldl apply_grant d0 (matching (\<lambda>g. matchesCondition e (g_ConditionExpression g) t s rid attrs) grants)) \<and>
       d_OrganizationUnitIDs d = d_OrganizationUnitIDs (foldl apply_grant d0 (matching (\<lambda>g. matchesCondition e (g_ConditionExpression g) t s rid attrs) grants))"
    "\<forall>g\<in>set grants. \<exists>b. matchesCondition e (g_ConditionExpression g) t s rid attrs = Inr b"
    "d_Reason d = (if grants = [] then ''no matching active grant'' else if d_Allowed d then ''matching active role grant''
                   else ''ABAC condition did not match'')"
    "w' = w\<lparr>w_cache := storeDecision (w_cacheTTL w) (clock e 1) (decisionCacheKey t s st rt rid a attrs) d
             (snd (cachedDecision (clock e 0) (decisionCacheKey t s st rt rid a attrs) (w_cache w)))\<rparr>"
proof -
  let ?m = "\<lambda>g. matchesCondition e (g_ConditionExpression g) t s rid attrs"
  let ?key = "decisionCacheKey t s st rt rid a attrs"
  obtain cache where miss: "cachedDecision (clock e 0) ?key (w_cache w) = (None, cache)"
    using assms(2) by (cases "cachedDecision (clock e 0) ?key (w_cache w)") (auto simp: cache_misses_def)
  from assms(1) miss obtain grants v where res: "repo_Resolve (conn_of e 0) (w_db w) t s st rt a = Inr (grants, v)"
    by (auto simp: svc_CheckWithAttributes_def Let_def split: if_splits sum.splits)
  define d0 where "d0 = \<lparr>d_Allowed = False, d_DecisionID = uuid_NewString e 0, d_Reason = [],
                    d_PolicyVersion = v, d_DataScope = ''none'', d_OrganizationUnitIDs = []\<rparr>"
  show ?thesis
  proof (cases "grants = []")
    case True
    with assms(1) miss res have "d = d0\<lparr>d_Reason := ''no matching active grant''\<rparr>"
      "w' = w\<lparr>w_cache := storeDecision (w_cacheTTL w) (clock e 1) ?key d cache\<rparr>"
      by (auto simp: svc_CheckWithAttributes_def Let_def d0_def split: if_splits)
    with True res miss show ?thesis by (intro that[of grants v]) (auto simp: matching_def d0_def intro!: exI[of _ d0])
  next
    case False
    with assms(1) miss res obtain d1 where ev: "evaluate_grants ?m grants d0 = Inr d1"
      and d: "d = (if \<not> d_Allowed d1 then d1\<lparr>d_Reason := ''ABAC condition did not match''\<rparr> else d1)"
      and w': "w' = w\<lparr>w_cache := storeDecision (w_cacheTTL w) (clock e 1) ?key d cache\<rparr>"
      by (auto simp: svc_CheckWithAttributes_def Let_def d0_def split: if_splits sum.splits)
    note tot = evaluate_grants_total[OF ev]
    from ev evaluate_grants_fold[OF tot] have d1: "d1 = foldl apply_grant d0 (matching ?m grants)" by simp
    have al: "d_Allowed d1 \<longleftrightarrow> matching ?m grants \<noteq> []" by (simp add: d1 fold_apply_grant(1) d0_def)
    have reason: "d_Reason d1 = ''matching active role grant''" if "matching ?m grants \<noteq> []"
      using that unfolding d1 by (cases "matching ?m grants" rule: rev_cases) auto
    show ?thesis
      using False res miss tot al reason
      by (intro that[of grants v]) (auto simp: d w' d1 fold_apply_grant(2) d0_def intro!: exI[of _ d0])
  qed
qed

lemma check_valid:
  "svc_CheckWithAttributes e x t s st rt rid a attrs w = (Inr d, w') \<Longrightarrow>
   t \<noteq> [] \<and> s \<noteq> [] \<and> validSubjectType st \<and> rt \<noteq> [] \<and> a \<noteq> []"
  by (auto simp: svc_CheckWithAttributes_def split: if_splits)

lemma check_hit:
  assumes "svc_CheckWithAttributes e x t s st rt rid a attrs w = (Inr d, w')" "\<not> cache_misses e t s st rt rid a attrs w"
  shows "fst (cachedDecision (clock e 0) (decisionCacheKey t s st rt rid a attrs) (w_cache w)) = Some d \<and> w' = w"
  using assms
  by (auto simp: svc_CheckWithAttributes_def cache_misses_def Let_def cachedDecision_def split: if_splits option.splits)

lemma check_frame:
  "svc_CheckWithAttributes e x t s st rt rid a attrs w = (r, w') \<Longrightarrow>
   w_db w' = w_db w \<and> w_cacheTTL w' = w_cacheTTL w \<and> w_notified w' = w_notified w \<and>
   w_operations w' = w_operations w \<and> w_security w' = w_security w"
  by (auto simp: svc_CheckWithAttributes_def Let_def split: if_splits option.splits sum.splits prod.splits)

text \<open>The content of a decision that a client acts on.\<close>

definition content :: "Decision \<Rightarrow> bool \<times> gostring \<times> gostring list" where
  "content d = (d_Allowed d, d_DataScope d, d_OrganizationUnitIDs d)"

definition decided :: "(Binding \<times> Role \<times> RolePermission \<times> Permission) list \<Rightarrow> bool \<times> gostring \<times> gostring list" where
  "decided qs = content (foldl apply_grant \<lparr>d_Allowed = False, d_DecisionID = [], d_Reason = [], d_PolicyVersion = 0,
     d_DataScope = ''none'', d_OrganizationUnitIDs = []\<rparr> (map grant_of qs))"

lemma content_apply_grant: "content d = content d' \<Longrightarrow> content (apply_grant d g) = content (apply_grant d' g)"
  by (simp add: content_def apply_grant_def Let_def)

lemma content_foldl: "content d = content d' \<Longrightarrow> content (foldl apply_grant d gs) = content (foldl apply_grant d' gs)"
proof (induction gs arbitrary: d d')
  case (Cons g gs)
  show ?case unfolding foldl_Cons by (rule Cons.IH) (rule content_apply_grant[OF Cons.prems])
qed simp

lemma decided_spec:
  "decided qs = (al, ds, us) \<Longrightarrow>
     (al \<longleftrightarrow> qs \<noteq> []) \<and>
     (\<forall>q\<in>set qs. scopeRank (g_DataScope (grant_of q)) \<le> scopeRank ds) \<and>
     (ds = ''none'' \<or> (\<exists>q\<in>set qs. ds = g_DataScope (grant_of q))) \<and>
     distinct us \<and> set us = set (organization_ids (map grant_of qs))"
proof -
  assume a: "decided qs = (al, ds, us)"
  define d0 where "d0 = \<lparr>d_Allowed = False, d_DecisionID = [], d_Reason = [], d_PolicyVersion = 0,
     d_DataScope = ''none'', d_OrganizationUnitIDs = []\<rparr>"
  have d: "al = d_Allowed (foldl apply_grant d0 (map grant_of qs))" "ds = d_DataScope (foldl apply_grant d0 (map grant_of qs))"
    "us = d_OrganizationUnitIDs (foldl apply_grant d0 (map grant_of qs))"
    using a by (simp_all add: decided_def content_def d0_def)
  have "scopeRank (g_DataScope (grant_of q)) \<le> scopeRank ds" if "q \<in> set qs" for q
    unfolding d fold_apply_grant(5) using that by (intro fold_max_ge) auto
  then show ?thesis
    using fold_apply_grant_scope[of d0 "map grant_of qs"]
    by (auto simp: d fold_apply_grant(1,3) d0_def intro!: fold_apply_grant(4))
qed

text \<open>A decision that was not cached is what the policy of the tenant says.\<close>

lemma check_uncached:
  assumes "svc_CheckWithAttributes e x t s st rt rid a attrs w = (Inr d, w')" "cache_misses e t s st rt rid a attrs w"
  shows "content d = decided (applicable e (w_db w) t s st rt rid a attrs)"
  using assms
proof (rule check_miss)
  fix grants v
  let ?g = "matching (\<lambda>g. matchesCondition e (g_ConditionExpression g) t s rid attrs) grants"
  assume res: "repo_Resolve (conn_of e 0) (w_db w) t s st rt a = Inr (grants, v)"
    and al: "d_Allowed d \<longleftrightarrow> ?g \<noteq> []"
    and "\<exists>d0. d_DataScope d0 = ''none'' \<and> d_OrganizationUnitIDs d0 = [] \<and> \<not> d_Allowed d0 \<and>
       d_DataScope d = d_DataScope (foldl apply_grant d0 ?g) \<and> d_OrganizationUnitIDs d = d_OrganizationUnitIDs (foldl apply_grant d0 ?g)"
  then obtain d0 :: Decision where d0: "d_DataScope d0 = ''none''" "d_OrganizationUnitIDs d0 = []" "\<not> d_Allowed d0"
    "d_DataScope d = d_DataScope (foldl apply_grant d0 ?g)" "d_OrganizationUnitIDs d = d_OrganizationUnitIDs (foldl apply_grant d0 ?g)"
    by auto
  have "content d = content (foldl apply_grant d0 ?g)"
    using al d0 by (simp add: content_def fold_apply_grant(1))
  also have "\<dots> = decided (applicable e (w_db w) t s st rt rid a attrs)"
    unfolding matching_applicable[OF res] decided_def using d0(1-3) by (intro content_foldl) (simp add: content_def)
  finally show ?thesis .
qed

section \<open>Permission codes\<close>

lemma unique_codes_nub:
  "unique_codes seen codes requested =
     codes @ nub_from seen (filter (\<lambda>c. c \<noteq> []) (map (\<lambda>c. ToLower (TrimSpace c)) requested))"
  by (induction seen codes requested rule: unique_codes.induct) (auto simp: Let_def)

lemma allowed_codes_spec:
  "allowed_codes gs allowed allowAll = (al, everything) \<Longrightarrow>
     set al = set allowed \<union> {cg_Code g | g. g \<in> set gs \<and> TrimSpace (cg_ConditionExpression g) = []} \<and>
     (everything \<longleftrightarrow> allowAll \<or> (\<exists>g\<in>set gs. TrimSpace (cg_ConditionExpression g) = [] \<and> cg_ResourceType g = ''*'' \<and> cg_Action g = ''*''))"
  by (induction gs allowed allowAll rule: allowed_codes.induct) (auto split: if_splits)

definition code_grant_of :: "Binding \<times> Role \<times> RolePermission \<times> Permission \<Rightarrow> resolvedPermissionCodeGrant" where
  "code_grant_of q = (case q of (rb, r, rp, p) \<Rightarrow> \<lparr>cg_Code = p_Code p, cg_ResourceType = p_ResourceType p,
     cg_Action = p_Action p, cg_ConditionExpression = p_ConditionExpression p\<rparr>)"

lemma repo_ResolvePermissionCodes_Inr:
  assumes "repo_ResolvePermissionCodes c db t s st codes = Inr (grants, v)"
  shows "set grants = code_grant_of ` {q \<in> set (granted db t s st). case q of (rb, r, rp, p) \<Rightarrow>
           p_Code p \<in> set codes \<or> (p_ResourceType p = ''*'' \<and> p_Action p = ''*'')}"
proof -
  have "(\<lambda>(rb, r, rp, p). if p_Code p \<in> set codes \<or> (p_ResourceType p = ''*'' \<and> p_Action p = ''*'')
      then [\<lparr>cg_Code = p_Code p, cg_ResourceType = p_ResourceType p, cg_Action = p_Action p,
             cg_ConditionExpression = p_ConditionExpression p\<rparr>] else [])
    = (\<lambda>q. if (case q of (rb, r, rp, p) \<Rightarrow> p_Code p \<in> set codes \<or> (p_ResourceType p = ''*'' \<and> p_Action p = ''*''))
           then [code_grant_of q] else [])"
    by (auto simp: code_grant_of_def)
  with assms show ?thesis
    by (auto simp: repo_ResolvePermissionCodes_def SelectContext_def concat_map_if split: option.splits sum.splits)
qed

lemma bex_image_filter: "(\<exists>g\<in>f ` {q \<in> A. C q}. Q g) \<longleftrightarrow> (\<exists>q\<in>A. C q \<and> Q (f q))"
  by blast

text \<open>A code may be shown when an unconditional active grant carries it, or one that covers
  everything.\<close>

definition code_entitled :: "database \<Rightarrow> gostring \<Rightarrow> gostring \<Rightarrow> gostring \<Rightarrow> gostring \<Rightarrow> bool" where
  "code_entitled db t s st code =
     list_ex (\<lambda>(rb, r, rp, p). TrimSpace (p_ConditionExpression p) = [] \<and>
        (p_Code p = code \<or> (p_ResourceType p = ''*'' \<and> p_Action p = ''*''))) (granted db t s st)"

lemma CheckPermissionCodes_Inr:
  assumes "svc_CheckPermissionCodes e x t s st requested w = Inr r"
  shows "pcd_AllowedCodes r =
    filter (code_entitled (w_db w) (TrimSpace t) (TrimSpace s) (ToLower (TrimSpace st)))
      (nub (filter (\<lambda>c. c \<noteq> []) (map (\<lambda>c. ToLower (TrimSpace c)) requested)))"
proof -
  let ?codes = "unique_codes [] [] requested"
  let ?G = "granted (w_db w) (TrimSpace t) (TrimSpace s) (ToLower (TrimSpace st))"
  obtain grants v where res: "repo_ResolvePermissionCodes (conn_of e 0) (w_db w) (TrimSpace t) (TrimSpace s)
      (ToLower (TrimSpace st)) ?codes = Inr (grants, v)"
    using assms by (auto simp: svc_CheckPermissionCodes_def Let_def split: if_splits sum.splits)
  obtain al everything where ac: "allowed_codes grants [] False = (al, everything)" by fastforce
  note spec = allowed_codes_spec[OF ac] and gs = repo_ResolvePermissionCodes_Inr[OF res]
  have r: "pcd_AllowedCodes r = filter (\<lambda>code. code \<in> set al \<or> everything) ?codes"
    using assms res ac by (auto simp: svc_CheckPermissionCodes_def Let_def split: if_splits)
  have "code \<in> set al \<or> everything \<longleftrightarrow> code_entitled (w_db w) (TrimSpace t) (TrimSpace s) (ToLower (TrimSpace st)) code"
    if code: "code \<in> set ?codes" for code
  proof -
    have "code \<in> set al \<or> everything \<longleftrightarrow> (\<exists>g\<in>set grants. TrimSpace (cg_ConditionExpression g) = [] \<and>
        (cg_Code g = code \<or> (cg_ResourceType g = ''*'' \<and> cg_Action g = ''*'')))"
      using spec by auto
    also have "\<dots> \<longleftrightarrow> (\<exists>(rb, r, rp, p)\<in>set ?G. TrimSpace (p_ConditionExpression p) = [] \<and>
        (p_Code p = code \<or> (p_ResourceType p = ''*'' \<and> p_Action p = ''*'')))"
      unfolding gs bex_image_filter by (rule bex_cong[OF refl]) (use code in \<open>auto simp: code_grant_of_def\<close>)
    finally show ?thesis by (simp add: code_entitled_def list_ex_iff)
  qed
  then have "pcd_AllowedCodes r = filter (code_entitled (w_db w) (TrimSpace t) (TrimSpace s) (ToLower (TrimSpace st))) ?codes"
    unfolding r by (intro filter_cong refl)
  then show ?thesis by (simp add: unique_codes_nub)
qed

end
