(* ===== verification/Coherence.thy ===== *)
theory Coherence
  imports Decisions
begin

text \<open>
  The decision cache and the policy together. On one replica every change of the policy goes
  through \<open>mutate\<close>, which drops the cached decisions of the tenant it changes; so a check that
  is answered from the cache gets the answer that the current policy gives. The history is any
  interleaving of management operations and checks by any callers.
\<close>

section \<open>Requests\<close>

record request =
  q_tenant :: gostring
  q_subject :: gostring
  q_subjectType :: gostring
  q_resourceType :: gostring
  q_resourceID :: gostring
  q_action :: gostring
  q_attributes :: attributes

definition request_key :: "request \<Rightarrow> gostring" where
  "request_key q = decisionCacheKey (q_tenant q) (q_subject q) (q_subjectType q) (q_resourceType q) (q_resourceID q)
     (q_action q) (q_attributes q)"

text \<open>A request in normal form: resource type and action in lower case as the permissions store
  them, no surrounding white space in the tenant, no NUL byte, and attributes listed in the order
  of their names, which no part contains an equals sign of.\<close>

definition request_ok :: "request \<Rightarrow> bool" where
  "request_ok q =
     (list_all nulfree [q_tenant q, q_subject q, q_subjectType q, q_resourceType q, q_resourceID q, q_action q] \<and>
      TrimSpace (q_tenant q) = q_tenant q \<and> validSubjectType (q_subjectType q) \<and>
      ToLower (q_resourceType q) = q_resourceType q \<and> ToLower (q_action q) = q_action q \<and>
      plain_attributes (q_attributes q) \<and> sorted (map fst (q_attributes q)))"

definition check_request :: "env \<Rightarrow> ctx \<Rightarrow> request \<Rightarrow> world \<Rightarrow> Decision result \<times> world" where
  "check_request e x q w = svc_CheckWithAttributes e x (q_tenant q) (q_subject q) (q_subjectType q) (q_resourceType q)
     (q_resourceID q) (q_action q) (q_attributes q) w"

definition policy_answer :: "env \<Rightarrow> database \<Rightarrow> request \<Rightarrow> bool \<times> gostring \<times> gostring list" where
  "policy_answer e db q = decided (applicable e db (q_tenant q) (q_subject q) (q_subjectType q) (q_resourceType q)
     (q_resourceID q) (q_action q) (q_attributes q))"

definition same_engine :: "env \<Rightarrow> env \<Rightarrow> bool" where
  "same_engine e e' \<longleftrightarrow> cel_Compile e = cel_Compile e' \<and> cel_Program e = cel_Program e' \<and> cel_Eval e = cel_Eval e'"

lemma policy_answer_engine: "same_engine e e' \<Longrightarrow> policy_answer e db q = policy_answer e' db q"
proof -
  assume "same_engine e e'"
  then have "cel_Compile e = cel_Compile e'" "cel_Program e = cel_Program e'" "cel_Eval e = cel_Eval e'"
    by (simp_all add: same_engine_def)
  then have "matchesCondition e = matchesCondition e'"
    by (intro ext) (simp only: matchesCondition_def)
  then show ?thesis by (simp add: policy_answer_def applicable_def)
qed

lemma sorted_attributes_unique:
  assumes "plain_attributes a" "plain_attributes b" "sorted (map fst a)" "sorted (map fst b)" "map_of a = map_of b"
  shows "a = b"
proof -
  have d: "distinct (map fst a)" "distinct (map fst b)" using assms(1,2) by (simp_all add: plain_attributes_def)
  have s: "set a = set b"
    by (simp only: set_map_of_compr[OF d(1)] set_map_of_compr[OF d(2)] assms(5))
  have "inj_on fst (set a \<union> set b)" using d(1) s by (simp add: distinct_map)
  then show ?thesis using assms(3,4) d s by (intro map_sorted_distinct_set_unique[of fst]) auto
qed

lemma request_key_inject:
  assumes "request_ok q" "request_ok q'" "request_key q = request_key q'"
  shows "q = q'"
proof -
  have "q_tenant q = q_tenant q' \<and> q_subject q = q_subject q' \<and> ToLower (q_subjectType q) = ToLower (q_subjectType q') \<and>
      ToLower (q_resourceType q) = ToLower (q_resourceType q') \<and> q_resourceID q = q_resourceID q' \<and>
      ToLower (q_action q) = ToLower (q_action q') \<and> map_of (q_attributes q) = map_of (q_attributes q')"
    using assms unfolding request_key_def request_ok_def by (intro decisionCacheKey_inject) auto
  moreover from this have "q_attributes q = q_attributes q'"
    using assms by (intro sorted_attributes_unique) (auto simp: request_ok_def)
  moreover have "ToLower (q_subjectType q) = q_subjectType q" "ToLower (q_subjectType q') = q_subjectType q'"
    using assms by (auto simp: request_ok_def validSubjectType_lower)
  ultimately show ?thesis using assms by (cases q; cases q') (auto simp: request_ok_def)
qed

section \<open>Coherent caches\<close>

definition coherent :: "env \<Rightarrow> world \<Rightarrow> bool" where
  "coherent e w \<longleftrightarrow> (\<forall>k entry. map_of (w_cache w) k = Some entry \<longrightarrow>
     (\<exists>q. request_ok q \<and> k = request_key q \<and> content (ce_decision entry) = policy_answer e (w_db w) q))"

lemma coherent_empty: "w_cache w = [] \<Longrightarrow> coherent e w"
  by (simp add: coherent_def)

lemma coherent_engine: "same_engine e e' \<Longrightarrow> coherent e w = coherent e' w"
  by (simp add: coherent_def policy_answer_engine)

lemma policy_answer_view:
  assumes "db_wf db" "db_wf db'" "tenant_view (q_tenant q) db' = tenant_view (q_tenant q) db"
  shows "policy_answer e db' q = policy_answer e db q"
proof -
  have "granted db' (q_tenant q) s st = granted db (q_tenant q) s st" for s st
    using granted_view[OF assms(1)] granted_view[OF assms(2)] assms(3) by metis
  then show ?thesis by (simp add: policy_answer_def applicable_def)
qed

lemma invalidate_other_tenant:
  assumes "map_of (invalidateTenant t cache) (request_key q) = Some entry" "request_ok q"
  shows "q_tenant q \<noteq> t \<and> map_of cache (request_key q) = Some entry"
proof -
  have nf: "nulfree (q_tenant q)" and tr: "TrimSpace (q_tenant q) = q_tenant q"
    using assms(2) by (simp_all add: request_ok_def)
  from assms(1) have m: "\<not> prefix (TrimSpace t @ nul) (request_key q)" "map_of cache (request_key q) = Some entry"
    by (simp_all add: invalidateTenant_def delete_prefix_def map_of_filter_keys split: if_splits)
  have "q_tenant q \<noteq> t"
  proof
    assume "q_tenant q = t"
    with nf tr have "prefix (TrimSpace t @ nul) (request_key q)"
      unfolding request_key_def by (auto simp: tenant_prefix_iff)
    with m(1) show False by contradiction
  qed
  with m(2) show ?thesis by simp
qed

lemma coherent_step:
  assumes "service_step e x w w'" "world_ok w" "coherent e w"
  shows "coherent e w'"
proof -
  note eff = service_step_effect[OF assms(1,2)]
  then consider (same) "w_db w' = w_db w" "w_cache w' = w_cache w" | (mutated) t where "mutation_effect e t w w'" by blast
  then show ?thesis
  proof cases
    case same with assms(3) show ?thesis by (simp add: coherent_def)
  next
    case (mutated t)
    show ?thesis unfolding coherent_def
    proof (intro allI impI)
      fix k entry
      assume k: "map_of (w_cache w') k = Some entry"
      have c: "w_cache w' = invalidateTenant t (w_cache w)" using mutated by (simp add: mutation_effect_def)
      from k have "map_of (w_cache w) k = Some entry"
        by (simp add: c invalidateTenant_def delete_prefix_def map_of_filter_keys split: if_splits)
      with assms(3) obtain q where q: "request_ok q" "k = request_key q"
        "content (ce_decision entry) = policy_answer e (w_db w) q" by (auto simp: coherent_def)
      from k q(1,2) c have "q_tenant q \<noteq> t" using invalidate_other_tenant by metis
      then have "tenant_view (q_tenant q) (w_db w') = tenant_view (q_tenant q) (w_db w)"
        using mutated by (simp add: mutation_effect_def)
      then have "policy_answer e (w_db w') q = policy_answer e (w_db w) q"
        using assms(2) eff by (intro policy_answer_view) (auto simp: world_ok_def)
      with q show "\<exists>q. request_ok q \<and> k = request_key q \<and> content (ce_decision entry) = policy_answer e (w_db w') q"
        by metis
    qed
  qed
qed

lemma cachedDecision_shrinks:
  "map_of (snd (cachedDecision now key cache)) k = Some entry \<Longrightarrow> map_of cache k = Some entry"
  by (auto simp: cachedDecision_def delete_conv' split: option.splits if_splits)

lemma cachedDecision_Some:
  "fst (cachedDecision now key cache) = Some d \<Longrightarrow> \<exists>entry. map_of cache key = Some entry \<and> ce_decision entry = d"
  by (auto simp: cachedDecision_def split: option.splits if_splits)

text \<open>The answer of a check on a coherent world.\<close>

lemma check_request_answer:
  assumes "check_request e x q w = (Inr d, w')" "request_ok q" "coherent e w"
  shows "content d = policy_answer e (w_db w) q"
proof (cases "cache_misses e (q_tenant q) (q_subject q) (q_subjectType q) (q_resourceType q) (q_resourceID q) (q_action q)
    (q_attributes q) w")
  case True
  from check_uncached[OF assms(1)[unfolded check_request_def] True] show ?thesis by (simp add: policy_answer_def)
next
  case False
  from check_hit[OF assms(1)[unfolded check_request_def] False]
  obtain entry where "map_of (w_cache w) (request_key q) = Some entry" "ce_decision entry = d"
    unfolding request_key_def by (metis cachedDecision_Some)
  with assms(3) obtain q' where "request_ok q'" "request_key q = request_key q'" "content d = policy_answer e (w_db w) q'"
    by (auto simp: coherent_def)
  with assms(2) request_key_inject show ?thesis by blast
qed

lemma check_cache_cases:
  assumes "svc_CheckWithAttributes e x t s st rt rid a attrs w = (r, w')"
  shows "(\<forall>k entry. map_of (w_cache w') k = Some entry \<longrightarrow> map_of (w_cache w) k = Some entry) \<or>
    (\<exists>d. r = Inr d \<and> (\<forall>k entry. map_of (w_cache w') k = Some entry \<longrightarrow>
       map_of (w_cache w) k = Some entry \<or> k = decisionCacheKey t s st rt rid a attrs \<and> ce_decision entry = d))"
proof (cases r)
  case (Inl err)
  with assms have "w_cache w' = w_cache w \<or>
      w_cache w' = snd (cachedDecision (clock e 0) (decisionCacheKey t s st rt rid a attrs) (w_cache w))"
    by (auto simp: svc_CheckWithAttributes_def Let_def split: if_splits option.splits sum.splits prod.splits)
  then show ?thesis using cachedDecision_shrinks by metis
next
  case (Inr d)
  show ?thesis
  proof (cases "cache_misses e t s st rt rid a attrs w")
    case False
    with assms Inr check_hit show ?thesis by blast
  next
    case True
    from assms[unfolded Inr] True
    have w': "w_cache w' = storeDecision (w_cacheTTL w) (clock e 1) (decisionCacheKey t s st rt rid a attrs) d
             (snd (cachedDecision (clock e 0) (decisionCacheKey t s st rt rid a attrs) (w_cache w)))"
      by (rule check_miss) simp
    have "map_of (w_cache w) k = Some entry \<or> k = decisionCacheKey t s st rt rid a attrs \<and> ce_decision entry = d"
      if "map_of (w_cache w') k = Some entry" for k entry
      using that by (auto simp: w' storeDecision_def update_conv' split: if_splits dest: cachedDecision_shrinks)
    with Inr show ?thesis by blast
  qed
qed

lemma coherent_check:
  assumes "check_request e x q w = (r, w')" "request_ok q" "coherent e w"
  shows "coherent e w'"
proof -
  have db: "w_db w' = w_db w" using check_frame[OF assms(1)[unfolded check_request_def]] by blast
  from check_cache_cases[OF assms(1)[unfolded check_request_def]] show ?thesis
  proof (elim disjE exE conjE)
    assume "\<forall>k entry. map_of (w_cache w') k = Some entry \<longrightarrow> map_of (w_cache w) k = Some entry"
    with assms(3) show ?thesis unfolding coherent_def db by blast
  next
    fix d
    assume r: "r = Inr d" and new: "\<forall>k entry. map_of (w_cache w') k = Some entry \<longrightarrow> map_of (w_cache w) k = Some entry \<or>
      k = decisionCacheKey (q_tenant q) (q_subject q) (q_subjectType q) (q_resourceType q) (q_resourceID q) (q_action q)
        (q_attributes q) \<and> ce_decision entry = d"
    have "content d = policy_answer e (w_db w) q"
      using check_request_answer[OF assms(1)[unfolded r] assms(2,3)] .
    with new assms(2,3) show ?thesis unfolding coherent_def db request_key_def by metis
  qed
qed

section \<open>Histories of operations and checks\<close>

datatype event = Manage env ctx command | Ask env ctx request

fun event_env :: "event \<Rightarrow> env" where
  "event_env (Manage e x cmd) = e"
| "event_env (Ask e x q) = e"

fun event_ok :: "event \<Rightarrow> bool" where
  "event_ok (Manage e x cmd) = True"
| "event_ok (Ask e x q) = request_ok q"

fun run_event :: "event \<Rightarrow> world \<Rightarrow> world" where
  "run_event (Manage e x cmd) w = exec_command e x cmd w"
| "run_event (Ask e x q) w = snd (check_request e x q w)"

inductive reachable :: "env \<Rightarrow> world \<Rightarrow> world \<Rightarrow> bool" for e0 w0 where
  Start: "reachable e0 w0 w0"
| Next: "reachable e0 w0 w \<Longrightarrow> event_ok ev \<Longrightarrow> same_engine e0 (event_env ev) \<Longrightarrow> reachable e0 w0 (run_event ev w)"

lemma reachable_invariant:
  "reachable e0 w0 w \<Longrightarrow> world_ok w0 \<Longrightarrow> coherent e0 w0 \<Longrightarrow> world_ok w \<and> coherent e0 w"
proof (induction rule: reachable.induct)
  case (Next w ev)
  then have w: "world_ok w" "coherent e0 w" by blast+
  show ?case
  proof (cases ev)
    case (Manage e x cmd)
    with Next.hyps(3) w show ?thesis
      using service_step_effect[OF exec_command_step w(1), of e x cmd] coherent_step[OF exec_command_step w(1), of e x cmd]
      by (simp add: coherent_engine)
  next
    case (Ask e x q)
    obtain r w' where c: "check_request e x q w = (r, w')" by fastforce
    have "world_ok w'" using w(1) check_frame[OF c[unfolded check_request_def]] by (simp add: world_ok_def)
    moreover have "coherent e w'"
      using Next.hyps(2,3) w(2) Ask by (intro coherent_check[OF c]) (auto simp: coherent_engine)
    ultimately show ?thesis using Next.hyps(3) Ask c by (simp add: coherent_engine)
  qed
qed simp

end
