(* ===== verification/Sample.thy ===== *)
theory Sample
  imports Coherence
begin

text \<open>
  A small concrete instance: a healthy PostgreSQL connection, an environment whose external
  functions are simple total functions, and a tenant with one role, one permission, one grant and
  one binding. It shows that the hypotheses of the properties can hold together.
\<close>

definition sample_conn :: conn where
  "sample_conn = \<lparr>db_available = True, driverName = ''pgx'', fault = (\<lambda>label. None), stmt_time = 100,
     app_actor = [], collation = (\<lambda>s. s), err_texts = (\<lambda>s. ''error'')\<rparr>"

definition sample_audit :: AuditFields where
  "sample_audit = \<lparr>Version = 1, CreatedAt = 10, UpdatedAt = 10, CreatedBy = ''seed'', UpdatedBy = ''seed''\<rparr>"

definition sample_env :: env where
  "sample_env = \<lparr>PlatformTenantID = ''__platform__'', clock = (\<lambda>n. 1000 + int n),
     uuid_NewString = (\<lambda>n. if n = 0 then ''new-id'' else ''event-id''), conn_of = (\<lambda>n. sample_conn),
     audit_New = (\<lambda>x t. case ctx_principal x of
        Some p \<Rightarrow> Some \<lparr>Version = 1, CreatedAt = t, UpdatedAt = t, CreatedBy = pr_ID p, UpdatedBy = pr_ID p\<rparr>
      | None \<Rightarrow> None),
     audit_UpdatedBy = (\<lambda>x t. map_option (\<lambda>p. (pr_ID p, t)) (ctx_principal x)),
     cel_Compile = (\<lambda>s. Inr s), cel_Program = (\<lambda>s. Inr s),
     cel_Eval = (\<lambda>p act. Inr (CelBool (p = act_resource_id act))),
     eventbus_NewEnvelope = (\<lambda>md ev. Inr \<lparr>en_EventId = md_EventID md, en_Body = ev_Reason ev\<rparr>),
     proto_Marshal = (\<lambda>en. Inr (en_Body en)), operations = None, security = None, notify_set = True,
     sentinel_texts = (\<lambda>s. ''error'')\<rparr>"

definition sample_user :: Principal where
  "sample_user = \<lparr>pr_ID = ''u1'', pr_Type = TypeUser, pr_TenantID = ''t1'', pr_MembershipID = ''m1''\<rparr>"

definition sample_ctx :: ctx where
  "sample_ctx = \<lparr>ctx_principal = Some sample_user, authorizedManagementTenant = None, ctx_requestID = Some ''req'',
     ctx_clientIP = ''10.0.0.1'', ctx_userAgent = ''agent'', ctx_idempotencyKey = None, ctx_environment = None\<rparr>"

definition sample_permission :: Permission where
  "sample_permission = \<lparr>p_ID = ''p1'', p_TenantID = ''t1'', p_Code = ''doc.read'', p_Name = ''Read'', p_ResourceType = ''doc'',
     p_Action = ''read'', p_ConditionExpression = [], p_Status = ''active'', p_Audit = sample_audit\<rparr>"

definition sample_role :: Role where
  "sample_role = \<lparr>r_ID = ''r1'', r_TenantID = ''t1'', r_Code = ''reader'', r_Name = ''Reader'', r_Description = [],
     r_DataScope = ''organization'', r_Status = ''active'', r_Audit = sample_audit\<rparr>"

definition sample_grant :: RolePermission where
  "sample_grant = \<lparr>rp_ID = ''x1'', rp_TenantID = ''t1'', rp_RoleID = ''r1'', rp_PermissionID = ''p1'', rp_Status = ''active'',
     rp_Audit = sample_audit\<rparr>"

definition sample_binding :: Binding where
  "sample_binding = \<lparr>b_ID = ''b1'', b_TenantID = ''t1'', b_SubjectID = ''m1'', b_SubjectType = ''membership'', b_RoleID = ''r1'',
     b_OrganizationUnitID = ''ou1'', b_Status = ''active'', b_Audit = sample_audit\<rparr>"

definition sample_db :: database where
  "sample_db = \<lparr>permissions = [Row sample_permission None], roles = [Row sample_role None],
     role_permissions = [Row sample_grant None], role_bindings = [Row sample_binding None], subject_groups = [],
     policy_versions = [Row \<lparr>pv_TenantID = ''t1'', pv_PolicyVersion = 7, pv_Audit = sample_audit\<rparr> None],
     processed_events = [], outbox_events = []\<rparr>"

definition sample_world :: world where
  "sample_world = \<lparr>w_db = sample_db, w_cache = [], w_cacheTTL = 30, w_notified = [], w_operations = [], w_security = []\<rparr>"

definition sample_other_ctx :: ctx where
  "sample_other_ctx = sample_ctx\<lparr>ctx_principal := Some (sample_user\<lparr>pr_TenantID := ''t2''\<rparr>)\<rparr>"

definition sample_request :: request where
  "sample_request = \<lparr>q_tenant = ''t1'', q_subject = ''m1'', q_subjectType = ''membership'', q_resourceType = ''doc'',
     q_resourceID = ''d7'', q_action = ''read'', q_attributes = [(''ip'', ''10.0.0.1'')]\<rparr>"

definition sample_decision :: Decision where
  "sample_decision = \<lparr>d_Allowed = True, d_DecisionID = ''new-id'', d_Reason = ''matching active role grant'', d_PolicyVersion = 7,
     d_DataScope = ''organization'', d_OrganizationUnitIDs = [''ou1'']\<rparr>"

lemmas sample_defs =
  sample_conn_def sample_audit_def sample_env_def sample_user_def sample_ctx_def sample_permission_def sample_role_def
  sample_grant_def sample_binding_def sample_db_def sample_world_def

lemma sample_world_ok: "world_ok sample_world"
  by code_simp

end
