(* ===== verification/Update_Laws.thy ===== *)
theory Update_Laws
  imports Service_Laws Decisions
begin

text \<open>
  What the mutating operations of the service do to the tables: an update or a revocation is one
  conditional write of the row it names, so the optimistic-locking contract of the tables carries
  over to the service; a creation adds one row.
\<close>

section \<open>Tables after a mutation\<close>

definition policy_tables where
  "policy_tables db = (permissions db, roles db, role_permissions db, role_bindings db, subject_groups db)"

lemma committed_tables:
  assumes "committed e x n t s st rs flds operation w = Some (v, db')"
  shows "\<exists>tx db1. operation tx (w_db w) = Inr db1 \<and> policy_tables db' = policy_tables db1"
  using assms
proof (rule committedD)
  fix tx db1 db2 event
  assume o: "operation tx (w_db w) = Inr db1"
    and "repo_BumpPolicyVersion tx t db1 = Inr (v, db2)" "repo_AddOutbox tx event db2 = Inr db'"
  then have "policy_tables db' = policy_tables db1"
    by (auto simp: repo_BumpPolicyVersion_def policy_tables_def Let_def split: option.splits sum.splits if_splits dest!: repo_AddOutbox_Inr)
  with o show ?thesis by blast
qed

lemma mutate_None:
  assumes "mutate e x n t s st rs flds operation w = (None, w')"
  shows "\<exists>tx db1. operation tx (w_db w) = Inr db1 \<and> policy_tables (w_db w') = policy_tables db1"
  using assms by (cases rule: mutate_cases) (auto dest: committed_tables)

lemma mutate_fails:
  assumes "mutate e x n t s st rs flds operation w = (err, w')" "\<And>tx. \<exists>er. operation tx (w_db w) = Inl er"
  shows "err \<noteq> None \<and> w_db w' = w_db w \<and> w_cache w' = w_cache w"
  using assms(1)
proof (cases rule: mutate_cases)
  case (applied v)
  with assms(2) committed_tables show ?thesis by (metis Inl_Inr_False)
qed simp

section \<open>Updates are conditional writes\<close>

lemma db_wf_tinv:
  assumes "db_wf db"
  shows "perm.tinv (permissions db)" "role.tinv (roles db)" "role_perm.tinv (role_permissions db)" "binding.tinv (role_bindings db)"
proof -
  have d: "distinct (map g (live tb))" if "distinct (map (f \<circ> row_val) tb)" "\<And>a b. g a = g b \<Longrightarrow> f a = f b"
    for f :: "'a \<Rightarrow> gostring" and g :: "'a \<Rightarrow> gostring \<times> gostring" and tb
  proof -
    have "distinct (map f (live tb))" using that(1) by (induction tb) (auto simp: live_def)
    then show ?thesis using that(2) unfolding distinct_map inj_on_def by metis
  qed
  from assms have "distinct (map (p_ID \<circ> row_val) (permissions db))" "distinct (map (r_ID \<circ> row_val) (roles db))"
    "distinct (map (rp_ID \<circ> row_val) (role_permissions db))" "distinct (map (b_ID \<circ> row_val) (role_bindings db))"
    by (simp_all add: db_wf_def keys_wf_def key_defs comp_def)
  then show "perm.tinv (permissions db)" "role.tinv (roles db)" "role_perm.tinv (role_permissions db)" "binding.tinv (role_bindings db)"
    unfolding perm.tinv_def role.tinv_def role_perm.tinv_def binding.tinv_def by (auto intro!: d)
qed

lemma svc_UpdatePermission_Inr:
  assumes "svc_UpdatePermission e x t i n ce st v w = (Inr p, w')"
  shows "\<exists>(c :: conn) (row :: Permission). perm.tput (TrimSpace t, TrimSpace i) (c, row) v (permissions (w_db w)) = Some (permissions (w_db w')) \<and>
    p_Name row = TrimSpace n \<and> p_ConditionExpression row = TrimSpace ce \<and> p_Status row = ToLower (TrimSpace st)"
proof -
  from assms obtain tx row db1 where u: "repo_UpdatePermission tx row (w_db w) = Inr db1" "policy_tables (w_db w') = policy_tables db1"
    and row: "(p_TenantID row, p_ID row) = (TrimSpace t, TrimSpace i)" "Version (p_Audit row) = v" "p_Name row = TrimSpace n \<and> p_ConditionExpression row = TrimSpace ce \<and> p_Status row = ToLower (TrimSpace st)"
    by (auto simp: svc_UpdatePermission_def Let_def split: if_splits option.splits sum.splits prod.splits dest!: mutate_None repo_GetPermission_Inr)
  have "perm.tput (TrimSpace t, TrimSpace i) (tx, row) v (permissions (w_db w)) = Some (permissions (w_db w'))"
    using repo_UpdatePermission_Inr[OF u(1)] u(2) row by (auto simp: policy_tables_def)
  with row(3) show ?thesis by blast
qed

lemma svc_UpdateRole_Inr:
  assumes "svc_UpdateRole e x t i n d ds st v w = (Inr r, w')"
  shows "\<exists>(c :: conn) (row :: Role). role.tput (TrimSpace t, i) (c, row) v (roles (w_db w)) = Some (roles (w_db w')) \<and>
    r_Name row = TrimSpace n \<and> r_Description row = TrimSpace d \<and> r_DataScope row = ds \<and> r_Status row = st"
proof -
  from assms obtain tx row db1 where u: "repo_UpdateRole tx row (w_db w) = Inr db1" "policy_tables (w_db w') = policy_tables db1"
    and row: "(r_TenantID row, r_ID row) = (TrimSpace t, i)" "Version (r_Audit row) = v" "r_Name row = TrimSpace n \<and> r_Description row = TrimSpace d \<and> r_DataScope row = ds \<and> r_Status row = st"
    by (auto simp: svc_UpdateRole_def Let_def split: if_splits option.splits sum.splits prod.splits dest!: mutate_None repo_GetRole_Inr)
  have "role.tput (TrimSpace t, i) (tx, row) v (roles (w_db w)) = Some (roles (w_db w'))"
    using repo_UpdateRole_Inr[OF u(1)] u(2) row by (auto simp: policy_tables_def)
  with row(3) show ?thesis by blast
qed

lemma svc_RevokeRolePermission_Inr:
  assumes "svc_RevokeRolePermission e x t i v w = (Inr r, w')"
  shows "\<exists>(c :: conn) (row :: RolePermission). role_perm.tput (TrimSpace t, i) (c, row) v (role_permissions (w_db w)) = Some (role_permissions (w_db w')) \<and>
    rp_Status row = ''revoked''"
proof -
  from assms obtain tx row db1 where u: "repo_UpdateRolePermission tx row (w_db w) = Inr db1" "policy_tables (w_db w') = policy_tables db1"
    and row: "(rp_TenantID row, rp_ID row) = (TrimSpace t, i)" "Version (rp_Audit row) = v" "rp_Status row = ''revoked''"
    by (auto simp: svc_RevokeRolePermission_def Let_def split: if_splits option.splits sum.splits prod.splits dest!: mutate_None repo_GetRolePermission_Inr)
  have "role_perm.tput (TrimSpace t, i) (tx, row) v (role_permissions (w_db w)) = Some (role_permissions (w_db w'))"
    using repo_UpdateRolePermission_Inr[OF u(1)] u(2) row by (auto simp: policy_tables_def)
  with row(3) show ?thesis by blast
qed

lemma svc_RevokeBinding_Inr:
  assumes "svc_RevokeBinding e x t i v w = (Inr b, w')"
  shows "\<exists>(c :: conn) (row :: Binding). binding.tput (t, i) (c, row) v (role_bindings (w_db w)) = Some (role_bindings (w_db w')) \<and>
    b_Status row = ''revoked''"
proof -
  from assms obtain tx row db1 where u: "repo_UpdateBinding tx row (w_db w) = Inr db1" "policy_tables (w_db w') = policy_tables db1"
    and row: "(b_TenantID row, b_ID row) = (t, i)" "Version (b_Audit row) = v" "b_Status row = ''revoked''"
    by (auto simp: svc_RevokeBinding_def Let_def split: if_splits option.splits sum.splits prod.splits dest!: mutate_None repo_GetBinding_Inr)
  have "binding.tput (t, i) (tx, row) v (role_bindings (w_db w)) = Some (role_bindings (w_db w'))"
    using repo_UpdateBinding_Inr[OF u(1)] u(2) row by (auto simp: policy_tables_def)
  with row(3) show ?thesis by blast
qed

section \<open>Writes against another version change nothing\<close>

lemma not_Inr: "(\<And>d. f \<noteq> Inr d) \<Longrightarrow> \<exists>er. f = Inl er"
  by (cases f) auto

lemma svc_UpdatePermission_stale:
  assumes "\<And>y :: conn \<times> Permission. perm.tput (TrimSpace t, TrimSpace i) y v (permissions (w_db w)) = None"
    and "svc_UpdatePermission e x t i n ce st v w = (r, w')"
  shows "(\<exists>err. r = Inl err) \<and> w_db w' = w_db w \<and> w_cache w' = w_cache w"
proof -
  have "\<exists>er. repo_UpdatePermission tx row (w_db w) = Inl er"
    if "p_TenantID row = TrimSpace t" "p_ID row = TrimSpace i" "Version (p_Audit row) = v" for tx row
    using that assms(1) by (intro not_Inr) (auto dest!: repo_UpdatePermission_Inr)
  with assms(2) show ?thesis unfolding svc_UpdatePermission_def Let_def
    by (auto split: if_splits option.splits sum.splits prod.splits dest!: repo_GetPermission_Inr mutate_fails)
qed

lemma svc_UpdateRole_stale:
  assumes "\<And>y :: conn \<times> Role. role.tput (TrimSpace t, i) y v (roles (w_db w)) = None"
    and "svc_UpdateRole e x t i n d ds st v w = (r, w')"
  shows "(\<exists>err. r = Inl err) \<and> w_db w' = w_db w \<and> w_cache w' = w_cache w"
proof -
  have "\<exists>er. repo_UpdateRole tx row (w_db w) = Inl er"
    if "r_TenantID row = TrimSpace t" "r_ID row = i" "Version (r_Audit row) = v" for tx row
    using that assms(1) by (intro not_Inr) (auto dest!: repo_UpdateRole_Inr)
  with assms(2) show ?thesis unfolding svc_UpdateRole_def Let_def
    by (auto split: if_splits option.splits sum.splits prod.splits dest!: repo_GetRole_Inr mutate_fails)
qed

lemma svc_RevokeRolePermission_stale:
  assumes "\<And>y :: conn \<times> RolePermission. role_perm.tput (TrimSpace t, i) y v (role_permissions (w_db w)) = None"
    and "svc_RevokeRolePermission e x t i v w = (r, w')"
  shows "(\<exists>err. r = Inl err) \<and> w_db w' = w_db w \<and> w_cache w' = w_cache w"
proof -
  have "\<exists>er. repo_UpdateRolePermission tx row (w_db w) = Inl er"
    if "rp_TenantID row = TrimSpace t" "rp_ID row = i" "Version (rp_Audit row) = v" for tx row
    using that assms(1) by (intro not_Inr) (auto dest!: repo_UpdateRolePermission_Inr)
  with assms(2) show ?thesis unfolding svc_RevokeRolePermission_def Let_def
    by (auto split: if_splits option.splits sum.splits prod.splits dest!: repo_GetRolePermission_Inr mutate_fails)
qed

lemma svc_RevokeBinding_stale:
  assumes "\<And>y :: conn \<times> Binding. binding.tput (t, i) y v (role_bindings (w_db w)) = None"
    and "svc_RevokeBinding e x t i v w = (r, w')"
  shows "(\<exists>err. r = Inl err) \<and> w_db w' = w_db w \<and> w_cache w' = w_cache w"
proof -
  have "\<exists>er. repo_UpdateBinding tx row (w_db w) = Inl er"
    if "b_TenantID row = t" "b_ID row = i" "Version (b_Audit row) = v" for tx row
    using that assms(1) by (intro not_Inr) (auto dest!: repo_UpdateBinding_Inr)
  with assms(2) show ?thesis unfolding svc_RevokeBinding_def Let_def
    by (auto split: if_splits option.splits sum.splits prod.splits dest!: repo_GetBinding_Inr mutate_fails)
qed

section \<open>The second writer of a version fails\<close>

lemma svc_UpdatePermission_once:
  assumes "world_ok w" "svc_UpdatePermission e x t i n ce st v w = (Inr p, w1)" "svc_UpdatePermission e' x' t i n' ce' st' v w1 = (res, w2)"
  shows "(\<exists>err. res = Inl err) \<and> w_db w2 = w_db w1 \<and> w_cache w2 = w_cache w1"
proof -
  obtain c row where u: "perm.tput (TrimSpace t, TrimSpace i) (c :: conn, row :: Permission) v (permissions (w_db w)) = Some (permissions (w_db w1))"
    using svc_UpdatePermission_Inr[OF assms(2)] by blast
  have "perm.tput (TrimSpace t, TrimSpace i) y v (permissions (w_db w1)) = None" for y :: "conn \<times> Permission"
    using perm.no_lost_update[OF _ u] db_wf_tinv assms(1) by (simp add: world_ok_def)
  from svc_UpdatePermission_stale[OF this assms(3)] show ?thesis .
qed

lemma svc_UpdateRole_once:
  assumes "world_ok w" "svc_UpdateRole e x t i n d ds st v w = (Inr r, w1)" "svc_UpdateRole e' x' t i n' d' ds' st' v w1 = (res, w2)"
  shows "(\<exists>err. res = Inl err) \<and> w_db w2 = w_db w1 \<and> w_cache w2 = w_cache w1"
proof -
  obtain c row where u: "role.tput (TrimSpace t, i) (c :: conn, row :: Role) v (roles (w_db w)) = Some (roles (w_db w1))"
    using svc_UpdateRole_Inr[OF assms(2)] by blast
  have "role.tput (TrimSpace t, i) y v (roles (w_db w1)) = None" for y :: "conn \<times> Role"
    using role.no_lost_update[OF _ u] db_wf_tinv assms(1) by (simp add: world_ok_def)
  from svc_UpdateRole_stale[OF this assms(3)] show ?thesis .
qed

lemma svc_RevokeRolePermission_once:
  assumes "world_ok w" "svc_RevokeRolePermission e x t i v w = (Inr g, w1)" "svc_RevokeRolePermission e' x' t i v w1 = (res, w2)"
  shows "(\<exists>err. res = Inl err) \<and> w_db w2 = w_db w1 \<and> w_cache w2 = w_cache w1"
proof -
  obtain c row where u: "role_perm.tput (TrimSpace t, i) (c :: conn, row :: RolePermission) v (role_permissions (w_db w)) = Some (role_permissions (w_db w1))"
    using svc_RevokeRolePermission_Inr[OF assms(2)] by blast
  have "role_perm.tput (TrimSpace t, i) y v (role_permissions (w_db w1)) = None" for y :: "conn \<times> RolePermission"
    using role_perm.no_lost_update[OF _ u] db_wf_tinv assms(1) by (simp add: world_ok_def)
  from svc_RevokeRolePermission_stale[OF this assms(3)] show ?thesis .
qed

lemma svc_RevokeBinding_once:
  assumes "world_ok w" "svc_RevokeBinding e x t i v w = (Inr b, w1)" "svc_RevokeBinding e' x' t i v w1 = (res, w2)"
  shows "(\<exists>err. res = Inl err) \<and> w_db w2 = w_db w1 \<and> w_cache w2 = w_cache w1"
proof -
  obtain c row where u: "binding.tput (t, i) (c :: conn, row :: Binding) v (role_bindings (w_db w)) = Some (role_bindings (w_db w1))"
    using svc_RevokeBinding_Inr[OF assms(2)] by blast
  have "binding.tput (t, i) y v (role_bindings (w_db w1)) = None" for y :: "conn \<times> Binding"
    using binding.no_lost_update[OF _ u] db_wf_tinv assms(1) by (simp add: world_ok_def)
  from svc_RevokeBinding_stale[OF this assms(3)] show ?thesis .
qed

section \<open>Withdrawn rows grant nothing\<close>

lemma find_unique: "distinct (map key xs) \<Longrightarrow> y \<in> set xs \<Longrightarrow> key y = k \<Longrightarrow> find (\<lambda>v. key v = k) xs = Some y"
  by (induction xs) force+

context audited_table
begin

text \<open>After a successful write the live row of the key is the updated one.\<close>

lemma written_row:
  assumes "tinv t" "tput k w n t = Some t'" "y \<in> set (live t')" "key y = k"
  shows "\<exists>v. y = upd w v"
proof -
  from assms(2) have ne: "filter (\<lambda>v. key v = k \<and> ver v = n) (live t) \<noteq> []"
    and t': "live t' = map (\<lambda>v. if key v = k \<and> ver v = n then upd w v else v) (live t)"
    by (auto simp: tput_def count_where_def split: if_splits)
  have "distinct (map key (live t'))" using assms(1) by (simp only: t' map_key_updated tinv_def)
  from find_unique[OF this assms(3,4)] find_updated[OF assms(1)[unfolded tinv_def] ne, of w]
  show ?thesis unfolding t' by auto
qed

end

lemma revoked_binding:
  assumes "svc_RevokeBinding e x t i v w = (Inr b0, w')" "world_ok w" "b \<in> set (live (role_bindings (w_db w')))"
    and "b_TenantID b = t" "b_ID b = i"
  shows "b_Status b = ''revoked''"
proof -
  obtain c row where u: "binding.tput (t, i) (c :: conn, row :: Binding) v (role_bindings (w_db w)) = Some (role_bindings (w_db w'))"
    "b_Status row = ''revoked''" using svc_RevokeBinding_Inr[OF assms(1)] by blast
  have "binding.tinv (role_bindings (w_db w))" using assms(2) db_wf_tinv by (simp add: world_ok_def)
  from binding.written_row[OF this u(1) assms(3)] assms(4,5) u(2) show ?thesis by auto
qed

lemma revoked_grant:
  assumes "svc_RevokeRolePermission e x t i v w = (Inr r0, w')" "world_ok w" "r \<in> set (live (role_permissions (w_db w')))"
    and "rp_TenantID r = TrimSpace t" "rp_ID r = i"
  shows "rp_Status r = ''revoked''"
proof -
  obtain c row where u: "role_perm.tput (TrimSpace t, i) (c :: conn, row :: RolePermission) v (role_permissions (w_db w))
      = Some (role_permissions (w_db w'))"
    "rp_Status row = ''revoked''" using svc_RevokeRolePermission_Inr[OF assms(1)] by blast
  have "role_perm.tinv (role_permissions (w_db w))" using assms(2) db_wf_tinv by (simp add: world_ok_def)
  from role_perm.written_row[OF this u(1) assms(3)] assms(4,5) u(2) show ?thesis by auto
qed

lemma updated_role:
  assumes "svc_UpdateRole e x t i n d ds st v w = (Inr r0, w')" "world_ok w" "r \<in> set (live (roles (w_db w')))"
    and "r_TenantID r = TrimSpace t" "r_ID r = i"
  shows "r_Name r = TrimSpace n \<and> r_Description r = TrimSpace d \<and> r_DataScope r = ds \<and> r_Status r = st"
proof -
  obtain c row where u: "role.tput (TrimSpace t, i) (c :: conn, row :: Role) v (roles (w_db w)) = Some (roles (w_db w'))"
    "r_Name row = TrimSpace n \<and> r_Description row = TrimSpace d \<and> r_DataScope row = ds \<and> r_Status row = st"
    using svc_UpdateRole_Inr[OF assms(1)] by blast
  have "role.tinv (roles (w_db w))" using assms(2) db_wf_tinv by (simp add: world_ok_def)
  from role.written_row[OF this u(1) assms(3)] assms(4,5) u(2) show ?thesis by auto
qed

lemma updated_permission:
  assumes "svc_UpdatePermission e x t i n ce st v w = (Inr p0, w')" "world_ok w" "p \<in> set (live (permissions (w_db w')))"
    and "p_TenantID p = TrimSpace t" "p_ID p = TrimSpace i"
  shows "p_Name p = TrimSpace n \<and> p_ConditionExpression p = TrimSpace ce \<and> p_Status p = ToLower (TrimSpace st)"
proof -
  obtain c row where u: "perm.tput (TrimSpace t, TrimSpace i) (c :: conn, row :: Permission) v (permissions (w_db w))
      = Some (permissions (w_db w'))"
    "p_Name row = TrimSpace n \<and> p_ConditionExpression row = TrimSpace ce \<and> p_Status row = ToLower (TrimSpace st)"
    using svc_UpdatePermission_Inr[OF assms(1)] by blast
  have "perm.tinv (permissions (w_db w))" using assms(2) db_wf_tinv by (simp add: world_ok_def)
  from perm.written_row[OF this u(1) assms(3)] assms(4,5) u(2) show ?thesis by auto
qed

lemma svc_step_ok:
  assumes "service_step e x w w'" "world_ok w"
  shows "db_wf (w_db w')"
  using service_step_effect[OF assms] by (simp add: world_ok_def)

section \<open>Error codes on a working connection\<close>

definition working :: "conn \<Rightarrow> bool" where
  "working c \<longleftrightarrow> db_available c \<and> (\<forall>l. fault c l = None) \<and> driverName c \<in> {''mysql'', ''pgx'', ''postgres'', ''kingbase''}"

definition known_actor :: "ctx \<Rightarrow> bool" where
  "known_actor x = (case ctx_principal x of None \<Rightarrow> False | Some a \<Rightarrow> TrimSpace (pr_ID a) \<noteq> [])"

lemma mutate_operation_error:
  assumes "mutate e x n t s st rs flds operation w = (err, w')" "working (conn_of e n)" "known_actor x"
    and op: "\<And>tx. \<forall>l. fault tx l = None \<Longrightarrow> app_actor tx \<noteq> [] \<Longrightarrow>
               \<exists>er. operation tx (w_db w) = Inl er \<and> code_of (translate er) = code"
  shows "\<exists>er. err = Some er \<and> code_of er = code \<and> w_db w' = w_db w"
proof -
  obtain a where a: "ctx_principal x = Some a" "TrimSpace (pr_ID a) \<noteq> []"
    using assms(3) by (auto simp: known_actor_def split: option.splits)
  let ?tx = "(conn_of e n)\<lparr>app_actor := pr_ID a\<rparr>"
  have act: "pr_ID a \<noteq> []" using a(2) by auto
  then obtain er where er: "operation ?tx (w_db w) = Inl er" "code_of (translate er) = code"
    using op[of ?tx] assms(2) by (auto simp: working_def)
  have "setAuditActor (conn_of e n) x = Inr ?tx"
    using a assms(2) by (auto simp: setAuditActor_def working_def)
  then have W: "Within (conn_of e n) x (mutate_tx e t s st rs flds operation) (w_db w) = Inl er"
    using assms(2) er(1) by (intro Within_Inl_closure) (auto simp: working_def mutate_tx_def)
  from assms(1) show ?thesis
  proof (cases rule: mutate_cases)
    case (rolled_back er') with W er(2) show ?thesis by simp
  next
    case (applied v) with W show ?thesis by (simp add: committed_def)
  qed
qed

lemma stale_code: "code_of (translate (Sentinel ErrStaleVersion)) = CodeStaleVersion"
  by (simp add: translate_def)

lemma conflict_code: "code_of (translate (Wrapf m (unique_violation c))) = CodeConflict"
  by (simp add: unique_violation_translate)

text \<open>The conditional update on a row of another version.\<close>

lemma unhit_update:
  assumes "distinct (map key (live tb))" "v \<in> set (live tb)" "ver v \<noteq> n"
  shows "count_where (\<lambda>u. key u = key v \<and> ver u = n) tb = 0"
proof -
  have "\<not> (key u = key v \<and> ver u = n)" if "u \<in> set (live tb)" for u
  proof
    assume "key u = key v \<and> ver u = n"
    with assms that have "u = v" by (auto simp: distinct_map inj_on_def)
    with \<open>key u = key v \<and> ver u = n\<close> assms(3) show False by simp
  qed
  then show ?thesis by (simp add: count_where_def filter_empty_conv)
qed

lemma stale_UpdateBinding:
  assumes "binding.tinv (role_bindings db)" "b \<in> set (live (role_bindings db))" "Version (b_Audit b) \<noteq> n"
    and "b_TenantID row = b_TenantID b" "b_ID row = b_ID b" "Version (b_Audit row) = n" "\<forall>l. fault tx l = None"
  shows "\<exists>er. repo_UpdateBinding tx row db = Inl er \<and> code_of (translate er) = CodeStaleVersion"
proof -
  have "count_where (\<lambda>u. (b_TenantID u, b_ID u) = (b_TenantID b, b_ID b) \<and> Version (b_Audit u) = n) (role_bindings db) = 0"
    using assms(1-3) unfolding binding.tinv_def by (rule unhit_update)
  then have "repo_UpdateBinding tx row db = Inl (Sentinel ErrStaleVersion)"
    using assms(4-7) unfolding repo_UpdateBinding_def by (intro affected_stale) (auto simp: conj_assoc)
  then show ?thesis using stale_code by blast
qed

lemma stale_UpdateRolePermission:
  assumes "role_perm.tinv (role_permissions db)" "b \<in> set (live (role_permissions db))" "Version (rp_Audit b) \<noteq> n"
    and "rp_TenantID row = rp_TenantID b" "rp_ID row = rp_ID b" "Version (rp_Audit row) = n" "\<forall>l. fault tx l = None"
  shows "\<exists>er. repo_UpdateRolePermission tx row db = Inl er \<and> code_of (translate er) = CodeStaleVersion"
proof -
  have "count_where (\<lambda>u. (rp_TenantID u, rp_ID u) = (rp_TenantID b, rp_ID b) \<and> Version (rp_Audit u) = n) (role_permissions db) = 0"
    using assms(1-3) unfolding role_perm.tinv_def by (rule unhit_update)
  then have "repo_UpdateRolePermission tx row db = Inl (Sentinel ErrStaleVersion)"
    using assms(4-7) unfolding repo_UpdateRolePermission_def by (intro affected_stale) (auto simp: conj_assoc)
  then show ?thesis using stale_code by blast
qed

lemma stale_UpdateRole:
  assumes "role.tinv (roles db)" "b \<in> set (live (roles db))" "Version (r_Audit b) \<noteq> n"
    and "r_TenantID row = r_TenantID b" "r_ID row = r_ID b" "Version (r_Audit row) = n" "\<forall>l. fault tx l = None"
  shows "\<exists>er. repo_UpdateRole tx row db = Inl er \<and> code_of (translate er) = CodeStaleVersion"
proof -
  have "count_where (\<lambda>u. (r_TenantID u, r_ID u) = (r_TenantID b, r_ID b) \<and> Version (r_Audit u) = n) (roles db) = 0"
    using assms(1-3) unfolding role.tinv_def by (rule unhit_update)
  then have "repo_UpdateRole tx row db = Inl (Sentinel ErrStaleVersion)"
    using assms(4-7) unfolding repo_UpdateRole_def by (intro affected_stale) (auto simp: conj_assoc)
  then show ?thesis using stale_code by blast
qed

lemma stale_UpdatePermission:
  assumes "perm.tinv (permissions db)" "b \<in> set (live (permissions db))" "Version (p_Audit b) \<noteq> n"
    and "p_TenantID row = p_TenantID b" "p_ID row = p_ID b" "Version (p_Audit row) = n" "\<forall>l. fault tx l = None"
  shows "\<exists>er. repo_UpdatePermission tx row db = Inl er \<and> code_of (translate er) = CodeStaleVersion"
proof -
  have "count_where (\<lambda>u. (p_TenantID u, p_ID u) = (p_TenantID b, p_ID b) \<and> Version (p_Audit u) = n) (permissions db) = 0"
    using assms(1-3) unfolding perm.tinv_def by (rule unhit_update)
  then have "repo_UpdatePermission tx row db = Inl (Sentinel ErrStaleVersion)"
    using assms(4-7) unfolding repo_UpdatePermission_def by (intro affected_stale) (auto simp: conj_assoc)
  then show ?thesis using stale_code by blast
qed

lemma stale_mutation:
  assumes "mutate e x 1 t s st rs flds operation w = (err, w')" "\<forall>n. working (conn_of e n)" "known_actor x"
    and "\<And>tx. \<forall>l. fault tx l = None \<Longrightarrow> \<exists>er. operation tx (w_db w) = Inl er \<and> code_of (translate er) = CodeStaleVersion"
  shows "\<exists>er. err = Some er \<and> code_of er = CodeStaleVersion \<and> w_db w' = w_db w"
  using mutate_operation_error[OF assms(1), of CodeStaleVersion] assms(2-) by blast

lemma working_get: "v \<in> set rows \<Longrightarrow> working c \<Longrightarrow> \<exists>u. mapNotFound m (GetContext c l rows) = Inr u"
  by (cases rows) (auto simp: GetContext_def working_def)

text \<open>The conditions under which a write reaches the table: working connections, a known caller who may
  manage the tenant.\<close>

definition can_write :: "env \<Rightarrow> ctx \<Rightarrow> gostring \<Rightarrow> world \<Rightarrow> bool" where
  "can_write e x t w \<longleftrightarrow> world_ok w \<and> (\<forall>n. working (conn_of e n)) \<and> known_actor x \<and> caller_may_manage e x t \<and>
     audit_UpdatedBy e x (clock e 0) \<noteq> None"

lemma svc_RevokeBinding_stale_code:
  assumes "can_write e x t w" "b \<in> set (live (role_bindings (w_db w)))" "b_TenantID b = t" "b_ID b = i" "Version (b_Audit b) \<noteq> v"
  shows "\<exists>err w'. svc_RevokeBinding e x t i v w = (Inl err, w') \<and> code_of err = CodeStaleVersion \<and> w_db w' = w_db w"
proof -
  from assms(1) obtain actor now where c: "world_ok w" "\<forall>n. working (conn_of e n)" "known_actor x"
    "enforceInteractiveTenant e x t = None" "audit_UpdatedBy e x (clock e 0) = Some (actor, now)"
    by (auto simp: can_write_def enforce_None_iff)
  obtain u where u: "repo_GetBinding (conn_of e 0) (w_db w) (t) (i) = Inr u"
    unfolding repo_GetBinding_def using working_get[of b] assms(2-4) c(2) by fastforce
  let ?row = "u\<lparr>b_Status := ''revoked'', b_Audit := (b_Audit u)\<lparr>Version := v, UpdatedAt := now, UpdatedBy := actor\<rparr>\<rparr>"
  have "\<exists>er. repo_UpdateBinding tx ?row (w_db w) = Inl er \<and> code_of (translate er) = CodeStaleVersion"
    if "\<forall>l. fault tx l = None" for tx
    using db_wf_tinv(4)[of "w_db w"] c(1) assms(2-5) repo_GetBinding_Inr[OF u] that
    by (intro stale_UpdateBinding[of _ b v]) (auto simp: world_ok_def)
  from stale_mutation[where operation = "\<lambda>tx db. repo_UpdateBinding tx ?row db", OF _ c(2,3) this]
  show ?thesis by (fastforce simp: svc_RevokeBinding_def c u Let_def split: prod.splits option.splits)
qed

lemma svc_RevokeRolePermission_stale_code:
  assumes "can_write e x t w" "b \<in> set (live (role_permissions (w_db w)))" "rp_TenantID b = TrimSpace t" "rp_ID b = i" "Version (rp_Audit b) \<noteq> v"
  shows "\<exists>err w'. svc_RevokeRolePermission e x t i v w = (Inl err, w') \<and> code_of err = CodeStaleVersion \<and> w_db w' = w_db w"
proof -
  from assms(1) obtain actor now where c: "world_ok w" "\<forall>n. working (conn_of e n)" "known_actor x"
    "enforceInteractiveTenant e x t = None" "audit_UpdatedBy e x (clock e 0) = Some (actor, now)"
    by (auto simp: can_write_def enforce_None_iff)
  obtain u where u: "repo_GetRolePermission (conn_of e 0) (w_db w) (TrimSpace t) (i) = Inr u"
    unfolding repo_GetRolePermission_def using working_get[of b] assms(2-4) c(2) by fastforce
  let ?row = "u\<lparr>rp_Status := ''revoked'', rp_Audit := (rp_Audit u)\<lparr>Version := v, UpdatedAt := now, UpdatedBy := actor\<rparr>\<rparr>"
  have "\<exists>er. repo_UpdateRolePermission tx ?row (w_db w) = Inl er \<and> code_of (translate er) = CodeStaleVersion"
    if "\<forall>l. fault tx l = None" for tx
    using db_wf_tinv(3)[of "w_db w"] c(1) assms(2-5) repo_GetRolePermission_Inr[OF u] that
    by (intro stale_UpdateRolePermission[of _ b v]) (auto simp: world_ok_def)
  from stale_mutation[where operation = "\<lambda>tx db. repo_UpdateRolePermission tx ?row db", OF _ c(2,3) this]
  show ?thesis by (fastforce simp: svc_RevokeRolePermission_def c u Let_def split: prod.splits option.splits)
qed

lemma svc_UpdateRole_stale_code:
  assumes "can_write e x t w" "b \<in> set (live (roles (w_db w)))" "r_TenantID b = TrimSpace t" "r_ID b = i" "Version (r_Audit b) \<noteq> v"
    and "TrimSpace t \<noteq> []" "i \<noteq> []" "TrimSpace n \<noteq> []" "1 \<le> v" "validDataScope ds" "st = ''active'' \<or> st = ''disabled''"
  shows "\<exists>err w'. svc_UpdateRole e x t i n d ds st v w = (Inl err, w') \<and> code_of err = CodeStaleVersion \<and> w_db w' = w_db w"
proof -
  from assms(1) obtain actor now where c: "world_ok w" "\<forall>n. working (conn_of e n)" "known_actor x"
    "enforceInteractiveTenant e x t = None" "audit_UpdatedBy e x (clock e 0) = Some (actor, now)"
    by (auto simp: can_write_def enforce_None_iff)
  obtain u where u: "repo_GetRole (conn_of e 0) (w_db w) (TrimSpace t) (i) = Inr u"
    unfolding repo_GetRole_def using working_get[of b] assms(2-4) c(2) by fastforce
  let ?row = "u\<lparr>r_Name := TrimSpace n, r_Description := TrimSpace d, r_DataScope := ds, r_Status := st, r_Audit := (r_Audit u)\<lparr>Version := v, UpdatedAt := now, UpdatedBy := actor\<rparr>\<rparr>"
  have "\<exists>er. repo_UpdateRole tx ?row (w_db w) = Inl er \<and> code_of (translate er) = CodeStaleVersion"
    if "\<forall>l. fault tx l = None" for tx
    using db_wf_tinv(2)[of "w_db w"] c(1) assms(2-5) repo_GetRole_Inr[OF u] that
    by (intro stale_UpdateRole[of _ b v]) (auto simp: world_ok_def)
  from stale_mutation[where operation = "\<lambda>tx db. repo_UpdateRole tx ?row db", OF _ c(2,3) this]
  show ?thesis using assms(6-) by (fastforce simp: svc_UpdateRole_def c u Let_def split: prod.splits option.splits)
qed

lemma svc_UpdatePermission_stale_code:
  assumes "can_write e x t w" "b \<in> set (live (permissions (w_db w)))" "p_TenantID b = TrimSpace t" "p_ID b = TrimSpace i" "Version (p_Audit b) \<noteq> v"
    and "TrimSpace t \<noteq> []" "TrimSpace i \<noteq> []" "TrimSpace n \<noteq> []" "1 \<le> v" "compile_issue e (TrimSpace ce) = None"
    and "ToLower (TrimSpace st) = ''active'' \<or> ToLower (TrimSpace st) = ''disabled''"
  shows "\<exists>err w'. svc_UpdatePermission e x t i n ce st v w = (Inl err, w') \<and> code_of err = CodeStaleVersion \<and> w_db w' = w_db w"
proof -
  from assms(1) obtain actor now where c: "world_ok w" "\<forall>n. working (conn_of e n)" "known_actor x"
    "enforceInteractiveTenant e x t = None" "audit_UpdatedBy e x (clock e 0) = Some (actor, now)"
    by (auto simp: can_write_def enforce_None_iff)
  obtain u where u: "repo_GetPermission (conn_of e 0) (w_db w) (TrimSpace t) (TrimSpace i) = Inr u"
    unfolding repo_GetPermission_def using working_get[of b] assms(2-4) c(2) by fastforce
  let ?row = "u\<lparr>p_Name := TrimSpace n, p_ConditionExpression := TrimSpace ce, p_Status := ToLower (TrimSpace st), p_Audit := (p_Audit u)\<lparr>Version := v, UpdatedAt := now, UpdatedBy := actor\<rparr>\<rparr>"
  have "\<exists>er. repo_UpdatePermission tx ?row (w_db w) = Inl er \<and> code_of (translate er) = CodeStaleVersion"
    if "\<forall>l. fault tx l = None" for tx
    using db_wf_tinv(1)[of "w_db w"] c(1) assms(2-5) repo_GetPermission_Inr[OF u] that
    by (intro stale_UpdatePermission[of _ b v]) (auto simp: world_ok_def)
  from stale_mutation[where operation = "\<lambda>tx db. repo_UpdatePermission tx ?row db", OF _ c(2,3) this]
  show ?thesis using assms(6-) by (fastforce simp: svc_UpdatePermission_def c u Let_def split: prod.splits option.splits)
qed

section \<open>Creations\<close>

lemma svc_CreateBinding_Inr:
  assumes "svc_CreateBinding e x t s st r ou w = (Inr b, w')"
  shows "\<exists>c. role_bindings (w_db w') = insert_row (b\<lparr>b_Audit := audit_insert c\<rparr>) (role_bindings (w_db w)) \<and>
    permissions (w_db w') = permissions (w_db w) \<and> roles (w_db w') = roles (w_db w) \<and>
    role_permissions (w_db w') = role_permissions (w_db w) \<and> subject_groups (w_db w') = subject_groups (w_db w) \<and>
    b_TenantID b = t \<and> b_SubjectID b = s \<and> b_SubjectType b = ToLower (TrimSpace st) \<and> b_RoleID b = r \<and>
    b_OrganizationUnitID b = ou \<and> b_Status b = ''active''"
  using assms
  by (auto simp: svc_CreateBinding_def Let_def repo_CreateBinding_def exec_insert_def wrap_def policy_tables_def nullableID_def
      coalesce_def split: if_splits option.splits sum.splits prod.splits dest!: mutate_None) (rule exI, rule refl)+

section \<open>Pages\<close>

lemma page_of_Inr:
  "page_of page psz r = Inr pg \<longleftrightarrow> (\<exists>items count. r = Inr (items, count) \<and>
     pg = \<lparr>pg_Items = items, pg_Total = count, pg_Page = page, pg_PageSize = psz\<rparr>)"
  by (cases r) (auto simp: page_of_def translated_def)

end
