(* ===== verification/Atomicity.thy ===== *)
theory Atomicity
  imports Service_Laws
begin

text \<open>
  The outcome of the eight management operations, result and world together: each of them either
  fails and leaves database, cache and notifications as they are, or it commits one mutation of
  the tenant it names. \<open>run_command\<close> runs an operation and keeps the error it returns,
  \<open>command_tenant\<close> is the tenant it works on and \<open>reread\<close> the error of the read that ends
  an update, a grant or a revocation.
\<close>

section \<open>Operations with their errors\<close>

definition error_part :: "'a result \<Rightarrow> goerr option" where
  "error_part r = (case r of Inl err \<Rightarrow> Some err | Inr v \<Rightarrow> None)"

lemma error_part_simps [simp]: "error_part (Inl err) = Some err" "error_part (Inr v) = None"
  by (simp_all add: error_part_def)

fun run_command :: "env \<Rightarrow> ctx \<Rightarrow> command \<Rightarrow> world \<Rightarrow> goerr option \<times> world" where
  "run_command e x (CmdCreatePermission t c n rt a ce) w = apfst error_part (svc_CreatePermission e x t c n rt a ce w)"
| "run_command e x (CmdUpdatePermission t i n ce st v) w = apfst error_part (svc_UpdatePermission e x t i n ce st v w)"
| "run_command e x (CmdCreateRole t c n d ds) w = apfst error_part (svc_CreateRole e x t c n d ds w)"
| "run_command e x (CmdUpdateRole t i n d ds st v) w = apfst error_part (svc_UpdateRole e x t i n d ds st v w)"
| "run_command e x (CmdGrantRolePermission t i j) w = apfst error_part (svc_GrantRolePermission e x t i j w)"
| "run_command e x (CmdRevokeRolePermission t i v) w = apfst error_part (svc_RevokeRolePermission e x t i v w)"
| "run_command e x (CmdCreateBinding t s st i ou) w = apfst error_part (svc_CreateBinding e x t s st i ou w)"
| "run_command e x (CmdRevokeBinding t i v) w = apfst error_part (svc_RevokeBinding e x t i v w)"

text \<open>Granting a permission and changing bindings take the tenant as it is given; the other
  operations trim it first.\<close>

fun command_tenant :: "command \<Rightarrow> gostring" where
  "command_tenant (CmdCreatePermission t c n rt a ce) = TrimSpace t"
| "command_tenant (CmdUpdatePermission t i n ce st v) = TrimSpace t"
| "command_tenant (CmdCreateRole t c n d ds) = TrimSpace t"
| "command_tenant (CmdUpdateRole t i n d ds st v) = TrimSpace t"
| "command_tenant (CmdGrantRolePermission t i j) = t"
| "command_tenant (CmdRevokeRolePermission t i v) = TrimSpace t"
| "command_tenant (CmdCreateBinding t s st i ou) = t"
| "command_tenant (CmdRevokeBinding t i v) = t"

text \<open>Updates, grants and revocations read the row again after the commit and return what they
  read; creations return the row they have built.\<close>

fun reread :: "env \<Rightarrow> command \<Rightarrow> database \<Rightarrow> goerr option" where
  "reread e (CmdCreatePermission t c n rt a ce) db = None"
| "reread e (CmdUpdatePermission t i n ce st v) db = error_part (repo_GetPermission (conn_of e 2) db (TrimSpace t) (TrimSpace i))"
| "reread e (CmdCreateRole t c n d ds) db = None"
| "reread e (CmdUpdateRole t i n d ds st v) db = error_part (repo_GetRole (conn_of e 2) db (TrimSpace t) i)"
| "reread e (CmdGrantRolePermission t i j) db = error_part (repo_GetRolePermissionByPair (conn_of e 4) db t i j)"
| "reread e (CmdRevokeRolePermission t i v) db = error_part (repo_GetRolePermission (conn_of e 2) db (TrimSpace t) i)"
| "reread e (CmdCreateBinding t s st i ou) db = None"
| "reread e (CmdRevokeBinding t i v) db = error_part (repo_GetBinding (conn_of e 2) db t i)"

text \<open>The grant of a permission that the role already holds.\<close>

fun already_granted :: "env \<Rightarrow> command \<Rightarrow> database \<Rightarrow> bool" where
  "already_granted e (CmdGrantRolePermission t i j) db =
     (case repo_GetRolePermissionByPair (conn_of e 2) db t i j of Inl err \<Rightarrow> False | Inr old \<Rightarrow> rp_Status old = ''active'')"
| "already_granted e cmd db = False"

section \<open>Outcomes\<close>

definition policy_unchanged :: "world \<Rightarrow> world \<Rightarrow> bool" where
  "policy_unchanged w w' = (w_db w' = w_db w \<and> w_cache w' = w_cache w \<and> w_notified w' = w_notified w)"

lemma policy_unchanged_refl [simp]: "policy_unchanged w w"
  by (simp add: policy_unchanged_def)

definition all_or_nothing :: "env \<Rightarrow> ctx \<Rightarrow> gostring \<Rightarrow> (database \<Rightarrow> goerr option) \<Rightarrow> world \<Rightarrow> goerr option \<Rightarrow> world \<Rightarrow> bool" where
  "all_or_nothing e x t back w err w' =
     (err \<noteq> None \<and> policy_unchanged w w' \<or>
      caller_may_manage e x t \<and> mutation_effect e t w w' \<and>
      (err = back (w_db w') \<or> (\<exists>er. err = Some er \<and> code_of er = CodeDependencyUnavailable)))"

lemma nothing_done [simp]: "all_or_nothing e x t back w (Some err) w"
  by (simp add: all_or_nothing_def)

lemma mutate_case_outcome:
  assumes "(case mutate e x n t s st rs flds operation w of (Some err, w') \<Rightarrow> (Inl err, w') | (None, w') \<Rightarrow> (f w', w')) = (r, w1)"
    and "caller_may_manage e x t" "confined t operation (w_db w)" "world_ok w" "\<And>w'. error_part (f w') = back (w_db w')"
  shows "all_or_nothing e x t back w (error_part r) w1"
proof -
  obtain err w2 where m: "mutate e x n t s st rs flds operation w = (err, w2)" by fastforce
  with assms(1,5) have r: "w1 = w2" "error_part r = (case err of None \<Rightarrow> back (w_db w2) | Some er \<Rightarrow> Some er)"
    by (auto split: option.splits)
  from m show ?thesis
  proof (cases rule: mutate_cases)
    case (rolled_back er) then show ?thesis by (auto simp: r all_or_nothing_def policy_unchanged_def)
  next
    case (applied v)
    from committed_effect[OF applied(1) assms(3,4)] have "mutation_effect e t w w2"
      using applied(2,4) by (auto simp: mutation_effect_def)
    with applied(5) assms(2) show ?thesis by (auto simp: r all_or_nothing_def split: option.splits)
  qed
qed

section \<open>The eight operations\<close>

lemma CreatePermission_outcome:
  assumes "svc_CreatePermission e x t code name rt act ce w = (r, w')" "world_ok w"
  shows "all_or_nothing e x (TrimSpace t) (\<lambda>db. None) w (error_part r) w'"
  using assms(1) unfolding svc_CreatePermission_def Let_def
  by (auto simp: enforce_None_iff assms(2) split: if_splits option.splits
      elim!: mutate_case_outcome intro!: confined_at[OF confined_CreatePermission])

lemma UpdatePermission_outcome:
  assumes "svc_UpdatePermission e x t i name ce st v w = (r, w')" "world_ok w"
  shows "all_or_nothing e x (TrimSpace t) (\<lambda>db. error_part (repo_GetPermission (conn_of e 2) db (TrimSpace t) (TrimSpace i)))
    w (error_part r) w'"
  using assms(1) unfolding svc_UpdatePermission_def Let_def
  by (auto simp: enforce_None_iff assms(2) split: if_splits option.splits sum.splits dest!: repo_GetPermission_Inr
      elim!: mutate_case_outcome intro!: confined_at[OF confined_UpdatePermission])

lemma CreateRole_outcome:
  assumes "svc_CreateRole e x t code name d ds w = (r, w')" "world_ok w"
  shows "all_or_nothing e x (TrimSpace t) (\<lambda>db. None) w (error_part r) w'"
  using assms(1) unfolding svc_CreateRole_def Let_def
  by (auto simp: enforce_None_iff assms(2) split: if_splits option.splits
      elim!: mutate_case_outcome intro!: confined_at[OF confined_CreateRole])

lemma UpdateRole_outcome:
  assumes "svc_UpdateRole e x t i name d ds st v w = (r, w')" "world_ok w"
  shows "all_or_nothing e x (TrimSpace t) (\<lambda>db. error_part (repo_GetRole (conn_of e 2) db (TrimSpace t) i)) w (error_part r) w'"
  using assms(1) unfolding svc_UpdateRole_def Let_def
  by (auto simp: enforce_None_iff assms(2) split: if_splits option.splits sum.splits dest!: repo_GetRole_Inr
      elim!: mutate_case_outcome intro!: confined_at[OF confined_UpdateRole])

lemma GrantRolePermission_outcome:
  assumes "svc_GrantRolePermission e x t i j w = (r, w')" "world_ok w"
    and "\<not> already_granted e (CmdGrantRolePermission t i j) (w_db w)"
  shows "all_or_nothing e x t (\<lambda>db. error_part (repo_GetRolePermissionByPair (conn_of e 4) db t i j)) w (error_part r) w'"
proof (cases "repo_GetRole (conn_of e 0) (w_db w) t i")
  case (Inl a) with assms show ?thesis by (auto simp: svc_GrantRolePermission_def)
next
  case role: (Inr role)
  show ?thesis
  proof (cases "repo_GetPermission (conn_of e 1) (w_db w) t j")
    case (Inl a) with assms role show ?thesis by (auto simp: svc_GrantRolePermission_def)
  next
    case perm: (Inr perm)
    have keys: "(i, t) \<in> set (role_keys (w_db w))" "(j, t) \<in> set (perm_keys (w_db w))"
      using repo_GetRole_key[OF role] repo_GetPermission_key[OF perm] by simp_all
    from assms role perm keys show ?thesis unfolding svc_GrantRolePermission_def Let_def
      by (auto simp: enforce_None_iff split: if_splits option.splits sum.splits
          dest!: repo_GetRolePermissionByPair_Inr elim!: mutate_case_outcome
          intro!: confined_at[OF confined_UpdateRolePermission] confined_at[OF confined_CreateRolePermission])
  qed
qed

lemma RevokeRolePermission_outcome:
  assumes "svc_RevokeRolePermission e x t i v w = (r, w')" "world_ok w"
  shows "all_or_nothing e x (TrimSpace t) (\<lambda>db. error_part (repo_GetRolePermission (conn_of e 2) db (TrimSpace t) i))
    w (error_part r) w'"
  using assms(1) unfolding svc_RevokeRolePermission_def Let_def
  by (auto simp: enforce_None_iff assms(2) split: if_splits option.splits sum.splits dest!: repo_GetRolePermission_Inr
      elim!: mutate_case_outcome intro!: confined_at[OF confined_UpdateRolePermission])

lemma CreateBinding_outcome:
  assumes "svc_CreateBinding e x t s st i ou w = (r, w')" "world_ok w"
  shows "all_or_nothing e x t (\<lambda>db. None) w (error_part r) w'"
proof (cases "repo_GetRole (conn_of e 0) (w_db w) t i")
  case (Inl a) with assms show ?thesis by (auto simp: svc_CreateBinding_def)
next
  case role: (Inr role)
  have keys: "(i, t) \<in> set (role_keys (w_db w))"
    using repo_GetRole_key[OF role] .
  from assms role keys show ?thesis unfolding svc_CreateBinding_def Let_def
    by (auto simp: enforce_None_iff split: if_splits option.splits
        elim!: mutate_case_outcome intro!: confined_at[OF confined_CreateBinding])
qed

lemma RevokeBinding_outcome:
  assumes "svc_RevokeBinding e x t i v w = (r, w')" "world_ok w"
  shows "all_or_nothing e x t (\<lambda>db. error_part (repo_GetBinding (conn_of e 2) db t i)) w (error_part r) w'"
  using assms(1) unfolding svc_RevokeBinding_def Let_def
  by (auto simp: enforce_None_iff assms(2) split: if_splits option.splits sum.splits dest!: repo_GetBinding_Inr
      elim!: mutate_case_outcome intro!: confined_at[OF confined_UpdateBinding])

lemmas svc_outcomes =
  CreatePermission_outcome UpdatePermission_outcome CreateRole_outcome UpdateRole_outcome GrantRolePermission_outcome
  RevokeRolePermission_outcome CreateBinding_outcome RevokeBinding_outcome

lemma command_outcome:
  assumes "run_command e x cmd w = (err, w')" "world_ok w" "\<not> already_granted e cmd (w_db w)"
  shows "all_or_nothing e x (command_tenant cmd) (reread e cmd) w err w'"
  using assms by (cases cmd) (auto simp: apfst_def map_prod_def all_or_nothing_def split: prod.splits dest!: svc_outcomes)

lemma already_granted_outcome:
  assumes "run_command e x cmd w = (err, w')" "already_granted e cmd (w_db w)"
  shows "policy_unchanged w w'"
proof -
  from assms(2) obtain t i j where cmd: "cmd = CmdGrantRolePermission t i j" by (cases cmd) auto
  with assms show ?thesis
    by (auto simp: svc_GrantRolePermission_def Let_def apfst_def map_prod_def
        split: if_splits option.splits sum.splits prod.splits)
qed

end
