(* ===== verification/Policy_Properties.thy ===== *)
theory Policy_Properties
  imports Sample Update_Laws Atomicity
begin

text \<open>
  The properties of the policy core: tenant isolation, correctness and freshness of decisions,
  atomic mutations, optimistic locking, validation and paging. Each is stated over the model's
  definitions and proved from the laws of the component theories.
\<close>

section \<open>Isolation and invariants\<close>

text \<open>C1. Tenant isolation. Take any history of management operations by any callers, none of
  whom may manage the tenant \<open>u\<close>. Afterwards the rows of \<open>u\<close> in every table are what they
  were, and every resolution of grants or permission codes for \<open>u\<close> gives the same answer.\<close>

theorem tenant_isolation:
  assumes "world_ok w" "\<forall>(e, x, cmd)\<in>set h. \<not> caller_may_manage e x u"
  shows "tenant_view u (w_db (run_history h w)) = tenant_view u (w_db w) \<and>
         repo_Resolve c (w_db (run_history h w)) u s st rt a = repo_Resolve c (w_db w) u s st rt a \<and>
         repo_ResolvePermissionCodes c (w_db (run_history h w)) u s st codes = repo_ResolvePermissionCodes c (w_db w) u s st codes"
proof -
  note view = history_other_tenant[OF assms]
  have wf: "db_wf (w_db w)" "db_wf (w_db (run_history h w))"
    using assms(1) run_history_ok[OF assms(1)] by (simp_all add: world_ok_def)
  show ?thesis
    using view resolve_view[OF wf(1)] resolve_view[OF wf(2)] by metis
qed

text \<open>Witness of C1: a user of tenant t2 creates a role in t2 and tries to create one in t1.\<close>

theorem tenant_isolation_witness:
  "let h = [(sample_env, sample_other_ctx, CmdCreateRole ''t2'' ''admin'' ''Admin'' [] ''all''),
            (sample_env, sample_other_ctx, CmdCreateRole ''t1'' ''admin'' ''Admin'' [] ''all'')] in
   length (roles (w_db (run_history h sample_world))) = 2 \<and>
   tenant_view ''t1'' (w_db (run_history h sample_world)) = tenant_view ''t1'' (w_db sample_world)"
proof -
  define h where "h = [(sample_env, sample_other_ctx, CmdCreateRole ''t2'' ''admin'' ''Admin'' [] ''all''),
            (sample_env, sample_other_ctx, CmdCreateRole ''t1'' ''admin'' ''Admin'' [] ''all'')]"
  have "\<not> caller_may_manage sample_env sample_other_ctx ''t1''" by code_simp
  then have "\<forall>(e, x, cmd)\<in>set h. \<not> caller_may_manage e x ''t1''" by (simp add: h_def)
  then have "tenant_view ''t1'' (w_db (run_history h sample_world)) = tenant_view ''t1'' (w_db sample_world)"
    using tenant_isolation[OF sample_world_ok, of h "''t1''"] by blast
  moreover have "length (roles (w_db (run_history h sample_world))) = 2" unfolding h_def by code_simp
  ultimately show ?thesis by (simp add: h_def Let_def)
qed

text \<open>C2. The tenant invariant holds over every history: primary keys stay unique, every role
  permission and binding keeps referring to a role and a permission of its own tenant, and no
  policy version is lost.\<close>

theorem invariant_preserved:
  assumes "world_ok w"
  shows "world_ok (run_history h w)"
  using assms by (rule run_history_ok)

theorem invariant_preserved_witness:
  "world_ok (run_history [(sample_env, sample_ctx, CmdRevokeBinding ''t1'' ''b1'' 1)] sample_world)"
  by (rule invariant_preserved[OF sample_world_ok])

section \<open>Decisions\<close>

text \<open>C3. Cached or not, a check is answered by the current policy. In every history of management
  operations and checks that starts from an empty cache, a successful check returns exactly the
  decision (permission, data scope, organization units) that the tables of the tenant determine at
  that moment. This is about requests in normal form (\<open>request_ok\<close>), both the checks of the history
  and the one that is asked: a tenant id without surrounding white space, a valid subject type,
  resource type and action in lower case, no NUL byte in any part, attributes listed by name
  without repetition and no equals sign in their names. The conditions are needed: a check with
  other letter case or an untrimmed tenant leaves an entry that a later check can be served although
  the policy says otherwise, and attribute names with an equals sign make keys collide.\<close>

theorem check_follows_policy:
  assumes "world_ok w0" "w_cache w0 = []" "reachable e0 w0 w"
    and "same_engine e0 e" "request_ok q" "check_request e x q w = (Inr d, w')"
  shows "content d = policy_answer e (w_db w) q"
proof -
  have "world_ok w \<and> coherent e0 w"
    using reachable_invariant[OF assms(3,1)] coherent_empty[OF assms(2)] by blast
  then have "coherent e w" using coherent_engine[OF assms(4)] by simp
  then show ?thesis by (rule check_request_answer[OF assms(6,5)])
qed

text \<open>Witness of C3: the second check of the same request is answered from the cache.\<close>

theorem check_follows_policy_witness:
  "let w = run_event (Ask sample_env sample_ctx sample_request) sample_world in
   length (w_cache w) = 1 \<and> fst (check_request sample_env sample_ctx sample_request w) = Inr sample_decision \<and>
   content sample_decision = policy_answer sample_env (w_db w) sample_request"
proof -
  define w where "w = run_event (Ask sample_env sample_ctx sample_request) sample_world"
  have ok: "request_ok sample_request" by code_simp
  have cache: "w_cache sample_world = []" by code_simp
  have r: "reachable sample_env sample_world w"
    unfolding w_def by (rule Next[OF Start]) (use ok in \<open>simp_all add: same_engine_def\<close>)
  have ans: "fst (check_request sample_env sample_ctx sample_request w) = Inr sample_decision"
    unfolding w_def by code_simp
  then obtain w' where "check_request sample_env sample_ctx sample_request w = (Inr sample_decision, w')"
    by (metis prod.collapse)
  then have "content sample_decision = policy_answer sample_env (w_db w) sample_request"
    by (rule check_follows_policy[OF sample_world_ok cache r _ ok, rotated]) (simp add: same_engine_def)
  moreover have "length (w_cache w) = 1" unfolding w_def by code_simp
  ultimately show ?thesis using ans by (simp add: w_def Let_def)
qed

text \<open>C4. Soundness of a permission. A check that is not served from the cache and answers
  \<open>allowed\<close> rests on an active binding of the subject (its own or, for a membership, of a group it
  is an active member of), an active role, an active grant and an active permission for the
  resource and the action, all of the tenant asked about, and on a condition that evaluated to
  true.\<close>

theorem allowed_is_justified:
  assumes "db_wf (w_db w)" "svc_CheckWithAttributes e x t s st rt rid a attrs w = (Inr d, w')"
    and "cache_misses e t s st rt rid a attrs w" "d_Allowed d"
  shows "\<exists>rb r rp p. (rb, r, rp, p) \<in> set (granted (w_db w) t s st) \<and>
    b_TenantID rb = t \<and> r_TenantID r = t \<and> rp_TenantID rp = t \<and> p_TenantID p = t \<and>
    b_Status rb = ''active'' \<and> r_Status r = ''active'' \<and> rp_Status rp = ''active'' \<and> p_Status p = ''active'' \<and>
    (p_ResourceType p = rt \<or> p_ResourceType p = ''*'') \<and> (p_Action p = a \<or> p_Action p = ''*'') \<and>
    matchesCondition e (p_ConditionExpression p) t s rid attrs = Inr True"
proof -
  have "applicable e (w_db w) t s st rt rid a attrs \<noteq> []"
    using check_uncached[OF assms(2,3)] assms(4) decided_spec[of "applicable e (w_db w) t s st rt rid a attrs"]
    by (metis content_def)
  then obtain rb r rp p where q: "(rb, r, rp, p) \<in> set (applicable e (w_db w) t s st rt rid a attrs)"
    by (metis list.set_intros(1) neq_Nil_conv prod_cases4)
  then have g: "(rb, r, rp, p) \<in> set (granted (w_db w) t s st)" by (simp add: applicable_def)
  from granted_tenant[OF assms(1) g] q g show ?thesis
    by (intro exI[of _ rb] exI[of _ r] exI[of _ rp] exI[of _ p]) (auto simp: applicable_def granted_def)
qed

theorem allowed_is_justified_witness:
  "\<exists>rb r rp p. (rb, r, rp, p) \<in> set (granted (w_db sample_world) ''t1'' ''m1'' ''membership'') \<and> p_TenantID p = ''t1''"
proof -
  have "fst (svc_CheckWithAttributes sample_env sample_ctx ''t1'' ''m1'' ''membership'' ''doc'' ''d7'' ''read'' [] sample_world)
      = Inr sample_decision" by code_simp
  then obtain w' where c: "svc_CheckWithAttributes sample_env sample_ctx ''t1'' ''m1'' ''membership'' ''doc'' ''d7'' ''read'' []
      sample_world = (Inr sample_decision, w')" by (metis prod.collapse)
  have wf: "db_wf (w_db sample_world)" by code_simp
  have miss: "cache_misses sample_env ''t1'' ''m1'' ''membership'' ''doc'' ''d7'' ''read'' [] sample_world" by code_simp
  have "d_Allowed sample_decision" by code_simp
  from allowed_is_justified[OF wf c miss this] show ?thesis by blast
qed

text \<open>C5. The content of a decision that was not cached: it allows exactly when some grant applies,
  its data scope has the highest rank among the applicable grants and is the scope of one of them
  (or \<open>none\<close>), and its organization units are, without repetition, those of the applicable
  grants of organization scope.\<close>

theorem decision_content:
  assumes "svc_CheckWithAttributes e x t s st rt rid a attrs w = (Inr d, w')" "cache_misses e t s st rt rid a attrs w"
  defines "qs \<equiv> applicable e (w_db w) t s st rt rid a attrs"
  shows "(d_Allowed d \<longleftrightarrow> qs \<noteq> []) \<and>
    (\<forall>(rb, r, rp, p)\<in>set qs. scopeRank (r_DataScope r) \<le> scopeRank (d_DataScope d)) \<and>
    (d_DataScope d = ''none'' \<or> (\<exists>(rb, r, rp, p)\<in>set qs. d_DataScope d = r_DataScope r)) \<and>
    distinct (d_OrganizationUnitIDs d) \<and>
    set (d_OrganizationUnitIDs d) = {b_OrganizationUnitID rb | rb r rp p. (rb, r, rp, p) \<in> set qs \<and>
       r_DataScope r = ''organization'' \<and> b_OrganizationUnitID rb \<noteq> []}"
proof -
  have "decided qs = (d_Allowed d, d_DataScope d, d_OrganizationUnitIDs d)"
    using check_uncached[OF assms(1,2)] by (simp add: qs_def content_def)
  note spec = decided_spec[OF this]
  have "set (organization_ids (map grant_of qs)) = {b_OrganizationUnitID rb | rb r rp p. (rb, r, rp, p) \<in> set qs \<and>
       r_DataScope r = ''organization'' \<and> b_OrganizationUnitID rb \<noteq> []}"
    by (force simp: organization_ids_def grant_of_def split: prod.splits)
  with spec show ?thesis by (fastforce simp: grant_of_def split: prod.splits)
qed

theorem decision_content_witness:
  "d_DataScope sample_decision = ''none'' \<or>
   (\<exists>(rb, r, rp, p)\<in>set (applicable sample_env (w_db sample_world) ''t1'' ''m1'' ''membership'' ''doc'' ''d7'' ''read'' []).
      d_DataScope sample_decision = r_DataScope r)"
proof -
  have "fst (svc_CheckWithAttributes sample_env sample_ctx ''t1'' ''m1'' ''membership'' ''doc'' ''d7'' ''read'' [] sample_world)
      = Inr sample_decision" by code_simp
  then obtain w' where c: "svc_CheckWithAttributes sample_env sample_ctx ''t1'' ''m1'' ''membership'' ''doc'' ''d7'' ''read'' []
      sample_world = (Inr sample_decision, w')" by (metis prod.collapse)
  have "cache_misses sample_env ''t1'' ''m1'' ''membership'' ''doc'' ''d7'' ''read'' [] sample_world" by code_simp
  from decision_content[OF c this] show ?thesis by blast
qed

text \<open>C6. Permission codes. The codes returned are, in the order of their first occurrence in the
  request, in lower case and without blanks and repetitions, exactly those that an unconditional
  active grant of the subject carries or covers with the double wildcard.\<close>

theorem permission_codes_exact:
  assumes "svc_CheckPermissionCodes e x t s st requested w = Inr r"
  shows "pcd_AllowedCodes r =
    filter (code_entitled (w_db w) (TrimSpace t) (TrimSpace s) (ToLower (TrimSpace st)))
      (nub (filter (\<lambda>c. c \<noteq> []) (map (\<lambda>c. ToLower (TrimSpace c)) requested)))"
  using assms by (rule CheckPermissionCodes_Inr)

theorem permission_codes_exact_witness:
  "\<exists>r. svc_CheckPermissionCodes sample_env sample_ctx ''t1'' ''m1'' ''membership'' [''DOC.READ'', ''doc.write'', '' doc.read ''] sample_world = Inr r \<and>
     pcd_AllowedCodes r = [''doc.read'']"
proof -
  let ?q = "svc_CheckPermissionCodes sample_env sample_ctx ''t1'' ''m1'' ''membership'' [''DOC.READ'', ''doc.write'', '' doc.read ''] sample_world"
  have "isl ?q = False" by code_simp
  then obtain r where r: "?q = Inr r" by (cases ?q) auto
  have "filter (code_entitled (w_db sample_world) (TrimSpace ''t1'') (TrimSpace ''m1'') (ToLower (TrimSpace ''membership'')))
      (nub (filter (\<lambda>c. c \<noteq> []) (map (\<lambda>c. ToLower (TrimSpace c)) [''DOC.READ'', ''doc.write'', '' doc.read '']))) = [''doc.read'']"
    by code_simp
  with permission_codes_exact[OF r] r show ?thesis by metis
qed

section \<open>Mutations\<close>

text \<open>C12. Mutations are atomic. Each of the eight management operations, run with any arguments by
  any caller, does all of its work or none of it. Either the database, the cache and the
  notifications are untouched, and then the operation returns an error or was the grant of a
  permission that the role already holds. Or the caller may manage the tenant of the operation,
  the policy version of the tenant has grown by one, exactly one outbox event was added, no other
  tenant has changed, the cached decisions of the tenant are gone and the peers are notified; an
  error is then possible only because a log was unavailable or because the read of the changed row
  that ends updates, grants and revocations failed.\<close>

theorem mutation_is_atomic:
  assumes "world_ok w" "run_command e x cmd w = (err, w')"
  defines "t \<equiv> command_tenant cmd"
  shows "(err \<noteq> None \<or> already_granted e cmd (w_db w)) \<and>
           w_db w' = w_db w \<and> w_cache w' = w_cache w \<and> w_notified w' = w_notified w \<or>
         caller_may_manage e x t \<and> mutation_effect e t w w' \<and>
           (err = reread e cmd (w_db w') \<or> (\<exists>er. err = Some er \<and> code_of er = CodeDependencyUnavailable))"
  using command_outcome[OF assms(2,1)] already_granted_outcome[OF assms(2)]
  unfolding all_or_nothing_def policy_unchanged_def t_def by blast

text \<open>Witness of C12: a role is created, and the creation of a second role with the same code
  fails.\<close>

theorem mutation_is_atomic_witness:
  "let cmd = CmdCreateRole ''t1'' ''writer'' ''Writer'' [] ''all'';
       first = run_command sample_env sample_ctx cmd sample_world;
       second = run_command sample_env sample_ctx cmd (snd first) in
   fst first = None \<and> mutation_effect sample_env ''t1'' sample_world (snd first) \<and>
   fst second \<noteq> None \<and> w_db (snd second) = w_db (snd first)"
proof -
  define cmd where "cmd = CmdCreateRole ''t1'' ''writer'' ''Writer'' [] ''all''"
  define first where "first = run_command sample_env sample_ctx cmd sample_world"
  define second where "second = run_command sample_env sample_ctx cmd (snd first)"
  have ok: "fst first = None" "fst second \<noteq> None" "code_of (the (fst second)) = CodeConflict"
    unfolding second_def first_def cmd_def by code_simp+
  have w1: "world_ok (snd first)" unfolding first_def cmd_def by code_simp
  have cmd: "command_tenant cmd = ''t1''" "\<not> already_granted sample_env cmd db" for db
    by (simp add: cmd_def, code_simp) (simp add: cmd_def)
  have "run_command sample_env sample_ctx cmd sample_world = (fst first, snd first)"
    "run_command sample_env sample_ctx cmd (snd first) = (fst second, snd second)"
    by (simp_all add: first_def second_def)
  from mutation_is_atomic[OF sample_world_ok this(1)] mutation_is_atomic[OF w1 this(2)] ok
  have "mutation_effect sample_env ''t1'' sample_world (snd first)" "w_db (snd second) = w_db (snd first)"
    by (auto simp: cmd, simp add: cmd_def)
  with ok show ?thesis by (simp add: first_def second_def cmd_def Let_def)
qed

text \<open>C13. No lost update. Of two updates or revocations of the same row that name the same version,
  by any callers, at most the first succeeds; the second one returns an error and leaves the
  database and the cache as they are.\<close>

theorem second_writer_fails:
  assumes "world_ok w"
  shows "(svc_UpdatePermission e x t i n ce st v w = (Inr p, w1) \<and> svc_UpdatePermission e' x' t i n' ce' st' v w1 = (rp', w2) \<longrightarrow>
           (\<exists>err. rp' = Inl err) \<and> w_db w2 = w_db w1 \<and> w_cache w2 = w_cache w1) \<and>
         (svc_UpdateRole e x t i n d ds st v w = (Inr r, w1) \<and> svc_UpdateRole e' x' t i n' d' ds' st' v w1 = (rr', w2) \<longrightarrow>
           (\<exists>err. rr' = Inl err) \<and> w_db w2 = w_db w1 \<and> w_cache w2 = w_cache w1) \<and>
         (svc_RevokeRolePermission e x t i v w = (Inr g, w1) \<and> svc_RevokeRolePermission e' x' t i v w1 = (rg', w2) \<longrightarrow>
           (\<exists>err. rg' = Inl err) \<and> w_db w2 = w_db w1 \<and> w_cache w2 = w_cache w1) \<and>
         (svc_RevokeBinding e x t i v w = (Inr b, w1) \<and> svc_RevokeBinding e' x' t i v w1 = (rb', w2) \<longrightarrow>
           (\<exists>err. rb' = Inl err) \<and> w_db w2 = w_db w1 \<and> w_cache w2 = w_cache w1)"
  using svc_UpdatePermission_once[OF assms, of e x t i n ce st v p w1 e' x' n' ce' st' rp' w2]
    svc_UpdateRole_once[OF assms, of e x t i n d ds st v r w1 e' x' n' d' ds' st' rr' w2]
    svc_RevokeRolePermission_once[OF assms, of e x t i v g w1 e' x' rg' w2]
    svc_RevokeBinding_once[OF assms, of e x t i v b w1 e' x' rb' w2] by iprover

text \<open>Witness of C13: both writers name version 1 of the binding.\<close>

theorem second_writer_fails_witness:
  "let w1 = snd (svc_RevokeBinding sample_env sample_ctx ''t1'' ''b1'' 1 sample_world) in
   \<not> isl (fst (svc_RevokeBinding sample_env sample_ctx ''t1'' ''b1'' 1 sample_world)) \<and>
   (\<exists>err. fst (svc_RevokeBinding sample_env sample_ctx ''t1'' ''b1'' 1 w1) = Inl err) \<and>
   w_db (snd (svc_RevokeBinding sample_env sample_ctx ''t1'' ''b1'' 1 w1)) = w_db w1"
proof -
  let ?q = "svc_RevokeBinding sample_env sample_ctx ''t1'' ''b1'' 1 sample_world"
  have ok: "\<not> isl (fst ?q)" by code_simp
  then obtain b w1 where q: "?q = (Inr b, w1)" by (cases ?q; cases "fst ?q") auto
  obtain r2 w2 where r: "svc_RevokeBinding sample_env sample_ctx ''t1'' ''b1'' 1 w1 = (r2, w2)" by fastforce
  have "(\<exists>err. r2 = Inl err) \<and> w_db w2 = w_db w1"
    using second_writer_fails[OF sample_world_ok, THEN conjunct2, THEN conjunct2, THEN conjunct2] q r by blast
  with ok q r show ?thesis by simp
qed

end
