(* ===== verification/Mutation_Properties.thy ===== *)
theory Mutation_Properties
  imports Sample Update_Laws
begin

text \<open>
  Properties of the management operations beyond their atomicity: what a withdrawal and a new
  binding mean for the grants of a tenant, how a stale version is reported, and who may manage a
  tenant at all.
\<close>

section \<open>Withdrawals and creations\<close>

text \<open>C14. Withdrawals take effect. After a binding or a grant was revoked, or a role or a permission
  updated to a status other than \<open>active\<close>, no grant of any subject of the tenant rests on the
  withdrawn row.\<close>

theorem withdrawal_effective:
  assumes "world_ok w" "(rb, r, rp, p) \<in> set (granted (w_db w') u s sty)"
  shows "(svc_RevokeBinding e x u i v w = (Inr b0, w') \<longrightarrow> b_ID rb \<noteq> i) \<and>
         (svc_RevokeRolePermission e x t i v w = (Inr g0, w') \<and> TrimSpace t = u \<longrightarrow> rp_ID rp \<noteq> i) \<and>
         (svc_UpdateRole e x t i n d ds st v w = (Inr r0, w') \<and> TrimSpace t = u \<and> st \<noteq> ''active'' \<longrightarrow> r_ID r \<noteq> i) \<and>
         (svc_UpdatePermission e x t i n ce st v w = (Inr p0, w') \<and> TrimSpace t = u \<and> ToLower (TrimSpace st) \<noteq> ''active'' \<longrightarrow>
            p_ID p \<noteq> TrimSpace i)"
proof (intro conjI impI notI; (elim conjE)?)
  note g = assms(2)[unfolded granted_iff]
  have b: "b_TenantID rb = u" using g by (simp add: binding_of_subject_def)
  have inside: "r_TenantID r = u \<and> rp_TenantID rp = u \<and> p_TenantID p = u" if "service_step e x w w'"
    using granted_tenant[OF svc_step_ok[OF that assms(1)] assms(2)] by blast
  {
    assume "svc_RevokeBinding e x u i v w = (Inr b0, w')" "b_ID rb = i"
    with revoked_binding[OF _ assms(1)] g b show False by fastforce
  }
  {
    assume o: "svc_RevokeRolePermission e x t i v w = (Inr g0, w')" and t: "TrimSpace t = u" "rp_ID rp = i"
    have "service_step e x w w'" by (rule svc_RevokeRolePermission_step[OF o])
    with revoked_grant[OF o assms(1)] inside g t show False by fastforce
  }
  {
    assume o: "svc_UpdateRole e x t i n d ds st v w = (Inr r0, w')" and t: "TrimSpace t = u" "st \<noteq> ''active''" "r_ID r = i"
    have "service_step e x w w'" by (rule svc_UpdateRole_step[OF o])
    with updated_role[OF o assms(1)] inside g t show False by fastforce
  }
  {
    assume o: "svc_UpdatePermission e x t i n ce st v w = (Inr p0, w')"
      and t: "TrimSpace t = u" "ToLower (TrimSpace st) \<noteq> ''active''" "p_ID p = TrimSpace i"
    have "service_step e x w w'" by (rule svc_UpdatePermission_step[OF o])
    with updated_permission[OF o assms(1)] inside g t show False by fastforce
  }
qed

text \<open>Witness of C14: with a second binding of the member, revoking the first one leaves the grants
  of the second.\<close>

definition twice_bound_world :: world where
  "twice_bound_world = sample_world\<lparr>w_db := sample_db\<lparr>role_bindings := [Row sample_binding None,
     Row (sample_binding\<lparr>b_ID := ''b2'', b_SubjectType := ''user''\<rparr>) None]\<rparr>\<rparr>"

theorem withdrawal_effective_witness:
  "let w' = snd (svc_RevokeBinding sample_env sample_ctx ''t1'' ''b1'' 1 twice_bound_world) in
   granted (w_db twice_bound_world) ''t1'' ''m1'' ''membership'' \<noteq> [] \<and> granted (w_db w') ''t1'' ''m1'' ''membership'' = [] \<and>
   (\<exists>(rb, r, rp, p)\<in>set (granted (w_db w') ''t1'' ''m1'' ''user''). b_ID rb \<noteq> ''b1'')"
proof -
  let ?q = "svc_RevokeBinding sample_env sample_ctx ''t1'' ''b1'' 1 twice_bound_world"
  have ok: "world_ok twice_bound_world" by code_simp
  have "\<not> isl (fst ?q)" by code_simp
  then obtain b w' where q: "?q = (Inr b, w')" by (cases ?q; cases "fst ?q") auto
  have "map (\<lambda>(rb, r, rp, p). b_ID rb) (granted (w_db (snd ?q)) ''t1'' ''m1'' ''user'') = [''b2'']" by code_simp
  then have "granted (w_db w') ''t1'' ''m1'' ''user'' \<noteq> []" using q by auto
  then obtain rb r rp p where g: "(rb, r, rp, p) \<in> set (granted (w_db w') ''t1'' ''m1'' ''user'')"
    by (metis list.set_intros(1) neq_Nil_conv prod_cases4)
  have "b_ID rb \<noteq> ''b1''" using withdrawal_effective[OF ok g, THEN conjunct1] q by blast
  moreover have "granted (w_db twice_bound_world) ''t1'' ''m1'' ''membership'' \<noteq> []" by code_simp
  moreover have "granted (w_db (snd ?q)) ''t1'' ''m1'' ''membership'' = []" by code_simp
  ultimately show ?thesis using g q by (auto simp: Let_def)
qed

text \<open>C15. A new binding grants exactly what its role grants. A successful creation adds to the grants
  of the subjects the binding stands for (the subject itself or the members of the group) one
  grant per active grant and active permission of its active role, and nothing to other subjects.\<close>

theorem created_binding_grants:
  assumes "svc_CreateBinding e x t s st role_id ou w = (Inr b, w')"
  shows "\<exists>c. set (granted (w_db w') u s' st') = set (granted (w_db w) u s' st') \<union>
    {(b\<lparr>b_Audit := audit_insert c\<rparr>, r, rp, p) | r rp p. binding_of_subject (w_db w) u s' st' b \<and>
       r \<in> set (live (roles (w_db w))) \<and> r_ID r = role_id \<and> r_Status r = ''active'' \<and>
       rp \<in> set (live (role_permissions (w_db w))) \<and> rp_RoleID rp = r_ID r \<and> rp_Status rp = ''active'' \<and>
       p \<in> set (live (permissions (w_db w))) \<and> p_ID p = rp_PermissionID rp \<and> p_Status p = ''active''}"
proof -
  obtain c where c: "role_bindings (w_db w') = insert_row (b\<lparr>b_Audit := audit_insert c\<rparr>) (role_bindings (w_db w))"
    and same: "permissions (w_db w') = permissions (w_db w)" "roles (w_db w') = roles (w_db w)"
      "role_permissions (w_db w') = role_permissions (w_db w)" "subject_groups (w_db w') = subject_groups (w_db w)"
    and b: "b_RoleID b = role_id" "b_Status b = ''active''"
    using svc_CreateBinding_Inr[OF assms] by blast
  have sub: "binding_of_subject (w_db w') u s' st' rb = binding_of_subject (w_db w) u s' st' rb" for rb
    by (simp add: binding_of_subject_def same)
  have new: "binding_of_subject (w_db w) u s' st' (b\<lparr>b_Audit := a\<rparr>) = binding_of_subject (w_db w) u s' st' b" for a
    by (simp add: binding_of_subject_def)
  have "q \<in> set (granted (w_db w') u s' st') \<longleftrightarrow> q \<in> set (granted (w_db w) u s' st') \<or>
      (\<exists>r rp p. q = (b\<lparr>b_Audit := audit_insert c\<rparr>, r, rp, p) \<and> binding_of_subject (w_db w) u s' st' b \<and>
       r \<in> set (live (roles (w_db w))) \<and> r_ID r = role_id \<and> r_Status r = ''active'' \<and>
       rp \<in> set (live (role_permissions (w_db w))) \<and> rp_RoleID rp = r_ID r \<and> rp_Status rp = ''active'' \<and>
       p \<in> set (live (permissions (w_db w))) \<and> p_ID p = rp_PermissionID rp \<and> p_Status p = ''active'')" for q
    by (cases q) (auto simp: granted_iff same sub new c b live_insert_row)
  then show ?thesis by (intro exI[of _ c]) blast
qed

theorem created_binding_grants_witness:
  "let q = svc_CreateBinding sample_env sample_ctx ''t1'' ''m2'' ''membership'' ''r1'' [] sample_world in
   \<not> isl (fst q) \<and> (\<exists>(rb, r, rp, p)\<in>set (granted (w_db (snd q)) ''t1'' ''m2'' ''membership''). r_ID r = ''r1'')"
proof -
  let ?q = "svc_CreateBinding sample_env sample_ctx ''t1'' ''m2'' ''membership'' ''r1'' [] sample_world"
  have "\<not> isl (fst ?q)" by code_simp
  then obtain b w' where q: "?q = (Inr b, w')" by (cases ?q; cases "fst ?q") auto
  have "binding_of_subject (w_db sample_world) ''t1'' ''m2'' ''membership'' (projr (fst ?q))" by code_simp
  then have "binding_of_subject (w_db sample_world) ''t1'' ''m2'' ''membership'' b" using q by simp
  moreover have "sample_role \<in> set (live (roles (w_db sample_world)))" "r_ID sample_role = ''r1''" "r_Status sample_role = ''active''"
    "sample_grant \<in> set (live (role_permissions (w_db sample_world)))" "rp_RoleID sample_grant = r_ID sample_role"
    "rp_Status sample_grant = ''active''" "sample_permission \<in> set (live (permissions (w_db sample_world)))"
    "p_ID sample_permission = rp_PermissionID sample_grant" "p_Status sample_permission = ''active''" by code_simp+
  moreover from created_binding_grants[OF q, of "''t1''" "''m2''" "''membership''"]
  obtain c where "set (granted (w_db w') ''t1'' ''m2'' ''membership'') =
    set (granted (w_db sample_world) ''t1'' ''m2'' ''membership'') \<union>
    {(b\<lparr>b_Audit := audit_insert c\<rparr>, r, rp, p) | r rp p. binding_of_subject (w_db sample_world) ''t1'' ''m2'' ''membership'' b \<and>
       r \<in> set (live (roles (w_db sample_world))) \<and> r_ID r = ''r1'' \<and> r_Status r = ''active'' \<and>
       rp \<in> set (live (role_permissions (w_db sample_world))) \<and> rp_RoleID rp = r_ID r \<and> rp_Status rp = ''active'' \<and>
       p \<in> set (live (permissions (w_db sample_world))) \<and> p_ID p = rp_PermissionID rp \<and> p_Status p = ''active''}" ..
  ultimately have "(b\<lparr>b_Audit := audit_insert c\<rparr>, sample_role, sample_grant, sample_permission)
    \<in> set (granted (w_db w') ''t1'' ''m2'' ''membership'')" by simp
  with \<open>r_ID sample_role = ''r1''\<close> q show ?thesis by (auto simp: Let_def)
qed

section \<open>Stale versions\<close>

text \<open>C16. A stale version is reported as such. When the connections work and the caller is known and
  may manage the tenant, a revocation or a (valid) update that names another version than the row
  has fails with the code \<open>STALE_VERSION\<close> and writes nothing.\<close>

theorem stale_version_reported:
  assumes "can_write e x t w"
  shows "(b \<in> set (live (role_bindings (w_db w))) \<and> b_TenantID b = t \<and> b_ID b = i \<and> Version (b_Audit b) \<noteq> v \<longrightarrow>
           (\<exists>err w'. svc_RevokeBinding e x t i v w = (Inl err, w') \<and> code_of err = CodeStaleVersion \<and> w_db w' = w_db w)) \<and>
         (g \<in> set (live (role_permissions (w_db w))) \<and> rp_TenantID g = TrimSpace t \<and> rp_ID g = i \<and> Version (rp_Audit g) \<noteq> v \<longrightarrow>
           (\<exists>err w'. svc_RevokeRolePermission e x t i v w = (Inl err, w') \<and> code_of err = CodeStaleVersion \<and> w_db w' = w_db w)) \<and>
         (r \<in> set (live (roles (w_db w))) \<and> r_TenantID r = TrimSpace t \<and> r_ID r = i \<and> Version (r_Audit r) \<noteq> v \<and>
          TrimSpace t \<noteq> [] \<and> i \<noteq> [] \<and> TrimSpace n \<noteq> [] \<and> 1 \<le> v \<and> validDataScope ds \<and> (st = ''active'' \<or> st = ''disabled'') \<longrightarrow>
           (\<exists>err w'. svc_UpdateRole e x t i n d ds st v w = (Inl err, w') \<and> code_of err = CodeStaleVersion \<and> w_db w' = w_db w)) \<and>
         (p \<in> set (live (permissions (w_db w))) \<and> p_TenantID p = TrimSpace t \<and> p_ID p = TrimSpace i \<and> Version (p_Audit p) \<noteq> v \<and>
          TrimSpace t \<noteq> [] \<and> TrimSpace i \<noteq> [] \<and> TrimSpace n \<noteq> [] \<and> 1 \<le> v \<and> compile_issue e (TrimSpace ce) = None \<and>
          (ToLower (TrimSpace st) = ''active'' \<or> ToLower (TrimSpace st) = ''disabled'') \<longrightarrow>
           (\<exists>err w'. svc_UpdatePermission e x t i n ce st v w = (Inl err, w') \<and> code_of err = CodeStaleVersion \<and> w_db w' = w_db w))"
  by (intro conjI impI; elim conjE;
      rule svc_RevokeBinding_stale_code[OF assms] svc_RevokeRolePermission_stale_code[OF assms]
        svc_UpdateRole_stale_code[OF assms] svc_UpdatePermission_stale_code[OF assms]; assumption)

theorem stale_version_reported_witness:
  "\<exists>err w'. svc_RevokeBinding sample_env sample_ctx ''t1'' ''b1'' 5 sample_world = (Inl err, w') \<and> code_of err = CodeStaleVersion"
proof -
  have "\<forall>n. working (conn_of sample_env n)" by (simp add: working_def sample_defs)
  moreover have "known_actor sample_ctx" "caller_may_manage sample_env sample_ctx ''t1''"
    "audit_UpdatedBy sample_env sample_ctx (clock sample_env 0) \<noteq> None" by code_simp+
  ultimately have "can_write sample_env sample_ctx ''t1'' sample_world"
    using sample_world_ok by (simp add: can_write_def)
  moreover have "sample_binding \<in> set (live (role_bindings (w_db sample_world)))" "b_TenantID sample_binding = ''t1''"
    "b_ID sample_binding = ''b1''" "Version (b_Audit sample_binding) \<noteq> 5" by code_simp+
  ultimately show ?thesis using stale_version_reported[THEN conjunct1] by blast
qed

end
