(* ===== verification/Peers.thy ===== *)
theory Peers
  imports Atomicity
begin

text \<open>
  Instances of the service and the channel between them. A committed mutation calls
  \<open>service.notify\<close>, which \<open>NewDecisionCacheRuntime\<close> has set to the \<open>Notify\<close> of its runtime; every
  runtime listens on its own channel. Redis is not part of the model: what it hands to a
  subscriber is an argument, of which only the documented law is used that a subscriber of a
  channel receives nothing but what was published on that channel.
\<close>

section \<open>Calls of notify\<close>

definition notify_all ::
  "(decisionInvalidation \<Rightarrow> gostring result) \<Rightarrow> goerr option \<Rightarrow> DecisionCacheRuntime \<Rightarrow> (gostring \<times> nat) list
   \<Rightarrow> runtime_log \<Rightarrow> runtime_log" where
  "notify_all marshal publish r calls log = foldl (\<lambda>log (t, v). Notify marshal publish r t v log) log calls"

text \<open>The calls that an operation has made.\<close>

definition new_notifications :: "world \<Rightarrow> world \<Rightarrow> (gostring \<times> nat) list" where
  "new_notifications w w' = drop (length (w_notified w)) (w_notified w')"

lemma successful_command_notifies:
  assumes "world_ok w" "notify_set e" "run_command e x cmd w = (None, w')" "\<not> already_granted e cmd (w_db w)"
  shows "new_notifications w w' = [(command_tenant cmd, policy_version_of (w_db w') (command_tenant cmd))]"
  using command_outcome[OF assms(3,1,4)] assms(2)
  by (auto simp: all_or_nothing_def mutation_effect_def new_notifications_def)

lemma notify_publishes:
  "rt_redis r \<Longrightarrow> marshal \<lparr>di_TenantID = t, di_PolicyVersion = v\<rparr> = Inr payload \<Longrightarrow>
   published (notify_all marshal None r [(t, v)] log) = published log @ [(rt_channel r, payload)]"
  by (simp add: notify_all_def Notify_def)

section \<open>Listening\<close>

text \<open>The select loop of a runtime that receives these payloads on its subscription.\<close>

definition listen ::
  "(gostring \<Rightarrow> decisionInvalidation result) \<Rightarrow> DecisionCacheRuntime \<Rightarrow> gostring list \<Rightarrow> cache \<times> runtime_log
   \<Rightarrow> cache \<times> runtime_log" where
  "listen unmarshal r payloads s = run_loop unmarshal r (map (\<lambda>p. Message (Some p)) payloads) s"

lemma invalidateTenant_idem [simp]: "invalidateTenant t (invalidateTenant t cache) = invalidateTenant t cache"
  by (simp add: invalidateTenant_def delete_prefix_def)

lemma handleMessage_cache:
  "unmarshal payload = Inr m \<Longrightarrow> di_TenantID m \<noteq> [] \<Longrightarrow>
   fst (handleMessage unmarshal r payload s) = invalidateTenant (di_TenantID m) (fst s)"
  by (cases s) (simp add: handleMessage_def)

lemma listen_one_message:
  assumes "rt_redis r" "unmarshal payload = Inr m" "di_TenantID m \<noteq> []" "set payloads \<subseteq> {payload}"
  shows "fst (listen unmarshal r payloads s) = (if payloads = [] then fst s else invalidateTenant (di_TenantID m) (fst s))"
  using assms(4)
proof (induction payloads arbitrary: s)
  case Nil show ?case by (simp add: listen_def)
next
  case (Cons p ps)
  then have p: "p = payload" "set ps \<subseteq> {payload}" by auto
  have "fst (listen unmarshal r (p # ps) s) = fst (listen unmarshal r ps (handleMessage unmarshal r payload s))"
    using assms(1) by (simp add: listen_def p(1))
  also have "\<dots> = invalidateTenant (di_TenantID m) (fst s)"
    using handleMessage_cache[where unmarshal = unmarshal, OF assms(2,3), of r s] by (simp add: Cons.IH[OF p(2)])
  finally show ?case by simp
qed

lemma lookup_invalidateTenant:
  assumes "nulfree t" "nulfree u"
  shows "fst (cachedDecision now (decisionCacheKey t s st rt rid a attrs) (invalidateTenant u cache)) =
    (if t = TrimSpace u then None else fst (cachedDecision now (decisionCacheKey t s st rt rid a attrs) cache))"
proof -
  have "nulfree (TrimSpace u)" using assms(2) by (auto dest: set_TrimSpace)
  with assms(1) have "prefix (TrimSpace u @ nul) (decisionCacheKey t s st rt rid a attrs) \<longleftrightarrow> t = TrimSpace u"
    by (subst tenant_prefix_iff) auto
  then show ?thesis unfolding invalidateTenant_def delete_prefix_discard by (simp add: dc.lookup_discard)
qed

section \<open>Channels\<close>

lemma channel_identifies_deployment:
  assumes "CHR '':'' \<notin> set profile" "CHR '':'' \<notin> set profile'"
  shows "rt_channel (fst (NewDecisionCacheRuntime c m profile app i ttl cttl)) =
      rt_channel (fst (NewDecisionCacheRuntime c' m' profile' app' i' ttl' cttl')) \<longleftrightarrow> profile = profile' \<and> app = app'"
proof
  assume "rt_channel (fst (NewDecisionCacheRuntime c m profile app i ttl cttl)) =
      rt_channel (fst (NewDecisionCacheRuntime c' m' profile' app' i' ttl' cttl'))"
  then have "profile @ CHR '':'' # app @ '':decision-cache:changed'' = profile' @ CHR '':'' # app' @ '':decision-cache:changed''"
    by (simp add: NewDecisionCacheRuntime_def)
  from append_sep_inject[OF this] assms show "profile = profile' \<and> app = app'" by simp
qed (simp add: NewDecisionCacheRuntime_def)

lemma runtime_redis [simp]: "rt_redis (fst (NewDecisionCacheRuntime c m profile app i ttl cttl)) = c"
  by (simp add: NewDecisionCacheRuntime_def)

end
