(* ===== verification/Cache_Properties.thy ===== *)
theory Cache_Properties
  imports Sample Peers
begin

text \<open>
  Properties of the decision cache and of the runtime that keeps the caches of several instances
  coherent: freshness of what is served, exactness of keys and invalidations, the message that one
  instance sends to the others, and the polling that repairs a missed message.
\<close>

text \<open>C17. Freshness. Whatever sequence of lookups, stores and invalidations a cache went through, a
  decision it serves for a key was stored for that very key less than the time-to-live ago, and
  since then the key was neither stored again nor invalidated.\<close>

theorem served_decision_is_fresh:
  assumes "fst (cachedDecision now k (dc.performs cacheTTL ops)) = Some d"
  shows "\<exists>earlier t later. ops = earlier @ (t, Store k d) # later \<and> now < t + cacheTTL \<and>
    (\<forall>x\<in>set later. \<not> dc.touches k x)"
  using assms by (rule dc.answer_is_fresh)

theorem served_decision_is_fresh_witness:
  "\<exists>earlier t later. [(10 :: time, Store ''k'' sample_decision), (11, Drop (\<lambda>k. k = ''j''))] = earlier @ (t, Store ''k'' sample_decision) # later
     \<and> 20 < t + 30"
proof -
  have "fst (cachedDecision 20 ''k'' (dc.performs 30 [(10, Store ''k'' sample_decision), (11, Drop (\<lambda>k. k = ''j''))])) = Some sample_decision"
    by (simp add: dc.performs_def cachedDecision_def storeDecision_def discard_keys_def)
  from served_decision_is_fresh[OF this] show ?thesis by (elim exE conjE) (intro exI conjI; assumption)
qed

text \<open>C18. Cache keys are faithful. Two requests without NUL bytes, and without \<open>=\<close> in attribute names,
  share a key only if they agree on tenant, subject, resource id and attributes, and on subject
  type, resource type and action up to letter case.\<close>

theorem cache_key_identifies_request:
  assumes "list_all nulfree [t, s, st, rt, rid, a, t', s', st', rt', rid', a']" "plain_attributes attrs" "plain_attributes attrs'"
  shows "decisionCacheKey t s st rt rid a attrs = decisionCacheKey t' s' st' rt' rid' a' attrs' \<longrightarrow>
    t = t' \<and> s = s' \<and> ToLower st = ToLower st' \<and> ToLower rt = ToLower rt' \<and> rid = rid' \<and> ToLower a = ToLower a' \<and>
    map_of attrs = map_of attrs'"
  using decisionCacheKey_inject[OF _ assms] by blast

theorem cache_key_identifies_request_witness:
  "decisionCacheKey ''t1'' ''m1'' ''user'' ''doc'' [] ''read'' [(''a'', ''1'')] \<noteq>
   decisionCacheKey ''t1'' ''m1'' ''user'' ''doc'' [] ''read'' [(''a'', ''2'')]"
proof -
  have "plain_attributes [(''a'', ''1'')]" "plain_attributes [(''a'', ''2'')]" by (simp_all add: plain_attributes_def)
  from cache_key_identifies_request[OF _ this, of "''t1''" "''m1''" "''user''" "''doc''" "[]" "''read''" "''t1''" "''m1''" "''user''"
      "''doc''" "[]" "''read''"]
  show ?thesis by (auto dest: fun_cong[of _ _ "''a''"])
qed

text \<open>C19. Invalidation is exact for identifiers without NUL bytes. Dropping a tenant removes what is
  cached for the requests of that tenant and nothing else; dropping a subject removes what is
  cached for the requests of that subject of the tenant and nothing else, and a malformed subject
  is refused without effect.\<close>

theorem invalidation_exact:
  assumes "list_all nulfree [t, s, st, u, v, sty]" "key = decisionCacheKey t s st rt rid a attrs"
  shows "fst (cachedDecision now key (invalidateTenant u cache)) = (if t = TrimSpace u then None else fst (cachedDecision now key cache)) \<and>
    (case InvalidateSubject u v sty cache of
       (Some err, cache') \<Rightarrow> cache' = cache \<and> code_of err = CodeInvalidArgument \<and>
         (TrimSpace u = [] \<or> TrimSpace v = [] \<or> \<not> validSubjectType (ToLower (TrimSpace sty)))
     | (None, cache') \<Rightarrow> fst (cachedDecision now key cache') =
         (if t = TrimSpace u \<and> s = TrimSpace v \<and> ToLower st = ToLower (TrimSpace sty) then None
          else fst (cachedDecision now key cache)))"
proof -
  have nf: "nulfree (TrimSpace u)" "nulfree (TrimSpace v)" "nulfree (ToLower (TrimSpace sty))" "nulfree t" "nulfree s" "nulfree st"
    using assms(1) by (auto dest: set_TrimSpace)
  have drop: "fst (cachedDecision now key (delete_prefix pre cache)) = (if prefix pre key then None else fst (cachedDecision now key cache))"
    for pre unfolding delete_prefix_discard by (rule dc.lookup_discard)
  have "prefix (TrimSpace u @ nul) key \<longleftrightarrow> t = TrimSpace u"
    and "prefix (TrimSpace u @ nul @ TrimSpace v @ nul @ ToLower (TrimSpace sty) @ nul) key \<longleftrightarrow>
      t = TrimSpace u \<and> s = TrimSpace v \<and> ToLower st = ToLower (TrimSpace sty)"
    unfolding assms(2) using nf by (subst tenant_prefix_iff subject_prefix_iff; auto)+
  then show ?thesis by (simp add: invalidateTenant_def InvalidateSubject_def Let_def drop)
qed

text \<open>Witness of C19: a check of the tenant and one of its subjects.\<close>

theorem invalidation_exact_witness:
  "let key = decisionCacheKey ''t1'' ''m1'' ''membership'' ''doc'' [] ''read'' []; cache = storeDecision 30 10 key sample_decision [] in
   fst (cachedDecision 20 key cache) = Some sample_decision \<and>
   fst (cachedDecision 20 key (invalidateTenant '' t1 '' cache)) = None \<and>
   fst (cachedDecision 20 key (invalidateTenant ''t'' cache)) = Some sample_decision"
proof -
  let ?key = "decisionCacheKey ''t1'' ''m1'' ''membership'' ''doc'' [] ''read'' []"
  have hit: "fst (cachedDecision 20 ?key (storeDecision 30 10 ?key sample_decision [])) = Some sample_decision"
    by (simp add: dc.lookup_store)
  have "TrimSpace '' t1 '' = ''t1''" "TrimSpace ''t'' = ''t''" by code_simp+
  with hit invalidation_exact[of "''t1''" "''m1''" "''membership''" "'' t1 ''" "[]" "[]" ?key "''doc''" "[]" "''read''" "[]" 20]
    invalidation_exact[of "''t1''" "''m1''" "''membership''" "''t''" "[]" "[]" ?key "''doc''" "[]" "''read''" "[]" 20]
  show ?thesis by (simp add: Let_def)
qed

text \<open>C20. Peers learn of a change. Two instances share a Redis; the first one completes a management
  operation on a tenant (not empty), which encodes and publishes one message with the tenant and
  its new policy version. The broker may lose or repeat the message, but hands to a subscriber
  only what was published on the channel it subscribes to; decoding gives back this message. Then
  a second instance of the same deployment (profile and application name) that receives the
  message answers no request of that tenant from its cache any more, and answers the requests of
  all other tenants as before; an instance of another deployment, and one that has not received
  the message, keeps its cache as it is. (Profiles contain no colon and tenant ids no NUL byte.)\<close>

theorem published_change_reaches_peers:
  fixes delivered :: "(gostring \<times> gostring) list \<Rightarrow> gostring \<Rightarrow> gostring list" and cache :: cache and log' :: runtime_log
  assumes commit: "world_ok w" "notify_set e" "run_command e x cmd w = (None, w')" "\<not> already_granted e cmd (w_db w)"
    and tenant: "t = command_tenant cmd" "t \<noteq> []" "nulfree t" "nulfree u"
    and message: "m = \<lparr>di_TenantID = t, di_PolicyVersion = policy_version_of (w_db w') t\<rparr>"
      "marshal m = Inr payload" "unmarshal payload = Inr m"
    and sender: "sender = fst (NewDecisionCacheRuntime True metrics profile app interval ttl cttl)" "CHR '':'' \<notin> set profile"
    and receiver: "receiver = fst (NewDecisionCacheRuntime True metrics' profile' app' interval' ttl' cttl')" "CHR '':'' \<notin> set profile'"
    and broker: "\<And>log ch. set (delivered log ch) \<subseteq> {p. (ch, p) \<in> set log}"
    and log: "published log = []"
  defines "sent \<equiv> published (notify_all marshal None sender (new_notifications w w') log)"
  defines "heard \<equiv> delivered sent (rt_channel receiver)"
  defines "reached \<equiv> profile' = profile \<and> app' = app \<and> heard \<noteq> []"
  defines "cache' \<equiv> fst (listen unmarshal receiver heard (cache, log'))"
  shows "sent = [(rt_channel sender, payload)] \<and>
    (\<not> reached \<longrightarrow> cache' = cache) \<and>
    fst (cachedDecision now (decisionCacheKey u s st rt rid a attrs) cache') =
      (if reached \<and> u = TrimSpace t then None else fst (cachedDecision now (decisionCacheKey u s st rt rid a attrs) cache))"
proof -
  have sent: "sent = [(rt_channel sender, payload)]"
    unfolding sent_def successful_command_notifies[OF commit]
    using message(1,2) notify_publishes[where marshal = marshal] by (simp add: tenant(1) sender(1) log)
  have "set heard \<subseteq> {p. (rt_channel receiver, p) \<in> set sent}" unfolding heard_def by (rule broker)
  with sent have heard: "set heard \<subseteq> {payload}" "heard \<noteq> [] \<Longrightarrow> rt_channel sender = rt_channel receiver"
    by (auto, cases heard, auto)
  then have same: "reached \<longleftrightarrow> heard \<noteq> []"
    using channel_identifies_deployment[OF sender(2) receiver(2)] by (auto simp: reached_def sender(1) receiver(1))
  have "cache' = (if heard = [] then cache else invalidateTenant t cache)"
    unfolding cache'_def using heard(1) tenant(2)
    by (subst listen_one_message[where unmarshal = unmarshal, OF _ message(3)]) (simp_all add: receiver(1) message(1))
  moreover note lookup_invalidateTenant[OF tenant(4,3), of now s st rt rid a attrs cache]
  ultimately show ?thesis using sent same by (cases "heard = []"; cases "u = TrimSpace t"; metis)
qed

text \<open>Witness of C20: a role of tenant t1 is created; an instance of the same deployment that gets
  the message drops what it has cached for t1, an instance of the application \<open>other\<close> does not.\<close>

definition sample_runtime :: "gostring \<Rightarrow> DecisionCacheRuntime" where
  "sample_runtime app = fst (NewDecisionCacheRuntime True False ''test'' app 0 0 30)"

definition sample_marshal :: "decisionInvalidation \<Rightarrow> gostring result" where
  "sample_marshal m = Inr (di_TenantID m @ nul @ replicate (di_PolicyVersion m) (CHR ''1''))"

definition sample_unmarshal :: "gostring \<Rightarrow> decisionInvalidation result" where
  "sample_unmarshal p = (case cut_at (CHR 0x00) p of (t, v, found) \<Rightarrow> Inr \<lparr>di_TenantID = t, di_PolicyVersion = length v\<rparr>)"

definition sample_broker :: "(gostring \<times> gostring) list \<Rightarrow> gostring \<Rightarrow> gostring list" where
  "sample_broker log ch = map snd (filter (\<lambda>(c, p). c = ch) log)"

theorem published_change_reaches_peers_witness:
  "let w' = snd (run_command sample_env sample_ctx (CmdCreateRole ''t1'' ''writer'' ''Writer'' [] ''all'') sample_world);
       sent = published (notify_all sample_marshal None (sample_runtime ''authz'') (new_notifications sample_world w')
         \<lparr>counted = [], published = [], warned = []\<rparr>);
       key = decisionCacheKey ''t1'' ''m1'' ''membership'' ''doc'' [] ''read'' [];
       cache = storeDecision 30 10 key sample_decision [];
       after = (\<lambda>app. fst (listen sample_unmarshal (sample_runtime app) (sample_broker sent (rt_channel (sample_runtime app)))
         (cache, \<lparr>counted = [], published = [], warned = []\<rparr>))) in
   fst (cachedDecision 20 key cache) = Some sample_decision \<and>
   fst (cachedDecision 20 key (after ''authz'')) = None \<and> after ''other'' = cache"
proof -
  define cmd where "cmd = CmdCreateRole ''t1'' ''writer'' ''Writer'' [] ''all''"
  define w' where "w' = snd (run_command sample_env sample_ctx cmd sample_world)"
  define log where "log = \<lparr>counted = [], published = [], warned = []\<rparr>"
  define sent where "sent = published (notify_all sample_marshal None (sample_runtime ''authz'') (new_notifications sample_world w') log)"
  define key where "key = decisionCacheKey ''t1'' ''m1'' ''membership'' ''doc'' [] ''read'' []"
  define cache where "cache = storeDecision 30 10 key sample_decision []"
  define heard where "heard = (\<lambda>app. sample_broker sent (rt_channel (sample_runtime app)))"
  define after where "after = (\<lambda>app. fst (listen sample_unmarshal (sample_runtime app) (heard app) (cache, log)))"
  define m where "m = \<lparr>di_TenantID = ''t1'', di_PolicyVersion = policy_version_of (w_db w') ''t1''\<rparr>"
  define payload where "payload = ''t1'' @ nul @ replicate (policy_version_of (w_db w') ''t1'') (CHR ''1'')"
  have hit: "fst (cachedDecision 20 key cache) = Some sample_decision" by (simp add: cache_def dc.lookup_store)
  have "fst (run_command sample_env sample_ctx cmd sample_world) = None" unfolding cmd_def by code_simp
  then have run: "run_command sample_env sample_ctx cmd sample_world = (None, w')" by (simp add: w'_def prod_eq_iff)
  have env: "notify_set sample_env" "\<not> already_granted sample_env cmd (w_db sample_world)"
    by (code_simp, simp add: cmd_def)
  have t: "''t1'' = command_tenant cmd" "TrimSpace ''t1'' = ''t1''" by (simp add: cmd_def, code_simp+)
  have json: "sample_marshal m = Inr payload" "sample_unmarshal payload = Inr m"
    by (simp_all add: sample_marshal_def sample_unmarshal_def m_def payload_def nul_def cut_at_found[of "CHR 0x00" "''t1''", simplified])
  have broker: "set (sample_broker l ch) \<subseteq> {p. (ch, p) \<in> set l}" for l ch by (auto simp: sample_broker_def)
  have peer: "sent = [(rt_channel (sample_runtime ''authz''), payload)] \<and>
    (\<not> (''test'' = ''test'' \<and> app = ''authz'' \<and> heard app \<noteq> []) \<longrightarrow> after app = cache) \<and>
    fst (cachedDecision 20 key (after app)) = (if (''test'' = ''test'' \<and> app = ''authz'' \<and> heard app \<noteq> []) \<and> ''t1'' = TrimSpace ''t1'' then None
       else fst (cachedDecision 20 key cache))" for app
    unfolding after_def heard_def sent_def key_def
    by (rule published_change_reaches_peers[where marshal = sample_marshal and unmarshal = sample_unmarshal
          and delivered = sample_broker, OF sample_world_ok env(1) run env(2) t(1) _ _ _ m_def json sample_runtime_def _
          sample_runtime_def _ broker]) (simp_all add: log_def)
  then have "heard ''authz'' \<noteq> []" by (simp add: heard_def sample_broker_def)
  with peer[of "''authz''"] peer[of "''other''"] t(2)
  have "fst (cachedDecision 20 key (after ''authz'')) = None" "after ''other'' = cache" by simp_all
  with hit show ?thesis
    unfolding Let_def after_def heard_def sent_def w'_def cmd_def log_def key_def cache_def by simp
qed

text \<open>C21. Polling repairs what a message did not. One round of polling drops a cached decision
  precisely when some tenant id in the cache that differs from the tenant id of the decision at
  most by surrounding white space is outdated: its policy version could be read and is not the
  newest version cached for it. In a cache whose keys carry tenant ids without surrounding white
  space, which checks build for such requests, this says that the decision is dropped precisely
  when its own tenant is outdated. (Checks do cache under the tenant id as given; polling and
  invalidation trim it.)\<close>

theorem repair_drops_outdated_tenants:
  fixes cs :: "gostring \<Rightarrow> conn" and db :: database and r :: DecisionCacheRuntime and log :: runtime_log
  assumes "\<forall>(k', e')\<in>set cache. tenant_key k'" "(k, entry) \<in> set cache"
  defines "outdated \<equiv> (\<lambda>u. case repo_PolicyVersion (cs u) db u of
       Inl err \<Rightarrow> False
     | Inr n \<Rightarrow> n \<noteq> Max {d_PolicyVersion (ce_decision e') | k' e'. (k', e') \<in> set cache \<and> key_tenant k' = u})"
  defines "kept \<equiv> (k, entry) \<in> set (fst (repair cs db r (cache, log)))"
  shows "(kept \<longleftrightarrow> \<not> (\<exists>(k', e')\<in>set cache. TrimSpace (key_tenant k') = key_tenant k \<and> outdated (key_tenant k'))) \<and>
    (cache_keys_ok cache \<longrightarrow> (kept \<longleftrightarrow> \<not> outdated (key_tenant k)))"
proof -
  let ?pv = "\<lambda>t. repo_PolicyVersion (cs t) db t"
  have vs: "set (tenant_versions cache u) =
      {d_PolicyVersion (ce_decision e') | k' e'. (k', e') \<in> set cache \<and> key_tenant k' = u}" for u
    by (force simp: tenant_versions_def)
  have ne: "tenant_versions cache u \<noteq> [] \<longleftrightarrow> (\<exists>(k', e')\<in>set cache. key_tenant k' = u)" for u
    by (auto simp: tenant_versions_def filter_empty_conv)
  have mem: "(u, v) \<in> set (cachedTenantVersions cache) \<longleftrightarrow> max_version cache u = Some v" for u v
    by (simp add: cachedTenantVersions_max[symmetric] distinct_cachedTenantVersions)
  have stale: "(\<exists>v. (u, v) \<in> set (cachedTenantVersions cache) \<and> stale_version ?pv (u, v)) \<longleftrightarrow>
      (\<exists>(k', e')\<in>set cache. key_tenant k' = u) \<and> outdated u" for u
    using ne[of u] by (auto simp: mem max_version_def vs stale_version_def outdated_def split: sum.splits)
  have pre: "prefix (TrimSpace u @ nul) k \<longleftrightarrow> TrimSpace u = key_tenant k" if "\<exists>(k', e')\<in>set cache. key_tenant k' = u" for u
  proof -
    from that have "nulfree u" using assms(1) nulfree_key_tenant by fastforce
    then have "nulfree (TrimSpace u)" by (auto dest: set_TrimSpace)
    then show ?thesis using prefix_key_tenant[of k "TrimSpace u"] assms(1,2) by auto
  qed
  have "kept \<longleftrightarrow> \<not> (\<exists>u. (\<exists>v. (u, v) \<in> set (cachedTenantVersions cache) \<and> stale_version ?pv (u, v)) \<and> prefix (TrimSpace u @ nul) k)"
    using assms(2) unfolding kept_def repair_def repair_tenants_cache fst_conv by (auto simp: list_ex_iff)
  also have "\<dots> \<longleftrightarrow> \<not> (\<exists>u. ((\<exists>(k', e')\<in>set cache. key_tenant k' = u) \<and> outdated u) \<and> prefix (TrimSpace u @ nul) k)"
    unfolding stale ..
  also have "\<dots> \<longleftrightarrow> \<not> (\<exists>u. ((\<exists>(k', e')\<in>set cache. key_tenant k' = u) \<and> outdated u) \<and> TrimSpace u = key_tenant k)"
    by (simp cong: conj_cong add: pre)
  also have "\<dots> \<longleftrightarrow> \<not> (\<exists>(k', e')\<in>set cache. TrimSpace (key_tenant k') = key_tenant k \<and> outdated (key_tenant k'))"
    by auto
  finally have kept: "kept \<longleftrightarrow> \<not> (\<exists>(k', e')\<in>set cache. TrimSpace (key_tenant k') = key_tenant k \<and> outdated (key_tenant k'))" .
  moreover have "kept \<longleftrightarrow> \<not> outdated (key_tenant k)" if "cache_keys_ok cache"
  proof -
    have "TrimSpace (key_tenant k') = key_tenant k'" if "(k', e') \<in> set cache" for k' e'
      using \<open>cache_keys_ok cache\<close> that by (auto simp: cache_keys_ok_def list_all_iff)
    then show ?thesis unfolding kept using assms(2) by fastforce
  qed
  ultimately show ?thesis by blast
qed

text \<open>Witness of C21: a decision of version 1 beside one of version 2 of the same tenant.\<close>

definition mixed_cache :: cache where
  "mixed_cache =
     [(decisionCacheKey ''t1'' ''m1'' ''membership'' ''doc'' [] ''read'' [], \<lparr>ce_decision = sample_decision\<lparr>d_PolicyVersion := 1\<rparr>, ce_expiresAt = 50\<rparr>),
      (decisionCacheKey ''t1'' ''m2'' ''membership'' ''doc'' [] ''read'' [], \<lparr>ce_decision = sample_decision\<lparr>d_PolicyVersion := 2\<rparr>, ce_expiresAt = 50\<rparr>)]"

theorem repair_drops_outdated_tenants_witness:
  "hd mixed_cache \<notin> set (fst (repair (\<lambda>t. sample_conn) (w_db sample_world)
     \<lparr>rt_redis = False, rt_channel = [], rt_interval = 1, rt_metrics = False\<rparr> (mixed_cache, \<lparr>counted = [], published = [], warned = []\<rparr>)))"
proof -
  have ok: "\<forall>(k', e')\<in>set mixed_cache. tenant_key k'" "cache_keys_ok mixed_cache" by code_simp+
  have mem: "(fst (hd mixed_cache), snd (hd mixed_cache)) \<in> set mixed_cache" by (simp add: mixed_cache_def)
  have pv: "repo_PolicyVersion sample_conn (w_db sample_world) (key_tenant (fst (hd mixed_cache))) = Inr 7" by code_simp
  have "d_PolicyVersion (ce_decision e') \<le> 2" if "(k', e') \<in> set mixed_cache" for k' e'
    using that by (auto simp: mixed_cache_def)
  moreover have "\<exists>k' e'. (k', e') \<in> set mixed_cache \<and> key_tenant k' = key_tenant (fst (hd mixed_cache))"
    using mem by blast
  ultimately have "Max {d_PolicyVersion (ce_decision e') | k' e'. (k', e') \<in> set mixed_cache \<and> key_tenant k' = key_tenant (fst (hd mixed_cache))} \<le> 2"
    by (subst Max_le_iff) (auto intro: finite_subset[of _ "(\<lambda>(k, e). d_PolicyVersion (ce_decision e)) ` set mixed_cache"])
  with pv repair_drops_outdated_tenants[OF ok(1) mem, of "\<lambda>t. sample_conn" "w_db sample_world", THEN conjunct2, rule_format, OF ok(2)]
  show ?thesis by simp
qed

end
