(* ===== verification/Search_Properties.thy ===== *)
theory Search_Properties
  imports Sample Update_Laws
begin

text \<open>
  Properties of the read side of the management interface (searches, pages, filters) and of the
  constraints that a creation meets.
\<close>

section \<open>Searches\<close>

text \<open>What a filter asks of a permission, written out. The keyword is not escaped before it becomes
  an SQL pattern, so a percent sign, an underscore or a backslash in it keeps its meaning there.\<close>

definition keyword_found :: "gostring \<Rightarrow> Permission \<Rightarrow> bool" where
  "keyword_found k p \<longleftrightarrow> k = [] \<or> lower_like (keyword_pattern k) (p_Code p) \<or> lower_like (keyword_pattern k) (p_Name p) \<or>
     lower_like (keyword_pattern k) (p_ResourceType p) \<or> lower_like (keyword_pattern k) (p_Action p)"

lemma keyword_found_contains:
  "no_wildcard k \<Longrightarrow> keyword_found k p \<longleftrightarrow>
   (\<exists>v\<in>{p_Code p, p_Name p, p_ResourceType p, p_Action p}. sublist (ToLower k) (ToLower v))"
  by (cases "k = []") (auto simp: keyword_found_def lower_like_contains)

definition permission_wanted :: "gostring \<Rightarrow> PermissionFilter \<Rightarrow> Permission \<Rightarrow> bool" where
  "permission_wanted t f p \<longleftrightarrow> p_TenantID p = t \<and>
     keyword_found (TrimSpace (pf_Keyword f)) p \<and>
     (pf_IDs f = [] \<or> p_ID p \<in> set (map TrimSpace (pf_IDs f))) \<and>
     (pf_Statuses f = [] \<or> p_Status p \<in> set (map (\<lambda>s. ToLower (TrimSpace s)) (pf_Statuses f))) \<and>
     (pf_ResourceTypes f = [] \<or> p_ResourceType p \<in> set (map (\<lambda>s. ToLower (TrimSpace s)) (pf_ResourceTypes f))) \<and>
     (pf_Actions f = [] \<or> p_Action p \<in> set (map (\<lambda>s. ToLower (TrimSpace s)) (pf_Actions f))) \<and>
     (\<forall>a. pf_CreatedFrom f = Some a \<longrightarrow> a \<le> CreatedAt (p_Audit p)) \<and>
     (\<forall>b. pf_CreatedTo f = Some b \<longrightarrow> CreatedAt (p_Audit p) < b)"

lemma nub_empty_iff [simp]: "nub xs = [] \<longleftrightarrow> xs = []"
  by (metis set_nub set_empty)

lemma normalizePermissionFilter_Inr:
  assumes "normalizePermissionFilter f0 = Inr f"
  shows "f = f0\<lparr>pf_Keyword := TrimSpace (pf_Keyword f0), pf_IDs := nub (map TrimSpace (pf_IDs f0)),
    pf_Statuses := map ToLower (nub (map TrimSpace (pf_Statuses f0))),
    pf_ResourceTypes := map ToLower (nub (map TrimSpace (pf_ResourceTypes f0))),
    pf_Actions := map ToLower (nub (map TrimSpace (pf_Actions f0)))\<rparr> \<and>
    set (pf_Statuses f) \<subseteq> {''active'', ''disabled''} \<and> length (pf_Keyword f) \<le> 100"
  using assms
  by (auto simp: normalizePermissionFilter_def Let_def lowerValues_def list_ex_iff
      split: if_splits sum.splits option.splits dest!: normalizeFilterSets_Inr simp del: normalizeFilterSets.simps)

lemma satisfies_append [simp]: "satisfies (wh @ wh') r \<longleftrightarrow> satisfies wh r \<and> satisfies wh' r"
  by (simp add: satisfies_def)

lemma satisfies_sets:
  "satisfies (appendSetFilters wh fs) r \<longleftrightarrow> satisfies wh r \<and> list_all (\<lambda>(column, vs). vs = [] \<or> column r \<in> set vs) fs"
  unfolding appendSetFilters_def satisfies_append by (induction fs) (auto simp: satisfies_def split: if_splits)

lemma satisfies_range:
  "satisfies (appendTimeRange wh created a b) r \<longleftrightarrow>
     satisfies wh r \<and> (\<forall>u. a = Some u \<longrightarrow> u \<le> created r) \<and> (\<forall>u. b = Some u \<longrightarrow> created r < u)"
  by (cases a; cases b) (simp_all add: satisfies_def appendTimeRange_def)

lemma search_where:
  assumes "normalizePermissionFilter f0 = Inr f"
  shows "satisfies (appendTimeRange (appendSetFilters
      (if pf_Keyword f \<noteq> [] then [\<lambda>p. p_TenantID p = t] @ [\<lambda>p. lower_like (keyword_pattern (pf_Keyword f)) (p_Code p) \<or>
          lower_like (keyword_pattern (pf_Keyword f)) (p_Name p) \<or> lower_like (keyword_pattern (pf_Keyword f)) (p_ResourceType p) \<or>
          lower_like (keyword_pattern (pf_Keyword f)) (p_Action p)] else [\<lambda>p. p_TenantID p = t])
      [(p_ID, pf_IDs f), (p_Status, pf_Statuses f), (p_ResourceType, pf_ResourceTypes f), (p_Action, pf_Actions f)])
      (\<lambda>p. CreatedAt (p_Audit p)) (pf_CreatedFrom f) (pf_CreatedTo f)) p = permission_wanted t f0 p"
proof -
  note f = normalizePermissionFilter_Inr[OF assms, THEN conjunct1]
  have k: "satisfies (if k \<noteq> [] then [A] @ [\<lambda>p. lower_like (keyword_pattern k) (p_Code p) \<or>
      lower_like (keyword_pattern k) (p_Name p) \<or> lower_like (keyword_pattern k) (p_ResourceType p) \<or>
      lower_like (keyword_pattern k) (p_Action p)] else [A]) p
    \<longleftrightarrow> A p \<and> keyword_found k p" for k A
    by (cases "k = []") (auto simp: satisfies_def keyword_found_def)
  have kw: "pf_Keyword f = TrimSpace (pf_Keyword f0)" by (simp add: f)
  have "satisfies (appendTimeRange (appendSetFilters wh
      [(p_ID, pf_IDs f), (p_Status, pf_Statuses f), (p_ResourceType, pf_ResourceTypes f), (p_Action, pf_Actions f)])
      (\<lambda>p. CreatedAt (p_Audit p)) (pf_CreatedFrom f) (pf_CreatedTo f)) p \<longleftrightarrow> satisfies wh p \<and>
     (pf_IDs f0 = [] \<or> p_ID p \<in> set (map TrimSpace (pf_IDs f0))) \<and>
     (pf_Statuses f0 = [] \<or> p_Status p \<in> set (map (\<lambda>s. ToLower (TrimSpace s)) (pf_Statuses f0))) \<and>
     (pf_ResourceTypes f0 = [] \<or> p_ResourceType p \<in> set (map (\<lambda>s. ToLower (TrimSpace s)) (pf_ResourceTypes f0))) \<and>
     (pf_Actions f0 = [] \<or> p_Action p \<in> set (map (\<lambda>s. ToLower (TrimSpace s)) (pf_Actions f0))) \<and>
     (\<forall>a. pf_CreatedFrom f0 = Some a \<longrightarrow> a \<le> CreatedAt (p_Audit p)) \<and>
     (\<forall>b. pf_CreatedTo f0 = Some b \<longrightarrow> CreatedAt (p_Audit p) < b)" for wh
    unfolding satisfies_range satisfies_sets by (simp add: f image_image)
  note sets = this
  show ?thesis unfolding sets kw k permission_wanted_def by (simp only: conj_assoc)
qed

text \<open>C22. Searching permissions is exact. A successful search returns the requested page of the
  tenant's permissions that the filter asks for, ordered by code and id, and their number; page
  and page size are the normalised ones. The keyword is matched as the pattern of an SQL \<open>LIKE\<close>
  without regard to letter case; when it contains no percent sign, underscore or backslash, this
  asks for the permissions whose code, name, resource type or action contains it.\<close>

theorem permission_search_exact:
  assumes "svc_SearchPermissions e x t f page psz w = Inr r"
  shows "(\<exists>page' psz'. normalizePage page psz = Inr (page', psz') \<and> pg_Page r = page' \<and> pg_PageSize r = psz' \<and>
    pg_Items r = take (nat psz') (drop (nat (page_offset page' psz'))
      (by_code_id (conn_of e 0) p_Code p_ID (filter (permission_wanted (TrimSpace t) f) (live (permissions (w_db w)))))) \<and>
    pg_Total r = int (length (filter (permission_wanted (TrimSpace t) f) (live (permissions (w_db w)))))) \<and>
    (no_wildcard (TrimSpace (pf_Keyword f)) \<longrightarrow> (\<forall>p. keyword_found (TrimSpace (pf_Keyword f)) p \<longleftrightarrow>
      (\<exists>v\<in>{p_Code p, p_Name p, p_ResourceType p, p_Action p}. sublist (ToLower (TrimSpace (pf_Keyword f))) (ToLower v))))"
proof -
  from assms obtain f' page' psz' items count where n: "normalizePermissionFilter f = Inr f'" "normalizePage page psz = Inr (page', psz')"
    and s: "repo_SearchPermissions (conn_of e 0) (w_db w) (TrimSpace t) f' psz' (page_offset page' psz') = Inr (items, count)"
    and r: "r = \<lparr>pg_Items = items, pg_Total = count, pg_Page = page', pg_PageSize = psz'\<rparr>"
    by (auto simp: svc_SearchPermissions_def Let_def page_of_Inr split: option.splits sum.splits prod.splits)
  from s[unfolded repo_SearchPermissions_def Let_def] search_where[OF n(1)] n(2)
  have "pg_Items r = take (nat psz') (drop (nat (page_offset page' psz'))
      (by_code_id (conn_of e 0) p_Code p_ID (filter (permission_wanted (TrimSpace t) f) (live (permissions (w_db w)))))) \<and>
    pg_Total r = int (length (filter (permission_wanted (TrimSpace t) f) (live (permissions (w_db w)))))"
    by (auto simp: r dest!: listPage_Inr cong: filter_cong)
  with n(2) show ?thesis by (simp add: r keyword_found_contains)
qed

text \<open>Witness of C22: the keyword is matched without regard to letter case.\<close>

theorem permission_search_exact_witness:
  "\<exists>r. svc_SearchPermissions sample_env sample_ctx ''t1'' (empty_permission_filter\<lparr>pf_Keyword := '' OC.RE''\<rparr>) 0 0 sample_world = Inr r \<and>
     pg_Items r = [sample_permission] \<and> pg_Total r = 1 \<and> pg_PageSize r = 20"
proof -
  let ?f = "empty_permission_filter\<lparr>pf_Keyword := '' OC.RE''\<rparr>"
  let ?q = "svc_SearchPermissions sample_env sample_ctx ''t1'' ?f 0 0 sample_world"
  have "isl ?q = False" by code_simp
  then obtain r where r: "?q = Inr r" by (cases ?q) auto
  have nw: "no_wildcard (TrimSpace (pf_Keyword ?f))" by code_simp
  have "normalizePage 0 0 = Inr (1, 20)" "page_offset 1 20 = 0" by code_simp+
  moreover have "filter (permission_wanted (TrimSpace ''t1'') ?f) (live (permissions (w_db sample_world))) = [sample_permission]"
  proof -
    have l: "live (permissions (w_db sample_world)) = [sample_permission]" by (simp add: sample_world_def sample_db_def live_def)
    have "ToLower (TrimSpace '' OC.RE'') = ''oc.re''" "ToLower (p_Code sample_permission) = ''doc.read''" "TrimSpace ''t1'' = ''t1''" by code_simp+
    moreover have "sublist ''oc.re'' ''doc.read''" unfolding sublist_def by (intro exI[of _ "''d''"] exI[of _ "''ad''"]) simp
    moreover note keyword_found_contains[OF nw, of sample_permission]
    ultimately have "permission_wanted (TrimSpace ''t1'') ?f sample_permission"
      by (simp add: permission_wanted_def empty_permission_filter_def) (simp add: sample_permission_def)
    then show ?thesis by (simp add: l)
  qed
  ultimately show ?thesis
    using permission_search_exact[OF r, THEN conjunct1] r by (auto simp: by_code_id_def)
qed

section \<open>Pages\<close>

definition role_wanted :: "gostring \<Rightarrow> RoleFilter \<Rightarrow> Role \<Rightarrow> bool" where
  "role_wanted t f r \<longleftrightarrow> r_TenantID r = t \<and>
     (rf_Keyword f = [] \<or> lower_like (keyword_pattern (rf_Keyword f)) (r_Code r) \<or> lower_like (keyword_pattern (rf_Keyword f)) (r_Name r)) \<and>
     (rf_IDs f = [] \<or> r_ID r \<in> set (rf_IDs f)) \<and> (rf_Statuses f = [] \<or> r_Status r \<in> set (rf_Statuses f)) \<and>
     (rf_DataScopes f = [] \<or> r_DataScope r \<in> set (rf_DataScopes f)) \<and>
     (\<forall>a. rf_CreatedFrom f = Some a \<longrightarrow> a \<le> CreatedAt (r_Audit r)) \<and> (\<forall>b. rf_CreatedTo f = Some b \<longrightarrow> CreatedAt (r_Audit r) < b)"

lemma search_roles:
  assumes "working c" "0 \<le> limit" "0 \<le> offset"
  shows "repo_SearchRolesFiltered c db t f limit offset =
    (let rows = by_code_id c r_Code r_ID (filter (role_wanted t f) (live (roles db))) in
     Inr (take (nat limit) (drop (nat offset) rows), int (length rows)))"
proof -
  have "satisfies (appendTimeRange (appendSetFilters
      (if rf_Keyword f \<noteq> [] then [\<lambda>r. r_TenantID r = t] @ [\<lambda>r. lower_like (keyword_pattern (rf_Keyword f)) (r_Code r) \<or>
          lower_like (keyword_pattern (rf_Keyword f)) (r_Name r)] else [\<lambda>r. r_TenantID r = t])
      [(r_ID, rf_IDs f), (r_Status, rf_Statuses f), (r_DataScope, rf_DataScopes f)])
      (\<lambda>r. CreatedAt (r_Audit r)) (rf_CreatedFrom f) (rf_CreatedTo f)) = role_wanted t f"
    unfolding satisfies_range satisfies_sets role_wanted_def fun_eq_iff by (auto simp: satisfies_def)
  with assms show ?thesis
    unfolding repo_SearchRolesFiltered_def Let_def by (simp add: listPage_def working_def by_code_id_def Let_def)
qed

text \<open>C23. Pages are complete. On a working connection, the first \<open>n\<close> pages of a role search, put one
  after the other, are the first \<open>n\<close> page sizes of the tenant's matching roles in the order of
  code and id: no role is missed and none is repeated. This covers every page up to \<open>2 ^ 56\<close>,
  beyond which the offset may leave the range of a 64-bit integer.\<close>

theorem role_pages_complete:
  assumes "working (conn_of e 0)" "caller_may_manage e x t" "normalizeRoleFilter f = Inr f'" "1 \<le> psz" "psz \<le> 100" "n < 2 ^ 56"
    and "rows = by_code_id (conn_of e 0) r_Code r_ID (filter (role_wanted (TrimSpace t) f') (live (roles (w_db w))))"
  shows "concat (map (\<lambda>i. case svc_SearchRolesFiltered e x t f (int i + 1) psz w of Inl err \<Rightarrow> [] | Inr pg \<Rightarrow> pg_Items pg) [0..<n])
      = take (n * nat psz) rows \<and>
    (\<forall>i<n. \<exists>items. svc_SearchRolesFiltered e x t f (int i + 1) psz w =
       Inr \<lparr>pg_Items = items, pg_Total = int (length rows), pg_Page = int i + 1, pg_PageSize = psz\<rparr>)"
proof -
  have page: "svc_SearchRolesFiltered e x t f (int i + 1) psz w = Inr \<lparr>pg_Items = take (nat psz) (drop (i * nat psz) rows),
      pg_Total = int (length rows), pg_Page = int i + 1, pg_PageSize = psz\<rparr>" if "i < n" for i
  proof -
    have off: "page_offset (int i + 1) psz = int i * psz" and nn: "0 \<le> int i * psz" "0 \<le> psz"
      using assms(4-6) that by (simp_all add: page_offset_exact)
    have "nat (int i * psz) = i * nat psz" using assms(4) by (simp add: nat_mult_distrib)
    moreover have "normalizePage (int i + 1) psz = Inr (int i + 1, psz)" using assms(4,5) by (simp add: normalizePage_def)
    moreover have "enforceInteractiveTenant e x (TrimSpace t) = None" using assms(2) by (simp add: enforce_None_iff)
    ultimately show ?thesis
      using assms(3) off search_roles[OF assms(1) nn(2,1)] unfolding svc_SearchRolesFiltered_def
      by (simp add: page_of_Inr assms(7) Let_def)
  qed
  have "concat (map (\<lambda>i. case svc_SearchRolesFiltered e x t f (int i + 1) psz w of Inl err \<Rightarrow> [] | Inr pg \<Rightarrow> pg_Items pg) [0..<n]) =
      concat (map (\<lambda>i. take (nat psz) (drop (i * nat psz) rows)) [0..<n])"
    by (intro arg_cong[of _ _ concat] map_cong refl) (simp add: page)
  then show ?thesis using page by (simp add: pages_tile)
qed

theorem role_pages_complete_witness:
  "\<exists>items. svc_SearchRolesFiltered sample_env sample_ctx ''t1'' empty_role_filter 1 10 sample_world =
     Inr \<lparr>pg_Items = items, pg_Total = 1, pg_Page = 1, pg_PageSize = 10\<rparr>"
proof -
  have "working (conn_of sample_env 0)" by (simp add: working_def sample_defs)
  moreover have "caller_may_manage sample_env sample_ctx ''t1''" "normalizeRoleFilter empty_role_filter = Inr empty_role_filter" by code_simp+
  moreover have "length (by_code_id (conn_of sample_env 0) r_Code r_ID
      (filter (role_wanted (TrimSpace ''t1'') empty_role_filter) (live (roles (w_db sample_world))))) = 1"
  proof -
    have "TrimSpace ''t1'' = ''t1''" by code_simp
    then have "role_wanted (TrimSpace ''t1'') empty_role_filter sample_role"
      by (simp add: role_wanted_def empty_role_filter_def sample_role_def)
    moreover have "live (roles (w_db sample_world)) = [sample_role]" by (simp add: sample_world_def sample_db_def live_def)
    ultimately show ?thesis by (simp add: by_code_id_def)
  qed
  ultimately show ?thesis
    using role_pages_complete[of sample_env sample_ctx "''t1''" empty_role_filter empty_role_filter 10 1 _ sample_world, OF _ _ _ _ _ _ refl,
        THEN conjunct2] by simp
qed

section \<open>Filters\<close>

text \<open>Filters that reach the database are well formed. What \<open>normalizePermissionFilter\<close> accepts has
  a keyword of at most 100 bytes, sets of at most 100 distinct non-blank ids without surrounding
  blanks, only known statuses, and a time range that is not empty.\<close>

lemma permission_filter_normal:
  assumes "normalizePermissionFilter f0 = Inr f"
  shows "length (pf_Keyword f) \<le> 100 \<and> TrimSpace (pf_Keyword f) = pf_Keyword f \<and>
    distinct (pf_IDs f) \<and> list_all (\<lambda>i. i \<noteq> [] \<and> TrimSpace i = i) (pf_IDs f) \<and>
    list_all (\<lambda>vs. length vs \<le> 100) [pf_IDs f, pf_Statuses f, pf_ResourceTypes f, pf_Actions f] \<and>
    set (pf_Statuses f) \<subseteq> {''active'', ''disabled''} \<and>
    (\<forall>a b. pf_CreatedFrom f = Some a \<and> pf_CreatedTo f = Some b \<longrightarrow> a < b)"
proof -
  note f = normalizePermissionFilter_Inr[OF assms]
  from assms obtain sets where sets: "normalizeFilterSets [(''permission_ids'', pf_IDs f0), (''statuses'', pf_Statuses f0),
      (''resource_types'', pf_ResourceTypes f0), (''actions'', pf_Actions f0)] = Inr sets"
    and range: "validateCreatedRange (pf_CreatedFrom f0) (pf_CreatedTo f0) = None"
    unfolding normalizePermissionFilter_def Let_def by (auto split: if_splits sum.splits option.splits simp del: normalizeFilterSets.simps)
  have out: "sets = [nub (map TrimSpace (pf_IDs f0)), nub (map TrimSpace (pf_Statuses f0)),
      nub (map TrimSpace (pf_ResourceTypes f0)), nub (map TrimSpace (pf_Actions f0))]"
    using normalizeFilterSets_Inr[OF sets] by simp
  note ok = normalizeFilterSets_out[OF sets, unfolded out]
  from f ok range show ?thesis
    by (auto simp: validateCreatedRange_def split: option.splits if_splits)
qed

section \<open>Constraints\<close>

lemma wrap_Inl [simp]: "wrap m (Inl err) = Inl (Wrapf m err)"
  by (simp add: wrap_def)

lemma duplicate_insert:
  "\<forall>l. fault tx l = None \<Longrightarrow> app_actor tx \<noteq> [] \<Longrightarrow> \<not> unique_ok \<Longrightarrow>
   \<exists>er. wrap m (exec_insert tx l unique_ok references_ok d) = Inl er \<and> code_of (translate er) = CodeConflict"
  by (auto simp: exec_insert_def audited_fault_None[THEN iffD2] conflict_code)

text \<open>C24. Duplicates are conflicts. On working connections, a caller who may manage the tenant and
  creates a role whose code the tenant already has, or a binding of a subject to a role it was ever
  bound to, gets the code \<open>CONFLICT\<close> and nothing is written. Revoked bindings count: the unique
  index of the bindings does not look at the status, so a revoked binding cannot be created again.\<close>

theorem duplicate_is_conflict:
  assumes "\<forall>n. working (conn_of e n)" "known_actor x" "caller_may_manage e x t" "audit_New e x (clock e 0) = Some flds"
  shows "(q \<in> set (roles (w_db w)) \<and> r_TenantID (row_val q) = TrimSpace t \<and> r_Code (row_val q) = ToLower (TrimSpace code) \<and>
          TrimSpace t \<noteq> [] \<and> TrimSpace code \<noteq> [] \<and> TrimSpace name \<noteq> [] \<and> validDataScope (ToLower (TrimSpace ds)) \<longrightarrow>
          (\<exists>err w'. svc_CreateRole e x t code name d ds w = (Inl err, w') \<and> code_of err = CodeConflict \<and> w_db w' = w_db w)) \<and>
         (b \<in> set (role_bindings (w_db w)) \<and> b_TenantID (row_val b) = t \<and> b_SubjectID (row_val b) = s \<and>
          b_SubjectType (row_val b) = ToLower (TrimSpace st) \<and> b_RoleID (row_val b) = role_id \<and> t \<noteq> [] \<and> s \<noteq> [] \<and>
          validSubjectForTenant (PlatformTenantID e) t (ToLower (TrimSpace st)) \<and>
          r \<in> set (live (roles (w_db w))) \<and> r_TenantID r = t \<and> r_ID r = role_id \<longrightarrow>
          (\<exists>err w'. svc_CreateBinding e x t s st role_id ou w = (Inl err, w') \<and> code_of err = CodeConflict \<and> w_db w' = w_db w))"
proof (intro conjI impI; elim conjE)
  have may: "enforceInteractiveTenant e x t = None" using assms(3) by (simp add: enforce_None_iff)
  {
    assume q: "q \<in> set (roles (w_db w))" "r_TenantID (row_val q) = TrimSpace t" "r_Code (row_val q) = ToLower (TrimSpace code)"
      and valid: "TrimSpace t \<noteq> []" "TrimSpace code \<noteq> []" "TrimSpace name \<noteq> []" "validDataScope (ToLower (TrimSpace ds))"
    let ?row = "\<lparr>r_ID = uuid_NewString e 0, r_TenantID = TrimSpace t, r_Code = ToLower (TrimSpace code), r_Name = TrimSpace name,
                  r_Description = TrimSpace d, r_DataScope = ToLower (TrimSpace ds), r_Status = ''active'', r_Audit = flds\<rparr>"
    have "\<not> role_unique (roles (w_db w)) ?row" using q by (auto simp: role_unique_def list_all_iff Let_def)
    note op = duplicate_insert[OF _ _ this, of _ "''insert role''" "''insert role''" True, folded repo_CreateRole_def]
    have "\<exists>er. err = Some er \<and> code_of er = CodeConflict \<and> w_db w' = w_db w"
      if "mutate e x 0 (TrimSpace t) [] ''unspecified'' ''role_created'' flds (\<lambda>tx db. repo_CreateRole tx ?row db) w = (err, w')" for err w'
      by (rule mutate_operation_error[OF that]) (use assms(1,2) op in \<open>auto simp: repo_CreateRole_def\<close>)
    then show "\<exists>err w'. svc_CreateRole e x t code name d ds w = (Inl err, w') \<and> code_of err = CodeConflict \<and> w_db w' = w_db w"
      using valid assms(4) may by (fastforce simp: svc_CreateRole_def Let_def split: prod.splits option.splits)
  }
  {
    assume b: "b \<in> set (role_bindings (w_db w))" "b_TenantID (row_val b) = t" "b_SubjectID (row_val b) = s"
        "b_SubjectType (row_val b) = ToLower (TrimSpace st)" "b_RoleID (row_val b) = role_id"
      and valid: "t \<noteq> []" "s \<noteq> []" "validSubjectForTenant (PlatformTenantID e) t (ToLower (TrimSpace st))"
      and r: "r \<in> set (live (roles (w_db w)))" "r_TenantID r = t" "r_ID r = role_id"
    let ?row = "\<lparr>b_ID = uuid_NewString e 0, b_TenantID = t, b_SubjectID = s, b_SubjectType = ToLower (TrimSpace st),
                  b_RoleID = role_id, b_OrganizationUnitID = ou, b_Status = ''active'', b_Audit = flds\<rparr>"
    obtain u where u: "repo_GetRole (conn_of e 0) (w_db w) t role_id = Inr u"
      unfolding repo_GetRole_def using working_get[of r] r assms(1) by fastforce
    have "\<not> binding_unique (role_bindings (w_db w)) ?row" using b by (auto simp: binding_unique_def list_all_iff Let_def)
    note op = duplicate_insert[OF _ _ this]
    have "\<exists>er. err = Some er \<and> code_of er = CodeConflict \<and> w_db w' = w_db w"
      if "mutate e x 1 t s (ToLower (TrimSpace st)) ''binding_created'' flds (\<lambda>tx db. repo_CreateBinding tx ?row db) w = (err, w')" for err w'
      by (rule mutate_operation_error[OF that]) (use assms(1,2) op in \<open>auto simp: repo_CreateBinding_def\<close>)
    then show "\<exists>err w'. svc_CreateBinding e x t s st role_id ou w = (Inl err, w') \<and> code_of err = CodeConflict \<and> w_db w' = w_db w"
      using valid assms(4) may u repo_GetRole_Inr[OF u]
      by (fastforce simp: svc_CreateBinding_def Let_def split: prod.splits option.splits)
  }
qed

text \<open>Witness of C24: the binding of the sample tenant is revoked and then created again.\<close>

theorem duplicate_is_conflict_witness:
  "let w1 = snd (svc_RevokeBinding sample_env sample_ctx ''t1'' ''b1'' 1 sample_world) in
   granted (w_db w1) ''t1'' ''m1'' ''membership'' = [] \<and>
   (\<exists>err w'. svc_CreateBinding sample_env sample_ctx ''t1'' ''m1'' ''membership'' ''r1'' [] w1 = (Inl err, w') \<and> code_of err = CodeConflict)"
proof -
  define w1 where "w1 = snd (svc_RevokeBinding sample_env sample_ctx ''t1'' ''b1'' 1 sample_world)"
  have c: "\<forall>n. working (conn_of sample_env n)" by (simp add: working_def sample_defs)
  have a: "known_actor sample_ctx" "caller_may_manage sample_env sample_ctx ''t1''"
    "audit_New sample_env sample_ctx (clock sample_env 0) = Some \<lparr>Version = 1, CreatedAt = 1000, UpdatedAt = 1000, CreatedBy = ''u1'', UpdatedBy = ''u1''\<rparr>"
    by code_simp+
  have "hd (role_bindings (w_db w1)) \<in> set (role_bindings (w_db w1))" "b_TenantID (row_val (hd (role_bindings (w_db w1)))) = ''t1''"
    "b_SubjectID (row_val (hd (role_bindings (w_db w1)))) = ''m1''"
    "b_SubjectType (row_val (hd (role_bindings (w_db w1)))) = ToLower (TrimSpace ''membership'')"
    "b_RoleID (row_val (hd (role_bindings (w_db w1)))) = ''r1''"
    "validSubjectForTenant (PlatformTenantID sample_env) ''t1'' (ToLower (TrimSpace ''membership''))"
    "sample_role \<in> set (live (roles (w_db w1)))" "r_TenantID sample_role = ''t1''" "r_ID sample_role = ''r1''"
    unfolding w1_def by code_simp+
  with duplicate_is_conflict[OF c a, of _ w1] have "\<exists>err w'. svc_CreateBinding sample_env sample_ctx ''t1'' ''m1'' ''membership'' ''r1'' [] w1 = (Inl err, w') \<and>
      code_of err = CodeConflict" by blast
  moreover have "granted (w_db w1) ''t1'' ''m1'' ''membership'' = []" unfolding w1_def by code_simp
  ultimately show ?thesis by (simp add: w1_def Let_def)
qed

end
