(* ===== verification/Projections.thy ===== *)
theory Projections
  imports Coherence
begin

text \<open>
  Writers other than the management operations: the consumers of tenant events
  (\<open>internal/authorization/group_projection.go\<close>, \<open>tenant_bootstrap_projection.go\<close>) and the
  bootstrap of the platform administrator (\<open>internal/bootstrap/admin.go\<close>,
  \<open>cmd/bootstrap-admin/main.go\<close>).

  The event envelope and its payload are protobuf messages of another repository; \<open>decode\<close>
  stands for \<open>eventbus.DecodePayload\<close>, \<open>asTime\<close> for the conversion of the
  timestamp message, \<open>systemContext\<close> for \<open>principal.SystemContext\<close>, \<open>sha1\<close> for the name-based
  UUID.
\<close>

section \<open>Events\<close>

record Envelope =
  cev_EventId :: gostring
  cev_EventType :: gostring
  cev_OccurredAt :: "time option"
  cev_ActorId :: gostring
  cev_Payload :: gostring

record GroupChangedEvent =
  gc_TenantId :: gostring
  gc_GroupId :: gostring
  gc_MembershipId :: gostring
  gc_ChangeType :: gostring

record TenantCreatedEvent =
  tc_TenantId :: gostring
  tc_OwnerMembershipId :: gostring
  tc_OwnerUserId :: gostring

text \<open>The zero value of \<open>time.Time\<close>, the first of January of the year 1, in nanoseconds
  relative to the Unix epoch.\<close>

definition zero_time :: time where
  "zero_time = - 62135596800000000000"

section \<open>Processed events\<close>

definition markProcessedEvent ::
  "conn \<Rightarrow> gostring \<Rightarrow> gostring \<Rightarrow> database \<Rightarrow> (bool \<times> database) result" where
  "markProcessedEvent c eventID eventType db =
     (case audited_fault c ''record processed authorization event'' of
        Some e \<Rightarrow> Inl (Wrapf ''record processed authorization event'' e)
      | None \<Rightarrow>
          (let known = list_ex (\<lambda>r. pe_EventID (row_val r) = eventID) (processed_events db);
               db' = (if known then db
                      else db\<lparr>processed_events := insert_row \<lparr>pe_EventID = eventID, pe_EventType = eventType,
                                pe_Audit = audit_insert c\<rparr> (processed_events db)\<rparr>) in
           case fault c ''processed authorization event affected rows'' of
             Some e \<Rightarrow> Inl (Wrapf ''processed authorization event affected rows'' e)
           | None \<Rightarrow> Inr (\<not> known, db')))"

section \<open>Group memberships\<close>

definition same_membership :: "gostring \<Rightarrow> gostring \<Rightarrow> gostring \<Rightarrow> SubjectGroup \<Rightarrow> bool" where
  "same_membership tenantID membershipID groupID g =
     (sg_TenantID g = tenantID \<and> sg_MembershipID g = membershipID \<and> sg_GroupID g = groupID)"

text \<open>\<open>ON CONFLICT ... DO UPDATE ... WHERE EXCLUDED.source_occurred_at >= source_occurred_at\<close>: an
  older event leaves the row alone. Times are those that the column holds, at its precision of a
  microsecond: two events within the same microsecond count as simultaneous.\<close>

definition merge_postgres :: "conn \<Rightarrow> gostring \<Rightarrow> time \<Rightarrow> SubjectGroup \<Rightarrow> SubjectGroup" where
  "merge_postgres c status occurredAt g =
     (if sg_SourceOccurredAt g \<le> occurredAt
      then g\<lparr>sg_Status := status, sg_SourceOccurredAt := occurredAt, sg_Audit := audit_update c (sg_Audit g)\<rparr>
      else g)"

text \<open>\<open>ON DUPLICATE KEY UPDATE\<close> with one \<open>IF\<close> per column. MySQL updates the row in either case,
  so the audit trigger runs in either case.\<close>

definition merge_mysql :: "conn \<Rightarrow> gostring \<Rightarrow> time \<Rightarrow> SubjectGroup \<Rightarrow> SubjectGroup" where
  "merge_mysql c status occurredAt g =
     g\<lparr>sg_Status := (if sg_SourceOccurredAt g \<le> occurredAt then status else sg_Status g),
       sg_Audit := audit_update c (sg_Audit g),
       sg_SourceOccurredAt := max (sg_SourceOccurredAt g) occurredAt\<rparr>"

definition upsertMembershipGroup ::
  "conn \<Rightarrow> gostring \<Rightarrow> gostring \<Rightarrow> gostring \<Rightarrow> gostring \<Rightarrow> time \<Rightarrow> database \<Rightarrow> database result" where
  "upsertMembershipGroup c tenantID membershipID groupID status occurredAt db =
     (case audited_fault c ''upsert authorization subject group'' of
        Some e \<Rightarrow> Inl (Wrapf ''upsert authorization subject group'' e)
      | None \<Rightarrow>
          (let t = subject_groups db;
               merge = (if is_mysql c then merge_mysql c status occurredAt else merge_postgres c status occurredAt);
               same = same_membership tenantID membershipID groupID in
           Inr (db\<lparr>subject_groups :=
             (if list_ex (\<lambda>r. same (row_val r)) t
              then map (\<lambda>r. if same (row_val r) then Row (merge (row_val r)) (row_deleted_at r) else r) t
              else insert_row \<lparr>sg_TenantID = tenantID, sg_MembershipID = membershipID, sg_GroupID = groupID,
                     sg_Status = status, sg_SourceOccurredAt = occurredAt, sg_Audit = audit_insert c\<rparr> t)\<rparr>)))"

record projection_env =
  decode_group :: "Envelope \<Rightarrow> GroupChangedEvent result"
  decode_tenant :: "Envelope \<Rightarrow> TenantCreatedEvent result"
  asTime :: "time option \<Rightarrow> time"
  time_Now :: time
  systemContext :: "ctx \<Rightarrow> gostring \<Rightarrow> ctx"
  sha1 :: "gostring \<Rightarrow> gostring"
  pconn :: conn

text \<open>The transaction of the group projection.\<close>

definition group_tx ::
  "Envelope \<Rightarrow> GroupChangedEvent \<Rightarrow> gostring \<Rightarrow> time \<Rightarrow> conn \<Rightarrow> database \<Rightarrow> (unit \<times> database) result" where
  "group_tx envelope event status occurredAt tx db =
     (case markProcessedEvent tx (cev_EventId envelope) (cev_EventType envelope) db of
        Inl e \<Rightarrow> Inl e
      | Inr (inserted, db1) \<Rightarrow>
          if \<not> inserted then Inr ((), db1)
          else case upsertMembershipGroup tx (gc_TenantId event) (gc_MembershipId event) (gc_GroupId event) status occurredAt db1 of
            Inl e \<Rightarrow> Inl e
          | Inr db2 \<Rightarrow> (case repo_BumpPolicyVersion tx (gc_TenantId event) db2 of
              Inl e \<Rightarrow> Inl e
            | Inr (version, db3) \<Rightarrow> Inr ((), db3)))"

text \<open>\<open>GroupProjection.Apply\<close>. The state is the database and the cache of the service, if the
  projection has one.\<close>

definition group_Apply ::
  "projection_env \<Rightarrow> ctx \<Rightarrow> Envelope option \<Rightarrow> database \<times> cache option \<Rightarrow> goerr option \<times> database \<times> cache option" where
  "group_Apply e x env0 s =
     (case s of (db, service) \<Rightarrow>
      case env0 of
        None \<Rightarrow> (Some (OtherError ''group projection requires event envelope''), s)
      | Some envelope \<Rightarrow>
      if cev_EventId envelope = [] then (Some (OtherError ''group projection requires event envelope''), s)
      else case decode_group e envelope of
        Inl err \<Rightarrow> (Some (Wrapf ''decode tenant group event'' err), s)
      | Inr event \<Rightarrow>
      if gc_TenantId event = [] \<or> gc_GroupId event = [] \<or> gc_MembershipId event = [] then (None, s)
      else if gc_ChangeType event \<noteq> ''member_added'' \<and> gc_ChangeType event \<noteq> ''member_removed'' then (None, s)
      else
        let status = (if gc_ChangeType event = ''member_added'' then ''active'' else ''removed'');
            occurred = asTime e (cev_OccurredAt envelope);
            occurredAt = (if occurred = zero_time then time_Now e else occurred);
            actor = (if cev_ActorId envelope \<noteq> [] then cev_ActorId envelope else ''event-consumer'');
            actorCtx = systemContext e x actor in
        case Within (pconn e) actorCtx (group_tx envelope event status occurredAt) db of
          Inl err \<Rightarrow> (Some err, s)
        | Inr (u, db') \<Rightarrow>
            (None, db', map_option (\<lambda>cache. snd (InvalidateSubject (gc_TenantId event) (gc_MembershipId event) ''membership'' cache)) service))"

section \<open>Tenant bootstrap\<close>

definition tenant_tx ::
  "projection_env \<Rightarrow> Envelope \<Rightarrow> gostring \<Rightarrow> gostring \<Rightarrow> conn \<Rightarrow> database \<Rightarrow> (unit \<times> database) result" where
  "tenant_tx e envelope tenantID membershipID tx db =
     (case markProcessedEvent tx (cev_EventId envelope) (cev_EventType envelope) db of
        Inl err \<Rightarrow> Inl err
      | Inr (inserted, db1) \<Rightarrow>
          if \<not> inserted then Inr ((), db1)
          else case repo_BootstrapTenantOwner (sha1 e) tx tenantID membershipID db1 of
            Inl err \<Rightarrow> Inl err
          | Inr db2 \<Rightarrow> (case repo_BumpPolicyVersion tx tenantID db2 of
              Inl err \<Rightarrow> Inl err
            | Inr (version, db3) \<Rightarrow> Inr ((), db3)))"

text \<open>The event's time reaches the audit columns only, which the triggers set themselves.\<close>

definition tenant_Apply ::
  "projection_env \<Rightarrow> ctx \<Rightarrow> Envelope option \<Rightarrow> database \<times> cache \<Rightarrow> goerr option \<times> database \<times> cache" where
  "tenant_Apply e x env0 s =
     (case s of (db, cache) \<Rightarrow>
      case env0 of
        None \<Rightarrow> (Some (OtherError ''tenant bootstrap requires event envelope''), s)
      | Some envelope \<Rightarrow>
      if cev_EventId envelope = [] then (Some (OtherError ''tenant bootstrap requires event envelope''), s)
      else case decode_tenant e envelope of
        Inl err \<Rightarrow> (Some (Wrapf ''decode tenant created event'' err), s)
      | Inr event \<Rightarrow>
      let tenantID = tc_TenantId event; membershipID = tc_OwnerMembershipId event in
      if tenantID = [] \<or> membershipID = []
      then (Some (OtherError ''tenant created event requires tenant and owner membership''), s)
      else
        let actor = (if tc_OwnerUserId event = [] then ''tenant-bootstrap'' else tc_OwnerUserId event);
            actorCtx = systemContext e x actor in
        case Within (pconn e) actorCtx (tenant_tx e envelope tenantID membershipID) db of
          Inl err \<Rightarrow> (Some err, s)
        | Inr (u, db') \<Rightarrow> (None, db', snd (InvalidateSubject tenantID membershipID ''membership'' cache)))"

section \<open>The platform administrator\<close>

definition BootstrapPlatformTenantID :: gostring where
  "BootstrapPlatformTenantID = ''__platform__''"

definition SuperAdminRoleCode :: gostring where
  "SuperAdminRoleCode = ''platform-super-admin''"

record GrantResult =
  gr_BindingID :: gostring
  gr_SubjectID :: gostring
  gr_SubjectType :: gostring
  gr_RoleID :: gostring

text \<open>The upsert names the unique key (tenant, subject type, subject, role); a clash of the primary
  key alone is a violation on PostgreSQL and an update on MySQL. The role exists, since its id was
  just read. As in the statement, the update leaves \<open>deleted_at\<close> as it is; the service never sets it
  on a binding.\<close>

definition upsertBinding ::
  "conn \<Rightarrow> gostring \<Rightarrow> gostring \<Rightarrow> gostring \<Rightarrow> gostring \<Rightarrow> database \<Rightarrow> database result" where
  "upsertBinding c bindingID roleID subjectID subjectType db =
     wrap ''upsert platform super-admin binding''
       (case audited_fault c ''upsert platform super-admin binding'' of
          Some e \<Rightarrow> Inl e
        | None \<Rightarrow>
            (let t = role_bindings db;
                 same = (\<lambda>b. b_TenantID b = BootstrapPlatformTenantID \<and> b_SubjectType b = subjectType
                           \<and> b_SubjectID b = subjectID \<and> b_RoleID b = roleID);
                 hit = (\<lambda>b. same b \<or> (is_mysql c \<and> b_ID b = bindingID)) in
             if list_ex (\<lambda>r. hit (row_val r)) t
             then Inr (db\<lparr>role_bindings := map (\<lambda>r. if hit (row_val r)
                    then Row ((row_val r)\<lparr>b_Status := ''active'', b_Audit := audit_update c (b_Audit (row_val r))\<rparr>) (row_deleted_at r)
                    else r) t\<rparr>)
             else if list_ex (\<lambda>r. b_ID (row_val r) = bindingID) t then Inl (unique_violation c)
             else Inr (db\<lparr>role_bindings := insert_row
                    \<lparr>b_ID = bindingID, b_TenantID = BootstrapPlatformTenantID, b_SubjectID = subjectID,
                     b_SubjectType = subjectType, b_RoleID = roleID, b_OrganizationUnitID = [], b_Status = ''active'',
                     b_Audit = audit_insert c\<rparr> t\<rparr>)))"

definition admin_bumpPolicyVersion :: "conn \<Rightarrow> database \<Rightarrow> database result" where
  "admin_bumpPolicyVersion c db =
     (case audited_fault c ''bump platform policy version'' of
        Some e \<Rightarrow> Inl (Wrapf ''bump platform policy version'' e)
      | None \<Rightarrow> Inr (db\<lparr>policy_versions := upsert_policy_version c BootstrapPlatformTenantID (policy_versions db)\<rparr>))"

definition admin_binding_id :: "(gostring \<Rightarrow> gostring) \<Rightarrow> gostring \<Rightarrow> gostring \<Rightarrow> gostring \<Rightarrow> gostring" where
  "admin_binding_id uuidSHA1 subjectType subjectID roleID =
     uuidSHA1 (BootstrapPlatformTenantID @ nul @ subjectType @ nul @ subjectID @ nul @ roleID)"

definition grant_tx ::
  "(gostring \<Rightarrow> gostring) \<Rightarrow> gostring \<Rightarrow> gostring \<Rightarrow> conn \<Rightarrow> database \<Rightarrow> ((gostring \<times> gostring) \<times> database) result" where
  "grant_tx uuidSHA1 subjectID subjectType tx db =
     (case GetContext tx ''find platform super-admin role''
             (filter (\<lambda>r. r_TenantID r = BootstrapPlatformTenantID \<and> r_Code r = SuperAdminRoleCode \<and> r_Status r = ''active'')
               (map row_val (roles db))) of
        Inl e \<Rightarrow> Inl (Wrapf ''find platform super-admin role (run migrations first)'' e)
      | Inr role \<Rightarrow>
          (let roleID = r_ID role; bindingID = admin_binding_id uuidSHA1 subjectType subjectID roleID in
           case upsertBinding tx bindingID roleID subjectID subjectType db of
             Inl e \<Rightarrow> Inl e
           | Inr db1 \<Rightarrow> (case admin_bumpPolicyVersion tx db1 of
               Inl e \<Rightarrow> Inl e
             | Inr db2 \<Rightarrow> Inr ((roleID, bindingID), db2))))"

definition GrantPlatformSuperAdmin ::
  "projection_env \<Rightarrow> ctx \<Rightarrow> bool \<Rightarrow> gostring \<Rightarrow> gostring \<Rightarrow> database \<Rightarrow> GrantResult result \<times> database" where
  "GrantPlatformSuperAdmin e x db_present subjectID0 subjectType0 db =
     (if \<not> db_present then (Inl (OtherError ''database is required''), db)
      else
        let subjectID = TrimSpace subjectID0; subjectType = ToLower (TrimSpace subjectType0) in
        if subjectID = [] \<or> (subjectType \<noteq> ''user'' \<and> subjectType \<noteq> ''service_account'')
        then (Inl (OtherError ''a non-empty user or service-account subject is required''), db)
        else
          let actorCtx = systemContext e x (''platform-bootstrap:'' @ subjectID) in
          case Within (pconn e) actorCtx (grant_tx (sha1 e) subjectID subjectType) db of
            Inl err \<Rightarrow> (Inl err, db)
          | Inr ((roleID, bindingID), db') \<Rightarrow>
              (Inr \<lparr>gr_BindingID = bindingID, gr_SubjectID = subjectID, gr_SubjectType = subjectType, gr_RoleID = roleID\<rparr>, db'))"

section \<open>The command bootstrap-admin\<close>

record admin_options =
  opt_userID :: gostring
  opt_serviceAccountID :: gostring

definition PreRunE :: "admin_options \<Rightarrow> goerr option" where
  "PreRunE opts =
     (let userID = TrimSpace (opt_userID opts); serviceAccountID = TrimSpace (opt_serviceAccountID opts) in
      if (userID = []) = (serviceAccountID = [])
      then Some (OtherError ''exactly one of --user-id or --service-account-id is required'') else None)"

text \<open>\<open>run\<close> after the configuration is loaded and the database is open.\<close>

definition admin_run :: "projection_env \<Rightarrow> ctx \<Rightarrow> admin_options \<Rightarrow> database \<Rightarrow> GrantResult result \<times> database" where
  "admin_run e x opts db =
     (let (subjectID, subjectType) =
        (if opt_serviceAccountID opts \<noteq> [] then (opt_serviceAccountID opts, ''service_account'')
         else (opt_userID opts, ''user'')) in
      GrantPlatformSuperAdmin e x True subjectID subjectType db)"

text \<open>The exit code: 2 for wrong usage, 1 for a failed grant.\<close>

definition admin_execute :: "projection_env \<Rightarrow> ctx \<Rightarrow> admin_options \<Rightarrow> database \<Rightarrow> int \<times> database" where
  "admin_execute e x opts db =
     (case PreRunE opts of
        Some err \<Rightarrow> (2, db)
      | None \<Rightarrow> (case admin_run e x opts db of (Inl err, db') \<Rightarrow> (1, db') | (Inr r, db') \<Rightarrow> (0, db')))"

section \<open>Consumers of events\<close>

text \<open>
  The contract of an event consumer under at-least-once delivery: a failed delivery changes
  nothing, a successful one of a relevant event marks it, and a marked event has no further effect
  on the tables.
\<close>

locale event_consumer =
  fixes deliver :: "'ev \<Rightarrow> 's \<Rightarrow> goerr option \<times> 's"
    and marked :: "'s \<Rightarrow> 'ev \<Rightarrow> bool"
    and relevant :: "'ev \<Rightarrow> bool"
    and tables :: "'s \<Rightarrow> 'd"
  assumes failed: "deliver ev s = (Some err, s') \<Longrightarrow> s' = s"
    and marks: "deliver ev s = (None, s') \<Longrightarrow> relevant ev \<Longrightarrow> marked s' ev"
    and stays_marked: "deliver ev s = (r, s') \<Longrightarrow> marked s ev' \<Longrightarrow> marked s' ev'"
    and no_effect: "deliver ev s = (r, s') \<Longrightarrow> marked s ev \<Longrightarrow> tables s' = tables s"
begin

definition deliveries :: "'ev list \<Rightarrow> 's \<Rightarrow> 's" where
  "deliveries evs s = foldl (\<lambda>s ev. snd (deliver ev s)) s evs"

lemma deliveries_marked: "marked s ev \<Longrightarrow> marked (deliveries evs s) ev"
proof (induction evs arbitrary: s)
  case (Cons a evs)
  then have "marked (snd (deliver a s)) ev" using stays_marked by (metis prod.collapse)
  with Cons.IH show ?case by (simp add: deliveries_def)
qed (simp add: deliveries_def)

theorem redelivery_harmless:
  assumes "deliver ev s = (None, s1)" "relevant ev"
  shows "tables (snd (deliver ev (deliveries evs s1))) = tables (deliveries evs s1)"
  using deliveries_marked[OF marks[OF assms]] no_effect by (metis prod.collapse)

end

definition event_marked :: "database \<Rightarrow> gostring \<Rightarrow> bool" where
  "event_marked db i = list_ex (\<lambda>r. pe_EventID (row_val r) = i) (processed_events db)"

lemma markProcessedEvent_Inr:
  "markProcessedEvent c i ty db = Inr (inserted, db') \<Longrightarrow>
   inserted = (\<not> event_marked db i) \<and> event_marked db' i \<and> (event_marked db j \<longrightarrow> event_marked db' j) \<and>
   (event_marked db i \<longrightarrow> db' = db) \<and> (\<exists>pe. db' = db\<lparr>processed_events := pe\<rparr>)"
  by (auto simp: markProcessedEvent_def event_marked_def Let_def list_ex_iff insert_row_def
      split: option.splits if_splits intro: exI[of _ "processed_events db"])

lemma event_marked_frame [simp]:
  "event_marked (db\<lparr>subject_groups := g\<rparr>) i = event_marked db i" "event_marked (db\<lparr>policy_versions := v\<rparr>) i = event_marked db i"
  by (simp_all add: event_marked_def)

lemma upsert_frame: "upsertMembershipGroup c t m g st at db = Inr db' \<Longrightarrow> \<exists>x. db' = db\<lparr>subject_groups := x\<rparr>"
  by (auto simp: upsertMembershipGroup_def Let_def split: option.splits)

lemma bump_frame: "repo_BumpPolicyVersion c t db = Inr (n, db') \<Longrightarrow> \<exists>x. db' = db\<lparr>policy_versions := x\<rparr>"
  by (auto simp: repo_BumpPolicyVersion_def Let_def split: option.splits sum.splits)

lemma exec_insert_ignore_Inr: "exec_insert_ignore c l u f d d' = Inr r \<Longrightarrow> r = d \<or> r = d'"
  by (auto simp: exec_insert_ignore_def split: option.splits if_splits)

lemma bootstrap_marked: "repo_BootstrapTenantOwner h c t m db = Inr db' \<Longrightarrow> event_marked db' i = event_marked db i"
  by (auto simp: repo_BootstrapTenantOwner_def Let_def event_marked_def split: sum.splits dest!: exec_insert_ignore_Inr)

lemma group_tx_marked:
  assumes "group_tx envelope event status at tx db = Inr (u, db')"
  shows "event_marked db' (cev_EventId envelope) \<and> (event_marked db j \<longrightarrow> event_marked db' j) \<and>
         (event_marked db (cev_EventId envelope) \<longrightarrow> db' = db)"
proof -
  obtain ins db1 where m: "markProcessedEvent tx (cev_EventId envelope) (cev_EventType envelope) db = Inr (ins, db1)"
    using assms by (auto simp: group_tx_def split: sum.splits)
  note mp = markProcessedEvent_Inr[OF m, of j]
  show ?thesis
  proof (cases ins)
    case False with assms m mp show ?thesis by (auto simp: group_tx_def)
  next
    case True
    with assms m have "event_marked db' k = event_marked db1 k" for k
      by (auto simp: group_tx_def split: sum.splits dest!: upsert_frame bump_frame)
    with True mp show ?thesis by auto
  qed
qed

lemma tenant_tx_marked:
  assumes "tenant_tx e envelope t m tx db = Inr (u, db')"
  shows "event_marked db' (cev_EventId envelope) \<and> (event_marked db j \<longrightarrow> event_marked db' j) \<and>
         (event_marked db (cev_EventId envelope) \<longrightarrow> db' = db)"
proof -
  obtain ins db1 where m: "markProcessedEvent tx (cev_EventId envelope) (cev_EventType envelope) db = Inr (ins, db1)"
    using assms by (auto simp: tenant_tx_def split: sum.splits)
  note mp = markProcessedEvent_Inr[OF m, of j]
  show ?thesis
  proof (cases ins)
    case False with assms m mp show ?thesis by (auto simp: tenant_tx_def)
  next
    case True
    with assms m have "event_marked db' k = event_marked db1 k" for k
      by (auto simp: tenant_tx_def bootstrap_marked split: sum.splits dest!: bump_frame)
    with True mp show ?thesis by auto
  qed
qed

definition group_relevant :: "projection_env \<times> ctx \<times> Envelope \<Rightarrow> bool" where
  "group_relevant d = (case d of (e, x, envelope) \<Rightarrow> case decode_group e envelope of
     Inl err \<Rightarrow> False
   | Inr event \<Rightarrow> gc_TenantId event \<noteq> [] \<and> gc_GroupId event \<noteq> [] \<and> gc_MembershipId event \<noteq> [] \<and>
       (gc_ChangeType event = ''member_added'' \<or> gc_ChangeType event = ''member_removed''))"

interpretation gp: event_consumer "\<lambda>(e, x, envelope). group_Apply e x (Some envelope)"
  "\<lambda>s (e, x, envelope). event_marked (fst s) (cev_EventId envelope)" group_relevant fst
proof
  fix ev :: "projection_env \<times> ctx \<times> Envelope" and ev' :: "projection_env \<times> ctx \<times> Envelope"
    and s s' :: "database \<times> cache option" and err r
  obtain e x envelope where ev: "ev = (e, x, envelope)" by (cases ev)
  show "s' = s" if "(case ev of (e, x, envelope) \<Rightarrow> group_Apply e x (Some envelope)) s = (Some err, s')"
    using that by (auto simp: ev group_Apply_def Let_def split: if_splits sum.splits prod.splits)
  show "case ev of (e, x, envelope) \<Rightarrow> event_marked (fst s') (cev_EventId envelope)"
    if "(case ev of (e, x, envelope) \<Rightarrow> group_Apply e x (Some envelope)) s = (None, s')" "group_relevant ev"
    using that by (auto simp: ev group_Apply_def group_relevant_def Let_def Within_Inr_iff
        split: if_splits sum.splits prod.splits dest!: group_tx_marked)
  show "case ev' of (e, x, envelope) \<Rightarrow> event_marked (fst s') (cev_EventId envelope)"
    if "(case ev of (e, x, envelope) \<Rightarrow> group_Apply e x (Some envelope)) s = (r, s')"
      "case ev' of (e, x, envelope) \<Rightarrow> event_marked (fst s) (cev_EventId envelope)"
    using that by (auto simp: ev group_Apply_def Let_def Within_Inr_iff
        split: if_splits sum.splits prod.splits dest!: group_tx_marked)
  show "fst s' = fst s"
    if "(case ev of (e, x, envelope) \<Rightarrow> group_Apply e x (Some envelope)) s = (r, s')"
      "case ev of (e, x, envelope) \<Rightarrow> event_marked (fst s) (cev_EventId envelope)"
    using that by (auto simp: ev group_Apply_def Let_def Within_Inr_iff
        split: if_splits sum.splits prod.splits dest!: group_tx_marked)
qed

definition tenant_relevant :: "projection_env \<times> ctx \<times> Envelope \<Rightarrow> bool" where
  "tenant_relevant d = True"

interpretation tb: event_consumer "\<lambda>(e, x, envelope). tenant_Apply e x (Some envelope)"
  "\<lambda>s (e, x, envelope). event_marked (fst s) (cev_EventId envelope)" tenant_relevant fst
proof
  fix ev :: "projection_env \<times> ctx \<times> Envelope" and ev' :: "projection_env \<times> ctx \<times> Envelope"
    and s s' :: "database \<times> cache" and err r
  obtain e x envelope where ev: "ev = (e, x, envelope)" by (cases ev)
  show "s' = s" if "(case ev of (e, x, envelope) \<Rightarrow> tenant_Apply e x (Some envelope)) s = (Some err, s')"
    using that by (auto simp: ev tenant_Apply_def Let_def split: if_splits sum.splits prod.splits)
  show "case ev of (e, x, envelope) \<Rightarrow> event_marked (fst s') (cev_EventId envelope)"
    if "(case ev of (e, x, envelope) \<Rightarrow> tenant_Apply e x (Some envelope)) s = (None, s')" "tenant_relevant ev"
    using that by (auto simp: ev tenant_Apply_def Let_def Within_Inr_iff
        split: if_splits sum.splits prod.splits dest!: tenant_tx_marked)
  show "case ev' of (e, x, envelope) \<Rightarrow> event_marked (fst s') (cev_EventId envelope)"
    if "(case ev of (e, x, envelope) \<Rightarrow> tenant_Apply e x (Some envelope)) s = (r, s')"
      "case ev' of (e, x, envelope) \<Rightarrow> event_marked (fst s) (cev_EventId envelope)"
    using that by (auto simp: ev tenant_Apply_def Let_def Within_Inr_iff
        split: if_splits sum.splits prod.splits dest!: tenant_tx_marked)
  show "fst s' = fst s"
    if "(case ev of (e, x, envelope) \<Rightarrow> tenant_Apply e x (Some envelope)) s = (r, s')"
      "case ev of (e, x, envelope) \<Rightarrow> event_marked (fst s) (cev_EventId envelope)"
    using that by (auto simp: ev tenant_Apply_def Let_def Within_Inr_iff
        split: if_splits sum.splits prod.splits dest!: tenant_tx_marked)
qed

end
