(* ===== verification/Projection_Laws.thy ===== *)
theory Projection_Laws
  imports Projections
begin

text \<open>
  What the projections achieve: group memberships converge to the newest event whatever the order
  of delivery and the dialect, the owner of a new tenant gets full access, and the bootstrap of the
  platform administrator leaves an active binding.
\<close>

section \<open>Memberships as a map\<close>

text \<open>The abstract state of a membership: status and time of the newest event seen.\<close>

definition membership_of :: "database \<Rightarrow> gostring \<times> gostring \<times> gostring \<Rightarrow> (gostring \<times> time) option" where
  "membership_of db k = (case k of (t, m, g) \<Rightarrow>
     map_option (\<lambda>sg. (sg_Status sg, sg_SourceOccurredAt sg)) (find (same_membership t m g) (map row_val (subject_groups db))))"

definition newest :: "(gostring \<times> time) option \<Rightarrow> gostring \<times> time \<Rightarrow> gostring \<times> time" where
  "newest old new = (case old of None \<Rightarrow> new | Some (s, t) \<Rightarrow> if t \<le> snd new then new else (s, t))"

definition key_of :: "SubjectGroup \<Rightarrow> gostring \<times> gostring \<times> gostring" where
  "key_of sg = (sg_TenantID sg, sg_MembershipID sg, sg_GroupID sg)"

lemma same_membership_key: "same_membership t m g sg \<longleftrightarrow> key_of sg = (t, m, g)"
  by (auto simp: same_membership_def key_of_def)

definition merge_row :: "conn \<Rightarrow> gostring \<Rightarrow> time \<Rightarrow> SubjectGroup \<Rightarrow> SubjectGroup" where
  "merge_row c status at = (if is_mysql c then merge_mysql c status at else merge_postgres c status at)"

text \<open>Both dialects compute the same status and time.\<close>

lemma merge_row_newest:
  "key_of (merge_row c status at sg) = key_of sg"
  "(sg_Status (merge_row c status at sg), sg_SourceOccurredAt (merge_row c status at sg))
     = newest (Some (sg_Status sg, sg_SourceOccurredAt sg)) (status, at)"
  by (auto simp: merge_row_def merge_mysql_def merge_postgres_def key_of_def newest_def max_def)

lemma find_map_merge:
  "find (\<lambda>sg. key_of sg = k) (map (\<lambda>sg. if key_of sg = k' then merge_row c st at sg else sg) xs)
   = (if k = k' then map_option (merge_row c st at) (find (\<lambda>sg. key_of sg = k) xs) else find (\<lambda>sg. key_of sg = k) xs)"
  by (induction xs) (auto simp: merge_row_newest(1))

lemma find_append_one: "find P (xs @ [x]) = (case find P xs of None \<Rightarrow> if P x then Some x else None | Some y \<Rightarrow> Some y)"
  by (induction xs) auto

lemma upsert_membership:
  assumes "upsertMembershipGroup c t m g st at db = Inr db'"
  shows "membership_of db' k = (if k = (t, m, g) then Some (newest (membership_of db k) (st, at)) else membership_of db k)"
proof -
  let ?vals = "map row_val (subject_groups db)"
  obtain t' m' g' where k: "k = (t', m', g')" by (cases k)
  have vals: "map row_val (subject_groups db') =
      (if list_ex (\<lambda>sg. key_of sg = (t, m, g)) ?vals
       then map (\<lambda>sg. if key_of sg = (t, m, g) then merge_row c st at sg else sg) ?vals
       else ?vals @ [\<lparr>sg_TenantID = t, sg_MembershipID = m, sg_GroupID = g, sg_Status = st, sg_SourceOccurredAt = at,
              sg_Audit = audit_insert c\<rparr>])"
    using assms by (auto simp: upsertMembershipGroup_def Let_def same_membership_key merge_row_def insert_row_def list_ex_iff
        split: option.splits if_splits)
  have absent: "find (\<lambda>sg. key_of sg = (t, m, g)) ?vals = None" if "\<not> list_ex (\<lambda>sg. key_of sg = (t, m, g)) ?vals"
    using that by (auto simp: find_None_iff list_ex_iff)
  have present: "find (\<lambda>sg. key_of sg = (t, m, g)) ?vals \<noteq> None" if "list_ex (\<lambda>sg. key_of sg = (t, m, g)) ?vals"
    using that by (auto simp: find_None_iff list_ex_iff)
  show ?thesis
  proof (cases "list_ex (\<lambda>sg. key_of sg = (t, m, g)) ?vals")
    case True
    with present[OF True] show ?thesis
      unfolding membership_of_def same_membership_key k vals
      by (auto simp: find_map_merge merge_row_newest(2) simp del: map_map)
  next
    case False
    with absent[OF False] show ?thesis
      unfolding membership_of_def same_membership_key k vals
      by (auto simp: find_append_one key_of_def newest_def split: option.splits)
  qed
qed

text \<open>A sequence of upserts of one membership, over any connections.\<close>

fun upserts :: "gostring \<times> gostring \<times> gostring \<Rightarrow> (conn \<times> gostring \<times> time) list \<Rightarrow> database \<Rightarrow> database result" where
  "upserts k [] db = Inr db"
| "upserts k ((c, st, at) # evs) db =
     (case k of (t, m, g) \<Rightarrow> case upsertMembershipGroup c t m g st at db of Inl e \<Rightarrow> Inl e | Inr db' \<Rightarrow> upserts k evs db')"

lemma newest_time: "snd (newest old new) = (case old of None \<Rightarrow> snd new | Some o' \<Rightarrow> max (snd o') (snd new))"
  by (auto simp: newest_def max_def split: option.splits)

lemma upserts_mono:
  "upserts k evs db = Inr db' \<Longrightarrow> membership_of db k = Some o' \<Longrightarrow> \<exists>n. membership_of db' k = Some n \<and> snd o' \<le> snd n"
proof (induction evs arbitrary: db o')
  case (Cons ev evs)
  obtain c st at where ev: "ev = (c, st, at)" by (cases ev)
  obtain t m g where k: "k = (t, m, g)" by (cases k)
  obtain db1 where u: "upsertMembershipGroup c t m g st at db = Inr db1" "upserts k evs db1 = Inr db'"
    using Cons.prems(1) by (auto simp: ev k split: sum.splits)
  have "membership_of db1 k = Some (newest (Some o') (st, at))"
    using upsert_membership[OF u(1), of k] Cons.prems(2) by (simp add: k)
  from Cons.IH[OF u(2) this] show ?case by (auto simp: newest_time)
qed simp

lemma upserts_newest:
  assumes "upserts k evs db = Inr db'" "evs \<noteq> []" "membership_of db k = None \<or> (\<exists>o'. membership_of db k = Some o' \<and> P o')"
    and "\<forall>(c, st, at)\<in>set evs. P (st, at)"
  shows "\<exists>n. membership_of db' k = Some n \<and> P n \<and> (\<forall>(c, st, at)\<in>set evs. at \<le> snd n)"
  using assms
proof (induction evs arbitrary: db)
  case (Cons ev evs)
  obtain c st at where ev: "ev = (c, st, at)" by (cases ev)
  obtain t m g where k: "k = (t, m, g)" by (cases k)
  obtain db1 where u: "upsertMembershipGroup c t m g st at db = Inr db1" "upserts k evs db1 = Inr db'"
    using Cons.prems(1) by (auto simp: ev k split: sum.splits)
  have m1: "membership_of db1 k = Some (newest (membership_of db k) (st, at))"
    using upsert_membership[OF u(1), of k] by (simp add: k)
  have p1: "P (newest (membership_of db k) (st, at))" and t1: "at \<le> snd (newest (membership_of db k) (st, at))"
    using Cons.prems(3,4) by (auto simp: ev newest_def split: option.splits)
  show ?case
  proof (cases "evs = []")
    case True
    with u(2) m1 p1 t1 show ?thesis by (auto simp: ev)
  next
    case False
    from Cons.IH[OF u(2) False] m1 p1 Cons.prems(4)
    obtain n where n: "membership_of db' k = Some n" "P n" "\<forall>(c, st, at)\<in>set evs. at \<le> snd n"
      by (auto simp: ev)
    moreover have "snd (newest (membership_of db k) (st, at)) \<le> snd n"
      using upserts_mono[OF u(2) m1] n(1) by auto
    ultimately show ?thesis using t1 by (auto simp: ev)
  qed
qed simp

section \<open>The owner of a new tenant\<close>

text \<open>The rows that the bootstrap of a tenant inserts.\<close>

definition owner_rows :: "(gostring \<Rightarrow> gostring) \<Rightarrow> conn \<Rightarrow> gostring \<Rightarrow> gostring \<Rightarrow> Binding \<times> Role \<times> RolePermission \<times> Permission" where
  "owner_rows h c t m =
     (let pid = tenantBootstrapID h ''permission'' t; rid = tenantBootstrapID h ''role'' t in
      (owner_binding c (tenantBootstrapID h (''binding:'' @ m) t) t m rid, owner_role c rid t,
       owner_role_permission c (tenantBootstrapID h ''role-permission'' t) t rid pid, owner_permission c pid t))"

text \<open>Nothing of the tenant exists yet, and the identifiers derived from it are free.\<close>

definition new_tenant :: "(gostring \<Rightarrow> gostring) \<Rightarrow> database \<Rightarrow> gostring \<Rightarrow> gostring \<Rightarrow> bool" where
  "new_tenant h db t m =
     (list_all (\<lambda>r. p_TenantID (row_val r) \<noteq> t \<and> p_ID (row_val r) \<noteq> tenantBootstrapID h ''permission'' t) (permissions db) \<and>
      list_all (\<lambda>r. r_TenantID (row_val r) \<noteq> t \<and> r_ID (row_val r) \<noteq> tenantBootstrapID h ''role'' t) (roles db) \<and>
      list_all (\<lambda>r. rp_RoleID (row_val r) \<noteq> tenantBootstrapID h ''role'' t \<and>
                   rp_ID (row_val r) \<noteq> tenantBootstrapID h ''role-permission'' t) (role_permissions db) \<and>
      list_all (\<lambda>r. b_TenantID (row_val r) \<noteq> t \<and> b_ID (row_val r) \<noteq> tenantBootstrapID h (''binding:'' @ m) t) (role_bindings db))"

lemma exec_insert_ignore_True: "exec_insert_ignore c l True True d d' = Inr r \<Longrightarrow> r = d'"
  by (auto simp: exec_insert_ignore_def split: option.splits)

lemma bootstrap_rows:
  assumes "repo_BootstrapTenantOwner h c t m db = Inr db'" "new_tenant h db t m"
  shows "case owner_rows h c t m of (b, r, rp, p) \<Rightarrow>
    db' = db\<lparr>permissions := insert_row p (permissions db), roles := insert_row r (roles db),
             role_permissions := insert_row rp (role_permissions db), role_bindings := insert_row b (role_bindings db)\<rparr>"
proof -
  obtain b r rp p where rows: "owner_rows h c t m = (b, r, rp, p)" by (cases "owner_rows h c t m")
  have u: "permission_unique (permissions db) p" "role_unique (roles db) r" "role_permission_unique (role_permissions db) rp"
    "binding_unique (role_bindings db) b"
    using assms(2) rows
    by (auto simp: new_tenant_def owner_rows_def Let_def permission_unique_def role_unique_def role_permission_unique_def
        binding_unique_def list_all_iff owner_permission_def owner_role_def owner_role_permission_def owner_binding_def)
  have refs: "role_exists (d\<lparr>roles := insert_row r x\<rparr>) (tenantBootstrapID h ''role'' t)"
    "permission_exists (d\<lparr>permissions := insert_row p y, roles := z\<rparr>) (tenantBootstrapID h ''permission'' t)" for d x y z
    using rows by (auto simp: role_exists_def permission_exists_def owner_rows_def Let_def owner_role_def owner_permission_def list_ex_iff)
  from assms(1) rows u refs show ?thesis
    by (auto simp: repo_BootstrapTenantOwner_def owner_rows_def Let_def role_exists_def permission_exists_def
        split: sum.splits dest!: exec_insert_ignore_True)
qed

lemma bootstrap_granted:
  assumes "repo_BootstrapTenantOwner h c t m db = Inr db'" "new_tenant h db t m"
  shows "owner_rows h c t m \<in> set (granted db' t m ''membership'')"
proof -
  obtain b r rp p where rows: "owner_rows h c t m = (b, r, rp, p)" by (cases "owner_rows h c t m")
  then have b: "b = owner_binding c (tenantBootstrapID h (''binding:'' @ m) t) t m (tenantBootstrapID h ''role'' t)"
    and r: "r = owner_role c (tenantBootstrapID h ''role'' t) t"
    and rp: "rp = owner_role_permission c (tenantBootstrapID h ''role-permission'' t) t (tenantBootstrapID h ''role'' t)
               (tenantBootstrapID h ''permission'' t)"
    and p: "p = owner_permission c (tenantBootstrapID h ''permission'' t) t"
    by (simp_all add: owner_rows_def Let_def)
  have db': "b \<in> set (live (role_bindings db'))" "r \<in> set (live (roles db'))" "rp \<in> set (live (role_permissions db'))"
    "p \<in> set (live (permissions db'))"
    using bootstrap_rows[OF assms] by (simp_all add: rows)
  show ?thesis unfolding rows granted_iff
    by (intro conjI db') (simp_all add: b r rp p binding_of_subject_def owner_permission_def owner_role_def
        owner_role_permission_def owner_binding_def)
qed

lemma granted_policy_versions [simp]:
  "granted (db\<lparr>policy_versions := v\<rparr>) t s st = granted db t s st"
  by (simp add: granted_def binding_of_subject_def cong: if_cong)

lemma new_tenant_frame [simp]: "new_tenant h (db\<lparr>processed_events := v\<rparr>) t m = new_tenant h db t m"
  by (simp add: new_tenant_def)

lemma tenant_tx_granted:
  assumes "tenant_tx e envelope t m tx db = Inr (u, db')" "\<not> event_marked db (cev_EventId envelope)" "new_tenant (sha1 e) db t m"
  shows "owner_rows (sha1 e) tx t m \<in> set (granted db' t m ''membership'')"
proof -
  obtain ins db1 where m1: "markProcessedEvent tx (cev_EventId envelope) (cev_EventType envelope) db = Inr (ins, db1)"
    using assms(1) by (auto simp: tenant_tx_def split: sum.splits)
  with assms(2) have ins: ins and fresh: "new_tenant (sha1 e) db1 t m"
    using markProcessedEvent_Inr[OF m1, of "[]"] assms(3) by auto
  from assms(1) m1 ins obtain db2 v where b: "repo_BootstrapTenantOwner (sha1 e) tx t m db1 = Inr db2"
    and p: "repo_BumpPolicyVersion tx t db2 = Inr (v, db')"
    by (auto simp: tenant_tx_def split: sum.splits)
  from bump_frame[OF p] bootstrap_granted[OF b fresh] show ?thesis by auto
qed

lemma rank_all: "4 \<le> scopeRank v \<Longrightarrow> v = ''all''"
  by (simp add: scopeRank_def split: if_splits)

lemma owner_applicable:
  assumes "owner_rows h c t m \<in> set (granted db t m ''membership'')"
  shows "\<exists>us. decided (applicable e db t m ''membership'' rt rid a attrs) = (True, ''all'', us)"
proof -
  let ?A = "applicable e db t m ''membership'' rt rid a attrs"
  obtain b r rp p where rows: "owner_rows h c t m = (b, r, rp, p)" by (cases "owner_rows h c t m")
  have p: "p_ResourceType p = ''*''" "p_Action p = ''*''" "p_ConditionExpression p = []" and r: "r_DataScope r = ''all''"
    using rows by (auto simp: owner_rows_def Let_def owner_permission_def owner_role_def)
  have "matchesCondition e (p_ConditionExpression p) t m rid attrs = Inr True" by (simp add: p(3) matchesCondition_def)
  with assms p(1,2) have q: "owner_rows h c t m \<in> set ?A" unfolding applicable_def rows by simp
  obtain al ds us where d: "decided ?A = (al, ds, us)" by (cases "decided ?A")
  have g: "g_DataScope (grant_of (owner_rows h c t m)) = ''all''"
    by (simp add: rows grant_of_def r)
  have "al" using decided_spec[OF d] q by auto
  moreover have "scopeRank ''all'' \<le> scopeRank ds" using decided_spec[OF d] q g by metis
  then have "ds = ''all''" by (intro rank_all) (simp add: scopeRank_def)
  ultimately show ?thesis using d by simp
qed

section \<open>The platform administrator\<close>

text \<open>Bindings are revoked by their status; like the upsert, this does not look at \<open>deleted_at\<close>, which
  no statement of the service sets.\<close>

definition admin_bound :: "database \<Rightarrow> gostring \<Rightarrow> gostring \<Rightarrow> gostring \<Rightarrow> bool" where
  "admin_bound db sid sty rid = list_ex (\<lambda>r. b_TenantID (row_val r) = BootstrapPlatformTenantID \<and> b_SubjectID (row_val r) = sid \<and>
     b_SubjectType (row_val r) = sty \<and> b_RoleID (row_val r) = rid \<and> b_Status (row_val r) = ''active'') (role_bindings db)"

text \<open>No other binding has the identifier derived from the subject.\<close>

definition binding_id_free :: "database \<Rightarrow> gostring \<Rightarrow> gostring \<Rightarrow> gostring \<Rightarrow> gostring \<Rightarrow> bool" where
  "binding_id_free db bid sid sty rid = list_all (\<lambda>r. b_ID (row_val r) = bid \<longrightarrow>
     b_TenantID (row_val r) = BootstrapPlatformTenantID \<and> b_SubjectID (row_val r) = sid \<and> b_SubjectType (row_val r) = sty \<and>
     b_RoleID (row_val r) = rid) (role_bindings db)"

lemma upsertBinding_active:
  assumes "upsertBinding c bid rid sid sty db = Inr db'" "binding_id_free db bid sid sty rid"
  shows "admin_bound db' sid sty rid"
proof -
  define hit where "hit = (\<lambda>b :: Binding. (b_TenantID b = BootstrapPlatformTenantID \<and> b_SubjectType b = sty \<and> b_SubjectID b = sid \<and> b_RoleID b = rid)
      \<or> (is_mysql c \<and> b_ID b = bid))"
  show ?thesis
  proof (cases "list_ex (\<lambda>r. hit (row_val r)) (role_bindings db)")
    case True
    then obtain r where r: "r \<in> set (role_bindings db)" "hit (row_val r)" by (auto simp: list_ex_iff)
    from assms(1) True have db': "db' = db\<lparr>role_bindings := map (\<lambda>r. if hit (row_val r)
        then Row ((row_val r)\<lparr>b_Status := ''active'', b_Audit := audit_update c (b_Audit (row_val r))\<rparr>) (row_deleted_at r)
        else r) (role_bindings db)\<rparr>"
      by (auto simp: upsertBinding_def wrap_def Let_def hit_def split: option.splits)
    have "b_TenantID (row_val r) = BootstrapPlatformTenantID \<and> b_SubjectID (row_val r) = sid \<and> b_SubjectType (row_val r) = sty \<and>
        b_RoleID (row_val r) = rid"
      using assms(2) r by (auto simp: hit_def binding_id_free_def list_all_iff)
    with r show ?thesis
      unfolding admin_bound_def db' list_ex_iff
      by (intro bexI[of _ "Row ((row_val r)\<lparr>b_Status := ''active'', b_Audit := audit_update c (b_Audit (row_val r))\<rparr>) (row_deleted_at r)"])
        (auto simp: image_iff)
  next
    case False
    with assms(1) show ?thesis
      by (auto simp: upsertBinding_def wrap_def Let_def hit_def admin_bound_def list_ex_iff split: option.splits if_splits)
  qed
qed

lemma GrantPlatformSuperAdmin_Inr:
  assumes "GrantPlatformSuperAdmin e x present sid0 sty0 db = (Inr res, db')" "pv_live db"
    and "binding_id_free db (gr_BindingID res) (gr_SubjectID res) (gr_SubjectType res) (gr_RoleID res)"
  shows "admin_bound db' (gr_SubjectID res) (gr_SubjectType res) (gr_RoleID res) \<and>
    gr_SubjectID res = TrimSpace sid0 \<and> gr_SubjectType res \<in> {''user'', ''service_account''} \<and>
    (\<exists>r\<in>set (roles db'). r_ID (row_val r) = gr_RoleID res \<and> r_TenantID (row_val r) = BootstrapPlatformTenantID \<and>
       r_Code (row_val r) = SuperAdminRoleCode \<and> r_Status (row_val r) = ''active'') \<and>
    policy_version_of db' BootstrapPlatformTenantID = policy_version_of db BootstrapPlatformTenantID + 1"
proof -
  obtain tx rid bid where g: "grant_tx (sha1 e) (TrimSpace sid0) (ToLower (TrimSpace sty0)) tx db = Inr ((rid, bid), db')"
    and res: "res = \<lparr>gr_BindingID = bid, gr_SubjectID = TrimSpace sid0, gr_SubjectType = ToLower (TrimSpace sty0), gr_RoleID = rid\<rparr>"
    and st: "ToLower (TrimSpace sty0) = ''user'' \<or> ToLower (TrimSpace sty0) = ''service_account''"
    using assms(1) by (auto simp: GrantPlatformSuperAdmin_def Let_def Within_Inr_iff split: if_splits sum.splits prod.splits)
  from g obtain role db1 where role: "role \<in> set (map row_val (roles db))" "r_TenantID role = BootstrapPlatformTenantID"
      "r_Code role = SuperAdminRoleCode" "r_Status role = ''active''" "rid = r_ID role"
    and up: "upsertBinding tx bid rid (TrimSpace sid0) (ToLower (TrimSpace sty0)) db = Inr db1"
    and bump: "admin_bumpPolicyVersion tx db1 = Inr db'"
    by (auto simp: grant_tx_def Let_def GetContext_Inr split: sum.splits dest!: filter_hd_in)
  have db1: "\<exists>t. db1 = db\<lparr>role_bindings := t\<rparr>"
    using up by (auto simp: upsertBinding_def wrap_def Let_def split: option.splits if_splits)
  have db': "db' = db1\<lparr>policy_versions := upsert_policy_version tx BootstrapPlatformTenantID (policy_versions db1)\<rparr>"
    using bump by (auto simp: admin_bumpPolicyVersion_def split: option.splits)
  have bound: "admin_bound db1 (TrimSpace sid0) (ToLower (TrimSpace sty0)) rid"
    using up assms(3) by (intro upsertBinding_active) (auto simp: res)
  have pv: "policy_versions db1 = policy_versions db" using db1 by auto
  have l: "list_all (\<lambda>r. row_deleted_at r = None) (policy_versions db)" using assms(2) by (simp add: pv_live_def)
  obtain v vs where v: "filter (\<lambda>v. pv_TenantID v = BootstrapPlatformTenantID)
      (map row_val (upsert_policy_version tx BootstrapPlatformTenantID (policy_versions db))) = v # vs"
    "pv_PolicyVersion v = (case filter (\<lambda>v. pv_TenantID v = BootstrapPlatformTenantID) (map row_val (policy_versions db)) of
        [] \<Rightarrow> 0 | w # _ \<Rightarrow> pv_PolicyVersion w) + 1"
    using filter_upsert_same by blast
  have "policy_version_of db' BootstrapPlatformTenantID = policy_version_of db BootstrapPlatformTenantID + 1"
    using v l upsert_live[OF l, of tx BootstrapPlatformTenantID] by (simp add: db' pv policy_version_of_def live_all)
  then show ?thesis using bound role st db1 by (auto simp: res db' admin_bound_def)
qed

end
