(* ===== verification/Route_Policy.thy ===== *)
theory Route_Policy
  imports Projection_Laws
begin

text \<open>
  Route policies (\<open>internal/routepolicy\<close>): the repository of routes, policies and permission
  references, the manager that keeps a compiled snapshot of the policies, and the management
  service.

  The shared package \<open>platformpolicy\<close> is outside the repository: \<open>pol_Compile\<close> is
  \<open>Compiler.Compile\<close>, \<open>snap_Reload\<close> and \<open>snap_Evaluate\<close> are the methods of its snapshot and
  \<open>pol_NewRoute\<close> its constructor of routes. A snapshot is represented by the definitions it was
  built from. The audit triggers set the audit columns, as for the other tables.
\<close>

section \<open>Data\<close>

record PolicyPermission =
  pp_ID :: gostring
  pp_Key :: gostring
  pp_Resource :: gostring
  pp_Action :: gostring
  pp_Scope :: Scope

record PolicyDefinition =
  def_ID :: gostring
  def_RouteID :: gostring
  def_Expression :: gostring
  def_Permissions :: "(gostring \<times> PolicyPermission) list"
  def_Version :: int

record Route =
  ro_ID :: gostring
  ro_Protocol :: gostring
  ro_Method :: gostring
  ro_Path :: gostring
  ro_Operation :: gostring
  ro_Description :: gostring
  ro_ServiceName :: gostring
  ro_SourceVersion :: gostring

record routeRow =
  rr_Route :: Route
  rr_Status :: gostring
  rr_LastDiscoveredAt :: time
  rr_Audit :: AuditFields

record policyRow =
  po_ID :: gostring
  po_RouteID :: gostring
  po_Expression :: gostring
  po_Description :: gostring
  po_Status :: gostring
  po_Audit :: AuditFields

record permissionRow =
  ref_PolicyID :: gostring
  ref_ID :: gostring
  ref_Key :: gostring
  ref_Resource :: gostring
  ref_Action :: gostring
  ref_Scope :: gostring
  ref_Audit :: AuditFields

record route_db =
  route_definitions :: "routeRow table"
  route_policy_definitions :: "policyRow table"
  route_policy_permission_refs :: "permissionRow table"

record RouteFilter =
  fi_Keyword :: gostring
  fi_Protocol :: gostring
  fi_RouteStatus :: gostring
  fi_PolicyStatus :: gostring

record PermissionInput =
  in_Key :: gostring
  in_Resource :: gostring
  in_Action :: gostring
  in_Scope :: gostring

record Detail =
  de_RouteID :: gostring
  de_Protocol :: gostring
  de_Method :: gostring
  de_Path :: gostring
  de_Operation :: gostring
  de_RouteStatus :: gostring
  de_PolicyID :: gostring
  de_Expression :: gostring
  de_Description :: gostring
  de_PolicyStatus :: gostring
  de_Version :: int
  de_Permissions :: "PermissionInput list"

record SetInput =
  si_RouteID :: gostring
  si_Expression :: gostring
  si_Description :: gostring
  si_Status :: gostring
  si_ExpectedVersion :: int
  si_Permissions :: "PermissionInput list"

section \<open>Reading policies\<close>

definition parseScope :: "gostring \<Rightarrow> Scope result" where
  "parseScope value =
     (if value = ''tenant'' then Inr ScopeTenant
      else if value = ''platform'' then Inr ScopePlatform
      else if value = ''principal'' then Inr ScopePrincipal
      else Inl (WrapSuffix (Sentinel PlatformErrInvalid) (''invalid scope '' @ value)))"

fun add_refs :: "permissionRow list \<Rightarrow> PolicyDefinition list \<Rightarrow> PolicyDefinition list result" where
  "add_refs [] definitions = Inr definitions"
| "add_refs (row # rows) definitions =
     (if \<not> list_ex (\<lambda>d. def_ID d = ref_PolicyID row) definitions then add_refs rows definitions
      else case parseScope (ref_Scope row) of
        Inl e \<Rightarrow> Inl e
      | Inr scope \<Rightarrow> add_refs rows (map (\<lambda>d. if def_ID d = ref_PolicyID row
          then d\<lparr>def_Permissions := AList.update (ref_Key row) \<lparr>pp_ID = ref_ID row, pp_Key = ref_Key row,
                   pp_Resource = ref_Resource row, pp_Action = ref_Action row, pp_Scope = scope\<rparr> (def_Permissions d)\<rparr>
          else d) definitions))"

definition active_policies :: "conn \<Rightarrow> route_db \<Rightarrow> policyRow list" where
  "active_policies c db = sort_key (\<lambda>p. collation c (po_RouteID p)) (filter (\<lambda>p. po_Status p = ''active'') (live (route_policy_definitions db)))"

definition policy_Load :: "conn \<Rightarrow> route_db \<Rightarrow> PolicyDefinition list result" where
  "policy_Load c db =
     (if \<not> db_available c then Inl (OtherError ''route policy database is disabled'')
      else case SelectContext c ''select route policies'' (active_policies c db) of
        Inl e \<Rightarrow> Inl (Wrapf ''select route policies'' e)
      | Inr policies \<Rightarrow>
      (case SelectContext c ''select route policy references''
              (sort_key (\<lambda>r. (collation c (ref_PolicyID r), collation c (ref_Key r)))
                (filter (\<lambda>r. list_ex (\<lambda>d. po_ID d = ref_PolicyID r \<and> po_Status d = ''active'') (live (route_policy_definitions db)))
                  (live (route_policy_permission_refs db)))) of
        Inl e \<Rightarrow> Inl (Wrapf ''select route policy references'' e)
      | Inr refs \<Rightarrow>
          add_refs refs (map (\<lambda>row. \<lparr>def_ID = po_ID row, def_RouteID = po_RouteID row, def_Expression = po_Expression row,
                                   def_Permissions = [], def_Version = Version (po_Audit row)\<rparr>) policies)))"

text \<open>\<open>max(updated_at)\<close> over all rows of both tables; no row gives the zero time.\<close>

definition policy_Revision :: "conn \<Rightarrow> route_db \<Rightarrow> time result" where
  "policy_Revision c db =
     (case fault c ''select route policy revision'' of
        Some e \<Rightarrow> Inl e
      | None \<Rightarrow>
          (let times = map (\<lambda>r. UpdatedAt (po_Audit (row_val r))) (route_policy_definitions db)
                     @ map (\<lambda>r. UpdatedAt (ref_Audit (row_val r))) (route_policy_permission_refs db) in
           Inr (if times = [] then zero_time else foldr max times (hd times))))"

definition ActiveRouteIDs :: "conn \<Rightarrow> route_db \<Rightarrow> gostring \<Rightarrow> gostring list result" where
  "ActiveRouteIDs c db service =
     SelectContext c ''select active routes''
       (sort_key (collation c) (map (\<lambda>r. ro_ID (rr_Route r))
         (filter (\<lambda>r. ro_ServiceName (rr_Route r) = service \<and> rr_Status r = ''active'') (live (route_definitions db)))))"

section \<open>Synchronising routes\<close>

definition route_unique :: "routeRow table \<Rightarrow> Route \<Rightarrow> bool" where
  "route_unique t route = list_all (\<lambda>r. let q = rr_Route (row_val r) in
     row_deleted_at r = None \<and> ro_ID q \<noteq> ro_ID route \<longrightarrow>
       \<not> (ro_ServiceName q = ro_ServiceName route \<and> ro_Protocol q = ro_Protocol route
          \<and> ro_Method q = ro_Method route \<and> ro_Path q = ro_Path route)) t"

definition sync_route :: "conn \<Rightarrow> time \<Rightarrow> Route \<Rightarrow> routeRow table \<Rightarrow> routeRow table result" where
  "sync_route tx now route t =
     wrap (''sync route '' @ ro_Path route)
       (case GetContext tx (''select route '' @ ro_ID route) (filter (\<lambda>r. ro_ID (rr_Route r) = ro_ID route) (live t)) of
          Inl e \<Rightarrow>
            if \<not> err_is SqlErrNoRows e then Inl e
            else (case audited_fault tx (''insert route '' @ ro_ID route) of
                    Some er \<Rightarrow> Inl er
                  | None \<Rightarrow>
                      if \<not> route_unique t route \<or> list_ex (\<lambda>r. ro_ID (rr_Route (row_val r)) = ro_ID route) t
                      then Inl (unique_violation tx)
                      else Inr (insert_row \<lparr>rr_Route = route, rr_Status = ''active'', rr_LastDiscoveredAt = now,
                                 rr_Audit = audit_insert tx\<rparr> t))
        | Inr old \<Rightarrow>
            (case audited_fault tx (''update route '' @ ro_ID route) of
               Some er \<Rightarrow> Inl er
             | None \<Rightarrow>
                 if \<not> route_unique t route then Inl (unique_violation tx)
                 else Inr (update_where (\<lambda>r. ro_ID (rr_Route r) = ro_ID route)
                        (\<lambda>r. r\<lparr>rr_Route := route, rr_Status := ''active'', rr_LastDiscoveredAt := now,
                               rr_Audit := audit_update tx (rr_Audit r)\<rparr>) t)))"

fun sync_routes :: "conn \<Rightarrow> time \<Rightarrow> Route list \<Rightarrow> routeRow table \<Rightarrow> routeRow table result" where
  "sync_routes tx now [] t = Inr t"
| "sync_routes tx now (route # routes) t =
     (case sync_route tx now route t of Inl e \<Rightarrow> Inl e | Inr t' \<Rightarrow> sync_routes tx now routes t')"

text \<open>The first statement of the transaction makes the active routes of the service and protocol
  inactive.\<close>

definition SyncRoutes ::
  "(ctx \<Rightarrow> gostring \<Rightarrow> ctx) \<Rightarrow> time \<Rightarrow> conn \<Rightarrow> ctx \<Rightarrow> Route list \<Rightarrow> gostring \<Rightarrow> route_db \<Rightarrow> goerr option \<times> route_db" where
  "SyncRoutes sysctx now c x routes actor db =
     (case routes of
        [] \<Rightarrow> (Some (OtherError ''route sync requires routes''), db)
      | first # rest \<Rightarrow>
          (case Within c (sysctx x actor) (\<lambda>tx db.
             case exec_update tx ''deactivate routes''
                    (\<lambda>r. ro_ServiceName (rr_Route r) = ro_ServiceName first \<and> ro_Protocol (rr_Route r) = ro_Protocol first
                         \<and> rr_Status r = ''active'')
                    (\<lambda>r. r\<lparr>rr_Status := ''inactive'', rr_Audit := audit_update tx (rr_Audit r)\<rparr>) (route_definitions db) of
               Inl e \<Rightarrow> Inl e
             | Inr (n, t) \<Rightarrow> (case sync_routes tx now routes t of
                 Inl e \<Rightarrow> Inl e
               | Inr t' \<Rightarrow> Inr ((), db\<lparr>route_definitions := t'\<rparr>))) db of
             Inl e \<Rightarrow> (Some e, db)
           | Inr (u, db') \<Rightarrow> (None, db')))"

section \<open>Paging and reading one policy\<close>

text \<open>A row of \<open>route_definitions LEFT JOIN route_policy_definitions\<close> over live rows.\<close>

definition joined :: "route_db \<Rightarrow> (routeRow \<times> policyRow option) list" where
  "joined db = concat (map (\<lambda>r.
     let ps = filter (\<lambda>p. po_RouteID p = ro_ID (rr_Route r)) (live (route_policy_definitions db)) in
     if ps = [] then [(r, None)] else map (\<lambda>p. (r, Some p)) ps) (live (route_definitions db)))"

definition routePolicyWhere :: "RouteFilter \<Rightarrow> (routeRow \<times> policyRow option) clauses" where
  "routePolicyWhere f =
     (let keyword = TrimSpace (fi_Keyword f);
          like = ''%'' @ ToLower keyword @ ''%'';
          k = (if keyword \<noteq> [] then [\<lambda>(r, p). sql_like like (ToLower (ro_Path (rr_Route r))) \<or> sql_like like (ToLower (ro_Operation (rr_Route r)))]
               else []);
          protocol = TrimSpace (fi_Protocol f); routeStatus = TrimSpace (fi_RouteStatus f); policyStatus = TrimSpace (fi_PolicyStatus f) in
      k @ (if protocol \<noteq> [] then [\<lambda>(r, p). ro_Protocol (rr_Route r) = protocol] else [])
        @ (if routeStatus \<noteq> [] then [\<lambda>(r, p). rr_Status r = routeStatus] else [])
        @ (if policyStatus \<noteq> [] then [\<lambda>(r, p). case p of None \<Rightarrow> False | Some q \<Rightarrow> po_Status q = policyStatus] else []))"

definition detail_of :: "routeRow \<times> policyRow option \<Rightarrow> Detail" where
  "detail_of rp = (case rp of (r, p) \<Rightarrow> let q = rr_Route r in
     \<lparr>de_RouteID = ro_ID q, de_Protocol = ro_Protocol q, de_Method = ro_Method q, de_Path = ro_Path q,
      de_Operation = ro_Operation q, de_RouteStatus = rr_Status r,
      de_PolicyID = (case p of None \<Rightarrow> [] | Some v \<Rightarrow> po_ID v),
      de_Expression = (case p of None \<Rightarrow> [] | Some v \<Rightarrow> po_Expression v),
      de_Description = (case p of None \<Rightarrow> [] | Some v \<Rightarrow> po_Description v),
      de_PolicyStatus = (case p of None \<Rightarrow> [] | Some v \<Rightarrow> po_Status v),
      de_Version = (case p of None \<Rightarrow> 0 | Some v \<Rightarrow> Version (po_Audit v)),
      de_Permissions = []\<rparr>)"

definition policy_Page :: "conn \<Rightarrow> route_db \<Rightarrow> RouteFilter \<Rightarrow> int \<Rightarrow> int \<Rightarrow> (Detail list \<times> int) result" where
  "policy_Page c db f limit offset =
     (let matching = filter (satisfies (routePolicyWhere f)) (joined db) in
      case fault c ''count routes'' of
        Some e \<Rightarrow> Inl e
      | None \<Rightarrow>
          (case (if limit < 0 then Some (PgError ''2201W'' ''LIMIT must not be negative'')
                 else if offset < 0 then Some (PgError ''2201X'' ''OFFSET must not be negative'')
                 else fault c ''list routes'') of
             Some e \<Rightarrow> Inl e
           | None \<Rightarrow>
               Inr (map detail_of (take (nat limit) (drop (nat offset)
                      (sort_key (\<lambda>(r, p). (collation c (ro_Protocol (rr_Route r)), collation c (ro_Path (rr_Route r)))) matching))),
                    int (length matching))))"

definition input_of :: "permissionRow \<Rightarrow> PermissionInput" where
  "input_of r = \<lparr>in_Key = ref_Key r, in_Resource = ref_Resource r, in_Action = ref_Action r, in_Scope = ref_Scope r\<rparr>"

definition policy_Get :: "conn \<Rightarrow> route_db \<Rightarrow> gostring \<Rightarrow> Detail result" where
  "policy_Get c db routeID =
     (case GetContext c ''select route policy'' (map detail_of (filter (\<lambda>(r, p). ro_ID (rr_Route r) = routeID) (joined db))) of
        Inl e \<Rightarrow> if err_is SqlErrNoRows e then Inl (Sentinel PolicyErrNotFound) else Inl e
      | Inr detail \<Rightarrow>
          if de_PolicyID detail = [] then Inr detail
          else (case SelectContext c ''select permission references''
                       (sort_key (\<lambda>r. collation c (ref_Key r))
                         (filter (\<lambda>r. ref_PolicyID r = de_PolicyID detail) (live (route_policy_permission_refs db)))) of
                  Inl e \<Rightarrow> Inl e
                | Inr refs \<Rightarrow> Inr (detail\<lparr>de_Permissions := map input_of refs\<rparr>)))"

section \<open>Writing one policy\<close>

definition scope_check :: "gostring \<Rightarrow> bool" where
  "scope_check scope = (scope = ''tenant'' \<or> scope = ''platform'' \<or> scope = ''principal'')"

definition check_violation :: goerr where
  "check_violation = PgError ''23514'' ''violates check constraint''"

definition live_key_clash :: "permissionRow table \<Rightarrow> gostring \<Rightarrow> gostring \<Rightarrow> gostring \<Rightarrow> bool" where
  "live_key_clash t ident policyID key =
     list_ex (\<lambda>r. row_deleted_at r = None \<and> ref_ID (row_val r) \<noteq> ident \<and> ref_PolicyID (row_val r) = policyID
                \<and> ref_Key (row_val r) = key) t"

text \<open>\<open>UPDATE ... SET resource=?,action=?,scope=?,deleted_at=NULL ... WHERE id=?\<close>\<close>

definition restore_ref :: "conn \<Rightarrow> permissionRow \<Rightarrow> PermissionInput \<Rightarrow> permissionRow table \<Rightarrow> permissionRow table result" where
  "restore_ref tx old ref t =
     (case audited_fault tx (''update reference '' @ in_Key ref) of
        Some e \<Rightarrow> Inl e
      | None \<Rightarrow>
          if \<not> scope_check (in_Scope ref) then Inl check_violation
          else if live_key_clash t (ref_ID old) (ref_PolicyID old) (ref_Key old) then Inl (unique_violation tx)
          else Inr (map (\<lambda>r. if ref_ID (row_val r) = ref_ID old
                  then Row ((row_val r)\<lparr>ref_Resource := in_Resource ref, ref_Action := in_Action ref, ref_Scope := in_Scope ref,
                              ref_Audit := audit_update tx (ref_Audit (row_val r))\<rparr>) None
                  else r) t))"

definition insert_ref :: "conn \<Rightarrow> gostring \<Rightarrow> gostring \<Rightarrow> PermissionInput \<Rightarrow> permissionRow table \<Rightarrow> permissionRow table result" where
  "insert_ref tx ident policyID ref t =
     (case audited_fault tx (''insert reference '' @ in_Key ref) of
        Some e \<Rightarrow> Inl e
      | None \<Rightarrow>
          if \<not> scope_check (in_Scope ref) then Inl check_violation
          else if live_key_clash t ident policyID (in_Key ref) \<or> list_ex (\<lambda>r. ref_ID (row_val r) = ident) t
          then Inl (unique_violation tx)
          else Inr (insert_row \<lparr>ref_PolicyID = policyID, ref_ID = ident, ref_Key = in_Key ref, ref_Resource = in_Resource ref,
                     ref_Action = in_Action ref, ref_Scope = in_Scope ref, ref_Audit = audit_insert tx\<rparr> t))"

text \<open>The loop over the desired references; \<open>byKey\<close> is the map of the existing rows, in which the
  last row of a key wins. \<open>n\<close> counts the identifiers used so far.\<close>

definition by_key :: "permissionRow list \<Rightarrow> gostring \<Rightarrow> permissionRow option" where
  "by_key existing key = find (\<lambda>r. ref_Key r = key) (rev existing)"

fun write_refs ::
  "(nat \<Rightarrow> gostring) \<Rightarrow> conn \<Rightarrow> gostring \<Rightarrow> permissionRow list \<Rightarrow> PermissionInput list \<Rightarrow> nat \<Rightarrow> permissionRow table
   \<Rightarrow> permissionRow table result" where
  "write_refs uuid tx policyID existing [] n t = Inr t"
| "write_refs uuid tx policyID existing (ref # refs) n t =
     (case by_key existing (in_Key ref) of
        Some old \<Rightarrow> (case restore_ref tx old ref t of
            Inl e \<Rightarrow> Inl e
          | Inr t' \<Rightarrow> write_refs uuid tx policyID existing refs n t')
      | None \<Rightarrow> (case insert_ref tx (uuid n) policyID ref t of
            Inl e \<Rightarrow> Inl e
          | Inr t' \<Rightarrow> write_refs uuid tx policyID existing refs (n + 1) t'))"

fun remove_refs :: "conn \<Rightarrow> gostring list \<Rightarrow> permissionRow list \<Rightarrow> permissionRow table \<Rightarrow> permissionRow table result" where
  "remove_refs tx desired [] t = Inr t"
| "remove_refs tx desired (old # existing) t =
     (if ref_Key old \<in> set desired then remove_refs tx desired existing t
      else case audited_fault tx (''delete reference '' @ ref_Key old) of
        Some e \<Rightarrow> Inl e
      | None \<Rightarrow> remove_refs tx desired existing
          (map (\<lambda>r. if ref_ID (row_val r) = ref_ID old \<and> row_deleted_at r = None
                    then Row ((row_val r)\<lparr>ref_Audit := audit_update tx (ref_Audit (row_val r))\<rparr>) (Some (stmt_time tx))
                    else r) t))"

text \<open>The definition row: its identifier and the new table.\<close>

definition write_policy ::
  "(nat \<Rightarrow> gostring) \<Rightarrow> conn \<Rightarrow> SetInput \<Rightarrow> policyRow table \<Rightarrow> (gostring \<times> policyRow table) result" where
  "write_policy uuid tx input t =
     (case GetContext tx ''select policy for update'' (filter (\<lambda>p. po_RouteID p = si_RouteID input) (live t)) of
        Inl err \<Rightarrow>
          if \<not> err_is SqlErrNoRows err then Inl err
          else if si_ExpectedVersion input \<noteq> 0 then Inl (Sentinel PolicyErrStaleVersion)
          else (case audited_fault tx ''insert policy'' of
                  Some e \<Rightarrow> Inl e
                | None \<Rightarrow>
                    if list_ex (\<lambda>r. po_ID (row_val r) = uuid 0) t then Inl (unique_violation tx)
                    else Inr (uuid 0, insert_row \<lparr>po_ID = uuid 0, po_RouteID = si_RouteID input, po_Expression = si_Expression input,
                           po_Description = si_Description input, po_Status = si_Status input, po_Audit = audit_insert tx\<rparr> t))
      | Inr row \<Rightarrow>
          if Version (po_Audit row) \<noteq> si_ExpectedVersion input then Inl (Sentinel PolicyErrStaleVersion)
          else (case exec_update tx ''update policy''
                       (\<lambda>p. po_ID p = po_ID row \<and> Version (po_Audit p) = si_ExpectedVersion input)
                       (\<lambda>p. p\<lparr>po_Expression := si_Expression input, po_Description := si_Description input,
                              po_Status := si_Status input, po_Audit := audit_update tx (po_Audit p)\<rparr>) t of
                  Inl e \<Rightarrow> Inl e
                | Inr (changed, t') \<Rightarrow>
                    if changed = 0 then Inl (Sentinel PolicyErrStaleVersion) else Inr (po_ID row, t')))"

definition policy_set_tx :: "(nat \<Rightarrow> gostring) \<Rightarrow> SetInput \<Rightarrow> conn \<Rightarrow> route_db \<Rightarrow> (unit \<times> route_db) result" where
  "policy_set_tx uuid input tx db =
     (case GetContext tx ''select route'' (filter (\<lambda>r. ro_ID (rr_Route r) = si_RouteID input) (live (route_definitions db))) of
        Inl e \<Rightarrow> if err_is SqlErrNoRows e then Inl (Sentinel PolicyErrNotFound) else Inl e
      | Inr route \<Rightarrow>
     (case write_policy uuid tx input (route_policy_definitions db) of
        Inl e \<Rightarrow> Inl e
      | Inr (policyID, policies) \<Rightarrow>
     (case SelectContext tx ''select references''
             (filter (\<lambda>r. ref_PolicyID r = policyID) (map row_val (route_policy_permission_refs db))) of
        Inl e \<Rightarrow> Inl e
      | Inr existing \<Rightarrow>
     (case write_refs uuid tx policyID existing (si_Permissions input) 1 (route_policy_permission_refs db) of
        Inl e \<Rightarrow> Inl e
      | Inr refs \<Rightarrow>
     (case remove_refs tx (map in_Key (si_Permissions input)) existing refs of
        Inl e \<Rightarrow> Inl e
      | Inr refs' \<Rightarrow> Inr ((), db\<lparr>route_policy_definitions := policies, route_policy_permission_refs := refs'\<rparr>))))))"

definition policy_Set ::
  "(ctx \<Rightarrow> gostring \<Rightarrow> ctx) \<Rightarrow> (nat \<Rightarrow> gostring) \<Rightarrow> conn \<Rightarrow> ctx \<Rightarrow> SetInput \<Rightarrow> gostring \<Rightarrow> route_db \<Rightarrow> goerr option \<times> route_db" where
  "policy_Set sysctx uuid c x input actor db =
     (case Within c (sysctx x actor) (policy_set_tx uuid input) db of
        Inl e \<Rightarrow> (Some e, db)
      | Inr (u, db') \<Rightarrow> (None, db'))"

section \<open>The manager\<close>

record policy_env =
  pol_Compile :: "PolicyDefinition \<Rightarrow> goerr option"
  snap_Reload :: "PolicyDefinition list result \<Rightarrow> PolicyDefinition list \<Rightarrow> goerr option \<times> PolicyDefinition list"
  snap_Evaluate :: "PolicyDefinition list \<Rightarrow> ctx \<Rightarrow> gostring \<Rightarrow> bool \<Rightarrow> goerr option" \<comment> \<open>route id; authorizer given\<close>
  pol_NewRoute :: "gostring \<Rightarrow> gostring \<Rightarrow> gostring \<Rightarrow> gostring \<Rightarrow> Route result"
  pol_sysctx :: "ctx \<Rightarrow> gostring \<Rightarrow> ctx"
  pol_uuid :: "nat \<Rightarrow> gostring"
  pol_conn :: "nat \<Rightarrow> conn"
  pol_publish :: "goerr option"
  pol_operations :: "operation_entry recorder option"
  pol_texts :: "sentinel \<Rightarrow> gostring"

record Manager =
  mg_snapshot :: "PolicyDefinition list"
  mg_redis :: bool
  mg_channel :: gostring
  mg_interval :: time
  mg_metrics :: bool
  mg_revision :: int
  mg_routeIDs :: "(gostring \<times> gostring) list"
  mg_observed :: "(gostring \<times> gostring) list"
  mg_published :: "(gostring \<times> gostring) list"

definition NewManager :: "bool \<Rightarrow> bool \<Rightarrow> gostring \<Rightarrow> gostring \<Rightarrow> time \<Rightarrow> Manager" where
  "NewManager client metrics activeProfile appName policyRefreshInterval =
     \<lparr>mg_snapshot = [], mg_redis = client, mg_channel = activeProfile @ '':'' @ appName @ '':route-policy:changed'',
      mg_interval = policyRefreshInterval, mg_metrics = metrics, mg_revision = 0, mg_routeIDs = [], mg_observed = [],
      mg_published = []\<rparr>"

text \<open>\<open>UnixNano\<close> as a 64-bit number.\<close>

definition UnixNano :: "time \<Rightarrow> int" where
  "UnixNano t = wrap64 t"

text \<open>The deferred observation of a refresh.\<close>

definition observe_refresh :: "gostring \<Rightarrow> goerr option \<Rightarrow> Manager \<Rightarrow> Manager" where
  "observe_refresh source err m =
     (if mg_metrics m then m\<lparr>mg_observed := mg_observed m @ [(source, if err = None then ''success'' else ''failure'')]\<rparr> else m)"

text \<open>\<open>RefreshSource\<close> reads the policies and afterwards the revision; the two statements may see
  different states of the tables, \<open>db1\<close> and \<open>db2\<close>.\<close>

definition RefreshSource :: "policy_env \<Rightarrow> gostring \<Rightarrow> route_db \<Rightarrow> route_db \<Rightarrow> Manager \<Rightarrow> goerr option \<times> Manager" where
  "RefreshSource pe source db1 db2 m =
     (case snap_Reload pe (policy_Load (pol_conn pe 10) db1) (mg_snapshot m) of
        (Some err, snapshot) \<Rightarrow> (Some err, observe_refresh source (Some err) (m\<lparr>mg_snapshot := snapshot\<rparr>))
      | (None, snapshot) \<Rightarrow>
          (case policy_Revision (pol_conn pe 11) db2 of
             Inl err \<Rightarrow> (Some err, observe_refresh source (Some err) (m\<lparr>mg_snapshot := snapshot\<rparr>))
           | Inr revision \<Rightarrow>
               (None, observe_refresh source None (m\<lparr>mg_snapshot := snapshot, mg_revision := UnixNano revision\<rparr>))))"

definition Refresh :: "policy_env \<Rightarrow> route_db \<Rightarrow> route_db \<Rightarrow> Manager \<Rightarrow> goerr option \<times> Manager" where
  "Refresh pe db1 db2 m = RefreshSource pe ''manual'' db1 db2 m"

fun validate_ids :: "policy_env \<Rightarrow> ctx \<Rightarrow> PolicyDefinition list \<Rightarrow> gostring list \<Rightarrow> goerr option" where
  "validate_ids pe x snapshot [] = None"
| "validate_ids pe x snapshot (i # ids) =
     (case snap_Evaluate pe snapshot x i False of
        Some err \<Rightarrow> if \<not> err_is PlatformErrDenied err then Some err else validate_ids pe x snapshot ids
      | None \<Rightarrow> validate_ids pe x snapshot ids)"

definition ValidateRoutes :: "policy_env \<Rightarrow> ctx \<Rightarrow> gostring \<Rightarrow> route_db \<Rightarrow> Manager \<Rightarrow> goerr option" where
  "ValidateRoutes pe x service db m =
     (case ActiveRouteIDs (pol_conn pe 12) db service of
        Inl err \<Rightarrow> Some err
      | Inr ids \<Rightarrow> validate_ids pe x (mg_snapshot m) ids)"

definition route_key :: "gostring \<Rightarrow> gostring \<Rightarrow> gostring \<Rightarrow> gostring \<Rightarrow> gostring" where
  "route_key protocol method path service = protocol @ nul @ method @ nul @ path @ nul @ service"

definition EvaluateRoute ::
  "policy_env \<Rightarrow> ctx \<Rightarrow> gostring \<Rightarrow> gostring \<Rightarrow> gostring \<Rightarrow> gostring \<Rightarrow> bool \<Rightarrow> Manager \<Rightarrow> goerr option \<times> Manager" where
  "EvaluateRoute pe x protocol method path service authorizer m =
     (let key = route_key protocol method path service in
      case map_of (mg_routeIDs m) key of
        Some ident \<Rightarrow> (snap_Evaluate pe (mg_snapshot m) x ident authorizer, m)
      | None \<Rightarrow>
          (case pol_NewRoute pe protocol method path service of
             Inl err \<Rightarrow> (Some err, m)
           | Inr route \<Rightarrow>
               (snap_Evaluate pe (mg_snapshot m) x (ro_ID route) authorizer,
                m\<lparr>mg_routeIDs := AList.update key (ro_ID route) (mg_routeIDs m)\<rparr>)))"

definition policy_Notify :: "policy_env \<Rightarrow> Manager \<Rightarrow> goerr option \<times> Manager" where
  "policy_Notify pe m =
     (if \<not> mg_redis m then (None, m)
      else case pol_publish pe of
        Some err \<Rightarrow> (Some (Wrapf ''notify route policy'' err), m)
      | None \<Rightarrow> (None, m\<lparr>mg_published := mg_published m @ [(mg_channel m, ''refresh'')]\<rparr>))"

text \<open>The loop of \<open>Run\<close>: every event carries the states of the tables that its statements see.\<close>

datatype manager_event = PolicyDone | PolicyMessage route_db route_db | PolicyTick route_db route_db route_db

fun policy_Run :: "policy_env \<Rightarrow> manager_event list \<Rightarrow> Manager \<Rightarrow> Manager" where
  "policy_Run pe [] m = m"
| "policy_Run pe (PolicyDone # es) m = m"
| "policy_Run pe (PolicyMessage db1 db2 # es) m =
     policy_Run pe es (if mg_redis m then snd (RefreshSource pe ''redis'' db1 db2 m) else m)"
| "policy_Run pe (PolicyTick db0 db1 db2 # es) m =
     (case policy_Revision (pol_conn pe 13) db0 of
        Inl err \<Rightarrow> policy_Run pe es m
      | Inr revision \<Rightarrow>
          policy_Run pe es (if UnixNano revision \<noteq> mg_revision m then snd (RefreshSource pe ''poll'' db1 db2 m) else m))"

section \<open>The management service\<close>

definition rps_Page :: "policy_env \<Rightarrow> RouteFilter \<Rightarrow> int \<Rightarrow> int \<Rightarrow> route_db \<Rightarrow> (Detail list \<times> int) result" where
  "rps_Page pe f page psize db =
     (if page < 1 \<or> psize < 1 \<or> psize > 200
      then Inl (Invalid ''page must be positive and page_size must be between 1 and 200'' None)
      else case policy_Page (pol_conn pe 0) db f psize (page_offset page psize) of
        Inl err \<Rightarrow> Inl (Internal err)
      | Inr r \<Rightarrow> Inr r)"

definition rps_Get :: "policy_env \<Rightarrow> nat \<Rightarrow> gostring \<Rightarrow> route_db \<Rightarrow> Detail result" where
  "rps_Get pe n routeID db =
     (case policy_Get (pol_conn pe n) db (TrimSpace routeID) of
        Inl err \<Rightarrow> if err_is PolicyErrNotFound err then Inl (NotFound ''route policy not found'') else Inl (Internal err)
      | Inr detail \<Rightarrow> Inr detail)"

text \<open>The validation loop over the permission references, on trimmed copies.\<close>

fun validate_refs ::
  "PermissionInput list \<Rightarrow> (gostring \<times> PolicyPermission) list \<Rightarrow> ((gostring \<times> PolicyPermission) list) result" where
  "validate_refs [] perms = Inr perms"
| "validate_refs (ref # refs) perms =
     (let key = TrimSpace (in_Key ref); resource = TrimSpace (in_Resource ref); action = TrimSpace (in_Action ref) in
      case parseScope (TrimSpace (in_Scope ref)) of
        Inl err \<Rightarrow> Inl (Invalid ''invalid permission reference'' (Some err))
      | Inr scope \<Rightarrow>
          if key = [] \<or> resource = [] \<or> action = [] then Inl (Invalid ''invalid permission reference'' None)
          else if map_of perms key \<noteq> None then Inl (Invalid ''duplicate permission key'' None)
          else validate_refs refs (AList.update key \<lparr>pp_ID = [], pp_Key = key, pp_Resource = resource, pp_Action = action,
                 pp_Scope = scope\<rparr> perms))"

definition trimmed_input :: "SetInput \<Rightarrow> SetInput" where
  "trimmed_input input = input\<lparr>si_RouteID := TrimSpace (si_RouteID input), si_Expression := TrimSpace (si_Expression input),
     si_Description := TrimSpace (si_Description input), si_Status := TrimSpace (si_Status input)\<rparr>"

definition validate_input :: "policy_env \<Rightarrow> SetInput \<Rightarrow> goerr option" where
  "validate_input pe input =
     (if si_RouteID input = [] \<or> si_Expression input = [] \<or> (si_Status input \<noteq> ''active'' \<and> si_Status input \<noteq> ''disabled'')
         \<or> si_ExpectedVersion input < 0
      then Some (Invalid ''route_id, expression, valid status and non-negative expected_version are required'' None)
      else case validate_refs (si_Permissions input) [] of
        Inl err \<Rightarrow> Some err
      | Inr perms \<Rightarrow>
          (case pol_Compile pe \<lparr>def_ID = ''validation'', def_RouteID = si_RouteID input, def_Expression = si_Expression input,
                  def_Permissions = perms, def_Version = 0\<rparr> of
             Some err \<Rightarrow> Some (Invalid ''invalid route policy expression'' (Some err))
           | None \<Rightarrow> None))"

definition set_error :: "goerr option \<Rightarrow> goerr option" where
  "set_error err =
     (case err of
        None \<Rightarrow> None
      | Some er \<Rightarrow>
          if err_is PolicyErrNotFound er then Some (NotFound ''route not found'')
          else if err_is PolicyErrStaleVersion er then Some (Conflict ''route policy version is stale'' (Some er))
          else Some (Internal er))"

text \<open>The refresh and the notification after a successful write, on the written tables.\<close>

definition after_set :: "policy_env \<Rightarrow> route_db \<Rightarrow> goerr option \<Rightarrow> Manager \<Rightarrow> goerr option \<times> Manager" where
  "after_set pe db err m =
     (case err of
        Some er \<Rightarrow> (Some er, m)
      | None \<Rightarrow> (case RefreshSource pe ''write'' db db m of
          (Some refreshErr, m') \<Rightarrow> (Some (Unavailable ''refresh route policy cache'' (Some refreshErr)), m')
        | (None, m') \<Rightarrow> (None, snd (policy_Notify pe m'))))"

definition set_entry :: "policy_env \<Rightarrow> ctx \<Rightarrow> SetInput \<Rightarrow> goerr option \<Rightarrow> operation_entry" where
  "set_entry pe x input err = \<lparr>ol_Operation = ''route_policy.set'', ol_ResourceType = ''route_policy'',
     ol_ResourceID = si_RouteID input, ol_Source = ''authorization-service'', ol_Protocol = ''internal'',
     ol_Request = [(''route_id'', si_RouteID input), (''status'', si_Status input)], ol_RequestID = request_id x,
     ol_Succeeded = (err = None),
     ol_ErrorMessage = (case err of None \<Rightarrow> [] | Some er \<Rightarrow> error_text (pol_texts pe) er)\<rparr>"

record route_world =
  rw_db :: route_db
  rw_manager :: Manager
  rw_operations :: "operation_entry list"

definition rps_Set :: "policy_env \<Rightarrow> ctx \<Rightarrow> SetInput \<Rightarrow> route_world \<Rightarrow> Detail result \<times> route_world" where
  "rps_Set pe x input0 w =
     (case ctx_principal x of
        None \<Rightarrow> (Inl (Unauthorized ''authenticated principal is required''), w)
      | Some actor \<Rightarrow>
      if TrimSpace (pr_ID actor) = [] then (Inl (Unauthorized ''authenticated principal is required''), w)
      else
        let input = trimmed_input input0 in
        case validate_input pe input of
          Some err \<Rightarrow> (Inl err, w)
        | None \<Rightarrow>
            (let written = policy_Set (pol_sysctx pe) (pol_uuid pe) (pol_conn pe 0) x input (pr_ID actor) (rw_db w);
                 refreshed = after_set pe (snd written) (set_error (fst written)) (rw_manager w);
                 err = fst refreshed;
                 w1 = w\<lparr>rw_db := snd written, rw_manager := snd refreshed\<rparr>;
                 entry = set_entry pe x input err;
                 finish = (\<lambda>w'. case err of Some er \<Rightarrow> (Inl er, w') | None \<Rightarrow> (rps_Get pe 1 (si_RouteID input) (rw_db w'), w')) in
             case pol_operations pe of
               None \<Rightarrow> finish w1
             | Some r \<Rightarrow>
                 if \<not> rec_Enabled r then finish w1
                 else
                   let w2 = w1\<lparr>rw_operations := rw_operations w1 @ [entry]\<rparr> in
                   (case rec_Record r entry of
                      Some recordErr \<Rightarrow>
                        if err = None then (Inl (Unavailable ''operation log unavailable'' (Some recordErr)), w2) else finish w2
                    | None \<Rightarrow> finish w2)))"

end
