(* ===== verification/Http_Requests.thy ===== *)
theory Http_Requests
  imports Route_Policy
begin

text \<open>
  The bodies of the HTTP interface: the request structs of
  \<open>internal/transport/http/authorization_handler.go\<close> and \<open>route_policy_handler.go\<close> with the
  rules of their \<open>binding\<close> tags, and the response structs of \<open>authorization_body.go\<close> with the
  functions that fill them.

  A rule set is a predicate \<open>valid_\<dots>\<close> on the decoded struct, as the validator documents its
  tags: \<open>required\<close> asks for a value other than the zero value (for a slice: not nil),
  \<open>max\<close> and \<open>min\<close> bound the length of a slice and the number of code points of a string,
  \<open>gt\<close> bounds a number, \<open>oneof\<close> lists the admitted values, and \<open>dive\<close> applies what
  follows to every element. A slice whose only rule is \<open>required\<close> is an option, so that nil and
  the empty slice stay apart.
\<close>

section \<open>Rules\<close>

definition required :: "gostring \<Rightarrow> bool" where
  "required s = (s \<noteq> [])"

text \<open>The number of code points of a string in UTF-8: of its bytes that do not continue a
  sequence. The JSON decoder only produces valid UTF-8.\<close>

definition rune_count :: "gostring \<Rightarrow> nat" where
  "rune_count s = length (filter (\<lambda>c. let n = (of_char c :: nat) in \<not> (128 \<le> n \<and> n < 192)) s)"

text \<open>The elements of a slice that may be nil.\<close>

definition elements :: "'a list option \<Rightarrow> 'a list" where
  "elements s = (case s of None \<Rightarrow> [] | Some xs \<Rightarrow> xs)"

section \<open>Request structs\<close>

record CreatePermissionRequest =
  cpr_TenantID :: gostring
  cpr_Code :: gostring
  cpr_Name :: gostring
  cpr_ResourceType :: gostring
  cpr_Action :: gostring
  cpr_ConditionExpression :: gostring

record ListPermissionsRequest =
  lpr_TenantID :: gostring
  lpr_Keyword :: gostring
  lpr_PermissionIDs :: "gostring list"
  lpr_Statuses :: "gostring list"
  lpr_ResourceTypes :: "gostring list"
  lpr_Actions :: "gostring list"
  lpr_CreatedFrom :: "time option"
  lpr_CreatedTo :: "time option"
  lpr_Page :: int
  lpr_PageSize :: int

record ListMyPermissionCatalogRequest =
  lmpcr_TenantID :: gostring
  lmpcr_PermissionScope :: gostring
  lmpcr_Search :: gostring
  lmpcr_Page :: int
  lmpcr_PageSize :: int

record CreateMyPermissionRequest =
  cmpr_TenantID :: gostring
  cmpr_PermissionScope :: gostring
  cmpr_Code :: gostring
  cmpr_Name :: gostring
  cmpr_ResourceType :: gostring
  cmpr_Action :: gostring
  cmpr_ConditionExpression :: gostring

record UpdateMyPermissionRequest =
  umpr_TenantID :: gostring
  umpr_PermissionScope :: gostring
  umpr_PermissionID :: gostring
  umpr_Name :: gostring
  umpr_ConditionExpression :: gostring
  umpr_Status :: gostring
  umpr_Version :: int

record ListMyPermissionsRequest =
  lmpr_TenantID :: gostring
  lmpr_PermissionScope :: gostring
  lmpr_Page :: int
  lmpr_PageSize :: int
  lmpr_Keyword :: gostring
  lmpr_PermissionIDs :: "gostring list"
  lmpr_Statuses :: "gostring list"
  lmpr_ResourceTypes :: "gostring list"
  lmpr_Actions :: "gostring list"
  lmpr_CreatedFrom :: "time option"
  lmpr_CreatedTo :: "time option"

record UpdatePermissionRequest =
  upr_TenantID :: gostring
  upr_PermissionID :: gostring
  upr_Name :: gostring
  upr_ConditionExpression :: gostring
  upr_Status :: gostring
  upr_Version :: int

record GetPermissionRequest =
  gpr_TenantID :: gostring
  gpr_PermissionID :: gostring

record GetMyPermissionRequest =
  gmpr_TenantID :: gostring
  gmpr_PermissionScope :: gostring
  gmpr_PermissionID :: gostring

record CreateRoleRequest =
  crr_TenantID :: gostring
  crr_Code :: gostring
  crr_Name :: gostring
  crr_Description :: gostring
  crr_DataScope :: gostring

record UpdateRoleRequest =
  urr_TenantID :: gostring
  urr_RoleID :: gostring
  urr_Name :: gostring
  urr_Description :: gostring
  urr_DataScope :: gostring
  urr_Status :: gostring
  urr_Version :: int

record GetRoleRequest =
  grr_TenantID :: gostring
  grr_RoleID :: gostring

record GetMyRoleRequest =
  gmrr_TenantID :: gostring
  gmrr_PermissionScope :: gostring
  gmrr_RoleID :: gostring

record ListRolesRequest =
  lrr_TenantID :: gostring
  lrr_Page :: int
  lrr_PageSize :: int
  lrr_Keyword :: gostring
  lrr_RoleIDs :: "gostring list"
  lrr_Statuses :: "gostring list"
  lrr_DataScopes :: "gostring list"
  lrr_CreatedFrom :: "time option"
  lrr_CreatedTo :: "time option"

record CreateMyRoleRequest =
  cmrr_TenantID :: gostring
  cmrr_PermissionScope :: gostring
  cmrr_Code :: gostring
  cmrr_Name :: gostring
  cmrr_Description :: gostring
  cmrr_DataScope :: gostring

record UpdateMyRoleRequest =
  umrr_TenantID :: gostring
  umrr_PermissionScope :: gostring
  umrr_RoleID :: gostring
  umrr_Name :: gostring
  umrr_Description :: gostring
  umrr_DataScope :: gostring
  umrr_Status :: gostring
  umrr_Version :: int

record ListMyRolesRequest =
  lmrr_TenantID :: gostring
  lmrr_PermissionScope :: gostring
  lmrr_Keyword :: gostring
  lmrr_Status :: gostring
  lmrr_Page :: int
  lmrr_PageSize :: int
  lmrr_RoleIDs :: "gostring list"
  lmrr_Statuses :: "gostring list"
  lmrr_DataScopes :: "gostring list"
  lmrr_CreatedFrom :: "time option"
  lmrr_CreatedTo :: "time option"

record BatchGetMyRolesRequest =
  bgmrr_TenantID :: gostring
  bgmrr_PermissionScope :: gostring
  bgmrr_RoleIDs :: "gostring list option"

record GrantRolePermissionRequest =
  grpr_TenantID :: gostring
  grpr_RoleID :: gostring
  grpr_PermissionID :: gostring

record RevokeRolePermissionRequest =
  rrpr_TenantID :: gostring
  rrpr_RolePermissionID :: gostring
  rrpr_Version :: int

record ListRolePermissionsRequest =
  lrpr_TenantID :: gostring
  lrpr_RoleID :: gostring

record GrantMyRolePermissionRequest =
  gmrpr_TenantID :: gostring
  gmrpr_PermissionScope :: gostring
  gmrpr_RoleID :: gostring
  gmrpr_PermissionID :: gostring

record RevokeMyRolePermissionRequest =
  rmrpr_TenantID :: gostring
  rmrpr_PermissionScope :: gostring
  rmrpr_RolePermissionID :: gostring
  rmrpr_Version :: int

record ListMyRolePermissionsRequest =
  lmrpr_TenantID :: gostring
  lmrpr_PermissionScope :: gostring
  lmrpr_RoleID :: gostring

record BatchGetMyRolePermissionsRequest =
  bgmrpr_TenantID :: gostring
  bgmrpr_PermissionScope :: gostring
  bgmrpr_RoleID :: gostring
  bgmrpr_PermissionIDs :: "gostring list option"

record CreateBindingRequest =
  cbr_TenantID :: gostring
  cbr_SubjectID :: gostring
  cbr_SubjectType :: gostring
  cbr_RoleID :: gostring
  cbr_OrganizationUnitID :: gostring

record RevokeBindingRequest =
  rbr_TenantID :: gostring
  rbr_BindingID :: gostring
  rbr_Version :: int

record GetBindingRequest =
  gbr_TenantID :: gostring
  gbr_BindingID :: gostring

record GetMyBindingRequest =
  gmbr_TenantID :: gostring
  gmbr_PermissionScope :: gostring
  gmbr_BindingID :: gostring

record ListBindingsRequest =
  lbr_TenantID :: gostring
  lbr_SubjectID :: gostring
  lbr_SubjectType :: gostring
  lbr_Page :: int
  lbr_PageSize :: int
  lbr_BindingIDs :: "gostring list"
  lbr_RoleIDs :: "gostring list"
  lbr_Statuses :: "gostring list"
  lbr_OrganizationUnitIDs :: "gostring list"
  lbr_CreatedFrom :: "time option"
  lbr_CreatedTo :: "time option"

record CreateMyBindingRequest =
  cmbr_TenantID :: gostring
  cmbr_PermissionScope :: gostring
  cmbr_SubjectID :: gostring
  cmbr_SubjectType :: gostring
  cmbr_RoleID :: gostring
  cmbr_OrganizationUnitID :: gostring

record RevokeMyBindingRequest =
  rmbr_TenantID :: gostring
  rmbr_PermissionScope :: gostring
  rmbr_BindingID :: gostring
  rmbr_Version :: int

record ListMyBindingsRequest =
  lmbr_TenantID :: gostring
  lmbr_PermissionScope :: gostring
  lmbr_SubjectID :: gostring
  lmbr_SubjectType :: gostring
  lmbr_Page :: int
  lmbr_PageSize :: int
  lmbr_BindingIDs :: "gostring list"
  lmbr_RoleIDs :: "gostring list"
  lmbr_Statuses :: "gostring list"
  lmbr_OrganizationUnitIDs :: "gostring list"
  lmbr_CreatedFrom :: "time option"
  lmbr_CreatedTo :: "time option"

record CheckAuthorizationRequest =
  car_TenantID :: gostring
  car_SubjectID :: gostring
  car_SubjectType :: gostring
  car_ResourceType :: gostring
  car_ResourceID :: gostring
  car_Action :: gostring
  car_Attributes :: attributes

record BatchCheckAuthorizationRequest =
  bcar_Checks :: "CheckAuthorizationRequest list"

record CheckMyPermissionCodesRequest =
  cmpcr_TenantID :: gostring
  cmpcr_PermissionScope :: gostring
  cmpcr_PermissionCodes :: "gostring list"

record PageRoutePoliciesRequest =
  prpr_Keyword :: gostring
  prpr_Protocol :: gostring
  prpr_RouteStatus :: gostring
  prpr_PolicyStatus :: gostring
  prpr_Page :: int
  prpr_PageSize :: int

record GetRoutePolicyRequest =
  grop_RouteID :: gostring

record SetRoutePolicyRequest =
  srpr_RouteID :: gostring
  srpr_Expression :: gostring
  srpr_Description :: gostring
  srpr_Status :: gostring
  srpr_ExpectedVersion :: int
  srpr_Permissions :: "PermissionInput list"

section \<open>Binding rules\<close>

definition valid_CreatePermissionRequest :: "CreatePermissionRequest \<Rightarrow> bool" where
  "valid_CreatePermissionRequest r =
     (required (cpr_TenantID r) \<and> required (cpr_Code r) \<and> required (cpr_Name r) \<and> required (cpr_ResourceType r)
      \<and> required (cpr_Action r))"

definition valid_ListPermissionsRequest :: "ListPermissionsRequest \<Rightarrow> bool" where
  "valid_ListPermissionsRequest r =
     (required (lpr_TenantID r) \<and> rune_count (lpr_Keyword r) \<le> 100 \<and> length (lpr_PermissionIDs r) \<le> 100
      \<and> length (lpr_Statuses r) \<le> 100 \<and> length (lpr_ResourceTypes r) \<le> 100 \<and> length (lpr_Actions r) \<le> 100)"

definition valid_ListMyPermissionCatalogRequest :: "ListMyPermissionCatalogRequest \<Rightarrow> bool" where
  "valid_ListMyPermissionCatalogRequest r =
     (required (lmpcr_TenantID r) \<and> required (lmpcr_PermissionScope r) \<and> lmpcr_PermissionScope r \<in> {''tenant'', ''platform''}
      \<and> rune_count (lmpcr_Search r) \<le> 100)"

definition valid_CreateMyPermissionRequest :: "CreateMyPermissionRequest \<Rightarrow> bool" where
  "valid_CreateMyPermissionRequest r =
     (required (cmpr_TenantID r) \<and> required (cmpr_PermissionScope r) \<and> cmpr_PermissionScope r \<in> {''tenant'', ''platform''}
      \<and> required (cmpr_Code r) \<and> required (cmpr_Name r) \<and> required (cmpr_ResourceType r) \<and> required (cmpr_Action r))"

definition valid_UpdateMyPermissionRequest :: "UpdateMyPermissionRequest \<Rightarrow> bool" where
  "valid_UpdateMyPermissionRequest r =
     (required (umpr_TenantID r) \<and> required (umpr_PermissionScope r) \<and> umpr_PermissionScope r \<in> {''tenant'', ''platform''}
      \<and> required (umpr_PermissionID r) \<and> required (umpr_Name r) \<and> required (umpr_Status r) \<and> umpr_Version r \<noteq> 0
      \<and> 0 < umpr_Version r)"

definition valid_ListMyPermissionsRequest :: "ListMyPermissionsRequest \<Rightarrow> bool" where
  "valid_ListMyPermissionsRequest r =
     (required (lmpr_TenantID r) \<and> required (lmpr_PermissionScope r) \<and> lmpr_PermissionScope r \<in> {''tenant'', ''platform''}
      \<and> rune_count (lmpr_Keyword r) \<le> 100 \<and> length (lmpr_PermissionIDs r) \<le> 100 \<and> length (lmpr_Statuses r) \<le> 100
      \<and> length (lmpr_ResourceTypes r) \<le> 100 \<and> length (lmpr_Actions r) \<le> 100)"

definition valid_UpdatePermissionRequest :: "UpdatePermissionRequest \<Rightarrow> bool" where
  "valid_UpdatePermissionRequest r =
     (required (upr_TenantID r) \<and> required (upr_PermissionID r) \<and> required (upr_Name r) \<and> required (upr_Status r)
      \<and> upr_Version r \<noteq> 0 \<and> 0 < upr_Version r)"

definition valid_GetPermissionRequest :: "GetPermissionRequest \<Rightarrow> bool" where
  "valid_GetPermissionRequest r =
     (required (gpr_TenantID r) \<and> required (gpr_PermissionID r))"

definition valid_GetMyPermissionRequest :: "GetMyPermissionRequest \<Rightarrow> bool" where
  "valid_GetMyPermissionRequest r =
     (required (gmpr_TenantID r) \<and> required (gmpr_PermissionScope r) \<and> gmpr_PermissionScope r \<in> {''tenant'', ''platform''}
      \<and> required (gmpr_PermissionID r))"

definition valid_CreateRoleRequest :: "CreateRoleRequest \<Rightarrow> bool" where
  "valid_CreateRoleRequest r =
     (required (crr_TenantID r) \<and> required (crr_Code r) \<and> required (crr_Name r) \<and> required (crr_DataScope r))"

definition valid_UpdateRoleRequest :: "UpdateRoleRequest \<Rightarrow> bool" where
  "valid_UpdateRoleRequest r =
     (required (urr_TenantID r) \<and> required (urr_RoleID r) \<and> required (urr_Name r) \<and> required (urr_DataScope r)
      \<and> required (urr_Status r) \<and> urr_Version r \<noteq> 0 \<and> 0 < urr_Version r)"

definition valid_GetRoleRequest :: "GetRoleRequest \<Rightarrow> bool" where
  "valid_GetRoleRequest r =
     (required (grr_TenantID r) \<and> required (grr_RoleID r))"

definition valid_GetMyRoleRequest :: "GetMyRoleRequest \<Rightarrow> bool" where
  "valid_GetMyRoleRequest r =
     (required (gmrr_TenantID r) \<and> required (gmrr_PermissionScope r) \<and> gmrr_PermissionScope r \<in> {''tenant'', ''platform''}
      \<and> required (gmrr_RoleID r))"

definition valid_ListRolesRequest :: "ListRolesRequest \<Rightarrow> bool" where
  "valid_ListRolesRequest r =
     (required (lrr_TenantID r) \<and> rune_count (lrr_Keyword r) \<le> 100 \<and> length (lrr_RoleIDs r) \<le> 100
      \<and> length (lrr_Statuses r) \<le> 100 \<and> length (lrr_DataScopes r) \<le> 100)"

definition valid_CreateMyRoleRequest :: "CreateMyRoleRequest \<Rightarrow> bool" where
  "valid_CreateMyRoleRequest r =
     (required (cmrr_TenantID r) \<and> required (cmrr_PermissionScope r) \<and> cmrr_PermissionScope r \<in> {''tenant'', ''platform''}
      \<and> required (cmrr_Code r) \<and> required (cmrr_Name r) \<and> required (cmrr_DataScope r))"

definition valid_UpdateMyRoleRequest :: "UpdateMyRoleRequest \<Rightarrow> bool" where
  "valid_UpdateMyRoleRequest r =
     (required (umrr_TenantID r) \<and> required (umrr_PermissionScope r) \<and> umrr_PermissionScope r \<in> {''tenant'', ''platform''}
      \<and> required (umrr_RoleID r) \<and> required (umrr_Name r) \<and> required (umrr_DataScope r) \<and> required (umrr_Status r)
      \<and> umrr_Version r \<noteq> 0 \<and> 0 < umrr_Version r)"

definition valid_ListMyRolesRequest :: "ListMyRolesRequest \<Rightarrow> bool" where
  "valid_ListMyRolesRequest r =
     (required (lmrr_TenantID r) \<and> required (lmrr_PermissionScope r) \<and> lmrr_PermissionScope r \<in> {''tenant'', ''platform''}
      \<and> length (lmrr_RoleIDs r) \<le> 100 \<and> length (lmrr_Statuses r) \<le> 100 \<and> length (lmrr_DataScopes r) \<le> 100)"

definition valid_BatchGetMyRolesRequest :: "BatchGetMyRolesRequest \<Rightarrow> bool" where
  "valid_BatchGetMyRolesRequest r =
     (required (bgmrr_TenantID r) \<and> required (bgmrr_PermissionScope r) \<and> bgmrr_PermissionScope r \<in> {''tenant'', ''platform''}
      \<and> bgmrr_RoleIDs r \<noteq> None)"

definition valid_GrantRolePermissionRequest :: "GrantRolePermissionRequest \<Rightarrow> bool" where
  "valid_GrantRolePermissionRequest r =
     (required (grpr_TenantID r) \<and> required (grpr_RoleID r) \<and> required (grpr_PermissionID r))"

definition valid_RevokeRolePermissionRequest :: "RevokeRolePermissionRequest \<Rightarrow> bool" where
  "valid_RevokeRolePermissionRequest r =
     (required (rrpr_TenantID r) \<and> required (rrpr_RolePermissionID r) \<and> rrpr_Version r \<noteq> 0 \<and> 0 < rrpr_Version r)"

definition valid_ListRolePermissionsRequest :: "ListRolePermissionsRequest \<Rightarrow> bool" where
  "valid_ListRolePermissionsRequest r =
     (required (lrpr_TenantID r) \<and> required (lrpr_RoleID r))"

definition valid_GrantMyRolePermissionRequest :: "GrantMyRolePermissionRequest \<Rightarrow> bool" where
  "valid_GrantMyRolePermissionRequest r =
     (required (gmrpr_TenantID r) \<and> required (gmrpr_PermissionScope r) \<and> gmrpr_PermissionScope r \<in> {''tenant'', ''platform''}
      \<and> required (gmrpr_RoleID r) \<and> required (gmrpr_PermissionID r))"

definition valid_RevokeMyRolePermissionRequest :: "RevokeMyRolePermissionRequest \<Rightarrow> bool" where
  "valid_RevokeMyRolePermissionRequest r =
     (required (rmrpr_TenantID r) \<and> required (rmrpr_PermissionScope r) \<and> rmrpr_PermissionScope r \<in> {''tenant'', ''platform''}
      \<and> required (rmrpr_RolePermissionID r) \<and> rmrpr_Version r \<noteq> 0 \<and> 0 < rmrpr_Version r)"

definition valid_ListMyRolePermissionsRequest :: "ListMyRolePermissionsRequest \<Rightarrow> bool" where
  "valid_ListMyRolePermissionsRequest r =
     (required (lmrpr_TenantID r) \<and> required (lmrpr_PermissionScope r) \<and> lmrpr_PermissionScope r \<in> {''tenant'', ''platform''}
      \<and> required (lmrpr_RoleID r))"

definition valid_BatchGetMyRolePermissionsRequest :: "BatchGetMyRolePermissionsRequest \<Rightarrow> bool" where
  "valid_BatchGetMyRolePermissionsRequest r =
     (required (bgmrpr_TenantID r) \<and> required (bgmrpr_PermissionScope r) \<and> bgmrpr_PermissionScope r \<in> {''tenant'', ''platform''}
      \<and> required (bgmrpr_RoleID r) \<and> bgmrpr_PermissionIDs r \<noteq> None)"

definition valid_CreateBindingRequest :: "CreateBindingRequest \<Rightarrow> bool" where
  "valid_CreateBindingRequest r =
     (required (cbr_TenantID r) \<and> required (cbr_SubjectID r) \<and> required (cbr_SubjectType r) \<and> required (cbr_RoleID r))"

definition valid_RevokeBindingRequest :: "RevokeBindingRequest \<Rightarrow> bool" where
  "valid_RevokeBindingRequest r =
     (required (rbr_TenantID r) \<and> required (rbr_BindingID r) \<and> rbr_Version r \<noteq> 0 \<and> 0 < rbr_Version r)"

definition valid_GetBindingRequest :: "GetBindingRequest \<Rightarrow> bool" where
  "valid_GetBindingRequest r =
     (required (gbr_TenantID r) \<and> required (gbr_BindingID r))"

definition valid_GetMyBindingRequest :: "GetMyBindingRequest \<Rightarrow> bool" where
  "valid_GetMyBindingRequest r =
     (required (gmbr_TenantID r) \<and> required (gmbr_PermissionScope r) \<and> gmbr_PermissionScope r \<in> {''tenant'', ''platform''}
      \<and> required (gmbr_BindingID r))"

definition valid_ListBindingsRequest :: "ListBindingsRequest \<Rightarrow> bool" where
  "valid_ListBindingsRequest r =
     (required (lbr_TenantID r) \<and> length (lbr_BindingIDs r) \<le> 100 \<and> length (lbr_RoleIDs r) \<le> 100
      \<and> length (lbr_Statuses r) \<le> 100 \<and> length (lbr_OrganizationUnitIDs r) \<le> 100)"

definition valid_CreateMyBindingRequest :: "CreateMyBindingRequest \<Rightarrow> bool" where
  "valid_CreateMyBindingRequest r =
     (required (cmbr_TenantID r) \<and> required (cmbr_PermissionScope r) \<and> cmbr_PermissionScope r \<in> {''tenant'', ''platform''}
      \<and> required (cmbr_SubjectID r) \<and> required (cmbr_SubjectType r) \<and> required (cmbr_RoleID r))"

definition valid_RevokeMyBindingRequest :: "RevokeMyBindingRequest \<Rightarrow> bool" where
  "valid_RevokeMyBindingRequest r =
     (required (rmbr_TenantID r) \<and> required (rmbr_PermissionScope r) \<and> rmbr_PermissionScope r \<in> {''tenant'', ''platform''}
      \<and> required (rmbr_BindingID r) \<and> rmbr_Version r \<noteq> 0 \<and> 0 < rmbr_Version r)"

definition valid_ListMyBindingsRequest :: "ListMyBindingsRequest \<Rightarrow> bool" where
  "valid_ListMyBindingsRequest r =
     (required (lmbr_TenantID r) \<and> required (lmbr_PermissionScope r) \<and> lmbr_PermissionScope r \<in> {''tenant'', ''platform''}
      \<and> length (lmbr_BindingIDs r) \<le> 100 \<and> length (lmbr_RoleIDs r) \<le> 100 \<and> length (lmbr_Statuses r) \<le> 100
      \<and> length (lmbr_OrganizationUnitIDs r) \<le> 100)"

definition valid_CheckAuthorizationRequest :: "CheckAuthorizationRequest \<Rightarrow> bool" where
  "valid_CheckAuthorizationRequest r =
     (required (car_TenantID r) \<and> required (car_SubjectID r) \<and> required (car_SubjectType r) \<and> required (car_ResourceType r)
      \<and> required (car_Action r))"

definition valid_BatchCheckAuthorizationRequest :: "BatchCheckAuthorizationRequest \<Rightarrow> bool" where
  "valid_BatchCheckAuthorizationRequest r =
     (1 \<le> length (bcar_Checks r) \<and> length (bcar_Checks r) \<le> 100)"

definition valid_CheckMyPermissionCodesRequest :: "CheckMyPermissionCodesRequest \<Rightarrow> bool" where
  "valid_CheckMyPermissionCodesRequest r =
     (required (cmpcr_TenantID r) \<and> 1 \<le> length (cmpcr_PermissionCodes r) \<and> length (cmpcr_PermissionCodes r) \<le> 100
      \<and> list_all required (cmpcr_PermissionCodes r))"

definition valid_GetRoutePolicyRequest :: "GetRoutePolicyRequest \<Rightarrow> bool" where
  "valid_GetRoutePolicyRequest r = required (grop_RouteID r)"

definition valid_SetRoutePolicyRequest :: "SetRoutePolicyRequest \<Rightarrow> bool" where
  "valid_SetRoutePolicyRequest r =
     (required (srpr_RouteID r) \<and> required (srpr_Expression r) \<and> required (srpr_Status r))"

section \<open>Response structs\<close>

record PermissionBody =
  pb_ID :: gostring
  pb_TenantID :: gostring
  pb_Code :: gostring
  pb_Name :: gostring
  pb_ResourceType :: gostring
  pb_Action :: gostring
  pb_ConditionExpression :: gostring
  pb_Status :: gostring
  pb_Version :: int
  pb_CreatedAt :: time
  pb_UpdatedAt :: time
  pb_CreatedBy :: gostring
  pb_UpdatedBy :: gostring

record RoleBody =
  rb_ID :: gostring
  rb_TenantID :: gostring
  rb_Code :: gostring
  rb_Name :: gostring
  rb_Description :: gostring
  rb_DataScope :: gostring
  rb_Status :: gostring
  rb_Version :: int
  rb_CreatedAt :: time
  rb_UpdatedAt :: time
  rb_CreatedBy :: gostring
  rb_UpdatedBy :: gostring

record RolePermissionBody =
  rpb_ID :: gostring
  rpb_TenantID :: gostring
  rpb_RoleID :: gostring
  rpb_PermissionID :: gostring
  rpb_Status :: gostring
  rpb_Version :: int
  rpb_CreatedAt :: time
  rpb_UpdatedAt :: time
  rpb_CreatedBy :: gostring
  rpb_UpdatedBy :: gostring

record BindingBody =
  bb_ID :: gostring
  bb_TenantID :: gostring
  bb_SubjectID :: gostring
  bb_SubjectType :: gostring
  bb_RoleID :: gostring
  bb_OrganizationUnitID :: gostring
  bb_Status :: gostring
  bb_Version :: int
  bb_CreatedAt :: time
  bb_UpdatedAt :: time
  bb_CreatedBy :: gostring
  bb_UpdatedBy :: gostring

record DecisionBody =
  deb_Allowed :: bool
  deb_DecisionID :: gostring
  deb_Reason :: gostring
  deb_PolicyVersion :: nat
  deb_DataScope :: gostring
  deb_OrganizationUnitIDs :: "gostring list"

record PermissionCodeDecisionBody =
  pcdb_AllowedCodes :: "gostring list"
  pcdb_PolicyVersion :: nat

record PermissionPageBody =
  ppgb_Items :: "PermissionBody list"
  ppgb_Total :: int
  ppgb_Page :: int
  ppgb_PageSize :: int

record RolePageBody =
  rpgb_Items :: "RoleBody list"
  rpgb_Total :: int
  rpgb_Page :: int
  rpgb_PageSize :: int

record RoleBatchBody =
  rbb_Items :: "RoleBody list"

record BindingPageResponseBody =
  bpgb_Items :: "BindingBody list"
  bpgb_Total :: int
  bpgb_Page :: int
  bpgb_PageSize :: int

record RolePermissionsBody =
  rpsb_RolePermissions :: "RolePermissionBody list"

record DecisionsBody =
  dsb_Decisions :: "DecisionBody list"

section \<open>Filling the responses\<close>

definition permissionBody :: "Permission \<Rightarrow> PermissionBody" where
  "permissionBody v =
     \<lparr>pb_ID = p_ID v, pb_TenantID = p_TenantID v, pb_Code = p_Code v, pb_Name = p_Name v, pb_ResourceType = p_ResourceType v,
      pb_Action = p_Action v, pb_ConditionExpression = p_ConditionExpression v, pb_Status = p_Status v,
      pb_Version = Version (p_Audit v), pb_CreatedAt = CreatedAt (p_Audit v), pb_UpdatedAt = UpdatedAt (p_Audit v),
      pb_CreatedBy = CreatedBy (p_Audit v), pb_UpdatedBy = UpdatedBy (p_Audit v)\<rparr>"

definition roleBody :: "Role \<Rightarrow> RoleBody" where
  "roleBody v =
     \<lparr>rb_ID = r_ID v, rb_TenantID = r_TenantID v, rb_Code = r_Code v, rb_Name = r_Name v, rb_Description = r_Description v,
      rb_DataScope = r_DataScope v, rb_Status = r_Status v,
      rb_Version = Version (r_Audit v), rb_CreatedAt = CreatedAt (r_Audit v), rb_UpdatedAt = UpdatedAt (r_Audit v),
      rb_CreatedBy = CreatedBy (r_Audit v), rb_UpdatedBy = UpdatedBy (r_Audit v)\<rparr>"

definition rolePermissionBody :: "RolePermission \<Rightarrow> RolePermissionBody" where
  "rolePermissionBody v =
     \<lparr>rpb_ID = rp_ID v, rpb_TenantID = rp_TenantID v, rpb_RoleID = rp_RoleID v, rpb_PermissionID = rp_PermissionID v,
      rpb_Status = rp_Status v,
      rpb_Version = Version (rp_Audit v), rpb_CreatedAt = CreatedAt (rp_Audit v), rpb_UpdatedAt = UpdatedAt (rp_Audit v),
      rpb_CreatedBy = CreatedBy (rp_Audit v), rpb_UpdatedBy = UpdatedBy (rp_Audit v)\<rparr>"

definition bindingBody :: "Binding \<Rightarrow> BindingBody" where
  "bindingBody v =
     \<lparr>bb_ID = b_ID v, bb_TenantID = b_TenantID v, bb_SubjectID = b_SubjectID v, bb_SubjectType = b_SubjectType v,
      bb_RoleID = b_RoleID v, bb_OrganizationUnitID = b_OrganizationUnitID v, bb_Status = b_Status v,
      bb_Version = Version (b_Audit v), bb_CreatedAt = CreatedAt (b_Audit v), bb_UpdatedAt = UpdatedAt (b_Audit v),
      bb_CreatedBy = CreatedBy (b_Audit v), bb_UpdatedBy = UpdatedBy (b_Audit v)\<rparr>"

definition decisionBody :: "Decision \<Rightarrow> DecisionBody" where
  "decisionBody v =
     \<lparr>deb_Allowed = d_Allowed v, deb_DecisionID = d_DecisionID v, deb_Reason = d_Reason v, deb_PolicyVersion = d_PolicyVersion v,
      deb_DataScope = d_DataScope v, deb_OrganizationUnitIDs = d_OrganizationUnitIDs v\<rparr>"

definition permissionBodies :: "Permission list \<Rightarrow> PermissionBody list" where
  "permissionBodies vs = map permissionBody vs"

definition roleBodies :: "Role list \<Rightarrow> RoleBody list" where
  "roleBodies vs = map roleBody vs"

definition rolePermissionBodies :: "RolePermission list \<Rightarrow> RolePermissionBody list" where
  "rolePermissionBodies vs = map rolePermissionBody vs"

definition bindingBodies :: "Binding list \<Rightarrow> BindingBody list" where
  "bindingBodies vs = map bindingBody vs"

definition permissionPageBody :: "Permission Page \<Rightarrow> PermissionPageBody" where
  "permissionPageBody v =
     \<lparr>ppgb_Items = permissionBodies (pg_Items v), ppgb_Total = pg_Total v, ppgb_Page = pg_Page v, ppgb_PageSize = pg_PageSize v\<rparr>"

definition rolePageBody :: "Role Page \<Rightarrow> RolePageBody" where
  "rolePageBody v =
     \<lparr>rpgb_Items = roleBodies (pg_Items v), rpgb_Total = pg_Total v, rpgb_Page = pg_Page v, rpgb_PageSize = pg_PageSize v\<rparr>"

definition roleBatchBody :: "Role list \<Rightarrow> RoleBatchBody" where
  "roleBatchBody vs = \<lparr>rbb_Items = map roleBody vs\<rparr>"

definition bindingPageBody :: "Binding Page \<Rightarrow> BindingPageResponseBody" where
  "bindingPageBody v =
     \<lparr>bpgb_Items = bindingBodies (pg_Items v), bpgb_Total = pg_Total v, bpgb_Page = pg_Page v, bpgb_PageSize = pg_PageSize v\<rparr>"

section \<open>No response loses a field\<close>

lemma permissionBody_inject: "permissionBody v = permissionBody v' \<Longrightarrow> v = v'"
  by (cases v; cases v') (auto simp: permissionBody_def intro: AuditFields.equality)

lemma roleBody_inject: "roleBody v = roleBody v' \<Longrightarrow> v = v'"
  by (cases v; cases v') (auto simp: roleBody_def intro: AuditFields.equality)

lemma rolePermissionBody_inject: "rolePermissionBody v = rolePermissionBody v' \<Longrightarrow> v = v'"
  by (cases v; cases v') (auto simp: rolePermissionBody_def intro: AuditFields.equality)

lemma bindingBody_inject: "bindingBody v = bindingBody v' \<Longrightarrow> v = v'"
  by (cases v; cases v') (auto simp: bindingBody_def intro: AuditFields.equality)

end
