(* ===== verification/Http_Handlers.thy ===== *)
theory Http_Handlers
  imports Http_Requests Service Decisions
begin

text \<open>
  The HTTP handlers of \<open>internal/transport/http\<close>: \<open>response.go\<close> (the reply and the mapping of
  errors), \<open>authorization_handler.go\<close> and \<open>route_policy_handler.go\<close>.

  A handler receives what the JSON decoder made of the body (an error or the struct), the request
  context and the world, and returns the reply (status and response struct) and the world after.
  \<open>es n\<close> is the environment of the \<open>n\<close>-th call that the handler makes to the service: its
  clock readings, fresh identifiers and database connections. The request identifier of the gin
  context and of the request context are set together by the middleware, so the latter is used.
\<close>

section \<open>Replies\<close>

record 'b Response =
  rs_Code :: errcode
  rs_Message :: gostring
  rs_Body :: "'b option"
  rs_RequestID :: gostring

type_synonym 'b reply = "int \<times> 'b Response"

definition requestID :: "ctx \<Rightarrow> gostring" where
  "requestID x = (case ctx_requestID x of Some i \<Rightarrow> i | None \<Rightarrow> [])"

definition OK :: "ctx \<Rightarrow> 'b \<Rightarrow> 'b reply" where
  "OK x body = (200, \<lparr>rs_Code = CodeOK, rs_Message = ''success'', rs_Body = Some body, rs_RequestID = requestID x\<rparr>)"

definition Fail :: "ctx \<Rightarrow> goerr \<Rightarrow> 'b reply" where
  "Fail x err =
     (let appErr = (case as_app err of Some a \<Rightarrow> a | None \<Rightarrow> Internal err) in
      (err_HTTPStatus appErr,
       \<lparr>rs_Code = err_Code appErr, rs_Message = err_Message appErr, rs_Body = None, rs_RequestID = requestID x\<rparr>))"

text \<open>\<open>c.ShouldBindJSON\<close>: decoding, then the rules of the struct.\<close>

definition ShouldBindJSON :: "('r \<Rightarrow> bool) \<Rightarrow> 'r result \<Rightarrow> 'r result" where
  "ShouldBindJSON valid json =
     (case json of Inl err \<Rightarrow> Inl err | Inr r \<Rightarrow> if valid r then Inr r else Inl (OtherError ''validation failed''))"

text \<open>The two frames that the handlers share: binding the request, and answering with the outcome
  of a service call.\<close>

definition bound :: "ctx \<Rightarrow> ('r \<Rightarrow> bool) \<Rightarrow> 'r result \<Rightarrow> 'w \<Rightarrow> ('r \<Rightarrow> 'b reply \<times> 'w) \<Rightarrow> 'b reply \<times> 'w" where
  "bound x valid json w serve =
     (case ShouldBindJSON valid json of
        Inl err \<Rightarrow> (Fail x (Invalid ''invalid json request'' (Some err)), w)
      | Inr request \<Rightarrow> serve request)"

definition answer :: "ctx \<Rightarrow> ('v \<Rightarrow> 'b) \<Rightarrow> 'v result \<Rightarrow> 'b reply" where
  "answer x body r = (case r of Inl err \<Rightarrow> Fail x err | Inr v \<Rightarrow> OK x (body v))"

definition permissionFilter ::
  "gostring \<Rightarrow> gostring list \<Rightarrow> gostring list \<Rightarrow> gostring list \<Rightarrow> gostring list \<Rightarrow> time option \<Rightarrow> time option \<Rightarrow> PermissionFilter" where
  "permissionFilter keyword ids statuses resourceTypes actions from to =
     \<lparr>pf_Keyword = keyword, pf_IDs = ids, pf_Statuses = statuses, pf_ResourceTypes = resourceTypes, pf_Actions = actions,
      pf_CreatedFrom = from, pf_CreatedTo = to\<rparr>"

definition roleFilter ::
  "gostring \<Rightarrow> gostring list \<Rightarrow> gostring list \<Rightarrow> gostring list \<Rightarrow> time option \<Rightarrow> time option \<Rightarrow> RoleFilter" where
  "roleFilter keyword ids statuses dataScopes from to =
     \<lparr>rf_Keyword = keyword, rf_IDs = ids, rf_Statuses = statuses, rf_DataScopes = dataScopes, rf_CreatedFrom = from, rf_CreatedTo = to\<rparr>"

definition bindingFilter ::
  "gostring \<Rightarrow> gostring \<Rightarrow> gostring list \<Rightarrow> gostring list \<Rightarrow> gostring list \<Rightarrow> gostring list \<Rightarrow> time option \<Rightarrow> time option \<Rightarrow> BindingFilter" where
  "bindingFilter subjectID subjectType ids roleIDs statuses organizationUnitIDs from to =
     \<lparr>bf_SubjectID = subjectID, bf_SubjectType = subjectType, bf_IDs = ids, bf_RoleIDs = roleIDs, bf_Statuses = statuses,
      bf_OrganizationUnitIDs = organizationUnitIDs, bf_CreatedFrom = from, bf_CreatedTo = to\<rparr>"

section \<open>The caller's own scope\<close>

definition currentPermissionSubject :: "Principal \<Rightarrow> gostring \<Rightarrow> gostring \<Rightarrow> (gostring \<times> gostring \<times> gostring) result" where
  "currentPermissionSubject caller selectedTenantID0 scope0 =
     (let selectedTenantID = TrimSpace selectedTenantID0;
          scope1 = ToLower (TrimSpace scope0);
          scope = (if scope1 = [] then ''tenant'' else scope1) in
      if pr_Type caller \<noteq> TypeUser \<or> TrimSpace (pr_MembershipID caller) = [] \<or> TrimSpace (pr_TenantID caller) \<noteq> selectedTenantID
      then Inl (Forbidden ''tenant-scoped user membership is required'')
      else if scope = ''tenant'' then Inr (selectedTenantID, pr_MembershipID caller, ''membership'')
      else if scope = ''platform'' then Inr (''__platform__'', pr_ID caller, ''user'')
      else Inl (Invalid ''permission_scope must be tenant or platform'' None))"

definition bindDecisionToCaller :: "ctx \<Rightarrow> CheckAuthorizationRequest \<Rightarrow> CheckAuthorizationRequest result" where
  "bindDecisionToCaller x request =
     (case ctx_principal x of
        None \<Rightarrow> Inl (Unauthorized ''authenticated caller is required'')
      | Some caller \<Rightarrow>
          if pr_Type caller \<noteq> TypeUser then Inr request
          else
            let tenantID = TrimSpace (car_TenantID request) in
            if tenantID = ''__platform__'' \<and> car_SubjectType request = ''user'' \<and> car_SubjectID request = pr_ID caller
            then Inr request
            else if tenantID \<noteq> TrimSpace (pr_TenantID caller) \<or> TrimSpace (pr_MembershipID caller) = []
            then Inl (Forbidden ''authorization subject must match the authenticated tenant membership'')
            else Inr (request\<lparr>car_SubjectID := pr_MembershipID caller, car_SubjectType := ''membership''\<rparr>))"

text \<open>The four \<open>authorizeUser\<dots>Management\<close> helpers: on success the request continues with the
  context that carries the authorized tenant.\<close>

type_synonym authorized = "(ctx \<times> gostring) result \<times> world"

definition authorizeUserPermissionManagement :: "env \<Rightarrow> ctx \<Rightarrow> gostring \<Rightarrow> gostring \<Rightarrow> gostring \<Rightarrow> world \<Rightarrow> authorized" where
  "authorizeUserPermissionManagement e x tenantID scope action w =
     svc_AuthorizeUserManagementScope e x tenantID scope ''authorization.permission'' action w"

definition authorizeUserRoleManagement :: "env \<Rightarrow> ctx \<Rightarrow> gostring \<Rightarrow> gostring \<Rightarrow> gostring \<Rightarrow> world \<Rightarrow> authorized" where
  "authorizeUserRoleManagement e x tenantID scope action w =
     svc_AuthorizeUserManagementScope e x tenantID scope ''authorization.role'' action w"

definition authorizeUserRolePermissionManagement :: "env \<Rightarrow> ctx \<Rightarrow> gostring \<Rightarrow> gostring \<Rightarrow> gostring \<Rightarrow> world \<Rightarrow> authorized" where
  "authorizeUserRolePermissionManagement e x tenantID scope action w =
     svc_AuthorizeUserManagementScope e x tenantID scope ''authorization.role-permission'' action w"

definition authorizeUserBindingManagement :: "env \<Rightarrow> ctx \<Rightarrow> gostring \<Rightarrow> gostring \<Rightarrow> gostring \<Rightarrow> world \<Rightarrow> authorized" where
  "authorizeUserBindingManagement e x tenantID scope action w =
     svc_AuthorizeUserManagementScope e x tenantID scope ''authorization.binding'' action w"

definition authorized :: "ctx \<Rightarrow> authorized \<Rightarrow> (ctx \<Rightarrow> gostring \<Rightarrow> world \<Rightarrow> 'b reply \<times> world) \<Rightarrow> 'b reply \<times> world" where
  "authorized x outcome serve =
     (case outcome of
        (Inl err, w') \<Rightarrow> (Fail x err, w')
      | (Inr (x', tenantID), w') \<Rightarrow> serve x' tenantID w')"

type_synonym ('r, 'b) handler = "(nat \<Rightarrow> env) \<Rightarrow> ctx \<Rightarrow> 'r result \<Rightarrow> world \<Rightarrow> 'b reply \<times> world"

section \<open>Permissions\<close>

definition http_CreatePermission :: "(CreatePermissionRequest, PermissionBody) handler" where
  "http_CreatePermission es x json w =
     bound x valid_CreatePermissionRequest json w (\<lambda>request.
       apfst (answer x permissionBody)
         (svc_CreatePermission (es 0) x (cpr_TenantID request) (cpr_Code request) (cpr_Name request) (cpr_ResourceType request)
            (cpr_Action request) [cpr_ConditionExpression request] w))"

definition http_GetPermission :: "(GetPermissionRequest, PermissionBody) handler" where
  "http_GetPermission es x json w =
     bound x valid_GetPermissionRequest json w (\<lambda>r.
       (answer x permissionBody (svc_GetPermission (es 0) x (gpr_TenantID r) (gpr_PermissionID r) w), w))"

definition http_UpdatePermission :: "(UpdatePermissionRequest, PermissionBody) handler" where
  "http_UpdatePermission es x json w =
     bound x valid_UpdatePermissionRequest json w (\<lambda>request.
       apfst (answer x permissionBody)
         (svc_UpdatePermission (es 0) x (upr_TenantID request) (upr_PermissionID request) (upr_Name request)
            (upr_ConditionExpression request) (upr_Status request) (upr_Version request) w))"

definition http_ListPermissions :: "(ListPermissionsRequest, PermissionPageBody) handler" where
  "http_ListPermissions es x json w =
     bound x valid_ListPermissionsRequest json w (\<lambda>request.
       (answer x permissionPageBody
          (svc_SearchPermissions (es 0) x (lpr_TenantID request)
             (permissionFilter (lpr_Keyword request) (lpr_PermissionIDs request) (lpr_Statuses request) (lpr_ResourceTypes request)
                (lpr_Actions request) (lpr_CreatedFrom request) (lpr_CreatedTo request))
             (lpr_Page request) (lpr_PageSize request) w), w))"

definition http_ListMyPermissionCatalog :: "(ListMyPermissionCatalogRequest, PermissionPageBody) handler" where
  "http_ListMyPermissionCatalog es x json w =
     bound x valid_ListMyPermissionCatalogRequest json w (\<lambda>request.
       case ctx_principal x of
         None \<Rightarrow> (Fail x (Unauthorized ''authenticated caller is required''), w)
       | Some caller \<Rightarrow>
           (case currentPermissionSubject caller (lmpcr_TenantID request) (lmpcr_PermissionScope request) of
              Inl err \<Rightarrow> (Fail x err, w)
            | Inr (tenantID, subjectID, subjectType) \<Rightarrow>
                (case svc_CheckWithAttributes (es 0) x tenantID subjectID subjectType ''authorization.permission'' [] ''list'' [] w of
                   (Inl err, w') \<Rightarrow> (Fail x err, w')
                 | (Inr decision, w') \<Rightarrow>
                     if \<not> d_Allowed decision then (Fail x (Forbidden ''permission catalog access denied''), w')
                     else (answer x permissionPageBody
                             (svc_ListPermissionCatalog (es 1) x tenantID (lmpcr_Search request) (lmpcr_Page request)
                                (lmpcr_PageSize request) w'), w'))))"

definition http_CreateMyPermission :: "(CreateMyPermissionRequest, PermissionBody) handler" where
  "http_CreateMyPermission es x json w =
     bound x valid_CreateMyPermissionRequest json w (\<lambda>request.
       authorized x (authorizeUserPermissionManagement (es 0) x (cmpr_TenantID request) (cmpr_PermissionScope request) ''create'' w)
         (\<lambda>x tenantID w. apfst (answer x permissionBody)
            (svc_CreatePermission (es 1) x tenantID (cmpr_Code request) (cmpr_Name request) (cmpr_ResourceType request)
               (cmpr_Action request) [cmpr_ConditionExpression request] w)))"

definition http_GetMyPermission :: "(GetMyPermissionRequest, PermissionBody) handler" where
  "http_GetMyPermission es x json w =
     bound x valid_GetMyPermissionRequest json w (\<lambda>r.
       authorized x (authorizeUserPermissionManagement (es 0) x (gmpr_TenantID r) (gmpr_PermissionScope r) ''read'' w)
         (\<lambda>x tenantID w. (answer x permissionBody (svc_GetPermission (es 1) x (gmpr_TenantID r) (gmpr_PermissionID r) w), w)))"

definition http_UpdateMyPermission :: "(UpdateMyPermissionRequest, PermissionBody) handler" where
  "http_UpdateMyPermission es x json w =
     bound x valid_UpdateMyPermissionRequest json w (\<lambda>request.
       authorized x (authorizeUserPermissionManagement (es 0) x (umpr_TenantID request) (umpr_PermissionScope request) ''update'' w)
         (\<lambda>x tenantID w. apfst (answer x permissionBody)
            (svc_UpdatePermission (es 1) x (umpr_TenantID request) (umpr_PermissionID request) (umpr_Name request)
               (umpr_ConditionExpression request) (umpr_Status request) (umpr_Version request) w)))"

definition http_ListMyPermissions :: "(ListMyPermissionsRequest, PermissionPageBody) handler" where
  "http_ListMyPermissions es x json w =
     bound x valid_ListMyPermissionsRequest json w (\<lambda>request.
       authorized x (authorizeUserPermissionManagement (es 0) x (lmpr_TenantID request) (lmpr_PermissionScope request) ''list'' w)
         (\<lambda>x tenantID w.
            (answer x permissionPageBody
               (svc_SearchPermissions (es 1) x tenantID
                  (permissionFilter (lmpr_Keyword request) (lmpr_PermissionIDs request) (lmpr_Statuses request)
                     (lmpr_ResourceTypes request) (lmpr_Actions request) (lmpr_CreatedFrom request) (lmpr_CreatedTo request))
                  (lmpr_Page request) (lmpr_PageSize request) w), w)))"

section \<open>Roles\<close>

definition http_CreateRole :: "(CreateRoleRequest, RoleBody) handler" where
  "http_CreateRole es x json w =
     bound x valid_CreateRoleRequest json w (\<lambda>request.
       apfst (answer x roleBody)
         (svc_CreateRole (es 0) x (crr_TenantID request) (crr_Code request) (crr_Name request) (crr_Description request)
            (crr_DataScope request) w))"

definition http_GetRole :: "(GetRoleRequest, RoleBody) handler" where
  "http_GetRole es x json w =
     bound x valid_GetRoleRequest json w (\<lambda>r.
       (answer x roleBody (svc_GetRole (es 0) x (grr_TenantID r) (grr_RoleID r) w), w))"

definition http_UpdateRole :: "(UpdateRoleRequest, RoleBody) handler" where
  "http_UpdateRole es x json w =
     bound x valid_UpdateRoleRequest json w (\<lambda>request.
       apfst (answer x roleBody)
         (svc_UpdateRole (es 0) x (urr_TenantID request) (urr_RoleID request) (urr_Name request) (urr_Description request)
            (urr_DataScope request) (urr_Status request) (urr_Version request) w))"

definition http_ListRoles :: "(ListRolesRequest, RolePageBody) handler" where
  "http_ListRoles es x json w =
     bound x valid_ListRolesRequest json w (\<lambda>request.
       (answer x rolePageBody
          (svc_SearchRolesFiltered (es 0) x (lrr_TenantID request)
             (roleFilter (lrr_Keyword request) (lrr_RoleIDs request) (lrr_Statuses request) (lrr_DataScopes request)
                (lrr_CreatedFrom request) (lrr_CreatedTo request))
             (lrr_Page request) (lrr_PageSize request) w), w))"

definition http_CreateMyRole :: "(CreateMyRoleRequest, RoleBody) handler" where
  "http_CreateMyRole es x json w =
     bound x valid_CreateMyRoleRequest json w (\<lambda>request.
       authorized x (authorizeUserRoleManagement (es 0) x (cmrr_TenantID request) (cmrr_PermissionScope request) ''create'' w)
         (\<lambda>x tenantID w. apfst (answer x roleBody)
            (svc_CreateRole (es 1) x tenantID (cmrr_Code request) (cmrr_Name request) (cmrr_Description request)
               (cmrr_DataScope request) w)))"

definition http_GetMyRole :: "(GetMyRoleRequest, RoleBody) handler" where
  "http_GetMyRole es x json w =
     bound x valid_GetMyRoleRequest json w (\<lambda>r.
       authorized x (authorizeUserRoleManagement (es 0) x (gmrr_TenantID r) (gmrr_PermissionScope r) ''read'' w)
         (\<lambda>x tenantID w. (answer x roleBody (svc_GetRole (es 1) x (gmrr_TenantID r) (gmrr_RoleID r) w), w)))"

definition http_UpdateMyRole :: "(UpdateMyRoleRequest, RoleBody) handler" where
  "http_UpdateMyRole es x json w =
     bound x valid_UpdateMyRoleRequest json w (\<lambda>request.
       authorized x (authorizeUserRoleManagement (es 0) x (umrr_TenantID request) (umrr_PermissionScope request) ''update'' w)
         (\<lambda>x tenantID w. apfst (answer x roleBody)
            (svc_UpdateRole (es 1) x (umrr_TenantID request) (umrr_RoleID request) (umrr_Name request) (umrr_Description request)
               (umrr_DataScope request) (umrr_Status request) (umrr_Version request) w)))"

definition http_ListMyRoles :: "(ListMyRolesRequest, RolePageBody) handler" where
  "http_ListMyRoles es x json w =
     bound x valid_ListMyRolesRequest json w (\<lambda>request.
       authorized x (authorizeUserRoleManagement (es 0) x (lmrr_TenantID request) (lmrr_PermissionScope request) ''list'' w)
         (\<lambda>x tenantID w.
            let statuses = (if lmrr_Status request \<noteq> [] then lmrr_Statuses request @ [lmrr_Status request] else lmrr_Statuses request) in
            (answer x rolePageBody
               (svc_SearchRolesFiltered (es 1) x tenantID
                  (roleFilter (lmrr_Keyword request) (lmrr_RoleIDs request) statuses (lmrr_DataScopes request)
                     (lmrr_CreatedFrom request) (lmrr_CreatedTo request))
                  (lmrr_Page request) (lmrr_PageSize request) w), w)))"

definition http_BatchGetMyRoles :: "(BatchGetMyRolesRequest, RoleBatchBody) handler" where
  "http_BatchGetMyRoles es x json w =
     bound x valid_BatchGetMyRolesRequest json w (\<lambda>request.
       authorized x (authorizeUserRoleManagement (es 0) x (bgmrr_TenantID request) (bgmrr_PermissionScope request) ''list'' w)
         (\<lambda>x tenantID w.
            (answer x roleBatchBody (svc_BatchGetRoles (es 1) x tenantID (elements (bgmrr_RoleIDs request)) w), w)))"

section \<open>Role permissions\<close>

definition http_GrantRolePermission :: "(GrantRolePermissionRequest, RolePermissionBody) handler" where
  "http_GrantRolePermission es x json w =
     bound x valid_GrantRolePermissionRequest json w (\<lambda>request.
       apfst (answer x rolePermissionBody)
         (svc_GrantRolePermission (es 0) x (grpr_TenantID request) (grpr_RoleID request) (grpr_PermissionID request) w))"

definition http_RevokeRolePermission :: "(RevokeRolePermissionRequest, RolePermissionBody) handler" where
  "http_RevokeRolePermission es x json w =
     bound x valid_RevokeRolePermissionRequest json w (\<lambda>request.
       apfst (answer x rolePermissionBody)
         (svc_RevokeRolePermission (es 0) x (rrpr_TenantID request) (rrpr_RolePermissionID request) (rrpr_Version request) w))"

definition rolePermissionsBody :: "RolePermission list \<Rightarrow> RolePermissionsBody" where
  "rolePermissionsBody value = \<lparr>rpsb_RolePermissions = rolePermissionBodies value\<rparr>"

definition http_ListRolePermissions :: "(ListRolePermissionsRequest, RolePermissionsBody) handler" where
  "http_ListRolePermissions es x json w =
     bound x valid_ListRolePermissionsRequest json w (\<lambda>request.
       (answer x rolePermissionsBody (svc_ListRolePermissions (es 0) x (lrpr_TenantID request) (lrpr_RoleID request) w), w))"

definition http_GrantMyRolePermission :: "(GrantMyRolePermissionRequest, RolePermissionBody) handler" where
  "http_GrantMyRolePermission es x json w =
     bound x valid_GrantMyRolePermissionRequest json w (\<lambda>request.
       authorized x (authorizeUserRolePermissionManagement (es 0) x (gmrpr_TenantID request) (gmrpr_PermissionScope request) ''grant'' w)
         (\<lambda>x tenantID w. apfst (answer x rolePermissionBody)
            (svc_GrantRolePermission (es 1) x tenantID (gmrpr_RoleID request) (gmrpr_PermissionID request) w)))"

definition http_RevokeMyRolePermission :: "(RevokeMyRolePermissionRequest, RolePermissionBody) handler" where
  "http_RevokeMyRolePermission es x json w =
     bound x valid_RevokeMyRolePermissionRequest json w (\<lambda>request.
       authorized x (authorizeUserRolePermissionManagement (es 0) x (rmrpr_TenantID request) (rmrpr_PermissionScope request) ''revoke'' w)
         (\<lambda>x tenantID w. apfst (answer x rolePermissionBody)
            (svc_RevokeRolePermission (es 1) x (rmrpr_TenantID request) (rmrpr_RolePermissionID request) (rmrpr_Version request) w)))"

definition http_ListMyRolePermissions :: "(ListMyRolePermissionsRequest, RolePermissionsBody) handler" where
  "http_ListMyRolePermissions es x json w =
     bound x valid_ListMyRolePermissionsRequest json w (\<lambda>request.
       authorized x (authorizeUserRolePermissionManagement (es 0) x (lmrpr_TenantID request) (lmrpr_PermissionScope request) ''list'' w)
         (\<lambda>x tenantID w.
            (answer x rolePermissionsBody (svc_ListRolePermissions (es 1) x (lmrpr_TenantID request) (lmrpr_RoleID request) w), w)))"

definition http_BatchGetMyRolePermissions :: "(BatchGetMyRolePermissionsRequest, RolePermissionsBody) handler" where
  "http_BatchGetMyRolePermissions es x json w =
     bound x valid_BatchGetMyRolePermissionsRequest json w (\<lambda>request.
       authorized x (authorizeUserRoleManagement (es 0) x (bgmrpr_TenantID request) (bgmrpr_PermissionScope request) ''list'' w)
         (\<lambda>x tenantID w.
            (answer x rolePermissionsBody
               (svc_BatchGetRolePermissions (es 1) x (bgmrpr_TenantID request) (bgmrpr_RoleID request)
                  (elements (bgmrpr_PermissionIDs request)) w), w)))"

section \<open>Bindings\<close>

definition http_CreateBinding :: "(CreateBindingRequest, BindingBody) handler" where
  "http_CreateBinding es x json w =
     bound x valid_CreateBindingRequest json w (\<lambda>request.
       apfst (answer x bindingBody)
         (svc_CreateBinding (es 0) x (cbr_TenantID request) (cbr_SubjectID request) (cbr_SubjectType request) (cbr_RoleID request)
            (cbr_OrganizationUnitID request) w))"

definition http_RevokeBinding :: "(RevokeBindingRequest, BindingBody) handler" where
  "http_RevokeBinding es x json w =
     bound x valid_RevokeBindingRequest json w (\<lambda>request.
       apfst (answer x bindingBody)
         (svc_RevokeBinding (es 0) x (rbr_TenantID request) (rbr_BindingID request) (rbr_Version request) w))"

definition http_GetBinding :: "(GetBindingRequest, BindingBody) handler" where
  "http_GetBinding es x json w =
     bound x valid_GetBindingRequest json w (\<lambda>request.
       (answer x bindingBody (svc_GetBinding (es 0) x (gbr_TenantID request) (gbr_BindingID request) w), w))"

definition http_GetMyBinding :: "(GetMyBindingRequest, BindingBody) handler" where
  "http_GetMyBinding es x json w =
     bound x valid_GetMyBindingRequest json w (\<lambda>request.
       authorized x (authorizeUserBindingManagement (es 0) x (gmbr_TenantID request) (gmbr_PermissionScope request) ''read'' w)
         (\<lambda>x tenantID w. (answer x bindingBody (svc_GetBinding (es 1) x (gmbr_TenantID request) (gmbr_BindingID request) w), w)))"

definition http_ListBindings :: "(ListBindingsRequest, BindingPageResponseBody) handler" where
  "http_ListBindings es x json w =
     bound x valid_ListBindingsRequest json w (\<lambda>request.
       (answer x bindingPageBody
          (svc_SearchBindings (es 0) x (lbr_TenantID request)
             (bindingFilter (lbr_SubjectID request) (lbr_SubjectType request) (lbr_BindingIDs request) (lbr_RoleIDs request)
                (lbr_Statuses request) (lbr_OrganizationUnitIDs request) (lbr_CreatedFrom request) (lbr_CreatedTo request))
             (lbr_Page request) (lbr_PageSize request) w), w))"

definition http_CreateMyBinding :: "(CreateMyBindingRequest, BindingBody) handler" where
  "http_CreateMyBinding es x json w =
     bound x valid_CreateMyBindingRequest json w (\<lambda>request.
       authorized x (authorizeUserBindingManagement (es 0) x (cmbr_TenantID request) (cmbr_PermissionScope request) ''create'' w)
         (\<lambda>x tenantID w. apfst (answer x bindingBody)
            (svc_CreateBinding (es 1) x tenantID (cmbr_SubjectID request) (cmbr_SubjectType request) (cmbr_RoleID request)
               (cmbr_OrganizationUnitID request) w)))"

definition http_RevokeMyBinding :: "(RevokeMyBindingRequest, BindingBody) handler" where
  "http_RevokeMyBinding es x json w =
     bound x valid_RevokeMyBindingRequest json w (\<lambda>request.
       authorized x (authorizeUserBindingManagement (es 0) x (rmbr_TenantID request) (rmbr_PermissionScope request) ''revoke'' w)
         (\<lambda>x tenantID w. apfst (answer x bindingBody)
            (svc_RevokeBinding (es 1) x (rmbr_TenantID request) (rmbr_BindingID request) (rmbr_Version request) w)))"

definition http_ListMyBindings :: "(ListMyBindingsRequest, BindingPageResponseBody) handler" where
  "http_ListMyBindings es x json w =
     bound x valid_ListMyBindingsRequest json w (\<lambda>request.
       authorized x (authorizeUserBindingManagement (es 0) x (lmbr_TenantID request) (lmbr_PermissionScope request) ''list'' w)
         (\<lambda>x tenantID w.
            (answer x bindingPageBody
               (svc_SearchBindings (es 1) x tenantID
                  (bindingFilter (lmbr_SubjectID request) (lmbr_SubjectType request) (lmbr_BindingIDs request) (lmbr_RoleIDs request)
                     (lmbr_Statuses request) (lmbr_OrganizationUnitIDs request) (lmbr_CreatedFrom request) (lmbr_CreatedTo request))
                  (lmbr_Page request) (lmbr_PageSize request) w), w)))"

section \<open>Checks\<close>

definition check_bound :: "env \<Rightarrow> ctx \<Rightarrow> CheckAuthorizationRequest \<Rightarrow> world \<Rightarrow> Decision result \<times> world" where
  "check_bound e x request0 w =
     (case bindDecisionToCaller x request0 of
        Inl err \<Rightarrow> (Inl err, w)
      | Inr request \<Rightarrow>
          svc_CheckWithAttributes e x (car_TenantID request) (car_SubjectID request) (car_SubjectType request)
            (car_ResourceType request) (car_ResourceID request) (car_Action request) (car_Attributes request) w)"

definition http_CheckAuthorization :: "(CheckAuthorizationRequest, DecisionBody) handler" where
  "http_CheckAuthorization es x json w =
     bound x valid_CheckAuthorizationRequest json w (\<lambda>request.
       apfst (answer x decisionBody) (check_bound (es 0) x request w))"

text \<open>The loop of \<open>BatchCheckAuthorization\<close>: the first failure ends it; the checks before it
  have filled the cache.\<close>

fun batch_checks ::
  "(nat \<Rightarrow> env) \<Rightarrow> nat \<Rightarrow> ctx \<Rightarrow> CheckAuthorizationRequest list \<Rightarrow> DecisionBody list \<Rightarrow> world \<Rightarrow> DecisionBody list result \<times> world" where
  "batch_checks es n x [] decisions w = (Inr decisions, w)"
| "batch_checks es n x (check # checks) decisions w =
     (case check_bound (es n) x check w of
        (Inl err, w') \<Rightarrow> (Inl err, w')
      | (Inr decision, w') \<Rightarrow> batch_checks es (Suc n) x checks (decisions @ [decisionBody decision]) w')"

definition http_BatchCheckAuthorization :: "(BatchCheckAuthorizationRequest, DecisionsBody) handler" where
  "http_BatchCheckAuthorization es x json w =
     bound x valid_BatchCheckAuthorizationRequest json w (\<lambda>request.
       apfst (answer x (\<lambda>decisions. \<lparr>dsb_Decisions = decisions\<rparr>)) (batch_checks es 0 x (bcar_Checks request) [] w))"

definition permissionCodeDecisionBody :: "PermissionCodeDecision \<Rightarrow> PermissionCodeDecisionBody" where
  "permissionCodeDecisionBody d = \<lparr>pcdb_AllowedCodes = pcd_AllowedCodes d, pcdb_PolicyVersion = pcd_PolicyVersion d\<rparr>"

definition http_CheckMyPermissionCodes :: "(CheckMyPermissionCodesRequest, PermissionCodeDecisionBody) handler" where
  "http_CheckMyPermissionCodes es x json w =
     bound x valid_CheckMyPermissionCodesRequest json w (\<lambda>request.
       case ctx_principal x of
         None \<Rightarrow> (Fail x (Unauthorized ''authenticated caller is required''), w)
       | Some caller \<Rightarrow>
           (case currentPermissionSubject caller (cmpcr_TenantID request) (cmpcr_PermissionScope request) of
              Inl err \<Rightarrow> (Fail x err, w)
            | Inr (tenantID, subjectID, subjectType) \<Rightarrow>
                (answer x permissionCodeDecisionBody
                   (svc_CheckPermissionCodes (es 0) x tenantID subjectID subjectType (cmpcr_PermissionCodes request) w), w)))"

section \<open>Route policies\<close>

record RoutePolicyPage =
  rpp_Items :: "Detail list"
  rpp_Total :: int
  rpp_Page :: int
  rpp_PageSize :: int

text \<open>These handlers report a body that does not bind with a message of their own.\<close>

definition bound_policy :: "ctx \<Rightarrow> ('r \<Rightarrow> bool) \<Rightarrow> 'r result \<Rightarrow> 'w \<Rightarrow> ('r \<Rightarrow> 'b reply \<times> 'w) \<Rightarrow> 'b reply \<times> 'w" where
  "bound_policy x valid json w serve =
     (case ShouldBindJSON valid json of
        Inl err \<Rightarrow> (Fail x (Invalid ''invalid request'' (Some err)), w)
      | Inr request \<Rightarrow> serve request)"

definition http_PageRoutePolicies ::
  "policy_env \<Rightarrow> ctx \<Rightarrow> PageRoutePoliciesRequest result \<Rightarrow> route_world \<Rightarrow> RoutePolicyPage reply \<times> route_world" where
  "http_PageRoutePolicies pe x json w =
     bound_policy x (\<lambda>r. True) json w (\<lambda>request.
       let page = (if prpr_Page request = 0 then 1 else prpr_Page request);
           pageSize = (if prpr_PageSize request = 0 then 20 else prpr_PageSize request) in
       (answer x (\<lambda>(items, total_count). \<lparr>rpp_Items = items, rpp_Total = total_count, rpp_Page = page, rpp_PageSize = pageSize\<rparr>)
          (rps_Page pe \<lparr>fi_Keyword = prpr_Keyword request, fi_Protocol = prpr_Protocol request,
             fi_RouteStatus = prpr_RouteStatus request, fi_PolicyStatus = prpr_PolicyStatus request\<rparr> page pageSize (rw_db w)), w))"

definition http_GetRoutePolicy ::
  "policy_env \<Rightarrow> ctx \<Rightarrow> GetRoutePolicyRequest result \<Rightarrow> route_world \<Rightarrow> Detail reply \<times> route_world" where
  "http_GetRoutePolicy pe x json w =
     bound_policy x valid_GetRoutePolicyRequest json w (\<lambda>request.
       (answer x (\<lambda>d. d) (rps_Get pe 0 (grop_RouteID request) (rw_db w)), w))"

definition http_SetRoutePolicy ::
  "policy_env \<Rightarrow> ctx \<Rightarrow> SetRoutePolicyRequest result \<Rightarrow> route_world \<Rightarrow> Detail reply \<times> route_world" where
  "http_SetRoutePolicy pe x json w =
     bound_policy x valid_SetRoutePolicyRequest json w (\<lambda>request.
       apfst (answer x (\<lambda>d. d))
         (rps_Set pe x \<lparr>si_RouteID = srpr_RouteID request, si_Expression = srpr_Expression request,
            si_Description = srpr_Description request, si_Status = srpr_Status request,
            si_ExpectedVersion = srpr_ExpectedVersion request, si_Permissions = srpr_Permissions request\<rparr> w))"

end
