(* ===== verification/Http_Laws.thy ===== *)
theory Http_Laws
  imports Http_Handlers Coherence
begin

text \<open>
  Laws of the HTTP handlers. The seventeen handlers under the \<open>my-\<dots>\<close> paths share one contract:
  bind the request, let \<open>AuthorizeUserManagementScope\<close> decide, then run one service operation
  with the context it returned. The locale \<open>user_managed\<close> states that contract and what follows
  from it; every such handler is an instance.
\<close>

section \<open>Replies\<close>

text \<open>A reply succeeds when it carries a body.\<close>

definition succeeded :: "'b reply \<Rightarrow> bool" where
  "succeeded rep = (rs_Body (snd rep) \<noteq> None)"

lemma succeeded_simps [simp]: "succeeded (OK x b)" "\<not> succeeded (Fail x err)"
  by (simp_all add: succeeded_def OK_def Fail_def Let_def)

lemma succeeded_answer [simp]: "succeeded (answer x f r) \<longleftrightarrow> (\<exists>v. r = Inr v)"
  by (cases r) (simp_all add: answer_def)

lemma Fail_app: "as_app err = Some a \<Longrightarrow> Fail x err = (err_HTTPStatus a,
    \<lparr>rs_Code = err_Code a, rs_Message = err_Message a, rs_Body = None, rs_RequestID = requestID x\<rparr>)"
  by (simp add: Fail_def)

lemma bound_cases:
  assumes "bound x valid json w serve = (rep, w')"
  obtains (rejected) err where "rep = Fail x (Invalid ''invalid json request'' (Some err))" "w' = w"
  | (served) r where "json = Inr r" "valid r" "serve r = (rep, w')"
  using assms by (auto simp: bound_def ShouldBindJSON_def split: sum.splits if_splits)

section \<open>The management check\<close>

text \<open>The scope a user asks for selects the tenant and the subject of the check.\<close>

definition scope_target :: "env \<Rightarrow> Principal \<Rightarrow> gostring \<Rightarrow> gostring \<Rightarrow> (gostring \<times> gostring \<times> gostring) option" where
  "scope_target e caller selected scope =
     (if pr_Type caller \<noteq> TypeUser \<or> TrimSpace (pr_MembershipID caller) = [] \<or> TrimSpace (pr_TenantID caller) \<noteq> TrimSpace selected
      then None
      else if ToLower (TrimSpace scope) \<in> {[], ''tenant''} then Some (TrimSpace selected, pr_MembershipID caller, ''membership'')
      else if ToLower (TrimSpace scope) = ''platform'' then Some (PlatformTenantID e, pr_ID caller, ''user'')
      else None)"

definition allowed_by_policy :: "env \<Rightarrow> ctx \<Rightarrow> gostring \<Rightarrow> gostring \<Rightarrow> gostring \<Rightarrow> gostring \<Rightarrow> gostring \<Rightarrow> world \<Rightarrow> bool" where
  "allowed_by_policy e x t s st resource action w =
     (case fst (svc_CheckWithAttributes e x t s st resource [] action [] w) of Inl err \<Rightarrow> False | Inr d \<Rightarrow> d_Allowed d)"

definition permitted :: "env \<Rightarrow> ctx \<Rightarrow> gostring \<Rightarrow> gostring \<Rightarrow> gostring \<Rightarrow> gostring \<Rightarrow> world \<Rightarrow> gostring \<Rightarrow> bool" where
  "permitted e x selected scope resource action w t =
     (case ctx_principal x of None \<Rightarrow> False
      | Some caller \<Rightarrow> (case scope_target e caller selected scope of None \<Rightarrow> False
          | Some (t', s, st) \<Rightarrow> t' = t \<and> allowed_by_policy e x t s st resource action w))"

lemma AuthorizeUserManagementScope_Inr:
  assumes "svc_AuthorizeUserManagementScope e x selected scope resource action w = (Inr (x', t), w')"
  shows "permitted e x selected scope resource action w t \<and> x' = x\<lparr>authorizedManagementTenant := Some t\<rparr> \<and> w_db w' = w_db w"
  using assms
  by (auto simp: svc_AuthorizeUserManagementScope_def permitted_def scope_target_def allowed_by_policy_def Let_def
      split: option.splits if_splits sum.splits prod.splits dest: check_frame)

lemma AuthorizeUserManagementScope_frame:
  assumes "svc_AuthorizeUserManagementScope e x selected scope resource action w = (r, w')"
  shows "w_db w' = w_db w"
  using assms
  by (auto simp: svc_AuthorizeUserManagementScope_def Let_def split: option.splits if_splits sum.splits prod.splits dest: check_frame)

lemma permitted_authorized:
  assumes "permitted e x selected scope resource action w t"
  shows "\<exists>w'. svc_AuthorizeUserManagementScope e x selected scope resource action w
    = (Inr (x\<lparr>authorizedManagementTenant := Some t\<rparr>, t), w')"
  using assms
  by (auto simp: svc_AuthorizeUserManagementScope_def permitted_def scope_target_def allowed_by_policy_def Let_def
      split: option.splits if_splits sum.splits prod.splits)

lemma authorized_cases:
  assumes "authorized x (svc_AuthorizeUserManagementScope e x selected scope resource action w) serve = (rep, w')"
  obtains (denied) err where "rep = Fail x err" "w_db w' = w_db w"
      "\<And>t. \<not> permitted e x selected scope resource action w t"
  | (served) t w1 where "permitted e x selected scope resource action w t" "w_db w1 = w_db w"
      "serve (x\<lparr>authorizedManagementTenant := Some t\<rparr>) t w1 = (rep, w')"
proof -
  obtain r w1 where m: "svc_AuthorizeUserManagementScope e x selected scope resource action w = (r, w1)" by fastforce
  show ?thesis
  proof (cases r)
    case (Inl err)
    have "\<not> permitted e x selected scope resource action w t" for t
      using permitted_authorized[of e x selected scope resource action w t] m Inl by auto
    with Inl m assms AuthorizeUserManagementScope_frame[OF m] show ?thesis by (intro denied) (auto simp: authorized_def)
  next
    case (Inr p)
    obtain x' t where p: "p = (x', t)" by fastforce
    from AuthorizeUserManagementScope_Inr[OF m[unfolded Inr p]] assms m Inr p show ?thesis
      by (intro served[of t w1]) (auto simp: authorized_def)
  qed
qed

section \<open>The contract of the scoped handlers\<close>

locale user_managed =
  fixes handler :: "('r, 'b) handler"
    and valid :: "'r \<Rightarrow> bool" and tenant_of scope_of :: "'r \<Rightarrow> gostring"
    and resource action :: gostring
    and serve :: "(nat \<Rightarrow> env) \<Rightarrow> 'r \<Rightarrow> ctx \<Rightarrow> gostring \<Rightarrow> world \<Rightarrow> 'b reply \<times> world"
  assumes shape: "handler es x json w = bound x valid json w (\<lambda>r.
      authorized x (svc_AuthorizeUserManagementScope (es 0) x (tenant_of r) (scope_of r) resource action w) (serve es r))"
    and one_step: "serve es r x' t w1 = (rep, w') \<Longrightarrow> service_step (es 1) x' w1 w'"
begin

text \<open>The caller of a successful request was permitted the action.\<close>

lemma success_permitted:
  assumes "handler es x json w = (rep, w')" "succeeded rep"
  shows "\<exists>r t. json = Inr r \<and> valid r \<and> permitted (es 0) x (tenant_of r) (scope_of r) resource action w t"
  using assms(1)[unfolded shape]
proof (cases rule: bound_cases)
  case (rejected err) with assms(2) show ?thesis by simp
next
  case (served r)
  from served(3) show ?thesis
  proof (cases rule: authorized_cases)
    case (denied err) with assms(2) show ?thesis by simp
  next
    case (served t w1) with \<open>json = Inr r\<close> \<open>valid r\<close> show ?thesis by blast
  qed
qed

text \<open>A request changes the rows of a tenant only when its caller was permitted the action there.\<close>

lemma change_permitted:
  assumes "handler es x json w = (rep, w')" "world_ok w" "tenant_view u (w_db w') \<noteq> tenant_view u (w_db w)"
  shows "\<exists>r. json = Inr r \<and> permitted (es 0) x (tenant_of r) (scope_of r) resource action w (TrimSpace u)"
  using assms(1)[unfolded shape]
proof (cases rule: bound_cases)
  case (rejected err) with assms(3) show ?thesis by simp
next
  case (served r)
  from served(3) show ?thesis
  proof (cases rule: authorized_cases)
    case (denied err) with assms(3) show ?thesis by simp
  next
    case (served t w1)
    note step = one_step[OF served(3)]
    have "world_ok w1" using assms(2) served(2) by (simp add: world_ok_def)
    then have "caller_may_manage (es 1) (x\<lparr>authorizedManagementTenant := Some t\<rparr>) u"
      using step_other_tenant[OF step, of u] assms(3) served(2) by metis
    then have "TrimSpace u = t" by (simp add: caller_may_manage_def)
    with served(1) \<open>json = Inr r\<close> show ?thesis by blast
  qed
qed

lemma keeps_world_ok:
  assumes "handler es x json w = (rep, w')" "world_ok w"
  shows "world_ok w'"
  using assms(1)[unfolded shape]
proof (cases rule: bound_cases)
  case (rejected err) with assms(2) show ?thesis by simp
next
  case (served r)
  from served(3) show ?thesis
  proof (cases rule: authorized_cases)
    case (denied err) with assms(2) show ?thesis by (simp add: world_ok_def)
  next
    case (served t w1)
    have "world_ok w1" using assms(2) served(2) by (simp add: world_ok_def)
    from service_step_effect[OF one_step[OF served(3)] this] show ?thesis by blast
  qed
qed

end

text \<open>The handlers that pass the tenant of the request on to an operation that checks it against the
  authorized one.\<close>

locale request_tenant_handler = user_managed +
  assumes checked: "serve es r x' t w1 = (rep, w') \<Longrightarrow> \<not> caller_may_manage (es 1) x' (tenant_of r) \<Longrightarrow> \<not> succeeded rep \<and> w_db w' = w_db w1"
begin

lemma platform_scope_fails:
  assumes "handler es x (Inr r) w = (rep, w')" "ToLower (TrimSpace (scope_of r)) = ''platform''"
    and "TrimSpace (tenant_of r) \<noteq> PlatformTenantID (es 0)"
  shows "\<not> succeeded rep \<and> w_db w' = w_db w"
  using assms(1)[unfolded shape]
proof (cases rule: bound_cases)
  case (rejected err) then show ?thesis by simp
next
  case (served r')
  from served(3) show ?thesis
  proof (cases rule: authorized_cases)
    case (denied err) then show ?thesis by simp
  next
    case (served t w1)
    have "t = PlatformTenantID (es 0)"
      using served(1) assms(2) \<open>Inr r = Inr r'\<close> by (auto simp: permitted_def scope_target_def split: option.splits if_splits)
    then have "\<not> caller_may_manage (es 1) (x\<lparr>authorizedManagementTenant := Some t\<rparr>) (tenant_of r')"
      using assms(3) \<open>Inr r = Inr r'\<close> by (simp add: caller_may_manage_def)
    from checked[OF served(3) this] served(2) show ?thesis by simp
  qed
qed

end

end
