(* ===== verification/Http_Managed.thy ===== *)
theory Http_Managed
  imports Http_Laws
begin

text \<open>
  Every handler under the \<open>my-\<dots>\<close> paths as an instance of the contract of \<open>Http_Laws\<close>. Nine of
  them pass the tenant id of the request, not the tenant that was authorized, on to the service;
  they are instances of the stronger \<open>request_tenant_handler\<close>.
\<close>

section \<open>Operations refuse a tenant that the caller may not manage\<close>

lemma apfst_conv_iff: "apfst f p = (a, b) \<longleftrightarrow> (\<exists>r. p = (r, b) \<and> a = f r)"
  by (cases p) auto

lemma read_denied:
  assumes "\<not> caller_may_manage e x t"
  shows "svc_GetPermission e x t i w \<noteq> Inr p" "svc_GetRole e x t i w \<noteq> Inr r" "svc_GetBinding e x t i w \<noteq> Inr b"
    "svc_ListRolePermissions e x t i w \<noteq> Inr g" "svc_BatchGetRolePermissions e x t i js w \<noteq> Inr g"
  using assms enforce_None_iff[of e x t]
  by (auto simp: svc_GetPermission_def svc_GetRole_def svc_GetBinding_def svc_ListRolePermissions_def svc_BatchGetRolePermissions_def
      Let_def split: option.splits)

lemma write_denied:
  assumes "\<not> caller_may_manage e x t"
  shows "svc_UpdatePermission e x t i n ce st v w = (rp, w') \<Longrightarrow> (\<forall>u. rp \<noteq> Inr u) \<and> w_db w' = w_db w"
    "svc_UpdateRole e x t i n d ds st v w = (rr, w') \<Longrightarrow> (\<forall>u. rr \<noteq> Inr u) \<and> w_db w' = w_db w"
    "svc_RevokeRolePermission e x t i v w = (rg, w') \<Longrightarrow> (\<forall>u. rg \<noteq> Inr u) \<and> w_db w' = w_db w"
    "svc_RevokeBinding e x t i v w = (rb, w') \<Longrightarrow> (\<forall>u. rb \<noteq> Inr u) \<and> w_db w' = w_db w"
  using assms enforce_None_iff[of e x t]
  by (auto simp: svc_UpdatePermission_def svc_UpdateRole_def svc_RevokeRolePermission_def svc_RevokeBinding_def Let_def
      split: option.splits if_splits)

section \<open>Instances\<close>

interpretation create_permission: user_managed http_CreateMyPermission
  valid_CreateMyPermissionRequest cmpr_TenantID cmpr_PermissionScope "''authorization.permission''" "''create''"
  "\<lambda>es request x tenantID w. apfst (answer x permissionBody) (svc_CreatePermission (es 1) x tenantID
     (cmpr_Code request) (cmpr_Name request) (cmpr_ResourceType request) (cmpr_Action request)
     [cmpr_ConditionExpression request] w)"
  by unfold_locales
    (auto simp: http_CreateMyPermission_def authorizeUserPermissionManagement_def apfst_conv_iff Let_def dest: svc_CreatePermission_step)

interpretation get_permission: request_tenant_handler http_GetMyPermission
  valid_GetMyPermissionRequest gmpr_TenantID gmpr_PermissionScope "''authorization.permission''" "''read''"
  "\<lambda>es r x tenantID w. (answer x permissionBody (svc_GetPermission (es 1) x (gmpr_TenantID r)
     (gmpr_PermissionID r) w), w)"
  by unfold_locales
    (auto simp: http_GetMyPermission_def authorizeUserPermissionManagement_def apfst_conv_iff Let_def read_denied intro: Unchanged)

interpretation update_permission: request_tenant_handler http_UpdateMyPermission
  valid_UpdateMyPermissionRequest umpr_TenantID umpr_PermissionScope "''authorization.permission''" "''update''"
  "\<lambda>es request x tenantID w. apfst (answer x permissionBody) (svc_UpdatePermission (es 1) x (umpr_TenantID
     request) (umpr_PermissionID request) (umpr_Name request) (umpr_ConditionExpression request) (umpr_Status request)
     (umpr_Version request) w)"
  by unfold_locales
    (auto simp: http_UpdateMyPermission_def authorizeUserPermissionManagement_def apfst_conv_iff Let_def dest: write_denied svc_UpdatePermission_step)

interpretation list_permissions: user_managed http_ListMyPermissions
  valid_ListMyPermissionsRequest lmpr_TenantID lmpr_PermissionScope "''authorization.permission''" "''list''"
  "\<lambda>es request x tenantID w. (answer x permissionPageBody (svc_SearchPermissions (es 1) x tenantID
     (permissionFilter (lmpr_Keyword request) (lmpr_PermissionIDs request) (lmpr_Statuses request) (lmpr_ResourceTypes
     request) (lmpr_Actions request) (lmpr_CreatedFrom request) (lmpr_CreatedTo request)) (lmpr_Page request)
     (lmpr_PageSize request) w), w)"
  by unfold_locales
    (auto simp: http_ListMyPermissions_def authorizeUserPermissionManagement_def apfst_conv_iff Let_def intro: Unchanged)

interpretation create_role: user_managed http_CreateMyRole
  valid_CreateMyRoleRequest cmrr_TenantID cmrr_PermissionScope "''authorization.role''" "''create''"
  "\<lambda>es request x tenantID w. apfst (answer x roleBody) (svc_CreateRole (es 1) x tenantID (cmrr_Code request)
     (cmrr_Name request) (cmrr_Description request) (cmrr_DataScope request) w)"
  by unfold_locales
    (auto simp: http_CreateMyRole_def authorizeUserRoleManagement_def apfst_conv_iff Let_def dest: svc_CreateRole_step)

interpretation get_role: request_tenant_handler http_GetMyRole
  valid_GetMyRoleRequest gmrr_TenantID gmrr_PermissionScope "''authorization.role''" "''read''"
  "\<lambda>es r x tenantID w. (answer x roleBody (svc_GetRole (es 1) x (gmrr_TenantID r) (gmrr_RoleID r) w), w)"
  by unfold_locales
    (auto simp: http_GetMyRole_def authorizeUserRoleManagement_def apfst_conv_iff Let_def read_denied intro: Unchanged)

interpretation update_role: request_tenant_handler http_UpdateMyRole
  valid_UpdateMyRoleRequest umrr_TenantID umrr_PermissionScope "''authorization.role''" "''update''"
  "\<lambda>es request x tenantID w. apfst (answer x roleBody) (svc_UpdateRole (es 1) x (umrr_TenantID request)
     (umrr_RoleID request) (umrr_Name request) (umrr_Description request) (umrr_DataScope request) (umrr_Status
     request) (umrr_Version request) w)"
  by unfold_locales
    (auto simp: http_UpdateMyRole_def authorizeUserRoleManagement_def apfst_conv_iff Let_def dest: write_denied svc_UpdateRole_step)

interpretation list_roles: user_managed http_ListMyRoles
  valid_ListMyRolesRequest lmrr_TenantID lmrr_PermissionScope "''authorization.role''" "''list''"
  "\<lambda>es request x tenantID w. let statuses = (if lmrr_Status request \<noteq> [] then lmrr_Statuses request @
     [lmrr_Status request] else lmrr_Statuses request) in (answer x rolePageBody (svc_SearchRolesFiltered (es 1) x
     tenantID (roleFilter (lmrr_Keyword request) (lmrr_RoleIDs request) statuses (lmrr_DataScopes request)
     (lmrr_CreatedFrom request) (lmrr_CreatedTo request)) (lmrr_Page request) (lmrr_PageSize request) w), w)"
  by unfold_locales
    (auto simp: http_ListMyRoles_def authorizeUserRoleManagement_def apfst_conv_iff Let_def intro: Unchanged)

interpretation batch_get_roles: user_managed http_BatchGetMyRoles
  valid_BatchGetMyRolesRequest bgmrr_TenantID bgmrr_PermissionScope "''authorization.role''" "''list''"
  "\<lambda>es request x tenantID w. (answer x roleBatchBody (svc_BatchGetRoles (es 1) x tenantID (elements
     (bgmrr_RoleIDs request)) w), w)"
  by unfold_locales
    (auto simp: http_BatchGetMyRoles_def authorizeUserRoleManagement_def apfst_conv_iff Let_def intro: Unchanged)

interpretation grant_role_permission: user_managed http_GrantMyRolePermission
  valid_GrantMyRolePermissionRequest gmrpr_TenantID gmrpr_PermissionScope "''authorization.role-permission''" "''grant''"
  "\<lambda>es request x tenantID w. apfst (answer x rolePermissionBody) (svc_GrantRolePermission (es 1) x tenantID
     (gmrpr_RoleID request) (gmrpr_PermissionID request) w)"
  by unfold_locales
    (auto simp: http_GrantMyRolePermission_def authorizeUserRolePermissionManagement_def apfst_conv_iff Let_def dest: svc_GrantRolePermission_step)

interpretation revoke_role_permission: request_tenant_handler http_RevokeMyRolePermission
  valid_RevokeMyRolePermissionRequest rmrpr_TenantID rmrpr_PermissionScope "''authorization.role-permission''" "''revoke''"
  "\<lambda>es request x tenantID w. apfst (answer x rolePermissionBody) (svc_RevokeRolePermission (es 1) x
     (rmrpr_TenantID request) (rmrpr_RolePermissionID request) (rmrpr_Version request) w)"
  by unfold_locales
    (auto simp: http_RevokeMyRolePermission_def authorizeUserRolePermissionManagement_def apfst_conv_iff Let_def dest: write_denied svc_RevokeRolePermission_step)

interpretation list_role_permissions: request_tenant_handler http_ListMyRolePermissions
  valid_ListMyRolePermissionsRequest lmrpr_TenantID lmrpr_PermissionScope "''authorization.role-permission''" "''list''"
  "\<lambda>es request x tenantID w. (answer x rolePermissionsBody (svc_ListRolePermissions (es 1) x (lmrpr_TenantID
     request) (lmrpr_RoleID request) w), w)"
  by unfold_locales
    (auto simp: http_ListMyRolePermissions_def authorizeUserRolePermissionManagement_def apfst_conv_iff Let_def read_denied intro: Unchanged)

interpretation batch_get_role_permissions: request_tenant_handler http_BatchGetMyRolePermissions
  valid_BatchGetMyRolePermissionsRequest bgmrpr_TenantID bgmrpr_PermissionScope "''authorization.role''" "''list''"
  "\<lambda>es request x tenantID w. (answer x rolePermissionsBody (svc_BatchGetRolePermissions (es 1) x
     (bgmrpr_TenantID request) (bgmrpr_RoleID request) (elements (bgmrpr_PermissionIDs request)) w), w)"
  by unfold_locales
    (auto simp: http_BatchGetMyRolePermissions_def authorizeUserRoleManagement_def apfst_conv_iff Let_def read_denied intro: Unchanged)

interpretation get_binding: request_tenant_handler http_GetMyBinding
  valid_GetMyBindingRequest gmbr_TenantID gmbr_PermissionScope "''authorization.binding''" "''read''"
  "\<lambda>es request x tenantID w. (answer x bindingBody (svc_GetBinding (es 1) x (gmbr_TenantID request)
     (gmbr_BindingID request) w), w)"
  by unfold_locales
    (auto simp: http_GetMyBinding_def authorizeUserBindingManagement_def apfst_conv_iff Let_def read_denied intro: Unchanged)

interpretation create_binding: user_managed http_CreateMyBinding
  valid_CreateMyBindingRequest cmbr_TenantID cmbr_PermissionScope "''authorization.binding''" "''create''"
  "\<lambda>es request x tenantID w. apfst (answer x bindingBody) (svc_CreateBinding (es 1) x tenantID (cmbr_SubjectID
     request) (cmbr_SubjectType request) (cmbr_RoleID request) (cmbr_OrganizationUnitID request) w)"
  by unfold_locales
    (auto simp: http_CreateMyBinding_def authorizeUserBindingManagement_def apfst_conv_iff Let_def dest: svc_CreateBinding_step)

interpretation revoke_binding: request_tenant_handler http_RevokeMyBinding
  valid_RevokeMyBindingRequest rmbr_TenantID rmbr_PermissionScope "''authorization.binding''" "''revoke''"
  "\<lambda>es request x tenantID w. apfst (answer x bindingBody) (svc_RevokeBinding (es 1) x (rmbr_TenantID request)
     (rmbr_BindingID request) (rmbr_Version request) w)"
  by unfold_locales
    (auto simp: http_RevokeMyBinding_def authorizeUserBindingManagement_def apfst_conv_iff Let_def dest: write_denied svc_RevokeBinding_step)

interpretation list_bindings: user_managed http_ListMyBindings
  valid_ListMyBindingsRequest lmbr_TenantID lmbr_PermissionScope "''authorization.binding''" "''list''"
  "\<lambda>es request x tenantID w. (answer x bindingPageBody (svc_SearchBindings (es 1) x tenantID (bindingFilter
     (lmbr_SubjectID request) (lmbr_SubjectType request) (lmbr_BindingIDs request) (lmbr_RoleIDs request)
     (lmbr_Statuses request) (lmbr_OrganizationUnitIDs request) (lmbr_CreatedFrom request) (lmbr_CreatedTo request))
     (lmbr_Page request) (lmbr_PageSize request) w), w)"
  by unfold_locales
    (auto simp: http_ListMyBindings_def authorizeUserBindingManagement_def apfst_conv_iff Let_def intro: Unchanged)

end
