(* ===== verification/Http_Properties.thy ===== *)
theory Http_Properties
  imports Http_Managed Sample
begin

text \<open>
  Properties of the HTTP interface: what the requests under the \<open>my-\<dots>\<close> paths may change, whose
  decisions an interactive user can ask for, and what a reply discloses.
\<close>

section \<open>Requests that manage the caller's own scope\<close>

text \<open>The seventeen requests, their handlers, and what each of them asks permission for: the tenant and
  the scope named in the request, the resource and the action.\<close>

datatype my_request =
    MyCreatePermission "CreateMyPermissionRequest result"
  | MyGetPermission "GetMyPermissionRequest result"
  | MyUpdatePermission "UpdateMyPermissionRequest result"
  | MyListPermissions "ListMyPermissionsRequest result"
  | MyCreateRole "CreateMyRoleRequest result"
  | MyGetRole "GetMyRoleRequest result"
  | MyUpdateRole "UpdateMyRoleRequest result"
  | MyListRoles "ListMyRolesRequest result"
  | MyBatchGetRoles "BatchGetMyRolesRequest result"
  | MyGrantRolePermission "GrantMyRolePermissionRequest result"
  | MyRevokeRolePermission "RevokeMyRolePermissionRequest result"
  | MyListRolePermissions "ListMyRolePermissionsRequest result"
  | MyBatchGetRolePermissions "BatchGetMyRolePermissionsRequest result"
  | MyGetBinding "GetMyBindingRequest result"
  | MyCreateBinding "CreateMyBindingRequest result"
  | MyRevokeBinding "RevokeMyBindingRequest result"
  | MyListBindings "ListMyBindingsRequest result"

fun run_my :: "(nat \<Rightarrow> env) \<Rightarrow> ctx \<Rightarrow> my_request \<Rightarrow> world \<Rightarrow> bool \<times> world" where
  "run_my es x (MyCreatePermission json) w = apfst succeeded (http_CreateMyPermission es x json w)"
| "run_my es x (MyGetPermission json) w = apfst succeeded (http_GetMyPermission es x json w)"
| "run_my es x (MyUpdatePermission json) w = apfst succeeded (http_UpdateMyPermission es x json w)"
| "run_my es x (MyListPermissions json) w = apfst succeeded (http_ListMyPermissions es x json w)"
| "run_my es x (MyCreateRole json) w = apfst succeeded (http_CreateMyRole es x json w)"
| "run_my es x (MyGetRole json) w = apfst succeeded (http_GetMyRole es x json w)"
| "run_my es x (MyUpdateRole json) w = apfst succeeded (http_UpdateMyRole es x json w)"
| "run_my es x (MyListRoles json) w = apfst succeeded (http_ListMyRoles es x json w)"
| "run_my es x (MyBatchGetRoles json) w = apfst succeeded (http_BatchGetMyRoles es x json w)"
| "run_my es x (MyGrantRolePermission json) w = apfst succeeded (http_GrantMyRolePermission es x json w)"
| "run_my es x (MyRevokeRolePermission json) w = apfst succeeded (http_RevokeMyRolePermission es x json w)"
| "run_my es x (MyListRolePermissions json) w = apfst succeeded (http_ListMyRolePermissions es x json w)"
| "run_my es x (MyBatchGetRolePermissions json) w = apfst succeeded (http_BatchGetMyRolePermissions es x json w)"
| "run_my es x (MyGetBinding json) w = apfst succeeded (http_GetMyBinding es x json w)"
| "run_my es x (MyCreateBinding json) w = apfst succeeded (http_CreateMyBinding es x json w)"
| "run_my es x (MyRevokeBinding json) w = apfst succeeded (http_RevokeMyBinding es x json w)"
| "run_my es x (MyListBindings json) w = apfst succeeded (http_ListMyBindings es x json w)"

definition asked :: "('r \<Rightarrow> gostring) \<Rightarrow> ('r \<Rightarrow> gostring) \<Rightarrow> gostring \<Rightarrow> gostring \<Rightarrow> 'r result
  \<Rightarrow> (gostring \<times> gostring \<times> gostring \<times> gostring) option" where
  "asked tenant scope resource action json =
     (case json of Inl err \<Rightarrow> None | Inr r \<Rightarrow> Some (tenant r, scope r, resource, action))"

fun demand :: "my_request \<Rightarrow> (gostring \<times> gostring \<times> gostring \<times> gostring) option" where
  "demand (MyCreatePermission json) = asked cmpr_TenantID cmpr_PermissionScope ''authorization.permission'' ''create'' json"
| "demand (MyGetPermission json) = asked gmpr_TenantID gmpr_PermissionScope ''authorization.permission'' ''read'' json"
| "demand (MyUpdatePermission json) = asked umpr_TenantID umpr_PermissionScope ''authorization.permission'' ''update'' json"
| "demand (MyListPermissions json) = asked lmpr_TenantID lmpr_PermissionScope ''authorization.permission'' ''list'' json"
| "demand (MyCreateRole json) = asked cmrr_TenantID cmrr_PermissionScope ''authorization.role'' ''create'' json"
| "demand (MyGetRole json) = asked gmrr_TenantID gmrr_PermissionScope ''authorization.role'' ''read'' json"
| "demand (MyUpdateRole json) = asked umrr_TenantID umrr_PermissionScope ''authorization.role'' ''update'' json"
| "demand (MyListRoles json) = asked lmrr_TenantID lmrr_PermissionScope ''authorization.role'' ''list'' json"
| "demand (MyBatchGetRoles json) = asked bgmrr_TenantID bgmrr_PermissionScope ''authorization.role'' ''list'' json"
| "demand (MyGrantRolePermission json) = asked gmrpr_TenantID gmrpr_PermissionScope ''authorization.role-permission'' ''grant'' json"
| "demand (MyRevokeRolePermission json) = asked rmrpr_TenantID rmrpr_PermissionScope ''authorization.role-permission'' ''revoke'' json"
| "demand (MyListRolePermissions json) = asked lmrpr_TenantID lmrpr_PermissionScope ''authorization.role-permission'' ''list'' json"
| "demand (MyBatchGetRolePermissions json) = asked bgmrpr_TenantID bgmrpr_PermissionScope ''authorization.role'' ''list'' json"
| "demand (MyGetBinding json) = asked gmbr_TenantID gmbr_PermissionScope ''authorization.binding'' ''read'' json"
| "demand (MyCreateBinding json) = asked cmbr_TenantID cmbr_PermissionScope ''authorization.binding'' ''create'' json"
| "demand (MyRevokeBinding json) = asked rmbr_TenantID rmbr_PermissionScope ''authorization.binding'' ''revoke'' json"
| "demand (MyListBindings json) = asked lmbr_TenantID lmbr_PermissionScope ''authorization.binding'' ''list'' json"

fun names_request_tenant :: "my_request \<Rightarrow> bool" where
  "names_request_tenant (MyGetPermission json) = True"
| "names_request_tenant (MyUpdatePermission json) = True"
| "names_request_tenant (MyGetRole json) = True"
| "names_request_tenant (MyUpdateRole json) = True"
| "names_request_tenant (MyRevokeRolePermission json) = True"
| "names_request_tenant (MyListRolePermissions json) = True"
| "names_request_tenant (MyBatchGetRolePermissions json) = True"
| "names_request_tenant (MyGetBinding json) = True"
| "names_request_tenant (MyRevokeBinding json) = True"
| "names_request_tenant q = False"

text \<open>What a permitted request is: a demand that the policy grants for some tenant.\<close>

definition granted_demand ::
  "env \<Rightarrow> ctx \<Rightarrow> (gostring \<times> gostring \<times> gostring \<times> gostring) option \<Rightarrow> world \<Rightarrow> gostring \<Rightarrow> bool" where
  "granted_demand e x dem w u =
     (case dem of None \<Rightarrow> False | Some (t, scope, resource, action) \<Rightarrow> permitted e x t scope resource action w u)"

context user_managed
begin

lemma managed:
  assumes "apfst succeeded (handler es x json w) = (ok, w')" "world_ok w"
  shows "(ok \<longrightarrow> (\<exists>v. granted_demand (es 0) x (asked tenant_of scope_of resource action json) w v)) \<and>
    (tenant_view u (w_db w') \<noteq> tenant_view u (w_db w) \<longrightarrow>
       granted_demand (es 0) x (asked tenant_of scope_of resource action json) w (TrimSpace u)) \<and> world_ok w'"
proof -
  obtain rep where h: "handler es x json w = (rep, w')" and ok: "ok = succeeded rep"
    using assms(1) by (auto simp: apfst_conv_iff)
  from success_permitted[OF h] change_permitted[OF h assms(2), of u] keeps_world_ok[OF h assms(2)] show ?thesis
    by (fastforce simp: ok granted_demand_def asked_def)
qed

end

context request_tenant_handler
begin

lemma platform_refused:
  assumes "apfst succeeded (handler es x json w) = (ok, w')" "asked tenant_of scope_of resource action json = Some (t, scope, res, act)"
    and "ToLower (TrimSpace scope) = ''platform''" "TrimSpace t \<noteq> PlatformTenantID (es 0)"
  shows "\<not> ok \<and> w_db w' = w_db w"
proof -
  obtain rep where h: "handler es x json w = (rep, w')" and ok: "ok = succeeded rep"
    using assms(1) by (auto simp: apfst_conv_iff)
  obtain r where r: "json = Inr r" "t = tenant_of r" "scope = scope_of r" using assms(2) by (auto simp: asked_def split: sum.splits)
  from platform_scope_fails[OF h[unfolded r(1)]] assms(3,4) r ok show ?thesis by simp
qed

end

lemma managing_request_permitted:
  assumes "run_my es x q w = (ok, w')" "world_ok w"
  shows "(ok \<longrightarrow> (\<exists>v. granted_demand (es 0) x (demand q) w v)) \<and>
    (tenant_view u (w_db w') \<noteq> tenant_view u (w_db w) \<longrightarrow> granted_demand (es 0) x (demand q) w (TrimSpace u)) \<and> world_ok w'"
  using assms
  by (cases q; simp only: run_my.simps demand.simps)
    (rule
       create_permission.managed get_permission.managed update_permission.managed list_permissions.managed
       create_role.managed get_role.managed update_role.managed list_roles.managed batch_get_roles.managed
       grant_role_permission.managed revoke_role_permission.managed list_role_permissions.managed
       batch_get_role_permissions.managed get_binding.managed create_binding.managed revoke_binding.managed
       list_bindings.managed;
     assumption)+

text \<open>The two further requests under these paths: the catalogue of permissions, which the policy
  has to permit, and the check of the caller's own permission codes, for which no permission is
  needed. Both work for the caller itself.\<close>

datatype my_path_request =
    Managing my_request
  | PermissionCatalog "ListMyPermissionCatalogRequest result"
  | OwnPermissionCodes "CheckMyPermissionCodesRequest result"

fun run_my_path :: "(nat \<Rightarrow> env) \<Rightarrow> ctx \<Rightarrow> my_path_request \<Rightarrow> world \<Rightarrow> bool \<times> world" where
  "run_my_path es x (Managing q) w = run_my es x q w"
| "run_my_path es x (PermissionCatalog json) w = apfst succeeded (http_ListMyPermissionCatalog es x json w)"
| "run_my_path es x (OwnPermissionCodes json) w = apfst succeeded (http_CheckMyPermissionCodes es x json w)"

text \<open>A tenant and a subject that are the caller's own: its membership of the tenant it selects, or
  the user itself in the platform tenant.\<close>

definition caller_itself :: "ctx \<Rightarrow> gostring \<Rightarrow> gostring \<Rightarrow> gostring \<Rightarrow> gostring \<Rightarrow> bool" where
  "caller_itself x selected t s st =
     (case ctx_principal x of
        None \<Rightarrow> False
      | Some caller \<Rightarrow> pr_Type caller = TypeUser \<and> TrimSpace (pr_MembershipID caller) \<noteq> [] \<and>
          TrimSpace selected = TrimSpace (pr_TenantID caller) \<and>
          (t = TrimSpace selected \<and> s = pr_MembershipID caller \<and> st = ''membership'' \<or>
           t = ''__platform__'' \<and> s = pr_ID caller \<and> st = ''user''))"

lemma currentPermissionSubject_itself:
  "ctx_principal x = Some caller \<Longrightarrow> currentPermissionSubject caller selected scope = Inr (t, s, st) \<Longrightarrow> caller_itself x selected t s st"
  by (auto simp: currentPermissionSubject_def caller_itself_def Let_def split: if_splits)

lemma catalog_permitted:
  assumes "http_ListMyPermissionCatalog es x json w = (rep, w')"
  shows "w_db w' = w_db w \<and> (succeeded rep \<longrightarrow> (\<exists>r t s st. json = Inr r \<and> caller_itself x (lmpcr_TenantID r) t s st \<and>
    allowed_by_policy (es 0) x t s st ''authorization.permission'' ''list'' w))"
  using assms unfolding http_ListMyPermissionCatalog_def
proof (cases rule: bound_cases)
  case (served r)
  show ?thesis
  proof (cases "succeeded rep")
    case False
    with served show ?thesis by (auto split: option.splits sum.splits prod.splits if_splits dest: check_frame)
  next
    case True
    with served obtain caller t s st d where c: "ctx_principal x = Some caller"
      "currentPermissionSubject caller (lmpcr_TenantID r) (lmpcr_PermissionScope r) = Inr (t, s, st)"
      "svc_CheckWithAttributes (es 0) x t s st ''authorization.permission'' [] ''list'' [] w = (Inr d, w')" "d_Allowed d"
      by (auto split: option.splits sum.splits prod.splits if_splits)
    then have "allowed_by_policy (es 0) x t s st ''authorization.permission'' ''list'' w" by (simp add: allowed_by_policy_def)
    then show ?thesis using served(1) currentPermissionSubject_itself[OF c(1,2)] check_frame[OF c(3)] by blast
  qed
qed simp_all

lemma own_codes_answered:
  assumes "http_CheckMyPermissionCodes es x json w = (rep, w')"
  shows "w' = w \<and> (succeeded rep \<longrightarrow> (\<exists>r t s st d. json = Inr r \<and> caller_itself x (cmpcr_TenantID r) t s st \<and>
    svc_CheckPermissionCodes (es 0) x t s st (cmpcr_PermissionCodes r) w = Inr d))"
  using assms unfolding http_CheckMyPermissionCodes_def
  by (cases rule: bound_cases)
    (fastforce simp: answer_def split: option.splits sum.splits prod.splits intro: currentPermissionSubject_itself)+


text \<open>Witness of C25: a member with the double wildcard creates a role of its tenant, and a member
  without it is answered about its own codes but not given the catalogue.\<close>

definition admin_world :: world where
  "admin_world = sample_world\<lparr>w_db := sample_db\<lparr>permissions :=
     [Row (sample_permission\<lparr>p_Code := ''all'', p_ResourceType := ''*'', p_Action := ''*''\<rparr>) None]\<rparr>\<rparr>"

definition create_writer :: my_request where
  "create_writer = MyCreateRole (Inr \<lparr>cmrr_TenantID = ''t1'', cmrr_PermissionScope = ''tenant'', cmrr_Code = ''writer'',
     cmrr_Name = ''Writer'', cmrr_Description = [], cmrr_DataScope = ''self''\<rparr>)"

definition list_catalog :: my_path_request where
  "list_catalog = PermissionCatalog (Inr \<lparr>lmpcr_TenantID = ''t1'', lmpcr_PermissionScope = ''tenant'', lmpcr_Search = [], lmpcr_Page = 1, lmpcr_PageSize = 10\<rparr>)"

definition own_codes :: my_path_request where
  "own_codes = OwnPermissionCodes (Inr \<lparr>cmpcr_TenantID = ''t1'', cmpcr_PermissionScope = ''tenant'', cmpcr_PermissionCodes = [''doc.read'']\<rparr>)"


text \<open>Nine of the requests cannot be used in the platform scope, except by naming the platform tenant
  itself in the request: although the caller is authorized for the platform tenant, the operation
  is run for the tenant named in the request and refused there, so the request fails and writes
  nothing whatever the caller may do.\<close>

lemma platform_scope_unusable:
  assumes "run_my es x q w = (ok, w')" "names_request_tenant q" "demand q = Some (t, scope, resource, action)"
    and "ToLower (TrimSpace scope) = ''platform''" "TrimSpace t \<noteq> PlatformTenantID (es 0)"
  shows "\<not> ok \<and> w_db w' = w_db w"
  using assms
  by (cases q; simp only: run_my.simps demand.simps names_request_tenant.simps)
    (rule
       get_permission.platform_refused update_permission.platform_refused
       get_role.platform_refused update_role.platform_refused
       revoke_role_permission.platform_refused
       list_role_permissions.platform_refused
       batch_get_role_permissions.platform_refused get_binding.platform_refused
       revoke_binding.platform_refused;
     assumption)+

section \<open>Checks by interactive users\<close>

lemma answered_success:
  "apfst (answer x f) p = (rep, w') \<Longrightarrow> succeeded rep \<Longrightarrow> \<exists>v. p = (Inr v, w') \<and> rep = OK x (f v)"
  by (cases p; cases "fst p") (auto simp: answer_def)

text \<open>C26. A user asks about itself. A check over HTTP that succeeds for an interactive user is the
  decision for the user's own membership of its own tenant, or for the user itself in the platform
  tenant, whatever subject the request names; only other callers may ask about any subject.\<close>

theorem user_checks_itself:
  assumes "http_CheckAuthorization es x json w = (rep, w')" "succeeded rep" "ctx_principal x = Some caller" "pr_Type caller = TypeUser"
  shows "\<exists>r d s st. json = Inr r \<and> rep = OK x (decisionBody d) \<and>
    svc_CheckWithAttributes (es 0) x (car_TenantID r) s st (car_ResourceType r) (car_ResourceID r) (car_Action r) (car_Attributes r) w = (Inr d, w') \<and>
    (s = pr_MembershipID caller \<and> st = ''membership'' \<and> TrimSpace (car_TenantID r) = TrimSpace (pr_TenantID caller) \<or>
     s = pr_ID caller \<and> st = ''user'' \<and> TrimSpace (car_TenantID r) = ''__platform__'')"
proof -
  obtain r d where r: "json = Inr r" "check_bound (es 0) x r w = (Inr d, w')" "rep = OK x (decisionBody d)"
    using assms(1,2)
    by (auto simp: http_CheckAuthorization_def elim!: bound_cases dest!: answered_success)
  then show ?thesis
    using assms(3,4)
    by (auto simp: check_bound_def bindDecisionToCaller_def Let_def split: if_splits)
qed

theorem user_checks_itself_witness:
  "\<exists>d. fst (http_CheckAuthorization (\<lambda>n. sample_env) sample_ctx
     (Inr \<lparr>car_TenantID = ''t1'', car_SubjectID = ''someone'', car_SubjectType = ''membership'', car_ResourceType = ''doc'',
       car_ResourceID = [], car_Action = ''read'', car_Attributes = []\<rparr>) sample_world) = OK sample_ctx (decisionBody d)"
proof -
  let ?q = "http_CheckAuthorization (\<lambda>n. sample_env) sample_ctx
     (Inr \<lparr>car_TenantID = ''t1'', car_SubjectID = ''someone'', car_SubjectType = ''membership'', car_ResourceType = ''doc'',
       car_ResourceID = [], car_Action = ''read'', car_Attributes = []\<rparr>) sample_world"
  have "succeeded (fst ?q)" by code_simp
  moreover have "ctx_principal sample_ctx = Some sample_user" "pr_Type sample_user = TypeUser" by code_simp+
  ultimately show ?thesis using user_checks_itself[OF prod.collapse[symmetric], of "\<lambda>n. sample_env" sample_ctx] by blast
qed

text \<open>C27. A batch is its checks in order. A batch check either fails as a whole or answers every check
  with the decision that the check on its own gives at that point, in the order of the request;
  it never changes the tables.\<close>

lemma batch_checks_steps:
  assumes "batch_checks es n x cs ds w = (Inr out, w')"
  shows "\<exists>ws. length ws = Suc (length cs) \<and> ws ! 0 = w \<and> last ws = w' \<and> length out = length ds + length cs \<and>
    take (length ds) out = ds \<and>
    (\<forall>i<length cs. \<exists>d. check_bound (es (n + i)) x (cs ! i) (ws ! i) = (Inr d, ws ! Suc i) \<and> out ! (length ds + i) = decisionBody d)"
  using assms
proof (induction cs arbitrary: n ds w)
  case Nil then show ?case by (intro exI[of _ "[w]"]) simp
next
  case (Cons c cs)
  from Cons.prems obtain d w1 where c: "check_bound (es n) x c w = (Inr d, w1)"
    and rest: "batch_checks es (Suc n) x cs (ds @ [decisionBody d]) w1 = (Inr out, w')"
    by (auto split: prod.splits sum.splits)
  from Cons.IH[OF rest] obtain ws where ws: "length ws = Suc (length cs)" "ws ! 0 = w1" "last ws = w'"
    "length out = Suc (length ds) + length cs" "take (Suc (length ds)) out = ds @ [decisionBody d]"
    "\<forall>i<length cs. \<exists>d. check_bound (es (Suc n + i)) x (cs ! i) (ws ! i) = (Inr d, ws ! Suc i) \<and> out ! (Suc (length ds) + i) = decisionBody d"
    by auto
  have here: "take (length ds) out = ds" "out ! length ds = decisionBody d"
    using arg_cong[OF ws(5), of "take (length ds)"] arg_cong[OF ws(5), of "\<lambda>l. l ! length ds"] by simp_all
  have "\<exists>d. check_bound (es (n + i)) x ((c # cs) ! i) ((w # ws) ! i) = (Inr d, (w # ws) ! Suc i) \<and> out ! (length ds + i) = decisionBody d"
    if "i < length (c # cs)" for i
    using that c here ws(2,6) by (cases i) auto
  then show ?case using ws here by (intro exI[of _ "w # ws"]) auto
qed

theorem batch_is_sequence_of_checks:
  assumes "http_BatchCheckAuthorization es x (Inr r) w = (rep, w')" "succeeded rep"
  shows "\<exists>ws out. rep = OK x \<lparr>dsb_Decisions = out\<rparr> \<and> length out = length (bcar_Checks r) \<and> length ws = Suc (length (bcar_Checks r)) \<and>
    ws ! 0 = w \<and> last ws = w' \<and> (\<forall>i<length (bcar_Checks r). \<exists>d. check_bound (es i) x (bcar_Checks r ! i) (ws ! i) = (Inr d, ws ! Suc i) \<and>
      out ! i = decisionBody d \<and> w_db (ws ! Suc i) = w_db (ws ! i))"
proof -
  from assms obtain out where b: "batch_checks es 0 x (bcar_Checks r) [] w = (Inr out, w')" and rep: "rep = OK x \<lparr>dsb_Decisions = out\<rparr>"
    by (auto simp: http_BatchCheckAuthorization_def elim!: bound_cases dest!: answered_success)
  have frame: "w_db w2 = w_db w1" if "check_bound e x c w1 = (Inr d, w2)" for e c w1 w2 d
    using that by (auto simp: check_bound_def split: sum.splits dest: check_frame)
  from batch_checks_steps[OF b] obtain ws where ws: "length ws = Suc (length (bcar_Checks r))" "ws ! 0 = w" "last ws = w'"
    "length out = length (bcar_Checks r)"
    "\<forall>i<length (bcar_Checks r). \<exists>d. check_bound (es i) x (bcar_Checks r ! i) (ws ! i) = (Inr d, ws ! Suc i) \<and> out ! i = decisionBody d"
    by auto
  have "\<exists>d. check_bound (es i) x (bcar_Checks r ! i) (ws ! i) = (Inr d, ws ! Suc i) \<and> out ! i = decisionBody d \<and> w_db (ws ! Suc i) = w_db (ws ! i)"
    if "i < length (bcar_Checks r)" for i
    using ws(5) that frame by metis
  with ws rep show ?thesis by (intro exI[of _ ws] exI[of _ out]) simp
qed

theorem batch_is_sequence_of_checks_witness:
  "\<exists>out. fst (http_BatchCheckAuthorization (\<lambda>n. sample_env) sample_ctx
     (Inr \<lparr>bcar_Checks = replicate 2 \<lparr>car_TenantID = ''t1'', car_SubjectID = [], car_SubjectType = [], car_ResourceType = ''doc'',
       car_ResourceID = [], car_Action = ''read'', car_Attributes = []\<rparr>\<rparr>) sample_world) = OK sample_ctx \<lparr>dsb_Decisions = out\<rparr> \<and> length out = 2"
proof -
  let ?r = "\<lparr>bcar_Checks = replicate 2 \<lparr>car_TenantID = ''t1'', car_SubjectID = [], car_SubjectType = [], car_ResourceType = ''doc'',
       car_ResourceID = [], car_Action = ''read'', car_Attributes = []\<rparr>\<rparr>"
  have "succeeded (fst (http_BatchCheckAuthorization (\<lambda>n. sample_env) sample_ctx (Inr ?r) sample_world))" by code_simp
  from batch_is_sequence_of_checks[OF prod.collapse[symmetric] this] show ?thesis by auto
qed

end
