(* ===== verification/Grpc.thy ===== *)
theory Grpc
  imports Service Decisions "HOL-Library.Word"
begin

text \<open>
  The gRPC interface of \<open>internal/transport/grpc/authorization_server.go\<close> and the error mapping
  \<open>grpcError\<close> of \<open>server.go\<close>.

  The messages are generated from the shared protocol definitions. A request is modelled by the
  fields that the server reads, under the names of the getters, a response by the fields that the
  server sets; the getter of a missing message yields zero values, so a message that may be
  missing is an option. Page numbers keep the width of their protocol fields. What the generated
  code and the protobuf runtime compute (names and numbers of enumerators, validity and value of a
  timestamp) is an argument, the record \<open>proto_lib\<close>.
\<close>

section \<open>The generated code and the protobuf runtime\<close>

record Timestamp =
  ts_Seconds :: int
  ts_Nanos :: int

record proto_lib =
  SubjectType_String :: "int \<Rightarrow> gostring"
  SubjectType_value :: "gostring \<Rightarrow> int"
  DataScopeType_value :: "gostring \<Rightarrow> int"
  CheckValid :: "Timestamp \<Rightarrow> goerr option"
  AsTime :: "Timestamp \<Rightarrow> time"
  timestamppb_New :: "time \<Rightarrow> Timestamp"

datatype grpc_code =
  InvalidArgumentCode | NotFoundCode | AbortedCode | UnavailableCode | InternalCode | UnauthenticatedCode | PermissionDeniedCode

record grpc_status =
  st_Code :: grpc_code
  st_Message :: gostring

type_synonym 'a rpc = "grpc_status + 'a"

section \<open>Messages\<close>

record Subject =
  su_Id :: gostring
  su_Type :: int

record PageRequest =
  pq_Page :: "32 word"
  pq_PageSize :: "32 word"

record PageResult =
  px_Total :: "64 word"
  px_Page :: "32 word"
  px_PageSize :: "32 word"

record CheckMsg =
  ck_TenantId :: gostring
  ck_Subject :: "Subject option"
  ck_ResourceType :: gostring
  ck_ResourceId :: gostring
  ck_Action :: gostring
  ck_Attributes :: attributes

record CheckResponse =
  cx_Allowed :: bool
  cx_DecisionId :: gostring
  cx_Reason :: gostring
  cx_PolicyVersion :: nat
  cx_DataScope :: int
  cx_OrganizationUnitIds :: "gostring list"

record InvalidateSubjectMsg =
  iv_TenantId :: gostring
  iv_Subject :: "Subject option"

record CreatePermissionMsg =
  cp_TenantId :: gostring
  cp_Code :: gostring
  cp_Name :: gostring
  cp_ResourceType :: gostring
  cp_Action :: gostring
  cp_ConditionExpression :: gostring

record UpdatePermissionMsg =
  up_TenantId :: gostring
  up_PermissionId :: gostring
  up_Name :: gostring
  up_ConditionExpression :: gostring
  up_Status :: gostring
  up_ExpectedVersion :: int

record ListPermissionsMsg =
  lp_TenantId :: gostring
  lp_Page :: "PageRequest option"
  lp_Keyword :: gostring
  lp_PermissionIds :: "gostring list"
  lp_Statuses :: "gostring list"
  lp_ResourceTypes :: "gostring list"
  lp_Actions :: "gostring list"
  lp_CreatedFrom :: "Timestamp option"
  lp_CreatedTo :: "Timestamp option"

record CreateRoleMsg =
  cr_TenantId :: gostring
  cr_Code :: gostring
  cr_Name :: gostring
  cr_Description :: gostring
  cr_DataScope :: gostring

record UpdateRoleMsg =
  ur_TenantId :: gostring
  ur_RoleId :: gostring
  ur_Name :: gostring
  ur_Description :: gostring
  ur_DataScope :: gostring
  ur_Status :: gostring
  ur_ExpectedVersion :: int

record ListRolesMsg =
  lr_TenantId :: gostring
  lr_Page :: "PageRequest option"
  lr_Keyword :: gostring
  lr_RoleIds :: "gostring list"
  lr_Statuses :: "gostring list"
  lr_DataScopes :: "gostring list"
  lr_CreatedFrom :: "Timestamp option"
  lr_CreatedTo :: "Timestamp option"

record CreateBindingMsg =
  cb_TenantId :: gostring
  cb_Subject :: "Subject option"
  cb_RoleId :: gostring
  cb_OrganizationUnitId :: gostring

record ListBindingsMsg =
  lb_TenantId :: gostring
  lb_Page :: "PageRequest option"
  lb_Subject :: "Subject option"
  lb_BindingIds :: "gostring list"
  lb_RoleIds :: "gostring list"
  lb_Statuses :: "gostring list"
  lb_OrganizationUnitIds :: "gostring list"
  lb_CreatedFrom :: "Timestamp option"
  lb_CreatedTo :: "Timestamp option"

text \<open>The audit part that the resource messages share, and the resources.\<close>

record ProtoAudit =
  pa_Version :: int
  pa_CreatedAt :: Timestamp
  pa_UpdatedAt :: Timestamp
  pa_CreatedBy :: gostring
  pa_UpdatedBy :: gostring

record ProtoPermission =
  pp_Id :: gostring
  pp_TenantId :: gostring
  pp_Code :: gostring
  pp_Name :: gostring
  pp_ResourceType :: gostring
  pp_Action :: gostring
  pp_ConditionExpression :: gostring
  pp_Status :: gostring
  pp_Audit :: ProtoAudit

record ProtoRole =
  prl_Id :: gostring
  prl_TenantId :: gostring
  prl_Code :: gostring
  prl_Name :: gostring
  prl_Description :: gostring
  prl_DataScope :: gostring
  prl_Status :: gostring
  prl_Audit :: ProtoAudit

record ProtoRolePermission =
  prp_Id :: gostring
  prp_TenantId :: gostring
  prp_RoleId :: gostring
  prp_PermissionId :: gostring
  prp_Status :: gostring
  prp_Audit :: ProtoAudit

record ProtoBinding =
  pn_Id :: gostring
  pn_TenantId :: gostring
  pn_Subject :: Subject
  pn_RoleId :: gostring
  pn_OrganizationUnitId :: gostring
  pn_Status :: gostring
  pn_Audit :: ProtoAudit

section \<open>Conversions\<close>

definition grpcError :: "goerr \<Rightarrow> grpc_status" where
  "grpcError err =
     (case as_app err of
        None \<Rightarrow> \<lparr>st_Code = InternalCode, st_Message = ''internal server error''\<rparr>
      | Some appErr \<Rightarrow>
          \<lparr>st_Code = (case err_Code appErr of
              CodeInvalidArgument \<Rightarrow> InvalidArgumentCode
            | CodeNotFound \<Rightarrow> NotFoundCode
            | CodeConflict \<Rightarrow> AbortedCode
            | CodeDependencyUnavailable \<Rightarrow> UnavailableCode
            | _ \<Rightarrow> InternalCode),
           st_Message = err_Message appErr\<rparr>)"

definition to_upper_char :: "char \<Rightarrow> char" where
  "to_upper_char c = (let n = (of_char c :: nat) in if 97 \<le> n \<and> n \<le> 122 then char_of (n - 32) else c)"

definition ToUpper :: "gostring \<Rightarrow> gostring" where
  "ToUpper s = map to_upper_char s"

definition TrimPrefix :: "gostring \<Rightarrow> gostring \<Rightarrow> gostring" where
  "TrimPrefix s p = (if prefix p s then drop (length p) s else s)"

definition subjectTypeString :: "proto_lib \<Rightarrow> int \<Rightarrow> gostring" where
  "subjectTypeString lib value = ToLower (TrimPrefix (SubjectType_String lib value) ''SUBJECT_TYPE_'')"

definition rpc_subjectTypeProto :: "proto_lib \<Rightarrow> gostring \<Rightarrow> int" where
  "rpc_subjectTypeProto lib value = SubjectType_value lib (''SUBJECT_TYPE_'' @ ToUpper value)"

definition dataScopeProto :: "proto_lib \<Rightarrow> gostring \<Rightarrow> int" where
  "dataScopeProto lib value = DataScopeType_value lib (''DATA_SCOPE_TYPE_'' @ ToUpper value)"

definition protoPage :: "PageRequest option \<Rightarrow> int \<times> int" where
  "protoPage value = (case value of None \<Rightarrow> (0, 0) | Some p \<Rightarrow> (uint (pq_Page p), uint (pq_PageSize p)))"

definition pageResult :: "int \<Rightarrow> int \<Rightarrow> int \<Rightarrow> PageResult" where
  "pageResult count page psize = \<lparr>px_Total = word_of_int count, px_Page = word_of_int page, px_PageSize = word_of_int psize\<rparr>"

definition optionalProtoTime :: "proto_lib \<Rightarrow> Timestamp option \<Rightarrow> time option result" where
  "optionalProtoTime lib value =
     (case value of
        None \<Rightarrow> Inr None
      | Some ts \<Rightarrow> (case CheckValid lib ts of
          Some err \<Rightarrow> Inl (Wrapf ''invalid timestamp'' err)
        | None \<Rightarrow> Inr (Some (AsTime lib ts))))"

definition subject_id :: "Subject option \<Rightarrow> gostring" where
  "subject_id s = (case s of None \<Rightarrow> [] | Some v \<Rightarrow> su_Id v)"

definition subject_type :: "Subject option \<Rightarrow> int" where
  "subject_type s = (case s of None \<Rightarrow> 0 | Some v \<Rightarrow> su_Type v)"

definition toProtoDecision :: "proto_lib \<Rightarrow> Decision \<Rightarrow> CheckResponse" where
  "toProtoDecision lib v =
     \<lparr>cx_Allowed = d_Allowed v, cx_DecisionId = d_DecisionID v, cx_Reason = d_Reason v, cx_PolicyVersion = d_PolicyVersion v,
      cx_DataScope = dataScopeProto lib (d_DataScope v), cx_OrganizationUnitIds = d_OrganizationUnitIDs v\<rparr>"

definition proto_audit :: "proto_lib \<Rightarrow> AuditFields \<Rightarrow> ProtoAudit" where
  "proto_audit lib a =
     \<lparr>pa_Version = Version a, pa_CreatedAt = timestamppb_New lib (CreatedAt a), pa_UpdatedAt = timestamppb_New lib (UpdatedAt a),
      pa_CreatedBy = CreatedBy a, pa_UpdatedBy = UpdatedBy a\<rparr>"

definition toProtoPermission :: "proto_lib \<Rightarrow> Permission \<Rightarrow> ProtoPermission" where
  "toProtoPermission lib v =
     \<lparr>pp_Id = p_ID v, pp_TenantId = p_TenantID v, pp_Code = p_Code v, pp_Name = p_Name v, pp_ResourceType = p_ResourceType v,
      pp_Action = p_Action v, pp_ConditionExpression = p_ConditionExpression v, pp_Status = p_Status v,
      pp_Audit = proto_audit lib (p_Audit v)\<rparr>"

definition toProtoRole :: "proto_lib \<Rightarrow> Role \<Rightarrow> ProtoRole" where
  "toProtoRole lib v =
     \<lparr>prl_Id = r_ID v, prl_TenantId = r_TenantID v, prl_Code = r_Code v, prl_Name = r_Name v, prl_Description = r_Description v,
      prl_DataScope = r_DataScope v, prl_Status = r_Status v, prl_Audit = proto_audit lib (r_Audit v)\<rparr>"

definition toProtoRolePermission :: "proto_lib \<Rightarrow> RolePermission \<Rightarrow> ProtoRolePermission" where
  "toProtoRolePermission lib v =
     \<lparr>prp_Id = rp_ID v, prp_TenantId = rp_TenantID v, prp_RoleId = rp_RoleID v, prp_PermissionId = rp_PermissionID v,
      prp_Status = rp_Status v, prp_Audit = proto_audit lib (rp_Audit v)\<rparr>"

definition toProtoBinding :: "proto_lib \<Rightarrow> Binding \<Rightarrow> ProtoBinding" where
  "toProtoBinding lib v =
     \<lparr>pn_Id = b_ID v, pn_TenantId = b_TenantID v,
      pn_Subject = \<lparr>su_Id = b_SubjectID v, su_Type = rpc_subjectTypeProto lib (b_SubjectType v)\<rparr>,
      pn_RoleId = b_RoleID v, pn_OrganizationUnitId = b_OrganizationUnitID v, pn_Status = b_Status v,
      pn_Audit = proto_audit lib (b_Audit v)\<rparr>"

section \<open>The methods\<close>

definition respond :: "('v \<Rightarrow> 'm) \<Rightarrow> 'v result \<Rightarrow> 'm rpc" where
  "respond message r = (case r of Inl err \<Rightarrow> Inl (grpcError err) | Inr v \<Rightarrow> Inr (message v))"

definition rpc_Check :: "proto_lib \<Rightarrow> env \<Rightarrow> ctx \<Rightarrow> CheckMsg \<Rightarrow> world \<Rightarrow> CheckResponse rpc \<times> world" where
  "rpc_Check lib e x request w =
     apfst (respond (toProtoDecision lib))
       (svc_CheckWithAttributes e x (ck_TenantId request) (subject_id (ck_Subject request))
          (subjectTypeString lib (subject_type (ck_Subject request))) (ck_ResourceType request) (ck_ResourceId request)
          (ck_Action request) (ck_Attributes request) w)"

fun rpc_checks ::
  "proto_lib \<Rightarrow> (nat \<Rightarrow> env) \<Rightarrow> nat \<Rightarrow> ctx \<Rightarrow> CheckMsg list \<Rightarrow> CheckResponse list \<Rightarrow> world \<Rightarrow> CheckResponse list rpc \<times> world" where
  "rpc_checks lib es n x [] decisions w = (Inr decisions, w)"
| "rpc_checks lib es n x (check # checks) decisions w =
     (case rpc_Check lib (es n) x check w of
        (Inl err, w') \<Rightarrow> (Inl err, w')
      | (Inr decision, w') \<Rightarrow> rpc_checks lib es (Suc n) x checks (decisions @ [decision]) w')"

definition rpc_BatchCheck ::
  "proto_lib \<Rightarrow> (nat \<Rightarrow> env) \<Rightarrow> ctx \<Rightarrow> CheckMsg list \<Rightarrow> world \<Rightarrow> CheckResponse list rpc \<times> world" where
  "rpc_BatchCheck lib es x checks w = rpc_checks lib es 0 x checks [] w"

definition no_check :: CheckMsg where
  "no_check = \<lparr>ck_TenantId = [], ck_Subject = None, ck_ResourceType = [], ck_ResourceId = [], ck_Action = [], ck_Attributes = []\<rparr>"

definition rpc_ResolveDataScope :: "proto_lib \<Rightarrow> env \<Rightarrow> ctx \<Rightarrow> CheckMsg option \<Rightarrow> world \<Rightarrow> CheckResponse rpc \<times> world" where
  "rpc_ResolveDataScope lib e x check w =
     rpc_Check lib e x (case check of None \<Rightarrow> no_check | Some c \<Rightarrow> c) w"

definition rpc_InvalidateSubject :: "proto_lib \<Rightarrow> InvalidateSubjectMsg \<Rightarrow> world \<Rightarrow> unit rpc \<times> world" where
  "rpc_InvalidateSubject lib request w =
     (case InvalidateSubject (iv_TenantId request) (subject_id (iv_Subject request))
             (subjectTypeString lib (subject_type (iv_Subject request))) (w_cache w) of
        (Some err, cache) \<Rightarrow> (Inl (grpcError err), w\<lparr>w_cache := cache\<rparr>)
      | (None, cache) \<Rightarrow> (Inr (), w\<lparr>w_cache := cache\<rparr>))"

definition rpc_CreatePermission :: "proto_lib \<Rightarrow> env \<Rightarrow> ctx \<Rightarrow> CreatePermissionMsg \<Rightarrow> world \<Rightarrow> ProtoPermission rpc \<times> world" where
  "rpc_CreatePermission lib e x request w =
     apfst (respond (toProtoPermission lib))
       (svc_CreatePermission e x (cp_TenantId request) (cp_Code request) (cp_Name request) (cp_ResourceType request)
          (cp_Action request) [cp_ConditionExpression request] w)"

definition rpc_GetPermission :: "proto_lib \<Rightarrow> env \<Rightarrow> ctx \<Rightarrow> gostring \<Rightarrow> gostring \<Rightarrow> world \<Rightarrow> ProtoPermission rpc" where
  "rpc_GetPermission lib e x tenantId permissionId w =
     respond (toProtoPermission lib) (svc_GetPermission e x tenantId permissionId w)"

definition rpc_UpdatePermission :: "proto_lib \<Rightarrow> env \<Rightarrow> ctx \<Rightarrow> UpdatePermissionMsg \<Rightarrow> world \<Rightarrow> ProtoPermission rpc \<times> world" where
  "rpc_UpdatePermission lib e x request w =
     apfst (respond (toProtoPermission lib))
       (svc_UpdatePermission e x (up_TenantId request) (up_PermissionId request) (up_Name request)
          (up_ConditionExpression request) (up_Status request) (up_ExpectedVersion request) w)"

text \<open>The two optional bounds of a listing; an invalid one ends the call with its text.\<close>

definition created_range ::
  "proto_lib \<Rightarrow> env \<Rightarrow> Timestamp option \<Rightarrow> Timestamp option \<Rightarrow> (time option \<Rightarrow> time option \<Rightarrow> 'm rpc) \<Rightarrow> 'm rpc" where
  "created_range lib e from to serve =
     (case optionalProtoTime lib from of
        Inl err \<Rightarrow> Inl \<lparr>st_Code = InvalidArgumentCode, st_Message = error_text (sentinel_texts e) err\<rparr>
      | Inr createdFrom \<Rightarrow>
          (case optionalProtoTime lib to of
             Inl err \<Rightarrow> Inl \<lparr>st_Code = InvalidArgumentCode, st_Message = error_text (sentinel_texts e) err\<rparr>
           | Inr createdTo \<Rightarrow> serve createdFrom createdTo))"

definition listing :: "('v \<Rightarrow> 'm) \<Rightarrow> 'v Page result \<Rightarrow> ('m list \<times> PageResult) rpc" where
  "listing message r = respond (\<lambda>v. (map message (pg_Items v), pageResult (pg_Total v) (pg_Page v) (pg_PageSize v))) r"

definition rpc_ListPermissions ::
  "proto_lib \<Rightarrow> env \<Rightarrow> ctx \<Rightarrow> ListPermissionsMsg \<Rightarrow> world \<Rightarrow> (ProtoPermission list \<times> PageResult) rpc" where
  "rpc_ListPermissions lib e x request w =
     (case protoPage (lp_Page request) of (page, psize) \<Rightarrow>
        created_range lib e (lp_CreatedFrom request) (lp_CreatedTo request) (\<lambda>createdFrom createdTo.
          listing (toProtoPermission lib)
            (svc_SearchPermissions e x (lp_TenantId request)
               \<lparr>pf_Keyword = lp_Keyword request, pf_IDs = lp_PermissionIds request, pf_Statuses = lp_Statuses request,
                pf_ResourceTypes = lp_ResourceTypes request, pf_Actions = lp_Actions request,
                pf_CreatedFrom = createdFrom, pf_CreatedTo = createdTo\<rparr> page psize w)))"

definition rpc_CreateRole :: "proto_lib \<Rightarrow> env \<Rightarrow> ctx \<Rightarrow> CreateRoleMsg \<Rightarrow> world \<Rightarrow> ProtoRole rpc \<times> world" where
  "rpc_CreateRole lib e x request w =
     apfst (respond (toProtoRole lib))
       (svc_CreateRole e x (cr_TenantId request) (cr_Code request) (cr_Name request) (cr_Description request) (cr_DataScope request) w)"

definition rpc_GetRole :: "proto_lib \<Rightarrow> env \<Rightarrow> ctx \<Rightarrow> gostring \<Rightarrow> gostring \<Rightarrow> world \<Rightarrow> ProtoRole rpc" where
  "rpc_GetRole lib e x tenantId roleId w = respond (toProtoRole lib) (svc_GetRole e x tenantId roleId w)"

definition rpc_UpdateRole :: "proto_lib \<Rightarrow> env \<Rightarrow> ctx \<Rightarrow> UpdateRoleMsg \<Rightarrow> world \<Rightarrow> ProtoRole rpc \<times> world" where
  "rpc_UpdateRole lib e x request w =
     apfst (respond (toProtoRole lib))
       (svc_UpdateRole e x (ur_TenantId request) (ur_RoleId request) (ur_Name request) (ur_Description request)
          (ur_DataScope request) (ur_Status request) (ur_ExpectedVersion request) w)"

definition rpc_ListRoles :: "proto_lib \<Rightarrow> env \<Rightarrow> ctx \<Rightarrow> ListRolesMsg \<Rightarrow> world \<Rightarrow> (ProtoRole list \<times> PageResult) rpc" where
  "rpc_ListRoles lib e x request w =
     (case protoPage (lr_Page request) of (page, psize) \<Rightarrow>
        created_range lib e (lr_CreatedFrom request) (lr_CreatedTo request) (\<lambda>createdFrom createdTo.
          listing (toProtoRole lib)
            (svc_SearchRolesFiltered e x (lr_TenantId request)
               \<lparr>rf_Keyword = lr_Keyword request, rf_IDs = lr_RoleIds request, rf_Statuses = lr_Statuses request,
                rf_DataScopes = lr_DataScopes request, rf_CreatedFrom = createdFrom, rf_CreatedTo = createdTo\<rparr> page psize w)))"

definition rpc_GrantRolePermission ::
  "proto_lib \<Rightarrow> env \<Rightarrow> ctx \<Rightarrow> gostring \<Rightarrow> gostring \<Rightarrow> gostring \<Rightarrow> world \<Rightarrow> ProtoRolePermission rpc \<times> world" where
  "rpc_GrantRolePermission lib e x tenantId roleId permissionId w =
     apfst (respond (toProtoRolePermission lib)) (svc_GrantRolePermission e x tenantId roleId permissionId w)"

definition rpc_RevokeRolePermission ::
  "proto_lib \<Rightarrow> env \<Rightarrow> ctx \<Rightarrow> gostring \<Rightarrow> gostring \<Rightarrow> int \<Rightarrow> world \<Rightarrow> ProtoRolePermission rpc \<times> world" where
  "rpc_RevokeRolePermission lib e x tenantId rolePermissionId expectedVersion w =
     apfst (respond (toProtoRolePermission lib)) (svc_RevokeRolePermission e x tenantId rolePermissionId expectedVersion w)"

definition rpc_ListRolePermissions ::
  "proto_lib \<Rightarrow> env \<Rightarrow> ctx \<Rightarrow> gostring \<Rightarrow> gostring \<Rightarrow> world \<Rightarrow> ProtoRolePermission list rpc" where
  "rpc_ListRolePermissions lib e x tenantId roleId w =
     respond (map (toProtoRolePermission lib)) (svc_ListRolePermissions e x tenantId roleId w)"

definition rpc_CreateBinding :: "proto_lib \<Rightarrow> env \<Rightarrow> ctx \<Rightarrow> CreateBindingMsg \<Rightarrow> world \<Rightarrow> ProtoBinding rpc \<times> world" where
  "rpc_CreateBinding lib e x request w =
     apfst (respond (toProtoBinding lib))
       (svc_CreateBinding e x (cb_TenantId request) (subject_id (cb_Subject request))
          (subjectTypeString lib (subject_type (cb_Subject request))) (cb_RoleId request) (cb_OrganizationUnitId request) w)"

definition rpc_GetBinding :: "proto_lib \<Rightarrow> env \<Rightarrow> ctx \<Rightarrow> gostring \<Rightarrow> gostring \<Rightarrow> world \<Rightarrow> ProtoBinding rpc" where
  "rpc_GetBinding lib e x tenantId bindingId w = respond (toProtoBinding lib) (svc_GetBinding e x tenantId bindingId w)"

definition rpc_RevokeBinding ::
  "proto_lib \<Rightarrow> env \<Rightarrow> ctx \<Rightarrow> gostring \<Rightarrow> gostring \<Rightarrow> int \<Rightarrow> world \<Rightarrow> ProtoBinding rpc \<times> world" where
  "rpc_RevokeBinding lib e x tenantId bindingId expectedVersion w =
     apfst (respond (toProtoBinding lib)) (svc_RevokeBinding e x tenantId bindingId expectedVersion w)"

definition rpc_ListBindings ::
  "proto_lib \<Rightarrow> env \<Rightarrow> ctx \<Rightarrow> ListBindingsMsg \<Rightarrow> world \<Rightarrow> (ProtoBinding list \<times> PageResult) rpc" where
  "rpc_ListBindings lib e x request w =
     (case protoPage (lb_Page request) of (page, psize) \<Rightarrow>
      case (case lb_Subject request of None \<Rightarrow> ([], []) | Some s \<Rightarrow> (su_Id s, subjectTypeString lib (su_Type s))) of (subjectID, subjectType) \<Rightarrow>
        created_range lib e (lb_CreatedFrom request) (lb_CreatedTo request) (\<lambda>createdFrom createdTo.
          listing (toProtoBinding lib)
            (svc_SearchBindings e x (lb_TenantId request)
               \<lparr>bf_SubjectID = subjectID, bf_SubjectType = subjectType, bf_IDs = lb_BindingIds request, bf_RoleIDs = lb_RoleIds request,
                bf_Statuses = lb_Statuses request, bf_OrganizationUnitIDs = lb_OrganizationUnitIds request,
                bf_CreatedFrom = createdFrom, bf_CreatedTo = createdTo\<rparr> page psize w)))"

section \<open>Laws\<close>

lemma to_lower_upper: "to_lower_char (to_upper_char c) = to_lower_char c"
  by (auto simp: to_lower_char_def to_upper_char_def Let_def)

lemma ToLower_ToUpper [simp]: "ToLower (ToUpper s) = ToLower s"
  by (simp add: ToLower_def ToUpper_def to_lower_upper)

text \<open>The enumerator of a subject type names it: what the generated tables say of the names that
  the service knows.\<close>

definition subject_names_ok :: "proto_lib \<Rightarrow> bool" where
  "subject_names_ok lib =
     list_all (\<lambda>s. SubjectType_String lib (SubjectType_value lib (''SUBJECT_TYPE_'' @ ToUpper s)) = ''SUBJECT_TYPE_'' @ ToUpper s)
       [''membership'', ''service_account'', ''group'', ''user'']"

lemma subject_type_roundtrip:
  assumes "subject_names_ok lib" "validSubjectType s"
  shows "subjectTypeString lib (rpc_subjectTypeProto lib s) = s"
proof -
  have "SubjectType_String lib (SubjectType_value lib (''SUBJECT_TYPE_'' @ ToUpper s)) = ''SUBJECT_TYPE_'' @ ToUpper s"
    using assms by (auto simp: subject_names_ok_def validSubjectType_def)
  then have "subjectTypeString lib (rpc_subjectTypeProto lib s) = ToLower s"
    by (simp add: subjectTypeString_def rpc_subjectTypeProto_def TrimPrefix_def)
  also have "ToLower s = s"
  proof -
    have "ToLower ''membership'' = ''membership''" "ToLower ''service_account'' = ''service_account''"
      "ToLower ''group'' = ''group''" "ToLower ''user'' = ''user''" by code_simp+
    with assms(2) show ?thesis by (auto simp: validSubjectType_def)
  qed
  finally show ?thesis .
qed

text \<open>The page of a request fits its protocol field again after normalisation.\<close>

lemma normalized_page_fits:
  assumes "protoPage value = (p, s)" "normalizePage p s = Inr (page, psize)"
  shows "uint (px_Page (pageResult n page psize)) = page \<and> uint (px_PageSize (pageResult n page psize)) = psize"
proof -
  have "p < 2 ^ 32" "s < 2 ^ 32"
    using assms(1) uint_lt2p[of "pq_Page _"] uint_lt2p[of "pq_PageSize _"] by (auto simp: protoPage_def split: option.splits)
  then have "0 \<le> page" "page < 2 ^ 32" "0 \<le> psize" "psize < 2 ^ 32"
    using assms(2) by (auto simp: normalizePage_def Let_def split: if_splits)
  then show ?thesis by (simp add: pageResult_def uint_word_of_int take_bit_int_eq_self)
qed

end
