(* ===== verification/Grpc_Properties.thy ===== *)
theory Grpc_Properties
  imports Grpc Http_Handlers Update_Laws Sample
begin

text \<open>
  Properties of the gRPC interface: the width of its pages, the round trip of a subject through its
  messages, and the codes that its errors carry.
\<close>

definition sample_lib :: proto_lib where
  "sample_lib = \<lparr>SubjectType_String = (\<lambda>n. if n = 1 then ''SUBJECT_TYPE_MEMBERSHIP'' else if n = 2 then ''SUBJECT_TYPE_SERVICE_ACCOUNT''
       else if n = 3 then ''SUBJECT_TYPE_GROUP'' else if n = 4 then ''SUBJECT_TYPE_USER'' else ''SUBJECT_TYPE_UNSPECIFIED''),
     SubjectType_value = (\<lambda>s. if s = ''SUBJECT_TYPE_MEMBERSHIP'' then 1 else if s = ''SUBJECT_TYPE_SERVICE_ACCOUNT'' then 2
       else if s = ''SUBJECT_TYPE_GROUP'' then 3 else if s = ''SUBJECT_TYPE_USER'' then 4 else 0),
     DataScopeType_value = (\<lambda>s. 0), CheckValid = (\<lambda>t. None), AsTime = ts_Seconds, timestamppb_New = (\<lambda>t. \<lparr>ts_Seconds = t, ts_Nanos = 0\<rparr>)\<rparr>"

lemma respond_Inr: "respond f r = Inr v \<longleftrightarrow> (\<exists>u. r = Inr u \<and> v = f u)"
  by (cases r) (auto simp: respond_def)

section \<open>Pages\<close>

text \<open>A page cut out of the rows of a search, and the report of a page in the fields of a message.\<close>

definition page_of_rows :: "int \<Rightarrow> int \<Rightarrow> 'v list \<Rightarrow> 'v Page \<Rightarrow> bool" where
  "page_of_rows p s rows pg \<longleftrightarrow> normalizePage p s = Inr (pg_Page pg, pg_PageSize pg) \<and>
     pg_Items pg = take (nat (pg_PageSize pg)) (drop (nat (page_offset (pg_Page pg) (pg_PageSize pg))) rows) \<and>
     pg_Total pg = int (length rows)"

definition page_reported :: "'v Page \<Rightarrow> PageResult \<Rightarrow> bool" where
  "page_reported pg pr \<longleftrightarrow> uint (px_Page pr) = pg_Page pg \<and> uint (px_PageSize pr) = pg_PageSize pg \<and>
     uint (px_Total pr) = pg_Total pg mod 2 ^ 64 \<and> 1 \<le> pg_Page pg \<and> 1 \<le> pg_PageSize pg \<and> pg_PageSize pg \<le> 100 \<and>
     page_offset (pg_Page pg) (pg_PageSize pg) = (pg_Page pg - 1) * pg_PageSize pg"

lemma tenant_first:
  "satisfies (appendTimeRange (appendSetFilters ((\<lambda>v. tenant_of v = t) # wh) fs) created a b) v \<Longrightarrow> tenant_of v = t"
  by (cases a; cases b) (auto simp: appendTimeRange_def appendSetFilters_def satisfies_def)

lemma cut_page:
  assumes "(case normalizePage p s of Inl err \<Rightarrow> Inl err | Inr (page, psz) \<Rightarrow> page_of page psz (listPage c tbl tab
      (appendTimeRange (appendSetFilters ((\<lambda>v. tenant_of v = t) # wh) fs) created a b) order psz (page_offset page psz))) = Inr pg"
    and "\<And>rows. length (order rows) = length rows" "\<And>rows. set (order rows) = set rows"
  shows "\<exists>rows. page_of_rows p s rows pg \<and> set rows \<subseteq> {v \<in> set tab. tenant_of v = t}"
proof -
  let ?wh = "appendTimeRange (appendSetFilters ((\<lambda>v. tenant_of v = t) # wh) fs) created a b"
  from assms(1) obtain page psz items count where n: "normalizePage p s = Inr (page, psz)"
    and l: "listPage c tbl tab ?wh order psz (page_offset page psz) = Inr (items, count)"
    and pg: "pg = \<lparr>pg_Items = items, pg_Total = count, pg_Page = page, pg_PageSize = psz\<rparr>"
    by (auto simp: page_of_Inr split: sum.splits prod.splits)
  have "page_of_rows p s (order (filter (satisfies ?wh) tab)) pg"
    using listPage_Inr[OF l] by (simp add: page_of_rows_def n assms(2) pg)
  moreover have "set (order (filter (satisfies ?wh) tab)) \<subseteq> {v \<in> set tab. tenant_of v = t}"
    using tenant_first unfolding assms(3) by fastforce
  ultimately show ?thesis by blast
qed

lemma if_snoc: "(if c then [v] @ vs else [v]) = v # (if c then vs else [])"
  by simp

lemma search_permissions_page:
  "svc_SearchPermissions e x t f p s w = Inr pg \<Longrightarrow>
   \<exists>rows. page_of_rows p s rows pg \<and> set rows \<subseteq> {v \<in> set (live (permissions (w_db w))). p_TenantID v = TrimSpace t}"
  unfolding svc_SearchPermissions_def repo_SearchPermissions_def Let_def if_snoc
  by (cases "enforceInteractiveTenant e x (TrimSpace t)"; cases "normalizePermissionFilter f"; simp only: option.case sum.case sum.distinct)
    (erule cut_page; simp add: by_code_id_def)

lemma search_roles_page:
  "svc_SearchRolesFiltered e x t f p s w = Inr pg \<Longrightarrow>
   \<exists>rows. page_of_rows p s rows pg \<and> set rows \<subseteq> {v \<in> set (live (roles (w_db w))). r_TenantID v = TrimSpace t}"
  unfolding svc_SearchRolesFiltered_def repo_SearchRolesFiltered_def Let_def if_snoc
  by (cases "enforceInteractiveTenant e x (TrimSpace t)"; cases "normalizeRoleFilter f"; simp only: option.case sum.case sum.distinct)
    (erule cut_page; simp add: by_code_id_def)

lemma search_bindings_page:
  assumes "svc_SearchBindings e x t f p s w = Inr pg"
  shows "\<exists>rows. page_of_rows p s rows pg \<and> set rows \<subseteq> {v \<in> set (live (role_bindings (w_db w))). b_TenantID v = TrimSpace t}"
proof -
  from assms obtain f' where "(case normalizePage p s of Inl err \<Rightarrow> Inl err | Inr (page, psz) \<Rightarrow>
      page_of page psz (repo_SearchBindings (conn_of e 0) (w_db w) (TrimSpace t) f' psz (page_offset page psz))) = Inr pg"
    unfolding svc_SearchBindings_def Let_def by (auto split: if_splits option.splits sum.splits)
  then show ?thesis unfolding repo_SearchBindings_def Let_def if_snoc by (rule cut_page) simp_all
qed

lemmas search_page = search_permissions_page search_roles_page search_bindings_page

lemma listing_reported:
  assumes "protoPage q = (p, s)" "page_of_rows p s rows pg"
  shows "page_reported pg (pageResult (pg_Total pg) (pg_Page pg) (pg_PageSize pg))"
proof -
  from assms(2) have n: "normalizePage p s = Inr (pg_Page pg, pg_PageSize pg)" by (simp add: page_of_rows_def)
  have bound: "1 \<le> pg_Page pg" "1 \<le> pg_PageSize pg" "pg_PageSize pg \<le> 100" using normalizePage_Inr[OF n] by simp_all
  have "p < 2 ^ 32" using assms(1) uint_lt2p[of "pq_Page _"] by (auto simp: protoPage_def split: option.splits)
  then have "pg_Page pg \<le> 2 ^ 56" using n by (auto simp: normalizePage_def Let_def split: if_splits)
  with bound have "page_offset (pg_Page pg) (pg_PageSize pg) = (pg_Page pg - 1) * pg_PageSize pg" by (intro page_offset_exact) simp_all
  with normalized_page_fits[OF assms(1) n] bound show ?thesis
    by (simp add: page_reported_def) (simp add: pageResult_def uint_word_of_int take_bit_eq_mod)
qed

text \<open>What an exact listing is: with the times of the request decoded, the search finds a page of
  rows that are among the owned ones, and the answer carries this page and reports it.\<close>

definition exact_listing ::
  "proto_lib \<Rightarrow> (time option \<Rightarrow> time option \<Rightarrow> 'v Page result) \<Rightarrow> Timestamp option \<Rightarrow> Timestamp option \<Rightarrow> PageRequest option
   \<Rightarrow> ('v \<Rightarrow> 'm) \<Rightarrow> 'v set \<Rightarrow> 'm list \<times> PageResult \<Rightarrow> bool" where
  "exact_listing lib search from to q message owned r \<longleftrightarrow>
     (\<exists>f t pg rows. optionalProtoTime lib from = Inr f \<and> optionalProtoTime lib to = Inr t \<and> search f t = Inr pg \<and>
        page_of_rows (fst (protoPage q)) (snd (protoPage q)) rows pg \<and> set rows \<subseteq> owned \<and>
        fst r = map message (pg_Items pg) \<and> page_reported pg (snd r))"

lemma listing_exact:
  assumes "created_range lib e from to (\<lambda>f t. listing message (search f t)) = Inr r"
    and "\<And>f t pg. search f t = Inr pg \<Longrightarrow> \<exists>rows. page_of_rows (fst (protoPage q)) (snd (protoPage q)) rows pg \<and> set rows \<subseteq> owned"
  shows "exact_listing lib search from to q message owned r"
proof -
  from assms(1) obtain f t pg where f: "optionalProtoTime lib from = Inr f" "optionalProtoTime lib to = Inr t" and s: "search f t = Inr pg"
    and r: "r = (map message (pg_Items pg), pageResult (pg_Total pg) (pg_Page pg) (pg_PageSize pg))"
    by (auto simp: created_range_def listing_def respond_Inr split: sum.splits)
  from assms(2)[OF s] obtain rows where rows: "page_of_rows (fst (protoPage q)) (snd (protoPage q)) rows pg" "set rows \<subseteq> owned" by blast
  from listing_reported[OF prod.collapse[symmetric] rows(1)] f s r rows show ?thesis unfolding exact_listing_def by fastforce
qed

text \<open>C33. The lists of the gRPC interface are exact pages. A list of permissions, of roles or of bindings
  that succeeds carries, converted to messages and in order, the page that the service finds for
  the filter of the request: the requested piece of rows of the tenant. It reports the normalised
  page and page size without loss in its 32-bit fields and the number of all those rows in its
  64-bit field (modulo \<open>2 ^ 64\<close>); since the request carries 32-bit numbers too, the offset of the
  page is the exact product and does not wrap around.\<close>

theorem grpc_page_is_exact:
  "(rpc_ListPermissions lib e x lp w = Inr ps \<longrightarrow>
      exact_listing lib (\<lambda>from to. svc_SearchPermissions e x (lp_TenantId lp)
          \<lparr>pf_Keyword = lp_Keyword lp, pf_IDs = lp_PermissionIds lp, pf_Statuses = lp_Statuses lp,
           pf_ResourceTypes = lp_ResourceTypes lp, pf_Actions = lp_Actions lp, pf_CreatedFrom = from, pf_CreatedTo = to\<rparr>
          (fst (protoPage (lp_Page lp))) (snd (protoPage (lp_Page lp))) w)
        (lp_CreatedFrom lp) (lp_CreatedTo lp) (lp_Page lp) (toProtoPermission lib)
        {v \<in> set (live (permissions (w_db w))). p_TenantID v = TrimSpace (lp_TenantId lp)} ps) \<and>
   (rpc_ListRoles lib e x lr w = Inr rs \<longrightarrow>
      exact_listing lib (\<lambda>from to. svc_SearchRolesFiltered e x (lr_TenantId lr)
          \<lparr>rf_Keyword = lr_Keyword lr, rf_IDs = lr_RoleIds lr, rf_Statuses = lr_Statuses lr,
           rf_DataScopes = lr_DataScopes lr, rf_CreatedFrom = from, rf_CreatedTo = to\<rparr>
          (fst (protoPage (lr_Page lr))) (snd (protoPage (lr_Page lr))) w)
        (lr_CreatedFrom lr) (lr_CreatedTo lr) (lr_Page lr) (toProtoRole lib)
        {v \<in> set (live (roles (w_db w))). r_TenantID v = TrimSpace (lr_TenantId lr)} rs) \<and>
   (rpc_ListBindings lib e x lb w = Inr bs \<longrightarrow>
      exact_listing lib (\<lambda>from to. svc_SearchBindings e x (lb_TenantId lb)
          \<lparr>bf_SubjectID = (case lb_Subject lb of None \<Rightarrow> [] | Some s \<Rightarrow> su_Id s),
           bf_SubjectType = (case lb_Subject lb of None \<Rightarrow> [] | Some s \<Rightarrow> subjectTypeString lib (su_Type s)),
           bf_IDs = lb_BindingIds lb, bf_RoleIDs = lb_RoleIds lb, bf_Statuses = lb_Statuses lb,
           bf_OrganizationUnitIDs = lb_OrganizationUnitIds lb, bf_CreatedFrom = from, bf_CreatedTo = to\<rparr>
          (fst (protoPage (lb_Page lb))) (snd (protoPage (lb_Page lb))) w)
        (lb_CreatedFrom lb) (lb_CreatedTo lb) (lb_Page lb) (toProtoBinding lib)
        {v \<in> set (live (role_bindings (w_db w))). b_TenantID v = TrimSpace (lb_TenantId lb)} bs)"
  by (cases "lb_Subject lb"; intro conjI impI; rule listing_exact, erule_tac[2] search_page)
    (simp_all add: rpc_ListPermissions_def rpc_ListRoles_def rpc_ListBindings_def split_beta)

text \<open>Witness of C33: the first page of five roles of a tenant with one role.\<close>

theorem grpc_page_is_exact_witness:
  "\<exists>items pr. rpc_ListRoles sample_lib sample_env sample_ctx \<lparr>lr_TenantId = ''t1'', lr_Page = Some \<lparr>pq_Page = 1, pq_PageSize = 5\<rparr>,
     lr_Keyword = [], lr_RoleIds = [], lr_Statuses = [], lr_DataScopes = [], lr_CreatedFrom = None, lr_CreatedTo = None\<rparr> sample_world = Inr (items, pr) \<and>
     length items = 1 \<and> uint (px_PageSize pr) = 5 \<and> uint (px_Page pr) = 1"
proof -
  define m where "m = \<lparr>lr_TenantId = ''t1'', lr_Page = Some \<lparr>pq_Page = 1, pq_PageSize = 5\<rparr>,
     lr_Keyword = [], lr_RoleIds = [], lr_Statuses = [], lr_DataScopes = [], lr_CreatedFrom = None, lr_CreatedTo = None\<rparr>"
  let ?q = "rpc_ListRoles sample_lib sample_env sample_ctx m sample_world"
  have "\<not> isl ?q" "length (fst (projr ?q)) = 1" unfolding m_def by code_simp+
  then obtain items pr where r: "?q = Inr (items, pr)" "length items = 1" by (cases ?q) auto
  have q: "protoPage (lr_Page m) = (1, 5)" by (simp add: m_def protoPage_def)
  from grpc_page_is_exact[THEN conjunct2, THEN conjunct1, rule_format, OF r(1)] q
  have "uint (px_PageSize pr) = 5 \<and> uint (px_Page pr) = 1"
    by (auto simp: exact_listing_def page_reported_def page_of_rows_def normalizePage_def)
  with r show ?thesis unfolding m_def by blast
qed

text \<open>Subjects survive the messages. Given that the generated enumeration names the subject types, the
  binding that a successful creation returns names the subject of the request, and its
  enumerator, read back, is the subject type of the request.\<close>

lemma grpc_binding_roundtrip:
  assumes "subject_names_ok lib" "rpc_CreateBinding lib e x request w = (Inr msg, w')"
  shows "su_Id (pn_Subject msg) = subject_id (cb_Subject request) \<and> pn_RoleId msg = cb_RoleId request \<and>
    subjectTypeString lib (su_Type (pn_Subject msg)) = ToLower (TrimSpace (subjectTypeString lib (subject_type (cb_Subject request)))) \<and>
    pn_TenantId msg = cb_TenantId request \<and> pn_Status msg = ''active''"
proof -
  let ?st = "subjectTypeString lib (subject_type (cb_Subject request))"
  from assms(2) obtain b where b: "svc_CreateBinding e x (cb_TenantId request) (subject_id (cb_Subject request)) ?st (cb_RoleId request)
      (cb_OrganizationUnitId request) w = (Inr b, w')" and msg: "msg = toProtoBinding lib b"
    by (cases "svc_CreateBinding e x (cb_TenantId request) (subject_id (cb_Subject request)) ?st (cb_RoleId request) (cb_OrganizationUnitId request) w")
      (auto simp: rpc_CreateBinding_def respond_def split: sum.splits)
  have "validSubjectType (ToLower (TrimSpace ?st))"
    using b by (auto simp: svc_CreateBinding_def Let_def split: sum.splits if_splits dest: validSubjectForTenant_type)
  with svc_CreateBinding_Inr[OF b] subject_type_roundtrip[OF assms(1)] show ?thesis
    by (auto simp: msg toProtoBinding_def)
qed

text \<open>The two interfaces report errors differently. Both hide an unstructured error behind the same fixed
  message. Invalid arguments, missing and conflicting resources and unavailable dependencies keep
  their meaning on both; a caller that is not authenticated or not permitted and a stale version
  are told so over HTTP (401, 403, 409) but reported as internal errors over gRPC.\<close>

lemma error_codes_by_interface:
  shows "(as_app err = None \<longrightarrow> grpcError err = \<lparr>st_Code = InternalCode, st_Message = ''internal server error''\<rparr> \<and>
           Fail x err = (500, \<lparr>rs_Code = CodeInternal, rs_Message = ''internal server error'', rs_Body = None, rs_RequestID = requestID x\<rparr>)) \<and>
         st_Code (grpcError (Invalid m e)) = InvalidArgumentCode \<and> fst (Fail x (Invalid m e)) = 400 \<and>
         st_Code (grpcError (NotFound m)) = NotFoundCode \<and> fst (Fail x (NotFound m)) = 404 \<and>
         st_Code (grpcError (Conflict m e)) = AbortedCode \<and> fst (Fail x (Conflict m e)) = 409 \<and>
         st_Code (grpcError (Unavailable m e)) = UnavailableCode \<and> fst (Fail x (Unavailable m e)) = 503 \<and>
         st_Code (grpcError (Unauthorized m)) = InternalCode \<and> fst (Fail x (Unauthorized m)) = 401 \<and>
         st_Code (grpcError (Forbidden m)) = InternalCode \<and> fst (Fail x (Forbidden m)) = 403 \<and>
         st_Code (grpcError (StaleVersion err)) = InternalCode \<and> fst (Fail x (StaleVersion err)) = 409"
  by (simp add: grpcError_def Fail_def apperror_defs Let_def)

end
