(* ===== verification/Projection_Properties.thy ===== *)
theory Projection_Properties
  imports Projection_Laws Sample
begin

text \<open>
  Properties of the consumers of tenant events and of the bootstrap of the platform administrator.
\<close>

definition sample_projection :: projection_env where
  "sample_projection = \<lparr>decode_group = (\<lambda>en. Inr \<lparr>gc_TenantId = ''t1'', gc_GroupId = ''g1'', gc_MembershipId = ''m1'', gc_ChangeType = ''member_added''\<rparr>),
     decode_tenant = (\<lambda>en. Inr \<lparr>tc_TenantId = ''t9'', tc_OwnerMembershipId = ''m9'', tc_OwnerUserId = ''u9''\<rparr>),
     asTime = (\<lambda>t. case t of None \<Rightarrow> 0 | Some v \<Rightarrow> v), time_Now = 500,
     systemContext = (\<lambda>x actor. x\<lparr>ctx_principal := Some \<lparr>pr_ID = actor, pr_Type = TypeSystem, pr_TenantID = [], pr_MembershipID = []\<rparr>\<rparr>),
     sha1 = (\<lambda>s. s), pconn = sample_conn\<rparr>"

definition sample_envelope :: Envelope where
  "sample_envelope = \<lparr>cev_EventId = ''ev1'', cev_EventType = ''tenant'', cev_OccurredAt = Some 42, cev_ActorId = [], cev_Payload = []\<rparr>"

section \<open>At-least-once delivery\<close>

text \<open>C28. Redelivery is harmless. Once an event of a group or of a new tenant was applied, delivering
  it again, after whatever other deliveries, leaves the tables as they are.\<close>

theorem redelivered_events_change_nothing:
  shows "(group_Apply e x (Some envelope) s = (None, s1) \<and> group_relevant (e, x, envelope) \<longrightarrow>
           fst (snd (group_Apply e x (Some envelope) (gp.deliveries evs s1))) = fst (gp.deliveries evs s1)) \<and>
         (tenant_Apply e x (Some envelope) q = (None, q1) \<and> tenant_relevant (e, x, envelope) \<longrightarrow>
           fst (snd (tenant_Apply e x (Some envelope) (tb.deliveries tevs q1))) = fst (tb.deliveries tevs q1))"
  using gp.redelivery_harmless[of "(e, x, envelope)" s s1 evs] tb.redelivery_harmless[of "(e, x, envelope)" q q1 tevs] by simp

theorem redelivered_events_change_nothing_witness:
  "let s1 = snd (group_Apply sample_projection sample_ctx (Some sample_envelope) (sample_db, None)) in
   length (subject_groups (fst s1)) = 1 \<and>
   fst (snd (group_Apply sample_projection sample_ctx (Some sample_envelope) s1)) = fst s1"
proof -
  let ?r = "group_Apply sample_projection sample_ctx (Some sample_envelope) (sample_db, None)"
  have "fst ?r = None" by code_simp
  then have "?r = (None, snd ?r)" by (metis prod.collapse)
  moreover have "group_relevant (sample_projection, sample_ctx, sample_envelope)" by code_simp
  moreover have "length (subject_groups (fst (snd ?r))) = 1" by code_simp
  ultimately show ?thesis
    using redelivered_events_change_nothing[of sample_projection sample_ctx sample_envelope "(sample_db, None)" "snd ?r" "[]"]
    by (simp add: gp.deliveries_def Let_def)
qed

section \<open>Group memberships\<close>

text \<open>C29. The newest event wins. Whatever the order in which the events of a membership in a group
  arrive, and on either database, the stored status is that of an event with the latest time.\<close>

theorem newest_membership_event_wins:
  assumes "upserts k evs db = Inr db'" "evs \<noteq> []" "membership_of db k = None"
  shows "\<exists>c st at. (c, st, at) \<in> set evs \<and> membership_of db' k = Some (st, at) \<and> (\<forall>(c', st', at')\<in>set evs. at' \<le> at)"
proof -
  have "\<exists>n. membership_of db' k = Some n \<and> (\<exists>c. (c, fst n, snd n) \<in> set evs) \<and> (\<forall>(c, st, at)\<in>set evs. at \<le> snd n)"
    by (rule upserts_newest[OF assms(1,2)]) (use assms(3) in auto)
  then show ?thesis by fastforce
qed

theorem newest_membership_event_wins_witness:
  "\<exists>db'. upserts (''t1'', ''m1'', ''g1'') [(sample_conn\<lparr>app_actor := ''a''\<rparr>, ''removed'', 9), (sample_conn\<lparr>app_actor := ''a''\<rparr>, ''active'', 3)] sample_db = Inr db' \<and>
     (\<exists>st at. membership_of db' (''t1'', ''m1'', ''g1'') = Some (st, at) \<and> 9 \<le> at)"
proof -
  let ?c = "sample_conn\<lparr>app_actor := ''a''\<rparr>"
  let ?q = "upserts (''t1'', ''m1'', ''g1'') [(?c, ''removed'', 9), (?c, ''active'', 3)] sample_db"
  have "\<not> isl ?q" by code_simp
  then obtain db' where q: "?q = Inr db'" by (cases ?q) auto
  have "membership_of sample_db (''t1'', ''m1'', ''g1'') = None" by code_simp
  from newest_membership_event_wins[OF q _ this] q show ?thesis by auto
qed

section \<open>Bootstrap\<close>

text \<open>C30. The owner of a new tenant has full access. Applying the creation event of a tenant of which
  nothing exists yet makes every check of the owner's membership, whatever the resource, action
  and attributes, come out as allowed with the data scope \<open>all\<close>, and drops what the cache held
  for the owner.\<close>

theorem new_tenant_owner_has_access:
  assumes "tenant_Apply e x (Some envelope) (db, cache) = (None, db', cache')" "decode_tenant e envelope = Inr event"
    and "\<not> event_marked db (cev_EventId envelope)" "new_tenant (sha1 e) db (tc_TenantId event) (tc_OwnerMembershipId event)"
  shows "(\<exists>us. decided (applicable e' db' (tc_TenantId event) (tc_OwnerMembershipId event) ''membership'' rt rid a attrs) = (True, ''all'', us)) \<and>
    cache' = snd (InvalidateSubject (tc_TenantId event) (tc_OwnerMembershipId event) ''membership'' cache)"
proof -
  from assms(1,2) obtain x' u where w: "Within (pconn e) x' (tenant_tx e envelope (tc_TenantId event) (tc_OwnerMembershipId event)) db = Inr (u, db')"
    and c: "cache' = snd (InvalidateSubject (tc_TenantId event) (tc_OwnerMembershipId event) ''membership'' cache)"
    by (auto simp: tenant_Apply_def Let_def split: if_splits sum.splits)
  then obtain tx where "tenant_tx e envelope (tc_TenantId event) (tc_OwnerMembershipId event) tx db = Inr (u, db')"
    by (auto simp: Within_Inr_iff)
  from owner_applicable[OF tenant_tx_granted[OF this assms(3,4)]] c show ?thesis by blast
qed

theorem new_tenant_owner_has_access_witness:
  "\<exists>us. decided (applicable sample_env (fst (snd (tenant_Apply sample_projection sample_ctx (Some sample_envelope) (sample_db, []))))
     ''t9'' ''m9'' ''membership'' ''invoice'' [] ''pay'' []) = (True, ''all'', us)"
proof -
  let ?r = "tenant_Apply sample_projection sample_ctx (Some sample_envelope) (sample_db, [])"
  let ?ev = "\<lparr>tc_TenantId = ''t9'', tc_OwnerMembershipId = ''m9'', tc_OwnerUserId = ''u9''\<rparr>"
  have "fst ?r = None" by code_simp
  then have r: "?r = (None, fst (snd ?r), snd (snd ?r))" by (metis prod.collapse)
  have d: "decode_tenant sample_projection sample_envelope = Inr ?ev" by (simp add: sample_projection_def)
  have "\<not> event_marked sample_db (cev_EventId sample_envelope)"
    "new_tenant (sha1 sample_projection) sample_db (tc_TenantId ?ev) (tc_OwnerMembershipId ?ev)" by code_simp+
  from new_tenant_owner_has_access[OF r d this] show ?thesis by simp
qed

text \<open>C31. Granting the platform administrator is effective: on success there is an active binding of
  exactly the given subject to an active super-admin role of the platform tenant, whose policy
  version has grown by one; a subject that is blank or of another kind is refused without effect.\<close>

theorem super_admin_granted:
  assumes "GrantPlatformSuperAdmin e x present sid sty db = (r, db')" "pv_live db"
    and "\<And>res. r = Inr res \<Longrightarrow> binding_id_free db (gr_BindingID res) (gr_SubjectID res) (gr_SubjectType res) (gr_RoleID res)"
  shows "case r of
      Inl err \<Rightarrow> db' = db
    | Inr res \<Rightarrow> admin_bound db' (TrimSpace sid) (ToLower (TrimSpace sty)) (gr_RoleID res) \<and> TrimSpace sid \<noteq> [] \<and>
        ToLower (TrimSpace sty) \<in> {''user'', ''service_account''} \<and>
        (\<exists>q\<in>set (roles db'). r_ID (row_val q) = gr_RoleID res \<and> r_TenantID (row_val q) = BootstrapPlatformTenantID \<and>
           r_Code (row_val q) = SuperAdminRoleCode \<and> r_Status (row_val q) = ''active'') \<and>
        policy_version_of db' BootstrapPlatformTenantID = policy_version_of db BootstrapPlatformTenantID + 1"
proof (cases r)
  case (Inl err)
  with assms(1) show ?thesis by (auto simp: GrantPlatformSuperAdmin_def Let_def split: if_splits sum.splits)
next
  case (Inr res)
  have s: "gr_SubjectID res = TrimSpace sid" "gr_SubjectType res = ToLower (TrimSpace sty)" "TrimSpace sid \<noteq> []"
    using assms(1) Inr by (auto simp: GrantPlatformSuperAdmin_def Let_def split: if_splits sum.splits prod.splits)
  from GrantPlatformSuperAdmin_Inr[OF assms(1)[unfolded Inr] assms(2) assms(3)[OF Inr]] s show ?thesis
    by (auto simp: Inr)
qed

theorem super_admin_granted_witness:
  "\<exists>res. fst (GrantPlatformSuperAdmin sample_projection sample_ctx True '' u5 '' ''USER'' (sample_db\<lparr>roles :=
       [Row (sample_role\<lparr>r_TenantID := ''__platform__'', r_Code := ''platform-super-admin''\<rparr>) None]\<rparr>)) = Inr res \<and>
     admin_bound (snd (GrantPlatformSuperAdmin sample_projection sample_ctx True '' u5 '' ''USER'' (sample_db\<lparr>roles :=
       [Row (sample_role\<lparr>r_TenantID := ''__platform__'', r_Code := ''platform-super-admin''\<rparr>) None]\<rparr>))) ''u5'' ''user'' (gr_RoleID res)"
proof -
  let ?db = "sample_db\<lparr>roles := [Row (sample_role\<lparr>r_TenantID := ''__platform__'', r_Code := ''platform-super-admin''\<rparr>) None]\<rparr>"
  let ?g = "GrantPlatformSuperAdmin sample_projection sample_ctx True '' u5 '' ''USER'' ?db"
  have "\<not> isl (fst ?g)" by code_simp
  then obtain res where res: "fst ?g = Inr res" by (cases "fst ?g") auto
  have "(\<lambda>res. binding_id_free ?db (gr_BindingID res) (gr_SubjectID res) (gr_SubjectType res) (gr_RoleID res)) (projr (fst ?g))" by code_simp
  then have free: "binding_id_free ?db (gr_BindingID res') (gr_SubjectID res') (gr_SubjectType res') (gr_RoleID res')" if "fst ?g = Inr res'" for res'
    using that by simp
  have pv: "pv_live ?db" by code_simp
  have "TrimSpace '' u5 '' = ''u5''" "ToLower (TrimSpace ''USER'') = ''user''" by code_simp+
  moreover have "?g = (fst ?g, snd ?g)" by simp
  note super_admin_granted[OF this pv free]
  ultimately show ?thesis using res by simp
qed

end
