(* ===== verification/Route_Policy_Laws.thy ===== *)
theory Route_Policy_Laws
  imports Route_Policy
begin

text \<open>
  Laws of the route policies: the permission references of a policy after \<open>Set\<close> are exactly the
  requested ones, a write against an outdated version changes nothing, the cache of route
  identifiers is transparent, and what a refresh of the manager establishes.
\<close>

section \<open>References as a map\<close>

definition ref_key :: "permissionRow \<Rightarrow> gostring \<times> gostring" where
  "ref_key r = (ref_PolicyID r, ref_Key r)"

text \<open>Identifiers are unique, and so is the key within a policy, over all rows.\<close>

definition refs_wf :: "permissionRow table \<Rightarrow> bool" where
  "refs_wf t = (distinct (map (ref_ID \<circ> row_val) t) \<and> distinct (map (ref_key \<circ> row_val) t))"

definition row_at :: "permissionRow table \<Rightarrow> gostring \<times> gostring \<Rightarrow> permissionRow row option" where
  "row_at t k = find (\<lambda>r. ref_key (row_val r) = k) t"

definition requested :: "permissionRow table \<Rightarrow> gostring \<times> gostring \<Rightarrow> PermissionInput option" where
  "requested t k = (case row_at t k of None \<Rightarrow> None | Some r \<Rightarrow> if row_deleted_at r = None then Some (input_of (row_val r)) else None)"

text \<open>The pairs of identifier and key that occur in a table.\<close>

definition ids_keys :: "permissionRow table \<Rightarrow> (gostring \<times> gostring \<times> gostring) list" where
  "ids_keys t = map ((\<lambda>v. (ref_ID v, ref_key v)) \<circ> row_val) t"

lemma refs_wf_ids: "refs_wf t \<longleftrightarrow> distinct (map fst (ids_keys t)) \<and> distinct (map snd (ids_keys t))"
  by (simp add: refs_wf_def ids_keys_def comp_def)

lemma same_row:
  assumes "refs_wf t" "r \<in> set t" "(ref_ID v, ref_key v) \<in> set (ids_keys t)"
  shows "ref_ID (row_val r) = ref_ID v \<longleftrightarrow> ref_key (row_val r) = ref_key v"
proof -
  have d: "distinct (map fst (ids_keys t))" "distinct (map snd (ids_keys t))" using assms(1) by (simp_all add: refs_wf_ids)
  have r: "(ref_ID (row_val r), ref_key (row_val r)) \<in> set (ids_keys t)" using assms(2) by (auto simp: ids_keys_def)
  from d(1) r assms(3) have "ref_ID (row_val r) = ref_ID v \<Longrightarrow> ref_key (row_val r) = ref_key v"
    by (metis distinct_fst_functional)
  moreover from d(2) r assms(3) have "ref_key (row_val r) = ref_key v \<Longrightarrow> ref_ID (row_val r) = ref_ID v"
    by (metis distinct_map inj_on_def prod.sel(1) snd_conv)
  ultimately show ?thesis by blast
qed

lemma find_map_key:
  assumes "\<And>r. ref_key (row_val (f r)) = ref_key (row_val r)"
  shows "find (\<lambda>r. ref_key (row_val r) = k) (map (\<lambda>r. if ref_key (row_val r) = k' then f r else r) t)
       = (if k = k' then map_option f (find (\<lambda>r. ref_key (row_val r) = k) t) else find (\<lambda>r. ref_key (row_val r) = k) t)"
  using assms by (induction t) auto

lemma row_at_Some: "(ref_ID v, ref_key v) \<in> set (ids_keys t) \<Longrightarrow> \<exists>r. row_at t (ref_key v) = Some r \<and> ref_key (row_val r) = ref_key v"
  unfolding row_at_def ids_keys_def by (induction t) auto

lemma row_at_key: "row_at t k = Some r \<Longrightarrow> ref_key (row_val r) = k"
  by (auto simp: row_at_def dest!: find_Some_in)

text \<open>An update of the row of one identifier.\<close>

lemma update_by_id:
  assumes wf: "refs_wf t" and v: "(ref_ID v, ref_key v) \<in> set (ids_keys t)"
    and f: "\<And>r. ref_key (row_val (f r)) = ref_key (row_val r)" "\<And>r. ref_ID (row_val (f r)) = ref_ID (row_val r)"
  shows "ids_keys (map (\<lambda>r. if ref_ID (row_val r) = ref_ID v then f r else r) t) = ids_keys t"
    and "row_at (map (\<lambda>r. if ref_ID (row_val r) = ref_ID v then f r else r) t) k =
         (if k = ref_key v then map_option f (row_at t k) else row_at t k)"
proof -
  have eq: "map (\<lambda>r. if ref_ID (row_val r) = ref_ID v then f r else r) t = map (\<lambda>r. if ref_key (row_val r) = ref_key v then f r else r) t"
    using same_row[OF wf _ v] by (intro map_cong refl) auto
  show "ids_keys (map (\<lambda>r. if ref_ID (row_val r) = ref_ID v then f r else r) t) = ids_keys t"
    using f by (auto simp: ids_keys_def)
  show "row_at (map (\<lambda>r. if ref_ID (row_val r) = ref_ID v then f r else r) t) k =
         (if k = ref_key v then map_option f (row_at t k) else row_at t k)"
    unfolding eq row_at_def by (rule find_map_key) (rule f(1))
qed

lemma restore_ref_Inr:
  assumes "restore_ref tx old ref t = Inr t'" "refs_wf t" "(ref_ID old, ref_key old) \<in> set (ids_keys t)" "in_Key ref = ref_Key old"
  shows "ids_keys t' = ids_keys t \<and> requested t' k = (if k = ref_key old then Some ref else requested t k)"
proof -
  define f where "f = (\<lambda>r :: permissionRow row. Row ((row_val r)\<lparr>ref_Resource := in_Resource ref, ref_Action := in_Action ref, ref_Scope := in_Scope ref,
                              ref_Audit := audit_update tx (ref_Audit (row_val r))\<rparr>) (None :: time option))"
  have f: "ref_key (row_val (f r)) = ref_key (row_val r)" "ref_ID (row_val (f r)) = ref_ID (row_val r)" for r
    by (simp_all add: f_def ref_key_def)
  have t': "t' = map (\<lambda>r. if ref_ID (row_val r) = ref_ID old then f r else r) t"
    using assms(1) by (auto simp: restore_ref_def f_def split: option.splits if_splits)
  note u = update_by_id[OF assms(2,3) f]
  obtain r where r: "row_at t (ref_key old) = Some r" "ref_key (row_val r) = ref_key old"
    using row_at_Some[OF assms(3)] by blast
  have "input_of (row_val (f r)) = ref" using r(2) assms(4) by (simp add: f_def input_of_def ref_key_def)
  then show ?thesis using u(1) u(2)[of k] r(1) by (auto simp: t' requested_def f_def)
qed

lemma insert_ref_Inr:
  assumes "insert_ref tx ident pid ref t = Inr t'" "refs_wf t" "(pid, in_Key ref) \<notin> snd ` set (ids_keys t)"
  shows "ids_keys t' = ids_keys t @ [(ident, pid, in_Key ref)] \<and> refs_wf t' \<and>
         requested t' k = (if k = (pid, in_Key ref) then Some ref else requested t k)"
proof -
  let ?v = "\<lparr>ref_PolicyID = pid, ref_ID = ident, ref_Key = in_Key ref, ref_Resource = in_Resource ref,
                     ref_Action = in_Action ref, ref_Scope = in_Scope ref, ref_Audit = audit_insert tx\<rparr>"
  have t': "t' = insert_row ?v t" and new: "ident \<notin> fst ` set (ids_keys t)"
    using assms(1) by (auto simp: insert_ref_def ids_keys_def list_ex_iff split: option.splits if_splits)
  have ids: "ids_keys t' = ids_keys t @ [(ident, pid, in_Key ref)]" by (simp add: t' ids_keys_def insert_row_def ref_key_def)
  have wf: "refs_wf t'" using assms(2,3) new by (auto simp: refs_wf_ids ids)
  have none: "row_at t (pid, in_Key ref) = None"
    using assms(3) by (force simp: row_at_def find_None_iff ids_keys_def)
  have at: "row_at t' k = (case row_at t k of None \<Rightarrow> if k = (pid, in_Key ref) then Some (Row ?v None) else None | Some r \<Rightarrow> Some r)"
    by (auto simp: t' row_at_def insert_row_def find_append_one ref_key_def split: option.splits)
  have "requested t' k = (if k = (pid, in_Key ref) then Some ref else requested t k)"
    using none by (auto simp: requested_def at input_of_def split: option.splits)
  with ids wf show ?thesis by blast
qed

lemma by_key_Some: "by_key existing key = Some v \<Longrightarrow> v \<in> set existing \<and> ref_Key v = key"
  by (auto simp: by_key_def dest!: find_Some_in)

lemma by_key_None: "by_key existing key = None \<Longrightarrow> v \<in> set existing \<Longrightarrow> ref_Key v \<noteq> key"
  using find_None_all[of "\<lambda>r. ref_Key r = key" "rev existing" v] by (auto simp: by_key_def)

text \<open>The writing loop.\<close>

lemma write_refs_Inr:
  assumes "write_refs uuid tx pid existing refs n t = Inr t'" "refs_wf t" "distinct (map in_Key refs)"
    and "\<forall>v\<in>set existing. ref_PolicyID v = pid \<and> (ref_ID v, ref_key v) \<in> set (ids_keys t)"
    and "\<forall>ref\<in>set refs. by_key existing (in_Key ref) = None \<longrightarrow> (pid, in_Key ref) \<notin> snd ` set (ids_keys t)"
  shows "refs_wf t' \<and> set (ids_keys t) \<subseteq> set (ids_keys t') \<and>
         requested t' k = (case map_of (map (\<lambda>r. ((pid, in_Key r), r)) refs) k of Some ref \<Rightarrow> Some ref | None \<Rightarrow> requested t k)"
  using assms
proof (induction refs arbitrary: n t)
  case (Cons ref refs)
  show ?case
  proof (cases "by_key existing (in_Key ref)")
    case (Some old)
    then obtain t1 where t1: "restore_ref tx old ref t = Inr t1" "write_refs uuid tx pid existing refs n t1 = Inr t'"
      using Cons.prems(1) by (auto split: sum.splits)
    have old: "ref_PolicyID old = pid" "(ref_ID old, ref_key old) \<in> set (ids_keys t)" "in_Key ref = ref_Key old"
      using by_key_Some[OF Some] Cons.prems(4) by auto
    from restore_ref_Inr[OF t1(1) Cons.prems(2) old(2,3)]
    have ids: "ids_keys t1 = ids_keys t" and req: "\<And>k. requested t1 k = (if k = ref_key old then Some ref else requested t k)" by auto
    have "refs_wf t1" using Cons.prems(2) by (simp add: refs_wf_ids ids)
    from Cons.IH[OF t1(2) this] Cons.prems(3-5) ids
    have IH: "refs_wf t' \<and> set (ids_keys t) \<subseteq> set (ids_keys t') \<and>
         requested t' k = (case map_of (map (\<lambda>r. ((pid, in_Key r), r)) refs) k of Some ref \<Rightarrow> Some ref | None \<Rightarrow> requested t1 k)"
      by auto
    moreover have "ref_key old = (pid, in_Key ref)" using old by (simp add: ref_key_def)
    moreover have "map_of (map (\<lambda>r. ((pid, in_Key r), r)) refs) (pid, in_Key ref) = None"
      using Cons.prems(3) by (auto simp: map_of_eq_None_iff)
    ultimately show ?thesis by (auto simp: req split: option.splits)
  next
    case None
    then obtain t1 where t1: "insert_ref tx (uuid n) pid ref t = Inr t1" "write_refs uuid tx pid existing refs (n + 1) t1 = Inr t'"
      using Cons.prems(1) by (auto split: sum.splits)
    have new: "(pid, in_Key ref) \<notin> snd ` set (ids_keys t)" using Cons.prems(5) None by simp
    from insert_ref_Inr[OF t1(1) Cons.prems(2) new]
    have ids: "ids_keys t1 = ids_keys t @ [(uuid n, pid, in_Key ref)]" and wf: "refs_wf t1"
      and req: "\<And>k. requested t1 k = (if k = (pid, in_Key ref) then Some ref else requested t k)" by auto
    have "\<forall>ref\<in>set refs. by_key existing (in_Key ref) = None \<longrightarrow> (pid, in_Key ref) \<notin> snd ` set (ids_keys t1)"
      using Cons.prems(3,5) by (auto simp: ids image_iff)
    from Cons.IH[OF t1(2) wf _ _ this] Cons.prems(3,4) ids
    have IH: "refs_wf t' \<and> set (ids_keys t) \<subseteq> set (ids_keys t') \<and>
         requested t' k = (case map_of (map (\<lambda>r. ((pid, in_Key r), r)) refs) k of Some ref \<Rightarrow> Some ref | None \<Rightarrow> requested t1 k)"
      by auto
    moreover have "map_of (map (\<lambda>r. ((pid, in_Key r), r)) refs) (pid, in_Key ref) = None"
      using Cons.prems(3) by (auto simp: map_of_eq_None_iff)
    ultimately show ?thesis by (auto simp: req split: option.splits)
  qed
qed auto

text \<open>The removing loop.\<close>

lemma remove_refs_Inr:
  assumes "remove_refs tx desired existing t = Inr t'" "refs_wf t" "\<forall>v\<in>set existing. (ref_ID v, ref_key v) \<in> set (ids_keys t)"
  shows "refs_wf t' \<and>
         requested t' k = (if \<exists>v\<in>set existing. ref_key v = k \<and> ref_Key v \<notin> set desired then None else requested t k)"
  using assms
proof (induction existing arbitrary: t)
  case (Cons old existing)
  show ?case
  proof (cases "ref_Key old \<in> set desired")
    case True
    with Cons.prems Cons.IH[of t] show ?thesis by auto
  next
    case False
    define f where "f = (\<lambda>r :: permissionRow row. if row_deleted_at r = None
       then Row ((row_val r)\<lparr>ref_Audit := audit_update tx (ref_Audit (row_val r))\<rparr>) (Some (stmt_time tx)) else r)"
    define t1 where "t1 = map (\<lambda>r. if ref_ID (row_val r) = ref_ID old then f r else r) t"
    have f: "ref_key (row_val (f r)) = ref_key (row_val r)" "ref_ID (row_val (f r)) = ref_ID (row_val r)" for r
      by (simp_all add: f_def ref_key_def)
    have "t1 = map (\<lambda>r. if ref_ID (row_val r) = ref_ID old \<and> row_deleted_at r = None
                    then Row ((row_val r)\<lparr>ref_Audit := audit_update tx (ref_Audit (row_val r))\<rparr>) (Some (stmt_time tx))
                    else r) t"
      by (auto simp: t1_def f_def)
    with Cons.prems(1) False have r: "remove_refs tx desired existing t1 = Inr t'" by (auto split: option.splits)
    have old: "(ref_ID old, ref_key old) \<in> set (ids_keys t)" using Cons.prems(3) by simp
    note u = update_by_id[OF Cons.prems(2) old f, folded t1_def]
    have "requested t1 k' = (if k' = ref_key old then None else requested t k')" for k'
      using row_at_Some[OF old] by (auto simp: requested_def u(2) f_def)
    moreover have "refs_wf t1" using Cons.prems(2) by (simp add: refs_wf_ids u(1))
    ultimately show ?thesis using Cons.IH[OF r] Cons.prems(3) False by (auto simp: u(1))
  qed
qed simp

section \<open>Setting a policy\<close>

definition policies_wf :: "policyRow table \<Rightarrow> bool" where
  "policies_wf t = (distinct (map (po_ID \<circ> row_val) t) \<and> distinct (map po_RouteID (live t)))"

text \<open>The live policy of a route.\<close>

definition policy_of :: "route_db \<Rightarrow> gostring \<Rightarrow> policyRow option" where
  "policy_of db routeID = find (\<lambda>p. po_RouteID p = routeID) (live (route_policy_definitions db))"

lemma find_filter_hd: "find P xs = (case filter P xs of [] \<Rightarrow> None | x # _ \<Rightarrow> Some x)"
  by (induction xs) auto

lemma live_map_row: "live t = map row_val (filter (\<lambda>r. row_deleted_at r = None) t)"
  by (simp add: live_def)

lemma find_update_id:
  assumes "distinct (map po_ID vs)" "find (\<lambda>p. po_RouteID p = i) vs = Some row" "Q row"
    and "\<And>p. po_RouteID (f p) = po_RouteID p"
  shows "find (\<lambda>p. po_RouteID p = i) (map (\<lambda>p. if po_ID p = po_ID row \<and> Q p then f p else p) vs) = Some (f row)"
  using assms
proof (induction vs)
  case (Cons v vs)
  show ?case
  proof (cases "po_RouteID v = i")
    case True with Cons show ?thesis by auto
  next
    case False
    then have "find (\<lambda>p. po_RouteID p = i) vs = Some row" using Cons.prems(2) by simp
    then have "row \<in> set vs" by (auto dest: find_Some_in)
    with Cons.prems(1) have "po_ID v \<noteq> po_ID row" by force
    with False Cons show ?thesis by auto
  qed
qed simp

lemma distinct_live_ids: "distinct (map (po_ID \<circ> row_val) t) \<Longrightarrow> distinct (map po_ID (live t))"
  by (induction t) (auto simp: live_def)

text \<open>The driver reports a missing row only for a query that has none.\<close>

definition driver_ok :: "conn \<Rightarrow> bool" where
  "driver_ok tx = (case fault tx ''select policy for update'' of None \<Rightarrow> True | Some e \<Rightarrow> \<not> err_is SqlErrNoRows e)"

lemma write_policy_Inr:
  assumes "write_policy uuid tx input t = Inr (pid, t')" "policies_wf t" "driver_ok tx"
  shows "\<exists>p. find (\<lambda>p. po_RouteID p = si_RouteID input) (live t') = Some p \<and> po_ID p = pid \<and>
           po_Expression p = si_Expression input \<and> po_Description p = si_Description input \<and> po_Status p = si_Status input \<and>
           Version (po_Audit p) = si_ExpectedVersion input + 1"
proof (cases "filter (\<lambda>p. po_RouteID p = si_RouteID input) (live t)")
  case Nil
  with assms(1) have "si_ExpectedVersion input = 0" "pid = uuid 0"
    and t': "t' = insert_row \<lparr>po_ID = uuid 0, po_RouteID = si_RouteID input, po_Expression = si_Expression input,
                           po_Description = si_Description input, po_Status = si_Status input, po_Audit = audit_insert tx\<rparr> t"
    by (auto simp: write_policy_def GetContext_def split: option.splits if_splits)
  moreover have "find (\<lambda>p. po_RouteID p = si_RouteID input) (live t) = None" using Nil by (simp add: find_filter_hd)
  ultimately show ?thesis by (auto simp: find_append_one)
next
  case (Cons row rest)
  let ?f = "\<lambda>p. p\<lparr>po_Expression := si_Expression input, po_Description := si_Description input,
                              po_Status := si_Status input, po_Audit := audit_update tx (po_Audit p)\<rparr>"
  let ?Q = "\<lambda>p. Version (po_Audit p) = si_ExpectedVersion input"
  from Cons assms(1,3) have v: "?Q row" "pid = po_ID row"
    and t': "t' = update_where (\<lambda>p. po_ID p = po_ID row \<and> ?Q p) ?f t"
    by (auto simp: write_policy_def driver_ok_def GetContext_def exec_update_def split: option.splits if_splits)
  have row: "find (\<lambda>p. po_RouteID p = si_RouteID input) (live t) = Some row" using Cons by (simp add: find_filter_hd)
  have "find (\<lambda>p. po_RouteID p = si_RouteID input) (map (\<lambda>p. if po_ID p = po_ID row \<and> ?Q p then ?f p else p) (live t)) = Some (?f row)"
    using assms(2) row v(1) by (intro find_update_id) (auto simp: policies_wf_def distinct_live_ids)
  with v show ?thesis by (simp add: t')
qed

definition route_db_wf :: "route_db \<Rightarrow> bool" where
  "route_db_wf db = (policies_wf (route_policy_definitions db) \<and> refs_wf (route_policy_permission_refs db) \<and>
     list_all (\<lambda>r. list_ex (\<lambda>p. po_ID (row_val p) = ref_PolicyID (row_val r)) (route_policy_definitions db)) (route_policy_permission_refs db))"

text \<open>A key that the policy has no row of is free.\<close>

lemma existing_complete:
  assumes "by_key (filter (\<lambda>r. ref_PolicyID r = pid) (map row_val t)) key = None"
  shows "(pid, key) \<notin> snd ` set (ids_keys t)"
proof
  assume "(pid, key) \<in> snd ` set (ids_keys t)"
  then obtain r where "r \<in> set t" "ref_PolicyID (row_val r) = pid" "ref_Key (row_val r) = key"
    by (auto simp: ids_keys_def ref_key_def)
  then have "row_val r \<in> set (filter (\<lambda>r. ref_PolicyID r = pid) (map row_val t))" by auto
  from by_key_None[OF assms this] \<open>ref_Key (row_val r) = key\<close> show False by simp
qed

lemma map_of_keyed: "map_of (map (\<lambda>r. ((pid, in_Key r), r)) refs) (pid, key) = find (\<lambda>ref. in_Key ref = key) refs"
  by (induction refs) auto

lemma policy_set_tx_Inr:
  assumes "policy_set_tx uuid input tx db = Inr (u, db')" "route_db_wf db" "distinct (map in_Key (si_Permissions input))"
    and "driver_ok tx"
  shows "\<exists>p. policy_of db' (si_RouteID input) = Some p \<and> po_Expression p = si_Expression input \<and>
      po_Description p = si_Description input \<and> po_Status p = si_Status input \<and> Version (po_Audit p) = si_ExpectedVersion input + 1 \<and>
      (\<forall>key. requested (route_policy_permission_refs db') (po_ID p, key) = find (\<lambda>ref. in_Key ref = key) (si_Permissions input))"
proof -
  let ?t = "route_policy_permission_refs db"
  let ?refs = "si_Permissions input"
  obtain pid policies t1 t2 where
    wp: "write_policy uuid tx input (route_policy_definitions db) = Inr (pid, policies)"
    and wr: "write_refs uuid tx pid (filter (\<lambda>r. ref_PolicyID r = pid) (map row_val ?t)) ?refs 1 ?t = Inr t1"
    and rm: "remove_refs tx (map in_Key ?refs) (filter (\<lambda>r. ref_PolicyID r = pid) (map row_val ?t)) t1 = Inr t2"
    and db': "db' = db\<lparr>route_policy_definitions := policies, route_policy_permission_refs := t2\<rparr>"
    using assms(1) by (auto simp: policy_set_tx_def SelectContext_Inr split: sum.splits if_splits)
  let ?ex = "filter (\<lambda>r. ref_PolicyID r = pid) (map row_val ?t)"
  have wf: "policies_wf (route_policy_definitions db)" "refs_wf ?t" using assms(2) by (simp_all add: route_db_wf_def)
  have ex: "\<forall>v\<in>set ?ex. ref_PolicyID v = pid \<and> (ref_ID v, ref_key v) \<in> set (ids_keys ?t)" by (auto simp: ids_keys_def)
  have w: "refs_wf t1" "set (ids_keys ?t) \<subseteq> set (ids_keys t1)"
    "\<And>k. requested t1 k = (case map_of (map (\<lambda>r. ((pid, in_Key r), r)) ?refs) k of Some ref \<Rightarrow> Some ref | None \<Rightarrow> requested ?t k)"
    using write_refs_Inr[OF wr wf(2) assms(3) ex] existing_complete by blast+
  have r: "requested t2 k = (if \<exists>v\<in>set ?ex. ref_key v = k \<and> ref_Key v \<notin> set (map in_Key ?refs) then None else requested t1 k)" for k
    using remove_refs_Inr[OF rm w(1)] ex w(2) by blast
  note m = map_of_keyed[of pid ?refs]
  have "requested t2 (pid, key) = find (\<lambda>ref. in_Key ref = key) ?refs" for key
  proof (cases "find (\<lambda>ref. in_Key ref = key) ?refs")
    case (Some ref)
    then have "key \<in> set (map in_Key ?refs)" by (auto dest!: find_Some_in)
    then have "\<not> (\<exists>v\<in>set ?ex. ref_key v = (pid, key) \<and> ref_Key v \<notin> set (map in_Key ?refs))" by (auto simp: ref_key_def)
    with Some show ?thesis unfolding r w(3) m by simp
  next
    case None
    then have nk: "key \<notin> set (map in_Key ?refs)" by (auto simp: find_None_iff)
    show ?thesis
    proof (cases "\<exists>v\<in>set ?ex. ref_key v = (pid, key)")
      case True with nk None show ?thesis unfolding r by (auto simp: ref_key_def)
    next
      case False
      then have "row_at ?t (pid, key) = None" by (auto simp: row_at_def find_None_iff ref_key_def)
      with None show ?thesis unfolding r w(3) m by (simp add: requested_def)
    qed
  qed
  with write_policy_Inr[OF wp wf(1) assms(4)] show ?thesis by (auto simp: db' policy_of_def)
qed

section \<open>The manager\<close>

text \<open>What the snapshot of the shared package documents: a reload that fails keeps the previous
  policies, one that succeeds installs what the loader returned.\<close>

definition reload_contract :: "policy_env \<Rightarrow> bool" where
  "reload_contract pe = (\<forall>loaded old. case snap_Reload pe loaded old of
     (Some err, new) \<Rightarrow> new = old | (None, new) \<Rightarrow> loaded = Inr new)"

lemma observe_refresh_simps [simp]:
  "mg_snapshot (observe_refresh s err m) = mg_snapshot m" "mg_revision (observe_refresh s err m) = mg_revision m"
  "mg_routeIDs (observe_refresh s err m) = mg_routeIDs m" "mg_redis (observe_refresh s err m) = mg_redis m"
  by (simp_all add: observe_refresh_def)

lemma RefreshSource_None:
  assumes "RefreshSource pe source db1 db2 m = (None, m')" "reload_contract pe"
  shows "policy_Load (pol_conn pe 10) db1 = Inr (mg_snapshot m') \<and>
         (\<exists>r. policy_Revision (pol_conn pe 11) db2 = Inr r \<and> mg_revision m' = UnixNano r)"
proof -
  have c: "case snap_Reload pe (policy_Load (pol_conn pe 10) db1) (mg_snapshot m) of
     (Some err, new) \<Rightarrow> new = mg_snapshot m | (None, new) \<Rightarrow> policy_Load (pol_conn pe 10) db1 = Inr new"
    using assms(2) by (simp add: reload_contract_def)
  show ?thesis using assms(1) c by (auto simp: RefreshSource_def split: prod.splits option.splits sum.splits)
qed

lemma RefreshSource_load_fails:
  assumes "policy_Load (pol_conn pe 10) db1 = Inl e" "reload_contract pe"
  shows "\<exists>err m'. RefreshSource pe source db1 db2 m = (Some err, m') \<and> mg_snapshot m' = mg_snapshot m \<and> mg_revision m' = mg_revision m"
proof -
  have c: "case snap_Reload pe (policy_Load (pol_conn pe 10) db1) (mg_snapshot m) of
     (Some err, new) \<Rightarrow> new = mg_snapshot m | (None, new) \<Rightarrow> policy_Load (pol_conn pe 10) db1 = Inr new"
    using assms(2) by (simp add: reload_contract_def)
  show ?thesis using assms(1) c by (auto simp: RefreshSource_def split: prod.splits option.splits)
qed

section \<open>The cache of route identifiers\<close>

lemma route_key_inject:
  assumes "route_key p m a s = route_key p' m' a' s'" "list_all nulfree [p, m, a, s, p', m', a', s']"
  shows "p = p' \<and> m = m' \<and> a = a' \<and> s = s'"
proof -
  have "[p, m, a, s] = [p', m', a', s']"
    using assms by (intro join_nul_inject) (auto simp: route_key_def)
  then show ?thesis by simp
qed

text \<open>The manager after any number of evaluations and refreshes.\<close>

inductive manager_reach :: "policy_env \<Rightarrow> Manager \<Rightarrow> bool" for pe where
  Created: "manager_reach pe (NewManager client metrics profile app interval)"
| Evaluated: "manager_reach pe m \<Longrightarrow> list_all nulfree [protocol, method, path, service] \<Longrightarrow>
    EvaluateRoute pe x protocol method path service authorizer m = (r, m') \<Longrightarrow> manager_reach pe m'"
| Refreshed: "manager_reach pe m \<Longrightarrow> RefreshSource pe source db1 db2 m = (r, m') \<Longrightarrow> manager_reach pe m'"

lemma RefreshSource_routeIDs: "RefreshSource pe source db1 db2 m = (r, m') \<Longrightarrow> mg_routeIDs m' = mg_routeIDs m"
  by (auto simp: RefreshSource_def split: prod.splits option.splits sum.splits)

lemma manager_reach_routeIDs:
  assumes "manager_reach pe m" "list_all nulfree [protocol, method, path, service]"
    and "map_of (mg_routeIDs m) (route_key protocol method path service) = Some i"
  shows "\<exists>route. pol_NewRoute pe protocol method path service = Inr route \<and> ro_ID route = i"
  using assms
proof (induction)
  case Created then show ?case by (simp add: NewManager_def)
next
  case (Evaluated m p me pa s x a r m')
  show ?case
  proof (cases "map_of (mg_routeIDs m) (route_key protocol method path service) = Some i")
    case True with Evaluated.IH Evaluated.prems(1) show ?thesis by blast
  next
    case False
    with Evaluated.hyps(3) Evaluated.prems(2) obtain route where
      "route_key p me pa s = route_key protocol method path service" "pol_NewRoute pe p me pa s = Inr route" "ro_ID route = i"
      by (auto simp: EvaluateRoute_def Let_def update_conv' split: option.splits sum.splits if_splits)
    moreover from this have "p = protocol \<and> me = method \<and> pa = path \<and> s = service"
      using Evaluated.hyps(2) Evaluated.prems(1) by (intro route_key_inject) auto
    ultimately show ?thesis by blast
  qed
next
  case (Refreshed m source db1 db2 r m')
  then show ?case using RefreshSource_routeIDs by metis
qed

lemma EvaluateRoute_transparent:
  assumes "manager_reach pe m" "list_all nulfree [protocol, method, path, service]"
  shows "fst (EvaluateRoute pe x protocol method path service authorizer m) =
    (case pol_NewRoute pe protocol method path service of
       Inl err \<Rightarrow> Some err
     | Inr route \<Rightarrow> snap_Evaluate pe (mg_snapshot m) x (ro_ID route) authorizer)"
proof (cases "map_of (mg_routeIDs m) (route_key protocol method path service)")
  case None then show ?thesis by (simp add: EvaluateRoute_def Let_def split: sum.splits)
next
  case (Some i)
  from manager_reach_routeIDs[OF assms Some] Some show ?thesis by (auto simp: EvaluateRoute_def Let_def)
qed

end
