(* ===== verification/Route_Policy_Properties.thy ===== *)
theory Route_Policy_Properties
  imports Route_Policy_Laws Sample
begin

text \<open>
  Properties of the route policies: what a write leaves in the tables and how the manager refreshes its
  snapshot.
\<close>

lemma driver_ok_tx: "setAuditActor c x = Inr tx \<Longrightarrow> driver_ok tx = driver_ok c"
  by (auto simp: setAuditActor_def driver_ok_def split: option.splits if_splits)

lemma policy_Set_None:
  assumes "policy_Set sysctx uuid c x input actor db = (None, db')" "driver_ok c"
  shows "\<exists>tx u. policy_set_tx uuid input tx db = Inr (u, db') \<and> driver_ok tx"
  using assms driver_ok_tx by (fastforce simp: policy_Set_def Within_Inr_iff split: sum.splits prod.splits)

lemma stale_set_tx:
  assumes "policy_of db (si_RouteID input) = Some p" "Version (po_Audit p) \<noteq> si_ExpectedVersion input" "driver_ok tx"
  shows "policy_set_tx uuid input tx db \<noteq> Inr r"
proof -
  from assms(1) have "find (\<lambda>q. po_RouteID q = si_RouteID input) (live (route_policy_definitions db)) = Some p"
    by (simp add: policy_of_def)
  then obtain ps where "filter (\<lambda>q. po_RouteID q = si_RouteID input) (live (route_policy_definitions db)) = p # ps"
    by (auto simp: find_filter_hd split: list.splits)
  with assms(2,3) have "write_policy uuid tx input (route_policy_definitions db) \<noteq> Inr q" for q
    by (auto simp: write_policy_def GetContext_def driver_ok_def split: option.splits)
  then show ?thesis by (auto simp: policy_set_tx_def split: sum.splits)
qed

text \<open>C32. A policy is stored as written. After a successful write of a route policy the live policy of the
  route has the given expression, description and status, its version is the expected one plus
  one, and its live permission references are exactly the given ones, by key; a failed write
  changes nothing, and a second write that expects the same version fails.\<close>

theorem route_policy_write_is_exact:
  assumes "policy_Set sysctx uuid c x input actor db = (err, db')" "driver_ok c" "route_db_wf db" "distinct (map in_Key (si_Permissions input))"
  shows "(err \<noteq> None \<longrightarrow> db' = db) \<and>
    (err = None \<longrightarrow> (\<exists>p. policy_of db' (si_RouteID input) = Some p \<and> po_Expression p = si_Expression input \<and>
        po_Description p = si_Description input \<and> po_Status p = si_Status input \<and> Version (po_Audit p) = si_ExpectedVersion input + 1 \<and>
        (\<forall>key. requested (route_policy_permission_refs db') (po_ID p, key) = find (\<lambda>ref. in_Key ref = key) (si_Permissions input))) \<and>
      (\<forall>uuid' x' input' actor'. si_RouteID input' = si_RouteID input \<and> si_ExpectedVersion input' = si_ExpectedVersion input \<longrightarrow>
        (\<exists>e. policy_Set sysctx uuid' c x' input' actor' db' = (Some e, db'))))"
proof (cases err)
  case (Some e)
  with assms(1) show ?thesis by (auto simp: policy_Set_def split: sum.splits)
next
  case None
  obtain tx u where tx: "policy_set_tx uuid input tx db = Inr (u, db')" "driver_ok tx"
    using policy_Set_None[OF assms(1)[unfolded None] assms(2)] by blast
  from policy_set_tx_Inr[OF tx(1) assms(3,4) tx(2)] obtain p where p: "policy_of db' (si_RouteID input) = Some p"
    "po_Expression p = si_Expression input" "po_Description p = si_Description input" "po_Status p = si_Status input"
    "Version (po_Audit p) = si_ExpectedVersion input + 1"
    "\<forall>key. requested (route_policy_permission_refs db') (po_ID p, key) = find (\<lambda>ref. in_Key ref = key) (si_Permissions input)" by blast
  have "\<exists>e. policy_Set sysctx uuid' c x' input' actor' db' = (Some e, db')"
    if same: "si_RouteID input' = si_RouteID input" "si_ExpectedVersion input' = si_ExpectedVersion input" for uuid' x' input' actor'
  proof (cases "policy_Set sysctx uuid' c x' input' actor' db'")
    case (Pair r db2)
    show ?thesis
    proof (cases r)
      case None
      from policy_Set_None[OF Pair[unfolded None] assms(2)] p(1,5) same stale_set_tx[of db' input' p] show ?thesis by auto
    next
      case (Some e)
      with Pair show ?thesis by (auto simp: policy_Set_def split: sum.splits)
    qed
  qed
  with p None show ?thesis by blast
qed

definition sample_route_db :: route_db where
  "sample_route_db = \<lparr>route_definitions = [Row \<lparr>rr_Route = \<lparr>ro_ID = ''rt1'', ro_Protocol = ''http'', ro_Method = ''POST'',
       ro_Path = ''/api/x'', ro_Operation = ''x'', ro_Description = [], ro_ServiceName = ''s'', ro_SourceVersion = ''1''\<rparr>,
       rr_Status = ''active'', rr_LastDiscoveredAt = 1, rr_Audit = sample_audit\<rparr> None],
     route_policy_definitions = [], route_policy_permission_refs = []\<rparr>"

definition sample_input :: SetInput where
  "sample_input = \<lparr>si_RouteID = ''rt1'', si_Expression = ''p1'', si_Description = [], si_Status = ''active'', si_ExpectedVersion = 0,
     si_Permissions = [\<lparr>in_Key = ''p1'', in_Resource = ''doc'', in_Action = ''read'', in_Scope = ''tenant''\<rparr>]\<rparr>"

theorem route_policy_write_is_exact_witness:
  "let r = policy_Set (\<lambda>x a. x) (\<lambda>n. if n = 0 then ''id0'' else ''id1'') sample_conn sample_ctx sample_input ''u1'' sample_route_db in
   fst r = None \<and> (\<exists>p. policy_of (snd r) ''rt1'' = Some p \<and> Version (po_Audit p) = 1 \<and>
     requested (route_policy_permission_refs (snd r)) (po_ID p, ''p1'') = find (\<lambda>ref. in_Key ref = ''p1'') (si_Permissions sample_input))"
proof -
  let ?r = "policy_Set (\<lambda>x a. x) (\<lambda>n. if n = 0 then ''id0'' else ''id1'') sample_conn sample_ctx sample_input ''u1'' sample_route_db"
  have ok: "fst ?r = None" by code_simp
  have "driver_ok sample_conn" "route_db_wf sample_route_db" "distinct (map in_Key (si_Permissions sample_input))" by code_simp+
  from route_policy_write_is_exact[OF prod.collapse[symmetric] this, of "\<lambda>x a. x" "\<lambda>n. if n = 0 then ''id0'' else ''id1''" sample_ctx "''u1''"] ok
  have "\<exists>p. policy_of (snd ?r) (si_RouteID sample_input) = Some p \<and> Version (po_Audit p) = si_ExpectedVersion sample_input + 1 \<and>
     (\<forall>key. requested (route_policy_permission_refs (snd ?r)) (po_ID p, key) = find (\<lambda>ref. in_Key ref = key) (si_Permissions sample_input))"
    by blast
  moreover have "si_RouteID sample_input = ''rt1''" "si_ExpectedVersion sample_input = 0" by (simp_all add: sample_input_def)
  ultimately have "\<exists>p. policy_of (snd ?r) ''rt1'' = Some p \<and> Version (po_Audit p) = 1 \<and>
     requested (route_policy_permission_refs (snd ?r)) (po_ID p, ''p1'') = find (\<lambda>ref. in_Key ref = ''p1'') (si_Permissions sample_input)"
    by auto
  with ok show ?thesis by (simp only: Let_def simp_thms)
qed

definition sample_policy_env :: policy_env where
  "sample_policy_env = \<lparr>pol_Compile = (\<lambda>d. None), snap_Reload = (\<lambda>loaded old. case loaded of Inl err \<Rightarrow> (Some err, old) | Inr new \<Rightarrow> (None, new)),
     snap_Evaluate = (\<lambda>snapshot x i authorizer. if i \<in> set (map def_RouteID snapshot) then None else Some (Sentinel PlatformErrMissing)),
     pol_NewRoute = (\<lambda>protocol method path service. Inr \<lparr>ro_ID = method @ path, ro_Protocol = protocol, ro_Method = method, ro_Path = path,
       ro_Operation = [], ro_Description = [], ro_ServiceName = service, ro_SourceVersion = []\<rparr>),
     pol_sysctx = (\<lambda>x a. x), pol_uuid = (\<lambda>n. ''id''), pol_conn = (\<lambda>n. sample_conn), pol_publish = None, pol_operations = None,
     pol_texts = (\<lambda>s. ''error'')\<rparr>"

text \<open>A refresh installs what it loaded or keeps what it had. Provided the snapshot keeps its contents on
  a failed reload, a successful refresh installs exactly the policies read from the tables and
  the revision read after them, and a refresh whose load fails reports it and keeps the previous
  snapshot and revision, so that the next poll tries again.\<close>

lemma refresh_installs_or_keeps:
  assumes "reload_contract pe" "RefreshSource pe source db1 db2 m = (err, m')"
  shows "(err = None \<longrightarrow> policy_Load (pol_conn pe 10) db1 = Inr (mg_snapshot m') \<and>
           (\<exists>r. policy_Revision (pol_conn pe 11) db2 = Inr r \<and> mg_revision m' = UnixNano r)) \<and>
         ((\<exists>e. policy_Load (pol_conn pe 10) db1 = Inl e) \<longrightarrow>
           err \<noteq> None \<and> mg_snapshot m' = mg_snapshot m \<and> mg_revision m' = mg_revision m) \<and>
         mg_routeIDs m' = mg_routeIDs m"
proof (intro conjI impI)
  assume "err = None"
  with RefreshSource_None[OF assms(2)[unfolded \<open>err = None\<close>] assms(1)]
  show "policy_Load (pol_conn pe 10) db1 = Inr (mg_snapshot m')"
    and "\<exists>r. policy_Revision (pol_conn pe 11) db2 = Inr r \<and> mg_revision m' = UnixNano r" by blast+
next
  assume "\<exists>e. policy_Load (pol_conn pe 10) db1 = Inl e"
  then obtain e where "policy_Load (pol_conn pe 10) db1 = Inl e" ..
  from RefreshSource_load_fails[OF this assms(1), of source db2 m] assms(2)
  show "err \<noteq> None" and "mg_snapshot m' = mg_snapshot m" and "mg_revision m' = mg_revision m" by auto
qed (rule RefreshSource_routeIDs[OF assms(2)])

end
