(* ===== verification/Access.thy ===== *)
theory Access
  imports Http_Handlers
begin

text \<open>
  Who a request comes from: \<open>internal/auth\<close> (\<open>pattern.go\<close>, \<open>psk.go\<close>, \<open>jwt.go\<close>) and the request
  identifiers of \<open>internal/requestid\<close>.

  \<open>path.Match\<close> of the standard library decides which routes are skipped or use the pre-shared key.
  It is modelled as the algorithm it is (chunks between stars, leftmost matching, character classes
  over decoded runes), because its answer on a malformed pattern and its treatment of \<open>/\<close> decide
  whether a route is protected. Signing and parsing of tokens belong to the packages \<open>jwt\<close> and
  \<open>authn\<close>, so they are arguments, the record \<open>token_lib\<close>.
\<close>

section \<open>Runes\<close>

text \<open>\<open>utf8.DecodeRuneInString\<close>: the rune and its width; an invalid encoding is U+FFFD of width 1.\<close>

definition RuneError :: nat where
  "RuneError = 0xFFFD"

definition continuation :: "nat \<Rightarrow> bool" where
  "continuation b = (0x80 \<le> b \<and> b \<le> 0xBF)"

definition byte_at :: "gostring \<Rightarrow> nat \<Rightarrow> nat" where
  "byte_at s i = (if i < length s then of_char (s ! i) else 0)"

definition DecodeRune :: "gostring \<Rightarrow> nat \<times> nat" where
  "DecodeRune s =
     (if s = [] then (RuneError, 0)
      else
        let a = byte_at s 0; b = byte_at s 1; c = byte_at s 2; d = byte_at s 3 in
        if a < 0x80 then (a, 1)
        else if 0xC2 \<le> a \<and> a \<le> 0xDF \<and> continuation b then ((a - 0xC0) * 64 + (b - 0x80), 2)
        else if 0xE0 \<le> a \<and> a \<le> 0xEF \<and> continuation b \<and> continuation c
             \<and> (a = 0xE0 \<longrightarrow> 0xA0 \<le> b) \<and> (a = 0xED \<longrightarrow> b \<le> 0x9F)
        then ((a - 0xE0) * 4096 + (b - 0x80) * 64 + (c - 0x80), 3)
        else if 0xF0 \<le> a \<and> a \<le> 0xF4 \<and> continuation b \<and> continuation c \<and> continuation d
             \<and> (a = 0xF0 \<longrightarrow> 0x90 \<le> b) \<and> (a = 0xF4 \<longrightarrow> b \<le> 0x8F)
        then ((a - 0xF0) * 262144 + (b - 0x80) * 4096 + (c - 0x80) * 64 + (d - 0x80), 4)
        else (RuneError, 1))"

section \<open>Path patterns\<close>

definition backslash :: char where
  "backslash = CHR 0x5C"

text \<open>\<open>getEsc\<close>: one, possibly escaped, rune of a character class; \<^const>\<open>None\<close> is \<open>ErrBadPattern\<close>.\<close>

definition esc_rune :: "gostring \<Rightarrow> (nat \<times> gostring) option" where
  "esc_rune chunk =
     (case DecodeRune chunk of (r, n) \<Rightarrow>
        if r = RuneError \<and> n = 1 then None
        else if drop n chunk = [] then None
        else Some (r, drop n chunk))"

fun getEsc :: "gostring \<Rightarrow> (nat \<times> gostring) option" where
  "getEsc [] = None"
| "getEsc (c # chunk) =
     (if c = CHR ''-'' \<or> c = CHR '']'' then None
      else if c = backslash then (if chunk = [] then None else esc_rune chunk)
      else esc_rune (c # chunk))"

lemma DecodeRune_width: "s \<noteq> [] \<Longrightarrow> DecodeRune s = (r, n) \<Longrightarrow> 0 < n"
  by (auto simp: DecodeRune_def Let_def split: if_splits)

lemma esc_rune_shorter: "chunk \<noteq> [] \<Longrightarrow> esc_rune chunk = Some (r, rest) \<Longrightarrow> length rest < length chunk"
  by (auto simp: esc_rune_def split: prod.splits if_splits dest: DecodeRune_width)

lemma getEsc_shorter: "getEsc chunk = Some (r, rest) \<Longrightarrow> length rest < length chunk"
  using esc_rune_shorter by (cases chunk) (fastforce split: if_splits simp: less_Suc_eq)+

text \<open>The loop over the ranges of a class: whether \<open>r\<close> is in one of them, and the text after \<open>]\<close>.\<close>

function class_ranges :: "nat \<Rightarrow> nat \<Rightarrow> bool \<Rightarrow> gostring \<Rightarrow> (bool \<times> gostring) option" where
  "class_ranges r nrange matched chunk =
     (if chunk \<noteq> [] \<and> hd chunk = CHR '']'' \<and> nrange > 0 then Some (matched, tl chunk)
      else case getEsc chunk of
        None \<Rightarrow> None
      | Some (lo, chunk1) \<Rightarrow>
          (if hd chunk1 = CHR ''-''
           then (case getEsc (tl chunk1) of
                   None \<Rightarrow> None
                 | Some (hi, chunk2) \<Rightarrow> class_ranges r (nrange + 1) (matched \<or> (lo \<le> r \<and> r \<le> hi)) chunk2)
           else class_ranges r (nrange + 1) (matched \<or> r = lo) chunk1))"
  by pat_completeness auto
termination
  by (relation "measure (\<lambda>(r, n, m, chunk). length chunk)")
     (auto dest!: getEsc_shorter)

lemma class_ranges_shorter:
  "class_ranges r n m chunk = Some (b, rest) \<Longrightarrow> length rest < length chunk"
proof (induction r n m chunk rule: class_ranges.induct)
  case (1 r n m chunk)
  show ?case
  proof (cases "chunk \<noteq> [] \<and> hd chunk = CHR '']'' \<and> n > 0")
    case True
    with "1.prems" show ?thesis by (cases chunk) auto
  next
    case False
    with "1.prems" obtain lo chunk1 where e: "getEsc chunk = Some (lo, chunk1)"
      by (auto simp: class_ranges.simps[of r n m chunk] split: option.splits)
    note [simp] = class_ranges.simps[of r n m chunk]
    from e have l: "length chunk1 < length chunk" by (rule getEsc_shorter)
    show ?thesis
    proof (cases "hd chunk1 = CHR ''-''")
      case True
      with "1.prems" False e obtain hi chunk2 where e2: "getEsc (tl chunk1) = Some (hi, chunk2)"
        and r: "class_ranges r (n + 1) (m \<or> (lo \<le> r \<and> r \<le> hi)) chunk2 = Some (b, rest)"
        by (auto split: option.splits prod.splits)
      from "1.IH"(1)[OF False e refl True e2 refl r] getEsc_shorter[OF e2] l show ?thesis by simp
    next
      case F: False
      with "1.prems" False e have r: "class_ranges r (n + 1) (m \<or> r = lo) chunk1 = Some (b, rest)"
        by auto
      from "1.IH"(2)[OF False e refl F r] l show ?thesis by simp
    qed
  qed
qed

declare class_ranges.simps [simp del]

text \<open>\<open>matchChunk\<close>: the argument \<open>s\<close> is \<^const>\<open>None\<close> once the match has failed and only the syntax is
  still checked. The answer is \<^const>\<open>None\<close> for a bad pattern.\<close>

definition after_rune :: "gostring \<Rightarrow> gostring" where
  "after_rune s = drop (snd (DecodeRune s)) s"

function matchChunk :: "gostring \<Rightarrow> gostring option \<Rightarrow> gostring option option" where
  "matchChunk [] s = Some s"
| "matchChunk (c # chunk) s0 =
     (let s = (if s0 = Some [] then None else s0) in
      if c = CHR ''['' then
        (let negated = (chunk \<noteq> [] \<and> hd chunk = CHR ''^'');
             body = (if negated then tl chunk else chunk) in
         case class_ranges (case s of None \<Rightarrow> 0 | Some t \<Rightarrow> fst (DecodeRune t)) 0 False body of
           None \<Rightarrow> None
         | Some (matched, rest) \<Rightarrow>
             matchChunk rest (if matched = negated then None else map_option after_rune s))
      else if c = CHR ''?'' then
        matchChunk chunk (case s of None \<Rightarrow> None
                                  | Some t \<Rightarrow> if hd t = CHR ''/'' then None else Some (after_rune t))
      else if c = backslash then
        (case chunk of
           [] \<Rightarrow> None
         | d # chunk' \<Rightarrow> matchChunk chunk' (case s of None \<Rightarrow> None | Some t \<Rightarrow> if hd t = d then Some (tl t) else None))
      else matchChunk chunk (case s of None \<Rightarrow> None | Some t \<Rightarrow> if hd t = c then Some (tl t) else None))"
  by pat_completeness auto
termination
  apply (relation "measure (\<lambda>(chunk, s). length chunk)")
  apply (auto dest!: class_ranges_shorter split: if_splits simp: Let_def)
  done

text \<open>\<open>scanChunk\<close>: the stars in front, the chunk up to the next star outside a class, and the rest.\<close>

fun chunk_end :: "bool \<Rightarrow> gostring \<Rightarrow> gostring \<times> gostring" where
  "chunk_end inrange [] = ([], [])"
| "chunk_end inrange (c # cs) =
     (if c = CHR ''*'' \<and> \<not> inrange then ([], c # cs)
      else if c = backslash \<and> cs \<noteq> []
      then apfst (\<lambda>t. c # hd cs # t) (chunk_end inrange (tl cs))
      else apfst (\<lambda>t. c # t)
        (chunk_end (if c = CHR ''['' then True else if c = CHR '']'' then False else inrange) cs))"

definition scanChunk :: "gostring \<Rightarrow> bool \<times> gostring \<times> gostring" where
  "scanChunk pattern =
     (let body = dropWhile (\<lambda>c. c = CHR ''*'') pattern in (body \<noteq> pattern, chunk_end False body))"

lemma chunk_end_length: "chunk_end inrange cs = (a, b) \<Longrightarrow> length a + length b = length cs"
proof (induction inrange cs arbitrary: a b rule: chunk_end.induct)
  case (2 inrange c cs)
  then show ?case by (cases cs) (auto split: if_splits prod.splits simp: apfst_def map_prod_def)
qed simp

lemma scanChunk_shorter:
  assumes "pattern \<noteq> []" "scanChunk pattern = (star, chunk, rest)"
  shows "length rest < length pattern"
proof (cases "hd pattern = CHR ''*''")
  case True
  with assms(1) obtain cs where p: "pattern = CHR ''*'' # cs" by (cases pattern) auto
  from assms(2) chunk_end_length[of False "dropWhile (\<lambda>c. c = CHR ''*'') cs" chunk rest]
       length_dropWhile_le[of "\<lambda>c. c = CHR ''*''" cs]
  show ?thesis by (simp add: scanChunk_def p Let_def)
next
  case False
  with assms(1) obtain c cs where p: "pattern = c # cs" "c \<noteq> CHR ''*''" by (cases pattern) auto
  with assms(2) have e: "chunk_end False (c # cs) = (chunk, rest)" by (simp add: scanChunk_def Let_def)
  have "chunk \<noteq> []" using e p(2) by (auto split: if_splits prod.splits simp: apfst_def map_prod_def)
  with chunk_end_length[OF e] p show ?thesis by (cases chunk) auto
qed

text \<open>Skipping under a star: the shortest non-empty skip without \<open>/\<close> after which the chunk matches
  (and, for the last chunk, exhausts the name).\<close>

fun star_match :: "gostring \<Rightarrow> bool \<Rightarrow> gostring \<Rightarrow> gostring option option" where
  "star_match chunk last_one [] = Some None"
| "star_match chunk last_one (c # name) =
     (if c = CHR ''/'' then Some None
      else case matchChunk chunk (Some name) of
        None \<Rightarrow> None
      | Some None \<Rightarrow> star_match chunk last_one name
      | Some (Some t) \<Rightarrow> if last_one \<and> t \<noteq> [] then star_match chunk last_one name else Some (Some t))"

text \<open>The syntax check of the remaining chunks.\<close>

function chunks_valid :: "gostring \<Rightarrow> bool" where
  "chunks_valid pattern =
     (if pattern = [] then True
      else case scanChunk pattern of (star, chunk, rest) \<Rightarrow> matchChunk chunk (Some []) \<noteq> None \<and> chunks_valid rest)"
  by pat_completeness auto
termination
  by (relation "measure length") (auto dest: scanChunk_shorter[OF _ sym])

function path_Match :: "gostring \<Rightarrow> gostring \<Rightarrow> bool option" where
  "path_Match pattern name =
     (if pattern = [] then Some (name = [])
      else case scanChunk pattern of (star, chunk, rest) \<Rightarrow>
        if star \<and> chunk = [] then Some (CHR ''/'' \<notin> set name)
        else case matchChunk chunk (Some name) of
          None \<Rightarrow> None
        | Some m \<Rightarrow>
            (case (case m of Some t \<Rightarrow> if t = [] \<or> rest \<noteq> [] then Some (Some t)
                                       else if star then star_match chunk (rest = []) name else Some None
                   | None \<Rightarrow> if star then star_match chunk (rest = []) name else Some None) of
               None \<Rightarrow> None
             | Some (Some t) \<Rightarrow> path_Match rest t
             | Some None \<Rightarrow> if chunks_valid rest then Some False else None))"
  by pat_completeness auto
termination
  by (relation "measure (\<lambda>(pattern, name). length pattern)") (auto dest: scanChunk_shorter[OF _ sym])

declare matchChunk.simps(2) [simp del] chunks_valid.simps [simp del] path_Match.simps [simp del]

definition MatchesAny :: "gostring \<Rightarrow> gostring list \<Rightarrow> bool" where
  "MatchesAny value patterns = list_ex (\<lambda>pattern. path_Match pattern value = Some True) patterns"

section \<open>Laws of path patterns\<close>

text \<open>Patterns without special characters match exactly themselves; with one star at the end they
  match exactly the names that continue within the same path segment.\<close>

definition plain :: "gostring \<Rightarrow> bool" where
  "plain p = list_all (\<lambda>c. c \<noteq> CHR ''*'' \<and> c \<noteq> CHR ''?'' \<and> c \<noteq> CHR ''['' \<and> c \<noteq> backslash) p"

lemma chunk_end_plain: "plain p \<Longrightarrow> chunk_end False p = (p, [])"
  by (induction p) (auto simp: plain_def)

lemma chunk_end_star: "plain p \<Longrightarrow> chunk_end False (p @ ''*'') = (p, ''*'')"
  by (induction p) (auto simp: plain_def)

lemma matchChunk_failed: "plain p \<Longrightarrow> matchChunk p None = Some None"
  by (induction p) (auto simp: plain_def matchChunk.simps)

lemma matchChunk_plain:
  "plain p \<Longrightarrow> matchChunk p (Some s) = Some (if prefix p s then Some (drop (length p) s) else None)"
proof (induction p arbitrary: s)
  case (Cons c p)
  then have p: "plain p" "c \<noteq> CHR ''?''" "c \<noteq> CHR ''[''" "c \<noteq> backslash" by (auto simp: plain_def)
  show ?case
  proof (cases s)
    case Nil
    with p show ?thesis by (simp add: matchChunk.simps(2) matchChunk_failed)
  next
    case (Cons d t)
    with p Cons.IH[OF p(1)] show ?thesis by (auto simp: matchChunk.simps(2) matchChunk_failed)
  qed
qed simp

lemma scanChunk_plain: "plain p \<Longrightarrow> scanChunk p = (False, p, [])"
  by (cases p) (auto simp: scanChunk_def Let_def chunk_end_plain plain_def split: if_splits)

lemma scanChunk_star: "plain p \<Longrightarrow> p \<noteq> [] \<Longrightarrow> scanChunk (p @ ''*'') = (False, p, ''*'')"
  by (cases p) (use chunk_end_star[of p] in \<open>auto simp: scanChunk_def Let_def plain_def split: if_splits\<close>)

lemma path_Match_plain:
  assumes "plain p" shows "path_Match p name = Some (name = p)"
proof (cases "p = []")
  case False
  have "prefix p name \<and> drop (length p) name = [] \<longleftrightarrow> name = p"
    by (auto simp: prefix_def)
  with False assms show ?thesis
    by (auto simp: path_Match.simps[of p] scanChunk_plain matchChunk_plain path_Match.simps[of "[]"]
          chunks_valid.simps[of "[]"])
qed (simp add: path_Match.simps)

lemma scanChunk_only_star: "scanChunk ''*'' = (True, [], [])"
  by (simp add: scanChunk_def Let_def)

lemma path_Match_star:
  assumes "plain p" "p \<noteq> []"
  shows "path_Match (p @ ''*'') name = Some (prefix p name \<and> CHR ''/'' \<notin> set (drop (length p) name))"
  using assms
  by (auto simp: path_Match.simps[of "p @ ''*''"] path_Match.simps[of "''*''"] scanChunk_star matchChunk_plain
        scanChunk_only_star chunks_valid.simps[of "''*''"] chunks_valid.simps[of "[]"])

text \<open>Whether a pattern is malformed does not depend on the name: the first bad chunk is met in every
  run, either while matching or in the syntax check of the rest.\<close>

lemma class_ranges_syntax:
  "map_option snd (class_ranges r n m chunk) = map_option snd (class_ranges r' n m' chunk)"
proof (induction r n m chunk arbitrary: m' rule: class_ranges.induct)
  case (1 r n m chunk)
  show ?case
  proof (cases "chunk \<noteq> [] \<and> hd chunk = CHR '']'' \<and> n > 0")
    case True
    then show ?thesis by (simp add: class_ranges.simps[of _ n _ chunk])
  next
    case False
    show ?thesis
    proof (cases "getEsc chunk")
      case None
      with False show ?thesis by (simp add: class_ranges.simps[of _ n _ chunk])
    next
      case (Some p)
      then obtain lo chunk1 where e: "getEsc chunk = Some (lo, chunk1)" by (cases p) auto
      have n: "class_ranges q n b chunk =
          (if hd chunk1 = CHR ''-''
           then (case getEsc (tl chunk1) of None \<Rightarrow> None
                 | Some (hi, chunk2) \<Rightarrow> class_ranges q (n + 1) (b \<or> (lo \<le> q \<and> q \<le> hi)) chunk2)
           else class_ranges q (n + 1) (b \<or> q = lo) chunk1)" for q b
        using False e by (auto simp: class_ranges.simps[of q n b chunk])
      show ?thesis
      proof (cases "hd chunk1 = CHR ''-''")
        case True
        with n "1.IH"(1)[OF False e refl True] show ?thesis by (auto split: option.split)
      next
        case F: False
        with n "1.IH"(2)[OF False e refl F] show ?thesis by simp
      qed
    qed
  qed
qed

lemma matchChunk_syntax: "matchChunk chunk s = None \<longleftrightarrow> matchChunk chunk s' = None"
proof (induction chunk arbitrary: s s' rule: length_induct)
  case (1 chunk)
  show ?case
  proof (cases chunk)
    case (Cons c cs)
    have IH: "matchChunk ys t = None \<longleftrightarrow> matchChunk ys t' = None" if "length ys < length chunk" for ys t t'
      using 1 that by blast
    let ?body = "if cs \<noteq> [] \<and> hd cs = CHR ''^'' then tl cs else cs"
    have b: "length ?body \<le> length cs" by simp
    show ?thesis
    proof (cases "c = CHR ''[''")
      case True
      show ?thesis
      proof (cases "class_ranges 0 0 False ?body")
        case None
        have "class_ranges r 0 False ?body = None" for r
          using class_ranges_syntax[of r 0 False ?body 0 False] None by (metis option.map_disc_iff)
        with True Cons show ?thesis by (simp add: matchChunk.simps(2) Let_def)
      next
        case (Some q)
        then obtain rest where rest: "class_ranges 0 0 False ?body = Some (fst q, rest)" by (cases q) auto
        have "map_option snd (class_ranges r 0 False ?body) = Some rest" for r
          using class_ranges_syntax[of r 0 False ?body 0 False] unfolding rest by simp
        then have "\<exists>b. class_ranges r 0 False ?body = Some (b, rest)" for r
          unfolding map_option_eq_Some by (metis prod.collapse)
        then obtain b where b': "class_ranges r 0 False ?body = Some (b r, rest)" for r by metis
        have "length rest < length chunk"
          using class_ranges_shorter[OF rest] b Cons by simp
        note i = IH[OF this]
        have "matchChunk chunk t = None \<longleftrightarrow> matchChunk rest None = None" for t
          unfolding Cons True matchChunk.simps(2) Let_def b'
          by (simp only: if_True simp_thms option.case prod.case) (rule i)
        then show ?thesis by blast
      qed
    next
      case False
      from Cons have i: "matchChunk cs t = None \<longleftrightarrow> matchChunk cs t' = None" for t t' by (intro IH) simp
      show ?thesis
      proof (cases "c = backslash")
        case True
        show ?thesis
        proof (cases cs)
          case Nil
          with Cons True False show ?thesis by (simp add: matchChunk.simps(2) backslash_def Let_def)
        next
          case c2: (Cons d cs')
          then have "matchChunk cs' t = None \<longleftrightarrow> matchChunk cs' t' = None" for t t'
            using Cons by (intro IH) simp
          with Cons True c2 show ?thesis
            unfolding Cons True c2 matchChunk.simps(2) by (simp add: backslash_def Let_def)
        qed
      next
        case nb: False
        with i Cons False show ?thesis
          unfolding Cons matchChunk.simps(2) by (simp add: Let_def)
      qed
    qed
  qed simp
qed

lemma star_match_syntax: "matchChunk chunk s \<noteq> None \<Longrightarrow> star_match chunk l name \<noteq> None"
proof (induction name)
  case (Cons c name)
  with matchChunk_syntax[of chunk s "Some name"] show ?case by (auto split: option.splits)
qed simp

lemma scanChunk_star_only: "scanChunk p = (True, [], rest) \<Longrightarrow> rest = []"
proof -
  assume a: "scanChunk p = (True, [], rest)"
  let ?b = "dropWhile (\<lambda>c. c = CHR ''*'') p"
  from a have e: "chunk_end False ?b = ([], rest)" by (simp add: scanChunk_def Let_def)
  show "rest = []"
  proof (cases ?b)
    case (Cons c cs)
    then have "c \<noteq> CHR ''*''" by (metis (mono_tags, lifting) hd_dropWhile list.discI list.sel(1))
    with e Cons show ?thesis by (auto split: if_splits simp: apfst_def map_prod_def split: prod.splits)
  next
    case Nil
    with e show ?thesis by (simp only: chunk_end.simps prod.inject)
  qed
qed

lemma path_Match_syntax: "path_Match p name = None \<longleftrightarrow> \<not> chunks_valid p"
proof (induction p name rule: path_Match.induct)
  case (1 p name)
  show ?case
  proof (cases "p = []")
    case False
    obtain star chunk rest where sc: "scanChunk p = (star, chunk, rest)" by (cases "scanChunk p") auto
    have v: "chunks_valid p \<longleftrightarrow> matchChunk chunk (Some name) \<noteq> None \<and> chunks_valid rest"
      using False sc matchChunk_syntax[of chunk "Some []" "Some name"] by (simp add: chunks_valid.simps[of p] del: not_None_eq)
    show ?thesis
    proof (cases "star \<and> chunk = []")
      case True
      with sc scanChunk_star_only[of p rest] False v show ?thesis
        by (simp add: path_Match.simps[of p] chunks_valid.simps[of "[]"])
    next
      case nt: False
      show ?thesis
      proof (cases "matchChunk chunk (Some name)")
        case None
        with v nt sc False show ?thesis by (simp add: path_Match.simps[of p])
      next
        case (Some m)
        define f where "f = (case m of Some t \<Rightarrow> if t = [] \<or> rest \<noteq> [] then Some (Some t)
                                       else if star then star_match chunk (rest = []) name else Some None
                   | None \<Rightarrow> if star then star_match chunk (rest = []) name else Some None)"
        have p: "path_Match p name = (case f of None \<Rightarrow> None | Some (Some t) \<Rightarrow> path_Match rest t
             | Some None \<Rightarrow> if chunks_valid rest then Some False else None)"
          using False sc nt Some by (simp add: path_Match.simps[of p] f_def)
        have "f \<noteq> None" using star_match_syntax[of chunk "Some name" "rest = []" name] Some
          by (auto simp: f_def split: option.splits)
        moreover have "path_Match rest t = None \<longleftrightarrow> \<not> chunks_valid rest" if "f = Some (Some t)" for t
          using "1.IH"[OF False sc[symmetric] refl nt Some that[unfolded f_def] refl] .
        ultimately show ?thesis using v Some p by (auto split: option.splits)
      qed
    qed
  qed (simp add: path_Match.simps chunks_valid.simps)
qed

section \<open>Text of numbers and bytes\<close>

fun nat_digits :: "nat \<Rightarrow> gostring" where
  "nat_digits n = (if n < 10 then [char_of (48 + n)] else nat_digits (n div 10) @ [char_of (48 + n mod 10)])"

declare nat_digits.simps [simp del]

definition Itoa :: "int \<Rightarrow> gostring" where
  "Itoa i = (if i < 0 then CHR ''-'' # nat_digits (nat (- i)) else nat_digits (nat i))"

definition hex_digit :: "nat \<Rightarrow> char" where
  "hex_digit n = (if n < 10 then char_of (48 + n) else char_of (87 + n))"

definition hex_EncodeToString :: "gostring \<Rightarrow> gostring" where
  "hex_EncodeToString b = concat (map (\<lambda>c. [hex_digit (of_char c div 16), hex_digit (of_char c mod 16)]) b)"

definition base64_digit :: "nat \<Rightarrow> char" where
  "base64_digit n =
     (if n < 26 then char_of (65 + n) else if n < 52 then char_of (71 + n)
      else if n < 62 then char_of (n - 4) else if n = 62 then CHR ''-'' else CHR ''_'')"

text \<open>\<open>base64.RawURLEncoding.EncodeToString\<close>.\<close>

fun base64_RawURL :: "gostring \<Rightarrow> gostring" where
  "base64_RawURL [] = []"
| "base64_RawURL [a] = (let n = of_char a * 16 in [base64_digit (n div 64), base64_digit (n mod 64)])"
| "base64_RawURL [a, b] =
     (let n = (of_char a * 256 + of_char b) * 4 in
      [base64_digit (n div 4096), base64_digit (n div 64 mod 64), base64_digit (n mod 64)])"
| "base64_RawURL (a # b # c # cs) =
     (let n = of_char a * 65536 + of_char b * 256 + of_char c in
      [base64_digit (n div 262144), base64_digit (n div 4096 mod 64), base64_digit (n div 64 mod 64), base64_digit (n mod 64)]
      @ base64_RawURL cs)"

section \<open>Request identifiers\<close>

text \<open>The loop of \<open>Valid\<close> ranges over runes; the runes of bytes from 0x80 are never allowed, so it is
  a test of every byte.\<close>

definition allowedCharacter :: "char \<Rightarrow> bool" where
  "allowedCharacter c =
     (let n = (of_char c :: nat) in
      (97 \<le> n \<and> n \<le> 122) \<or> (65 \<le> n \<and> n \<le> 90) \<or> (48 \<le> n \<and> n \<le> 57) \<or> c \<in> set ''-_.'')"

definition requestid_Valid :: "gostring \<Rightarrow> bool" where
  "requestid_Valid v = (if v = [] \<or> length v > 128 then False else list_all allowedCharacter v)"

definition requestid_Generate :: "gostring result \<Rightarrow> int \<Rightarrow> gostring" where
  "requestid_Generate rand_Read unixNano =
     (case rand_Read of Inl err \<Rightarrow> ''fallback-'' @ Itoa unixNano | Inr b \<Rightarrow> hex_EncodeToString b)"

definition requestid_WithContext :: "ctx \<Rightarrow> gostring \<Rightarrow> ctx" where
  "requestid_WithContext x ident = x\<lparr>ctx_requestID := Some ident\<rparr>"

definition requestid_FromContext :: "ctx \<Rightarrow> gostring \<times> bool" where
  "requestid_FromContext x = (case ctx_requestID x of Some i \<Rightarrow> (i, i \<noteq> []) | None \<Rightarrow> ([], False))"

definition requestmeta_WithContext :: "ctx \<Rightarrow> gostring \<Rightarrow> gostring \<Rightarrow> ctx" where
  "requestmeta_WithContext x ip agent = x\<lparr>ctx_clientIP := ip, ctx_userAgent := agent\<rparr>"

definition requestmeta_FromContext :: "ctx \<Rightarrow> gostring \<times> gostring" where
  "requestmeta_FromContext x = (ctx_clientIP x, ctx_userAgent x)"

definition environment_WithContext :: "ctx \<Rightarrow> gostring \<Rightarrow> ctx" where
  "environment_WithContext x profile = x\<lparr>ctx_environment := Some profile\<rparr>"

definition environment_FromContext :: "ctx \<Rightarrow> gostring \<times> bool" where
  "environment_FromContext x = (case ctx_environment x of Some p \<Rightarrow> (p, True) | None \<Rightarrow> ([], False))"

section \<open>Tokens and the pre-shared key\<close>

record Claims =
  cl_Issuer :: gostring
  cl_Subject :: gostring
  cl_ID :: gostring
  cl_IssuedAt :: time
  cl_NotBefore :: time
  cl_ExpiresAt :: time

text \<open>The packages \<open>jwt\<close> and \<open>authn\<close>. \<open>tk_ParseWithClaims\<close> receives the token, the function that
  names the key for a signing method, and the required issuer; it answers the claims, if they have the
  expected type, and the validity of the token.\<close>

record token_lib =
  tk_NumericDate :: "time \<Rightarrow> time"
  tk_SignedString :: "Claims \<Rightarrow> gostring \<Rightarrow> gostring result"
  tk_ParseWithClaims :: "gostring \<Rightarrow> (gostring \<Rightarrow> gostring result) \<Rightarrow> gostring \<Rightarrow> (Claims option \<times> bool) result"
  tk_VerifyBearer :: "ctx \<Rightarrow> gostring \<Rightarrow> Principal result"

record auth_Service =
  au_issuer :: gostring
  au_secret :: gostring
  au_ttl :: time
  au_clientID :: gostring
  au_clientSecret :: gostring
  au_verifier :: bool \<comment> \<open>whether the JWKS verifier is set\<close>

definition auth_Enabled :: "auth_Service \<Rightarrow> bool" where
  "auth_Enabled s = (length (au_secret s) \<ge> 32 \<and> au_clientID s \<noteq> [] \<and> au_clientSecret s \<noteq> [])"

definition auth_Authenticate :: "auth_Service \<Rightarrow> gostring \<Rightarrow> gostring \<Rightarrow> bool" where
  "auth_Authenticate s clientID clientSecret =
     (if \<not> auth_Enabled s then False else clientID = au_clientID s \<and> clientSecret = au_clientSecret s)"

definition auth_randomID :: "gostring result \<Rightarrow> gostring result" where
  "auth_randomID rand_Read = map_sum id base64_RawURL rand_Read"

definition auth_Issue :: "token_lib \<Rightarrow> auth_Service \<Rightarrow> time \<Rightarrow> gostring result \<Rightarrow> gostring \<Rightarrow> gostring result" where
  "auth_Issue lib s now rand_Read subj =
     (if \<not> auth_Enabled s then Inl (OtherError ''authentication is not configured'')
      else case auth_randomID rand_Read of
        Inl err \<Rightarrow> Inl (Wrapf ''create token id'' err)
      | Inr jti \<Rightarrow>
          tk_SignedString lib
            \<lparr>cl_Issuer = au_issuer s, cl_Subject = subj, cl_ID = jti, cl_IssuedAt = tk_NumericDate lib now,
             cl_NotBefore = tk_NumericDate lib now, cl_ExpiresAt = tk_NumericDate lib (now + au_ttl s)\<rparr> (au_secret s))"

definition auth_key :: "auth_Service \<Rightarrow> gostring \<Rightarrow> gostring result" where
  "auth_key s alg =
     (if alg \<noteq> ''HS256'' then Inl (OtherError (''unexpected signing method '' @ alg)) else Inr (au_secret s))"

definition auth_Parse :: "token_lib \<Rightarrow> auth_Service \<Rightarrow> gostring \<Rightarrow> Claims result" where
  "auth_Parse lib s raw =
     (if \<not> auth_Enabled s then Inl (OtherError ''authentication is not configured'')
      else case tk_ParseWithClaims lib raw (auth_key s) (au_issuer s) of
        Inl err \<Rightarrow> Inl (Wrapf ''parse jwt'' err)
      | Inr (claims, valid) \<Rightarrow>
          (case claims of
             Some c \<Rightarrow> if valid then Inr c else Inl (OtherError ''invalid jwt claims'')
           | None \<Rightarrow> Inl (OtherError ''invalid jwt claims'')))"

definition auth_Verify :: "token_lib \<Rightarrow> auth_Service \<Rightarrow> ctx \<Rightarrow> gostring \<Rightarrow> Principal result" where
  "auth_Verify lib s x raw =
     (if au_verifier s then tk_VerifyBearer lib x raw
      else map_sum id (\<lambda>claims. \<lparr>pr_ID = cl_Subject claims, pr_Type = TypeServiceAccount, pr_TenantID = [], pr_MembershipID = []\<rparr>)
             (auth_Parse lib s raw))"

text \<open>\<open>subtle.ConstantTimeCompare\<close> is 1 exactly on equal byte sequences.\<close>

definition VerifyPSK :: "gostring \<Rightarrow> gostring \<Rightarrow> bool" where
  "VerifyPSK authorization expected =
     (case cut_at (CHR '' '') authorization of (scheme, supplied, ok) \<Rightarrow>
        if \<not> ok \<or> \<not> EqualFold scheme ''PSK'' \<or> supplied = [] \<or> length supplied \<noteq> length expected then False
        else supplied = expected)"

section \<open>Laws of identifiers and keys\<close>

lemma VerifyPSK_iff:
  "VerifyPSK authorization expected
   \<longleftrightarrow> expected \<noteq> [] \<and> (\<exists>scheme. authorization = scheme @ '' '' @ expected \<and> EqualFold scheme ''PSK'')"
proof
  assume "VerifyPSK authorization expected"
  then show "expected \<noteq> [] \<and> (\<exists>scheme. authorization = scheme @ '' '' @ expected \<and> EqualFold scheme ''PSK'')"
    by (auto simp: VerifyPSK_def split: prod.splits if_splits dest!: cut_at_True)
next
  assume r: "expected \<noteq> [] \<and> (\<exists>scheme. authorization = scheme @ '' '' @ expected \<and> EqualFold scheme ''PSK'')"
  then obtain scheme where a: "authorization = scheme @ '' '' @ expected" "EqualFold scheme ''PSK''" by blast
  have "CHR '' '' \<notin> set scheme"
  proof
    assume "CHR '' '' \<in> set scheme"
    then have "to_lower_char (CHR '' '') \<in> set (ToLower scheme)" by (simp add: ToLower_def)
    moreover have "ToLower ''PSK'' = ''psk''" "to_lower_char (CHR '' '') = CHR '' ''" by code_simp+
    ultimately show False using a(2) by (simp add: EqualFold_def)
  qed
  with a r show "VerifyPSK authorization expected" by (simp add: VerifyPSK_def cut_at_found)
qed

lemma hex_digit_allowed: "n < 16 \<Longrightarrow> allowedCharacter (hex_digit n)"
  by (auto simp: hex_digit_def allowedCharacter_def Let_def)

lemma set_hex: "list_all allowedCharacter (hex_EncodeToString b)"
proof -
  have "(of_char c :: nat) < 256" for c by (metis nat_of_char_less_256)
  then have "(of_char c :: nat) div 16 < 16" for c by (simp add: less_mult_imp_div_less)
  then show ?thesis by (auto simp: hex_EncodeToString_def list_all_iff intro!: hex_digit_allowed)
qed

lemma length_hex: "length (hex_EncodeToString b) = 2 * length b"
  by (induction b) (auto simp: hex_EncodeToString_def)

end
