(* ===== verification/Config.thy ===== *)
theory Config
  imports Complex_Main Access
begin

text \<open>
  \<open>internal/config/config.go\<close>: the configuration records, the defaults, profile files, the decoding
  of lists and \<open>Validate\<close>, which every process runs before anything else is built.

  Durations are nanoseconds. A \<open>float64\<close> is only compared, so it is a rational number or, as
  \<^const>\<open>None\<close>, not a number. Maps are association lists in the order in which Go happens to iterate.
  Reading files and environment variables is the work of the package \<open>viper\<close>, an argument
  (\<open>viper_lib\<close>). \<open>%q\<close> is written for printable text.
\<close>

section \<open>Records\<close>

record Runtime =
  rt_ActiveProfile :: gostring
  rt_ConfigFiles :: "gostring list"

record App =
  ap_Name :: gostring
  ap_Schema :: gostring
  ap_Env :: gostring
  ap_ShutdownTimeout :: time

record CORS =
  co_Enabled :: bool
  co_AllowedOrigins :: "gostring list"
  co_AllowedHeaders :: "gostring list"
  co_ExposedHeaders :: "gostring list"
  co_MaxAge :: time

record HTTP =
  ht_Address :: gostring
  ht_ReadTimeout :: time
  ht_WriteTimeout :: time
  ht_IdleTimeout :: time
  ht_RequestTimeout :: time
  ht_MaxBodyBytes :: int
  ht_TrustedProxies :: "gostring list"
  ht_CORS :: CORS

record GRPCTLS =
  gt_Enabled :: bool
  gt_CertFile :: gostring
  gt_KeyFile :: gostring
  gt_ClientCAFile :: gostring

record GRPC =
  gs_Enabled :: bool
  gs_Address :: gostring
  gs_ReflectionEnabled :: bool
  gs_MaxReceiveBytes :: int
  gs_TLS :: GRPCTLS

record Log =
  lg_Level :: gostring
  lg_Format :: gostring
  lg_File :: gostring
  lg_MaxSizeMB :: int
  lg_MaxBackups :: int
  lg_MaxAgeDays :: int
  lg_Compress :: bool

record Database =
  dbs_Enabled :: bool
  dbs_Name :: gostring
  dbs_Schema :: gostring
  dbs_Type :: gostring
  dbs_DSN :: gostring
  dbs_MaxOpenConns :: int
  dbs_MaxIdleConns :: int
  dbs_ConnMaxLifetime :: time
  dbs_ConnMaxIdleTime :: time
  dbs_PingTimeout :: time

record Redis =
  rd_Enabled :: bool
  rd_Address :: gostring
  rd_Username :: gostring
  rd_Password :: gostring
  rd_DB :: int
  rd_DialTimeout :: time
  rd_ReadTimeout :: time
  rd_WriteTimeout :: time

record Health =
  hl_DatabaseTimeout :: time
  hl_RedisTimeout :: time

record RateLimitRule =
  ru_Rate :: int
  ru_Burst :: int
  ru_Period :: time

record RateLimit =
  rl_Enabled :: bool
  rl_FailOpen :: bool
  rl_IP :: RateLimitRule
  rl_API :: RateLimitRule
  rl_User :: RateLimitRule
  rl_Login :: RateLimitRule

record Observability =
  obs_MetricsEnabled :: bool
  obs_TracingEnabled :: bool
  obs_TracingEndpoint :: gostring
  obs_TracingSampleRatio :: "rat option"
  obs_PprofEnabled :: bool
  obs_PprofToken :: gostring

record Swagger =
  sw_Enabled :: bool
  sw_RequireAuth :: bool

record JWT =
  jw_Issuer :: gostring
  jw_Secret :: gostring
  jw_TTL :: time

record PSK =
  psk_Enabled :: bool
  psk_Key :: gostring
  psk_HTTPPaths :: "gostring list"
  psk_GRPCMethods :: "gostring list"

record Auth =
  at_JWKSURL :: gostring
  at_Issuer :: gostring
  at_Audience :: gostring
  at_ClientID :: gostring
  at_ClientSecret :: gostring
  at_SkipHTTPPaths :: "gostring list"
  at_SkipGRPCMethods :: "gostring list"
  at_PSK :: PSK

record Authorization =
  az_Enabled :: bool
  az_PolicyRefreshInterval :: time
  az_DecisionCacheTTL :: time

record Cron =
  cn_Enabled :: bool
  cn_Timezone :: gostring
  cn_SampleSpec :: gostring

record Migration =
  mi_AutoUp :: bool
  mi_CreateSchema :: bool
  mi_Path :: gostring
  mi_DatabaseURL :: gostring
  mi_Table :: gostring
  mi_Schema :: gostring
  mi_DatabaseName :: gostring

record User =
  us_CacheTTL :: time
  us_LockTTL :: time
  us_LockRetryDelay :: time

record Idempotency =
  ie_Enabled :: bool
  ie_HTTPPaths :: "gostring list"
  ie_GRPCMethods :: "gostring list"
  ie_ProcessingTTL :: time
  ie_ResultTTL :: time
  ie_FailureTTL :: time

record EventBus =
  eb_Enabled :: bool
  eb_URLs :: "gostring list"
  eb_StreamName :: gostring
  eb_Storage :: gostring
  eb_MaxAge :: time
  eb_DuplicateWindow :: time
  eb_ConnectTimeout :: time
  eb_PublishTimeout :: time
  eb_DispatchInterval :: time
  eb_DispatchBatchSize :: int
  eb_DispatchLease :: time
  eb_DispatchRetryDelay :: time
  eb_PublishedRetention :: time
  eb_CleanupInterval :: time
  eb_CleanupBatchSize :: int

record OperationLog =
  opl_Enabled :: bool
  opl_Subject :: gostring
  opl_MaxPayloadBytes :: int

record SecurityLog =
  sel_Enabled :: bool
  sel_Subject :: gostring
  sel_MaxPayloadBytes :: int
  sel_HashKey :: gostring
  sel_FailClosed :: bool

record ClientAuth =
  ca_Type :: gostring
  ca_Token :: gostring

record Retry =
  rty_MaxAttempts :: int
  rty_InitialBackoff :: time
  rty_MaxBackoff :: time
  rty_Methods :: "gostring list"

record Breaker =
  brk_Enabled :: bool
  brk_FailureThreshold :: int
  brk_OpenTimeout :: time

record ClientTLS =
  ctl_Enabled :: bool
  ctl_ServerName :: gostring
  ctl_CAFile :: gostring
  ctl_CertFile :: gostring
  ctl_KeyFile :: gostring

record HTTPUpstream =
  hu_BaseURL :: gostring
  hu_Timeout :: time
  hu_Auth :: ClientAuth
  hu_Retry :: Retry
  hu_Breaker :: Breaker
  hu_TLS :: ClientTLS

record GRPCUpstream =
  gu_Target :: gostring
  gu_Timeout :: time
  gu_Auth :: ClientAuth
  gu_Retry :: Retry
  gu_Breaker :: Breaker
  gu_TLS :: ClientTLS

record Outbound =
  ogo_HTTP :: "(gostring \<times> HTTPUpstream) list"
  ogo_GRPC :: "(gostring \<times> GRPCUpstream) list"

record Config =
  cfg_Runtime :: Runtime
  cfg_App :: App
  cfg_HTTP :: HTTP
  cfg_GRPC :: GRPC
  cfg_Log :: Log
  cfg_Database :: Database
  cfg_Redis :: Redis
  cfg_Health :: Health
  cfg_RateLimit :: RateLimit
  cfg_Observability :: Observability
  cfg_Swagger :: Swagger
  cfg_JWT :: JWT
  cfg_Auth :: Auth
  cfg_Authorization :: Authorization
  cfg_Cron :: Cron
  cfg_Migration :: Migration
  cfg_User :: User
  cfg_Idempotency :: Idempotency
  cfg_EventBus :: EventBus
  cfg_OperationLog :: OperationLog
  cfg_SecurityLog :: SecurityLog
  cfg_Outbound :: Outbound

section \<open>Names, profiles and lists\<close>

definition lower_letter :: "char \<Rightarrow> bool" where
  "lower_letter c = (let n = (of_char c :: nat) in 97 \<le> n \<and> n \<le> 122)"

definition ascii_digit :: "char \<Rightarrow> bool" where
  "ascii_digit c = (let n = (of_char c :: nat) in 48 \<le> n \<and> n \<le> 57)"

fun validProfile :: "gostring \<Rightarrow> bool" where
  "validProfile [] = False"
| "validProfile (c # cs) =
     ((lower_letter c \<or> ascii_digit c)
      \<and> list_all (\<lambda>d. lower_letter d \<or> ascii_digit d \<or> d = CHR ''_'' \<or> d = CHR ''-'') cs)"

fun validMigrationTable :: "gostring \<Rightarrow> bool" where
  "validMigrationTable [] = False"
| "validMigrationTable (c # cs) =
     (lower_letter c \<and> length cs \<le> 62 \<and> list_all (\<lambda>d. lower_letter d \<or> ascii_digit d \<or> d = CHR ''_'') cs)"

text \<open>\<open>filepath.Ext\<close>: the text from the last dot of the last path element.\<close>

definition filepath_Ext :: "gostring \<Rightarrow> gostring" where
  "filepath_Ext path =
     (let element = rev (takeWhile (\<lambda>c. c \<noteq> CHR ''/'') (rev path)) in
      if CHR ''.'' \<in> set element then CHR ''.'' # rev (takeWhile (\<lambda>c. c \<noteq> CHR ''.'') (rev element)) else [])"

definition TrimSuffix :: "gostring \<Rightarrow> gostring \<Rightarrow> gostring" where
  "TrimSuffix s suf = (if suffix suf s then take (length s - length suf) s else s)"

definition profileConfigPath :: "gostring \<Rightarrow> gostring \<Rightarrow> gostring" where
  "profileConfigPath path profile =
     (let extension = filepath_Ext path; base = TrimSuffix path extension in base @ ''-'' @ profile @ extension)"

fun split_at :: "char \<Rightarrow> gostring \<Rightarrow> gostring list" where
  "split_at sep [] = [[]]"
| "split_at sep (c # cs) =
     (if c = sep then [] # split_at sep cs
      else case split_at sep cs of [] \<Rightarrow> [[c]] | t # ts \<Rightarrow> (c # t) # ts)"

definition Trim_quotes :: "gostring \<Rightarrow> gostring" where
  "Trim_quotes s =
     (let quoted = (\<lambda>c. c = CHR 0x22 \<or> c = CHR 0x27) in rev (dropWhile quoted (rev (dropWhile quoted s))))"

text \<open>The hook for a string that is decoded into a list of strings.\<close>

definition stringToStringSliceHook :: "gostring \<Rightarrow> gostring list" where
  "stringToStringSliceHook v =
     (let raw0 = TrimSpace v;
          raw = (if prefix ''['' raw0 \<and> suffix '']'' raw0 then TrimSpace (butlast (tl raw0)) else raw0) in
      if raw = [] then [] else map (\<lambda>t. Trim_quotes (TrimSpace t)) (split_at (CHR '','') raw))"

section \<open>Validation\<close>

definition isDBType :: "gostring \<Rightarrow> bool" where
  "isDBType v = (v = ''mysql'' \<or> v = ''postgres'' \<or> v = ''kingbase'')"

text \<open>A sequence of \<open>if cond { return err }\<close> statements.\<close>

fun first_error :: "(bool \<times> goerr) list \<Rightarrow> goerr option" where
  "first_error [] = None"
| "first_error ((c, err) # rest) = (if c then Some err else first_error rest)"

definition quoted :: "gostring \<Rightarrow> gostring" where
  "quoted s = [CHR 0x22] @ s @ [CHR 0x22]"

definition ErrBadPattern :: goerr where
  "ErrBadPattern = OtherError ''syntax error in pattern''"

definition bad_pattern :: "gostring \<Rightarrow> bool" where
  "bad_pattern pattern = (path_Match pattern ''/validation/target'' = None)"

text \<open>The bodies of the loops over HTTP path patterns and over gRPC method patterns.\<close>

definition http_pattern_error :: "gostring \<Rightarrow> gostring \<Rightarrow> (bool \<times> goerr) list" where
  "http_pattern_error key pattern =
     [(\<not> prefix ''/api/'' pattern, OtherError (key @ '' contains path outside /api '' @ quoted pattern)),
      (bad_pattern pattern, Wrapf (key @ '' contains invalid pattern '' @ quoted pattern) ErrBadPattern)]"

definition grpc_pattern_error :: "gostring \<Rightarrow> gostring \<Rightarrow> (bool \<times> goerr) list" where
  "grpc_pattern_error key pattern =
     [(\<not> prefix ''/'' pattern \<or> count_list pattern (CHR ''/'') \<noteq> 2,
       OtherError (key @ '' contains invalid method pattern '' @ quoted pattern)),
      (bad_pattern pattern, Wrapf (key @ '' contains invalid pattern '' @ quoted pattern) ErrBadPattern)]"

definition retry_pattern_error :: "gostring \<Rightarrow> gostring \<Rightarrow> (bool \<times> goerr) list" where
  "retry_pattern_error name pattern =
     [(\<not> prefix ''/'' pattern \<or> count_list pattern (CHR ''/'') \<noteq> 2,
       OtherError (''outbound '' @ name @ '' retry method pattern is invalid'')),
      (bad_pattern pattern, Wrapf (''outbound '' @ name @ '' retry method pattern is invalid'') ErrBadPattern)]"

definition validateClientPolicy :: "gostring \<Rightarrow> ClientAuth \<Rightarrow> Retry \<Rightarrow> Breaker \<Rightarrow> ClientTLS \<Rightarrow> goerr option" where
  "validateClientPolicy name a r b t =
     first_error
       ([(ca_Type a \<noteq> [] \<and> ca_Type a \<noteq> ''bearer'' \<and> ca_Type a \<noteq> ''psk'',
          OtherError (''outbound '' @ name @ '' auth.type must be bearer or psk'')),
         (ca_Type a \<noteq> [] \<and> ca_Token a = [], OtherError (''outbound '' @ name @ '' auth.token is required'')),
         (ca_Type a \<noteq> [] \<and> \<not> ctl_Enabled t, OtherError (''outbound '' @ name @ '' credentials require TLS'')),
         (rty_MaxAttempts r < 1 \<or> rty_MaxAttempts r > 5 \<or> rty_InitialBackoff r \<le> 0 \<or> rty_MaxBackoff r < rty_InitialBackoff r,
          OtherError (''outbound '' @ name @ '' retry policy is invalid''))]
        @ concat (map (retry_pattern_error name) (rty_Methods r))
        @ [(brk_Enabled b \<and> (brk_FailureThreshold b = 0 \<or> brk_OpenTimeout b \<le> 0),
            OtherError (''outbound '' @ name @ '' breaker policy is invalid'')),
           (ctl_Enabled t \<and> (ctl_CertFile t = []) \<noteq> (ctl_KeyFile t = []),
            OtherError (''outbound '' @ name @ '' TLS certificate and key must be configured together''))])"

definition rate_rule_error :: "gostring \<Rightarrow> RateLimitRule \<Rightarrow> bool \<times> goerr" where
  "rate_rule_error name rule =
     (ru_Rate rule \<le> 0 \<or> ru_Burst rule \<le> 0 \<or> ru_Period rule \<le> 0,
      OtherError (''rate_limit.'' @ name @ '' values must be positive''))"

text \<open>The statements of \<open>Validate\<close>, in groups of consecutive lines. The literal map of rate rules
  is listed in source order; Go may name another failing rule first.\<close>

definition validate_servers :: "Config \<Rightarrow> (bool \<times> goerr) list" where
  "validate_servers c =
     (let production = (ap_Env (cfg_App c) = ''production''); g = cfg_GRPC c; d = cfg_Database c in
     [(\<not> validMigrationTable (dbs_Name d),
       OtherError ''database.name must contain lowercase letters, digits, or underscores and be at most 63 characters''),
      (dbs_Schema d \<noteq> [] \<and> \<not> validMigrationTable (dbs_Schema d),
       OtherError ''database.schema must contain lowercase letters, digits, or underscores and be at most 63 characters''),
      (ht_Address (cfg_HTTP c) = [], OtherError ''http.address is required''),
      (gs_Enabled g \<and> (gs_Address g = [] \<or> gs_MaxReceiveBytes g \<le> 0),
       OtherError ''enabled grpc requires address and positive max_receive_bytes''),
      (gt_Enabled (gs_TLS g) \<and> (gt_CertFile (gs_TLS g) = [] \<or> gt_KeyFile (gs_TLS g) = []),
       OtherError ''grpc tls requires cert_file and key_file''),
      (production \<and> gs_Enabled g \<and> \<not> gt_Enabled (gs_TLS g), OtherError ''grpc tls must be enabled in production''),
      (production \<and> gs_ReflectionEnabled g, OtherError ''grpc reflection must be disabled in production''),
      (dbs_Enabled d \<and> (dbs_DSN d = [] \<or> \<not> isDBType (dbs_Type d)),
       OtherError ''enabled database requires dsn and type mysql, postgres, or kingbase''),
      (mi_AutoUp (cfg_Migration c) \<and> (\<not> dbs_Enabled d \<or> mi_Path (cfg_Migration c) = [] \<or> mi_DatabaseURL (cfg_Migration c) = []
         \<or> \<not> validMigrationTable (mi_Table (cfg_Migration c))),
       OtherError ''migration.auto_up requires enabled database, path, database_url, and a valid service-specific table''),
      (rd_Enabled (cfg_Redis c) \<and> rd_Address (cfg_Redis c) = [], OtherError ''enabled redis requires address''),
      (ht_RequestTimeout (cfg_HTTP c) \<le> 0 \<or> hl_DatabaseTimeout (cfg_Health c) \<le> 0 \<or> hl_RedisTimeout (cfg_Health c) \<le> 0,
       OtherError ''http and health timeouts must be positive'')])"

definition validate_limits :: "Config \<Rightarrow> (bool \<times> goerr) list" where
  "validate_limits c =
     (let l = cfg_RateLimit c; ob = cfg_Observability c in
     [(rl_Enabled l \<and> \<not> rd_Enabled (cfg_Redis c), OtherError ''rate_limit requires redis.enabled'')]
     @ (if rl_Enabled l
        then [rate_rule_error ''ip'' (rl_IP l), rate_rule_error ''api'' (rl_API l),
              rate_rule_error ''user'' (rl_User l), rate_rule_error ''login'' (rl_Login l)]
        else [])
     @ [(co_Enabled (ht_CORS (cfg_HTTP c)) \<and> co_AllowedOrigins (ht_CORS (cfg_HTTP c)) = [],
         OtherError ''cors.allowed_origins is required when cors is enabled''),
        ((case obs_TracingSampleRatio ob of None \<Rightarrow> False | Some q \<Rightarrow> q < 0 \<or> q > 1),
         OtherError ''observability.tracing_sample_ratio must be between 0 and 1''),
        (obs_TracingEnabled ob \<and> obs_TracingEndpoint ob = [], OtherError ''observability.tracing_endpoint is required''),
        (obs_PprofEnabled ob \<and> length (obs_PprofToken ob) < 32,
         OtherError ''observability.pprof_token must contain at least 32 bytes'')])"

definition validate_auth :: "Config \<Rightarrow> (bool \<times> goerr) list" where
  "validate_auth c =
     (let production = (ap_Env (cfg_App c) = ''production''); a = cfg_Auth c; z = cfg_Authorization c; p = at_PSK a in
     [(production \<and> sw_Enabled (cfg_Swagger c) \<and> \<not> sw_RequireAuth (cfg_Swagger c),
       OtherError ''swagger.require_auth must be enabled in production''),
      (production \<and> (at_JWKSURL a = [] \<or> at_Issuer a = [] \<or> at_Audience a = []),
       OtherError ''production auth requires jwks_url, issuer, and audience''),
      (production \<and> \<not> az_Enabled z, OtherError ''authorization must be enabled in production''),
      (az_PolicyRefreshInterval z \<le> 0 \<or> az_DecisionCacheTTL z \<le> 0,
       OtherError ''authorization refresh interval and decision cache ttl must be positive''),
      (az_Enabled z \<and> az_PolicyRefreshInterval z \<le> 0,
       OtherError ''enabled authorization requires positive policy_refresh_interval''),
      ((at_ClientID a \<noteq> [] \<or> at_ClientSecret a \<noteq> []) \<and> length (jw_Secret (cfg_JWT c)) < 32,
       OtherError ''jwt.secret must contain at least 32 bytes when auth is enabled'')]
     @ concat (map (http_pattern_error ''auth.skip_http_paths'') (at_SkipHTTPPaths a))
     @ concat (map (grpc_pattern_error ''auth.skip_grpc_methods'') (at_SkipGRPCMethods a))
     @ [(psk_Enabled p \<and> (length (psk_Key p) < 32 \<or> length (psk_HTTPPaths p) + length (psk_GRPCMethods p) = 0),
         OtherError ''enabled auth.psk requires a key of at least 32 bytes and at least one route pattern'')]
     @ concat (map (http_pattern_error ''auth.psk.http_paths'') (psk_HTTPPaths p))
     @ concat (map (grpc_pattern_error ''auth.psk.grpc_methods'') (psk_GRPCMethods p)))"

definition validate_idempotency :: "Config \<Rightarrow> (bool \<times> goerr) list" where
  "validate_idempotency c =
     (let u = cfg_User c; i = cfg_Idempotency c in
     [(us_CacheTTL u \<le> 0 \<or> us_LockTTL u \<le> 0 \<or> us_LockRetryDelay u \<le> 0,
       OtherError ''user cache and lock durations must be positive''),
      (ie_Enabled i \<and> (\<not> rd_Enabled (cfg_Redis c) \<or> (ie_HTTPPaths i = [] \<and> ie_GRPCMethods i = [])
         \<or> ie_ProcessingTTL i \<le> 0 \<or> ie_ResultTTL i \<le> 0 \<or> ie_FailureTTL i \<le> 0),
       OtherError ''enabled idempotency requires redis, at least one route pattern, and positive TTL values'')]
     @ concat (map (http_pattern_error ''idempotency.http_paths'') (ie_HTTPPaths i))
     @ concat (map (grpc_pattern_error ''idempotency.grpc_methods'') (ie_GRPCMethods i)))"

definition validate_events :: "Config \<Rightarrow> (bool \<times> goerr) list" where
  "validate_events c =
     (let e = cfg_EventBus c; ol = cfg_OperationLog c; s = cfg_SecurityLog c in
     [(eb_Enabled e \<and> (\<not> dbs_Enabled (cfg_Database c) \<or> eb_URLs e = [] \<or> eb_StreamName e = []
         \<or> (eb_Storage e \<noteq> ''file'' \<and> eb_Storage e \<noteq> ''memory'') \<or> eb_MaxAge e \<le> 0 \<or> eb_DispatchInterval e \<le> 0
         \<or> eb_DispatchBatchSize e \<le> 0 \<or> eb_DispatchLease e \<le> 0 \<or> eb_DispatchRetryDelay e \<le> 0
         \<or> eb_PublishedRetention e < eb_MaxAge e \<or> eb_CleanupInterval e \<le> 0 \<or> eb_CleanupBatchSize e \<le> 0),
       OtherError ''enabled event_bus requires database, stream settings, positive dispatch/cleanup settings, and published retention at least max_age''),
      (opl_Enabled ol \<and> \<not> eb_Enabled e, OtherError ''enabled operation_log requires event_bus''),
      (opl_Enabled ol \<and> (TrimSpace (opl_Subject ol) = [] \<or> opl_MaxPayloadBytes ol < 256 \<or> opl_MaxPayloadBytes ol > 1048576),
       OtherError ''enabled operation_log requires subject and max_payload_bytes between 256 bytes and 1 MiB''),
      (sel_Enabled s \<and> \<not> eb_Enabled e, OtherError ''enabled security_log requires event_bus''),
      (sel_Enabled s \<and> (TrimSpace (sel_Subject s) = [] \<or> sel_MaxPayloadBytes s < 256 \<or> sel_MaxPayloadBytes s > 1048576
         \<or> length (sel_HashKey s) < 32),
       OtherError ''enabled security_log requires subject, hash_key of at least 32 bytes, and max_payload_bytes between 256 bytes and 1 MiB'')])"

fun validate_http_upstreams :: "(gostring \<times> HTTPUpstream) list \<Rightarrow> goerr option" where
  "validate_http_upstreams [] = None"
| "validate_http_upstreams ((name, u) # rest) =
     (if hu_BaseURL u = [] \<or> hu_Timeout u \<le> 0
      then Some (OtherError (''outbound.http.'' @ name @ '' requires base_url and positive timeout''))
      else case validateClientPolicy name (hu_Auth u) (hu_Retry u) (hu_Breaker u) (hu_TLS u) of
        Some err \<Rightarrow> Some err
      | None \<Rightarrow> validate_http_upstreams rest)"

fun validate_grpc_upstreams :: "(gostring \<times> GRPCUpstream) list \<Rightarrow> goerr option" where
  "validate_grpc_upstreams [] = None"
| "validate_grpc_upstreams ((name, u) # rest) =
     (if gu_Target u = [] \<or> gu_Timeout u \<le> 0
      then Some (OtherError (''outbound.grpc.'' @ name @ '' requires target and positive timeout''))
      else case validateClientPolicy name (gu_Auth u) (gu_Retry u) (gu_Breaker u) (gu_TLS u) of
        Some err \<Rightarrow> Some err
      | None \<Rightarrow> validate_grpc_upstreams rest)"

definition Validate :: "Config \<Rightarrow> goerr option" where
  "Validate c =
     (case first_error (validate_servers c @ validate_limits c @ validate_auth c @ validate_idempotency c @ validate_events c) of
        Some err \<Rightarrow> Some err
      | None \<Rightarrow> (case validate_http_upstreams (ogo_HTTP (cfg_Outbound c)) of
          Some err \<Rightarrow> Some err
        | None \<Rightarrow> validate_grpc_upstreams (ogo_GRPC (cfg_Outbound c))))"

section \<open>Defaults and loading\<close>

definition seconds :: "int \<Rightarrow> time" where
  "seconds n = n * 1000000000"

definition rateLimitDefaults :: "int \<Rightarrow> int \<Rightarrow> RateLimitRule" where
  "rateLimitDefaults rate burst = \<lparr>ru_Rate = rate, ru_Burst = burst, ru_Period = seconds 60\<rparr>"

text \<open>The configuration that the defaults alone decode to; keys without a default have the zero
  value of their type.\<close>

definition default_http :: HTTP where
  "default_http =
     \<lparr>ht_Address = ''127.0.0.1:8080'', ht_ReadTimeout = seconds 10, ht_WriteTimeout = seconds 15, ht_IdleTimeout = seconds 60,
      ht_RequestTimeout = seconds 10, ht_MaxBodyBytes = 1048576, ht_TrustedProxies = [],
      ht_CORS = \<lparr>co_Enabled = False, co_AllowedOrigins = [], co_AllowedHeaders = [''Authorization'', ''Content-Type'', ''X-Request-ID''],
        co_ExposedHeaders = [''X-Request-ID'', ''X-RateLimit-Limit'', ''X-RateLimit-Remaining'', ''Retry-After''],
        co_MaxAge = seconds 43200\<rparr>\<rparr>"

definition default_grpc :: GRPC where
  "default_grpc =
     \<lparr>gs_Enabled = True, gs_Address = ''127.0.0.1:9090'', gs_ReflectionEnabled = True, gs_MaxReceiveBytes = 16777216,
      gs_TLS = \<lparr>gt_Enabled = False, gt_CertFile = [], gt_KeyFile = [], gt_ClientCAFile = []\<rparr>\<rparr>"

definition default_stores :: "Database \<times> Redis" where
  "default_stores =
     (\<lparr>dbs_Enabled = False, dbs_Name = ''platform'', dbs_Schema = ''authorization'', dbs_Type = ''postgres'', dbs_DSN = [],
       dbs_MaxOpenConns = 25, dbs_MaxIdleConns = 10, dbs_ConnMaxLifetime = seconds 300, dbs_ConnMaxIdleTime = seconds 60,
       dbs_PingTimeout = seconds 5\<rparr>,
      \<lparr>rd_Enabled = False, rd_Address = ''127.0.0.1:6379'', rd_Username = [], rd_Password = [], rd_DB = 0,
       rd_DialTimeout = seconds 5, rd_ReadTimeout = seconds 3, rd_WriteTimeout = seconds 3\<rparr>)"

definition default_access :: "RateLimit \<times> Observability \<times> Auth" where
  "default_access =
     (\<lparr>rl_Enabled = False, rl_FailOpen = False, rl_IP = rateLimitDefaults 120 30, rl_API = rateLimitDefaults 10000 1000,
       rl_User = rateLimitDefaults 600 100, rl_Login = rateLimitDefaults 10 3\<rparr>,
      \<lparr>obs_MetricsEnabled = True, obs_TracingEnabled = False, obs_TracingEndpoint = ''http://127.0.0.1:4318'',
       obs_TracingSampleRatio = Some (1 / 10), obs_PprofEnabled = False, obs_PprofToken = []\<rparr>,
      \<lparr>at_JWKSURL = [], at_Issuer = ''identity-service'', at_Audience = ''authorization-service'', at_ClientID = [],
       at_ClientSecret = [], at_SkipHTTPPaths = [''/api/v1/version''], at_SkipGRPCMethods = [''/grpc.health.v1.Health/*''],
       at_PSK = \<lparr>psk_Enabled = False, psk_Key = [], psk_HTTPPaths = [], psk_GRPCMethods = []\<rparr>\<rparr>)"

definition default_events :: "EventBus \<times> OperationLog \<times> SecurityLog" where
  "default_events =
     (\<lparr>eb_Enabled = False, eb_URLs = [''nats://127.0.0.1:4222''], eb_StreamName = ''PLATFORM_EVENTS'', eb_Storage = ''file'',
       eb_MaxAge = seconds 604800, eb_DuplicateWindow = seconds 600, eb_ConnectTimeout = seconds 5, eb_PublishTimeout = seconds 5,
       eb_DispatchInterval = seconds 1, eb_DispatchBatchSize = 100, eb_DispatchLease = seconds 30, eb_DispatchRetryDelay = seconds 5,
       eb_PublishedRetention = seconds 604800, eb_CleanupInterval = seconds 3600, eb_CleanupBatchSize = 1000\<rparr>,
      \<lparr>opl_Enabled = False, opl_Subject = ''platform.operation-log.recorded.v1'', opl_MaxPayloadBytes = 16384\<rparr>,
      \<lparr>sel_Enabled = False, sel_Subject = ''platform.security-log.recorded.v1'', sel_MaxPayloadBytes = 16384, sel_HashKey = [],
       sel_FailClosed = True\<rparr>)"

definition setDefaults :: Config where
  "setDefaults =
     \<lparr>cfg_Runtime = \<lparr>rt_ActiveProfile = [], rt_ConfigFiles = []\<rparr>,
      cfg_App = \<lparr>ap_Name = ''authorization-service'', ap_Schema = [], ap_Env = ''development'', ap_ShutdownTimeout = seconds 10\<rparr>,
      cfg_HTTP = default_http, cfg_GRPC = default_grpc,
      cfg_Log = \<lparr>lg_Level = ''info'', lg_Format = ''json'', lg_File = ''logs/app.log'', lg_MaxSizeMB = 100, lg_MaxBackups = 10,
        lg_MaxAgeDays = 30, lg_Compress = True\<rparr>,
      cfg_Database = fst default_stores, cfg_Redis = snd default_stores,
      cfg_Health = \<lparr>hl_DatabaseTimeout = seconds 2, hl_RedisTimeout = seconds 2\<rparr>,
      cfg_RateLimit = fst default_access, cfg_Observability = fst (snd default_access),
      cfg_Swagger = \<lparr>sw_Enabled = True, sw_RequireAuth = False\<rparr>,
      cfg_JWT = \<lparr>jw_Issuer = ''authorization-service'', jw_Secret = [], jw_TTL = seconds 7200\<rparr>,
      cfg_Auth = snd (snd default_access),
      cfg_Authorization = \<lparr>az_Enabled = False, az_PolicyRefreshInterval = seconds 30, az_DecisionCacheTTL = seconds 30\<rparr>,
      cfg_Cron = \<lparr>cn_Enabled = True, cn_Timezone = ''Asia/Shanghai'', cn_SampleSpec = ''0 */5 * * * *''\<rparr>,
      cfg_Migration = \<lparr>mi_AutoUp = False, mi_CreateSchema = False, mi_Path = ''migrations/postgres'', mi_DatabaseURL = [],
        mi_Table = ''authorization_schema_migrations'', mi_Schema = [], mi_DatabaseName = []\<rparr>,
      cfg_User = \<lparr>us_CacheTTL = seconds 300, us_LockTTL = seconds 10, us_LockRetryDelay = 100000000\<rparr>,
      cfg_Idempotency = \<lparr>ie_Enabled = False, ie_HTTPPaths = [], ie_GRPCMethods = [], ie_ProcessingTTL = seconds 30,
        ie_ResultTTL = seconds 86400, ie_FailureTTL = seconds 300\<rparr>,
      cfg_EventBus = fst default_events, cfg_OperationLog = fst (snd default_events), cfg_SecurityLog = snd (snd default_events),
      cfg_Outbound = \<lparr>ogo_HTTP = [], ogo_GRPC = []\<rparr>\<rparr>"

text \<open>The package \<open>viper\<close> and the file system: binding the environment, reading the file (with
  whether the error is that it does not exist), the value of \<open>app.env\<close> after reading, the state of
  the profile file, merging it, and decoding what the files, the environment and the profile give.\<close>

datatype file_stat = FileExists | FileMissing | StatError goerr

record viper_lib =
  vp_BindEnv :: "goerr option"
  vp_ReadInConfig :: "gostring \<Rightarrow> (goerr \<times> bool) option"
  vp_AppEnv :: "gostring \<Rightarrow> gostring"
  vp_Stat :: "gostring \<Rightarrow> file_stat"
  vp_MergeInConfig :: "gostring \<Rightarrow> goerr option"
  vp_Unmarshal :: "gostring list \<Rightarrow> gostring \<Rightarrow> Config result"

definition decode_config :: "viper_lib \<Rightarrow> gostring list \<Rightarrow> gostring \<Rightarrow> Config result" where
  "decode_config lib loadedFiles profile =
     (case vp_Unmarshal lib loadedFiles profile of
        Inl err \<Rightarrow> Inl (Wrapf ''decode config'' err)
      | Inr cfg0 \<Rightarrow>
          let cfg = cfg0\<lparr>cfg_Migration := (cfg_Migration cfg0)\<lparr>mi_Schema := dbs_Schema (cfg_Database cfg0),
                                                            mi_DatabaseName := dbs_Name (cfg_Database cfg0)\<rparr>\<rparr> in
          case Validate cfg of
            Some err \<Rightarrow> Inl err
          | None \<Rightarrow> Inr (cfg\<lparr>cfg_Runtime := \<lparr>rt_ActiveProfile = profile, rt_ConfigFiles = loadedFiles\<rparr>\<rparr>))"

definition LoadWithProfile :: "viper_lib \<Rightarrow> gostring \<Rightarrow> gostring \<Rightarrow> Config result" where
  "LoadWithProfile lib path explicitProfile =
     (case vp_BindEnv lib of
        Some err \<Rightarrow> Inl (Wrapf ''bind environment profile'' err)
      | None \<Rightarrow>
     (case (case vp_ReadInConfig lib path of
              None \<Rightarrow> None
            | Some (err, notFound) \<Rightarrow> if path \<noteq> [] \<or> \<not> notFound then Some err else None) of
        Some err \<Rightarrow> Inl (Wrapf ''read config'' err)
      | None \<Rightarrow>
          let profile0 = ToLower (TrimSpace explicitProfile);
              profile = (if profile0 = [] then ToLower (TrimSpace (vp_AppEnv lib path)) else profile0);
              profilePath = profileConfigPath path profile in
          if \<not> validProfile profile then Inl (OtherError (''invalid environment profile '' @ quoted profile))
          else if profilePath \<noteq> path then
            (case vp_Stat lib profilePath of
               FileExists \<Rightarrow>
                 (case vp_MergeInConfig lib profilePath of
                    Some err \<Rightarrow> Inl (Wrapf (''merge profile config '' @ quoted profilePath) err)
                  | None \<Rightarrow> decode_config lib [path, profilePath] profile)
             | FileMissing \<Rightarrow> decode_config lib [path] profile
             | StatError err \<Rightarrow> Inl (Wrapf (''inspect profile config '' @ quoted profilePath) err))
          else decode_config lib [path] profile))"

definition Load :: "viper_lib \<Rightarrow> gostring \<Rightarrow> Config result" where
  "Load lib path = LoadWithProfile lib path []"

section \<open>Laws\<close>

lemma first_error_append: "first_error (xs @ ys) = (case first_error xs of Some e \<Rightarrow> Some e | None \<Rightarrow> first_error ys)"
  by (induction xs rule: first_error.induct) auto

lemma first_error_None: "first_error xs = None \<longleftrightarrow> (\<forall>(c, e)\<in>set xs. \<not> c)"
  by (induction xs rule: first_error.induct) auto

lemma defaults_valid: "Validate setDefaults = None"
  by code_simp

end
