(* ===== verification/Middleware.thy ===== *)
theory Middleware
  imports Config
begin

text \<open>
  The gin middleware of \<open>internal/transport/http/middleware.go\<close>, the rate limiter of
  \<open>internal/ratelimit\<close> and the order in which \<open>NewServer\<close> (\<open>server.go\<close>) installs them.

  A \<open>gin\<close> record is the \<open>*gin.Context\<close> a handler works on: the request, its \<open>context.Context\<close>, the
  value under the key \<open>subject\<close>, and the writer (headers set so far, status, whether anything was
  written, the bytes). A handler maps it and the state of the server to the same, and may panic. Every
  middleware of the package either calls \<open>c.Next()\<close> or aborts the chain, so a middleware is a
  function from the rest of the chain to a handler.

  The state \<open>'s\<close> is whatever the collaborators change: token verification, the rate limiter's
  backend, the idempotency manager and the route policies are functions on it. JSON encoding is the
  record \<open>json_lib\<close>; \<open>mime.ParseMediaType\<close> and the fingerprint hash are arguments too.
\<close>

section \<open>The gin context\<close>

record gin =
  g_Method :: gostring
  g_FullPath :: gostring
  g_Header :: "gostring \<Rightarrow> gostring" \<comment> \<open>empty when absent\<close>
  g_ContentLength :: int
  g_TLS :: bool
  g_ClientIP :: gostring
  g_Body :: "gostring result" \<comment> \<open>what reading the body gives\<close>
  g_ctx :: ctx
  g_subject :: "gostring option"
  g_out :: "(gostring \<times> gostring) list"
  g_status :: int
  g_written :: bool
  g_bytes :: gostring

datatype flow = Returned | Panicked

type_synonym 's handler = "gin \<Rightarrow> 's \<Rightarrow> flow \<times> gin \<times> 's"
type_synonym 's middleware = "'s handler \<Rightarrow> 's handler"

record 'b json_lib =
  json_Marshal :: "'b Response \<Rightarrow> gostring"
  json_Unmarshal :: "gostring \<Rightarrow> 'b Response result"

definition gin_Header :: "gostring \<Rightarrow> gostring \<Rightarrow> gin \<Rightarrow> gin" where
  "gin_Header key v c = c\<lparr>g_out := AList.update key v (g_out c)\<rparr>"

text \<open>\<open>c.JSON\<close> and \<open>c.AbortWithStatusJSON\<close>: the status counts only before the first write.\<close>

definition gin_JSON :: "'b json_lib \<Rightarrow> int \<Rightarrow> 'b Response \<Rightarrow> gin \<Rightarrow> gin" where
  "gin_JSON js status response c =
     c\<lparr>g_status := (if g_written c then g_status c else status), g_written := True,
       g_bytes := g_bytes c @ json_Marshal js response\<rparr>"

definition gin_AbortWithStatus :: "int \<Rightarrow> gin \<Rightarrow> gin" where
  "gin_AbortWithStatus status c = c\<lparr>g_status := (if g_written c then g_status c else status), g_written := True\<rparr>"

definition gin_Fail :: "'b json_lib \<Rightarrow> goerr \<Rightarrow> gin \<Rightarrow> gin" where
  "gin_Fail js err c = (case Fail (g_ctx c) err of (status, response) \<Rightarrow> gin_JSON js status response c)"

definition gin_reply :: "'b json_lib \<Rightarrow> 'b reply \<Rightarrow> gin \<Rightarrow> gin" where
  "gin_reply js r c = gin_JSON js (fst r) (snd r) c"

definition error_response :: "gin \<Rightarrow> errcode \<Rightarrow> gostring \<Rightarrow> 'b Response" where
  "error_response c code message =
     \<lparr>rs_Code = code, rs_Message = message, rs_Body = None, rs_RequestID = requestID (g_ctx c)\<rparr>"

section \<open>Request metadata\<close>

definition RequestID :: "gostring \<Rightarrow> 's middleware" where
  "RequestID generated next c =
     (let id0 = g_Header c ''X-Request-ID'';
          ident = (if requestid_Valid id0 then id0 else generated);
          c1 = gin_Header ''X-Request-ID'' ident c in
      next (c1\<lparr>g_ctx := requestmeta_WithContext (requestid_WithContext (g_ctx c) ident) (g_ClientIP c) (g_Header c ''User-Agent'')\<rparr>))"

definition IdempotencyKey :: "'b json_lib \<Rightarrow> (gostring \<Rightarrow> bool) \<Rightarrow> 's middleware" where
  "IdempotencyKey js valid next c s =
     (let key = g_Header c ''Idempotency-Key'' in
      if key = [] then next c s
      else if \<not> valid key then (Returned, gin_Fail js (Invalid ''invalid Idempotency-Key'' None) c, s)
      else next ((gin_Header ''Idempotency-Key'' key c)\<lparr>g_ctx := (g_ctx c)\<lparr>ctx_idempotencyKey := Some key\<rparr>\<rparr>) s)"

definition Environment :: "gostring \<Rightarrow> 's middleware" where
  "Environment profile next c = next (c\<lparr>g_ctx := environment_WithContext (g_ctx c) profile\<rparr>)"

section \<open>Logging, metrics, recovery and time-outs\<close>

text \<open>\<open>write_log\<close> writes the log line of a request that has been handled, \<open>count\<close> counts it under
  its method, route and status. A panic passes both by.\<close>

definition RequestLogger :: "(gin \<Rightarrow> 's \<Rightarrow> 's) \<Rightarrow> 's middleware" where
  "RequestLogger write_log next c s =
     (case next c s of
        (Returned, c', s') \<Rightarrow> (Returned, c', write_log c' s')
      | r \<Rightarrow> r)"

definition HTTPMetrics :: "bool \<Rightarrow> (gostring \<Rightarrow> gostring \<Rightarrow> gostring \<Rightarrow> 's \<Rightarrow> 's) \<Rightarrow> 's middleware" where
  "HTTPMetrics enabled count next c s =
     (case next c s of
        (Returned, c', s') \<Rightarrow>
          (if \<not> enabled then (Returned, c', s')
           else
             let route = (if g_FullPath c' = [] then ''unmatched'' else g_FullPath c') in
             (Returned, c', count (g_Method c') route (Itoa (g_status c')) s'))
      | r \<Rightarrow> r)"

text \<open>A panic is answered with the envelope of an internal error. Panics that stem from a connection
  the client has closed are not modelled: gin then aborts without calling this handler, and there
  is nobody to answer.\<close>

definition Recovery :: "'b json_lib \<Rightarrow> 's middleware" where
  "Recovery js next c s =
     (case next c s of
        (Returned, c', s') \<Rightarrow> (Returned, c', s')
      | (Panicked, c', s') \<Rightarrow> (Returned, gin_JSON js 500 (error_response c' CodeInternal ''internal server error'') c', s'))"

text \<open>\<open>expired\<close>: whether the deadline has passed when the rest of the chain returns. A panic passes
  through.\<close>

definition Timeout :: "'b json_lib \<Rightarrow> bool \<Rightarrow> 's middleware" where
  "Timeout js expired next c s =
     (case next c s of
        (Returned, c', s') \<Rightarrow> (Returned, if expired \<and> \<not> g_written c' then gin_Fail js RequestTimeout c' else c', s')
      | r \<Rightarrow> r)"

section \<open>Request and response constraints\<close>

text \<open>\<open>int(d.Seconds())\<close>: whole seconds, towards zero.\<close>

definition trunc_seconds :: "time \<Rightarrow> int" where
  "trunc_seconds d = (if d < 0 then - ((- d) div 1000000000) else d div 1000000000)"

definition SecurityHeaders :: "'s middleware" where
  "SecurityHeaders next c =
     (let c1 = gin_Header ''Cache-Control'' ''no-store''
                (gin_Header ''Content-Security-Policy'' (''default-src '' @ [CHR 0x27] @ ''none'' @ [CHR 0x27] @ ''; frame-ancestors '' @ [CHR 0x27] @ ''none'' @ [CHR 0x27])
                (gin_Header ''Referrer-Policy'' ''no-referrer''
                (gin_Header ''X-Frame-Options'' ''DENY''
                (gin_Header ''X-Content-Type-Options'' ''nosniff'' c)))) in
      next (if g_TLS c then gin_Header ''Strict-Transport-Security'' ''max-age=31536000; includeSubDomains'' c1 else c1))"

definition CORS_middleware :: "'b json_lib \<Rightarrow> CORS \<Rightarrow> 's middleware" where
  "CORS_middleware js cfg next c s =
     (if \<not> co_Enabled cfg then next c s
      else
        let origin = g_Header c ''Origin'' in
        if origin = [] then next c s
        else if origin \<notin> set (co_AllowedOrigins cfg)
        then (Returned, gin_JSON js 403 (error_response c CodeForbidden ''origin is not allowed'') c, s)
        else
          let c1 = gin_Header ''Access-Control-Max-Age'' (Itoa (trunc_seconds (co_MaxAge cfg)))
                    (gin_Header ''Access-Control-Expose-Headers'' (join_with '', '' (co_ExposedHeaders cfg))
                    (gin_Header ''Access-Control-Allow-Headers'' (join_with '', '' (co_AllowedHeaders cfg))
                    (gin_Header ''Access-Control-Allow-Methods'' ''POST, GET, OPTIONS''
                    (gin_Header ''Vary'' ''Origin''
                    (gin_Header ''Access-Control-Allow-Origin'' origin c))))) in
          if g_Method c = ''OPTIONS'' then (Returned, gin_AbortWithStatus 204 c1, s) else next c1 s)"

text \<open>\<open>http.MaxBytesReader\<close>: reading more than the limit is an error; a negative limit counts as 0.\<close>

definition MaxBody :: "int \<Rightarrow> 's middleware" where
  "MaxBody limit next c =
     next (c\<lparr>g_Body := (case g_Body c of
        Inl err \<Rightarrow> Inl err
      | Inr b \<Rightarrow> if int (length b) > max 0 limit then Inl (OtherError ''http: request body too large'') else Inr b)\<rparr>)"

definition RequireJSON :: "'b json_lib \<Rightarrow> (gostring \<Rightarrow> gostring result) \<Rightarrow> 's middleware" where
  "RequireJSON js ParseMediaType next c s =
     (if g_Method c = ''POST'' \<and> g_ContentLength c \<noteq> 0 \<and> ParseMediaType (g_Header c ''Content-Type'') \<noteq> Inr ''application/json''
      then (Returned, gin_JSON js 415 (error_response c CodeInvalidArgument ''content type must be application/json'') c, s)
      else next c s)"

section \<open>Rate limits\<close>

record rate_result =
  rr_Allowed :: bool
  rr_Limit :: int
  rr_Remaining :: int
  rr_RetryAfter :: time

text \<open>What \<open>redis_rate\<close> answers: allowed events, remaining events, time to retry.\<close>

record redis_rate =
  rt_Allowed :: int
  rt_Remaining :: int
  rt_RetryAfter :: time

record 's Limiter =
  lm_enabled :: bool
  lm_failOpen :: bool
  lm_backend :: "(ctx \<Rightarrow> gostring \<Rightarrow> RateLimitRule \<Rightarrow> 's \<Rightarrow> redis_rate result \<times> 's) option"

definition NewLimiter :: "(ctx \<Rightarrow> gostring \<Rightarrow> RateLimitRule \<Rightarrow> 's \<Rightarrow> redis_rate result \<times> 's) option \<Rightarrow> Config \<Rightarrow> 's Limiter" where
  "NewLimiter client cfg =
     \<lparr>lm_enabled = rl_Enabled (cfg_RateLimit cfg), lm_failOpen = rl_FailOpen (cfg_RateLimit cfg), lm_backend = client\<rparr>"

definition Allow :: "'s Limiter \<Rightarrow> ctx \<Rightarrow> gostring \<Rightarrow> RateLimitRule \<Rightarrow> 's \<Rightarrow> rate_result result \<times> 's" where
  "Allow l x key rule s =
     (if \<not> lm_enabled l then (Inr \<lparr>rr_Allowed = True, rr_Limit = 0, rr_Remaining = 0, rr_RetryAfter = 0\<rparr>, s)
      else case lm_backend l of
        None \<Rightarrow> (Inl (OtherError ''redis rate limiter is unavailable''), s)
      | Some backend \<Rightarrow>
          (case backend x key rule s of
             (Inl err, s') \<Rightarrow> (Inl (Wrapf ''check redis rate limit'' err), s')
           | (Inr r, s') \<Rightarrow> (Inr \<lparr>rr_Allowed = (rt_Allowed r > 0), rr_Limit = ru_Burst rule, rr_Remaining = rt_Remaining r,
                               rr_RetryAfter = rt_RetryAfter r\<rparr>, s')))"

text \<open>\<open>Duration.Round(time.Second)/time.Second\<close>: to the nearest second, halves away from zero.\<close>

definition round_seconds :: "time \<Rightarrow> int" where
  "round_seconds d = (if d < 0 then - ((- d + 500000000) div 1000000000) else (d + 500000000) div 1000000000)"

definition RateLimit_middleware :: "'b json_lib \<Rightarrow> 's Limiter \<Rightarrow> RateLimitRule \<Rightarrow> gostring \<Rightarrow> (gin \<Rightarrow> gostring) \<Rightarrow> 's middleware" where
  "RateLimit_middleware js limiter rule dimension keyFunc next c s =
     (if \<not> lm_enabled limiter then next c s
      else
        let key = keyFunc c in
        if key = [] then next c s
        else case Allow limiter (g_ctx c) (''rate:'' @ dimension @ '':'' @ key) rule s of
          (Inl err, s') \<Rightarrow>
            (if lm_failOpen limiter then next c s'
             else (Returned, gin_Fail js (Unavailable ''rate limiter unavailable'' (Some err)) c, s'))
        | (Inr r, s') \<Rightarrow>
            (let c1 = gin_Header ''X-RateLimit-Remaining'' (Itoa (rr_Remaining r))
                       (gin_Header ''X-RateLimit-Limit'' (Itoa (rr_Limit r)) c) in
             if \<not> rr_Allowed r
             then (Returned, gin_Fail js TooManyRequests
                     (gin_Header ''Retry-After'' (Itoa (max 1 (round_seconds (rr_RetryAfter r)))) c1), s')
             else next c1 s'))"

section \<open>Authentication and route authorization\<close>

text \<open>\<open>verify\<close> is \<open>auth.Service.Verify\<close>.\<close>

definition JWT_middleware :: "'b json_lib \<Rightarrow> (ctx \<Rightarrow> gostring \<Rightarrow> 's \<Rightarrow> Principal result \<times> 's) \<Rightarrow> 's middleware" where
  "JWT_middleware js verify next c s =
     (case cut_at (CHR '' '') (g_Header c ''Authorization'') of (scheme, raw, ok) \<Rightarrow>
        if \<not> ok \<or> \<not> EqualFold scheme ''Bearer'' \<or> raw = []
        then (Returned, gin_Fail js (Unauthorized ''missing bearer token'') c, s)
        else case verify (g_ctx c) raw s of
          (Inl err, s') \<Rightarrow> (Returned, gin_Fail js (Unauthorized ''invalid or expired token'') c, s')
        | (Inr caller, s') \<Rightarrow>
            next (c\<lparr>g_subject := Some (pr_ID caller), g_ctx := (g_ctx c)\<lparr>ctx_principal := Some caller\<rparr>\<rparr>) s')"

definition psk_principal :: Principal where
  "psk_principal = \<lparr>pr_ID = ''psk'', pr_Type = TypeServiceAccount, pr_TenantID = [], pr_MembershipID = []\<rparr>"

definition Authentication :: "'b json_lib \<Rightarrow> (ctx \<Rightarrow> gostring \<Rightarrow> 's \<Rightarrow> Principal result \<times> 's) \<Rightarrow> Auth \<Rightarrow> 's middleware" where
  "Authentication js verify cfg next c s =
     (if psk_Enabled (at_PSK cfg) \<and> MatchesAny (g_FullPath c) (psk_HTTPPaths (at_PSK cfg)) then
        (if \<not> VerifyPSK (g_Header c ''Authorization'') (psk_Key (at_PSK cfg))
         then (Returned, gin_Fail js (Unauthorized ''missing or invalid PSK'') c, s)
         else next (c\<lparr>g_subject := Some ''psk'', g_ctx := (g_ctx c)\<lparr>ctx_principal := Some psk_principal\<rparr>\<rparr>) s)
      else if MatchesAny (g_FullPath c) (at_SkipHTTPPaths cfg) then next c s
      else JWT_middleware js verify next c s)"

text \<open>\<open>evaluate\<close> is \<open>routePolicyEvaluator.EvaluateRoute\<close> with the authorizer: context, protocol,
  method, path and service name.\<close>

type_synonym 's evaluator = "ctx \<Rightarrow> gostring \<Rightarrow> gostring \<Rightarrow> gostring \<Rightarrow> gostring \<Rightarrow> 's \<Rightarrow> goerr option \<times> 's"

definition DatabaseAuthorization :: "'b json_lib \<Rightarrow> bool \<Rightarrow> gostring \<Rightarrow> 's evaluator \<Rightarrow> 's middleware" where
  "DatabaseAuthorization js enabled serviceName evaluate next c s =
     (if \<not> enabled then next c s
      else case evaluate (g_ctx c) ''http'' (ToLower (g_Method c)) (g_FullPath c) serviceName s of
        (Some err, s') \<Rightarrow>
          (if err_is AuthzErrDecisionUnavailable err \<or> err_is PlatformErrMissing err
           then (Returned, gin_Fail js (Unavailable ''authorization decision is unavailable'' (Some err)) c, s')
           else (Returned, gin_Fail js (Forbidden ''permission denied'') c, s'))
      | (None, s') \<Rightarrow> next c s')"

section \<open>Idempotent execution\<close>

datatype idem_state = StateAcquired | StateProcessing | StateCompleted | StateFailed | StateConflict | StateOther

record Failure =
  fl_Code :: errcode
  fl_Message :: gostring
  fl_HTTPStatus :: int

record idem_Decision =
  de_State :: idem_state
  de_Owner :: gostring
  de_Response :: gostring
  de_Failure :: Failure

text \<open>\<open>platformidempotency.Manager\<close>.\<close>

record ('s, 'b) idem_manager =
  im_Enabled :: bool
  im_Begin :: "ctx \<Rightarrow> gostring \<Rightarrow> gostring \<Rightarrow> 's \<Rightarrow> idem_Decision result \<times> 's"
  im_Complete :: "ctx \<Rightarrow> gostring \<Rightarrow> gostring \<Rightarrow> 'b Response \<Rightarrow> 's \<Rightarrow> goerr option \<times> 's"
  im_Fail :: "ctx \<Rightarrow> gostring \<Rightarrow> gostring \<Rightarrow> Failure \<Rightarrow> 's \<Rightarrow> goerr option \<times> 's"

text \<open>\<open>fmt.Sprint\<close> of an absent subject is \<open><nil>\<close>. \<open>sha256\<close> is the digest.\<close>

definition fingerprint_text :: "gin \<Rightarrow> gostring \<Rightarrow> gostring" where
  "fingerprint_text c body =
     (case g_subject c of Some subj \<Rightarrow> subj | None \<Rightarrow> ''<nil>'') @ nul @ g_Method c @ nul @ g_FullPath c @ nul @ body"

definition idempotencyFingerprint :: "(gostring \<Rightarrow> gostring) \<Rightarrow> gin \<Rightarrow> gostring result" where
  "idempotencyFingerprint sha256 c =
     (case g_Body c of
        Inl err \<Rightarrow> Inl err
      | Inr body \<Rightarrow> Inr (hex_EncodeToString (sha256 (fingerprint_text c body))))"

text \<open>What happens after the handler of an acquired key: the captured bytes are decoded and the
  outcome is recorded. \<open>before\<close> is the context before the handler ran.\<close>

definition persist_outcome :: "'b json_lib \<Rightarrow> ('s, 'b) idem_manager \<Rightarrow> gostring \<Rightarrow> gostring \<Rightarrow> gin \<Rightarrow> gin \<Rightarrow> 's \<Rightarrow> 's" where
  "persist_outcome js mgr key owner before c s =
     (case json_Unmarshal js (drop (length (g_bytes before)) (g_bytes c)) of
        Inl err \<Rightarrow> s
      | Inr response0 \<Rightarrow>
          let response = response0\<lparr>rs_RequestID := []\<rparr> in
          if g_status c \<ge> 400
          then snd (im_Fail mgr (g_ctx c) key owner
                 \<lparr>fl_Code = rs_Code response, fl_Message = rs_Message response, fl_HTTPStatus = g_status c\<rparr> s)
          else snd (im_Complete mgr (g_ctx c) key owner response s))"

text \<open>The branches of the idempotent execution after \<open>Begin\<close>.\<close>

definition begun ::
  "'b json_lib \<Rightarrow> ('s, 'b) idem_manager \<Rightarrow> gostring \<Rightarrow> 's handler \<Rightarrow> gin \<Rightarrow> 's \<Rightarrow> idem_Decision \<Rightarrow> flow \<times> gin \<times> 's" where
  "begun js mgr key h c s' decision =
     (case de_State decision of
        StateCompleted \<Rightarrow>
          (case json_Unmarshal js (de_Response decision) of
             Inl err \<Rightarrow> (Returned, gin_Fail js (Unavailable ''idempotency response is unavailable'' (Some err)) c, s')
           | Inr response \<Rightarrow> (Returned, gin_JSON js 200 (response\<lparr>rs_RequestID := requestID (g_ctx c)\<rparr>) c, s'))
      | StateFailed \<Rightarrow>
          (Returned, gin_JSON js (fl_HTTPStatus (de_Failure decision))
             (error_response c (fl_Code (de_Failure decision)) (fl_Message (de_Failure decision))) c, s')
      | StateProcessing \<Rightarrow> (Returned, gin_Fail js RequestInProgress c, s')
      | StateConflict \<Rightarrow> (Returned, gin_Fail js (Conflict ''idempotency key belongs to a different request'' None) c, s')
      | StateOther \<Rightarrow> (Returned, gin_Fail js (Unavailable ''idempotency state is invalid'' None) c, s')
      | StateAcquired \<Rightarrow>
          (case h c s' of
             (Panicked, r) \<Rightarrow> (Panicked, r)
           | (Returned, c1, s1) \<Rightarrow> (Returned, c1, persist_outcome js mgr key (de_Owner decision) c c1 s1)))"

definition IdempotencyExecution ::
  "'b json_lib \<Rightarrow> (gostring \<Rightarrow> gostring) \<Rightarrow> ('s, 'b) idem_manager option \<Rightarrow> gostring list \<Rightarrow> 's middleware" where
  "IdempotencyExecution js sha256 manager paths next c s =
     (case (ctx_idempotencyKey (g_ctx c), manager) of
        (Some key, Some mgr) \<Rightarrow>
          (if \<not> im_Enabled mgr \<or> g_Method c \<noteq> ''POST'' \<or> \<not> MatchesAny (g_FullPath c) paths then next c s
           else case idempotencyFingerprint sha256 c of
             Inl err \<Rightarrow> (Returned, gin_Fail js (Invalid ''read idempotent request'' (Some err)) c, s)
           | Inr fingerprint \<Rightarrow>
               (case im_Begin mgr (g_ctx c) key fingerprint s of
                  (Inl err, s') \<Rightarrow> (Returned, gin_Fail js (Unavailable ''idempotency is unavailable'' (Some err)) c, s')
                | (Inr decision, s') \<Rightarrow> begun js mgr key next c s' decision))
      | _ \<Rightarrow> next c s)"

section \<open>The chains of NewServer\<close>

definition pprofAuth :: "gostring \<Rightarrow> 's middleware" where
  "pprofAuth expected next c s =
     (case cut_at (CHR '' '') (g_Header c ''Authorization'') of (scheme, token, ok) \<Rightarrow>
        if \<not> ok \<or> \<not> EqualFold scheme ''Bearer'' \<or> token \<noteq> expected
        then (Returned, gin_AbortWithStatus 401 c, s) else next c s)"

text \<open>The collaborators of the server, and what a request brings from outside: a generated request
  identifier and whether the deadline passes.\<close>

record ('s, 'b) http_env =
  he_json :: "'b json_lib"
  he_config :: Config
  he_verify :: "ctx \<Rightarrow> gostring \<Rightarrow> 's \<Rightarrow> Principal result \<times> 's"
  he_evaluate :: "'s evaluator"
  he_limiter :: "'s Limiter"
  he_idempotency :: "('s, 'b) idem_manager option"
  he_validKey :: "gostring \<Rightarrow> bool"
  he_mediaType :: "gostring \<Rightarrow> gostring result"
  he_sha256 :: "gostring \<Rightarrow> gostring"
  he_log :: "gin \<Rightarrow> 's \<Rightarrow> 's"
  he_observe :: "gostring \<Rightarrow> gostring \<Rightarrow> gostring \<Rightarrow> 's \<Rightarrow> 's"
  he_generated :: gostring
  he_expired :: bool

definition global_chain :: "('s, 'b) http_env \<Rightarrow> 's middleware" where
  "global_chain he h =
     (let js = he_json he; cfg = he_config he in
      RequestID (he_generated he)
      (IdempotencyKey js (he_validKey he)
      (Environment (rt_ActiveProfile (cfg_Runtime cfg))
      (RequestLogger (he_log he)
      (Recovery js
      (HTTPMetrics (obs_MetricsEnabled (cfg_Observability cfg)) (he_observe he)
      (SecurityHeaders
      (CORS_middleware js (ht_CORS (cfg_HTTP cfg))
      (MaxBody (ht_MaxBodyBytes (cfg_HTTP cfg))
      (Timeout js (he_expired he)
      (RequireJSON js (he_mediaType he) h)))))))))))"

definition api_chain :: "('s, 'b) http_env \<Rightarrow> 's middleware" where
  "api_chain he h =
     (let js = he_json he; cfg = he_config he; rl = cfg_RateLimit cfg in
      RateLimit_middleware js (he_limiter he) (rl_IP rl) ''ip'' g_ClientIP
      (RateLimit_middleware js (he_limiter he) (rl_API rl) ''api'' g_FullPath
      (Authentication js (he_verify he) (cfg_Auth cfg)
      (DatabaseAuthorization js (az_Enabled (cfg_Authorization cfg)) (ap_Name (cfg_App cfg)) (he_evaluate he)
      (RateLimit_middleware js (he_limiter he) (rl_User rl) ''user'' (\<lambda>c. case g_subject c of Some v \<Rightarrow> v | None \<Rightarrow> [])
      (IdempotencyExecution js (he_sha256 he) (he_idempotency he) (ie_HTTPPaths (cfg_Idempotency cfg)) h))))))"

text \<open>The middleware in front of the profiling and documentation routes.\<close>

definition pprof_chain :: "('s, 'b) http_env \<Rightarrow> 's middleware" where
  "pprof_chain he h = pprofAuth (obs_PprofToken (cfg_Observability (he_config he))) h"

definition swagger_chain :: "('s, 'b) http_env \<Rightarrow> 's middleware" where
  "swagger_chain he h =
     (if sw_RequireAuth (cfg_Swagger (he_config he)) then JWT_middleware (he_json he) (he_verify he) h else h)"

definition serve_api :: "('s, 'b) http_env \<Rightarrow> 's handler \<Rightarrow> 's handler" where
  "serve_api he h = global_chain he (api_chain he h)"

end
