(* ===== verification/Gates.thy ===== *)
theory Gates
  imports Prelude
begin

text \<open>
  Middleware and interceptors as gates. A gate wraps the rest of a chain, a function of the request
  context and the state of the server. \<open>passes c s c' s'\<close> says in which context and state a gate that
  is called with \<open>c\<close> and \<open>s\<close> can run the rest: if two continuations agree on all of these, the gate
  cannot tell them apart. So what the chain behind a gate does can make a difference only for what
  the gate lets through. Gates compose like relations.
\<close>

locale gate =
  fixes mw :: "('c \<Rightarrow> 's \<Rightarrow> 'o) \<Rightarrow> 'c \<Rightarrow> 's \<Rightarrow> 'o"
    and passes :: "'c \<Rightarrow> 's \<Rightarrow> 'c \<Rightarrow> 's \<Rightarrow> bool"
  assumes agree: "(\<And>c' s'. passes c s c' s' \<Longrightarrow> h c' s' = h' c' s') \<Longrightarrow> mw h c s = mw h' c s"
begin

lemma reached:
  assumes "mw h c s \<noteq> mw h' c s"
  obtains c' s' where "passes c s c' s'" "h c' s' \<noteq> h' c' s'"
  using assms agree[of c s h h'] by blast

lemma closed: "(\<And>c' s'. \<not> passes c s c' s') \<Longrightarrow> mw h c s = mw h' c s"
  by (rule agree) blast

end

lemma gate_compose:
  fixes f g :: "('c \<Rightarrow> 's \<Rightarrow> 'o) \<Rightarrow> 'c \<Rightarrow> 's \<Rightarrow> 'o"
  assumes "gate f p" "gate g q"
  shows "gate (\<lambda>h. f (g h)) (\<lambda>c s c' s'. \<exists>c1 s1. p c s c1 s1 \<and> q c1 s1 c' s')"
proof
  fix c s and h h' :: "'c \<Rightarrow> 's \<Rightarrow> 'o"
  assume a: "\<And>c' s'. \<exists>c1 s1. p c s c1 s1 \<and> q c1 s1 c' s' \<Longrightarrow> h c' s' = h' c' s'"
  show "f (g h) c s = f (g h') c s"
  proof (rule gate.agree[OF assms(1)])
    fix c1 s1 assume "p c s c1 s1"
    with a show "g h c1 s1 = g h' c1 s1" by (intro gate.agree[OF assms(2)]) blast
  qed
qed

lemma gate_mono:
  assumes "gate f p" "\<And>c s c' s'. p c s c' s' \<Longrightarrow> q c s c' s'"
  shows "gate f q"
  by unfold_locales (rule gate.agree[OF assms(1)], use assms(2) in blast)

text \<open>What two descriptions of the same gate say holds together.\<close>

lemma gate_conj:
  fixes f :: "('c \<Rightarrow> 's \<Rightarrow> 'o) \<Rightarrow> 'c \<Rightarrow> 's \<Rightarrow> 'o"
  assumes "gate f p" "gate f q"
  shows "gate f (\<lambda>c s c' s'. p c s c' s' \<and> q c s c' s')"
proof
  fix c s and h h' :: "'c \<Rightarrow> 's \<Rightarrow> 'o"
  assume a: "\<And>c' s'. p c s c' s' \<and> q c s c' s' \<Longrightarrow> h c' s' = h' c' s'"
  let ?k = "\<lambda>c' s'. if p c s c' s' then h c' s' else h' c' s'"
  have "f h c s = f ?k c s" by (rule gate.agree[OF assms(1)]) simp
  also have "\<dots> = f h' c s" by (rule gate.agree[OF assms(2)]) (simp add: a)
  finally show "f h c s = f h' c s" .
qed

end
