(* ===== verification/Middleware_Laws.thy ===== *)
theory Middleware_Laws
  imports Middleware Gates
begin

text \<open>
  What a chain of middleware guarantees, from what each middleware guarantees.

  The locale \<open>gate\<close> (theory \<open>Gates\<close>) says in which contexts and states a middleware can run the
  rest of the chain. The locale \<open>answering\<close> says that a middleware which is given a handler that always replies or panics replies
  or panics itself. Both are interpreted for every middleware of the server, and both compose, so
  that the theorems about the whole chains follow without unfolding it.
\<close>

section \<open>Gates\<close>

text \<open>What no middleware changes of a request.\<close>

definition same_request :: "gin \<Rightarrow> gin \<Rightarrow> bool" where
  "same_request c c' =
     (g_Method c' = g_Method c \<and> g_FullPath c' = g_FullPath c \<and> g_Header c' = g_Header c \<and> g_ClientIP c' = g_ClientIP c)"

text \<open>A middleware that leaves the caller as it is.\<close>

definition same_caller :: "gin \<Rightarrow> gin \<Rightarrow> bool" where
  "same_caller c c' =
     (same_request c c' \<and> ctx_principal (g_ctx c') = ctx_principal (g_ctx c)
      \<and> authorizedManagementTenant (g_ctx c') = authorizedManagementTenant (g_ctx c) \<and> g_subject c' = g_subject c)"

lemma same_caller_refl [simp]: "same_caller c c"
  by (simp add: same_caller_def same_request_def)

lemma same_caller_trans: "same_caller a b \<Longrightarrow> same_caller b c \<Longrightarrow> same_caller a c"
  by (simp add: same_caller_def same_request_def)

lemma gin_Header_simps [simp]:
  "g_Method (gin_Header k v c) = g_Method c" "g_FullPath (gin_Header k v c) = g_FullPath c"
  "g_Header (gin_Header k v c) = g_Header c" "g_ClientIP (gin_Header k v c) = g_ClientIP c"
  "g_ctx (gin_Header k v c) = g_ctx c" "g_subject (gin_Header k v c) = g_subject c"
  "g_written (gin_Header k v c) = g_written c" "g_Body (gin_Header k v c) = g_Body c"
  "g_ContentLength (gin_Header k v c) = g_ContentLength c" "g_TLS (gin_Header k v c) = g_TLS c"
  "g_status (gin_Header k v c) = g_status c" "g_bytes (gin_Header k v c) = g_bytes c"
  by (simp_all add: gin_Header_def)

lemma gin_written [simp]:
  "g_written (gin_JSON js st r c)" "g_written (gin_AbortWithStatus st c)" "g_written (gin_Fail js err c)"
  by (simp_all add: gin_JSON_def gin_AbortWithStatus_def gin_Fail_def split: prod.split)

text \<open>The gates that let a request through without touching its caller.\<close>

abbreviation neutral :: "gin \<Rightarrow> 's \<Rightarrow> gin \<Rightarrow> 's \<Rightarrow> bool" where
  "neutral c s c' s' \<equiv> same_caller c c'"

lemma neutral_compose:
  assumes "gate f neutral" "gate g neutral"
  shows "gate (\<lambda>h. f (g h)) neutral"
  by (rule gate_mono[OF gate_compose[OF assms]]) (auto intro: same_caller_trans)

lemmas context_defs =
  requestid_WithContext_def requestmeta_WithContext_def environment_WithContext_def

interpretation request_id: gate "RequestID generated" neutral
  by unfold_locales (simp add: RequestID_def Let_def same_caller_def same_request_def context_defs)

interpretation idempotency_key: gate "IdempotencyKey js valid" neutral
  by unfold_locales (simp add: IdempotencyKey_def Let_def same_caller_def same_request_def)

interpretation environment: gate "Environment profile" neutral
  by unfold_locales (simp add: Environment_def same_caller_def same_request_def context_defs)

interpretation request_logger: gate "RequestLogger write_log" neutral
  by unfold_locales (simp add: RequestLogger_def)

interpretation recovery: gate "Recovery js" neutral
  by unfold_locales (simp add: Recovery_def)

interpretation http_metrics: gate "HTTPMetrics enabled count" neutral
  by unfold_locales (simp add: HTTPMetrics_def)

interpretation security_headers: gate SecurityHeaders neutral
  by unfold_locales (simp add: SecurityHeaders_def Let_def same_caller_def same_request_def)

interpretation cors: gate "CORS_middleware js cfg" neutral
  by unfold_locales (simp add: CORS_middleware_def Let_def same_caller_def same_request_def)

interpretation max_body: gate "MaxBody limit" neutral
  by unfold_locales (simp add: MaxBody_def same_caller_def same_request_def)

interpretation timeout: gate "Timeout js expired" neutral
  by unfold_locales (simp add: Timeout_def)

interpretation require_json: gate "RequireJSON js media" neutral
  by unfold_locales (simp add: RequireJSON_def)

text \<open>The gates inside the api group also leave the context as it is.\<close>

definition same_ctx :: "gin \<Rightarrow> gin \<Rightarrow> bool" where
  "same_ctx c c' = (same_request c c' \<and> g_ctx c' = g_ctx c \<and> g_subject c' = g_subject c)"

lemma same_ctx_refl [simp]: "same_ctx c c"
  by (simp add: same_ctx_def same_request_def)

interpretation rate_limit: gate "RateLimit_middleware js limiter rule dimension keyFunc" "\<lambda>c s c' s'. same_ctx c c'"
  by unfold_locales
     (simp add: RateLimit_middleware_def Let_def same_ctx_def same_request_def split: prod.split sum.split)

interpretation idempotency_execution: gate "IdempotencyExecution js sha mgr paths" "\<lambda>c s c' s'. c' = c"
  by unfold_locales
     (simp add: IdempotencyExecution_def begun_def split: option.split sum.split prod.split idem_state.split)

text \<open>Who may pass the authentication, and as whom.\<close>

definition bearer :: "gin \<Rightarrow> gostring \<Rightarrow> bool" where
  "bearer c raw =
     (\<exists>scheme. g_Header c ''Authorization'' = scheme @ '' '' @ raw \<and> EqualFold scheme ''Bearer'' \<and> raw \<noteq> [])"

definition psk_route :: "Auth \<Rightarrow> gostring \<Rightarrow> bool" where
  "psk_route cfg path = (psk_Enabled (at_PSK cfg) \<and> MatchesAny path (psk_HTTPPaths (at_PSK cfg)))"

definition skip_route :: "Auth \<Rightarrow> gostring \<Rightarrow> bool" where
  "skip_route cfg path = MatchesAny path (at_SkipHTTPPaths cfg)"

definition authenticated ::
  "(ctx \<Rightarrow> gostring \<Rightarrow> 's \<Rightarrow> Principal result \<times> 's) \<Rightarrow> Auth \<Rightarrow> gin \<Rightarrow> gin \<Rightarrow> bool" where
  "authenticated verify cfg c c' =
     (same_request c c' \<and>
      (if psk_route cfg (g_FullPath c)
       then VerifyPSK (g_Header c ''Authorization'') (psk_Key (at_PSK cfg))
            \<and> ctx_principal (g_ctx c') = Some psk_principal \<and> g_subject c' = Some ''psk''
       else if skip_route cfg (g_FullPath c)
       then ctx_principal (g_ctx c') = ctx_principal (g_ctx c) \<and> g_subject c' = g_subject c
       else \<exists>raw x s0 s1 caller. bearer c raw \<and> verify x raw s0 = (Inr caller, s1)
            \<and> ctx_principal (g_ctx c') = Some caller \<and> g_subject c' = Some (pr_ID caller)))"

interpretation jwt: gate "JWT_middleware js verify"
  "\<lambda>c s c' s'. same_request c c' \<and> (\<exists>raw caller. bearer c raw \<and> verify (g_ctx c) raw s = (Inr caller, s')
      \<and> ctx_principal (g_ctx c') = Some caller \<and> g_subject c' = Some (pr_ID caller))"
proof
  fix c s and h h' :: "'b handler"
  assume a: "\<And>c' s'. same_request c c' \<and> (\<exists>raw caller. bearer c raw \<and> verify (g_ctx c) raw s = (Inr caller, s')
      \<and> ctx_principal (g_ctx c') = Some caller \<and> g_subject c' = Some (pr_ID caller)) \<Longrightarrow> h c' s' = h' c' s'"
  obtain scheme raw ok where cut: "cut_at (CHR '' '') (g_Header c ''Authorization'') = (scheme, raw, ok)"
    by (cases "cut_at (CHR '' '') (g_Header c ''Authorization'')") auto
  show "JWT_middleware js verify h c s = JWT_middleware js verify h' c s"
  proof (cases "\<not> ok \<or> \<not> EqualFold scheme ''Bearer'' \<or> raw = []")
    case False
    then have "bearer c raw" using cut cut_at_True[of "CHR '' ''" "g_Header c ''Authorization''" scheme raw]
      by (auto simp: bearer_def)
    then have "h (c\<lparr>g_subject := Some (pr_ID caller), g_ctx := (g_ctx c)\<lparr>ctx_principal := Some caller\<rparr>\<rparr>) s'
        = h' (c\<lparr>g_subject := Some (pr_ID caller), g_ctx := (g_ctx c)\<lparr>ctx_principal := Some caller\<rparr>\<rparr>) s'"
      if "verify (g_ctx c) raw s = (Inr caller, s')" for caller s'
      using that by (intro a) (auto simp: same_request_def)
    with cut False show ?thesis by (simp add: JWT_middleware_def split: prod.split sum.split)
  qed (simp add: JWT_middleware_def cut)
qed

interpretation authentication: gate "Authentication js verify cfg" "\<lambda>c s c' s'. authenticated verify cfg c c'"
proof
  fix c s and h h' :: "'b handler"
  assume a: "\<And>c' s'. authenticated verify cfg c c' \<Longrightarrow> h c' s' = h' c' s'"
  consider (psk) "psk_route cfg (g_FullPath c)" | (skip) "\<not> psk_route cfg (g_FullPath c)" "skip_route cfg (g_FullPath c)"
    | (jwt) "\<not> psk_route cfg (g_FullPath c)" "\<not> skip_route cfg (g_FullPath c)" by blast
  then show "Authentication js verify cfg h c s = Authentication js verify cfg h' c s"
  proof cases
    case psk
    then show ?thesis
      by (simp add: Authentication_def psk_route_def) (auto intro!: a simp: authenticated_def psk_route_def same_request_def)
  next
    case skip
    then show ?thesis
      by (simp add: Authentication_def psk_route_def skip_route_def)
         (auto intro!: a simp: authenticated_def psk_route_def skip_route_def same_request_def)
  next
    case jwt
    have "JWT_middleware js verify h c s = JWT_middleware js verify h' c s"
    proof (rule jwt.agree)
      fix c' s'
      assume "same_request c c' \<and> (\<exists>raw caller. bearer c raw \<and> verify (g_ctx c) raw s = (Inr caller, s')
        \<and> ctx_principal (g_ctx c') = Some caller \<and> g_subject c' = Some (pr_ID caller))"
      with jwt have "authenticated verify cfg c c'" unfolding authenticated_def by metis
      then show "h c' s' = h' c' s'" by (rule a)
    qed
    with jwt show ?thesis by (auto simp: Authentication_def psk_route_def skip_route_def)
  qed
qed

interpretation database_authorization: gate "DatabaseAuthorization js enabled service evaluate"
  "\<lambda>c s c' s'. c' = c \<and>
     (enabled \<longrightarrow> evaluate (g_ctx c) ''http'' (ToLower (g_Method c)) (g_FullPath c) service s = (None, s'))"
  by unfold_locales (auto simp: DatabaseAuthorization_def split: prod.split option.split)

text \<open>The whole chains.\<close>

lemma global_chain_gate: "gate (global_chain he) neutral"
  unfolding global_chain_def[abs_def] Let_def
  by (rule neutral_compose[OF request_id.gate_axioms neutral_compose[OF idempotency_key.gate_axioms
        neutral_compose[OF environment.gate_axioms neutral_compose[OF request_logger.gate_axioms
        neutral_compose[OF recovery.gate_axioms neutral_compose[OF http_metrics.gate_axioms
        neutral_compose[OF security_headers.gate_axioms neutral_compose[OF cors.gate_axioms
        neutral_compose[OF max_body.gate_axioms neutral_compose[OF timeout.gate_axioms
        require_json.gate_axioms]]]]]]]]]])

text \<open>The contexts in which the handler of an api route can run.\<close>

definition admitted :: "('s, 'b) http_env \<Rightarrow> gin \<Rightarrow> gin \<Rightarrow> bool" where
  "admitted he c c' =
     (\<exists>c1. same_caller c c1 \<and> authenticated (he_verify he) (cfg_Auth (he_config he)) c1 c' \<and>
       (az_Enabled (cfg_Authorization (he_config he)) \<longrightarrow>
         (\<exists>s1 s2. he_evaluate he (g_ctx c') ''http'' (ToLower (g_Method c)) (g_FullPath c)
                    (ap_Name (cfg_App (he_config he))) s1 = (None, s2))))"

lemma same_ctx_caller: "same_ctx c c' \<Longrightarrow> same_caller c c'"
  by (simp add: same_ctx_def same_caller_def)

lemma authenticated_ctx: "authenticated verify cfg c c' \<Longrightarrow> same_ctx c' c'' \<Longrightarrow> authenticated verify cfg c c''"
  by (auto simp: authenticated_def same_ctx_def same_request_def)

lemma admittedI:
  assumes c: "same_caller c c1" and a: "authenticated (he_verify he) (cfg_Auth (he_config he)) c1 c2" and x: "same_ctx c2 c'"
    and e: "az_Enabled (cfg_Authorization (he_config he)) \<longrightarrow>
      (\<exists>s1 s2. he_evaluate he (g_ctx c2) ''http'' (ToLower (g_Method c2)) (g_FullPath c2) (ap_Name (cfg_App (he_config he))) s1 = (None, s2))"
  shows "admitted he c c'"
proof -
  have "g_Method c2 = g_Method c" "g_FullPath c2 = g_FullPath c"
    using c a by (auto simp: same_caller_def authenticated_def same_request_def)
  moreover have "g_ctx c' = g_ctx c2" using x by (simp add: same_ctx_def)
  ultimately show ?thesis
    unfolding admitted_def using c authenticated_ctx[OF a x] e by (intro exI[of _ c1]) simp
qed

lemma admitted_caller:
  assumes c: "same_caller c c1" and a: "admitted he c1 c'"
  shows "admitted he c c'"
proof -
  have "g_Method c1 = g_Method c" "g_FullPath c1 = g_FullPath c"
    using c by (auto simp: same_caller_def same_request_def)
  with a show ?thesis unfolding admitted_def using same_caller_trans[OF c] by metis
qed

lemma api_chain_gate: "gate (api_chain he) (\<lambda>c s c' s'. admitted he c c')"
proof -
  let ?js = "he_json he" and ?cfg = "he_config he" and ?user = "\<lambda>c. case g_subject c of Some v \<Rightarrow> v | None \<Rightarrow> []"
  note g = gate_compose[OF rate_limit.gate_axioms[of ?js "he_limiter he" "rl_IP (cfg_RateLimit ?cfg)" "''ip''" g_ClientIP]
    gate_compose[OF rate_limit.gate_axioms[of ?js "he_limiter he" "rl_API (cfg_RateLimit ?cfg)" "''api''" g_FullPath]
    gate_compose[OF authentication.gate_axioms[of ?js "he_verify he" "cfg_Auth ?cfg"]
    gate_compose[OF database_authorization.gate_axioms[of ?js "az_Enabled (cfg_Authorization ?cfg)" "ap_Name (cfg_App ?cfg)" "he_evaluate he"]
    gate_compose[OF rate_limit.gate_axioms[of ?js "he_limiter he" "rl_User (cfg_RateLimit ?cfg)" "''user''" ?user]
      idempotency_execution.gate_axioms[of ?js "he_sha256 he" "he_idempotency he" "ie_HTTPPaths (cfg_Idempotency ?cfg)"]]]]]]
  have "gate (api_chain he) (\<lambda>c s c' s'. \<exists>c1. same_caller c c1 \<and> (\<exists>c2. authenticated (he_verify he) (cfg_Auth ?cfg) c1 c2 \<and>
      same_ctx c2 c' \<and> (az_Enabled (cfg_Authorization ?cfg) \<longrightarrow> (\<exists>s1 s2. he_evaluate he (g_ctx c2) ''http'' (ToLower (g_Method c2)) (g_FullPath c2)
                    (ap_Name (cfg_App ?cfg)) s1 = (None, s2)))))"
    unfolding api_chain_def[abs_def] Let_def
    by (rule gate_mono[OF g]) (meson same_caller_trans same_ctx_caller)
  then show ?thesis by (rule gate_mono) (blast intro: admittedI)
qed

lemma serve_api_gate: "gate (serve_api he) (\<lambda>c s c' s'. admitted he c c')"
  unfolding serve_api_def[abs_def]
  by (rule gate_mono[OF gate_compose[OF global_chain_gate api_chain_gate]]) (blast intro: admitted_caller)

section \<open>Answers\<close>

text \<open>A handler that returns only after writing.\<close>

definition replies :: "'s handler \<Rightarrow> bool" where
  "replies h = (\<forall>c s c' s'. h c s = (Returned, c', s') \<longrightarrow> g_written c')"

locale answering =
  fixes mw :: "'s middleware"
  assumes answers: "replies h \<Longrightarrow> replies (mw h)"

interpretation request_id: answering "RequestID generated"
  by unfold_locales (simp add: replies_def RequestID_def Let_def)

interpretation idempotency_key: answering "IdempotencyKey js valid"
  by unfold_locales (auto simp: replies_def IdempotencyKey_def Let_def split: if_splits)

interpretation environment: answering "Environment profile"
  by unfold_locales (simp add: replies_def Environment_def)

interpretation request_logger: answering "RequestLogger write_log"
  by unfold_locales (auto simp: replies_def RequestLogger_def split: prod.splits flow.splits)

interpretation recovery: answering "Recovery js"
  by unfold_locales (auto simp: replies_def Recovery_def split: prod.splits flow.splits)

interpretation http_metrics: answering "HTTPMetrics enabled count"
  by unfold_locales (auto simp: replies_def HTTPMetrics_def Let_def split: prod.splits flow.splits if_splits)

interpretation security_headers: answering SecurityHeaders
  by unfold_locales (simp add: replies_def SecurityHeaders_def Let_def)

interpretation cors: answering "CORS_middleware js cfg"
  by unfold_locales (auto simp: replies_def CORS_middleware_def Let_def split: if_splits)

interpretation max_body: answering "MaxBody limit"
  by unfold_locales (simp add: replies_def MaxBody_def)

interpretation timeout: answering "Timeout js expired"
  by unfold_locales (auto simp: replies_def Timeout_def split: prod.splits flow.splits if_splits)

interpretation require_json: answering "RequireJSON js media"
  by unfold_locales (auto simp: replies_def RequireJSON_def split: if_splits)

interpretation rate_limit: answering "RateLimit_middleware js limiter rule dimension keyFunc"
  by unfold_locales (auto simp: replies_def RateLimit_middleware_def Let_def split: if_splits prod.splits sum.splits)

interpretation jwt: answering "JWT_middleware js verify"
  by unfold_locales (auto simp: replies_def JWT_middleware_def split: if_splits prod.splits sum.splits)

interpretation authentication: answering "Authentication js verify cfg"
proof
  fix h :: "'b handler" assume r: "replies h"
  from jwt.answers[OF this, of js verify] r show "replies (Authentication js verify cfg h)"
    by (auto simp: replies_def Authentication_def split: if_splits)
qed

interpretation database_authorization: answering "DatabaseAuthorization js enabled service evaluate"
  by unfold_locales (auto simp: replies_def DatabaseAuthorization_def split: if_splits prod.splits option.splits)

lemma IdempotencyExecution_cases:
  obtains (through) "IdempotencyExecution js sha mgr paths h c s = h c s"
  | (reply) c1 s1 where "IdempotencyExecution js sha mgr paths h c s = (Returned, c1, s1)" "g_written c1"
  | (acquired) m key owner s1 where "IdempotencyExecution js sha mgr paths h c s =
      (case h c s1 of (Panicked, r) \<Rightarrow> (Panicked, r) | (Returned, c1, s2) \<Rightarrow> (Returned, c1, persist_outcome js m key owner c c1 s2))"
proof (cases "\<exists>key m. ctx_idempotencyKey (g_ctx c) = Some key \<and> mgr = Some m \<and>
      im_Enabled m \<and> g_Method c = ''POST'' \<and> MatchesAny (g_FullPath c) paths")
  case False
  then have "IdempotencyExecution js sha mgr paths h c s = h c s"
    by (auto simp: IdempotencyExecution_def split: option.split)
  then show thesis by (rule through)
next
  case True
  then obtain key m where k: "ctx_idempotencyKey (g_ctx c) = Some key" "mgr = Some m" "im_Enabled m"
    "g_Method c = ''POST''" "MatchesAny (g_FullPath c) paths" by blast
  show thesis
  proof (cases "idempotencyFingerprint sha c")
    case (Inl err)
    with k have "IdempotencyExecution js sha mgr paths h c s = (Returned, gin_Fail js (Invalid ''read idempotent request'' (Some err)) c, s)"
      by (simp add: IdempotencyExecution_def)
    then show thesis by (rule reply) simp
  next
    case (Inr fp)
    obtain r s1 where b: "im_Begin m (g_ctx c) key fp s = (r, s1)" by (cases "im_Begin m (g_ctx c) key fp s") auto
    have d: "IdempotencyExecution js sha mgr paths h c s =
        (case r of Inl err \<Rightarrow> (Returned, gin_Fail js (Unavailable ''idempotency is unavailable'' (Some err)) c, s1)
         | Inr decision \<Rightarrow> begun js m key h c s1 decision)"
      unfolding IdempotencyExecution_def by (simp add: k Inr b split: sum.split)
    show thesis
    proof (cases r)
      case (Inl err)
      from d[unfolded Inl] have "IdempotencyExecution js sha mgr paths h c s =
        (Returned, gin_Fail js (Unavailable ''idempotency is unavailable'' (Some err)) c, s1)" by simp
      then show thesis by (rule reply) simp
    next
      case (Inr decision)
      show thesis
      proof (cases "de_State decision = StateAcquired")
        case True
        show thesis by (rule acquired) (use d Inr True in \<open>simp add: begun_def\<close>)
      next
        case False
        then have "\<exists>c1. begun js m key h c s1 decision = (Returned, c1, s1) \<and> g_written c1"
          by (cases "de_State decision"; cases "json_Unmarshal js (de_Response decision)") (simp_all add: begun_def)
        with d Inr show thesis by (auto intro: reply)
      qed
    qed
  qed
qed

interpretation idempotency_execution: answering "IdempotencyExecution js sha mgr paths"
proof
  fix h :: "'b handler" assume r: "replies h"
  have "g_written c'" if e: "IdempotencyExecution js sha mgr paths h c s = (Returned, c', s')" for c s c' s'
  proof (cases rule: IdempotencyExecution_cases[of js sha mgr paths h c s])
    case through
    with e have "h c s = (Returned, c', s')" by simp
    with r show ?thesis unfolding replies_def by blast
  next
    case (acquired m key owner s1)
    with e have "\<exists>s2. h c s1 = (Returned, c', s2)" by (auto split: prod.splits flow.splits)
    with r show ?thesis unfolding replies_def by blast
  qed (use e in simp)
  then show "replies (IdempotencyExecution js sha mgr paths h)" by (simp add: replies_def)
qed

lemmas replies_intros =
  request_id.answers idempotency_key.answers environment.answers request_logger.answers recovery.answers
  http_metrics.answers security_headers.answers cors.answers max_body.answers timeout.answers require_json.answers
  rate_limit.answers authentication.answers database_authorization.answers idempotency_execution.answers

lemma serve_api_replies: "replies h \<Longrightarrow> replies (serve_api he h)"
  unfolding serve_api_def global_chain_def api_chain_def Let_def by (intro replies_intros)

text \<open>Nothing outside \<open>Recovery\<close> panics.\<close>

lemma Recovery_returns: "fst (Recovery js next c s) = Returned"
  by (simp add: Recovery_def split: prod.split flow.split)

lemma RequestLogger_returns: "fst (next c s) = Returned \<Longrightarrow> fst (RequestLogger write_log next c s) = Returned"
  by (cases "next c s") (auto simp: RequestLogger_def)

lemma serve_api_returns: "fst (serve_api he h c s) = Returned"
  unfolding serve_api_def global_chain_def Let_def RequestID_def IdempotencyKey_def Environment_def
  by (simp add: RequestLogger_returns Recovery_returns)

end
