(* ===== verification/Grpc_Access.thy ===== *)
theory Grpc_Access
  imports Middleware Gates Grpc
begin

text \<open>
  The interceptors of \<open>internal/transport/grpc/server.go\<close>, for calls with one reply and for streams,
  and the order in which \<open>NewServer\<close> chains them.

  A call carries its full method name, the incoming metadata, the address of the peer, the request
  context and the subject stored under \<open>subjectKey\<close>. The rest of the chain answers a reply (the unit
  value for a stream that ended without error), a status, or panics. The interceptor of the shared
  idempotency package and \<open>net.SplitHostPort\<close> are arguments.
\<close>

section \<open>Calls\<close>

record grpc_call =
  gc_FullMethod :: gostring
  gc_metadata :: "gostring \<Rightarrow> gostring list"
  gc_peer :: "gostring option"
  gc_ctx :: ctx
  gc_subject :: "gostring option"
  gc_header :: "(gostring \<times> gostring) list" \<comment> \<open>response metadata\<close>

datatype 'r grpc_outcome = GrpcReply 'r | GrpcStatus grpc_status | GrpcPanic

type_synonym ('s, 'r) grpc_handler = "grpc_call \<Rightarrow> 's \<Rightarrow> 'r grpc_outcome \<times> 's"
type_synonym ('s, 'r) interceptor = "('s, 'r) grpc_handler \<Rightarrow> ('s, 'r) grpc_handler"

abbreviation refused :: "grpc_code \<Rightarrow> gostring \<Rightarrow> 'r grpc_outcome" where
  "refused code message \<equiv> GrpcStatus \<lparr>st_Code = code, st_Message = message\<rparr>"

section \<open>Request metadata\<close>

definition environmentInterceptor :: "gostring \<Rightarrow> ('s, 'r) interceptor" where
  "environmentInterceptor profile handler c = handler (c\<lparr>gc_ctx := environment_WithContext (gc_ctx c) profile\<rparr>)"

definition withRequestMetadata :: "(gostring \<Rightarrow> gostring result) \<Rightarrow> grpc_call \<Rightarrow> ctx \<Rightarrow> ctx" where
  "withRequestMetadata SplitHostPort c x =
     (let clientIP = (case gc_peer c of
            None \<Rightarrow> []
          | Some address \<Rightarrow> (case SplitHostPort address of Inr host \<Rightarrow> host | Inl err \<Rightarrow> address));
          userAgent = (case gc_metadata c ''user-agent'' of [] \<Rightarrow> [] | v # _ \<Rightarrow> v) in
      requestmeta_WithContext x clientIP userAgent)"

definition call_request_id :: "gostring \<Rightarrow> grpc_call \<Rightarrow> gostring" where
  "call_request_id generated c =
     (case gc_metadata c ''x-request-id'' of
        [] \<Rightarrow> generated
      | v # _ \<Rightarrow> if requestid_Valid v then v else generated)"

definition requestIDInterceptor :: "(gostring \<Rightarrow> gostring result) \<Rightarrow> gostring \<Rightarrow> ('s, 'r) interceptor" where
  "requestIDInterceptor SplitHostPort generated handler c =
     (let ident = call_request_id generated c in
      handler (c\<lparr>gc_header := gc_header c @ [(''x-request-id'', ident)],
                gc_ctx := withRequestMetadata SplitHostPort c (requestid_WithContext (gc_ctx c) ident)\<rparr>))"

text \<open>\<open>setHeader\<close> is the outcome of \<open>stream.SetHeader\<close>, which the unary interceptor ignores.\<close>

definition requestIDStreamInterceptor ::
  "(gostring \<Rightarrow> gostring result) \<Rightarrow> gostring \<Rightarrow> goerr option \<Rightarrow> ('s, unit) interceptor" where
  "requestIDStreamInterceptor SplitHostPort generated setHeader handler c s =
     (let ident = call_request_id generated c in
      case setHeader of
        Some err \<Rightarrow> (refused InternalCode ''set request metadata'', s)
      | None \<Rightarrow>
          handler (c\<lparr>gc_header := gc_header c @ [(''x-request-id'', ident)],
                    gc_ctx := withRequestMetadata SplitHostPort c (requestid_WithContext (gc_ctx c) ident)\<rparr>) s)"

definition idempotencyInterceptor :: "(gostring \<Rightarrow> bool) \<Rightarrow> ('s, 'r) interceptor" where
  "idempotencyInterceptor valid handler c s =
     (case gc_metadata c ''idempotency-key'' of
        [] \<Rightarrow> handler c s
      | key # _ \<Rightarrow>
          if \<not> valid key then (refused InvalidArgumentCode ''invalid idempotency-key'', s)
          else handler (c\<lparr>gc_ctx := (gc_ctx c)\<lparr>ctx_idempotencyKey := Some key\<rparr>\<rparr>) s)"

section \<open>Recovery and observation\<close>

definition recoveryInterceptor :: "('s, 'r) interceptor" where
  "recoveryInterceptor handler c s =
     (case handler c s of
        (GrpcPanic, s') \<Rightarrow> (refused InternalCode ''internal server error'', s')
      | r \<Rightarrow> r)"

text \<open>\<open>status.Code\<close> of an outcome: \<^const>\<open>None\<close> is \<open>OK\<close>. A panic passes the observer by.\<close>

definition outcome_code :: "'r grpc_outcome \<Rightarrow> grpc_code option" where
  "outcome_code r = (case r of GrpcStatus st \<Rightarrow> Some (st_Code st) | _ \<Rightarrow> None)"

definition metricsInterceptor ::
  "bool \<Rightarrow> (gostring \<Rightarrow> grpc_code option \<Rightarrow> 's \<Rightarrow> 's) \<Rightarrow> (ctx \<Rightarrow> gostring \<Rightarrow> grpc_code option \<Rightarrow> 's \<Rightarrow> 's) \<Rightarrow> ('s, 'r) interceptor" where
  "metricsInterceptor enabled count write_log handler c s =
     (case handler c s of
        (GrpcPanic, s') \<Rightarrow> (GrpcPanic, s')
      | (r, s') \<Rightarrow>
          let code = outcome_code r;
              s1 = (if enabled then count (gc_FullMethod c) code s' else s') in
          (r, write_log (gc_ctx c) (gc_FullMethod c) code s1))"

section \<open>Authentication and route authorization\<close>

definition authenticateGRPC ::
  "(ctx \<Rightarrow> gostring \<Rightarrow> 's \<Rightarrow> Principal result \<times> 's) \<Rightarrow> Auth \<Rightarrow> grpc_call \<Rightarrow> 's \<Rightarrow> (grpc_status + grpc_call) \<times> 's" where
  "authenticateGRPC verify cfg c s =
     (let vals = gc_metadata c ''authorization'' in
      if psk_Enabled (at_PSK cfg) \<and> MatchesAny (gc_FullMethod c) (psk_GRPCMethods (at_PSK cfg)) then
        (if vals = [] \<or> \<not> VerifyPSK (hd vals) (psk_Key (at_PSK cfg))
         then (Inl \<lparr>st_Code = UnauthenticatedCode, st_Message = ''missing or invalid PSK''\<rparr>, s)
         else (Inr (c\<lparr>gc_subject := Some ''psk'', gc_ctx := (gc_ctx c)\<lparr>ctx_principal := Some psk_principal\<rparr>\<rparr>), s))
      else if MatchesAny (gc_FullMethod c) (at_SkipGRPCMethods cfg) then (Inr c, s)
      else if vals = [] then (Inl \<lparr>st_Code = UnauthenticatedCode, st_Message = ''missing bearer token''\<rparr>, s)
      else case cut_at (CHR '' '') (hd vals) of (scheme, raw, ok) \<Rightarrow>
        if \<not> ok \<or> \<not> EqualFold scheme ''Bearer''
        then (Inl \<lparr>st_Code = UnauthenticatedCode, st_Message = ''invalid bearer token''\<rparr>, s)
        else case verify (gc_ctx c) raw s of
          (Inl err, s') \<Rightarrow> (Inl \<lparr>st_Code = UnauthenticatedCode, st_Message = ''invalid or expired token''\<rparr>, s')
        | (Inr caller, s') \<Rightarrow>
            (Inr (c\<lparr>gc_subject := Some (pr_ID caller), gc_ctx := (gc_ctx c)\<lparr>ctx_principal := Some caller\<rparr>\<rparr>), s'))"

definition authInterceptor :: "(ctx \<Rightarrow> gostring \<Rightarrow> 's \<Rightarrow> Principal result \<times> 's) \<Rightarrow> Auth \<Rightarrow> ('s, 'r) interceptor" where
  "authInterceptor verify cfg handler c s =
     (case authenticateGRPC verify cfg c s of
        (Inl st, s') \<Rightarrow> (GrpcStatus st, s')
      | (Inr c', s') \<Rightarrow> handler c' s')"

definition exempt_method :: "gostring \<Rightarrow> bool" where
  "exempt_method m = (prefix ''/grpc.health.v1.Health/'' m \<or> prefix ''/grpc.reflection.'' m)"

definition databaseAuthorizationInterceptor :: "bool \<Rightarrow> gostring \<Rightarrow> 's evaluator \<Rightarrow> ('s, 'r) interceptor" where
  "databaseAuthorizationInterceptor enabled serviceName evaluate handler c s =
     (if enabled \<and> \<not> exempt_method (gc_FullMethod c) then
        (case evaluate (gc_ctx c) ''grpc'' ''call'' (gc_FullMethod c) serviceName s of
           (Some err, s') \<Rightarrow>
             (if err_is AuthzErrDecisionUnavailable err \<or> err_is PlatformErrMissing err
              then (refused UnavailableCode ''authorization decision is unavailable'', s')
              else (refused PermissionDeniedCode ''permission denied'', s'))
         | (None, s') \<Rightarrow> handler c s')
      else handler c s)"

section \<open>The chains of NewServer\<close>

record ('s, 'r) grpc_env =
  ge_config :: Config
  ge_verify :: "ctx \<Rightarrow> gostring \<Rightarrow> 's \<Rightarrow> Principal result \<times> 's"
  ge_evaluate :: "'s evaluator"
  ge_idempotency :: "('s, 'r) interceptor"
  ge_validKey :: "gostring \<Rightarrow> bool"
  ge_SplitHostPort :: "gostring \<Rightarrow> gostring result"
  ge_generated :: gostring
  ge_setHeader :: "goerr option"
  ge_count :: "gostring \<Rightarrow> grpc_code option \<Rightarrow> 's \<Rightarrow> 's"
  ge_log :: "ctx \<Rightarrow> gostring \<Rightarrow> grpc_code option \<Rightarrow> 's \<Rightarrow> 's"

definition unary_chain :: "('s, 'r) grpc_env \<Rightarrow> ('s, 'r) interceptor" where
  "unary_chain ge h =
     (let cfg = ge_config ge in
      environmentInterceptor (rt_ActiveProfile (cfg_Runtime cfg))
      (requestIDInterceptor (ge_SplitHostPort ge) (ge_generated ge)
      (idempotencyInterceptor (ge_validKey ge)
      (recoveryInterceptor
      (authInterceptor (ge_verify ge) (cfg_Auth cfg)
      (databaseAuthorizationInterceptor (az_Enabled (cfg_Authorization cfg)) (ap_Name (cfg_App cfg)) (ge_evaluate ge)
      (ge_idempotency ge
      (metricsInterceptor (obs_MetricsEnabled (cfg_Observability cfg)) (ge_count ge) (ge_log ge) h))))))))"

section \<open>Streams\<close>

text \<open>An interceptor for streams passes the stream on with another context: a \<open>contextServerStream\<close>.\<close>

definition contextServerStream :: "grpc_call \<Rightarrow> ctx \<Rightarrow> grpc_call" where
  "contextServerStream stream x = stream\<lparr>gc_ctx := x\<rparr>"

definition environmentStreamInterceptor :: "gostring \<Rightarrow> ('s, unit) interceptor" where
  "environmentStreamInterceptor profile handler stream =
     handler (contextServerStream stream (environment_WithContext (gc_ctx stream) profile))"

definition idempotencyStreamInterceptor :: "(gostring \<Rightarrow> bool) \<Rightarrow> ('s, unit) interceptor" where
  "idempotencyStreamInterceptor valid handler stream s =
     (let vals = gc_metadata stream ''idempotency-key'' in
      if vals = [] then handler stream s
      else if \<not> valid (hd vals) then (refused InvalidArgumentCode ''invalid idempotency-key'', s)
      else handler (contextServerStream stream ((gc_ctx stream)\<lparr>ctx_idempotencyKey := Some (hd vals)\<rparr>)) s)"

definition recoveryStreamInterceptor :: "('s, unit) interceptor" where
  "recoveryStreamInterceptor handler stream s =
     (case handler stream s of
        (GrpcPanic, s') \<Rightarrow> (refused InternalCode ''internal server error'', s')
      | (GrpcReply u, s') \<Rightarrow> (GrpcReply u, s')
      | (GrpcStatus st, s') \<Rightarrow> (GrpcStatus st, s'))"

text \<open>The context that \<open>authenticateGRPC\<close> returns carries the subject.\<close>

definition authStreamInterceptor :: "(ctx \<Rightarrow> gostring \<Rightarrow> 's \<Rightarrow> Principal result \<times> 's) \<Rightarrow> Auth \<Rightarrow> ('s, unit) interceptor" where
  "authStreamInterceptor verify cfg handler stream s =
     (case authenticateGRPC verify cfg stream s of
        (Inl err, s') \<Rightarrow> (GrpcStatus err, s')
      | (Inr c, s') \<Rightarrow> handler (contextServerStream (stream\<lparr>gc_subject := gc_subject c\<rparr>) (gc_ctx c)) s')"

definition databaseAuthorizationStreamInterceptor :: "bool \<Rightarrow> gostring \<Rightarrow> 's evaluator \<Rightarrow> ('s, unit) interceptor" where
  "databaseAuthorizationStreamInterceptor enabled serviceName evaluate handler stream s =
     (case (if enabled \<and> \<not> exempt_method (gc_FullMethod stream)
            then evaluate (gc_ctx stream) ''grpc'' ''call'' (gc_FullMethod stream) serviceName s else (None, s)) of
        (Some err, s') \<Rightarrow>
          (if err_is AuthzErrDecisionUnavailable err \<or> err_is PlatformErrMissing err
           then refused UnavailableCode ''authorization decision is unavailable''
           else refused PermissionDeniedCode ''permission denied'', s')
      | (None, s') \<Rightarrow> handler stream s')"

definition metricsStreamInterceptor ::
  "bool \<Rightarrow> (gostring \<Rightarrow> grpc_code option \<Rightarrow> 's \<Rightarrow> 's) \<Rightarrow> (ctx \<Rightarrow> gostring \<Rightarrow> grpc_code option \<Rightarrow> 's \<Rightarrow> 's) \<Rightarrow> ('s, unit) interceptor" where
  "metricsStreamInterceptor enabled count write_log handler stream s =
     (case handler stream s of
        (GrpcPanic, s') \<Rightarrow> (GrpcPanic, s')
      | (err, s') \<Rightarrow>
          let code = outcome_code err in
          (err, write_log (gc_ctx stream) (gc_FullMethod stream) code
                  (if enabled then count (gc_FullMethod stream) code s' else s')))"

definition stream_chain :: "('s, unit) grpc_env \<Rightarrow> ('s, unit) interceptor" where
  "stream_chain ge h =
     (let cfg = ge_config ge in
      environmentStreamInterceptor (rt_ActiveProfile (cfg_Runtime cfg))
      (requestIDStreamInterceptor (ge_SplitHostPort ge) (ge_generated ge) (ge_setHeader ge)
      (idempotencyStreamInterceptor (ge_validKey ge)
      (recoveryStreamInterceptor
      (authStreamInterceptor (ge_verify ge) (cfg_Auth cfg)
      (databaseAuthorizationStreamInterceptor (az_Enabled (cfg_Authorization cfg)) (ap_Name (cfg_App cfg)) (ge_evaluate ge)
      (metricsStreamInterceptor (obs_MetricsEnabled (cfg_Observability cfg)) (ge_count ge) (ge_log ge) h)))))))"

text \<open>On the context of a stream each of these does what the interceptor for single calls does.\<close>

lemma authenticateGRPC_call:
  assumes "authenticateGRPC verify cfg c s = (Inr c', s')"
  shows "c' = c\<lparr>gc_subject := gc_subject c', gc_ctx := gc_ctx c'\<rparr>"
  using assms by (auto simp: authenticateGRPC_def Let_def split: if_splits prod.splits sum.splits)

lemma stream_interceptors:
  "environmentStreamInterceptor profile = environmentInterceptor profile"
  "idempotencyStreamInterceptor valid = idempotencyInterceptor valid"
  "recoveryStreamInterceptor = recoveryInterceptor"
  "authStreamInterceptor verify cfg = authInterceptor verify cfg"
  "databaseAuthorizationStreamInterceptor enabled service evaluate = databaseAuthorizationInterceptor enabled service evaluate"
  "metricsStreamInterceptor enabled count write_log = metricsInterceptor enabled count write_log"
proof -
  show "environmentStreamInterceptor profile = environmentInterceptor profile"
    by (simp add: fun_eq_iff environmentStreamInterceptor_def environmentInterceptor_def contextServerStream_def)
  show "idempotencyStreamInterceptor valid = idempotencyInterceptor valid"
    by (simp add: fun_eq_iff idempotencyStreamInterceptor_def idempotencyInterceptor_def contextServerStream_def split: list.split)
  show "recoveryStreamInterceptor = recoveryInterceptor"
    by (simp add: fun_eq_iff recoveryStreamInterceptor_def recoveryInterceptor_def split: prod.split grpc_outcome.split)
  show "databaseAuthorizationStreamInterceptor enabled service evaluate = databaseAuthorizationInterceptor enabled service evaluate"
    by (simp add: fun_eq_iff databaseAuthorizationStreamInterceptor_def databaseAuthorizationInterceptor_def split: prod.split option.split)
  show "metricsStreamInterceptor enabled count write_log = metricsInterceptor enabled count write_log"
    by (simp add: fun_eq_iff metricsStreamInterceptor_def metricsInterceptor_def Let_def split: prod.split grpc_outcome.split)
  show "authStreamInterceptor verify cfg = authInterceptor verify cfg"
  proof (intro ext)
    fix h c s
    show "authStreamInterceptor verify cfg h c s = authInterceptor verify cfg h c s"
    proof (cases "authenticateGRPC verify cfg c s")
      case (Pair r s')
      show ?thesis
      proof (cases r)
        case (Inr c')
        with Pair have "c' = c\<lparr>gc_subject := gc_subject c', gc_ctx := gc_ctx c'\<rparr>" by (simp add: authenticateGRPC_call)
        then show ?thesis
          using Pair Inr by (simp add: authStreamInterceptor_def authInterceptor_def contextServerStream_def)
      qed (simp add: authStreamInterceptor_def authInterceptor_def Pair)
    qed
  qed
qed

section \<open>Transport credentials\<close>

text \<open>Files of certificates: reading a CA file (an error, or whether it holds a certificate) and loading
  a key pair.\<close>

record tls_files =
  tf_CA :: "gostring \<Rightarrow> bool result"
  tf_KeyPair :: "gostring \<Rightarrow> gostring \<Rightarrow> goerr option"

definition load_ca :: "tls_files \<Rightarrow> gostring \<Rightarrow> gostring \<Rightarrow> gostring \<Rightarrow> goerr option" where
  "load_ca files read_text parse_text path =
     (if path = [] then None
      else case tf_CA files path of
        Inl err \<Rightarrow> Some (Wrapf read_text err)
      | Inr False \<Rightarrow> Some (OtherError parse_text)
      | Inr True \<Rightarrow> None)"

text \<open>On success, whether clients must present a certificate.\<close>

definition serverCredentials :: "tls_files \<Rightarrow> GRPCTLS \<Rightarrow> bool result" where
  "serverCredentials files cfg =
     (case tf_KeyPair files (gt_CertFile cfg) (gt_KeyFile cfg) of
        Some err \<Rightarrow> Inl (Wrapf ''load grpc certificate'' err)
      | None \<Rightarrow>
          (case load_ca files ''read grpc client CA'' ''parse grpc client CA'' (gt_ClientCAFile cfg) of
             Some err \<Rightarrow> Inl err
           | None \<Rightarrow> Inr (gt_ClientCAFile cfg \<noteq> [])))"

section \<open>Gates\<close>

definition same_call :: "grpc_call \<Rightarrow> grpc_call \<Rightarrow> bool" where
  "same_call c c' =
     (gc_FullMethod c' = gc_FullMethod c \<and> gc_metadata c' = gc_metadata c \<and> gc_subject c' = gc_subject c
      \<and> ctx_principal (gc_ctx c') = ctx_principal (gc_ctx c)
      \<and> authorizedManagementTenant (gc_ctx c') = authorizedManagementTenant (gc_ctx c))"

lemma same_call_refl [simp]: "same_call c c"
  by (simp add: same_call_def)

lemma same_call_trans: "same_call a b \<Longrightarrow> same_call b c \<Longrightarrow> same_call a c"
  by (simp add: same_call_def)

abbreviation unchanged :: "grpc_call \<Rightarrow> 's \<Rightarrow> grpc_call \<Rightarrow> 's \<Rightarrow> bool" where
  "unchanged c s c' s' \<equiv> same_call c c'"

lemma unchanged_compose:
  assumes "gate f unchanged" "gate g unchanged"
  shows "gate (\<lambda>h. f (g h)) unchanged"
  by (rule gate_mono[OF gate_compose[OF assms]]) (auto intro: same_call_trans)

interpretation grpc_environment: gate "environmentInterceptor profile" unchanged
  by unfold_locales (simp add: environmentInterceptor_def same_call_def environment_WithContext_def)

interpretation grpc_request_id: gate "requestIDInterceptor split generated" unchanged
  by unfold_locales
     (simp add: requestIDInterceptor_def Let_def same_call_def requestid_WithContext_def withRequestMetadata_def requestmeta_WithContext_def)

interpretation grpc_request_id_stream: gate "requestIDStreamInterceptor split generated set_header" unchanged
  by unfold_locales
     (simp add: requestIDStreamInterceptor_def Let_def same_call_def requestid_WithContext_def withRequestMetadata_def
        requestmeta_WithContext_def split: option.split)

interpretation grpc_idempotency_key: gate "idempotencyInterceptor valid" unchanged
  by unfold_locales (simp add: idempotencyInterceptor_def same_call_def split: list.split)

interpretation grpc_recovery: gate recoveryInterceptor unchanged
  by unfold_locales (simp add: recoveryInterceptor_def)

interpretation grpc_metrics: gate "metricsInterceptor enabled count write_log" "\<lambda>c s c' s'. c' = c"
  by unfold_locales (simp add: metricsInterceptor_def)

text \<open>Who may pass, and as whom. An empty token is handed to the verifier, unlike over HTTP.\<close>

definition grpc_bearer :: "grpc_call \<Rightarrow> gostring \<Rightarrow> bool" where
  "grpc_bearer c raw =
     (\<exists>scheme rest. gc_metadata c ''authorization'' = (scheme @ '' '' @ raw) # rest \<and> EqualFold scheme ''Bearer'')"

definition grpc_authenticated ::
  "(ctx \<Rightarrow> gostring \<Rightarrow> 's \<Rightarrow> Principal result \<times> 's) \<Rightarrow> Auth \<Rightarrow> grpc_call \<Rightarrow> grpc_call \<Rightarrow> bool" where
  "grpc_authenticated verify cfg c c' =
     (gc_FullMethod c' = gc_FullMethod c \<and>
      (if psk_Enabled (at_PSK cfg) \<and> MatchesAny (gc_FullMethod c) (psk_GRPCMethods (at_PSK cfg))
       then (\<exists>v rest. gc_metadata c ''authorization'' = v # rest \<and> VerifyPSK v (psk_Key (at_PSK cfg)))
            \<and> ctx_principal (gc_ctx c') = Some psk_principal \<and> gc_subject c' = Some ''psk''
       else if MatchesAny (gc_FullMethod c) (at_SkipGRPCMethods cfg)
       then ctx_principal (gc_ctx c') = ctx_principal (gc_ctx c) \<and> gc_subject c' = gc_subject c
       else \<exists>raw x s0 s1 caller. grpc_bearer c raw \<and> verify x raw s0 = (Inr caller, s1)
            \<and> ctx_principal (gc_ctx c') = Some caller \<and> gc_subject c' = Some (pr_ID caller)))"

lemma authenticateGRPC_Inr:
  assumes "authenticateGRPC verify cfg c s = (Inr c', s')"
  shows "grpc_authenticated verify cfg c c'"
proof (cases "psk_Enabled (at_PSK cfg) \<and> MatchesAny (gc_FullMethod c) (psk_GRPCMethods (at_PSK cfg))
      \<or> MatchesAny (gc_FullMethod c) (at_SkipGRPCMethods cfg)")
  case True
  with assms show ?thesis
    by (cases "gc_metadata c ''authorization''")
       (auto simp: authenticateGRPC_def grpc_authenticated_def Let_def split: if_splits)
next
  case False
  with assms obtain v rest where v: "gc_metadata c ''authorization'' = v # rest"
    by (cases "gc_metadata c ''authorization''") (auto simp: authenticateGRPC_def Let_def)
  obtain scheme raw ok where cut: "cut_at (CHR '' '') v = (scheme, raw, ok)" by (cases "cut_at (CHR '' '') v") auto
  obtain r s1 where ver: "verify (gc_ctx c) raw s = (r, s1)" by (cases "verify (gc_ctx c) raw s") auto
  from False assms v cut ver have ok: "ok" "EqualFold scheme ''Bearer''"
    by (auto simp: authenticateGRPC_def Let_def split: if_splits)
  from False assms v cut ver ok obtain caller where r: "r = Inr caller"
    and c': "c' = c\<lparr>gc_subject := Some (pr_ID caller), gc_ctx := (gc_ctx c)\<lparr>ctx_principal := Some caller\<rparr>\<rparr>"
    by (auto simp: authenticateGRPC_def Let_def split: sum.splits)
  have "grpc_bearer c raw" using cut_at_True[of "CHR '' ''" v scheme raw] cut ok v by (auto simp: grpc_bearer_def)
  with False ver r c' show ?thesis by (auto simp: grpc_authenticated_def)
qed

interpretation grpc_auth: gate "authInterceptor verify cfg" "\<lambda>c s c' s'. grpc_authenticated verify cfg c c'"
  by unfold_locales (auto simp: authInterceptor_def dest!: authenticateGRPC_Inr split: prod.split sum.split)

interpretation grpc_authorization: gate "databaseAuthorizationInterceptor enabled service evaluate"
  "\<lambda>c s c' s'. c' = c \<and> (enabled \<and> \<not> exempt_method (gc_FullMethod c) \<longrightarrow>
     evaluate (gc_ctx c) ''grpc'' ''call'' (gc_FullMethod c) service s = (None, s'))"
  by unfold_locales (auto simp: databaseAuthorizationInterceptor_def split: prod.split option.split)

text \<open>The calls in which the implementation of a remote procedure can run.\<close>

definition grpc_admitted :: "('s, 'r) grpc_env \<Rightarrow> grpc_call \<Rightarrow> grpc_call \<Rightarrow> bool" where
  "grpc_admitted ge c c' =
     (\<exists>c1. same_call c c1 \<and> grpc_authenticated (ge_verify ge) (cfg_Auth (ge_config ge)) c1 c' \<and>
       (az_Enabled (cfg_Authorization (ge_config ge)) \<and> \<not> exempt_method (gc_FullMethod c) \<longrightarrow>
         (\<exists>s1 s2. ge_evaluate ge (gc_ctx c') ''grpc'' ''call'' (gc_FullMethod c) (ap_Name (cfg_App (ge_config ge))) s1 = (None, s2))))"

lemma grpc_admittedI:
  assumes "same_call c c1" "grpc_authenticated (ge_verify ge) (cfg_Auth (ge_config ge)) c1 c'"
    "az_Enabled (cfg_Authorization (ge_config ge)) \<and> \<not> exempt_method (gc_FullMethod c') \<longrightarrow>
       ge_evaluate ge (gc_ctx c') ''grpc'' ''call'' (gc_FullMethod c') (ap_Name (cfg_App (ge_config ge))) s1 = (None, s2)"
  shows "grpc_admitted ge c c'"
proof -
  have "gc_FullMethod c' = gc_FullMethod c" using assms(1,2) by (simp add: same_call_def grpc_authenticated_def)
  with assms show ?thesis unfolding grpc_admitted_def by metis
qed

lemma grpc_admitted_identity:
  "grpc_admitted ge c c' \<Longrightarrow> gc_FullMethod c' = gc_FullMethod c \<and>
     (\<not> MatchesAny (gc_FullMethod c) (at_SkipGRPCMethods (cfg_Auth (ge_config ge))) \<longrightarrow> ctx_principal (gc_ctx c') \<noteq> None)"
  by (auto simp: grpc_admitted_def grpc_authenticated_def same_call_def split: if_splits)

abbreviation grpc_entry :: "('s, 'r) grpc_env \<Rightarrow> ('s, 'r) interceptor" where
  "grpc_entry ge h \<equiv>
     recoveryInterceptor
      (authInterceptor (ge_verify ge) (cfg_Auth (ge_config ge))
      (databaseAuthorizationInterceptor (az_Enabled (cfg_Authorization (ge_config ge))) (ap_Name (cfg_App (ge_config ge))) (ge_evaluate ge) h))"

lemma grpc_entry_gate: "gate (grpc_entry ge) (\<lambda>c s c' s'. grpc_admitted ge c c')"
  by (rule gate_mono[OF gate_compose[OF grpc_recovery.gate_axioms gate_compose[OF grpc_auth.gate_axioms grpc_authorization.gate_axioms]]])
     (blast intro: grpc_admittedI)

lemma grpc_admitted_call:
  assumes "same_call c c1" "grpc_admitted ge c1 c'"
  shows "grpc_admitted ge c c'"
proof -
  have "gc_FullMethod c1 = gc_FullMethod c" using assms(1) by (simp add: same_call_def)
  with assms(2) show ?thesis unfolding grpc_admitted_def using same_call_trans[OF assms(1)] by metis
qed

lemma unary_chain_gate:
  assumes "gate (ge_idempotency ge) (\<lambda>c s c' s'. c' = c)"
  shows "gate (unary_chain ge) (\<lambda>c s c' s'. grpc_admitted ge c c')"
  unfolding unary_chain_def[abs_def] Let_def
  by (rule gate_mono[OF gate_compose[OF unchanged_compose[OF grpc_environment.gate_axioms unchanged_compose[OF
        grpc_request_id.gate_axioms grpc_idempotency_key.gate_axioms]] gate_compose[OF grpc_entry_gate
        gate_compose[OF assms grpc_metrics.gate_axioms]]]])
     (blast intro: grpc_admitted_call)

lemma stream_chain_gate: "gate (stream_chain ge) (\<lambda>c s c' s'. grpc_admitted ge c c')"
  unfolding stream_chain_def[abs_def] Let_def stream_interceptors
  by (rule gate_mono[OF gate_compose[OF unchanged_compose[OF grpc_environment.gate_axioms unchanged_compose[OF
        grpc_request_id_stream.gate_axioms grpc_idempotency_key.gate_axioms]] gate_compose[OF grpc_entry_gate
        grpc_metrics.gate_axioms]]])
     (blast intro: grpc_admitted_call)

end
