(* ===== verification/Access_Properties.thy ===== *)
theory Access_Properties
  imports Middleware_Laws Grpc_Access
begin

text \<open>
  Access to the two servers: which requests reach a handler, that every request is answered, what a
  repeated request with an idempotency key gets, and what a validated configuration guarantees to
  the components that rely on it.
\<close>

section \<open>The contract of the idempotency manager\<close>

text \<open>The manager belongs to the shared package. What the middleware relies on: when \<open>Begin\<close> does
  not fail, a fresh key is acquired, and a key in use or finished answers its state for the same
  fingerprint and a conflict for another one; when the owner of a key records its outcome without an
  error, the outcome is recorded. Every call may fail, and nothing is assumed of the entry then.\<close>

datatype idem_entry =
    Processing gostring gostring
  | Completed gostring gostring
  | Failed gostring Failure

definition idem_begin_spec :: "idem_entry option \<Rightarrow> gostring \<Rightarrow> idem_Decision \<Rightarrow> idem_entry option \<Rightarrow> bool" where
  "idem_begin_spec before fp d after =
     (case before of
        None \<Rightarrow> de_State d = StateAcquired \<and> after = Some (Processing fp (de_Owner d))
      | Some (Processing fp' owner) \<Rightarrow>
          after = before \<and> de_State d = (if fp = fp' then StateProcessing else StateConflict)
      | Some (Completed fp' bytes) \<Rightarrow>
          after = before \<and> (if fp = fp' then de_State d = StateCompleted \<and> de_Response d = bytes else de_State d = StateConflict)
      | Some (Failed fp' f) \<Rightarrow>
          after = before \<and> (if fp = fp' then de_State d = StateFailed \<and> de_Failure d = f else de_State d = StateConflict))"

definition idem_contract :: "'b json_lib \<Rightarrow> ('s, 'b) idem_manager \<Rightarrow> ('s \<Rightarrow> gostring \<Rightarrow> idem_entry option) \<Rightarrow> bool" where
  "idem_contract js mgr entry =
     ((\<forall>x key fp s d s'. im_Begin mgr x key fp s = (Inr d, s') \<longrightarrow> idem_begin_spec (entry s key) fp d (entry s' key))
      \<and> (\<forall>x key owner fp r s s'. entry s key = Some (Processing fp owner) \<longrightarrow> im_Complete mgr x key owner r s = (None, s') \<longrightarrow>
           entry s' key = Some (Completed fp (json_Marshal js r)))
      \<and> (\<forall>x key owner fp f s s'. entry s key = Some (Processing fp owner) \<longrightarrow> im_Fail mgr x key owner f s = (None, s') \<longrightarrow>
           entry s' key = Some (Failed fp f)))"

lemma idem_contractD:
  assumes "idem_contract js mgr entry"
  shows "im_Begin mgr x key fp s = (Inr d, s') \<Longrightarrow> idem_begin_spec (entry s key) fp d (entry s' key)"
    and "entry s key = Some (Processing fp owner) \<Longrightarrow> im_Complete mgr x key owner r s = (None, s') \<Longrightarrow>
      entry s' key = Some (Completed fp (json_Marshal js r))"
    and "entry s key = Some (Processing fp owner) \<Longrightarrow> im_Fail mgr x key owner f s = (None, s') \<Longrightarrow> entry s' key = Some (Failed fp f)"
  using assms unfolding idem_contract_def by blast+

text \<open>A request that the idempotent execution covers.\<close>

definition covered :: "('s, 'b) idem_manager \<Rightarrow> gostring list \<Rightarrow> gostring \<Rightarrow> gin \<Rightarrow> bool" where
  "covered mgr paths key c =
     (ctx_idempotencyKey (g_ctx c) = Some key \<and> im_Enabled mgr \<and> g_Method c = ''POST'' \<and> MatchesAny (g_FullPath c) paths)"

lemma covered_execution:
  assumes "covered mgr paths key c" "idempotencyFingerprint sha c = Inr fp" "im_Begin mgr (g_ctx c) key fp s = (Inr d, s')"
  shows "IdempotencyExecution js sha (Some mgr) paths h c s = begun js mgr key h c s' d"
  using assms by (simp add: covered_def IdempotencyExecution_def)

lemma begin_fails:
  assumes "covered mgr paths key c" "idempotencyFingerprint sha c = Inr fp" "im_Begin mgr (g_ctx c) key fp s = (Inl err, s')"
  shows "IdempotencyExecution js sha (Some mgr) paths h c s =
    (Returned, gin_Fail js (Unavailable ''idempotency is unavailable'' (Some err)) c, s')"
  using assms by (simp add: covered_def IdempotencyExecution_def)

text \<open>The two requests that the fingerprint has to tell apart: they agree on the subject as it is
  printed, the method, the route and the body.\<close>

definition printed_subject :: "gin \<Rightarrow> gostring" where
  "printed_subject c = (case g_subject c of Some subj \<Rightarrow> subj | None \<Rightarrow> ''<nil>'')"

definition repeats_request :: "gin \<Rightarrow> gostring \<Rightarrow> gin \<Rightarrow> gostring \<Rightarrow> bool" where
  "repeats_request c b c' b' \<longleftrightarrow> printed_subject c = printed_subject c' \<and> g_Method c = g_Method c' \<and> g_FullPath c = g_FullPath c' \<and> b = b'"

lemma fingerprint_text_inject:
  assumes "list_all nulfree [printed_subject c, g_Method c, g_FullPath c, printed_subject c', g_Method c', g_FullPath c']"
  shows "fingerprint_text c b = fingerprint_text c' b' \<longleftrightarrow> repeats_request c b c' b'"
proof
  assume "fingerprint_text c b = fingerprint_text c' b'"
  then have "printed_subject c @ CHR 0x00 # g_Method c @ CHR 0x00 # g_FullPath c @ CHR 0x00 # b =
      printed_subject c' @ CHR 0x00 # g_Method c' @ CHR 0x00 # g_FullPath c' @ CHR 0x00 # b'"
    by (simp add: fingerprint_text_def printed_subject_def nul_def)
  from append_sep_inject[OF this] assms have "printed_subject c = printed_subject c'"
    and "g_Method c @ CHR 0x00 # g_FullPath c @ CHR 0x00 # b = g_Method c' @ CHR 0x00 # g_FullPath c' @ CHR 0x00 # b'" by simp_all
  with append_sep_inject[OF this(2)] append_sep_inject[of "g_FullPath c" "CHR 0x00" b "g_FullPath c'" b'] assms
  show "repeats_request c b c' b'" by (simp add: repeats_request_def)
next
  assume "repeats_request c b c' b'"
  then show "fingerprint_text c b = fingerprint_text c' b'"
    by (simp add: repeats_request_def fingerprint_text_def printed_subject_def)
qed

lemma hex_digit_inject: "m < 16 \<Longrightarrow> n < 16 \<Longrightarrow> hex_digit m = hex_digit n \<Longrightarrow> m = n"
  by (auto simp: hex_digit_def split: if_splits dest!: arg_cong[of _ _ "of_char :: char \<Rightarrow> nat"])

lemma hex_inject: "hex_EncodeToString a = hex_EncodeToString b \<longleftrightarrow> a = b"
proof
  assume "hex_EncodeToString a = hex_EncodeToString b"
  then show "a = b"
  proof (induction a arbitrary: b)
    case Nil then show ?case by (cases b) (simp_all add: hex_EncodeToString_def)
  next
    case (Cons x xs)
    then obtain y ys where b: "b = y # ys" by (cases b) (simp_all add: hex_EncodeToString_def)
    have lt: "(of_char c :: nat) div 16 < 16" "(of_char c :: nat) mod 16 < 16" for c
      using nat_of_char_less_256[of c] by (simp_all add: less_mult_imp_div_less)
    have "(of_char x :: nat) div 16 = of_char y div 16" "(of_char x :: nat) mod 16 = of_char y mod 16"
      using Cons.prems hex_digit_inject[OF lt(1) lt(1)] hex_digit_inject[OF lt(2) lt(2)] by (auto simp: b hex_EncodeToString_def)
    then have "(of_char x :: nat) = of_char y" by (metis div_mult_mod_eq)
    moreover have "xs = ys" using Cons by (simp add: b hex_EncodeToString_def)
    ultimately show ?case by (simp add: b)
  qed
qed simp

text \<open>The digest of a request, and that it does not collide with that of another request.\<close>

definition digest :: "(gostring \<Rightarrow> gostring) \<Rightarrow> gin \<Rightarrow> gostring \<Rightarrow> gostring" where
  "digest sha c b = hex_EncodeToString (sha (fingerprint_text c b))"

definition told_apart :: "(gostring \<Rightarrow> gostring) \<Rightarrow> gin \<Rightarrow> gostring \<Rightarrow> gin \<Rightarrow> gostring \<Rightarrow> bool" where
  "told_apart sha c b c' b' \<longleftrightarrow>
     list_all nulfree [printed_subject c, g_Method c, g_FullPath c, printed_subject c', g_Method c', g_FullPath c'] \<and>
     (sha (fingerprint_text c b) = sha (fingerprint_text c' b') \<longrightarrow> fingerprint_text c b = fingerprint_text c' b')"

lemma digest_eq: "told_apart sha c b c' b' \<Longrightarrow> digest sha c b = digest sha c' b' \<longleftrightarrow> repeats_request c b c' b'"
  unfolding told_apart_def digest_def hex_inject using fingerprint_text_inject by metis

lemma fingerprint_digest: "g_Body c = Inr b \<Longrightarrow> idempotencyFingerprint sha c = Inr (digest sha c b)"
  by (simp add: idempotencyFingerprint_def digest_def)

text \<open>What a finished key answers to the same request: the recorded response under the request
  identifier of the repetition, with status 200, or the recorded failure.\<close>

definition replayed :: "'b json_lib \<Rightarrow> int \<Rightarrow> 'b Response \<Rightarrow> gin \<Rightarrow> gin" where
  "replayed js status r c =
     (if status < 400 then gin_JSON js 200 (r\<lparr>rs_RequestID := requestID (g_ctx c)\<rparr>) c
      else gin_JSON js status (error_response c (rs_Code r) (rs_Message r)) c)"

definition recorded :: "'b json_lib \<Rightarrow> int \<Rightarrow> 'b Response \<Rightarrow> gostring \<Rightarrow> idem_entry" where
  "recorded js status r fp =
     (if status < 400 then Completed fp (json_Marshal js (r\<lparr>rs_RequestID := []\<rparr>))
      else Failed fp \<lparr>fl_Code = rs_Code r, fl_Message = rs_Message r, fl_HTTPStatus = status\<rparr>)"

text \<open>The call that records the outcome of the handler.\<close>

definition recording :: "('s, 'b) idem_manager \<Rightarrow> gostring \<Rightarrow> gostring \<Rightarrow> gin \<Rightarrow> int \<Rightarrow> 'b Response \<Rightarrow> 's \<Rightarrow> goerr option \<times> 's" where
  "recording mgr key owner c status r s =
     (if status < 400 then im_Complete mgr (g_ctx c) key owner (r\<lparr>rs_RequestID := []\<rparr>) s
      else im_Fail mgr (g_ctx c) key owner \<lparr>fl_Code = rs_Code r, fl_Message = rs_Message r, fl_HTTPStatus = status\<rparr> s)"

lemma recording_records:
  assumes "idem_contract js mgr entry" "entry s key = Some (Processing fp owner)" "recording mgr key owner c status r s = (None, s')"
  shows "entry s' key = Some (recorded js status r fp)"
  using idem_contractD(2,3)[OF assms(1,2)] assms(3) by (cases "status < 400") (simp_all add: recording_def recorded_def)

lemma first_run:
  assumes contract: "idem_contract js mgr entry" and json: "json_Unmarshal js (json_Marshal js r) = Inr r"
    and cov: "covered mgr paths key c" and fp: "idempotencyFingerprint sha c = Inr fp" and fresh: "entry s key = None"
    and b: "im_Begin mgr (g_ctx c) key fp s = (Inr d, s0)"
    and h: "h c s0 = (Returned, gin_JSON js status r c, s1)" "entry s1 key = entry s0 key"
    and w: "\<not> g_written c"
  shows "entry s0 key = Some (Processing fp (de_Owner d)) \<and>
    IdempotencyExecution js sha (Some mgr) paths h c s =
      (Returned, gin_JSON js status r c, snd (recording mgr key (de_Owner d) c status r s1)) \<and>
    (fst (recording mgr key (de_Owner d) c status r s1) = None \<longrightarrow>
      entry (snd (recording mgr key (de_Owner d) c status r s1)) key = Some (recorded js status r fp))"
proof -
  have "idem_begin_spec (entry s key) fp d (entry s0 key)" by (rule idem_contractD(1)[OF contract b])
  with fresh have st: "de_State d = StateAcquired" and e0: "entry s0 key = Some (Processing fp (de_Owner d))"
    by (auto simp: idem_begin_spec_def)
  have "json_Unmarshal js (drop (length (g_bytes c)) (g_bytes (gin_JSON js status r c))) = Inr r"
    by (simp add: gin_JSON_def json)
  moreover have "g_status (gin_JSON js status r c) = status" "g_ctx (gin_JSON js status r c) = g_ctx c"
    using w by (simp_all add: gin_JSON_def)
  ultimately have "persist_outcome js mgr key (de_Owner d) c (gin_JSON js status r c) s1 = snd (recording mgr key (de_Owner d) c status r s1)"
    by (simp add: persist_outcome_def recording_def Let_def)
  then have "IdempotencyExecution js sha (Some mgr) paths h c s =
      (Returned, gin_JSON js status r c, snd (recording mgr key (de_Owner d) c status r s1))"
    using covered_execution[OF cov fp b] st h(1) by (simp add: begun_def)
  with e0 h(2) recording_records[OF contract, of s1 key fp "de_Owner d" c status r] show ?thesis by (metis prod.collapse)
qed

text \<open>What a key that is taken answers: while the first request is being processed, that it is in
  progress, and the recorded outcome afterwards.\<close>

fun repeated :: "'b json_lib \<Rightarrow> int \<Rightarrow> 'b Response \<Rightarrow> idem_entry \<Rightarrow> gin \<Rightarrow> gin" where
  "repeated js status r (Processing fp owner) c = gin_Fail js RequestInProgress c"
| "repeated js status r e c = replayed js status r c"

lemma taken_key:
  assumes contract: "idem_contract js mgr entry" and json: "json_Unmarshal js (json_Marshal js (r\<lparr>rs_RequestID := []\<rparr>)) = Inr (r\<lparr>rs_RequestID := []\<rparr>)"
    and cov: "covered mgr paths key c" and fp: "idempotencyFingerprint sha c = Inr fp'"
    and e: "entry s key = Some t" "t = Processing fp owner \<or> t = recorded js status r fp"
    and b: "im_Begin mgr (g_ctx c) key fp' s = (Inr d, s')"
  shows "entry s' key = entry s key \<and> IdempotencyExecution js sha (Some mgr) paths h c s =
    (Returned, if fp' = fp then repeated js status r t c
       else gin_Fail js (Conflict ''idempotency key belongs to a different request'' None) c, s')"
proof -
  have "idem_begin_spec (entry s key) fp' d (entry s' key)" by (rule idem_contractD(1)[OF contract b])
  with e show ?thesis
    unfolding covered_execution[OF cov fp b]
    by (cases "status < 400") (auto simp: recorded_def idem_begin_spec_def begun_def replayed_def json)
qed


section \<open>What Validate checks\<close>

lemma Validate_checks:
  assumes "Validate c = None"
  shows "first_error (validate_servers c) = None" "first_error (validate_limits c) = None" "first_error (validate_auth c) = None"
    "first_error (validate_idempotency c) = None" "first_error (validate_events c) = None"
    "validate_http_upstreams (ogo_HTTP (cfg_Outbound c)) = None" "validate_grpc_upstreams (ogo_GRPC (cfg_Outbound c)) = None"
  using assms by (auto simp: Validate_def first_error_append split: option.splits)

lemma http_patterns_None:
  "first_error (concat (map (http_pattern_error k) ps)) = None \<longleftrightarrow> (\<forall>p\<in>set ps. prefix ''/api/'' p \<and> \<not> bad_pattern p)"
  by (induction ps) (auto simp: first_error_append http_pattern_error_def split: option.splits)

lemma grpc_patterns_None:
  "first_error (concat (map (grpc_pattern_error k) ps)) = None
   \<longleftrightarrow> (\<forall>p\<in>set ps. prefix ''/'' p \<and> count_list p (CHR ''/'') = 2 \<and> \<not> bad_pattern p)"
  by (induction ps) (auto simp: first_error_append grpc_pattern_error_def split: option.splits)

lemma other_sections:
  "cfg_App (c\<lparr>cfg_Runtime := r\<rparr>) = cfg_App c" "cfg_HTTP (c\<lparr>cfg_Runtime := r\<rparr>) = cfg_HTTP c"
  "cfg_GRPC (c\<lparr>cfg_Runtime := r\<rparr>) = cfg_GRPC c" "cfg_Database (c\<lparr>cfg_Runtime := r\<rparr>) = cfg_Database c"
  "cfg_Redis (c\<lparr>cfg_Runtime := r\<rparr>) = cfg_Redis c" "cfg_Health (c\<lparr>cfg_Runtime := r\<rparr>) = cfg_Health c"
  "cfg_RateLimit (c\<lparr>cfg_Runtime := r\<rparr>) = cfg_RateLimit c" "cfg_Observability (c\<lparr>cfg_Runtime := r\<rparr>) = cfg_Observability c"
  "cfg_Swagger (c\<lparr>cfg_Runtime := r\<rparr>) = cfg_Swagger c" "cfg_JWT (c\<lparr>cfg_Runtime := r\<rparr>) = cfg_JWT c"
  "cfg_Auth (c\<lparr>cfg_Runtime := r\<rparr>) = cfg_Auth c" "cfg_Authorization (c\<lparr>cfg_Runtime := r\<rparr>) = cfg_Authorization c"
  "cfg_Migration (c\<lparr>cfg_Runtime := r\<rparr>) = cfg_Migration c" "cfg_User (c\<lparr>cfg_Runtime := r\<rparr>) = cfg_User c"
  "cfg_Idempotency (c\<lparr>cfg_Runtime := r\<rparr>) = cfg_Idempotency c" "cfg_EventBus (c\<lparr>cfg_Runtime := r\<rparr>) = cfg_EventBus c"
  "cfg_OperationLog (c\<lparr>cfg_Runtime := r\<rparr>) = cfg_OperationLog c" "cfg_SecurityLog (c\<lparr>cfg_Runtime := r\<rparr>) = cfg_SecurityLog c"
  "cfg_Outbound (c\<lparr>cfg_Runtime := r\<rparr>) = cfg_Outbound c"
  by simp_all

lemma groups_Runtime:
  "validate_servers (c\<lparr>cfg_Runtime := r\<rparr>) = validate_servers c"
  "validate_limits (c\<lparr>cfg_Runtime := r\<rparr>) = validate_limits c"
  "validate_auth (c\<lparr>cfg_Runtime := r\<rparr>) = validate_auth c"
  "validate_idempotency (c\<lparr>cfg_Runtime := r\<rparr>) = validate_idempotency c"
  "validate_events (c\<lparr>cfg_Runtime := r\<rparr>) = validate_events c"
  unfolding validate_servers_def validate_limits_def validate_auth_def validate_idempotency_def validate_events_def other_sections
  by (rule refl)+

lemma Validate_Runtime: "Validate (c\<lparr>cfg_Runtime := r\<rparr>) = Validate c"
  unfolding Validate_def groups_Runtime other_sections by (rule refl)

lemma decode_config_Inr: "decode_config lib files profile = Inr c \<Longrightarrow> Validate c = None \<and> rt_ActiveProfile (cfg_Runtime c) = profile"
  by (auto simp: decode_config_def Let_def Validate_Runtime split: sum.splits option.splits)

lemma LoadWithProfile_Inr:
  "LoadWithProfile lib path profile = Inr c \<Longrightarrow> Validate c = None \<and> validProfile (rt_ActiveProfile (cfg_Runtime c))"
  by (auto simp: LoadWithProfile_def Let_def dest!: decode_config_Inr split: option.splits if_splits file_stat.splits prod.splits)

definition route_patterns :: "Config \<Rightarrow> gostring list" where
  "route_patterns c =
     at_SkipHTTPPaths (cfg_Auth c) @ at_SkipGRPCMethods (cfg_Auth c) @ psk_HTTPPaths (at_PSK (cfg_Auth c))
     @ psk_GRPCMethods (at_PSK (cfg_Auth c)) @ ie_HTTPPaths (cfg_Idempotency c) @ ie_GRPCMethods (cfg_Idempotency c)"

lemma validate_auth_patterns:
  assumes "first_error (validate_auth c) = None"
  shows "first_error (concat (map (http_pattern_error ''auth.skip_http_paths'') (at_SkipHTTPPaths (cfg_Auth c)))) = None"
    "first_error (concat (map (grpc_pattern_error ''auth.skip_grpc_methods'') (at_SkipGRPCMethods (cfg_Auth c)))) = None"
    "first_error (concat (map (http_pattern_error ''auth.psk.http_paths'') (psk_HTTPPaths (at_PSK (cfg_Auth c))))) = None"
    "first_error (concat (map (grpc_pattern_error ''auth.psk.grpc_methods'') (psk_GRPCMethods (at_PSK (cfg_Auth c))))) = None"
  using assms unfolding validate_auth_def Let_def first_error_append
  by (auto simp del: first_error.simps split: option.splits)

lemma validate_idempotency_patterns:
  assumes "first_error (validate_idempotency c) = None"
  shows "first_error (concat (map (http_pattern_error ''idempotency.http_paths'') (ie_HTTPPaths (cfg_Idempotency c)))) = None"
    "first_error (concat (map (grpc_pattern_error ''idempotency.grpc_methods'') (ie_GRPCMethods (cfg_Idempotency c)))) = None"
  using assms unfolding validate_idempotency_def Let_def first_error_append
  by (auto simp del: first_error.simps split: option.splits)

lemma Validate_patterns:
  assumes "Validate c = None" "p \<in> set (route_patterns c)"
  shows "\<not> bad_pattern p"
  using validate_auth_patterns[OF Validate_checks(3)[OF assms(1)]] validate_idempotency_patterns[OF Validate_checks(4)[OF assms(1)]]
    assms(2)
  unfolding http_patterns_None grpc_patterns_None route_patterns_def by auto

section \<open>A sample server\<close>

definition sample_json :: "unit json_lib" where
  "sample_json =
     \<lparr>json_Marshal = (\<lambda>r. rs_Message r @ nul @ rs_RequestID r),
      json_Unmarshal = (\<lambda>b. case cut_at (CHR 0x00) b of (m, i, ok) \<Rightarrow>
        Inr \<lparr>rs_Code = CodeOK, rs_Message = m, rs_Body = Some (), rs_RequestID = i\<rparr>)\<rparr>"

type_synonym sample_store = "(gostring \<times> idem_entry) list"

definition sample_decision :: "idem_state \<Rightarrow> gostring \<Rightarrow> Failure \<Rightarrow> idem_Decision" where
  "sample_decision st bytes f = \<lparr>de_State = st, de_Owner = ''owner'', de_Response = bytes, de_Failure = f\<rparr>"

definition no_failure :: Failure where
  "no_failure = \<lparr>fl_Code = CodeOK, fl_Message = [], fl_HTTPStatus = 0\<rparr>"

fun sample_finish :: "gostring \<Rightarrow> gostring \<Rightarrow> (gostring \<Rightarrow> idem_entry) \<Rightarrow> sample_store \<Rightarrow> sample_store" where
  "sample_finish key owner done_entry s =
     (case map_of s key of
        Some (Processing fp o') \<Rightarrow> if o' = owner then AList.update key (done_entry fp) s else s
      | _ \<Rightarrow> s)"

definition sample_manager :: "(sample_store, unit) idem_manager" where
  "sample_manager =
     \<lparr>im_Enabled = True,
      im_Begin = (\<lambda>x key fp s. case map_of s key of
          None \<Rightarrow> (Inr (sample_decision StateAcquired [] no_failure), AList.update key (Processing fp ''owner'') s)
        | Some (Processing fp' o') \<Rightarrow>
            (Inr (sample_decision (if fp = fp' then StateProcessing else StateConflict) [] no_failure), s)
        | Some (Completed fp' b) \<Rightarrow>
            (Inr (sample_decision (if fp = fp' then StateCompleted else StateConflict) b no_failure), s)
        | Some (Failed fp' f) \<Rightarrow>
            (Inr (sample_decision (if fp = fp' then StateFailed else StateConflict) [] f), s)),
      im_Complete = (\<lambda>x key owner r s. (None, sample_finish key owner (\<lambda>fp. Completed fp (json_Marshal sample_json r)) s)),
      im_Fail = (\<lambda>x key owner f s. (None, sample_finish key owner (\<lambda>fp. Failed fp f) s))\<rparr>"

lemma sample_contract: "idem_contract sample_json sample_manager map_of"
  unfolding idem_contract_def
proof (intro conjI allI impI)
  fix x key fp s d s'
  assume "im_Begin sample_manager x key fp s = (Inr d, s')"
  then show "idem_begin_spec (map_of s key) fp d (map_of s' key)"
    by (auto simp: sample_manager_def idem_begin_spec_def sample_decision_def update_conv' split: option.splits idem_entry.splits)
qed (auto simp: sample_manager_def update_conv')

definition sample_config :: Config where
  "sample_config = setDefaults\<lparr>cfg_Authorization := \<lparr>az_Enabled = True, az_PolicyRefreshInterval = 1, az_DecisionCacheTTL = 1\<rparr>\<rparr>"

definition sample_user :: Principal where
  "sample_user = \<lparr>pr_ID = ''u1'', pr_Type = TypeUser, pr_TenantID = ''t1'', pr_MembershipID = ''m1''\<rparr>"

definition sample_verify :: "ctx \<Rightarrow> gostring \<Rightarrow> 's \<Rightarrow> Principal result \<times> 's" where
  "sample_verify x raw s = (if raw = ''token'' then Inr sample_user else Inl (OtherError ''bad token''), s)"

definition sample_evaluate :: "'s evaluator" where
  "sample_evaluate x protocol method path service s =
     (if path = ''/api/v1/me'' \<or> path = ''/platform.S/Do'' then None else Some (Sentinel PlatformErrMissing), s)"

definition sample_http :: "(sample_store, unit) http_env" where
  "sample_http =
     \<lparr>he_json = sample_json, he_config = sample_config, he_verify = sample_verify, he_evaluate = sample_evaluate,
      he_limiter = \<lparr>lm_enabled = False, lm_failOpen = False, lm_backend = None\<rparr>, he_idempotency = Some sample_manager,
      he_validKey = (\<lambda>k. True), he_mediaType = (\<lambda>t. Inr t), he_sha256 = (\<lambda>t. t), he_log = (\<lambda>c s. s),
      he_observe = (\<lambda>m r st s. s), he_generated = ''generated'', he_expired = False\<rparr>"

definition empty_ctx :: ctx where
  "empty_ctx = \<lparr>ctx_principal = None, authorizedManagementTenant = None, ctx_requestID = None, ctx_clientIP = [],
     ctx_userAgent = [], ctx_idempotencyKey = None, ctx_environment = None\<rparr>"

definition sample_gin :: "gostring \<Rightarrow> gin" where
  "sample_gin authorization =
     \<lparr>g_Method = ''POST'', g_FullPath = ''/api/v1/me'',
      g_Header = (\<lambda>k. if k = ''Authorization'' then authorization else []),
      g_ContentLength = 0, g_TLS = False, g_ClientIP = ''10.0.0.1'', g_Body = Inr [], g_ctx = empty_ctx, g_subject = None,
      g_out = [], g_status = 200, g_written = False, g_bytes = []\<rparr>"

definition me_handler :: "'s handler" where
  "me_handler c s = (Returned, gin_AbortWithStatus 200 c, s)"

definition panicking :: "'s handler" where
  "panicking c s = (Panicked, c, s)"

section \<open>Properties\<close>

text \<open>As whom a request to the api group is served: on a route of the pre-shared key the caller presented
  the key and acts as the key's service account, on a skipped route it has no identity, and on every
  other route it acts as the principal that its bearer token was verified as; and, where authorization
  is enabled, the policy of exactly this method and route was evaluated for that caller without
  error.\<close>

definition served_as :: "('s, 'b) http_env \<Rightarrow> gin \<Rightarrow> gin \<Rightarrow> bool" where
  "served_as he c c' =
    (let cfg = he_config he; a = cfg_Auth cfg; path = g_FullPath c; caller = ctx_principal (g_ctx c') in
      (if psk_route a path then VerifyPSK (g_Header c ''Authorization'') (psk_Key (at_PSK a)) \<and> caller = Some psk_principal
       else if skip_route a path then caller = None
       else \<exists>raw x s0 s1 p. bearer c raw \<and> he_verify he x raw s0 = (Inr p, s1) \<and> caller = Some p)
      \<and> (az_Enabled (cfg_Authorization cfg) \<longrightarrow>
          (\<exists>s1 s2. he_evaluate he (g_ctx c') ''http'' (ToLower (g_Method c)) path (ap_Name (cfg_App cfg)) s1 = (None, s2))))"

lemma admitted_served_as:
  assumes a: "admitted he c c'" and fresh: "ctx_principal (g_ctx c) = None"
  shows "served_as he c c'"
proof -
  from a obtain c1 where c1: "same_caller c c1" "authenticated (he_verify he) (cfg_Auth (he_config he)) c1 c'"
    and e: "az_Enabled (cfg_Authorization (he_config he)) \<longrightarrow>
         (\<exists>s1 s2. he_evaluate he (g_ctx c') ''http'' (ToLower (g_Method c)) (g_FullPath c)
                    (ap_Name (cfg_App (he_config he))) s1 = (None, s2))"
    unfolding admitted_def by blast
  from c1(1) have b: "bearer c1 = bearer c" "g_FullPath c1 = g_FullPath c" "g_Method c1 = g_Method c" "g_Header c1 = g_Header c"
    "ctx_principal (g_ctx c1) = None"
    using fresh by (auto simp: same_caller_def same_request_def bearer_def fun_eq_iff)
  from c1(2) have i: "if psk_route (cfg_Auth (he_config he)) (g_FullPath c)
      then VerifyPSK (g_Header c ''Authorization'') (psk_Key (at_PSK (cfg_Auth (he_config he)))) \<and> ctx_principal (g_ctx c') = Some psk_principal
      else if skip_route (cfg_Auth (he_config he)) (g_FullPath c) then ctx_principal (g_ctx c') = None
      else \<exists>raw x s0 s1 p. bearer c raw \<and> he_verify he x raw s0 = (Inr p, s1) \<and> ctx_principal (g_ctx c') = Some p"
    unfolding authenticated_def b by (metis (no_types))
  show ?thesis unfolding served_as_def Let_def using i e by blast
qed

text \<open>C34. A request with an idempotency key runs its handler once. Take a manager that keeps its
  contract, a covered request with a key that is not taken, and a handler that answers it by
  writing a JSON response which survives encoding and decoding. If \<open>Begin\<close> fails, the request is
  refused as unavailable and no handler runs. Otherwise the handler runs while the key is marked as
  being processed, its response is the answer, and the outcome is recorded under the key unless the
  manager reports an error. As long as the key has the entry of the processed or of the finished
  request, no handler runs for it: a covered request either is refused as unavailable because
  \<open>Begin\<close> fails; or, when it has the same subject, method, route and body, is told that the request
  is in progress or gets the recorded outcome (with status 200 and its own request identifier, or the
  recorded failure); or, when it differs in any of these, is refused as a conflict. The digest is
  taken not to collide on the two requests, whose subject, method and route contain no NUL byte.\<close>

theorem idempotent_request_runs_once:
  assumes contract: "idem_contract js mgr entry"
    and json: "\<And>q. q \<in> {r, r\<lparr>rs_RequestID := []\<rparr>} \<Longrightarrow> json_Unmarshal js (json_Marshal js q) = Inr q"
    and cov: "covered mgr paths key c" and body: "g_Body c = Inr b" and fresh: "entry s key = None" "\<not> g_written c"
    and h: "\<And>s0. \<exists>s1. h c s0 = (Returned, gin_JSON js status r c, s1) \<and> entry s1 key = entry s0 key"
  shows "(case im_Begin mgr (g_ctx c) key (digest sha c b) s of
      (Inl err, s0) \<Rightarrow> \<forall>h'. IdempotencyExecution js sha (Some mgr) paths h' c s =
        (Returned, gin_Fail js (Unavailable ''idempotency is unavailable'' (Some err)) c, s0)
    | (Inr d, s0) \<Rightarrow> entry s0 key = Some (Processing (digest sha c b) (de_Owner d)) \<and>
        (\<exists>err s'. recording mgr key (de_Owner d) c status r (snd (snd (h c s0))) = (err, s') \<and>
          IdempotencyExecution js sha (Some mgr) paths h c s = (Returned, gin_JSON js status r c, s') \<and>
          (err = None \<longrightarrow> entry s' key = Some (recorded js status r (digest sha c b))))) \<and>
    (\<forall>s2 t owner c2 b2 h2. entry s2 key = Some t \<and> (t = Processing (digest sha c b) owner \<or> t = recorded js status r (digest sha c b)) \<and>
       covered mgr paths key c2 \<and> g_Body c2 = Inr b2 \<and> told_apart sha c2 b2 c b \<longrightarrow>
       (case im_Begin mgr (g_ctx c2) key (digest sha c2 b2) s2 of
          (Inl err, s3) \<Rightarrow> IdempotencyExecution js sha (Some mgr) paths h2 c2 s2 =
            (Returned, gin_Fail js (Unavailable ''idempotency is unavailable'' (Some err)) c2, s3)
        | (Inr d, s3) \<Rightarrow> entry s3 key = Some t \<and> IdempotencyExecution js sha (Some mgr) paths h2 c2 s2 =
            (Returned, if repeats_request c2 b2 c b then repeated js status r t c2
               else gin_Fail js (Conflict ''idempotency key belongs to a different request'' None) c2, s3)))"
    (is "?first \<and> ?later")
proof
  note fp = fingerprint_digest[where sha = sha]
  show ?first
  proof (cases "im_Begin mgr (g_ctx c) key (digest sha c b) s")
    case (Pair res s0)
    obtain s1 where s1: "h c s0 = (Returned, gin_JSON js status r c, s1)" "entry s1 key = entry s0 key" using h by blast
    show ?thesis
    proof (cases res)
      case (Inl err)
      with Pair begin_fails[OF cov fp[OF body]] show ?thesis by simp
    next
      case (Inr d)
      from first_run[where h = h and entry = entry and mgr = mgr, OF contract json cov fp[OF body] fresh(1) Pair[unfolded Inr] s1 fresh(2)]
      show ?thesis unfolding Pair Inr by (simp add: s1(1)) (metis prod.collapse)
    qed
  qed
  show ?later
  proof (intro allI impI, elim conjE)
    fix s2 t owner c2 b2 h2
    assume t: "entry s2 key = Some t" "t = Processing (digest sha c b) owner \<or> t = recorded js status r (digest sha c b)"
      and c2: "covered mgr paths key c2" "g_Body c2 = Inr b2" "told_apart sha c2 b2 c b"
    show "case im_Begin mgr (g_ctx c2) key (digest sha c2 b2) s2 of
          (Inl err, s3) \<Rightarrow> IdempotencyExecution js sha (Some mgr) paths h2 c2 s2 =
            (Returned, gin_Fail js (Unavailable ''idempotency is unavailable'' (Some err)) c2, s3)
        | (Inr d, s3) \<Rightarrow> entry s3 key = Some t \<and> IdempotencyExecution js sha (Some mgr) paths h2 c2 s2 =
            (Returned, if repeats_request c2 b2 c b then repeated js status r t c2
               else gin_Fail js (Conflict ''idempotency key belongs to a different request'' None) c2, s3)"
      using begin_fails[OF c2(1) fp[OF c2(2)], of s2] taken_key[OF contract json c2(1) fp[OF c2(2)] t, of _ _ h2] t(1)
      by (auto simp: digest_eq[OF c2(3)] split: prod.split sum.split)
  qed
qed

definition keyed_request :: gin where
  "keyed_request = (sample_gin ''Bearer token'')\<lparr>g_ctx := empty_ctx\<lparr>ctx_idempotencyKey := Some ''k1''\<rparr>\<rparr>"

definition sample_answer :: "unit Response" where
  "sample_answer = \<lparr>rs_Code = CodeOK, rs_Message = ''success'', rs_Body = Some (), rs_RequestID = ''r1''\<rparr>"

definition answering_handler :: "sample_store handler" where
  "answering_handler c s = (Returned, gin_JSON sample_json 200 sample_answer c, s)"

text \<open>Witness of C34: a repeated request on the sample store gets the recorded answer, although its
  handler would panic, and a request with the same key and another body is refused.\<close>

theorem idempotent_request_runs_once_witness:
  "let run = IdempotencyExecution sample_json id (Some sample_manager) [''/api/v1/me'']; s' = snd (snd (run answering_handler keyed_request []));
       other = keyed_request\<lparr>g_Body := Inr ''x''\<rparr> in
   fst (snd (run answering_handler keyed_request [])) = gin_JSON sample_json 200 sample_answer keyed_request \<and>
   fst (snd (run panicking keyed_request s')) = replayed sample_json 200 sample_answer keyed_request \<and>
   fst (snd (run panicking other s')) = gin_Fail sample_json (Conflict ''idempotency key belongs to a different request'' None) other"
proof -
  define run where "run = (IdempotencyExecution sample_json id (Some sample_manager) [''/api/v1/me''] :: sample_store middleware)"
  define other where "other = keyed_request\<lparr>g_Body := Inr ''x''\<rparr>"
  let ?fp = "digest id keyed_request []"
  have cov: "covered sample_manager [''/api/v1/me''] ''k1'' keyed_request" "covered sample_manager [''/api/v1/me''] ''k1'' other"
    unfolding other_def by code_simp+
  have body: "g_Body keyed_request = Inr []" "g_Body other = Inr ''x''" "\<not> g_written keyed_request" unfolding other_def by code_simp+
  have apart: "told_apart id keyed_request [] keyed_request []" "told_apart id other ''x'' keyed_request []"
    by (simp_all add: told_apart_def other_def keyed_request_def printed_subject_def sample_gin_def)
  have same: "repeats_request keyed_request [] keyed_request []" "\<not> repeats_request other ''x'' keyed_request []"
    by (simp_all add: repeats_request_def)
  have json: "json_Unmarshal sample_json (json_Marshal sample_json q) = Inr q"
    if "q \<in> {sample_answer, sample_answer\<lparr>rs_RequestID := []\<rparr>}" for q
    using that by (auto simp: sample_json_def sample_answer_def nul_def cut_at_found)
  have h: "\<exists>s1. answering_handler keyed_request s0 = (Returned, gin_JSON sample_json 200 sample_answer keyed_request, s1) \<and> map_of s1 k = map_of s0 k"
    for s0 :: sample_store and k by (simp add: answering_handler_def)
  note once = idempotent_request_runs_once[where entry = map_of and sha = id and key = "''k1''" and s = "[]" and h = answering_handler
      and status = 200 and r = sample_answer, OF sample_contract json cov(1) body(1) _ body(3) h, folded run_def]
  have acquired: "im_Begin sample_manager x ''k1'' fp [] =
      (Inr (Access_Properties.sample_decision StateAcquired [] no_failure), [(''k1'', Processing fp ''owner'')])" for x fp
    by (simp add: sample_manager_def)
  have rec: "recording sample_manager ''k1'' ''owner'' keyed_request 200 sample_answer [(''k1'', Processing ?fp ''owner'')] =
      (None, [(''k1'', recorded sample_json 200 sample_answer ?fp)])"
    by (simp add: recording_def recorded_def sample_manager_def)
  define s' where "s' = [(''k1'', recorded sample_json 200 sample_answer ?fp)]"
  have first: "run answering_handler keyed_request [] = (Returned, gin_JSON sample_json 200 sample_answer keyed_request, s')"
    using once[THEN conjunct1] by (simp add: acquired rec s'_def answering_handler_def Access_Properties.sample_decision_def)
  have used: "\<exists>d. im_Begin sample_manager x ''k1'' fp s' = (Inr d, s')" for x fp
    by (simp add: s'_def recorded_def sample_manager_def)
  have later: "fst (snd (run h2 c2 s')) = (if repeats_request c2 b2 keyed_request [] then replayed sample_json 200 sample_answer c2
      else gin_Fail sample_json (Conflict ''idempotency key belongs to a different request'' None) c2)"
    if "covered sample_manager [''/api/v1/me''] ''k1'' c2" "g_Body c2 = Inr b2" "told_apart id c2 b2 keyed_request []" for c2 b2 h2
    using once[THEN conjunct2, rule_format, of s' "recorded sample_json 200 sample_answer ?fp" _ c2 b2 h2] that used[of "g_ctx c2" "digest id c2 b2"]
    by (auto simp: s'_def recorded_def)
  show ?thesis
    unfolding Let_def run_def[symmetric] other_def[symmetric]
    using first later[OF cov(1) body(1) apart(1), of panicking] later[OF cov(2) body(2) apart(2), of panicking] same by simp
qed

text \<open>C35. A configuration that the service loads for production is hardened: gRPC is served over TLS
  with a certificate, reflection is off, the API documentation requires a token, tokens are verified
  against the identity service, route authorization is on with a positive refresh interval and
  cache lifetime (the tickers of the policy manager do not panic), a pre-shared key has at least 32
  bytes, and everything that is exempt from tokens over HTTP is under \<open>/api/\<close>.\<close>

theorem production_configuration_is_hardened:
  assumes load: "LoadWithProfile lib path profile = Inr c" and env: "ap_Env (cfg_App c) = ''production''"
  shows "(gs_Enabled (cfg_GRPC c) \<longrightarrow> gt_Enabled (gs_TLS (cfg_GRPC c)) \<and> gt_CertFile (gs_TLS (cfg_GRPC c)) \<noteq> [] \<and> gt_KeyFile (gs_TLS (cfg_GRPC c)) \<noteq> [])
    \<and> \<not> gs_ReflectionEnabled (cfg_GRPC c)
    \<and> (sw_Enabled (cfg_Swagger c) \<longrightarrow> sw_RequireAuth (cfg_Swagger c))
    \<and> at_JWKSURL (cfg_Auth c) \<noteq> [] \<and> at_Issuer (cfg_Auth c) \<noteq> [] \<and> at_Audience (cfg_Auth c) \<noteq> []
    \<and> az_Enabled (cfg_Authorization c) \<and> az_PolicyRefreshInterval (cfg_Authorization c) > 0 \<and> az_DecisionCacheTTL (cfg_Authorization c) > 0
    \<and> (psk_Enabled (at_PSK (cfg_Auth c)) \<longrightarrow> length (psk_Key (at_PSK (cfg_Auth c))) \<ge> 32)
    \<and> (\<forall>p\<in>set (at_SkipHTTPPaths (cfg_Auth c) @ psk_HTTPPaths (at_PSK (cfg_Auth c))). prefix ''/api/'' p)"
proof -
  from LoadWithProfile_Inr[OF load] have v: "Validate c = None" by blast
  note s = Validate_checks(1)[OF v, unfolded validate_servers_def Let_def first_error_None]
  note a = Validate_checks(3)[OF v, unfolded validate_auth_def Let_def first_error_None]
  note p = validate_auth_patterns[OF Validate_checks(3)[OF v], unfolded http_patterns_None]
  have "(gs_Enabled (cfg_GRPC c) \<longrightarrow> gt_Enabled (gs_TLS (cfg_GRPC c)) \<and> gt_CertFile (gs_TLS (cfg_GRPC c)) \<noteq> [] \<and> gt_KeyFile (gs_TLS (cfg_GRPC c)) \<noteq> [])
    \<and> \<not> gs_ReflectionEnabled (cfg_GRPC c)"
    using s env by auto
  moreover have "(sw_Enabled (cfg_Swagger c) \<longrightarrow> sw_RequireAuth (cfg_Swagger c))
    \<and> at_JWKSURL (cfg_Auth c) \<noteq> [] \<and> at_Issuer (cfg_Auth c) \<noteq> [] \<and> at_Audience (cfg_Auth c) \<noteq> []
    \<and> az_Enabled (cfg_Authorization c) \<and> az_PolicyRefreshInterval (cfg_Authorization c) > 0 \<and> az_DecisionCacheTTL (cfg_Authorization c) > 0
    \<and> (psk_Enabled (at_PSK (cfg_Auth c)) \<longrightarrow> length (psk_Key (at_PSK (cfg_Auth c))) \<ge> 32)"
    using a env by auto
  ultimately show ?thesis using p(1,3) by auto
qed

definition production_config :: Config where
  "production_config = setDefaults
     \<lparr>cfg_App := \<lparr>ap_Name = ''authorization-service'', ap_Schema = [], ap_Env = ''production'', ap_ShutdownTimeout = seconds 10\<rparr>,
      cfg_GRPC := default_grpc\<lparr>gs_ReflectionEnabled := False,
        gs_TLS := \<lparr>gt_Enabled = True, gt_CertFile = ''c.pem'', gt_KeyFile = ''k.pem'', gt_ClientCAFile = []\<rparr>\<rparr>,
      cfg_Swagger := \<lparr>sw_Enabled = True, sw_RequireAuth = True\<rparr>,
      cfg_Auth := (snd (snd default_access))\<lparr>at_JWKSURL := ''https://id/jwks''\<rparr>,
      cfg_Authorization := \<lparr>az_Enabled = True, az_PolicyRefreshInterval = seconds 30, az_DecisionCacheTTL = seconds 30\<rparr>\<rparr>"

definition production_migrated :: Config where
  "production_migrated = production_config\<lparr>cfg_Migration := (cfg_Migration production_config)\<lparr>
     mi_Schema := dbs_Schema (cfg_Database production_config), mi_DatabaseName := dbs_Name (cfg_Database production_config)\<rparr>\<rparr>"

lemma production_valid: "Validate production_migrated = None"
  by code_simp

definition production_lib :: viper_lib where
  "production_lib = \<lparr>vp_BindEnv = None, vp_ReadInConfig = (\<lambda>p. None), vp_AppEnv = (\<lambda>p. ''Production''), vp_Stat = (\<lambda>p. FileMissing),
     vp_MergeInConfig = (\<lambda>p. None), vp_Unmarshal = (\<lambda>files profile. Inr production_config)\<rparr>"

text \<open>Witness of C35: a production configuration that loads.\<close>

theorem production_configuration_is_hardened_witness:
  "\<exists>c. LoadWithProfile production_lib ''config.yaml'' [] = Inr c \<and> ap_Env (cfg_App c) = ''production'' \<and> az_Enabled (cfg_Authorization c)"
proof -
  have p: "ToLower (TrimSpace ''Production'') = ''production''" "validProfile ''production''"
    "profileConfigPath ''config.yaml'' ''production'' \<noteq> ''config.yaml''" by code_simp+
  have l: "LoadWithProfile production_lib ''config.yaml'' [] = decode_config production_lib [''config.yaml''] ''production''"
    using p by (simp add: LoadWithProfile_def production_lib_def Let_def)
  obtain c where c: "decode_config production_lib [''config.yaml''] ''production'' = Inr c" "ap_Env (cfg_App c) = ''production''"
    using production_valid by (auto simp: decode_config_def production_lib_def Let_def production_migrated_def production_config_def)
  then have c: "LoadWithProfile production_lib ''config.yaml'' [] = Inr c" "ap_Env (cfg_App c) = ''production''" by (simp_all add: l)
  with production_configuration_is_hardened[OF c] show ?thesis by blast
qed

text \<open>C36. Patterns that were accepted at start-up never fail: \<open>Validate\<close> tries every route pattern on one
  sample path only and \<open>MatchesAny\<close> ignores pattern errors, but whether \<open>path.Match\<close> reports an error
  depends on the pattern alone. So for an accepted configuration every pattern gives an answer on
  every route, and \<open>MatchesAny\<close> is exact: a pattern without special characters matches exactly
  itself, and with one star at its end exactly the routes that continue in the same segment.\<close>

theorem accepted_patterns_never_fail:
  assumes "Validate c = None" "p \<in> set (route_patterns c)"
  shows "path_Match p name \<noteq> None
    \<and> (plain p \<longrightarrow> (MatchesAny name [p] \<longleftrightarrow> name = p))
    \<and> (\<forall>q. p = q @ ''*'' \<longrightarrow> plain q \<longrightarrow> q \<noteq> [] \<longrightarrow> (MatchesAny name [p] \<longleftrightarrow> (\<exists>t. name = q @ t \<and> CHR ''/'' \<notin> set t)))"
proof (intro conjI allI impI)
  show "path_Match p name \<noteq> None"
    using Validate_patterns[OF assms] by (simp add: bad_pattern_def path_Match_syntax)
next
  assume "plain p"
  then show "MatchesAny name [p] \<longleftrightarrow> name = p" by (simp add: MatchesAny_def path_Match_plain)
next
  fix q assume "p = q @ ''*''" "plain q" "q \<noteq> []"
  then show "MatchesAny name [p] \<longleftrightarrow> (\<exists>t. name = q @ t \<and> CHR ''/'' \<notin> set t)"
    by (auto simp: MatchesAny_def path_Match_star prefix_def)
qed

text \<open>Witness of C36: the default patterns.\<close>

theorem accepted_patterns_never_fail_witness:
  "''/grpc.health.v1.Health/*'' \<in> set (route_patterns setDefaults) \<and>
   (\<exists>m. path_Match ''/grpc.health.v1.Health/*'' ''/grpc.health.v1.Health/Check'' = Some m)"
proof -
  have p: "''/grpc.health.v1.Health/*'' \<in> set (route_patterns setDefaults)" by code_simp
  show ?thesis using accepted_patterns_never_fail[OF defaults_valid p, of "''/grpc.health.v1.Health/Check''"] p by blast
qed

text \<open>C7. A remote procedure, unary or streaming, can make a difference only for calls that passed the
  authentication and the route policy of exactly this method, evaluated for the caller that the
  pre-shared key or the verified token stands for. Exempt are, from authentication, the methods of
  the configured skip list, and, from the route policy, health checks and reflection, or all
  methods when authorization is disabled. The
  interceptor of the shared idempotency package is taken to run the procedure, if at all, on the
  call it was given.\<close>

theorem grpc_calls_are_admitted:
  assumes idem: "gate (ge_idempotency ge) (\<lambda>c s c' s'. c' = c)"
  shows "(unary_chain ge h c s \<noteq> unary_chain ge h' c s \<longrightarrow>
      (\<exists>c' s'. h c' s' \<noteq> h' c' s' \<and> grpc_admitted ge c c' \<and> gc_FullMethod c' = gc_FullMethod c \<and>
        (\<not> MatchesAny (gc_FullMethod c) (at_SkipGRPCMethods (cfg_Auth (ge_config ge))) \<longrightarrow> ctx_principal (gc_ctx c') \<noteq> None)))
    \<and> (stream_chain ge2 k c t \<noteq> stream_chain ge2 k' c t \<longrightarrow>
      (\<exists>c' s'. k c' s' \<noteq> k' c' s' \<and> grpc_admitted ge2 c c' \<and> gc_FullMethod c' = gc_FullMethod c \<and>
        (\<not> MatchesAny (gc_FullMethod c) (at_SkipGRPCMethods (cfg_Auth (ge_config ge2))) \<longrightarrow> ctx_principal (gc_ctx c') \<noteq> None)))"
proof (intro conjI impI)
  assume d: "unary_chain ge h c s \<noteq> unary_chain ge h' c s"
  obtain c' s' where "grpc_admitted ge c c'" "h c' s' \<noteq> h' c' s'"
    by (rule gate.reached[where mw = "unary_chain ge" and passes = "\<lambda>c s c' s'. grpc_admitted ge c c'", OF unary_chain_gate[OF idem] d])
  with grpc_admitted_identity show "\<exists>c' s'. h c' s' \<noteq> h' c' s' \<and> grpc_admitted ge c c' \<and> gc_FullMethod c' = gc_FullMethod c \<and>
      (\<not> MatchesAny (gc_FullMethod c) (at_SkipGRPCMethods (cfg_Auth (ge_config ge))) \<longrightarrow> ctx_principal (gc_ctx c') \<noteq> None)" by blast
next
  assume d: "stream_chain ge2 k c t \<noteq> stream_chain ge2 k' c t"
  obtain c' s' where "grpc_admitted ge2 c c'" "k c' s' \<noteq> k' c' s'"
    by (rule gate.reached[where mw = "stream_chain ge2" and passes = "\<lambda>c s c' s'. grpc_admitted ge2 c c'", OF stream_chain_gate d])
  with grpc_admitted_identity show "\<exists>c' s'. k c' s' \<noteq> k' c' s' \<and> grpc_admitted ge2 c c' \<and> gc_FullMethod c' = gc_FullMethod c \<and>
      (\<not> MatchesAny (gc_FullMethod c) (at_SkipGRPCMethods (cfg_Auth (ge_config ge2))) \<longrightarrow> ctx_principal (gc_ctx c') \<noteq> None)" by blast
qed

definition sample_grpc :: "(unit, unit) grpc_env" where
  "sample_grpc =
     \<lparr>ge_config = sample_config, ge_verify = sample_verify, ge_evaluate = sample_evaluate, ge_idempotency = (\<lambda>h. h),
      ge_validKey = (\<lambda>k. True), ge_SplitHostPort = (\<lambda>a. Inr a), ge_generated = ''generated'', ge_setHeader = None,
      ge_count = (\<lambda>m c s. s), ge_log = (\<lambda>x m c s. s)\<rparr>"

definition sample_call :: grpc_call where
  "sample_call =
     \<lparr>gc_FullMethod = ''/platform.S/Do'', gc_metadata = (\<lambda>k. if k = ''authorization'' then [''Bearer token''] else []), gc_peer = None,
      gc_ctx = empty_ctx, gc_subject = None, gc_header = []\<rparr>"

text \<open>Witness of C7: a call with a valid token.\<close>

theorem grpc_calls_are_admitted_witness:
  "unary_chain sample_grpc (\<lambda>c s. (GrpcReply (), s)) sample_call () \<noteq> unary_chain sample_grpc (\<lambda>c s. (GrpcPanic, s)) sample_call () \<and>
   (\<exists>c'. grpc_admitted sample_grpc sample_call c' \<and> ctx_principal (gc_ctx c') \<noteq> None)"
proof -
  have "fst (unary_chain sample_grpc (\<lambda>c s. (GrpcReply (), s)) sample_call ()) = GrpcReply ()" by code_simp
  moreover have "fst (unary_chain sample_grpc (\<lambda>c s. (GrpcPanic, s)) sample_call ()) = refused InternalCode ''internal server error''"
    by code_simp
  ultimately have d: "unary_chain sample_grpc (\<lambda>c s. (GrpcReply (), s)) sample_call ()
      \<noteq> unary_chain sample_grpc (\<lambda>c s. (GrpcPanic, s)) sample_call ()" by auto
  have g: "gate (ge_idempotency sample_grpc) (\<lambda>c s c' s'. c' = c)" by (simp add: sample_grpc_def gate_def)
  have f: "\<not> MatchesAny (gc_FullMethod sample_call) (at_SkipGRPCMethods (cfg_Auth (ge_config sample_grpc)))" by code_simp
  from mp[OF conjunct1[OF grpc_calls_are_admitted[OF g]] d] d f show ?thesis by blast
qed

end
