(* ===== verification/Operations.thy ===== *)
theory Operations
  imports Middleware
begin

text \<open>
  The operational parts of the service: liveness and readiness (\<open>internal/health/service.go\<close> and
  the handlers of \<open>internal/transport/http/handler.go\<close>), build information
  (\<open>internal/buildinfo/buildinfo.go\<close>), the distributed lock and the Redis connection
  (\<open>internal/cache/redis.go\<close>), the database connection (\<open>internal/database/database.go\<close>), the
  scheduled job (\<open>internal/scheduler/scheduler.go\<close>) and the optional connections of
  \<open>internal/app/app.go\<close>.

  Drivers, redsync, the clock and \<open>Duration.String\<close> are arguments. A channel of two results is the
  list of the results in the order of their arrival.
\<close>

section \<open>Health\<close>

record Dependency =
  hd_Status :: gostring
  hd_Latency :: gostring

record Status =
  hs_Status :: gostring
  hs_Dependencies :: "gostring \<rightharpoonup> Dependency"

record health_result =
  hr_name :: gostring
  hr_dependency :: Dependency
  hr_ready :: bool

text \<open>A dependency that is not configured is a nil pointer; otherwise a ping with a timeout gives an
  error or none, and takes some time.\<close>

record health_Service =
  hv_db :: "(time \<Rightarrow> goerr option \<times> time) option"
  hv_redis :: "(time \<Rightarrow> goerr option \<times> time) option"
  hv_cfg :: Health

definition checkResult :: "(time \<Rightarrow> gostring) \<Rightarrow> gostring \<Rightarrow> time \<Rightarrow> goerr option \<Rightarrow> health_result" where
  "checkResult str name elapsed err =
     (let dependency = \<lparr>hd_Status = ''up'', hd_Latency = str elapsed\<rparr> in
      if err \<noteq> None then \<lparr>hr_name = name, hr_dependency = dependency\<lparr>hd_Status := ''down''\<rparr>, hr_ready = False\<rparr>
      else \<lparr>hr_name = name, hr_dependency = dependency, hr_ready = True\<rparr>)"

definition checkDatabase :: "(time \<Rightarrow> gostring) \<Rightarrow> health_Service \<Rightarrow> health_result" where
  "checkDatabase str s =
     (case hv_db s of
        None \<Rightarrow> \<lparr>hr_name = ''database'', hr_dependency = \<lparr>hd_Status = ''disabled'', hd_Latency = []\<rparr>, hr_ready = True\<rparr>
      | Some ping \<Rightarrow> (case ping (hl_DatabaseTimeout (hv_cfg s)) of (err, elapsed) \<Rightarrow> checkResult str ''database'' elapsed err))"

definition checkRedis :: "(time \<Rightarrow> gostring) \<Rightarrow> health_Service \<Rightarrow> health_result" where
  "checkRedis str s =
     (case hv_redis s of
        None \<Rightarrow> \<lparr>hr_name = ''redis'', hr_dependency = \<lparr>hd_Status = ''disabled'', hd_Latency = []\<rparr>, hr_ready = True\<rparr>
      | Some ping \<Rightarrow> (case ping (hl_RedisTimeout (hv_cfg s)) of (err, elapsed) \<Rightarrow> checkResult str ''redis'' elapsed err))"

definition health_Live :: Status where
  "health_Live = \<lparr>hs_Status = ''up'', hs_Dependencies = Map.empty\<rparr>"

text \<open>The loop of \<open>Ready\<close> over the results in the order of arrival; \<open>redisFirst\<close> says which of the two
  goroutines sends first.\<close>

fun receive :: "health_result list \<Rightarrow> Status \<times> bool \<Rightarrow> Status \<times> bool" where
  "receive [] acc = acc"
| "receive (item # items) (status, ready) =
     receive items (status\<lparr>hs_Dependencies := (hs_Dependencies status)(hr_name item \<mapsto> hr_dependency item)\<rparr>,
                    ready \<and> hr_ready item)"

definition arrivals :: "(time \<Rightarrow> gostring) \<Rightarrow> bool \<Rightarrow> health_Service \<Rightarrow> health_result list" where
  "arrivals str redisFirst s =
     (if redisFirst then [checkRedis str s, checkDatabase str s] else [checkDatabase str s, checkRedis str s])"

definition health_Ready :: "(time \<Rightarrow> gostring) \<Rightarrow> bool \<Rightarrow> health_Service \<Rightarrow> Status \<times> bool" where
  "health_Ready str redisFirst s =
     (case receive (arrivals str redisFirst s) (\<lparr>hs_Status = ''ready'', hs_Dependencies = Map.empty\<rparr>, True) of
        (status, ready) \<Rightarrow> (if ready then status else status\<lparr>hs_Status := ''not_ready''\<rparr>, ready))"

lemma receive_append: "receive (xs @ ys) acc = receive ys (receive xs acc)"
  by (induction xs acc rule: receive.induct) auto

lemma receive_swap:
  assumes "hr_name a \<noteq> hr_name b"
  shows "receive [a, b] acc = receive [b, a] acc"
  using assms by (cases acc) (auto simp: fun_upd_twist)

lemma check_names [simp]: "hr_name (checkDatabase str s) = ''database''" "hr_name (checkRedis str s) = ''redis''"
  by (auto simp: checkDatabase_def checkRedis_def checkResult_def Let_def split: option.splits prod.splits)

lemma arrival_order: "receive (arrivals str f s) acc = receive (arrivals str f' s) acc"
proof -
  have "receive [checkRedis str s, checkDatabase str s] acc = receive [checkDatabase str s, checkRedis str s] acc"
    by (rule receive_swap) simp
  then show ?thesis unfolding arrivals_def by (cases f; cases f') (simp_all only: if_True if_False)
qed

lemma ready_independent_of_arrival: "health_Ready str f s = health_Ready str f' s"
  unfolding health_Ready_def by (subst arrival_order[of str f s _ f']) (rule refl)

lemma dependency_ready:
  "hr_ready (checkDatabase str s) \<longleftrightarrow> (\<forall>ping. hv_db s = Some ping \<longrightarrow> fst (ping (hl_DatabaseTimeout (hv_cfg s))) = None)"
  "hr_ready (checkRedis str s) \<longleftrightarrow> (\<forall>ping. hv_redis s = Some ping \<longrightarrow> fst (ping (hl_RedisTimeout (hv_cfg s))) = None)"
  by (auto simp: checkDatabase_def checkRedis_def checkResult_def Let_def split: option.splits prod.splits)

text \<open>Ready means that every configured dependency answered its ping, and the status says so.\<close>

lemma ready_exact:
  "snd (health_Ready str redisFirst s) \<longleftrightarrow> hr_ready (checkDatabase str s) \<and> hr_ready (checkRedis str s)"
  "hs_Status (fst (health_Ready str redisFirst s)) = (if snd (health_Ready str redisFirst s) then ''ready'' else ''not_ready'')"
  "dom (hs_Dependencies (fst (health_Ready str redisFirst s))) = {''database'', ''redis''}"
  by (auto simp: health_Ready_def arrivals_def)

section \<open>The handlers of handler.go\<close>

record Info =
  bi_Version :: gostring
  bi_Commit :: gostring
  bi_BuildTime :: gostring
  bi_StartedAt :: time
  bi_Uptime :: gostring

text \<open>\<open>Duration.Round(time.Second)\<close>: to the nearest second, halves away from zero.\<close>

definition buildinfo_Current :: "(time \<Rightarrow> gostring) \<Rightarrow> gostring \<Rightarrow> gostring \<Rightarrow> gostring \<Rightarrow> time \<Rightarrow> time \<Rightarrow> Info" where
  "buildinfo_Current str version commit built startedAt now =
     \<lparr>bi_Version = version, bi_Commit = commit, bi_BuildTime = built, bi_StartedAt = startedAt,
      bi_Uptime = str (round_seconds (now - startedAt) * 1000000000)\<rparr>"

definition http_Live :: "ctx \<Rightarrow> Status reply" where
  "http_Live x = OK x health_Live"

definition http_Ready :: "(time \<Rightarrow> gostring) \<Rightarrow> bool \<Rightarrow> health_Service \<Rightarrow> ctx \<Rightarrow> Status reply" where
  "http_Ready str redisFirst hs x =
     (case health_Ready str redisFirst hs of (status, ready) \<Rightarrow>
        if \<not> ready
        then (503, \<lparr>rs_Code = CodeDependencyUnavailable, rs_Message = ''service is not ready'', rs_Body = Some status,
                    rs_RequestID = requestID x\<rparr>)
        else OK x status)"

record MeResponseBody =
  me_Subject :: "gostring option" \<comment> \<open>null for a request without a subject\<close>

definition http_Me :: "gin \<Rightarrow> MeResponseBody reply" where
  "http_Me c = OK (g_ctx c) \<lparr>me_Subject = g_subject c\<rparr>"

definition http_Version :: "Info \<Rightarrow> ctx \<Rightarrow> Info reply" where
  "http_Version info x = OK x info"

definition grpc_health_Check :: "(time \<Rightarrow> gostring) \<Rightarrow> bool \<Rightarrow> health_Service \<Rightarrow> gostring" where
  "grpc_health_Check str redisFirst hs =
     (case health_Ready str redisFirst hs of (_, ready) \<Rightarrow> if ready then ''SERVING'' else ''NOT_SERVING'')"

definition grpc_health_List :: "gostring \<rightharpoonup> gostring" where
  "grpc_health_List = [[] \<mapsto> ''SERVING'']"

text \<open>The two readiness interfaces agree; the list of the health service does not look at the
  dependencies.\<close>

lemma readiness_interfaces_agree:
  "fst (http_Ready str f hs x) = 200 \<longleftrightarrow> grpc_health_Check str f' hs = ''SERVING''"
  using ready_independent_of_arrival[of str f hs f']
  by (auto simp: http_Ready_def grpc_health_Check_def OK_def split: prod.splits)

lemma health_list_unconditional:
  "hv_db hs = Some (\<lambda>_. (Some err, 0)) \<Longrightarrow>
     grpc_health_List [] = Some ''SERVING'' \<and> grpc_health_Check str f hs = ''NOT_SERVING''"
  using ready_exact(1)[of str f hs] dependency_ready(1)[of str hs]
  by (auto simp: grpc_health_List_def grpc_health_Check_def split: prod.splits)

section \<open>The distributed lock\<close>

text \<open>A mutex of redsync with the options given to it; without options the library's defaults hold.\<close>

record Mutex =
  mx_Name :: gostring
  mx_Expiry :: time
  mx_Tries :: "int option"
  mx_RetryDelay :: "time option"

text \<open>redsync on a state \<open>'s\<close>. \<open>rd_ErrFailed\<close> and \<open>rd_ErrTaken\<close> stand for \<open>errors.Is\<close> with \<open>ErrFailed\<close>
  and \<open>errors.As\<close> with \<open>ErrTaken\<close>; \<open>rd_ctxErr\<close> is the error of the caller's context after waiting.\<close>

record 's redsync =
  rd_TryLock :: "Mutex \<Rightarrow> 's \<Rightarrow> goerr option \<times> 's"
  rd_Lock :: "Mutex \<Rightarrow> 's \<Rightarrow> goerr option \<times> 's"
  rd_Extend :: "Mutex \<Rightarrow> 's \<Rightarrow> (bool \<times> goerr option) \<times> 's"
  rd_Unlock :: "Mutex \<Rightarrow> 's \<Rightarrow> (bool \<times> goerr option) \<times> 's"
  rd_ErrFailed :: "goerr \<Rightarrow> bool"
  rd_ErrTaken :: "goerr \<Rightarrow> bool"
  rd_ctxErr :: "'s \<Rightarrow> goerr option"

definition isContention :: "'s redsync \<Rightarrow> goerr \<Rightarrow> bool" where
  "isContention rd err = (if rd_ErrFailed rd err then True else rd_ErrTaken rd err)"

definition newMutex :: "gostring \<Rightarrow> time \<Rightarrow> (Mutex \<Rightarrow> Mutex) \<Rightarrow> Mutex result" where
  "newMutex key ttl options =
     (if key = [] then Inl (OtherError ''lock key must not be empty'')
      else if ttl \<le> 0 then Inl (OtherError ''lock ttl must be positive'')
      else Inr ((options \<lparr>mx_Name = ''lock:'' @ key, mx_Expiry = 0, mx_Tries = None, mx_RetryDelay = None\<rparr>)\<lparr>mx_Expiry := ttl\<rparr>))"

text \<open>The triple of \<open>TryLock\<close>: the lock and true, nil and false when it is held, or an error.\<close>

definition Locker_TryLock :: "'s redsync \<Rightarrow> gostring \<Rightarrow> time \<Rightarrow> 's \<Rightarrow> Mutex option result \<times> 's" where
  "Locker_TryLock rd key ttl s =
     (case newMutex key ttl (\<lambda>m. m\<lparr>mx_Tries := Some 1\<rparr>) of
        Inl err \<Rightarrow> (Inl err, s)
      | Inr mutex \<Rightarrow>
          (case rd_TryLock rd mutex s of
             (Some err, s') \<Rightarrow> (if isContention rd err then Inr None else Inl (Wrapf (''try redis lock '' @ quoted key) err), s')
           | (None, s') \<Rightarrow> (Inr (Some mutex), s')))"

definition Locker_Lock :: "'s redsync \<Rightarrow> gostring \<Rightarrow> time \<Rightarrow> time \<Rightarrow> 's \<Rightarrow> Mutex result \<times> 's" where
  "Locker_Lock rd key ttl retryDelay s =
     (if retryDelay \<le> 0 then (Inl (OtherError ''lock retry delay must be positive''), s)
      else case newMutex key ttl (\<lambda>m. m\<lparr>mx_RetryDelay := Some retryDelay\<rparr>) of
        Inl err \<Rightarrow> (Inl err, s)
      | Inr mutex \<Rightarrow>
          (case rd_Lock rd mutex s of
             (Some err, s') \<Rightarrow>
               (case rd_ctxErr rd s' of
                  Some ctxErr \<Rightarrow> (Inl (Wrapf (''wait for redis lock '' @ quoted key) ctxErr), s')
                | None \<Rightarrow> (Inl (Wrapf (''acquire redis lock '' @ quoted key) err), s'))
           | (None, s') \<Rightarrow> (Inr mutex, s')))"

definition owned :: "gostring \<Rightarrow> Mutex \<Rightarrow> (bool \<times> goerr option) \<times> 's \<Rightarrow> goerr option \<times> 's" where
  "owned verb l outcome =
     (case outcome of ((held, err), s') \<Rightarrow>
        (case err of
           Some e \<Rightarrow> (Some (Wrapf (verb @ '' redis lock '' @ quoted (mx_Name l)) e), s')
         | None \<Rightarrow>
             (if \<not> held then Some (OtherError (verb @ '' redis lock '' @ quoted (mx_Name l) @ '': lock is no longer owned'')) else None,
              s')))"

definition Lock_Extend :: "'s redsync \<Rightarrow> Mutex \<Rightarrow> 's \<Rightarrow> goerr option \<times> 's" where
  "Lock_Extend rd l s = owned ''extend'' l (rd_Extend rd l s)"

definition Lock_Unlock :: "'s redsync \<Rightarrow> Mutex \<Rightarrow> 's \<Rightarrow> goerr option \<times> 's" where
  "Lock_Unlock rd l s = owned ''release'' l (rd_Unlock rd l s)"

text \<open>Every mutex that reaches redsync has a named key and a positive time to live, so a lost lock
  always expires.\<close>

lemma newMutex_Inr:
  assumes "newMutex key ttl options = Inr m" "\<And>m. mx_Name (options m) = mx_Name m"
  shows "mx_Name m = ''lock:'' @ key" "key \<noteq> []" "0 < mx_Expiry m" "mx_Expiry m = ttl"
  using assms by (auto simp: newMutex_def split: if_splits)

lemma TryLock_held: "rd_TryLock rd m s = (Some err, s') \<Longrightarrow> isContention rd err \<Longrightarrow>
  newMutex key ttl (\<lambda>m. m\<lparr>mx_Tries := Some 1\<rparr>) = Inr m \<Longrightarrow> Locker_TryLock rd key ttl s = (Inr None, s')"
  by (simp add: Locker_TryLock_def)

section \<open>The scheduled job\<close>

text \<open>The messages a run writes, in order.\<close>

datatype job_event = JobExecuted | JobSkipped | JobLockFailed | JobUnlockFailed

definition runSample :: "'s redsync option \<Rightarrow> 's \<Rightarrow> goerr option \<times> job_event list \<times> 's" where
  "runSample locker s =
     (case locker of
        None \<Rightarrow> (None, [JobExecuted], s)
      | Some rd \<Rightarrow>
          (case Locker_TryLock rd ''cron:sample'' 60000000000 s of
             (Inl err, s') \<Rightarrow> (Some err, [JobLockFailed], s')
           | (Inr None, s') \<Rightarrow> (None, [JobSkipped], s')
           | (Inr (Some lock), s') \<Rightarrow>
               (case Lock_Unlock rd lock s' of
                  (Some err, s'') \<Rightarrow> (None, [JobExecuted, JobUnlockFailed], s'')
                | (None, s'') \<Rightarrow> (None, [JobExecuted], s''))))"

text \<open>The function registered with cron: the metrics it writes.\<close>

definition sample_job :: "'s redsync option \<Rightarrow> 's \<Rightarrow> (gostring \<times> gostring) \<times> job_event list \<times> 's" where
  "sample_job locker s =
     (case runSample locker s of (err, events, s') \<Rightarrow> ((''sample'', if err = None then ''success'' else ''error''), events, s'))"

text \<open>Job runs under a lock service: with a service that gives a free lock to one caller and takes it
  back on release, a run executes exactly when the lock was free and leaves it free.\<close>

definition lock_contract :: "'s redsync \<Rightarrow> ('s \<Rightarrow> gostring set) \<Rightarrow> bool" where
  "lock_contract rd held =
     ((\<forall>m s. mx_Name m \<notin> held s \<longrightarrow> fst (rd_TryLock rd m s) = None \<and> held (snd (rd_TryLock rd m s)) = insert (mx_Name m) (held s))
      \<and> (\<forall>m s. mx_Name m \<in> held s \<longrightarrow> (\<exists>err. rd_TryLock rd m s = (Some err, s) \<and> rd_ErrTaken rd err))
      \<and> (\<forall>m s. fst (rd_Unlock rd m s) = (mx_Name m \<in> held s, None) \<and> held (snd (rd_Unlock rd m s)) = held s - {mx_Name m}))"

lemma runSample_exclusive:
  assumes "lock_contract rd held"
  shows "fst (snd (runSample (Some rd) s)) = (if ''lock:cron:sample'' \<in> held s then [JobSkipped] else [JobExecuted])"
    and "fst (runSample (Some rd) s) = None" and "held (snd (snd (runSample (Some rd) s))) = held s"
proof -
  define m where "m = \<lparr>mx_Name = ''lock:cron:sample'', mx_Expiry = 60000000000, mx_Tries = Some 1, mx_RetryDelay = None\<rparr>"
  have mx: "newMutex ''cron:sample'' 60000000000 (\<lambda>m. m\<lparr>mx_Tries := Some 1\<rparr>) = Inr m" by (simp add: newMutex_def m_def)
  have n: "mx_Name m = ''lock:cron:sample''" by (simp add: m_def)
  have "fst (snd (runSample (Some rd) s)) = (if mx_Name m \<in> held s then [JobSkipped] else [JobExecuted])
     \<and> fst (runSample (Some rd) s) = None \<and> held (snd (snd (runSample (Some rd) s))) = held s"
  proof (cases "mx_Name m \<in> held s")
    case True
    then obtain err where "rd_TryLock rd m s = (Some err, s)" "rd_ErrTaken rd err" using assms unfolding lock_contract_def by meson
    then show ?thesis using True by (simp add: runSample_def Locker_TryLock_def mx isContention_def)
  next
    case False
    define s' where "s' = snd (rd_TryLock rd m s)"
    define s'' where "s'' = snd (rd_Unlock rd m s')"
    have t: "rd_TryLock rd m s = (None, s')" "held s' = insert (mx_Name m) (held s)"
      using assms False by (simp_all add: lock_contract_def s'_def prod_eq_iff)
    have u: "rd_Unlock rd m s' = ((True, None), s'')" "held s'' = held s' - {mx_Name m}"
      using assms t(2) by (simp_all add: lock_contract_def s''_def prod_eq_iff)
    show ?thesis
      using False t u by (auto simp: runSample_def Locker_TryLock_def mx Lock_Unlock_def owned_def)
  qed
  then show "fst (snd (runSample (Some rd) s)) = (if ''lock:cron:sample'' \<in> held s then [JobSkipped] else [JobExecuted])"
    "fst (runSample (Some rd) s) = None" "held (snd (snd (runSample (Some rd) s))) = held s" by (auto simp: n)
qed

end
