(* ===== verification/Servers.thy ===== *)
theory Servers
  imports Middleware Grpc_Access Route_Policy_Laws Operations
begin

text \<open>
  The two servers: the routes that \<open>NewServer\<close> of \<open>internal/transport/http/server.go\<close> registers, the
  groups they belong to, the route discovery, and the start hooks of the HTTP server and of the gRPC
  server (\<open>internal/transport/grpc/server.go\<close>).

  The router is the function from method and path to the registered route; how gin orders
  \<open>router.Routes()\<close>, names handler functions and answers an unknown route are arguments, as are
  \<open>platformpolicy.NewRoute\<close>, the services a gRPC server knows and \<open>net.Listen\<close>.
\<close>

section \<open>The routes of the HTTP server\<close>

datatype route_group = RootGroup | PprofGroup | SwaggerGroup | ApiGroup

record RouteInfo =
  ri_Method :: gostring
  ri_Path :: gostring
  ri_Handler :: gostring

type_synonym registration = "route_group \<times> RouteInfo"

definition handle_route :: "route_group \<Rightarrow> gostring \<Rightarrow> gostring \<Rightarrow> gostring \<Rightarrow> registration" where
  "handle_route g method path h = (g, \<lparr>ri_Method = method, ri_Path = path, ri_Handler = h\<rparr>)"

definition api_posts :: "(gostring \<times> gostring) list" where
  "api_posts =
     [(''/version'', ''Version''),
      (''/me'', ''Me''),
      (''/authorization/permissions/create'', ''CreatePermission''),
      (''/authorization/permissions/get'', ''GetPermission''),
      (''/authorization/permissions/update'', ''UpdatePermission''),
      (''/authorization/permissions/list'', ''ListPermissions''),
      (''/authorization/my-permission-catalog/list'', ''ListMyPermissionCatalog''),
      (''/authorization/my-permissions/create'', ''CreateMyPermission''),
      (''/authorization/my-permissions/get'', ''GetMyPermission''),
      (''/authorization/my-permissions/update'', ''UpdateMyPermission''),
      (''/authorization/my-permissions/list'', ''ListMyPermissions''),
      (''/authorization/roles/create'', ''CreateRole''),
      (''/authorization/roles/get'', ''GetRole''),
      (''/authorization/roles/update'', ''UpdateRole''),
      (''/authorization/roles/list'', ''ListRoles''),
      (''/authorization/my-roles/create'', ''CreateMyRole''),
      (''/authorization/my-roles/get'', ''GetMyRole''),
      (''/authorization/my-roles/update'', ''UpdateMyRole''),
      (''/authorization/my-roles/list'', ''ListMyRoles''),
      (''/authorization/my-roles/batch-get'', ''BatchGetMyRoles''),
      (''/authorization/role-permissions/grant'', ''GrantRolePermission''),
      (''/authorization/role-permissions/revoke'', ''RevokeRolePermission''),
      (''/authorization/role-permissions/list'', ''ListRolePermissions''),
      (''/authorization/my-role-permissions/grant'', ''GrantMyRolePermission''),
      (''/authorization/my-role-permissions/revoke'', ''RevokeMyRolePermission''),
      (''/authorization/my-role-permissions/list'', ''ListMyRolePermissions''),
      (''/authorization/my-role-permissions/batch-get'', ''BatchGetMyRolePermissions''),
      (''/authorization/bindings/create'', ''CreateBinding''),
      (''/authorization/bindings/get'', ''GetBinding''),
      (''/authorization/bindings/revoke'', ''RevokeBinding''),
      (''/authorization/bindings/list'', ''ListBindings''),
      (''/authorization/my-bindings/create'', ''CreateMyBinding''),
      (''/authorization/my-bindings/get'', ''GetMyBinding''),
      (''/authorization/my-bindings/revoke'', ''RevokeMyBinding''),
      (''/authorization/my-bindings/list'', ''ListMyBindings''),
      (''/authorization/check'', ''CheckAuthorization''),
      (''/authorization/batch-check'', ''BatchCheckAuthorization''),
      (''/authorization/my-permissions/check'', ''CheckMyPermissionCodes''),
      (''/route-policies/page'', ''PageRoutePolicies''),
      (''/route-policies/get'', ''GetRoutePolicy''),
      (''/route-policies/set'', ''SetRoutePolicy'')]"

definition registerPprof :: "registration list" where
  "registerPprof =
     map (\<lambda>(method, path). handle_route PprofGroup method (''/debug/pprof'' @ path) (''pprof'' @ path))
       [(''GET'', ''/''), (''GET'', ''/cmdline''), (''GET'', ''/profile''), (''POST'', ''/symbol''), (''GET'', ''/symbol''), (''GET'', ''/trace'')]
     @ map (\<lambda>profile. handle_route PprofGroup ''GET'' (''/debug/pprof/'' @ profile) (''pprof/'' @ profile))
       [''allocs'', ''block'', ''goroutine'', ''heap'', ''mutex'', ''threadcreate'']"

definition http_routes :: "Config \<Rightarrow> registration list" where
  "http_routes cfg =
     concat (map (\<lambda>method. [handle_route RootGroup method ''/live'' ''Live'', handle_route RootGroup method ''/ready'' ''Ready''])
       [''GET'', ''POST''])
     @ (if obs_MetricsEnabled (cfg_Observability cfg) then [handle_route RootGroup ''GET'' ''/metrics'' ''metrics''] else [])
     @ (if obs_PprofEnabled (cfg_Observability cfg) then registerPprof else [])
     @ (if sw_Enabled (cfg_Swagger cfg) then [handle_route SwaggerGroup ''GET'' ''/swagger/*any'' ''swagger''] else [])
     @ map (\<lambda>(path, h). handle_route ApiGroup ''POST'' (''/api/v1'' @ path) h) api_posts"

text \<open>The middleware of a group behind the middleware of the router.\<close>

definition group_chain :: "('s, 'b) http_env \<Rightarrow> route_group \<Rightarrow> 's middleware" where
  "group_chain he g h =
     (case g of RootGroup \<Rightarrow> h | PprofGroup \<Rightarrow> pprof_chain he h | SwaggerGroup \<Rightarrow> swagger_chain he h | ApiGroup \<Rightarrow> api_chain he h)"

definition find_route :: "Config \<Rightarrow> gostring \<Rightarrow> gostring \<Rightarrow> registration option" where
  "find_route cfg method path = find (\<lambda>(g, i). ri_Method i = method \<and> ri_Path i = path) (http_routes cfg)"

definition ServeHTTP :: "('s, 'b) http_env \<Rightarrow> 's handler \<Rightarrow> (gostring \<Rightarrow> 's handler) \<Rightarrow> 's handler" where
  "ServeHTTP he noRoute handlers c s =
     (case find_route (he_config he) (g_Method c) (g_FullPath c) of
        None \<Rightarrow> noRoute c s
      | Some (g, i) \<Rightarrow> global_chain he (group_chain he g (handlers (ri_Handler i))) c s)"

section \<open>Discovery and start of the HTTP server\<close>

type_synonym new_route = "gostring \<Rightarrow> gostring \<Rightarrow> gostring \<Rightarrow> gostring \<Rightarrow> gostring \<Rightarrow> Route result"

fun discoveredBusinessRoutes :: "new_route \<Rightarrow> gostring \<Rightarrow> RouteInfo list \<Rightarrow> gostring \<Rightarrow> Route list result" where
  "discoveredBusinessRoutes newRoute version [] serviceName = Inr []"
| "discoveredBusinessRoutes newRoute version (info # infos) serviceName =
     (if \<not> prefix ''/api/v1/'' (ri_Path info) then discoveredBusinessRoutes newRoute version infos serviceName
      else case newRoute ''http'' (ri_Method info) (ri_Path info) serviceName version of
        Inl err \<Rightarrow> Inl (Wrapf (''describe HTTP route '' @ ri_Path info) err)
      | Inr route \<Rightarrow>
          (case discoveredBusinessRoutes newRoute version infos serviceName of
             Inl err \<Rightarrow> Inl err
           | Inr routes \<Rightarrow> Inr (route\<lparr>ro_Operation := ri_Handler info\<rparr> # routes)))"

text \<open>What a start hook changes, and whether the HTTP server listens and the incomplete policy
  coverage was reported.\<close>

record start_world =
  sw_db :: route_db
  sw_manager :: Manager
  sw_listening :: bool
  sw_warned :: bool

record start_env =
  se_policy :: policy_env
  se_newRoute :: new_route
  se_version :: gostring
  se_now :: time
  se_ctx :: ctx
  se_arrange :: "RouteInfo list \<Rightarrow> RouteInfo list" \<comment> \<open>the order of \<open>router.Routes()\<close>\<close>
  se_handlerName :: "gostring \<Rightarrow> gostring"
  se_grpcServices :: "(gostring \<times> gostring list) list" \<comment> \<open>\<open>GetServiceInfo\<close>: services and their methods\<close>
  se_others :: "route_db \<Rightarrow> route_db" \<comment> \<open>writes of other instances between two statements\<close>
  se_Listen :: "gostring \<Rightarrow> goerr option"

definition router_Routes :: "start_env \<Rightarrow> Config \<Rightarrow> RouteInfo list" where
  "router_Routes se cfg =
     se_arrange se (map (\<lambda>(g, i). i\<lparr>ri_Handler := se_handlerName se (ri_Handler i)\<rparr>) (http_routes cfg))"

text \<open>Synchronise the routes, then load the policies; both hooks begin like this.\<close>

definition sync_and_load ::
  "start_env \<Rightarrow> Config \<Rightarrow> gostring \<Rightarrow> gostring \<Rightarrow> gostring \<Rightarrow> Route list \<Rightarrow> start_world \<Rightarrow> goerr option \<times> start_world" where
  "sync_and_load se cfg syncing loading source routes w =
     (case SyncRoutes (pol_sysctx (se_policy se)) (se_now se) (pol_conn (se_policy se) 20) (se_ctx se) routes
             (ap_Name (cfg_App cfg) @ '':route-discovery'') (sw_db w) of
        (Some err, db) \<Rightarrow> (Some (Wrapf syncing err), w\<lparr>sw_db := db\<rparr>)
      | (None, db) \<Rightarrow>
          (case RefreshSource (se_policy se) source (se_others se db) (se_others se (se_others se db)) (sw_manager w) of
             (Some err, m) \<Rightarrow> (Some (Wrapf loading err), w\<lparr>sw_db := db, sw_manager := m\<rparr>)
           | (None, m) \<Rightarrow> (None, w\<lparr>sw_db := db, sw_manager := m\<rparr>)))"

definition listen :: "start_env \<Rightarrow> gostring \<Rightarrow> gostring \<Rightarrow> start_world \<Rightarrow> goerr option \<times> start_world" where
  "listen se address message w =
     (case se_Listen se address of
        Some err \<Rightarrow> (Some (Wrapf message err), w)
      | None \<Rightarrow> (None, w\<lparr>sw_listening := True\<rparr>))"

definition http_OnStart :: "start_env \<Rightarrow> Config \<Rightarrow> start_world \<Rightarrow> goerr option \<times> start_world" where
  "http_OnStart se cfg w =
     (case (if az_Enabled (cfg_Authorization cfg) then
              (case discoveredBusinessRoutes (se_newRoute se) (se_version se) (router_Routes se cfg) (ap_Name (cfg_App cfg)) of
                 Inl err \<Rightarrow> (Some err, w)
               | Inr routes \<Rightarrow>
                   (case sync_and_load se cfg ''sync HTTP routes'' ''load route policies'' ''startup-http'' routes w of
                      (Some err, w') \<Rightarrow> (Some err, w')
                    | (None, w') \<Rightarrow>
                        (None, case ValidateRoutes (se_policy se) (se_ctx se) (ap_Name (cfg_App cfg)) (se_others se (sw_db w')) (sw_manager w') of
                                 Some err \<Rightarrow> w'\<lparr>sw_warned := True\<rparr>
                               | None \<Rightarrow> w')))
            else (None, w)) of
        (Some err, w') \<Rightarrow> (Some err, w')
      | (None, w') \<Rightarrow> listen se (ht_Address (cfg_HTTP cfg)) ''listen http'' w')"

section \<open>Discovery and start of the gRPC server\<close>

fun service_routes :: "new_route \<Rightarrow> gostring \<Rightarrow> gostring \<Rightarrow> gostring list \<Rightarrow> Route list result" where
  "service_routes newRoute serviceName service [] = Inr []"
| "service_routes newRoute serviceName service (method # methods) =
     (let path = ''/'' @ service @ ''/'' @ method in
      case newRoute ''grpc'' ''call'' path serviceName [] of
        Inl err \<Rightarrow> Inl err
      | Inr route \<Rightarrow>
          (case service_routes newRoute serviceName service methods of
             Inl err \<Rightarrow> Inl err
           | Inr routes \<Rightarrow> Inr (route\<lparr>ro_Operation := path\<rparr> # routes)))"

fun discoveredGRPCRoutes :: "new_route \<Rightarrow> (gostring \<times> gostring list) list \<Rightarrow> gostring \<Rightarrow> Route list result" where
  "discoveredGRPCRoutes newRoute [] serviceName = Inr []"
| "discoveredGRPCRoutes newRoute ((service, methods) # services) serviceName =
     (if service = ''grpc.health.v1.Health'' then discoveredGRPCRoutes newRoute services serviceName
      else case service_routes newRoute serviceName service methods of
        Inl err \<Rightarrow> Inl err
      | Inr routes \<Rightarrow>
          (case discoveredGRPCRoutes newRoute services serviceName of
             Inl err \<Rightarrow> Inl err
           | Inr later \<Rightarrow> Inr (routes @ later)))"

definition grpc_start :: "start_env \<Rightarrow> bool \<Rightarrow> gostring \<Rightarrow> start_world \<Rightarrow> goerr option \<times> start_world" where
  "grpc_start se enabled address w = (if \<not> enabled then (None, w) else listen se address ''listen grpc'' w)"

definition grpc_OnStart :: "start_env \<Rightarrow> Config \<Rightarrow> start_world \<Rightarrow> goerr option \<times> start_world" where
  "grpc_OnStart se cfg w =
     (case (if gs_Enabled (cfg_GRPC cfg) \<and> az_Enabled (cfg_Authorization cfg) then
              (case discoveredGRPCRoutes (se_newRoute se) (se_grpcServices se) (ap_Name (cfg_App cfg)) of
                 Inl err \<Rightarrow> (Some err, w)
               | Inr routes \<Rightarrow> sync_and_load se cfg ''sync gRPC routes'' ''load gRPC route policies'' ''startup-grpc'' routes w)
            else (None, w)) of
        (Some err, w') \<Rightarrow> (Some err, w')
      | (None, w') \<Rightarrow> grpc_start se (gs_Enabled (cfg_GRPC cfg)) (gs_Address (cfg_GRPC cfg)) w')"

text \<open>\<open>stop\<close>: the graceful stop wins, or the context ends first and the server is stopped at once.\<close>

definition grpc_stop :: "goerr option \<Rightarrow> start_world \<Rightarrow> goerr option \<times> start_world" where
  "grpc_stop contextDone w = (contextDone, w\<lparr>sw_listening := False\<rparr>)"

end
