(* ===== verification/Server_Laws.thy ===== *)
theory Server_Laws
  imports Servers Middleware_Laws
begin

text \<open>
  Laws of the two servers: which group a registered route belongs to, what the middleware of each
  group lets through, and what the synchronisation of discovered routes leaves in the table.
\<close>

section \<open>The registered routes\<close>

lemmas route_tables = http_routes_def registerPprof_def handle_route_def

lemma http_routes_group:
  "(g, i) \<in> set (http_routes cfg) \<Longrightarrow> prefix ''/api/v1/'' (ri_Path i) \<longleftrightarrow> g = ApiGroup"
  by (auto simp: route_tables api_posts_def split: if_splits)

lemma http_routes_api:
  "(ApiGroup, i) \<in> set (http_routes cfg) \<Longrightarrow>
     ri_Method i = ''POST'' \<and> (\<exists>p. (p, ri_Handler i) \<in> set api_posts \<and> ri_Path i = ''/api/v1'' @ p)"
  by (auto simp: route_tables split: if_splits)

lemma api_posts_registered:
  "(p, h) \<in> set api_posts \<Longrightarrow> handle_route ApiGroup ''POST'' (''/api/v1'' @ p) h \<in> set (http_routes cfg)"
  unfolding http_routes_def by force

lemma http_routes_root: "(RootGroup, i) \<in> set (http_routes cfg) \<Longrightarrow> ri_Handler i \<in> {''Live'', ''Ready'', ''metrics''}"
  by (auto simp: route_tables split: if_splits)

lemma http_routes_pprof: "(PprofGroup, i) \<in> set (http_routes cfg) \<Longrightarrow> obs_PprofEnabled (cfg_Observability cfg)"
  by (auto simp: route_tables split: if_splits)

lemma http_routes_swagger: "(SwaggerGroup, i) \<in> set (http_routes cfg) \<Longrightarrow> sw_Enabled (cfg_Swagger cfg)"
  by (auto simp: route_tables split: if_splits)

lemma find_route_Some:
  "find_route cfg method path = Some (g, i) \<Longrightarrow> (g, i) \<in> set (http_routes cfg) \<and> ri_Method i = method \<and> ri_Path i = path"
  unfolding find_route_def find_Some_iff by (metis (mono_tags, lifting) case_prod_conv nth_mem)

section \<open>What each group lets through\<close>

definition pprof_admitted :: "('s, 'b) http_env \<Rightarrow> gin \<Rightarrow> bool" where
  "pprof_admitted he c =
     (case cut_at (CHR '' '') (g_Header c ''Authorization'') of (scheme, token, ok) \<Rightarrow>
        ok \<and> EqualFold scheme ''Bearer'' \<and> token = obs_PprofToken (cfg_Observability (he_config he)))"

definition swagger_admitted :: "('s, 'b) http_env \<Rightarrow> gin \<Rightarrow> bool" where
  "swagger_admitted he c =
     (sw_RequireAuth (cfg_Swagger (he_config he)) \<longrightarrow> (\<exists>raw x s0 s1 p. bearer c raw \<and> he_verify he x raw s0 = (Inr p, s1)))"

definition group_admitted :: "('s, 'b) http_env \<Rightarrow> route_group \<Rightarrow> gin \<Rightarrow> gin \<Rightarrow> bool" where
  "group_admitted he g c c' =
     (case g of RootGroup \<Rightarrow> True | PprofGroup \<Rightarrow> pprof_admitted he c | SwaggerGroup \<Rightarrow> swagger_admitted he c | ApiGroup \<Rightarrow> admitted he c c')"

interpretation pprof_auth: gate "pprof_chain he" "\<lambda>c s c' s'. c' = c \<and> s' = s \<and> pprof_admitted he c"
  by unfold_locales (auto simp: pprof_chain_def pprofAuth_def pprof_admitted_def split: prod.splits)

lemma swagger_chain_gate:
  "gate (swagger_chain he) (\<lambda>c s c' s'. same_request c c' \<and> swagger_admitted he c)"
proof (cases "sw_RequireAuth (cfg_Swagger (he_config he))")
  case True
  have "gate (JWT_middleware (he_json he) (he_verify he)) (\<lambda>c s c' s'. same_request c c' \<and> swagger_admitted he c)"
    by (rule gate_mono[OF jwt.gate_axioms]) (unfold swagger_admitted_def, blast)
  then show ?thesis by (simp add: swagger_chain_def[abs_def] True)
next
  case False
  show ?thesis by unfold_locales (simp add: swagger_chain_def False swagger_admitted_def same_request_def)
qed

lemma admission_of_caller:
  assumes "same_caller c c1"
  shows "pprof_admitted he c1 = pprof_admitted he c" "swagger_admitted he c1 = swagger_admitted he c"
    "same_request c1 c' \<Longrightarrow> same_request c c'"
  using assms by (auto simp: same_caller_def same_request_def pprof_admitted_def swagger_admitted_def bearer_def)

lemma admitted_request: "admitted he c c' \<Longrightarrow> same_request c c'"
  by (auto simp: admitted_def authenticated_def same_caller_def same_request_def)

text \<open>A request to a route of a group reaches its handler only as the group admits it.\<close>

lemma group_gate:
  "gate (\<lambda>h. global_chain he (group_chain he g h)) (\<lambda>c s c' s'. same_request c c' \<and> group_admitted he g c c')"
proof (cases g)
  case RootGroup
  show ?thesis unfolding group_chain_def group_admitted_def RootGroup route_group.simps
    by (rule gate_mono[OF global_chain_gate]) (simp add: same_caller_def)
next
  case PprofGroup
  show ?thesis unfolding group_chain_def group_admitted_def PprofGroup route_group.simps
    by (rule gate_mono[OF gate_compose[OF global_chain_gate pprof_auth.gate_axioms[of he]]])
       (auto simp: admission_of_caller same_caller_def)
next
  case SwaggerGroup
  show ?thesis unfolding group_chain_def group_admitted_def SwaggerGroup route_group.simps
    by (rule gate_mono[OF gate_compose[OF global_chain_gate swagger_chain_gate]]) (auto simp: admission_of_caller)
next
  case ApiGroup
  show ?thesis unfolding group_chain_def group_admitted_def ApiGroup route_group.simps
    by (rule gate_mono[OF gate_compose[OF global_chain_gate api_chain_gate]])
       (auto intro: admitted_caller dest: admitted_request admission_of_caller(3))
qed

section \<open>Answers\<close>

interpretation pprof_auth: answering "pprof_chain he"
  by unfold_locales (auto simp: replies_def pprof_chain_def pprofAuth_def split: prod.splits if_splits)

lemma swagger_chain_replies: "replies h \<Longrightarrow> replies (swagger_chain he h)"
  using jwt.answers[of h "he_json he" "he_verify he"] by (simp add: replies_def swagger_chain_def)

lemma group_chain_replies:
  assumes "replies h"
  shows "replies (global_chain he (group_chain he g h))"
proof -
  have "replies (group_chain he g h)"
  proof (cases g)
    case ApiGroup
    show ?thesis unfolding group_chain_def ApiGroup route_group.simps api_chain_def Let_def by (intro replies_intros assms)
  qed (use assms in \<open>simp_all add: group_chain_def[abs_def] pprof_auth.answers swagger_chain_replies\<close>)
  then show ?thesis unfolding global_chain_def Let_def by (intro replies_intros)
qed

lemma global_chain_returns: "fst (global_chain he h c s) = Returned"
  unfolding global_chain_def Let_def RequestID_def IdempotencyKey_def Environment_def
  by (simp add: RequestLogger_returns Recovery_returns)

text \<open>A handler that ends with a reply always writes it.\<close>

lemma reply_replies: "replies (\<lambda>c s. case f c s of (r, s') \<Rightarrow> (Returned, gin_reply js r c, s'))"
  by (auto simp: replies_def gin_reply_def split: prod.splits)

section \<open>Synchronised routes\<close>

text \<open>The active routes of a service and a protocol.\<close>

definition active_routes :: "gostring \<Rightarrow> gostring \<Rightarrow> routeRow table \<Rightarrow> Route set" where
  "active_routes service protocol t =
     rr_Route ` {r \<in> set (live t). rr_Status r = ''active'' \<and> ro_ServiceName (rr_Route r) = service \<and> ro_Protocol (rr_Route r) = protocol}"

lemma sync_route_cases:
  assumes "sync_route tx now route t = Inr t'"
  obtains (new) row where "\<forall>r\<in>set (live t). ro_ID (rr_Route r) \<noteq> ro_ID route" "t' = insert_row row t"
      "rr_Route row = route" "rr_Status row = ''active''"
    | (known) f old where "old \<in> set (live t)" "ro_ID (rr_Route old) = ro_ID route"
      "t' = update_where (\<lambda>r. ro_ID (rr_Route r) = ro_ID route) f t"
      "\<And>r. rr_Route (f r) = route" "\<And>r. rr_Status (f r) = ''active''"
proof (cases "GetContext tx (''select route '' @ ro_ID route) (filter (\<lambda>r. ro_ID (rr_Route r) = ro_ID route) (live t))")
  case (Inl e)
  with assms have "\<not> list_ex (\<lambda>r. ro_ID (rr_Route (row_val r)) = ro_ID route) t"
    "t' = insert_row \<lparr>rr_Route = route, rr_Status = ''active'', rr_LastDiscoveredAt = now, rr_Audit = audit_insert tx\<rparr> t"
    by (auto simp: sync_route_def wrap_def map_sum_def split: option.splits if_splits)
  then show ?thesis by (intro new) (auto simp: list_ex_iff dest!: live_subset)
next
  case (Inr old)
  then have "old \<in> set (filter (\<lambda>r. ro_ID (rr_Route r) = ro_ID route) (live t))"
    unfolding GetContext_Inr by (metis list.set_intros(1))
  moreover from Inr assms have "t' = update_where (\<lambda>r. ro_ID (rr_Route r) = ro_ID route)
      (\<lambda>r. r\<lparr>rr_Route := route, rr_Status := ''active'', rr_LastDiscoveredAt := now, rr_Audit := audit_update tx (rr_Audit r)\<rparr>) t"
    by (auto simp: sync_route_def wrap_def map_sum_def split: option.splits if_splits)
  ultimately show ?thesis by (intro known[of old]) auto
qed

lemma sync_route_active:
  assumes "sync_route tx now route t = Inr t'" "ro_ServiceName route = service" "ro_Protocol route = protocol"
  shows "active_routes service protocol t' = insert route {q \<in> active_routes service protocol t. ro_ID q \<noteq> ro_ID route}"
  using assms(1)
proof (cases rule: sync_route_cases)
  case (new row)
  with assms(2,3) show ?thesis by (auto simp: active_routes_def)
next
  case (known f old)
  then have "route \<in> active_routes service protocol t'"
    using assms(2,3) by (auto simp: active_routes_def image_iff intro!: exI[of _ "f old"])
  with known assms(2,3) show ?thesis by (auto simp: active_routes_def image_iff split: if_splits)
qed

lemma sync_routes_active:
  assumes "sync_routes tx now routes t = Inr t'" "\<forall>r\<in>set routes. ro_ServiceName r = service \<and> ro_Protocol r = protocol"
    "inj_on ro_ID (set routes \<union> active_routes service protocol t)" "distinct routes"
    "set routes \<inter> active_routes service protocol t = {}"
  shows "active_routes service protocol t' = set routes \<union> active_routes service protocol t"
  using assms
proof (induction routes arbitrary: t)
  case (Cons route routes)
  then obtain t1 where t1: "sync_route tx now route t = Inr t1" "sync_routes tx now routes t1 = Inr t'"
    by (auto split: sum.splits)
  have "ro_ID q \<noteq> ro_ID route" if "q \<in> active_routes service protocol t" for q
    using Cons.prems(3,5) that by (auto simp: inj_on_def)
  then have a: "active_routes service protocol t1 = insert route (active_routes service protocol t)"
    using sync_route_active[OF t1(1), of service protocol] Cons.prems(2) by auto
  show ?case
    using Cons.IH[OF t1(2)] Cons.prems(2-5) unfolding a by (auto simp: Un_commute insert_commute)
qed simp

lemma exec_update_Inr: "exec_update c label P f t = Inr (n, t') \<Longrightarrow> t' = update_where P f t"
  by (auto simp: exec_update_def split: option.splits if_splits)

lemma deactivated_none:
  assumes "\<And>r. rr_Status (f r) = ''inactive''"
  shows "active_routes service protocol (update_where
    (\<lambda>r. ro_ServiceName (rr_Route r) = service \<and> ro_Protocol (rr_Route r) = protocol \<and> rr_Status r = ''active'') f t) = {}"
proof -
  let ?P = "\<lambda>r. ro_ServiceName (rr_Route r) = service \<and> ro_Protocol (rr_Route r) = protocol \<and> rr_Status r = ''active''"
  have off: "\<not> ?P (if ?P v then f v else v)" for v using assms[of v] by (cases "?P v") simp_all
  have "\<not> ?P r" if "r \<in> set (map (\<lambda>v. if ?P v then f v else v) (live t))" for r
    using that unfolding set_map by (elim imageE) (erule ssubst, rule off)
  then show ?thesis unfolding active_routes_def live_update_where by blast
qed

text \<open>After a synchronisation the active routes of the service and the protocol are exactly the
  discovered ones; a failed one changes nothing.\<close>

lemma SyncRoutes_active:
  assumes "SyncRoutes sysctx now c x routes actor db = (None, db')"
    "\<forall>r\<in>set routes. ro_ServiceName r = service \<and> ro_Protocol r = protocol" "inj_on ro_ID (set routes)" "distinct routes"
  shows "active_routes service protocol (route_definitions db') = set routes"
proof -
  obtain first rest where r: "routes = first # rest" using assms(1) by (auto simp: SyncRoutes_def split: list.splits)
  then have f: "ro_ServiceName first = service" "ro_Protocol first = protocol" using assms(2) by auto
  let ?fn = "\<lambda>tx db. case exec_update tx ''deactivate routes''
        (\<lambda>r. ro_ServiceName (rr_Route r) = service \<and> ro_Protocol (rr_Route r) = protocol \<and> rr_Status r = ''active'')
        (\<lambda>r. r\<lparr>rr_Status := ''inactive'', rr_Audit := audit_update tx (rr_Audit r)\<rparr>) (route_definitions db) of
      Inl e \<Rightarrow> Inl e
    | Inr (n, t) \<Rightarrow> (case sync_routes tx now routes t of Inl e \<Rightarrow> Inl e | Inr t' \<Rightarrow> Inr ((), db\<lparr>route_definitions := t'\<rparr>))"
  have "Within c (sysctx x actor) ?fn db = Inr ((), db')"
    using assms(1) unfolding SyncRoutes_def r list.case f by (simp split: sum.splits prod.splits)
  then obtain tx where tx: "?fn tx db = Inr ((), db')" unfolding Within_Inr_iff by blast
  then obtain n t where u: "exec_update tx ''deactivate routes''
        (\<lambda>r. ro_ServiceName (rr_Route r) = service \<and> ro_Protocol (rr_Route r) = protocol \<and> rr_Status r = ''active'')
        (\<lambda>r. r\<lparr>rr_Status := ''inactive'', rr_Audit := audit_update tx (rr_Audit r)\<rparr>) (route_definitions db) = Inr (n, t)"
    by (simp only: split: sum.split_asm prod.split_asm) blast+
  from tx obtain t' where t: "sync_routes tx now routes t = Inr t'" "db' = db\<lparr>route_definitions := t'\<rparr>"
    unfolding u by (simp split: sum.split_asm)
  have "active_routes service protocol t = {}"
    unfolding exec_update_Inr[OF u] by (rule deactivated_none) simp
  then show ?thesis using sync_routes_active[OF t(1) assms(2) _ assms(4)] assms(3) t(2) by simp
qed

lemma SyncRoutes_failed: "SyncRoutes sysctx now c x routes actor db = (Some err, db') \<Longrightarrow> db' = db"
  by (auto simp: SyncRoutes_def split: list.splits sum.splits prod.splits)

text \<open>On a working connection new routes are always registered.\<close>

lemma sync_routes_new:
  assumes "\<And>l. fault tx l = None" "app_actor tx \<noteq> []" "distinct (map ro_ID routes)" "distinct (map ro_Path routes)"
    "\<forall>r\<in>set t. ro_ID (rr_Route (row_val r)) \<notin> ro_ID ` set routes \<and> ro_Path (rr_Route (row_val r)) \<notin> ro_Path ` set routes"
  shows "\<exists>t'. sync_routes tx now routes t = Inr t'"
  using assms(3-)
proof (induction routes arbitrary: t)
  case (Cons route routes)
  let ?row = "\<lparr>rr_Route = route, rr_Status = ''active'', rr_LastDiscoveredAt = now, rr_Audit = audit_insert tx\<rparr>"
  have "filter (\<lambda>r. ro_ID (rr_Route r) = ro_ID route) (live t) = []"
    using Cons.prems(3) by (auto simp: filter_empty_conv dest!: live_subset)
  moreover have "route_unique t route" "\<not> list_ex (\<lambda>r. ro_ID (rr_Route (row_val r)) = ro_ID route) t"
    using Cons.prems(3) by (auto simp: route_unique_def list_all_iff list_ex_iff Let_def)
  ultimately have "sync_route tx now route t = Inr (insert_row ?row t)"
    using assms(1,2) by (simp add: sync_route_def GetContext_def audited_fault_def wrap_def)
  moreover have "\<exists>t'. sync_routes tx now routes (insert_row ?row t) = Inr t'"
    using Cons.prems by (intro Cons.IH) auto
  ultimately show ?case by simp
qed simp

lemma SyncRoutes_new:
  assumes "db_available c" "\<And>l. fault c l = None" "setAuditActor c (sysctx x actor) = Inr tx" "\<And>l. fault tx l = None" "app_actor tx \<noteq> []"
    "routes \<noteq> []" "distinct (map ro_ID routes)" "distinct (map ro_Path routes)" "route_definitions db = []"
  shows "\<exists>t. SyncRoutes sysctx now c x routes actor db = (None, db\<lparr>route_definitions := t\<rparr>)"
proof -
  obtain first rest where r: "routes = first # rest" using assms(6) by (cases routes) auto
  obtain t where t: "sync_routes tx now routes [] = Inr t" using sync_routes_new[OF assms(4,5,7,8), of "[]"] by auto
  have "exec_update tx l P f [] = Inr (0, [])" for l and P :: "routeRow \<Rightarrow> bool" and f
    using assms(4) by (simp add: exec_update_def count_where_def live_def update_where_def)
  with t r show ?thesis
    using assms(1-4,9) by (intro exI[of _ t]) (simp add: SyncRoutes_def Within_def del: sync_routes.simps)
qed

end
