(* ===== verification/Frames.thy ===== *)
theory Frames
  imports Server_Laws
begin

text \<open>
  What the middleware leaves alone. A projection of the server's state, such as the policy tables,
  that neither the collaborators of the middleware nor the handler behind it change, is not changed
  by the whole chain.
\<close>

definition keeps :: "('s \<Rightarrow> 'd) \<Rightarrow> 's handler \<Rightarrow> bool" where
  "keeps tables h = (\<forall>c s. tables (snd (snd (h c s))) = tables s)"

lemma keepsD: "keeps tables h \<Longrightarrow> h c s = (f, c', s') \<Longrightarrow> tables s' = tables s"
  unfolding keeps_def by (metis snd_conv)

lemma keepsI: "(\<And>c s f c' s'. h c s = (f, c', s') \<Longrightarrow> tables s' = tables s) \<Longrightarrow> keeps tables h"
  unfolding keeps_def by (metis prod.collapse)

text \<open>The collaborators keep the projection.\<close>

definition collaborators_keep :: "('s \<Rightarrow> 'd) \<Rightarrow> ('s, 'b) http_env \<Rightarrow> bool" where
  "collaborators_keep tables he =
     ((\<forall>c s. tables (he_log he c s) = tables s) \<and> (\<forall>m r st s. tables (he_observe he m r st s) = tables s)
      \<and> (\<forall>x raw s. tables (snd (he_verify he x raw s)) = tables s)
      \<and> (\<forall>x p m r v s. tables (snd (he_evaluate he x p m r v s)) = tables s)
      \<and> (\<forall>f x k r s. lm_backend (he_limiter he) = Some f \<longrightarrow> tables (snd (f x k r s)) = tables s)
      \<and> (\<forall>mgr x k fp s. he_idempotency he = Some mgr \<longrightarrow> tables (snd (im_Begin mgr x k fp s)) = tables s)
      \<and> (\<forall>mgr x k ow r s. he_idempotency he = Some mgr \<longrightarrow> tables (snd (im_Complete mgr x k ow r s)) = tables s)
      \<and> (\<forall>mgr x k ow f s. he_idempotency he = Some mgr \<longrightarrow> tables (snd (im_Fail mgr x k ow f s)) = tables s))"

text \<open>The contract of a middleware that keeps what its collaborators keep.\<close>

locale framing =
  fixes mw :: "'s middleware" and given :: "('s \<Rightarrow> 'd) \<Rightarrow> bool"
  assumes frame: "given tables \<Longrightarrow> keeps tables h \<Longrightarrow> keeps tables (mw h)"

interpretation request_id: framing "RequestID generated" "\<lambda>t. True"
  by unfold_locales (simp add: keeps_def RequestID_def Let_def)

interpretation idempotency_key: framing "IdempotencyKey js valid" "\<lambda>t. True"
  by unfold_locales (simp add: keeps_def IdempotencyKey_def Let_def)

interpretation environment: framing "Environment profile" "\<lambda>t. True"
  by unfold_locales (simp add: keeps_def Environment_def)

interpretation request_logger: framing "RequestLogger write_log" "\<lambda>t. \<forall>c s. t (write_log c s) = t s"
  by unfold_locales (auto intro!: keepsI dest: keepsD simp: RequestLogger_def split: prod.splits flow.splits)

interpretation recovery: framing "Recovery js" "\<lambda>t. True"
  by unfold_locales (auto intro!: keepsI dest: keepsD simp: Recovery_def split: prod.splits flow.splits)

interpretation http_metrics: framing "HTTPMetrics enabled count" "\<lambda>t. \<forall>m r st s. t (count m r st s) = t s"
  by unfold_locales (auto intro!: keepsI dest: keepsD simp: HTTPMetrics_def Let_def split: prod.splits flow.splits if_splits)

interpretation security_headers: framing SecurityHeaders "\<lambda>t. True"
  by unfold_locales (simp add: keeps_def SecurityHeaders_def Let_def)

interpretation cors: framing "CORS_middleware js cfg" "\<lambda>t. True"
  by unfold_locales (simp add: keeps_def CORS_middleware_def Let_def)

interpretation max_body: framing "MaxBody limit" "\<lambda>t. True"
  by unfold_locales (simp add: keeps_def MaxBody_def)

interpretation timeout: framing "Timeout js expired" "\<lambda>t. True"
  by unfold_locales (auto intro!: keepsI dest: keepsD simp: Timeout_def split: prod.splits flow.splits)

interpretation require_json: framing "RequireJSON js media" "\<lambda>t. True"
  by unfold_locales (simp add: keeps_def RequireJSON_def)

lemma Allow_keeps:
  assumes "\<forall>f x k r s. lm_backend limiter = Some f \<longrightarrow> tables (snd (f x k r s)) = tables s" "Allow limiter x key rule s = (r, s')"
  shows "tables s' = tables s"
proof (cases "lm_backend limiter")
  case None with assms(2) show ?thesis by (auto simp: Allow_def split: if_splits)
next
  case (Some f)
  with assms(1) have "tables (snd (f x key rule s)) = tables s" by blast
  with Some assms(2) show ?thesis by (auto simp: Allow_def split: if_splits prod.splits sum.splits)
qed

interpretation rate_limit: framing "RateLimit_middleware js limiter rule dimension keyFunc"
  "\<lambda>t. \<forall>f x k r s. lm_backend limiter = Some f \<longrightarrow> t (snd (f x k r s)) = t s"
proof
  fix tables :: "'b \<Rightarrow> 'd" and h :: "'b handler"
  assume l: "\<forall>f x k r s. lm_backend limiter = Some f \<longrightarrow> tables (snd (f x k r s)) = tables s" and k: "keeps tables h"
  show "keeps tables (RateLimit_middleware js limiter rule dimension keyFunc h)"
    by (rule keepsI) (auto simp: RateLimit_middleware_def Let_def dest: keepsD[OF k] dest!: Allow_keeps[OF l]
        split: if_splits prod.splits sum.splits)
qed

interpretation jwt: framing "JWT_middleware js verify" "\<lambda>t. \<forall>x raw s. t (snd (verify x raw s)) = t s"
proof
  fix tables :: "'b \<Rightarrow> 'd" and h :: "'b handler"
  assume v: "\<forall>x raw s. tables (snd (verify x raw s)) = tables s" and k: "keeps tables h"
  have verified: "tables s' = tables s" if "verify x raw s = (r, s')" for x raw s r s' using v that by (metis snd_conv)
  show "keeps tables (JWT_middleware js verify h)"
    by (rule keepsI) (auto simp: JWT_middleware_def dest: keepsD[OF k] dest!: verified split: if_splits prod.splits sum.splits)
qed

interpretation authentication: framing "Authentication js verify cfg" "\<lambda>t. \<forall>x raw s. t (snd (verify x raw s)) = t s"
proof
  fix tables :: "'b \<Rightarrow> 'd" and h :: "'b handler"
  assume v: "\<forall>x raw s. tables (snd (verify x raw s)) = tables s" and k: "keeps tables h"
  from jwt.frame[OF this, of js] k show "keeps tables (Authentication js verify cfg h)"
    by (simp add: keeps_def Authentication_def)
qed

interpretation database_authorization: framing "DatabaseAuthorization js enabled service evaluate"
  "\<lambda>t. \<forall>x p m r v s. t (snd (evaluate x p m r v s)) = t s"
proof
  fix tables :: "'b \<Rightarrow> 'd" and h :: "'b handler"
  assume v: "\<forall>x p m r v s. tables (snd (evaluate x p m r v s)) = tables s" and k: "keeps tables h"
  have evaluated: "tables s' = tables s" if "evaluate x p m r v s = (e, s')" for x p m r v s e s' using v that by (metis snd_conv)
  show "keeps tables (DatabaseAuthorization js enabled service evaluate h)"
    by (rule keepsI) (auto simp: DatabaseAuthorization_def dest: keepsD[OF k] dest!: evaluated split: if_splits prod.splits option.splits)
qed

text \<open>The idempotent execution.\<close>

definition manager_keeps :: "('s \<Rightarrow> 'd) \<Rightarrow> ('s, 'b) idem_manager \<Rightarrow> bool" where
  "manager_keeps tables mgr =
     ((\<forall>x k fp s. tables (snd (im_Begin mgr x k fp s)) = tables s) \<and> (\<forall>x k ow r s. tables (snd (im_Complete mgr x k ow r s)) = tables s)
      \<and> (\<forall>x k ow f s. tables (snd (im_Fail mgr x k ow f s)) = tables s))"

lemma persist_outcome_keeps: "manager_keeps tables mgr \<Longrightarrow> tables (persist_outcome js mgr key owner before c s) = tables s"
  by (simp add: manager_keeps_def persist_outcome_def Let_def split: sum.split)

lemma begun_keeps:
  assumes "manager_keeps tables mgr" "keeps tables h"
  shows "tables (snd (snd (begun js mgr key h c s d))) = tables s"
proof -
  have "tables (snd (snd (h c s))) = tables s" using assms(2) by (simp add: keeps_def)
  then show ?thesis
    by (cases "h c s")
       (simp add: begun_def persist_outcome_keeps[OF assms(1)] split: idem_state.split sum.split flow.split prod.split)
qed

interpretation idempotency_execution: framing "IdempotencyExecution js sha mgr paths" "\<lambda>t. \<forall>m. mgr = Some m \<longrightarrow> manager_keeps t m"
proof
  fix tables :: "'b \<Rightarrow> 'd" and h :: "'b handler"
  assume v: "\<forall>m. mgr = Some m \<longrightarrow> manager_keeps tables m" and k: "keeps tables h"
  have kh: "tables (snd (snd (h c s))) = tables s" for c s using k by (simp add: keeps_def)
  have "tables (snd (snd (IdempotencyExecution js sha mgr paths h c s))) = tables s" for c s
  proof (cases mgr)
    case (Some m)
    with v have m: "manager_keeps tables m" by simp
    have b: "tables s' = tables s" if "im_Begin m x key fp s = (r, s')" for x key fp s r s'
      using m that unfolding manager_keeps_def by (metis snd_conv)
    show ?thesis
      by (auto simp: IdempotencyExecution_def Some kh begun_keeps[OF m k] dest!: b split: option.split sum.split prod.split)
  qed (simp add: IdempotencyExecution_def kh split: option.split)
  then show "keeps tables (IdempotencyExecution js sha mgr paths h)" by (simp add: keeps_def)
qed

interpretation pprof_auth: framing "pprof_chain he" "\<lambda>t. True"
  by unfold_locales (simp add: keeps_def pprof_chain_def pprofAuth_def split: prod.split)

section \<open>The server\<close>

lemma group_chain_keeps:
  assumes c: "collaborators_keep tables he" and k: "keeps tables h"
  shows "keeps tables (global_chain he (group_chain he g h))"
proof -
  note cs = c[unfolded collaborators_keep_def]
  have v: "\<forall>x raw s. tables (snd (he_verify he x raw s)) = tables s" and l: "\<forall>f x k r s. lm_backend (he_limiter he) = Some f \<longrightarrow> tables (snd (f x k r s)) = tables s"
    and e: "\<forall>x p m r v s. tables (snd (he_evaluate he x p m r v s)) = tables s"
    and i: "\<forall>m. he_idempotency he = Some m \<longrightarrow> manager_keeps tables m"
    and lo: "\<forall>c s. tables (he_log he c s) = tables s" and ob: "\<forall>m r st s. tables (he_observe he m r st s) = tables s"
    using cs by (auto simp: manager_keeps_def)
  have "keeps tables (group_chain he g h)"
  proof (cases g)
    case ApiGroup
    show ?thesis unfolding group_chain_def ApiGroup route_group.simps api_chain_def Let_def
      by (intro rate_limit.frame[OF l] authentication.frame[OF v] database_authorization.frame[OF e] idempotency_execution.frame[OF i] k)
  next
    case SwaggerGroup
    then show ?thesis using jwt.frame[OF v k, of "he_json he"] k by (simp add: group_chain_def swagger_chain_def keeps_def)
  qed (use k pprof_auth.frame[of tables h he] in \<open>simp_all add: group_chain_def[abs_def]\<close>)
  then show ?thesis unfolding global_chain_def Let_def
    by (intro request_id.frame idempotency_key.frame environment.frame request_logger.frame[OF lo] recovery.frame
        http_metrics.frame[OF ob] security_headers.frame cors.frame max_body.frame timeout.frame require_json.frame TrueI)
qed

lemma ServeHTTP_keeps:
  assumes "collaborators_keep tables he" "keeps tables noRoute" "\<And>n. keeps tables (h n)"
  shows "keeps tables (ServeHTTP he noRoute h)"
  using assms(2) group_chain_keeps[OF assms(1,3)] by (auto simp: keeps_def ServeHTTP_def split: option.split)

text \<open>A handler reduced to the runs that keep the projection.\<close>

definition confined :: "('s \<Rightarrow> 'd) \<Rightarrow> 's handler \<Rightarrow> 's handler" where
  "confined tables h c s = (if tables (snd (snd (h c s))) = tables s then h c s else (Returned, c, s))"

lemma confined_keeps: "keeps tables (confined tables h)"
  by (simp add: keeps_def confined_def)

lemma confined_differs: "h c s \<noteq> confined tables h c s \<Longrightarrow> tables (snd (snd (h c s))) \<noteq> tables s"
  by (auto simp: confined_def)

section \<open>What a handler finds when it runs\<close>

text \<open>A gate that is steady runs the rest of the chain with the projection as it was and without having
  authorized a tenant.\<close>

definition steady :: "('s \<Rightarrow> 'd) \<Rightarrow> gin \<Rightarrow> 's \<Rightarrow> gin \<Rightarrow> 's \<Rightarrow> bool" where
  "steady tables c s c' s' =
     (tables s' = tables s \<and> authorizedManagementTenant (g_ctx c') = authorizedManagementTenant (g_ctx c))"

lemma steady_compose:
  assumes "gate f (steady tables)" "gate g (steady tables)"
  shows "gate (\<lambda>h. f (g h)) (steady tables)"
  by (rule gate_mono[OF gate_compose[OF assms]]) (auto simp: steady_def)

lemma steady_metadata:
  "gate (RequestID generated) (steady tables)" "gate (IdempotencyKey js valid) (steady tables)" "gate (Environment profile) (steady tables)"
  "gate (RequestLogger write_log) (steady tables)" "gate (Recovery js) (steady tables)" "gate (HTTPMetrics enabled count) (steady tables)"
  "gate SecurityHeaders (steady tables)" "gate (CORS_middleware js cfg) (steady tables)" "gate (MaxBody limit) (steady tables)"
  "gate (Timeout js expired) (steady tables)" "gate (RequireJSON js media) (steady tables)" "gate (pprofAuth token) (steady tables)"
  by (unfold_locales, simp add: steady_def RequestID_def IdempotencyKey_def Environment_def RequestLogger_def Recovery_def HTTPMetrics_def
      SecurityHeaders_def CORS_middleware_def MaxBody_def Timeout_def RequireJSON_def pprofAuth_def Let_def context_defs split: prod.split)+

lemma steady_rate_limit:
  assumes "\<forall>f x k r s. lm_backend limiter = Some f \<longrightarrow> tables (snd (f x k r s)) = tables s"
  shows "gate (RateLimit_middleware js limiter rule dimension keyFunc) (steady tables)"
  by unfold_locales
    (auto simp: RateLimit_middleware_def Let_def steady_def dest!: Allow_keeps[OF assms] split: prod.split sum.split)

lemma steady_jwt:
  assumes "\<forall>x raw s. tables (snd (verify x raw s)) = tables s"
  shows "gate (JWT_middleware js verify) (steady tables)"
proof -
  have v: "tables s' = tables s" if "verify x raw s = (r, s')" for x raw s r s' using assms that by (metis snd_conv)
  show ?thesis by unfold_locales (auto simp: JWT_middleware_def steady_def dest!: v split: prod.split sum.split)
qed

lemma steady_authentication:
  assumes "\<forall>x raw s. tables (snd (verify x raw s)) = tables s"
  shows "gate (Authentication js verify cfg) (steady tables)"
proof
  fix c s and h h' :: "'a handler"
  assume a: "\<And>c' s'. steady tables c s c' s' \<Longrightarrow> h c' s' = h' c' s'"
  note gate.agree[OF steady_jwt[OF assms, of js], OF a]
  with a show "Authentication js verify cfg h c s = Authentication js verify cfg h' c s"
    by (simp add: Authentication_def steady_def)
qed

lemma steady_authorization:
  assumes "\<forall>x p m r v s. tables (snd (evaluate x p m r v s)) = tables s"
  shows "gate (DatabaseAuthorization js enabled service evaluate) (steady tables)"
proof -
  have v: "tables s' = tables s" if "evaluate x p m r sv s = (e, s')" for x p m r sv s e s' using assms that by (metis snd_conv)
  show ?thesis by unfold_locales (auto simp: DatabaseAuthorization_def steady_def dest!: v split: prod.split option.split)
qed

lemma steady_idempotency:
  assumes "\<forall>m. mgr = Some m \<longrightarrow> manager_keeps tables m"
  shows "gate (IdempotencyExecution js sha mgr paths) (steady tables)"
proof
  fix c s and h h' :: "'a handler"
  assume a: "\<And>c' s'. steady tables c s c' s' \<Longrightarrow> h c' s' = h' c' s'"
  have b: "h c s' = h' c s'" if "mgr = Some m" "im_Begin m x key fp s = (r, s')" for m x key fp r s'
    using assms that by (intro a) (metis manager_keeps_def snd_conv steady_def)
  show "IdempotencyExecution js sha mgr paths h c s = IdempotencyExecution js sha mgr paths h' c s"
    by (auto simp: IdempotencyExecution_def begun_def steady_def a b split: option.split sum.split prod.split idem_state.split)
qed

lemma steady_identity: "gate (\<lambda>h. h) (steady tables)"
  by unfold_locales (simp add: steady_def)

lemma group_chain_steady:
  assumes c: "collaborators_keep tables he"
  shows "gate (\<lambda>h. global_chain he (group_chain he g h)) (steady tables)"
proof -
  note cs = c[unfolded collaborators_keep_def]
  have v: "\<forall>x raw s. tables (snd (he_verify he x raw s)) = tables s" and l: "\<forall>f x k r s. lm_backend (he_limiter he) = Some f \<longrightarrow> tables (snd (f x k r s)) = tables s"
    and e: "\<forall>x p m r v s. tables (snd (he_evaluate he x p m r v s)) = tables s"
    and i: "\<forall>m. he_idempotency he = Some m \<longrightarrow> manager_keeps tables m"
    using cs by (auto simp: manager_keeps_def)
  have "gate (group_chain he g) (steady tables)"
  proof (cases g)
    case ApiGroup
    show ?thesis unfolding group_chain_def[abs_def] ApiGroup route_group.simps api_chain_def Let_def
      by (rule steady_compose[OF steady_rate_limit[OF l] steady_compose[OF steady_rate_limit[OF l] steady_compose[OF
            steady_authentication[OF v] steady_compose[OF steady_authorization[OF e] steady_compose[OF steady_rate_limit[OF l]
            steady_idempotency[OF i]]]]]])
  next
    case SwaggerGroup
    show ?thesis
      using steady_jwt[OF v, of "he_json he"] steady_identity[of tables]
      by (cases "sw_RequireAuth (cfg_Swagger (he_config he))")
         (simp_all add: group_chain_def[abs_def] SwaggerGroup swagger_chain_def)
  next
    case PprofGroup
    then show ?thesis using steady_metadata(12) by (simp add: group_chain_def[abs_def] pprof_chain_def)
  next
    case RootGroup
    then show ?thesis using steady_identity[of tables] by (simp add: group_chain_def[abs_def])
  qed
  then show ?thesis unfolding global_chain_def[abs_def] Let_def
    by (rule steady_compose[OF steady_metadata(1) steady_compose[OF steady_metadata(2) steady_compose[OF steady_metadata(3)
          steady_compose[OF steady_metadata(4) steady_compose[OF steady_metadata(5) steady_compose[OF steady_metadata(6)
          steady_compose[OF steady_metadata(7) steady_compose[OF steady_metadata(8) steady_compose[OF steady_metadata(9)
          steady_compose[OF steady_metadata(10) steady_compose[OF steady_metadata(11)]]]]]]]]]]])
qed

end
