(* ===== verification/Server_Properties.thy ===== *)
theory Server_Properties
  imports Frames Access_Properties Route_Policy_Properties "HOL-Library.Multiset"
begin

text \<open>
  Properties of the servers as a whole: what a request can reach, and what the start of the HTTP
  server leaves in the tables and in the manager of the route policies.
\<close>

section \<open>Discovered routes\<close>

text \<open>The routes of the router that are discovered are the routes of the api group.\<close>

definition api_route :: "start_env \<Rightarrow> gostring \<times> gostring \<Rightarrow> RouteInfo" where
  "api_route se e = \<lparr>ri_Method = ''POST'', ri_Path = ''/api/v1'' @ fst e, ri_Handler = se_handlerName se (snd e)\<rparr>"

lemma api_posts_nonempty: "api_posts \<noteq> []"
  by (simp add: api_posts_def)

lemma api_posts_slash: "list_all (\<lambda>e. prefix ''/'' (fst e)) api_posts"
  by (simp add: api_posts_def)

lemma api_posts_distinct: "distinct (map fst api_posts)"
  by (simp add: api_posts_def)

lemma api_posts_nulfree: "list_all (\<lambda>e. nulfree (fst e)) api_posts"
  by (simp add: api_posts_def)

lemma api_registered:
  "filter (\<lambda>i. prefix ''/api/v1/'' (ri_Path i)) (map (\<lambda>(g, i). i\<lparr>ri_Handler := se_handlerName se (ri_Handler i)\<rparr>) (http_routes cfg))
   = map (api_route se) api_posts"
proof -
  have "filter (\<lambda>i. prefix ''/api/v1/'' (ri_Path i)) (map (api_route se) es) = map (api_route se) es"
    if "list_all (\<lambda>e. prefix ''/'' (fst e)) es" for es
    using that by (induction es) (auto simp: api_route_def prefix_def)
  note api = this[OF api_posts_slash]
  have comp: "(\<lambda>(g, i). i\<lparr>ri_Handler := se_handlerName se (ri_Handler i)\<rparr>) \<circ> (\<lambda>(path, h). handle_route ApiGroup ''POST'' (''/api/v1'' @ path) h)
      = api_route se"
    by (auto simp: fun_eq_iff handle_route_def api_route_def)
  show ?thesis
    unfolding http_routes_def map_append filter_append map_map comp api by (simp add: registerPprof_def handle_route_def)
qed

text \<open>What the discovery relies on, for the business routes of this service only: when
  \<open>platformpolicy.NewRoute\<close> describes a POST to such a path, the description keeps protocol, path and
  service, its identifier depends neither on the source version nor on the letter case of the method,
  and the identifiers of different business paths differ. It may also fail.\<close>

definition business_paths :: "gostring set" where
  "business_paths = (\<lambda>e. ''/api/v1'' @ fst e) ` set api_posts"

definition new_route_contract :: "new_route \<Rightarrow> gostring \<Rightarrow> bool" where
  "new_route_contract nr svc =
     (\<forall>m p v r. p \<in> business_paths \<and> ToLower m = ''post'' \<and> nr ''http'' m p svc v = Inr r \<longrightarrow>
        ro_Protocol r = ''http'' \<and> ro_Path r = p \<and> ro_ServiceName r = svc \<and>
        (\<forall>m' v'. ToLower m' = ''post'' \<longrightarrow> (\<exists>r'. nr ''http'' m' p svc v' = Inr r' \<and> ro_ID r' = ro_ID r)) \<and>
        (\<forall>m' p' v' r'. p' \<in> business_paths \<and> ToLower m' = ''post'' \<and> nr ''http'' m' p' svc v' = Inr r' \<and> ro_ID r' = ro_ID r \<longrightarrow> p' = p))"

definition described :: "new_route \<Rightarrow> gostring \<Rightarrow> gostring \<Rightarrow> RouteInfo \<Rightarrow> Route" where
  "described nr version svc i =
     (case nr ''http'' (ri_Method i) (ri_Path i) svc version of
        Inr r \<Rightarrow> r\<lparr>ro_Operation := ri_Handler i\<rparr> | Inl e \<Rightarrow> undefined)"

definition describable :: "new_route \<Rightarrow> gostring \<Rightarrow> gostring \<Rightarrow> RouteInfo \<Rightarrow> bool" where
  "describable nr version svc i = (case nr ''http'' (ri_Method i) (ri_Path i) svc version of Inr r \<Rightarrow> True | Inl e \<Rightarrow> False)"

lemma discovered:
  "discoveredBusinessRoutes nr v infos svc = Inr routes \<longleftrightarrow>
     list_all (describable nr v svc) (filter (\<lambda>i. prefix ''/api/v1/'' (ri_Path i)) infos) \<and>
     routes = map (described nr v svc) (filter (\<lambda>i. prefix ''/api/v1/'' (ri_Path i)) infos)"
proof (induction infos arbitrary: routes)
  case (Cons i infos)
  let ?bs = "filter (\<lambda>i. prefix ''/api/v1/'' (ri_Path i)) infos"
  have i: "describable nr v svc i \<longleftrightarrow> (\<exists>r. nr ''http'' (ri_Method i) (ri_Path i) svc v = Inr r)"
    "nr ''http'' (ri_Method i) (ri_Path i) svc v = Inr r \<Longrightarrow> described nr v svc i = r\<lparr>ro_Operation := ri_Handler i\<rparr>" for r
    by (auto simp: describable_def described_def split: sum.splits)
  show ?case
  proof (cases "discoveredBusinessRoutes nr v infos svc")
    case (Inl err)
    with Cons.IH[of "map (described nr v svc) ?bs"] have "\<not> list_all (describable nr v svc) ?bs" by simp
    with Inl show ?thesis by (auto split: sum.split)
  next
    case (Inr rs)
    with Cons.IH[of rs] have "list_all (describable nr v svc) ?bs" "rs = map (described nr v svc) ?bs" by simp_all
    with Inr i show ?thesis by (auto split: sum.split)
  qed
qed auto

text \<open>A business route of the router, described.\<close>

definition business_info :: "RouteInfo \<Rightarrow> bool" where
  "business_info i = (ri_Path i \<in> business_paths \<and> ri_Method i = ''POST'')"

lemma api_route_business: "i \<in> set (map (api_route se) api_posts) \<Longrightarrow> business_info i"
proof -
  assume "i \<in> set (map (api_route se) api_posts)"
  then obtain e where "e \<in> set api_posts" "i = api_route se e" by auto
  then show ?thesis by (simp add: business_info_def business_paths_def api_route_def)
qed

lemma described_route:
  assumes "new_route_contract nr svc" "business_info i" "describable nr v svc i"
  shows "ro_Protocol (described nr v svc i) = ''http''" "ro_Path (described nr v svc i) = ri_Path i"
    and "ro_ServiceName (described nr v svc i) = svc"
    and "ToLower m = ''post'' \<Longrightarrow> \<exists>r'. nr ''http'' m (ri_Path i) svc v' = Inr r' \<and> ro_ID r' = ro_ID (described nr v svc i)"
    and "business_info j \<Longrightarrow> describable nr v svc j \<Longrightarrow> ro_ID (described nr v svc i) = ro_ID (described nr v svc j) \<Longrightarrow> ri_Path i = ri_Path j"
proof -
  have post: "ToLower ''POST'' = ''post''" by code_simp
  have b: "ri_Path i \<in> business_paths" "ToLower (ri_Method i) = ''post''" using assms(2) post by (simp_all add: business_info_def)
  obtain r where r: "nr ''http'' (ri_Method i) (ri_Path i) svc v = Inr r" "described nr v svc i = r\<lparr>ro_Operation := ri_Handler i\<rparr>"
    using assms(3) by (auto simp: describable_def described_def split: sum.splits)
  note c = assms(1)[unfolded new_route_contract_def, rule_format, OF conjI[OF b(1) conjI[OF b(2) r(1)]]]
  show "ro_Protocol (described nr v svc i) = ''http''" "ro_Path (described nr v svc i) = ri_Path i"
    "ro_ServiceName (described nr v svc i) = svc" using c by (simp_all add: r(2))
  show "ToLower m = ''post'' \<Longrightarrow> \<exists>r'. nr ''http'' m (ri_Path i) svc v' = Inr r' \<and> ro_ID r' = ro_ID (described nr v svc i)"
    using c by (simp add: r(2))
  assume j: "business_info j" "describable nr v svc j" and eq: "ro_ID (described nr v svc i) = ro_ID (described nr v svc j)"
  obtain r' where r': "nr ''http'' (ri_Method j) (ri_Path j) svc v = Inr r'" "described nr v svc j = r'\<lparr>ro_Operation := ri_Handler j\<rparr>"
    using j(2) by (auto simp: describable_def described_def split: sum.splits)
  have "ri_Path j \<in> business_paths" "ToLower (ri_Method j) = ''post''" using j(1) post by (simp_all add: business_info_def)
  moreover have "ro_ID r' = ro_ID r" using eq by (simp add: r(2) r'(2))
  ultimately have "ri_Path j = ri_Path i" using c r'(1) by blast
  then show "ri_Path i = ri_Path j" by simp
qed

section \<open>The start of the HTTP server\<close>

lemma sync_and_load_None:
  assumes "sync_and_load se cfg syncing loading source routes w = (None, w')"
  shows "SyncRoutes (pol_sysctx (se_policy se)) (se_now se) (pol_conn (se_policy se) 20) (se_ctx se) routes
             (ap_Name (cfg_App cfg) @ '':route-discovery'') (sw_db w) = (None, sw_db w') \<and>
    RefreshSource (se_policy se) source (se_others se (sw_db w')) (se_others se (se_others se (sw_db w'))) (sw_manager w) = (None, sw_manager w')"
  using assms by (auto simp: sync_and_load_def split: prod.splits option.splits)

lemma http_OnStart_None:
  assumes "http_OnStart se cfg w = (None, w')" "az_Enabled (cfg_Authorization cfg)"
  defines "infos \<equiv> filter (\<lambda>i. prefix ''/api/v1/'' (ri_Path i)) (router_Routes se cfg)"
  shows "sw_listening w' \<and> list_all (describable (se_newRoute se) (se_version se) (ap_Name (cfg_App cfg))) infos \<and>
    (\<exists>w1. sync_and_load se cfg ''sync HTTP routes'' ''load route policies'' ''startup-http''
       (map (described (se_newRoute se) (se_version se) (ap_Name (cfg_App cfg))) infos) w = (None, w1)
     \<and> sw_db w1 = sw_db w' \<and> sw_manager w1 = sw_manager w')"
proof -
  from assms(1,2) obtain routes where
    "discoveredBusinessRoutes (se_newRoute se) (se_version se) (router_Routes se cfg) (ap_Name (cfg_App cfg)) = Inr routes"
    by (auto simp: http_OnStart_def split: sum.splits)
  with assms(1,2) show ?thesis
    unfolding infos_def by (auto simp: discovered http_OnStart_def listen_def split: prod.splits option.splits)
qed

lemma http_OnStart_undescribed:
  assumes "az_Enabled (cfg_Authorization cfg)"
    and "\<not> list_all (describable (se_newRoute se) (se_version se) (ap_Name (cfg_App cfg)))
      (filter (\<lambda>i. prefix ''/api/v1/'' (ri_Path i)) (router_Routes se cfg))"
  shows "\<exists>err. http_OnStart se cfg w = (Some err, w)"
  using assms discovered[of "se_newRoute se" "se_version se" "router_Routes se cfg" "ap_Name (cfg_App cfg)"]
  by (auto simp: http_OnStart_def split: sum.splits)

lemma discovered_routes_wf:
  assumes contract: "new_route_contract nr svc" and m: "mset infos = mset (map (api_route se) api_posts)"
    and ok: "list_all (describable nr v svc) infos"
  shows "inj_on ro_ID (set (map (described nr v svc) infos))" "distinct (map (described nr v svc) infos)"
    "ro_Path ` set (map (described nr v svc) infos) = business_paths"
proof -
  have info: "business_info i" "describable nr v svc i" if "i \<in> set infos" for i
  proof -
    from m have "set infos = set (map (api_route se) api_posts)" by (metis set_mset_mset)
    with that show "business_info i" using api_route_business[of i se] by blast
    show "describable nr v svc i" using that ok by (simp add: list_all_iff)
  qed
  have "mset (map ri_Path infos) = mset (map (ri_Path \<circ> api_route se) api_posts)" using m by (metis map_map mset_map)
  moreover have "ri_Path \<circ> api_route se = (\<lambda>p. ''/api/v1'' @ p) \<circ> fst" by (auto simp: fun_eq_iff api_route_def)
  ultimately have mp: "mset (map ri_Path infos) = mset (map (\<lambda>p. ''/api/v1'' @ p) (map fst api_posts))" by simp
  have "distinct (map (\<lambda>p. ''/api/v1'' @ p) (map fst api_posts))"
    using api_posts_distinct by (simp only: distinct_map) (auto simp: inj_on_def)
  then have d: "distinct (map ri_Path infos)" using mp by (metis mset_eq_imp_distinct_iff)
  have paths: "map ro_Path (map (described nr v svc) infos) = map ri_Path infos"
    by (simp add: described_route(2)[OF contract] info)
  show "inj_on ro_ID (set (map (described nr v svc) infos))"
  proof (rule inj_onI)
    fix x y assume xy: "x \<in> set (map (described nr v svc) infos)" "y \<in> set (map (described nr v svc) infos)" "ro_ID x = ro_ID y"
    then obtain i j where "i \<in> set infos" "x = described nr v svc i" "j \<in> set infos" "y = described nr v svc j" by auto
    with xy(3) show "x = y" using described_route(5)[OF contract info info, of i j] d by (auto simp: distinct_map inj_on_def)
  qed
  show "distinct (map (described nr v svc) infos)"
    using d paths by (metis distinct_map)
  have "set (map ri_Path infos) = set (map (\<lambda>p. ''/api/v1'' @ p) (map fst api_posts))" using mp by (metis set_mset_mset)
  also have "\<dots> = business_paths" by (simp add: business_paths_def image_image)
  finally show "ro_Path ` set (map (described nr v svc) infos) = business_paths"
    using paths by (metis list.set_map)
qed

text \<open>The identifier under which a route is registered is the one its requests are evaluated under.\<close>

lemma registered_route_governs:
  assumes contract: "new_route_contract nr svc" and same: "\<forall>p m q s. pol_NewRoute pe p m q s = nr p m q s []"
    and reach: "manager_reach pe m" and name: "nulfree svc" and i: "i \<in> set (map (api_route se) api_posts)" "describable nr v svc i"
  shows "fst (EvaluateRoute pe x ''http'' (ToLower ''POST'') (ro_Path (described nr v svc i)) svc authorizer m)
    = snap_Evaluate pe (mg_snapshot m) x (ro_ID (described nr v svc i)) authorizer"
proof -
  from i obtain e where e: "e \<in> set api_posts" "i = api_route se e" by auto
  note route = described_route[OF contract api_route_business[OF i(1)] i(2)]
  have "ToLower (ToLower ''POST'') = ''post''" by code_simp
  from route(4)[OF this] obtain r' where
    r': "nr ''http'' (ToLower ''POST'') (ri_Path i) svc [] = Inr r'" "ro_ID r' = ro_ID (described nr v svc i)" by blast
  have "nulfree (fst e)" using e(1) api_posts_nulfree by (auto simp: list_all_iff)
  then have nf: "list_all nulfree [''http'', ToLower ''POST'', ri_Path i, svc]"
    using name unfolding e(2) by (auto simp: api_route_def) (code_simp+)?
  show ?thesis
    using EvaluateRoute_transparent[OF reach nf, of x authorizer] same r' by (simp add: route(2))
qed

text \<open>The names of the business handlers are those of the api group only.\<close>

lemma operational_names:
  "(g, i) \<in> set (http_routes cfg) \<Longrightarrow> g \<noteq> ApiGroup \<Longrightarrow>
     ri_Handler i \<in> {''Live'', ''Ready'', ''metrics'', ''swagger''} \<or> prefix ''pprof'' (ri_Handler i)"
  by (auto simp: route_tables split: if_splits)

lemma business_names:
  "list_all (\<lambda>e. snd e \<notin> {''Live'', ''Ready'', ''metrics'', ''swagger''} \<and> \<not> prefix ''pprof'' (snd e)) api_posts"
  by (simp add: api_posts_def)

lemma business_handler_group:
  assumes "(g, i) \<in> set (http_routes cfg)" "ri_Handler i \<in> snd ` set api_posts"
  shows "g = ApiGroup"
proof -
  from assms(2) obtain e where e: "e \<in> set api_posts" "ri_Handler i = snd e" by (rule imageE)
  with business_names have "ri_Handler i \<notin> {''Live'', ''Ready'', ''metrics'', ''swagger''} \<and> \<not> prefix ''pprof'' (ri_Handler i)"
    unfolding list_all_iff e(2) by blast
  with operational_names[OF assms(1)] show ?thesis by blast
qed

section \<open>Properties\<close>

text \<open>C8. What the handlers of the HTTP server do can make a difference to a request only on a registered
  route with the request's method and path, and only as the group of the route allows: without any
  condition for liveness, readiness and metrics; with profiling enabled and the profiling token for
  the profiling routes; with a verified token for the documentation where that is required; and for
  everything under \<open>/api/v1\<close> only for a POST request that passed the authentication and the policy of
  this route, under the identity these gave it. (Routes of the configured skip list need no token and
  run without an identity, routes of pre-shared keys need the key, and with authorization disabled no
  policy is asked. Two families of handlers \<open>h\<close> and \<open>h'\<close> are
  compared.)\<close>

theorem requests_reach_guarded_handlers:
  assumes "ServeHTTP he noRoute h c s \<noteq> ServeHTTP he noRoute h' c s" "ctx_principal (g_ctx c) = None"
  shows "\<exists>g i c' s'. find_route (he_config he) (g_Method c) (g_FullPath c) = Some (g, i) \<and>
    h (ri_Handler i) c' s' \<noteq> h' (ri_Handler i) c' s' \<and> g_Method c' = g_Method c \<and> g_FullPath c' = g_FullPath c \<and>
    (prefix ''/api/v1/'' (g_FullPath c) \<longleftrightarrow> g = ApiGroup) \<and>
    (case g of
       RootGroup \<Rightarrow> ri_Handler i \<in> {''Live'', ''Ready'', ''metrics''}
     | PprofGroup \<Rightarrow> obs_PprofEnabled (cfg_Observability (he_config he)) \<and> pprof_admitted he c
     | SwaggerGroup \<Rightarrow> sw_Enabled (cfg_Swagger (he_config he)) \<and> swagger_admitted he c
     | ApiGroup \<Rightarrow> g_Method c = ''POST'' \<and> (\<exists>p. (p, ri_Handler i) \<in> set api_posts \<and> g_FullPath c = ''/api/v1'' @ p) \<and> served_as he c c')"
proof -
  obtain g i where f: "find_route (he_config he) (g_Method c) (g_FullPath c) = Some (g, i)"
    using assms(1) by (cases "find_route (he_config he) (g_Method c) (g_FullPath c)") (auto simp: ServeHTTP_def)
  then have r: "(g, i) \<in> set (http_routes (he_config he))" "ri_Method i = g_Method c" "ri_Path i = g_FullPath c"
    using find_route_Some by blast+
  from assms(1) f have "global_chain he (group_chain he g (h (ri_Handler i))) c s \<noteq> global_chain he (group_chain he g (h' (ri_Handler i))) c s"
    by (simp add: ServeHTTP_def)
  then obtain c' s' where a: "same_request c c' \<and> group_admitted he g c c'" and d: "h (ri_Handler i) c' s' \<noteq> h' (ri_Handler i) c' s'"
    by (rule gate.reached[where mw = "\<lambda>h. global_chain he (group_chain he g h)"
          and passes = "\<lambda>c s c' s'. same_request c c' \<and> group_admitted he g c c'", OF group_gate])
  have "case g of
       RootGroup \<Rightarrow> ri_Handler i \<in> {''Live'', ''Ready'', ''metrics''}
     | PprofGroup \<Rightarrow> obs_PprofEnabled (cfg_Observability (he_config he)) \<and> pprof_admitted he c
     | SwaggerGroup \<Rightarrow> sw_Enabled (cfg_Swagger (he_config he)) \<and> swagger_admitted he c
     | ApiGroup \<Rightarrow> g_Method c = ''POST'' \<and> (\<exists>p. (p, ri_Handler i) \<in> set api_posts \<and> g_FullPath c = ''/api/v1'' @ p) \<and> served_as he c c'"
  proof (cases g)
    case ApiGroup
    then have "(ApiGroup, i) \<in> set (http_routes (he_config he))" "admitted he c c'" using r(1) a by (auto simp: group_admitted_def)
    from http_routes_api[OF this(1)] admitted_served_as[OF this(2) assms(2)] r(2,3) ApiGroup show ?thesis by simp
  qed (use r(1) a http_routes_root http_routes_pprof http_routes_swagger in \<open>simp_all add: group_admitted_def\<close>)
  moreover have "prefix ''/api/v1/'' (g_FullPath c) \<longleftrightarrow> g = ApiGroup" using http_routes_group[OF r(1)] r(3) by simp
  ultimately show ?thesis using f d a unfolding same_request_def by blast
qed

text \<open>Witness of C8: on the sample server a user with a valid token.\<close>

theorem requests_reach_guarded_handlers_witness:
  "ServeHTTP sample_http panicking (\<lambda>n. me_handler) (sample_gin ''Bearer token'') []
     \<noteq> ServeHTTP sample_http panicking (\<lambda>n. panicking) (sample_gin ''Bearer token'') []
   \<and> (\<exists>g i c'. find_route (he_config sample_http) ''POST'' ''/api/v1/me'' = Some (g, i) \<and> g = ApiGroup
        \<and> served_as sample_http (sample_gin ''Bearer token'') c')"
proof -
  let ?c = "sample_gin ''Bearer token''"
  have "g_status (fst (snd (ServeHTTP sample_http panicking (\<lambda>n. me_handler) ?c []))) = 200" by code_simp
  moreover have "g_status (fst (snd (ServeHTTP sample_http panicking (\<lambda>n. panicking) ?c []))) = 500" by code_simp
  ultimately have d: "ServeHTTP sample_http panicking (\<lambda>n. me_handler) ?c [] \<noteq> ServeHTTP sample_http panicking (\<lambda>n. panicking) ?c []"
    by auto
  have f: "ctx_principal (g_ctx ?c) = None" by code_simp
  have p: "g_FullPath ?c = ''/api/v1/me''" "g_Method ?c = ''POST''" by code_simp+
  have "prefix ''/api/v1/'' ''/api/v1/me''" by simp
  with requests_reach_guarded_handlers[OF d f] d p show ?thesis by auto
qed

text \<open>Whatever the handlers keep in the state of the server is changed only through admitted business
  requests: a part of the state that the collaborators of the middleware, the answer to unknown routes
  and the operational handlers leave alone is changed only by the handler of the request's route, which
  runs on what the request found there and determines what it leaves there.\<close>

lemma keeps_part: "keeps base k \<Longrightarrow> keeps (\<lambda>s. P (base s)) k"
  by (simp add: keeps_def)

lemma collaborators_keep_part: "collaborators_keep base he \<Longrightarrow> collaborators_keep (\<lambda>s. P (base s)) he"
  unfolding collaborators_keep_def by (elim conjE, intro conjI allI impI) simp_all

lemma state_changes_admitted:
  assumes keep: "collaborators_keep base he" "keeps base noRoute" and ops: "\<And>n. n \<notin> snd ` set api_posts \<Longrightarrow> keeps base (h n)"
    and run: "ServeHTTP he noRoute h c s = (f, c1, s1)" and changed: "base s1 \<noteq> base s" and fresh: "ctx_principal (g_ctx c) = None"
  shows "\<exists>p n c' s'. (p, n) \<in> set api_posts \<and> g_Method c = ''POST'' \<and> g_FullPath c = ''/api/v1'' @ p \<and>
    served_as he c c' \<and> steady base c s c' s' \<and> base (snd (snd (h n c' s'))) = base s1"
proof -
  define tables where "tables s = (base s = base s1)" for s
  let ?h' = "\<lambda>n. confined tables (h n)" and ?mw = "\<lambda>g h. global_chain he (group_chain he g h)"
  have kept: "collaborators_keep tables he" "keeps tables noRoute"
    unfolding tables_def by (rule collaborators_keep_part[OF keep(1)], rule keeps_part[OF keep(2)])
  have "tables (snd (snd (ServeHTTP he noRoute ?h' c s))) = tables s"
    using ServeHTTP_keeps[OF kept confined_keeps, of h] by (simp add: keeps_def)
  with run changed have "ServeHTTP he noRoute h c s \<noteq> ServeHTTP he noRoute ?h' c s" by (metis snd_conv tables_def)
  then obtain g i where r: "find_route (he_config he) (g_Method c) (g_FullPath c) = Some (g, i)"
    and d: "?mw g (h (ri_Handler i)) c s \<noteq> ?mw g (?h' (ri_Handler i)) c s"
    by (auto simp: ServeHTTP_def split: option.splits)
  obtain c' s' where a: "(same_request c c' \<and> group_admitted he g c c') \<and> steady base c s c' s'"
    and d: "h (ri_Handler i) c' s' \<noteq> ?h' (ri_Handler i) c' s'"
    using gate.reached[where mw = "?mw g" and c = c and s = s and h = "h (ri_Handler i)" and h' = "?h' (ri_Handler i)",
        OF gate_conj[OF group_gate group_chain_steady[OF keep(1)]] d] by blast
  from d have "tables (snd (snd (h (ri_Handler i) c' s'))) \<noteq> tables s'" by (rule confined_differs)
  then have t: "base (snd (snd (h (ri_Handler i) c' s'))) = base s1"
    using a changed by (auto simp: tables_def steady_def)
  have "base s' = base s" using a by (simp add: steady_def)
  then have "\<not> keeps base (h (ri_Handler i))" using t changed unfolding keeps_def by metis
  then have "ri_Handler i \<in> snd ` set api_posts" using ops by blast
  then have api: "g = ApiGroup" using find_route_Some[OF r] business_handler_group by blast
  with r have i: "(ApiGroup, i) \<in> set (http_routes (he_config he))" "ri_Method i = g_Method c" "ri_Path i = g_FullPath c"
    using find_route_Some by blast+
  from http_routes_api[OF i(1)] i(2,3) obtain p where "(p, ri_Handler i) \<in> set api_posts" "g_Method c = ''POST''" "g_FullPath c = ''/api/v1'' @ p"
    by auto
  moreover have "admitted he c c'" using a api by (simp add: group_admitted_def)
  then have "served_as he c c'" by (rule admitted_served_as[OF _ fresh])
  ultimately show ?thesis using t a by blast
qed

text \<open>C37. Every request to a registered route is answered: whatever the handlers do, as long as they write
  a reply when they return (they may also panic), the server returns with a reply written and no
  panic escapes.\<close>

theorem every_request_is_answered:
  assumes "\<And>n. replies (h n)" "find_route (he_config he) (g_Method c) (g_FullPath c) \<noteq> None"
  shows "\<exists>c' s'. ServeHTTP he noRoute h c s = (Returned, c', s') \<and> g_written c'"
proof -
  obtain g i where f: "find_route (he_config he) (g_Method c) (g_FullPath c) = Some (g, i)" using assms(2) by auto
  let ?m = "global_chain he (group_chain he g (h (ri_Handler i)))"
  have "?m c s = (Returned, snd (?m c s))" using global_chain_returns[of he] by (simp add: prod_eq_iff)
  then have "g_written (fst (snd (?m c s)))"
    using group_chain_replies[OF assms(1), of he g "ri_Handler i"] unfolding replies_def by (metis prod.collapse)
  then show ?thesis using f global_chain_returns[of he] by (simp add: ServeHTTP_def prod_eq_iff)
qed

text \<open>Witness of C37: handlers that always panic.\<close>

theorem every_request_is_answered_witness:
  "replies (panicking :: sample_store handler) \<and>
   (\<exists>c' s'. ServeHTTP sample_http panicking (\<lambda>n. panicking) (sample_gin ''Bearer token'') [] = (Returned, c', s') \<and> g_written c')"
proof -
  have r: "replies (panicking :: sample_store handler)" by (simp add: replies_def panicking_def)
  have "find_route (he_config sample_http) (g_Method (sample_gin ''Bearer token'')) (g_FullPath (sample_gin ''Bearer token'')) \<noteq> None"
    by code_simp
  with every_request_is_answered[of "\<lambda>n. panicking", OF r] r show ?thesis by blast
qed

text \<open>C38. A started HTTP server enforces policies on exactly its business routes. With authorization enabled
  and a manager in any state it can have reached, after a successful start the active HTTP routes of
  the service in the table are exactly the routes of the api group, the server listens, the snapshot
  holds the policies that were loaded after the synchronisation, and the decision for a request to
  such a route is the evaluation of the snapshot for the identifier of the active row, so that a policy
  written for a listed route is the one its requests meet. If one of these routes cannot be described,
  the start fails and has changed nothing. Of \<open>platformpolicy.NewRoute\<close> only its contract for the
  business paths of this service is used.\<close>

theorem start_registers_business_routes:
  assumes start: "http_OnStart se cfg w = (res, w')" and enabled: "az_Enabled (cfg_Authorization cfg)"
    and contract: "new_route_contract (se_newRoute se) (ap_Name (cfg_App cfg))"
    and same: "\<forall>p m q s. pol_NewRoute (se_policy se) p m q s = se_newRoute se p m q s []"
    and reload: "reload_contract (se_policy se)" and arrange: "\<forall>is. mset (se_arrange se is) = mset is"
    and manager: "manager_reach (se_policy se) (sw_manager w)" and name: "nulfree (ap_Name (cfg_App cfg))"
  shows "let svc = ap_Name (cfg_App cfg); rows = active_routes svc ''http'' (route_definitions (sw_db w')) in
    (res = None \<longrightarrow>
      ro_Path ` rows = (\<lambda>e. ''/api/v1'' @ fst e) ` set api_posts \<and> sw_listening w' \<and>
      policy_Load (pol_conn (se_policy se) 10) (se_others se (sw_db w')) = Inr (mg_snapshot (sw_manager w')) \<and>
      (\<forall>r\<in>rows. \<forall>x authorizer. fst (EvaluateRoute (se_policy se) x ''http'' (ToLower ''POST'') (ro_Path r) svc authorizer (sw_manager w'))
         = snap_Evaluate (se_policy se) (mg_snapshot (sw_manager w')) x (ro_ID r) authorizer)) \<and>
    ((\<exists>e\<in>set api_posts. \<exists>err. se_newRoute se ''http'' ''POST'' (''/api/v1'' @ fst e) svc (se_version se) = Inl err) \<longrightarrow>
      res \<noteq> None \<and> w' = w)"
proof -
  let ?svc = "ap_Name (cfg_App cfg)"
  let ?infos = "filter (\<lambda>i. prefix ''/api/v1/'' (ri_Path i)) (router_Routes se cfg)"
  let ?routes = "map (described (se_newRoute se) (se_version se) ?svc) ?infos"
  let ?rows = "active_routes ?svc ''http'' (route_definitions (sw_db w'))"
  have "mset (router_Routes se cfg) = mset (map (\<lambda>(g, i). i\<lparr>ri_Handler := se_handlerName se (ri_Handler i)\<rparr>) (http_routes cfg))"
    using arrange by (simp add: router_Routes_def)
  then have m: "mset ?infos = mset (map (api_route se) api_posts)"
    unfolding api_registered[of se cfg, symmetric] mset_filter by (rule arg_cong)
  then have infos: "set ?infos = set (map (api_route se) api_posts)" by (metis set_mset_mset)
  have failing: "res \<noteq> None \<and> w' = w"
    if "e \<in> set api_posts" "se_newRoute se ''http'' ''POST'' (''/api/v1'' @ fst e) ?svc (se_version se) = Inl err" for e err
  proof -
    have "api_route se e \<in> set ?infos" unfolding infos using that(1) by simp
    moreover have "\<not> describable (se_newRoute se) (se_version se) ?svc (api_route se e)"
      using that(2) by (simp add: describable_def api_route_def)
    ultimately have "\<not> list_all (describable (se_newRoute se) (se_version se) ?svc) ?infos" by (auto simp only: list_all_iff)
    with http_OnStart_undescribed[OF enabled, of se w] start show ?thesis by auto
  qed
  have started: "ro_Path ` ?rows = (\<lambda>e. ''/api/v1'' @ fst e) ` set api_posts \<and> sw_listening w' \<and>
      policy_Load (pol_conn (se_policy se) 10) (se_others se (sw_db w')) = Inr (mg_snapshot (sw_manager w')) \<and>
      (\<forall>r\<in>?rows. \<forall>x authorizer. fst (EvaluateRoute (se_policy se) x ''http'' (ToLower ''POST'') (ro_Path r) ?svc authorizer (sw_manager w'))
         = snap_Evaluate (se_policy se) (mg_snapshot (sw_manager w')) x (ro_ID r) authorizer)" if "res = None"
  proof -
    from http_OnStart_None[OF start[unfolded that] enabled] obtain w1 where listening: "sw_listening w'"
      and ok: "list_all (describable (se_newRoute se) (se_version se) ?svc) ?infos"
      and load: "sync_and_load se cfg ''sync HTTP routes'' ''load route policies'' ''startup-http'' ?routes w = (None, w1)"
      and w1: "sw_db w1 = sw_db w'" "sw_manager w1 = sw_manager w'" by blast
    note sl = sync_and_load_None[OF load, unfolded w1]
    have info: "i \<in> set (map (api_route se) api_posts)" "describable (se_newRoute se) (se_version se) ?svc i" if "i \<in> set ?infos" for i
      using that ok infos unfolding list_all_iff by blast+
    have rows: "?rows = set ?routes"
    proof (rule SyncRoutes_active[OF conjunct1[OF sl] _ discovered_routes_wf(1,2)[OF contract m ok]])
      show "\<forall>r\<in>set ?routes. ro_ServiceName r = ?svc \<and> ro_Protocol r = ''http''"
        using described_route(1,3)[OF contract api_route_business[OF info(1)] info(2)] by (auto simp only: set_map)
    qed
    have snapshot: "policy_Load (pol_conn (se_policy se) 10) (se_others se (sw_db w')) = Inr (mg_snapshot (sw_manager w'))"
      using RefreshSource_None[OF conjunct2[OF sl] reload] by blast
    have reach: "manager_reach (se_policy se) (sw_manager w')"
      by (rule manager_reach.Refreshed[OF manager conjunct2[OF sl]])
    have "fst (EvaluateRoute (se_policy se) x ''http'' (ToLower ''POST'') (ro_Path r) ?svc authorizer (sw_manager w'))
        = snap_Evaluate (se_policy se) (mg_snapshot (sw_manager w')) x (ro_ID r) authorizer"
      if "r \<in> set ?routes" for r x authorizer
    proof -
      from that obtain i where i: "i \<in> set ?infos" "r = described (se_newRoute se) (se_version se) ?svc i" by (auto simp only: set_map)
      show ?thesis unfolding i(2) by (rule registered_route_governs[OF contract same reach name info[OF i(1)]])
    qed
    with listening snapshot discovered_routes_wf(3)[OF contract m ok] show ?thesis
      unfolding rows business_paths_def by blast
  qed
  show ?thesis unfolding Let_def using started failing by blast
qed

text \<open>An instance of the contract with identifiers of 36 characters that fails on blank paths and
  whose identifiers differ on the business paths, not on all paths.\<close>

definition sample_id :: "gostring \<Rightarrow> gostring" where
  "sample_id path = take 36 (rev path @ replicate 36 (CHR ''0''))"

lemma sample_ids: "distinct (map (\<lambda>e. sample_id (''/api/v1'' @ fst e)) api_posts)"
  by code_simp

definition sample_new_route :: new_route where
  "sample_new_route protocol method path service version =
     (if path = [] then Inl (OtherError ''route path is required'') else
     Inr \<lparr>ro_ID = sample_id path, ro_Protocol = protocol, ro_Method = method, ro_Path = path, ro_Operation = [], ro_Description = [],
          ro_ServiceName = service, ro_SourceVersion = version\<rparr>)"

definition sample_start :: start_env where
  "sample_start = \<lparr>se_policy = sample_policy_env\<lparr>pol_NewRoute := (\<lambda>p m q s. sample_new_route p m q s [])\<rparr>, se_newRoute = sample_new_route,
     se_version = ''dev'', se_now = 5, se_ctx = sample_ctx, se_arrange = (\<lambda>is. is), se_handlerName = (\<lambda>n. n), se_grpcServices = [],
     se_others = (\<lambda>db. db), se_Listen = (\<lambda>a. None)\<rparr>"

definition sample_world :: start_world where
  "sample_world = \<lparr>sw_db = \<lparr>route_definitions = [], route_policy_definitions = [], route_policy_permission_refs = []\<rparr>,
     sw_manager = NewManager False False ''dev'' ''app'' 30, sw_listening = False, sw_warned = False\<rparr>"

lemma sample_fields:
  "az_Enabled (cfg_Authorization sample_config)" "se_newRoute sample_start = sample_new_route" "se_version sample_start = ''dev''"
  "se_now sample_start = 5" "se_ctx sample_start = sample_ctx" "se_Listen sample_start a = None" "se_others sample_start db = db"
  "pol_conn (se_policy sample_start) n = sample_conn"
  by (simp_all add: sample_config_def sample_start_def sample_policy_env_def)

lemma sample_route_contract: "new_route_contract sample_new_route svc"
proof -
  have "p' = p" if "p \<in> business_paths" "p' \<in> business_paths" "sample_id p' = sample_id p" for p p'
    using that sample_ids unfolding business_paths_def distinct_map inj_on_def by auto
  then show ?thesis unfolding new_route_contract_def by (auto simp: sample_new_route_def)
qed

lemma sample_started: "\<exists>w'. http_OnStart sample_start sample_config sample_world = (None, w')"
proof -
  let ?routes = "map (described sample_new_route ''dev'' (ap_Name (cfg_App sample_config))) (map (api_route sample_start) api_posts)"
  have d: "discoveredBusinessRoutes sample_new_route ''dev'' (router_Routes sample_start sample_config) (ap_Name (cfg_App sample_config)) = Inr ?routes"
    unfolding discovered api_registered[of sample_start sample_config, symmetric]
    by (simp add: router_Routes_def sample_start_def describable_def sample_new_route_def list_all_iff)
  have ids: "map ro_ID ?routes = map (\<lambda>e. sample_id (''/api/v1'' @ fst e)) api_posts" "map ro_Path ?routes = map (\<lambda>p. ''/api/v1'' @ p) (map fst api_posts)"
    by (simp_all add: described_def sample_new_route_def api_route_def)
  have dist: "distinct (map (\<lambda>p. ''/api/v1'' @ p) (map fst api_posts))"
    using api_posts_distinct by (simp only: distinct_map) (auto simp: inj_on_def)
  have "TrimSpace ''u1'' = ''u1''" by code_simp
  then have actor: "setAuditActor sample_conn (pol_sysctx (se_policy sample_start) sample_ctx (ap_Name (cfg_App sample_config) @ '':route-discovery''))
      = Inr (sample_conn\<lparr>app_actor := ''u1''\<rparr>)"
    unfolding sample_start_def sample_policy_env_def by (simp add: sample_conn_def sample_ctx_def sample_user_def setAuditActor_def)
  have working: "db_available sample_conn" "fault sample_conn l = None" "fault (sample_conn\<lparr>app_actor := ''u1''\<rparr>) l = None"
      "app_actor (sample_conn\<lparr>app_actor := ''u1''\<rparr>) \<noteq> []" "route_definitions (sw_db sample_world) = []" for l
    by (simp_all add: sample_conn_def sample_world_def)
  obtain t where t: "SyncRoutes (pol_sysctx (se_policy sample_start)) 5 sample_conn sample_ctx ?routes
      (ap_Name (cfg_App sample_config) @ '':route-discovery'') (sw_db sample_world) = (None, (sw_db sample_world)\<lparr>route_definitions := t\<rparr>)"
    using SyncRoutes_new[where c = sample_conn and sysctx = "pol_sysctx (se_policy sample_start)" and x = sample_ctx and
        actor = "ap_Name (cfg_App sample_config) @ '':route-discovery''" and tx = "sample_conn\<lparr>app_actor := ''u1''\<rparr>" and routes = ?routes and
        db = "sw_db sample_world" and now = 5] actor ids dist sample_ids
    by (metis (no_types, lifting) api_posts_nonempty working map_is_Nil_conv)
  have "\<exists>m'. RefreshSource (se_policy sample_start) ''startup-http'' db db (sw_manager sample_world) = (None, m')"
    if "route_policy_definitions db = []" "route_policy_permission_refs db = []" for db
    using that
    by (simp add: RefreshSource_def policy_Load_def policy_Revision_def sample_start_def sample_policy_env_def sample_conn_def
        active_policies_def SelectContext_def live_def)
  then obtain m' where "RefreshSource (se_policy sample_start) ''startup-http'' ((sw_db sample_world)\<lparr>route_definitions := t\<rparr>)
      ((sw_db sample_world)\<lparr>route_definitions := t\<rparr>) (sw_manager sample_world) = (None, m')"
    by (metis sample_world_def start_world.select_convs(1) route_db.select_convs(2,3) route_db.update_convs(1))
  then have "\<exists>w'. sync_and_load sample_start sample_config ''sync HTTP routes'' ''load route policies'' ''startup-http'' ?routes sample_world = (None, w')"
    using t unfolding sync_and_load_def sample_fields by simp
  then show ?thesis using d unfolding http_OnStart_def sample_fields by (auto simp: listen_def sample_fields split: option.split)
qed

text \<open>Witness of C38: the sample server starts on empty tables and registers its route for \<open>/api/v1/me\<close>.\<close>

theorem start_registers_business_routes_witness:
  "\<exists>w'. http_OnStart sample_start sample_config sample_world = (None, w') \<and>
     (\<exists>r\<in>active_routes ''authorization-service'' ''http'' (route_definitions (sw_db w')). ro_Path r = ''/api/v1/me'')"
proof -
  obtain w' where w': "http_OnStart sample_start sample_config sample_world = (None, w')" using sample_started by blast
  have name: "ap_Name (cfg_App sample_config) = ''authorization-service''" by code_simp
  have "new_route_contract (se_newRoute sample_start) (ap_Name (cfg_App sample_config))" by (simp add: sample_fields sample_route_contract)
  moreover have "\<forall>p m q s. pol_NewRoute (se_policy sample_start) p m q s = se_newRoute sample_start p m q s []"
    by (simp add: sample_start_def)
  moreover have "reload_contract (se_policy sample_start)"
    by (simp add: reload_contract_def sample_start_def sample_policy_env_def split: sum.splits)
  moreover have "\<forall>is. mset (se_arrange sample_start is) = mset is" by (simp add: sample_start_def)
  moreover have "manager_reach (se_policy sample_start) (sw_manager sample_world)" unfolding sample_world_def by (simp add: manager_reach.Created)
  moreover have "nulfree (ap_Name (cfg_App sample_config))" unfolding name by simp
  ultimately have "ro_Path ` active_routes ''authorization-service'' ''http'' (route_definitions (sw_db w')) = (\<lambda>e. ''/api/v1'' @ fst e) ` set api_posts"
    using start_registers_business_routes[OF w' sample_fields(1)] unfolding name Let_def by blast
  moreover have "''/api/v1/me'' \<in> (\<lambda>e. ''/api/v1'' @ fst e) ` set api_posts"
    by (rule image_eqI[of _ _ "(''/me'', ''Me'')"]) (simp_all add: api_posts_def)
  ultimately have "''/api/v1/me'' \<in> ro_Path ` active_routes ''authorization-service'' ''http'' (route_definitions (sw_db w'))" by (simp only:)
  then show ?thesis unfolding w' by (elim imageE) auto
qed

end
