(* ===== verification/Endpoints.thy ===== *)
theory Endpoints
  imports Servers
begin

text \<open>
  The handlers behind the routes: what \<open>NewServer\<close> of \<open>internal/transport/http/server.go\<close> binds to the
  paths of \<open>api_posts\<close>, as gin handlers on the state of the whole service.

  \<open>json.Decode\<close> of a body into a request struct is one argument per struct (the record
  \<open>decoders\<close>). A response body is the sum of the structs that the handlers reply with. The handlers of
  other packages (metrics, profiling, documentation) are an argument.
\<close>

section \<open>The state of the service\<close>

text \<open>The world of the authorization service, the route policies, and the rest: counters of the rate
  limiter, records of the idempotency manager, revoked tokens, logs and metrics.\<close>

record 'm app_state =
  as_world :: world
  as_routes :: route_world
  as_rest :: 'm

section \<open>Bodies\<close>

datatype api_body =
    OfPermissionBody PermissionBody
  | OfPermissionPageBody PermissionPageBody
  | OfRoleBody RoleBody
  | OfRolePageBody RolePageBody
  | OfRoleBatchBody RoleBatchBody
  | OfRolePermissionBody RolePermissionBody
  | OfRolePermissionsBody RolePermissionsBody
  | OfBindingBody BindingBody
  | OfBindingPageResponseBody BindingPageResponseBody
  | OfDecisionBody DecisionBody
  | OfDecisionsBody DecisionsBody
  | OfPermissionCodeDecisionBody PermissionCodeDecisionBody
  | OfRoutePolicyPage RoutePolicyPage
  | OfDetail Detail
  | OfStatus Status
  | OfMeResponseBody MeResponseBody
  | OfInfo Info

record decoders =
  dec_CreatePermission :: "gostring result \<Rightarrow> CreatePermissionRequest result"
  dec_GetPermission :: "gostring result \<Rightarrow> GetPermissionRequest result"
  dec_UpdatePermission :: "gostring result \<Rightarrow> UpdatePermissionRequest result"
  dec_ListPermissions :: "gostring result \<Rightarrow> ListPermissionsRequest result"
  dec_ListMyPermissionCatalog :: "gostring result \<Rightarrow> ListMyPermissionCatalogRequest result"
  dec_CreateMyPermission :: "gostring result \<Rightarrow> CreateMyPermissionRequest result"
  dec_GetMyPermission :: "gostring result \<Rightarrow> GetMyPermissionRequest result"
  dec_UpdateMyPermission :: "gostring result \<Rightarrow> UpdateMyPermissionRequest result"
  dec_ListMyPermissions :: "gostring result \<Rightarrow> ListMyPermissionsRequest result"
  dec_CreateRole :: "gostring result \<Rightarrow> CreateRoleRequest result"
  dec_GetRole :: "gostring result \<Rightarrow> GetRoleRequest result"
  dec_UpdateRole :: "gostring result \<Rightarrow> UpdateRoleRequest result"
  dec_ListRoles :: "gostring result \<Rightarrow> ListRolesRequest result"
  dec_CreateMyRole :: "gostring result \<Rightarrow> CreateMyRoleRequest result"
  dec_GetMyRole :: "gostring result \<Rightarrow> GetMyRoleRequest result"
  dec_UpdateMyRole :: "gostring result \<Rightarrow> UpdateMyRoleRequest result"
  dec_ListMyRoles :: "gostring result \<Rightarrow> ListMyRolesRequest result"
  dec_BatchGetMyRoles :: "gostring result \<Rightarrow> BatchGetMyRolesRequest result"
  dec_GrantRolePermission :: "gostring result \<Rightarrow> GrantRolePermissionRequest result"
  dec_RevokeRolePermission :: "gostring result \<Rightarrow> RevokeRolePermissionRequest result"
  dec_ListRolePermissions :: "gostring result \<Rightarrow> ListRolePermissionsRequest result"
  dec_GrantMyRolePermission :: "gostring result \<Rightarrow> GrantMyRolePermissionRequest result"
  dec_RevokeMyRolePermission :: "gostring result \<Rightarrow> RevokeMyRolePermissionRequest result"
  dec_ListMyRolePermissions :: "gostring result \<Rightarrow> ListMyRolePermissionsRequest result"
  dec_BatchGetMyRolePermissions :: "gostring result \<Rightarrow> BatchGetMyRolePermissionsRequest result"
  dec_CreateBinding :: "gostring result \<Rightarrow> CreateBindingRequest result"
  dec_GetBinding :: "gostring result \<Rightarrow> GetBindingRequest result"
  dec_RevokeBinding :: "gostring result \<Rightarrow> RevokeBindingRequest result"
  dec_ListBindings :: "gostring result \<Rightarrow> ListBindingsRequest result"
  dec_CreateMyBinding :: "gostring result \<Rightarrow> CreateMyBindingRequest result"
  dec_GetMyBinding :: "gostring result \<Rightarrow> GetMyBindingRequest result"
  dec_RevokeMyBinding :: "gostring result \<Rightarrow> RevokeMyBindingRequest result"
  dec_ListMyBindings :: "gostring result \<Rightarrow> ListMyBindingsRequest result"
  dec_CheckAuthorization :: "gostring result \<Rightarrow> CheckAuthorizationRequest result"
  dec_BatchCheckAuthorization :: "gostring result \<Rightarrow> BatchCheckAuthorizationRequest result"
  dec_CheckMyPermissionCodes :: "gostring result \<Rightarrow> CheckMyPermissionCodesRequest result"
  dec_PageRoutePolicies :: "gostring result \<Rightarrow> PageRoutePoliciesRequest result"
  dec_GetRoutePolicy :: "gostring result \<Rightarrow> GetRoutePolicyRequest result"
  dec_SetRoutePolicy :: "gostring result \<Rightarrow> SetRoutePolicyRequest result"

text \<open>What one request brings: the environments of the calls to the service, the environment of the route
  policies, the health service and the build information at that moment.\<close>

record 's app_env =
  ae_decoders :: decoders
  ae_envs :: "nat \<Rightarrow> env"
  ae_policies :: policy_env
  ae_health :: health_Service
  ae_duration :: "time \<Rightarrow> gostring" \<comment> \<open>\<open>Duration.String\<close>\<close>
  ae_redisFirst :: bool
  ae_info :: Info
  ae_foreign :: "gostring \<Rightarrow> 's handler" \<comment> \<open>handlers of other packages\<close>

section \<open>Binding handlers to the gin context\<close>

definition map_reply :: "('a \<Rightarrow> 'b) \<Rightarrow> 'a reply \<Rightarrow> 'b reply" where
  "map_reply f r = (fst r, \<lparr>rs_Code = rs_Code (snd r), rs_Message = rs_Message (snd r),
     rs_Body = map_option f (rs_Body (snd r)), rs_RequestID = rs_RequestID (snd r)\<rparr>)"

definition on_world ::
  "api_body json_lib \<Rightarrow> 'm app_state app_env \<Rightarrow> (decoders \<Rightarrow> gostring result \<Rightarrow> 'r result) \<Rightarrow> ('b \<Rightarrow> api_body)
   \<Rightarrow> ('r, 'b) Http_Handlers.handler \<Rightarrow> 'm app_state Middleware.handler" where
  "on_world js ae decode body h c s =
     (case h (ae_envs ae) (g_ctx c) (decode (ae_decoders ae) (g_Body c)) (as_world s) of
        (rep, w) \<Rightarrow> (Returned, gin_reply js (map_reply body rep) c, s\<lparr>as_world := w\<rparr>))"

definition on_routes ::
  "api_body json_lib \<Rightarrow> 'm app_state app_env \<Rightarrow> (decoders \<Rightarrow> gostring result \<Rightarrow> 'r result) \<Rightarrow> ('b \<Rightarrow> api_body)
   \<Rightarrow> (policy_env \<Rightarrow> ctx \<Rightarrow> 'r result \<Rightarrow> route_world \<Rightarrow> 'b reply \<times> route_world) \<Rightarrow> 'm app_state Middleware.handler" where
  "on_routes js ae decode body h c s =
     (case h (ae_policies ae) (g_ctx c) (decode (ae_decoders ae) (g_Body c)) (as_routes s) of
        (rep, w) \<Rightarrow> (Returned, gin_reply js (map_reply body rep) c, s\<lparr>as_routes := w\<rparr>))"

definition on_nothing :: "api_body json_lib \<Rightarrow> ('b \<Rightarrow> api_body) \<Rightarrow> (gin \<Rightarrow> 'b reply) \<Rightarrow> 'm app_state Middleware.handler" where
  "on_nothing js body h c s = (Returned, gin_reply js (map_reply body (h c)) c, s)"

section \<open>The table of handlers\<close>

definition api_handlers :: "api_body json_lib \<Rightarrow> 'm app_state app_env \<Rightarrow> (gostring \<times> 'm app_state Middleware.handler) list" where
  "api_handlers js ae =
     [(''Version'', on_nothing js OfInfo (\<lambda>c. http_Version (ae_info ae) (g_ctx c))),
      (''Me'', on_nothing js OfMeResponseBody http_Me),
      (''CreatePermission'', on_world js ae dec_CreatePermission OfPermissionBody http_CreatePermission),
      (''GetPermission'', on_world js ae dec_GetPermission OfPermissionBody http_GetPermission),
      (''UpdatePermission'', on_world js ae dec_UpdatePermission OfPermissionBody http_UpdatePermission),
      (''ListPermissions'', on_world js ae dec_ListPermissions OfPermissionPageBody http_ListPermissions),
      (''ListMyPermissionCatalog'', on_world js ae dec_ListMyPermissionCatalog OfPermissionPageBody http_ListMyPermissionCatalog),
      (''CreateMyPermission'', on_world js ae dec_CreateMyPermission OfPermissionBody http_CreateMyPermission),
      (''GetMyPermission'', on_world js ae dec_GetMyPermission OfPermissionBody http_GetMyPermission),
      (''UpdateMyPermission'', on_world js ae dec_UpdateMyPermission OfPermissionBody http_UpdateMyPermission),
      (''ListMyPermissions'', on_world js ae dec_ListMyPermissions OfPermissionPageBody http_ListMyPermissions),
      (''CreateRole'', on_world js ae dec_CreateRole OfRoleBody http_CreateRole),
      (''GetRole'', on_world js ae dec_GetRole OfRoleBody http_GetRole),
      (''UpdateRole'', on_world js ae dec_UpdateRole OfRoleBody http_UpdateRole),
      (''ListRoles'', on_world js ae dec_ListRoles OfRolePageBody http_ListRoles),
      (''CreateMyRole'', on_world js ae dec_CreateMyRole OfRoleBody http_CreateMyRole),
      (''GetMyRole'', on_world js ae dec_GetMyRole OfRoleBody http_GetMyRole),
      (''UpdateMyRole'', on_world js ae dec_UpdateMyRole OfRoleBody http_UpdateMyRole),
      (''ListMyRoles'', on_world js ae dec_ListMyRoles OfRolePageBody http_ListMyRoles),
      (''BatchGetMyRoles'', on_world js ae dec_BatchGetMyRoles OfRoleBatchBody http_BatchGetMyRoles),
      (''GrantRolePermission'', on_world js ae dec_GrantRolePermission OfRolePermissionBody http_GrantRolePermission),
      (''RevokeRolePermission'', on_world js ae dec_RevokeRolePermission OfRolePermissionBody http_RevokeRolePermission),
      (''ListRolePermissions'', on_world js ae dec_ListRolePermissions OfRolePermissionsBody http_ListRolePermissions),
      (''GrantMyRolePermission'', on_world js ae dec_GrantMyRolePermission OfRolePermissionBody http_GrantMyRolePermission),
      (''RevokeMyRolePermission'', on_world js ae dec_RevokeMyRolePermission OfRolePermissionBody http_RevokeMyRolePermission),
      (''ListMyRolePermissions'', on_world js ae dec_ListMyRolePermissions OfRolePermissionsBody http_ListMyRolePermissions),
      (''BatchGetMyRolePermissions'', on_world js ae dec_BatchGetMyRolePermissions OfRolePermissionsBody http_BatchGetMyRolePermissions),
      (''CreateBinding'', on_world js ae dec_CreateBinding OfBindingBody http_CreateBinding),
      (''GetBinding'', on_world js ae dec_GetBinding OfBindingBody http_GetBinding),
      (''RevokeBinding'', on_world js ae dec_RevokeBinding OfBindingBody http_RevokeBinding),
      (''ListBindings'', on_world js ae dec_ListBindings OfBindingPageResponseBody http_ListBindings),
      (''CreateMyBinding'', on_world js ae dec_CreateMyBinding OfBindingBody http_CreateMyBinding),
      (''GetMyBinding'', on_world js ae dec_GetMyBinding OfBindingBody http_GetMyBinding),
      (''RevokeMyBinding'', on_world js ae dec_RevokeMyBinding OfBindingBody http_RevokeMyBinding),
      (''ListMyBindings'', on_world js ae dec_ListMyBindings OfBindingPageResponseBody http_ListMyBindings),
      (''CheckAuthorization'', on_world js ae dec_CheckAuthorization OfDecisionBody http_CheckAuthorization),
      (''BatchCheckAuthorization'', on_world js ae dec_BatchCheckAuthorization OfDecisionsBody http_BatchCheckAuthorization),
      (''CheckMyPermissionCodes'', on_world js ae dec_CheckMyPermissionCodes OfPermissionCodeDecisionBody http_CheckMyPermissionCodes),
      (''PageRoutePolicies'', on_routes js ae dec_PageRoutePolicies OfRoutePolicyPage http_PageRoutePolicies),
      (''GetRoutePolicy'', on_routes js ae dec_GetRoutePolicy OfDetail http_GetRoutePolicy),
      (''SetRoutePolicy'', on_routes js ae dec_SetRoutePolicy OfDetail http_SetRoutePolicy)]"

definition app_handlers :: "api_body json_lib \<Rightarrow> 'm app_state app_env \<Rightarrow> gostring \<Rightarrow> 'm app_state Middleware.handler" where
  "app_handlers js ae name =
     (if name = ''Live'' then on_nothing js OfStatus (\<lambda>c. http_Live (g_ctx c))
      else if name = ''Ready'' then on_nothing js OfStatus (\<lambda>c. http_Ready (ae_duration ae) (ae_redisFirst ae) (ae_health ae) (g_ctx c))
      else case map_of (api_handlers js ae) name of
        Some h \<Rightarrow> h
      | None \<Rightarrow> ae_foreign ae name)"

text \<open>A request to the server with these handlers.\<close>

definition serve_request ::
  "('m app_state, api_body) http_env \<Rightarrow> 'm app_state app_env \<Rightarrow> 'm app_state Middleware.handler \<Rightarrow> 'm app_state Middleware.handler" where
  "serve_request he ae noRoute = ServeHTTP he noRoute (app_handlers (he_json he) ae)"

text \<open>Every route of the api group has a handler here.\<close>

lemma api_handlers_names: "map fst (api_handlers js ae) = map snd api_posts"
  by (simp add: api_handlers_def api_posts_def)

end
