(* ===== verification/Endpoint_Laws.thy ===== *)
theory Endpoint_Laws
  imports Endpoints Http_Properties
begin

text \<open>
  What a request may change, handler by handler. A handler of the api group is one of four kinds: a
  management operation, which is one step of the service for the tenant of the request; a request under
  a \<open>my-\<dots>\<close> path (locale \<open>user_managed\<close> of \<open>Http_Laws\<close>); a request that only reads; a request about
  route policies. Each kind is a contract, and every entry of the table is an instance of one.
\<close>

section \<open>What the handlers may change\<close>

definition my_requests :: "(gostring \<times> (decoders \<Rightarrow> gostring result \<Rightarrow> my_request)) list" where
  "my_requests =
     [(''CreateMyPermission'', \<lambda>d body. MyCreatePermission (dec_CreateMyPermission d body)),
      (''GetMyPermission'', \<lambda>d body. MyGetPermission (dec_GetMyPermission d body)),
      (''UpdateMyPermission'', \<lambda>d body. MyUpdatePermission (dec_UpdateMyPermission d body)),
      (''ListMyPermissions'', \<lambda>d body. MyListPermissions (dec_ListMyPermissions d body)),
      (''CreateMyRole'', \<lambda>d body. MyCreateRole (dec_CreateMyRole d body)),
      (''GetMyRole'', \<lambda>d body. MyGetRole (dec_GetMyRole d body)),
      (''UpdateMyRole'', \<lambda>d body. MyUpdateRole (dec_UpdateMyRole d body)),
      (''ListMyRoles'', \<lambda>d body. MyListRoles (dec_ListMyRoles d body)),
      (''BatchGetMyRoles'', \<lambda>d body. MyBatchGetRoles (dec_BatchGetMyRoles d body)),
      (''GrantMyRolePermission'', \<lambda>d body. MyGrantRolePermission (dec_GrantMyRolePermission d body)),
      (''RevokeMyRolePermission'', \<lambda>d body. MyRevokeRolePermission (dec_RevokeMyRolePermission d body)),
      (''ListMyRolePermissions'', \<lambda>d body. MyListRolePermissions (dec_ListMyRolePermissions d body)),
      (''BatchGetMyRolePermissions'', \<lambda>d body. MyBatchGetRolePermissions (dec_BatchGetMyRolePermissions d body)),
      (''GetMyBinding'', \<lambda>d body. MyGetBinding (dec_GetMyBinding d body)),
      (''CreateMyBinding'', \<lambda>d body. MyCreateBinding (dec_CreateMyBinding d body)),
      (''RevokeMyBinding'', \<lambda>d body. MyRevokeBinding (dec_RevokeMyBinding d body)),
      (''ListMyBindings'', \<lambda>d body. MyListBindings (dec_ListMyBindings d body))]"

definition management_requests :: "gostring list" where
  "management_requests =
     [''CreatePermission'', ''UpdatePermission'', ''CreateRole'', ''UpdateRole'',
      ''GrantRolePermission'', ''RevokeRolePermission'', ''CreateBinding'', ''RevokeBinding'']"

text \<open>Whether a request to the handler may change rows of a tenant: the policy grants its caller what the
  request demands there, or it is a management operation and the tenant is open to its caller.\<close>

definition may_change :: "'s app_env \<Rightarrow> gostring \<Rightarrow> ctx \<Rightarrow> gostring result \<Rightarrow> world \<Rightarrow> gostring \<Rightarrow> bool" where
  "may_change ae name x body w u =
     (case map_of my_requests name of
        Some q \<Rightarrow> granted_demand (ae_envs ae 0) x (demand (q (ae_decoders ae) body)) w (TrimSpace u)
      | None \<Rightarrow> name \<in> set management_requests \<and> caller_may_manage (ae_envs ae 0) x u)"

definition orderly :: "'m app_state app_env \<Rightarrow> gostring \<Rightarrow> 'm app_state Middleware.handler \<Rightarrow> bool" where
  "orderly ae name h =
     (\<forall>c s u. world_ok (as_world s) \<longrightarrow> world_ok (as_world (snd (snd (h c s)))) \<and>
        (tenant_view u (w_db (as_world (snd (snd (h c s))))) \<noteq> tenant_view u (w_db (as_world s)) \<longrightarrow>
           may_change ae name (g_ctx c) (g_Body c) (as_world s) u))"

lemma orderly_quiet:
  assumes "\<And>c s. w_db (as_world (snd (snd (h c s)))) = w_db (as_world s)"
  shows "orderly ae name h"
  using assms by (simp add: orderly_def world_ok_def)

lemma on_world_world:
  "as_world (snd (snd (on_world js ae decode body h c s))) = snd (h (ae_envs ae) (g_ctx c) (decode (ae_decoders ae) (g_Body c)) (as_world s))"
  by (simp add: on_world_def split: prod.split)

lemma quiet_handlers [simp]: "orderly ae name (on_nothing js body f)" "orderly ae name (on_routes js ae decode body k)"
  by (rule orderly_quiet, simp add: on_nothing_def on_routes_def split: prod.split)+

section \<open>Management operations\<close>

locale management_handler =
  fixes handler :: "('r, 'b) Http_Handlers.handler"
  assumes one_step: "handler es x json w = (rep, w') \<Longrightarrow> service_step (es 0) x w w'"
begin

lemma orderly_endpoint:
  assumes "name \<in> set management_requests" "map_of my_requests name = None"
  shows "orderly ae name (on_world js ae decode body handler)"
proof -
  have "world_ok (snd (handler es x json w)) \<and>
      (tenant_view u (w_db (snd (handler es x json w))) \<noteq> tenant_view u (w_db w) \<longrightarrow> caller_may_manage (es 0) x u)"
    if "world_ok w" for es x json w u
    using service_step_effect[OF one_step that, of es x json] step_other_tenant[OF one_step that, of es x json] by (metis prod.collapse)
  with assms show ?thesis by (simp add: orderly_def on_world_world may_change_def)
qed

end

lemma bound_step:
  assumes "\<And>r. serve r = (rep, w') \<Longrightarrow> service_step e x w w'" "bound x valid json w serve = (rep, w')"
  shows "service_step e x w w'"
  using assms(2) by (cases rule: bound_cases) (auto intro: Unchanged assms(1))

interpretation manage_create_permission: management_handler http_CreatePermission
  by unfold_locales (auto simp: http_CreatePermission_def apfst_conv_iff intro: svc_CreatePermission_step elim!: bound_step[rotated])

interpretation manage_update_permission: management_handler http_UpdatePermission
  by unfold_locales (auto simp: http_UpdatePermission_def apfst_conv_iff intro: svc_UpdatePermission_step elim!: bound_step[rotated])

interpretation manage_create_role: management_handler http_CreateRole
  by unfold_locales (auto simp: http_CreateRole_def apfst_conv_iff intro: svc_CreateRole_step elim!: bound_step[rotated])

interpretation manage_update_role: management_handler http_UpdateRole
  by unfold_locales (auto simp: http_UpdateRole_def apfst_conv_iff intro: svc_UpdateRole_step elim!: bound_step[rotated])

interpretation manage_grant_role_permission: management_handler http_GrantRolePermission
  by unfold_locales (auto simp: http_GrantRolePermission_def apfst_conv_iff intro: svc_GrantRolePermission_step elim!: bound_step[rotated])

interpretation manage_revoke_role_permission: management_handler http_RevokeRolePermission
  by unfold_locales (auto simp: http_RevokeRolePermission_def apfst_conv_iff intro: svc_RevokeRolePermission_step elim!: bound_step[rotated])

interpretation manage_create_binding: management_handler http_CreateBinding
  by unfold_locales (auto simp: http_CreateBinding_def apfst_conv_iff intro: svc_CreateBinding_step elim!: bound_step[rotated])

interpretation manage_revoke_binding: management_handler http_RevokeBinding
  by unfold_locales (auto simp: http_RevokeBinding_def apfst_conv_iff intro: svc_RevokeBinding_step elim!: bound_step[rotated])

section \<open>Requests that only read\<close>

locale reading_handler =
  fixes handler :: "('r, 'b) Http_Handlers.handler"
  assumes tables_kept: "handler es x json w = (rep, w') \<Longrightarrow> w_db w' = w_db w"
begin

lemma orderly_endpoint: "orderly ae name (on_world js ae decode body handler)"
  by (rule orderly_quiet) (metis on_world_world prod.collapse tables_kept)

end

lemma bound_kept:
  assumes "\<And>r. serve r = (rep, w') \<Longrightarrow> w_db w' = w_db w" "bound x valid json w serve = (rep, w')"
  shows "w_db w' = w_db w"
  using assms(2) by (cases rule: bound_cases) (auto intro: assms(1))

lemma check_bound_kept: "check_bound e x r w = (d, w') \<Longrightarrow> w_db w' = w_db w"
  by (auto simp: check_bound_def split: sum.splits dest: check_frame)

lemma batch_checks_kept: "batch_checks es n x checks ds w = (r, w') \<Longrightarrow> w_db w' = w_db w"
  by (induction es n x checks ds w arbitrary: r w' rule: batch_checks.induct)
    (auto split: prod.splits sum.splits dest: check_bound_kept)

interpretation read_get_permission: reading_handler http_GetPermission
  by unfold_locales (auto simp: http_GetPermission_def apfst_conv_iff Let_def elim!: bound_kept[rotated])

interpretation read_list_permissions: reading_handler http_ListPermissions
  by unfold_locales (auto simp: http_ListPermissions_def apfst_conv_iff Let_def elim!: bound_kept[rotated])

interpretation read_list_my_permission_catalog: reading_handler http_ListMyPermissionCatalog
  by unfold_locales (auto simp: http_ListMyPermissionCatalog_def apfst_conv_iff Let_def elim!: bound_kept[rotated] dest: check_frame split: option.splits sum.splits prod.splits if_splits)

interpretation read_get_role: reading_handler http_GetRole
  by unfold_locales (auto simp: http_GetRole_def apfst_conv_iff Let_def elim!: bound_kept[rotated])

interpretation read_list_roles: reading_handler http_ListRoles
  by unfold_locales (auto simp: http_ListRoles_def apfst_conv_iff Let_def elim!: bound_kept[rotated])

interpretation read_list_role_permissions: reading_handler http_ListRolePermissions
  by unfold_locales (auto simp: http_ListRolePermissions_def apfst_conv_iff Let_def elim!: bound_kept[rotated])

interpretation read_get_binding: reading_handler http_GetBinding
  by unfold_locales (auto simp: http_GetBinding_def apfst_conv_iff Let_def elim!: bound_kept[rotated])

interpretation read_list_bindings: reading_handler http_ListBindings
  by unfold_locales (auto simp: http_ListBindings_def apfst_conv_iff Let_def elim!: bound_kept[rotated])

interpretation read_check_authorization: reading_handler http_CheckAuthorization
  by unfold_locales (auto simp: http_CheckAuthorization_def apfst_conv_iff Let_def elim!: bound_kept[rotated] dest: check_bound_kept)

interpretation read_batch_check_authorization: reading_handler http_BatchCheckAuthorization
  by unfold_locales (auto simp: http_BatchCheckAuthorization_def apfst_conv_iff Let_def elim!: bound_kept[rotated] dest: batch_checks_kept)

interpretation read_check_my_permission_codes: reading_handler http_CheckMyPermissionCodes
  by unfold_locales (auto simp: http_CheckMyPermissionCodes_def apfst_conv_iff Let_def elim!: bound_kept[rotated] dest: check_frame split: option.splits sum.splits prod.splits if_splits)

section \<open>Requests under the my-paths\<close>

context user_managed
begin

lemma orderly_endpoint:
  assumes "map_of my_requests name = Some q"
    and "\<And>d b. demand (q d b) = asked tenant_of scope_of resource action (decode d b)"
  shows "orderly ae name (on_world js ae decode body handler)"
proof -
  have "world_ok (snd (handler es x json w)) \<and> (tenant_view u (w_db (snd (handler es x json w))) \<noteq> tenant_view u (w_db w) \<longrightarrow>
       granted_demand (es 0) x (asked tenant_of scope_of resource action json) w (TrimSpace u))" if "world_ok w" for es x json w u
    using managed[of es x json w "fst (apfst succeeded (handler es x json w))" "snd (handler es x json w)" u] that
    by (simp add: prod_eq_iff)
  with assms show ?thesis by (simp add: orderly_def on_world_world may_change_def)
qed

end

section \<open>The table\<close>

lemmas management_endpoints =
  manage_create_permission.orderly_endpoint
  manage_update_permission.orderly_endpoint
  manage_create_role.orderly_endpoint
  manage_update_role.orderly_endpoint
  manage_grant_role_permission.orderly_endpoint
  manage_revoke_role_permission.orderly_endpoint
  manage_create_binding.orderly_endpoint
  manage_revoke_binding.orderly_endpoint

lemmas reading_endpoints =
  read_get_permission.orderly_endpoint
  read_list_permissions.orderly_endpoint
  read_list_my_permission_catalog.orderly_endpoint
  read_get_role.orderly_endpoint
  read_list_roles.orderly_endpoint
  read_list_role_permissions.orderly_endpoint
  read_get_binding.orderly_endpoint
  read_list_bindings.orderly_endpoint
  read_check_authorization.orderly_endpoint
  read_batch_check_authorization.orderly_endpoint
  read_check_my_permission_codes.orderly_endpoint

lemmas my_endpoints =
  create_permission.orderly_endpoint
  get_permission.orderly_endpoint
  update_permission.orderly_endpoint
  list_permissions.orderly_endpoint
  create_role.orderly_endpoint
  get_role.orderly_endpoint
  update_role.orderly_endpoint
  list_roles.orderly_endpoint
  batch_get_roles.orderly_endpoint
  grant_role_permission.orderly_endpoint
  revoke_role_permission.orderly_endpoint
  list_role_permissions.orderly_endpoint
  batch_get_role_permissions.orderly_endpoint
  get_binding.orderly_endpoint
  create_binding.orderly_endpoint
  revoke_binding.orderly_endpoint
  list_bindings.orderly_endpoint

lemma handlers_orderly: "list_all (\<lambda>(n, h). orderly ae n h) (api_handlers js ae)"
  unfolding api_handlers_def list.pred_inject prod.case
  by (intro conjI list.pred_inject(1); (rule quiet_handlers reading_endpoints
        | rule management_endpoints, simp add: management_requests_def, simp add: my_requests_def
        | rule my_endpoints, simp add: my_requests_def, simp)?)

end
