(* ===== verification/Endpoint_Properties.thy ===== *)
theory Endpoint_Properties
  imports Endpoint_Laws Server_Properties
begin

text \<open>
  Properties of the service from the HTTP request to the tables: what a request can change in the
  policy tables and in the route policies.
\<close>

section \<open>The handlers of the server\<close>

lemma handler_of_route:
  assumes "(p, n) \<in> set api_posts"
  shows "\<exists>h. (n, h) \<in> set (api_handlers js ae) \<and> app_handlers js ae n = h"
proof -
  have "n \<in> snd ` set api_posts" using assms by force
  also have "snd ` set api_posts = fst ` set (api_handlers js ae)" using api_handlers_names[of js ae] by (metis list.set_map)
  finally obtain h where h: "map_of (api_handlers js ae) n = Some h" by (metis map_of_eq_None_iff not_None_eq)
  moreover have "n \<notin> {''Live'', ''Ready''}" using business_names assms by (fastforce simp: list_all_iff)
  ultimately show ?thesis using map_of_SomeD[OF h] by (auto simp: app_handlers_def)
qed

lemma operational_keeps:
  assumes "n \<notin> snd ` set api_posts" "keeps tables (ae_foreign ae n)"
  shows "keeps tables (app_handlers js ae n)"
proof -
  have "n \<notin> fst ` set (api_handlers js ae)" using assms(1) api_handlers_names[of js ae] by (metis list.set_map)
  then have "map_of (api_handlers js ae) n = None" by (simp add: map_of_eq_None_iff)
  with assms(2) show ?thesis by (simp add: app_handlers_def keeps_def on_nothing_def)
qed

text \<open>What the hypotheses about the surroundings of the handlers amount to for a part of the state.\<close>

definition surroundings_keep ::
  "('m app_state \<Rightarrow> 'd) \<Rightarrow> ('m app_state, api_body) http_env \<Rightarrow> 'm app_state app_env \<Rightarrow> 'm app_state Middleware.handler \<Rightarrow> bool" where
  "surroundings_keep tables he ae noRoute =
     (collaborators_keep tables he \<and> keeps tables noRoute \<and> (\<forall>n. keeps tables (ae_foreign ae n)))"

lemma request_changes:
  assumes "surroundings_keep base he ae noRoute" "serve_request he ae noRoute c s = (f, c1, s1)"
    and "ctx_principal (g_ctx c) = None" "base s1 \<noteq> base s"
  obtains p n h c' s' where "(p, n) \<in> set api_posts" "(n, h) \<in> set (api_handlers (he_json he) ae)" "g_Method c = ''POST''"
    "g_FullPath c = ''/api/v1'' @ p" "served_as he c c'" "steady base c s c' s'" "base (snd (snd (h c' s'))) = base s1"
proof -
  have "\<exists>p n c' s'. (p, n) \<in> set api_posts \<and> g_Method c = ''POST'' \<and> g_FullPath c = ''/api/v1'' @ p \<and>
    served_as he c c' \<and> steady base c s c' s' \<and> base (snd (snd (app_handlers (he_json he) ae n c' s'))) = base s1"
    by (rule state_changes_admitted[OF _ _ operational_keeps assms(2)[unfolded serve_request_def] assms(4,3)])
       (use assms(1) in \<open>simp_all add: surroundings_keep_def\<close>)
  with handler_of_route that show thesis by metis
qed

section \<open>Properties\<close>

text \<open>C9. The rows of a tenant are changed over HTTP only by those who may. Suppose that the token
  verification, the route policies, the rate limiter, the idempotency manager, logs and metrics, the
  answer to unknown routes and the handlers of other packages leave the policy tables alone. Then every
  request keeps the invariant of the tables; and if the rows of a tenant differ after a request, it was
  a POST to a route of the api group that passed the authentication and the policy of this route, and
  under the identity these gave it either the policy grants the caller what the request to a
  \<open>my-\<dots>\<close> path demands in this tenant, or the route is a management operation and the tenant is open
  to the caller.\<close>

theorem requests_change_only_permitted_rows:
  assumes "surroundings_keep (\<lambda>s. w_db (as_world s)) he ae noRoute" "serve_request he ae noRoute c s = (f, c1, s1)"
    and "ctx_principal (g_ctx c) = None" "authorizedManagementTenant (g_ctx c) = None" "world_ok (as_world s)"
  shows "world_ok (as_world s1) \<and>
    (tenant_view u (w_db (as_world s1)) \<noteq> tenant_view u (w_db (as_world s)) \<longrightarrow>
      (\<exists>p n c' w. (p, n) \<in> set api_posts \<and> g_Method c = ''POST'' \<and> g_FullPath c = ''/api/v1'' @ p \<and> served_as he c c' \<and>
         authorizedManagementTenant (g_ctx c') = None \<and> w_db w = w_db (as_world s) \<and> may_change ae n (g_ctx c') (g_Body c') w u))"
proof (cases "w_db (as_world s1) = w_db (as_world s)")
  case True
  with assms(5) show ?thesis by (simp add: world_ok_def)
next
  case False
  obtain p n h c' s' where r: "(p, n) \<in> set api_posts" "(n, h) \<in> set (api_handlers (he_json he) ae)" "g_Method c = ''POST''"
    "g_FullPath c = ''/api/v1'' @ p" "served_as he c c'" and st: "steady (\<lambda>s. w_db (as_world s)) c s c' s'"
    and final: "w_db (as_world (snd (snd (h c' s')))) = w_db (as_world s1)"
    by (rule request_changes[OF assms(1-3) False])
  have o: "orderly ae n h" using handlers_orderly[of ae "he_json he"] r(2) by (auto simp: list_all_iff)
  have found: "w_db (as_world s') = w_db (as_world s)" "authorizedManagementTenant (g_ctx c') = None"
    using st assms(4) by (simp_all add: steady_def)
  then have "world_ok (as_world s')" using assms(5) by (simp add: world_ok_def)
  with o have "world_ok (as_world (snd (snd (h c' s')))) \<and>
      (tenant_view u (w_db (as_world s1)) \<noteq> tenant_view u (w_db (as_world s)) \<longrightarrow> may_change ae n (g_ctx c') (g_Body c') (as_world s') u)"
    unfolding orderly_def final[symmetric] found(1)[symmetric] by blast
  with final found r show ?thesis by (auto simp: world_ok_def)
qed

text \<open>A server for one tenant whose member creates a role.\<close>

definition app_decoders :: decoders where
  "app_decoders =
     \<lparr>dec_CreatePermission = (\<lambda>b. Inl (OtherError ''json'')), dec_GetPermission = (\<lambda>b. Inl (OtherError ''json'')),
      dec_UpdatePermission = (\<lambda>b. Inl (OtherError ''json'')), dec_ListPermissions = (\<lambda>b. Inl (OtherError ''json'')),
      dec_ListMyPermissionCatalog = (\<lambda>b. Inl (OtherError ''json'')), dec_CreateMyPermission = (\<lambda>b. Inl (OtherError ''json'')),
      dec_GetMyPermission = (\<lambda>b. Inl (OtherError ''json'')), dec_UpdateMyPermission = (\<lambda>b. Inl (OtherError ''json'')),
      dec_ListMyPermissions = (\<lambda>b. Inl (OtherError ''json'')), dec_CreateRole = (\<lambda>b. Inl (OtherError ''json'')),
      dec_GetRole = (\<lambda>b. Inl (OtherError ''json'')), dec_UpdateRole = (\<lambda>b. Inl (OtherError ''json'')),
      dec_ListRoles = (\<lambda>b. Inl (OtherError ''json'')), dec_CreateMyRole = (\<lambda>b. if b = Inr ''writer'' then Inr \<lparr>cmrr_TenantID = ''t1'', cmrr_PermissionScope = ''tenant'', cmrr_Code = ''writer'',
        cmrr_Name = ''Writer'', cmrr_Description = [], cmrr_DataScope = ''self''\<rparr> else Inl (OtherError ''json'')),
      dec_GetMyRole = (\<lambda>b. Inl (OtherError ''json'')), dec_UpdateMyRole = (\<lambda>b. Inl (OtherError ''json'')),
      dec_ListMyRoles = (\<lambda>b. Inl (OtherError ''json'')), dec_BatchGetMyRoles = (\<lambda>b. Inl (OtherError ''json'')),
      dec_GrantRolePermission = (\<lambda>b. Inl (OtherError ''json'')), dec_RevokeRolePermission = (\<lambda>b. Inl (OtherError ''json'')),
      dec_ListRolePermissions = (\<lambda>b. Inl (OtherError ''json'')), dec_GrantMyRolePermission = (\<lambda>b. Inl (OtherError ''json'')),
      dec_RevokeMyRolePermission = (\<lambda>b. Inl (OtherError ''json'')), dec_ListMyRolePermissions = (\<lambda>b. Inl (OtherError ''json'')),
      dec_BatchGetMyRolePermissions = (\<lambda>b. Inl (OtherError ''json'')), dec_CreateBinding = (\<lambda>b. Inl (OtherError ''json'')),
      dec_GetBinding = (\<lambda>b. Inl (OtherError ''json'')), dec_RevokeBinding = (\<lambda>b. Inl (OtherError ''json'')),
      dec_ListBindings = (\<lambda>b. Inl (OtherError ''json'')), dec_CreateMyBinding = (\<lambda>b. Inl (OtherError ''json'')),
      dec_GetMyBinding = (\<lambda>b. Inl (OtherError ''json'')), dec_RevokeMyBinding = (\<lambda>b. Inl (OtherError ''json'')),
      dec_ListMyBindings = (\<lambda>b. Inl (OtherError ''json'')), dec_CheckAuthorization = (\<lambda>b. Inl (OtherError ''json'')),
      dec_BatchCheckAuthorization = (\<lambda>b. Inl (OtherError ''json'')), dec_CheckMyPermissionCodes = (\<lambda>b. Inl (OtherError ''json'')),
      dec_PageRoutePolicies = (\<lambda>b. Inl (OtherError ''json'')), dec_GetRoutePolicy = (\<lambda>b. Inl (OtherError ''json'')),
      dec_SetRoutePolicy = (\<lambda>b. Inl (OtherError ''json''))\<rparr>"

definition app_env0 :: "unit app_state app_env" where
  "app_env0 =
     \<lparr>ae_decoders = app_decoders, ae_envs = (\<lambda>n. sample_env), ae_policies = sample_policy_env,
      ae_health = \<lparr>hv_db = None, hv_redis = None, hv_cfg = cfg_Health sample_config\<rparr>, ae_duration = (\<lambda>d. []), ae_redisFirst = False,
      ae_info = \<lparr>bi_Version = [], bi_Commit = [], bi_BuildTime = [], bi_StartedAt = 0, bi_Uptime = []\<rparr>, ae_foreign = (\<lambda>n. me_handler)\<rparr>"

definition app_http :: "(unit app_state, api_body) http_env" where
  "app_http =
     \<lparr>he_json = \<lparr>json_Marshal = (\<lambda>r. []), json_Unmarshal = (\<lambda>b. Inl (OtherError ''json''))\<rparr>, he_config = sample_config,
      he_verify = sample_verify, he_evaluate = (\<lambda>x p m r v s. (None, s)),
      he_limiter = \<lparr>lm_enabled = False, lm_failOpen = False, lm_backend = None\<rparr>, he_idempotency = None,
      he_validKey = (\<lambda>k. True), he_mediaType = (\<lambda>t. Inr t), he_sha256 = (\<lambda>t. t), he_log = (\<lambda>c s. s),
      he_observe = (\<lambda>m r st s. s), he_generated = ''generated'', he_expired = False\<rparr>"

definition app_state0 :: "unit app_state" where
  "app_state0 =
     \<lparr>as_world = admin_world,
      as_routes = \<lparr>rw_db = sample_route_db, rw_manager = NewManager False False ''dev'' ''app'' 30, rw_operations = []\<rparr>, as_rest = ()\<rparr>"

definition app_request :: "gostring \<Rightarrow> gostring \<Rightarrow> gin" where
  "app_request path body = (sample_gin ''Bearer token'')\<lparr>g_FullPath := path, g_Body := Inr body\<rparr>"

lemma app_surroundings: "surroundings_keep tables app_http app_env0 me_handler"
  by (simp add: surroundings_keep_def collaborators_keep_def keeps_def app_http_def app_env0_def me_handler_def sample_verify_def)

text \<open>On this server a request of the sample user reaches the handler of its route.\<close>

definition app_ctx :: ctx where
  "app_ctx = \<lparr>ctx_principal = Some Access_Properties.sample_user, authorizedManagementTenant = None, ctx_requestID = Some ''generated'',
     ctx_clientIP = ''10.0.0.1'', ctx_userAgent = [], ctx_idempotencyKey = None, ctx_environment = Some []\<rparr>"

lemma app_config:
  "psk_Enabled (at_PSK (cfg_Auth sample_config)) = False" "at_SkipHTTPPaths (cfg_Auth sample_config) = [''/api/v1/version'']"
  "co_Enabled (ht_CORS (cfg_HTTP sample_config)) = False" "ht_MaxBodyBytes (cfg_HTTP sample_config) = 1048576"
  "rt_ActiveProfile (cfg_Runtime sample_config) = []" "az_Enabled (cfg_Authorization sample_config) = True"
  by (simp_all add: sample_config_def setDefaults_def default_access_def default_http_def)

lemma app_paths:
  "MatchesAny ''/api/v1/authorization/my-roles/create'' [''/api/v1/version''] = False" "MatchesAny ''/api/v1/route-policies/set'' [''/api/v1/version''] = False"
  "requestid_Valid [] = False" "cut_at (CHR '' '') ''Bearer token'' = (''Bearer'', ''token'', True)" "EqualFold ''Bearer'' ''Bearer'' = True"
  by code_simp+

lemma app_handlers_entry:
  "app_handlers js ae ''CreateMyRole'' = on_world js ae dec_CreateMyRole OfRoleBody http_CreateMyRole"
  "app_handlers js ae ''SetRoutePolicy'' = on_routes js ae dec_SetRoutePolicy OfDetail http_SetRoutePolicy"
  by (simp_all add: app_handlers_def api_handlers_def)

lemma app_routes:
  "find_route (he_config app_http) ''POST'' ''/api/v1/authorization/my-roles/create''
     = Some (handle_route ApiGroup ''POST'' ''/api/v1/authorization/my-roles/create'' ''CreateMyRole'')"
  "find_route (he_config app_http) ''POST'' ''/api/v1/route-policies/set''
     = Some (handle_route ApiGroup ''POST'' ''/api/v1/route-policies/set'' ''SetRoutePolicy'')"
  by code_simp+

lemma app_request_simps [simp]:
  "g_Method (app_request path body) = ''POST''" "g_FullPath (app_request path body) = path" "g_Body (app_request path body) = Inr body"
  "g_ctx (app_request path body) = empty_ctx" "g_ContentLength (app_request path body) = 0" "g_TLS (app_request path body) = False"
  "g_ClientIP (app_request path body) = ''10.0.0.1''"
  "g_Header (app_request path body) k = (if k = ''Authorization'' then ''Bearer token'' else [])"
  by (simp_all add: app_request_def sample_gin_def)

lemmas app_middleware =
  global_chain_def api_chain_def RequestID_def IdempotencyKey_def Environment_def RequestLogger_def Recovery_def HTTPMetrics_def
  SecurityHeaders_def CORS_middleware_def MaxBody_def Timeout_def RequireJSON_def RateLimit_middleware_def Authentication_def
  JWT_middleware_def DatabaseAuthorization_def IdempotencyExecution_def context_defs

lemma app_reaches:
  assumes path: "find_route (he_config app_http) ''POST'' path = Some (handle_route ApiGroup m p n)" "MatchesAny path [''/api/v1/version''] = False"
    and h: "\<And>c s. fst (app_handlers (he_json app_http) ae n c s) = Returned" and body: "length body \<le> 1048576"
  shows "\<exists>c'. g_ctx c' = app_ctx \<and> g_Body c' = Inr body \<and>
    snd (snd (serve_request app_http ae noRoute (app_request path body) s)) = snd (snd (app_handlers (he_json app_http) ae n c' s))"
proof -
  let ?chain = "\<lambda>h. global_chain app_http (api_chain app_http h) (app_request path body)"
  define c' where "c' = fst (snd (?chain (\<lambda>c s. (Returned, c, s)) s))"
  note defs = app_middleware app_http_def app_config app_paths(3,4,5) path(2) sample_verify_def empty_ctx_def Let_def
  have "serve_request app_http ae noRoute (app_request path body) s = ?chain (app_handlers (he_json app_http) ae n) s"
    using path(1) by (simp add: serve_request_def ServeHTTP_def handle_route_def group_chain_def)
  moreover have "snd (snd (?chain (\<lambda>c s. (Returned, k c s)) s)) = snd (k c' s)" for k
    unfolding c'_def by (simp add: defs split: prod.split)
  moreover have "app_handlers (he_json app_http) ae n = (\<lambda>c s. (Returned, snd (app_handlers (he_json app_http) ae n c s)))"
    using h by (intro ext) (simp add: prod_eq_iff)
  moreover have "g_ctx c' = app_ctx" "g_Body c' = Inr body"
    using body unfolding c'_def by (simp_all add: defs app_ctx_def)
  ultimately show ?thesis by metis
qed

lemma on_routes_world:
  "as_routes (snd (snd (on_routes js ae decode body h c s))) = snd (h (ae_policies ae) (g_ctx c) (decode (ae_decoders ae) (g_Body c)) (as_routes s))"
  by (simp add: on_routes_def split: prod.split)

lemma endpoints_return [simp]:
  "fst (on_world js ae decode body h c s) = Returned" "fst (on_routes js ae decode body k c s) = Returned"
  by (simp_all add: on_world_def on_routes_def split: prod.split)

text \<open>Witness of C9: a member with the double wildcard creates a role of its tenant over HTTP.\<close>

theorem requests_change_only_permitted_rows_witness:
  "let c = app_request ''/api/v1/authorization/my-roles/create'' ''writer''; s1 = snd (snd (serve_request app_http app_env0 me_handler c app_state0)) in
   length (roles (tenant_view ''t1'' (w_db (as_world s1)))) = 2 \<and> world_ok (as_world s1) \<and>
   (\<exists>n c' w. served_as app_http c c' \<and> may_change app_env0 n (g_ctx c') (g_Body c') w ''t1'')"
proof -
  let ?c = "app_request ''/api/v1/authorization/my-roles/create'' ''writer''"
  let ?r = "serve_request app_http app_env0 me_handler ?c app_state0"
  let ?w = "snd (http_CreateMyRole (\<lambda>n. sample_env) app_ctx (dec_CreateMyRole app_decoders (Inr ''writer'')) admin_world)"
  have "as_world (snd (snd ?r)) = ?w"
    using app_reaches[OF app_routes(1) app_paths(1), of app_env0 "''writer''" me_handler app_state0]
    by (auto simp: app_handlers_entry on_world_world app_env0_def app_state0_def)
  moreover have "length (roles (tenant_view ''t1'' (w_db ?w))) = 2" by code_simp
  ultimately have two: "length (roles (tenant_view ''t1'' (w_db (as_world (snd (snd ?r)))))) = 2" by simp
  have one: "length (roles (tenant_view ''t1'' (w_db (as_world app_state0)))) = 1" by code_simp
  have run: "?r = (fst ?r, fst (snd ?r), snd (snd ?r))" by simp
  have hyps: "ctx_principal (g_ctx ?c) = None" "authorizedManagementTenant (g_ctx ?c) = None" "world_ok (as_world app_state0)" by code_simp+
  have "tenant_view ''t1'' (w_db (as_world (snd (snd ?r)))) \<noteq> tenant_view ''t1'' (w_db (as_world app_state0))" using two one by auto
  with requests_change_only_permitted_rows[OF app_surroundings run hyps, of "''t1''"] two show ?thesis unfolding Let_def by blast
qed

section \<open>Route policies\<close>

definition set_input :: "SetRoutePolicyRequest \<Rightarrow> SetInput" where
  "set_input r = trimmed_input \<lparr>si_RouteID = srpr_RouteID r, si_Expression = srpr_Expression r, si_Description = srpr_Description r,
     si_Status = srpr_Status r, si_ExpectedVersion = srpr_ExpectedVersion r, si_Permissions = srpr_Permissions r\<rparr>"

lemma policy_Set_failed: "policy_Set sysctx uuid c x input actor db = (Some e, db') \<Longrightarrow> db' = db"
  by (auto simp: policy_Set_def split: sum.splits)

lemma rps_Set_changes:
  assumes "rps_Set pe x input0 w = (r, w')" "rw_db w' \<noteq> rw_db w"
  obtains caller where "ctx_principal x = Some caller" "TrimSpace (pr_ID caller) \<noteq> []" "validate_input pe (trimmed_input input0) = None"
    "policy_Set (pol_sysctx pe) (pol_uuid pe) (pol_conn pe 0) x (trimmed_input input0) (pr_ID caller) (rw_db w) = (None, rw_db w')"
proof -
  obtain caller where p: "ctx_principal x = Some caller" "TrimSpace (pr_ID caller) \<noteq> []" "validate_input pe (trimmed_input input0) = None"
    using assms by (auto simp: rps_Set_def Let_def split: option.splits if_splits)
  let ?w = "policy_Set (pol_sysctx pe) (pol_uuid pe) (pol_conn pe 0) x (trimmed_input input0) (pr_ID caller) (rw_db w)"
  have "rw_db w' = snd ?w"
    using assms(1) p by (auto simp: rps_Set_def Let_def split: option.splits if_splits)
  moreover have "fst ?w = None" using policy_Set_failed assms(2) calculation by (metis not_None_eq prod.collapse)
  ultimately have "?w = (None, rw_db w')" by (simp add: prod_eq_iff)
  with p that show thesis by blast
qed

lemma SetRoutePolicy_changes:
  assumes "rw_db (snd (http_SetRoutePolicy pe x json w)) \<noteq> rw_db w"
  shows "\<exists>request caller. json = Inr request \<and> valid_SetRoutePolicyRequest request \<and> ctx_principal x = Some caller \<and>
    TrimSpace (pr_ID caller) \<noteq> [] \<and> validate_input pe (set_input request) = None \<and>
    policy_Set (pol_sysctx pe) (pol_uuid pe) (pol_conn pe 0) x (set_input request) (pr_ID caller) (rw_db w)
      = (None, rw_db (snd (http_SetRoutePolicy pe x json w)))"
proof -
  obtain request where r: "json = Inr request" "valid_SetRoutePolicyRequest request"
    using assms by (auto simp: http_SetRoutePolicy_def bound_policy_def ShouldBindJSON_def split: sum.splits if_splits)
  let ?s = "rps_Set pe x \<lparr>si_RouteID = srpr_RouteID request, si_Expression = srpr_Expression request,
            si_Description = srpr_Description request, si_Status = srpr_Status request,
            si_ExpectedVersion = srpr_ExpectedVersion request, si_Permissions = srpr_Permissions request\<rparr> w"
  have w': "snd (http_SetRoutePolicy pe x json w) = snd ?s"
    using r by (simp add: http_SetRoutePolicy_def bound_policy_def ShouldBindJSON_def)
  with assms obtain caller where "ctx_principal x = Some caller" "TrimSpace (pr_ID caller) \<noteq> []" "validate_input pe (set_input request) = None"
    "policy_Set (pol_sysctx pe) (pol_uuid pe) (pol_conn pe 0) x (set_input request) (pr_ID caller) (rw_db w) = (None, rw_db (snd ?s))"
    using rps_Set_changes[of pe x _ w "fst ?s" "snd ?s"] unfolding set_input_def by (metis prod.collapse)
  with r w' show ?thesis by auto
qed

text \<open>Only one handler writes route policies.\<close>

lemma endpoints_keep_routes:
  "keeps (\<lambda>s. rw_db (as_routes s)) (on_world js ae decode body h)" "keeps (\<lambda>s. rw_db (as_routes s)) (on_nothing js body' k)"
  "keeps (\<lambda>s. rw_db (as_routes s)) (on_routes js ae dec_PageRoutePolicies OfRoutePolicyPage http_PageRoutePolicies)"
  "keeps (\<lambda>s. rw_db (as_routes s)) (on_routes js ae dec_GetRoutePolicy OfDetail http_GetRoutePolicy)"
  by (auto simp: keeps_def on_world_def on_nothing_def on_routes_def http_PageRoutePolicies_def http_GetRoutePolicy_def bound_policy_def Let_def
      split: prod.splits sum.splits)

lemma handlers_keep_routes:
  "list_all (\<lambda>(n, h). n \<noteq> ''SetRoutePolicy'' \<longrightarrow> keeps (\<lambda>s. rw_db (as_routes s)) h) (api_handlers js ae)"
  by (simp add: api_handlers_def endpoints_keep_routes)

lemma set_handler: "list_all (\<lambda>(n, h). n = ''SetRoutePolicy'' \<longrightarrow> h = on_routes js ae dec_SetRoutePolicy OfDetail http_SetRoutePolicy) (api_handlers js ae)"
  by (simp add: api_handlers_def)

lemma set_path: "list_all (\<lambda>(p, n). n = ''SetRoutePolicy'' \<longrightarrow> p = ''/route-policies/set'') api_posts"
  by (simp add: api_posts_def)

text \<open>C11. The route policies are written over HTTP only by an admitted request to set one. If the
  surroundings of the handlers leave the tables of the route policies alone, a request after which they
  differ was a POST to \<open>/api/v1/route-policies/set\<close> that passed the authentication and the policy of
  this route, by a caller with an identity, with a decoded and valid body whose policy was accepted by
  the validation, and what the tables hold then is what writing this policy to the tables as the
  request found them leaves.\<close>

theorem route_policies_change_only_by_set:
  assumes "surroundings_keep (\<lambda>s. rw_db (as_routes s)) he ae noRoute" "serve_request he ae noRoute c s = (f, c1, s1)"
    and "ctx_principal (g_ctx c) = None" "rw_db (as_routes s1) \<noteq> rw_db (as_routes s)"
  shows "\<exists>c' request caller. g_Method c = ''POST'' \<and> g_FullPath c = ''/api/v1/route-policies/set'' \<and> served_as he c c' \<and>
    ctx_principal (g_ctx c') = Some caller \<and> TrimSpace (pr_ID caller) \<noteq> [] \<and>
    dec_SetRoutePolicy (ae_decoders ae) (g_Body c') = Inr request \<and> valid_SetRoutePolicyRequest request \<and>
    validate_input (ae_policies ae) (set_input request) = None \<and>
    policy_Set (pol_sysctx (ae_policies ae)) (pol_uuid (ae_policies ae)) (pol_conn (ae_policies ae) 0) (g_ctx c') (set_input request)
      (pr_ID caller) (rw_db (as_routes s)) = (None, rw_db (as_routes s1))"
proof -
  obtain p n h c' s' where r: "(p, n) \<in> set api_posts" "(n, h) \<in> set (api_handlers (he_json he) ae)" "g_Method c = ''POST''"
    "g_FullPath c = ''/api/v1'' @ p" "served_as he c c'" and st: "steady (\<lambda>s. rw_db (as_routes s)) c s c' s'"
    and final: "rw_db (as_routes (snd (snd (h c' s')))) = rw_db (as_routes s1)"
    by (rule request_changes[OF assms])
  have found: "rw_db (as_routes s') = rw_db (as_routes s)" using st by (simp add: steady_def)
  have "\<not> keeps (\<lambda>s. rw_db (as_routes s)) h" using final found assms(4) unfolding keeps_def by metis
  then have n: "n = ''SetRoutePolicy''" using handlers_keep_routes[of "he_json he" ae] r(2) by (auto simp: list_all_iff)
  then have h: "h = on_routes (he_json he) ae dec_SetRoutePolicy OfDetail http_SetRoutePolicy" and p: "p = ''/route-policies/set''"
    using set_handler[of "he_json he" ae] set_path r(1,2) by (auto simp: list_all_iff)
  let ?w = "snd (http_SetRoutePolicy (ae_policies ae) (g_ctx c') (dec_SetRoutePolicy (ae_decoders ae) (g_Body c')) (as_routes s'))"
  have w: "rw_db ?w = rw_db (as_routes s1)" using final by (simp add: h on_routes_def split: prod.splits)
  then have "rw_db ?w \<noteq> rw_db (as_routes s')" using found assms(4) by simp
  from SetRoutePolicy_changes[OF this] r(3-5) p show ?thesis unfolding w found by auto
qed

definition set_decoders :: decoders where
  "set_decoders = app_decoders\<lparr>dec_SetRoutePolicy := (\<lambda>b. Inr \<lparr>srpr_RouteID = ''rt1'', srpr_Expression = ''p1'', srpr_Description = [],
     srpr_Status = ''active'', srpr_ExpectedVersion = 0, srpr_Permissions = si_Permissions sample_input\<rparr>)\<rparr>"

definition set_env :: "unit app_state app_env" where
  "set_env = app_env0\<lparr>ae_decoders := set_decoders,
     ae_policies := sample_policy_env\<lparr>pol_uuid := (\<lambda>n. if n = 0 then ''id0'' else ''id1'')\<rparr>\<rparr>"

text \<open>Witness of C11: a policy for the sample route.\<close>

theorem route_policies_change_only_by_set_witness:
  "let c = app_request ''/api/v1/route-policies/set'' ''policy''; s1 = snd (snd (serve_request app_http set_env me_handler c app_state0)) in
   length (route_policy_definitions (rw_db (as_routes s1))) = 1 \<and>
   (\<exists>c' request. served_as app_http c c' \<and> dec_SetRoutePolicy set_decoders (g_Body c') = Inr request)"
proof -
  let ?c = "app_request ''/api/v1/route-policies/set'' ''policy''"
  let ?r = "serve_request app_http set_env me_handler ?c app_state0"
  let ?w = "snd (http_SetRoutePolicy (ae_policies set_env) app_ctx (dec_SetRoutePolicy set_decoders (Inr ''policy'')) (as_routes app_state0))"
  have "as_routes (snd (snd ?r)) = ?w"
    using app_reaches[OF app_routes(2) app_paths(2), of set_env "''policy''" me_handler app_state0]
    by (auto simp: app_handlers_entry on_routes_world set_env_def)
  moreover have "length (route_policy_definitions (rw_db ?w)) = 1" by code_simp
  ultimately have len: "length (route_policy_definitions (rw_db (as_routes (snd (snd ?r))))) = 1" by simp
  have none: "length (route_policy_definitions (rw_db (as_routes app_state0))) = 0" by code_simp
  with len have changed: "rw_db (as_routes (snd (snd ?r))) \<noteq> rw_db (as_routes app_state0)" by auto
  have k: "surroundings_keep (\<lambda>s. rw_db (as_routes s)) app_http set_env me_handler"
    using app_surroundings[of "\<lambda>s. rw_db (as_routes s)"] by (simp add: surroundings_keep_def set_env_def)
  have run: "?r = (fst ?r, fst (snd ?r), snd (snd ?r))" by simp
  have fresh: "ctx_principal (g_ctx ?c) = None" by code_simp
  have "ae_decoders set_env = set_decoders" by (simp add: set_env_def)
  with route_policies_change_only_by_set[OF k run fresh changed] len show ?thesis unfolding Let_def by auto
qed

end
