(* ===== verification/Grpc_Endpoints.thy ===== *)
theory Grpc_Endpoints
  imports Grpc_Access Endpoints
begin

text \<open>
  The remote procedures behind the interceptors: what \<open>NewServer\<close> of
  \<open>internal/transport/grpc/server.go\<close> registers, on the state of the whole service, and what a call
  leaves alone.

  A decoded request message is one value of \<open>rpc_request\<close>, with the arguments of its procedure in
  \<open>authorization_server.go\<close>; the name of the service and the answer to a method that is not
  registered are arguments.
\<close>

section \<open>Requests and replies\<close>

datatype rpc_request =
    RpcCheck CheckMsg
  | RpcBatchCheck "CheckMsg list"
  | RpcResolveDataScope "CheckMsg option"
  | RpcInvalidateSubject InvalidateSubjectMsg
  | RpcCreatePermission CreatePermissionMsg
  | RpcGetPermission gostring gostring
  | RpcUpdatePermission UpdatePermissionMsg
  | RpcListPermissions ListPermissionsMsg
  | RpcCreateRole CreateRoleMsg
  | RpcGetRole gostring gostring
  | RpcUpdateRole UpdateRoleMsg
  | RpcListRoles ListRolesMsg
  | RpcGrantRolePermission gostring gostring gostring
  | RpcRevokeRolePermission gostring gostring int
  | RpcListRolePermissions gostring gostring
  | RpcCreateBinding CreateBindingMsg
  | RpcGetBinding gostring gostring
  | RpcRevokeBinding gostring gostring int
  | RpcListBindings ListBindingsMsg

datatype rpc_reply =
    ReplyDecision CheckResponse
  | ReplyDecisions "CheckResponse list"
  | ReplyInvalidated
  | ReplyPermission ProtoPermission
  | ReplyPermissions "ProtoPermission list" PageResult
  | ReplyRole ProtoRole
  | ReplyRoles "ProtoRole list" PageResult
  | ReplyRolePermission ProtoRolePermission
  | ReplyRolePermissions "ProtoRolePermission list"
  | ReplyBinding ProtoBinding
  | ReplyBindings "ProtoBinding list" PageResult

fun rpc_method :: "rpc_request \<Rightarrow> gostring" where
  "rpc_method (RpcCheck m) = ''Check''"
| "rpc_method (RpcBatchCheck m) = ''BatchCheck''"
| "rpc_method (RpcResolveDataScope m) = ''ResolveDataScope''"
| "rpc_method (RpcInvalidateSubject m) = ''InvalidateSubject''"
| "rpc_method (RpcCreatePermission m) = ''CreatePermission''"
| "rpc_method (RpcGetPermission t i) = ''GetPermission''"
| "rpc_method (RpcUpdatePermission m) = ''UpdatePermission''"
| "rpc_method (RpcListPermissions m) = ''ListPermissions''"
| "rpc_method (RpcCreateRole m) = ''CreateRole''"
| "rpc_method (RpcGetRole t i) = ''GetRole''"
| "rpc_method (RpcUpdateRole m) = ''UpdateRole''"
| "rpc_method (RpcListRoles m) = ''ListRoles''"
| "rpc_method (RpcGrantRolePermission t r p) = ''GrantRolePermission''"
| "rpc_method (RpcRevokeRolePermission t i v) = ''RevokeRolePermission''"
| "rpc_method (RpcListRolePermissions t r) = ''ListRolePermissions''"
| "rpc_method (RpcCreateBinding m) = ''CreateBinding''"
| "rpc_method (RpcGetBinding t i) = ''GetBinding''"
| "rpc_method (RpcRevokeBinding t i v) = ''RevokeBinding''"
| "rpc_method (RpcListBindings m) = ''ListBindings''"

section \<open>The registered service\<close>

definition reading :: "'r rpc \<Rightarrow> world \<Rightarrow> 'r rpc \<times> world" where
  "reading r w = (r, w)"

fun rpc_run :: "proto_lib \<Rightarrow> (nat \<Rightarrow> env) \<Rightarrow> ctx \<Rightarrow> rpc_request \<Rightarrow> world \<Rightarrow> rpc_reply rpc \<times> world" where
  "rpc_run lib es x (RpcCheck m) w = apfst (map_sum id ReplyDecision) (rpc_Check lib (es 0) x m w)"
| "rpc_run lib es x (RpcBatchCheck m) w = apfst (map_sum id ReplyDecisions) (rpc_BatchCheck lib es x m w)"
| "rpc_run lib es x (RpcResolveDataScope m) w = apfst (map_sum id ReplyDecision) (rpc_ResolveDataScope lib (es 0) x m w)"
| "rpc_run lib es x (RpcInvalidateSubject m) w = apfst (map_sum id (\<lambda>u. ReplyInvalidated)) (rpc_InvalidateSubject lib m w)"
| "rpc_run lib es x (RpcCreatePermission m) w = apfst (map_sum id ReplyPermission) (rpc_CreatePermission lib (es 0) x m w)"
| "rpc_run lib es x (RpcGetPermission t i) w = reading (map_sum id ReplyPermission (rpc_GetPermission lib (es 0) x t i w)) w"
| "rpc_run lib es x (RpcUpdatePermission m) w = apfst (map_sum id ReplyPermission) (rpc_UpdatePermission lib (es 0) x m w)"
| "rpc_run lib es x (RpcListPermissions m) w = reading (map_sum id (\<lambda>(vs, p). ReplyPermissions vs p) (rpc_ListPermissions lib (es 0) x m w)) w"
| "rpc_run lib es x (RpcCreateRole m) w = apfst (map_sum id ReplyRole) (rpc_CreateRole lib (es 0) x m w)"
| "rpc_run lib es x (RpcGetRole t i) w = reading (map_sum id ReplyRole (rpc_GetRole lib (es 0) x t i w)) w"
| "rpc_run lib es x (RpcUpdateRole m) w = apfst (map_sum id ReplyRole) (rpc_UpdateRole lib (es 0) x m w)"
| "rpc_run lib es x (RpcListRoles m) w = reading (map_sum id (\<lambda>(vs, p). ReplyRoles vs p) (rpc_ListRoles lib (es 0) x m w)) w"
| "rpc_run lib es x (RpcGrantRolePermission t r p) w = apfst (map_sum id ReplyRolePermission) (rpc_GrantRolePermission lib (es 0) x t r p w)"
| "rpc_run lib es x (RpcRevokeRolePermission t i v) w = apfst (map_sum id ReplyRolePermission) (rpc_RevokeRolePermission lib (es 0) x t i v w)"
| "rpc_run lib es x (RpcListRolePermissions t r) w = reading (map_sum id ReplyRolePermissions (rpc_ListRolePermissions lib (es 0) x t r w)) w"
| "rpc_run lib es x (RpcCreateBinding m) w = apfst (map_sum id ReplyBinding) (rpc_CreateBinding lib (es 0) x m w)"
| "rpc_run lib es x (RpcGetBinding t i) w = reading (map_sum id ReplyBinding (rpc_GetBinding lib (es 0) x t i w)) w"
| "rpc_run lib es x (RpcRevokeBinding t i v) w = apfst (map_sum id ReplyBinding) (rpc_RevokeBinding lib (es 0) x t i v w)"
| "rpc_run lib es x (RpcListBindings m) w = reading (map_sum id (\<lambda>(vs, p). ReplyBindings vs p) (rpc_ListBindings lib (es 0) x m w)) w"

definition rpc_handler :: "proto_lib \<Rightarrow> (nat \<Rightarrow> env) \<Rightarrow> rpc_request \<Rightarrow> ('m app_state, rpc_reply) grpc_handler" where
  "rpc_handler lib es request c s =
     (case rpc_run lib es (gc_ctx c) request (as_world s) of
        (Inl st, w) \<Rightarrow> (GrpcStatus st, s\<lparr>as_world := w\<rparr>)
      | (Inr reply, w) \<Rightarrow> (GrpcReply reply, s\<lparr>as_world := w\<rparr>))"

text \<open>A call with a request message; \<open>other\<close> answers the calls to other methods.\<close>

definition serve_call ::
  "('m app_state, rpc_reply) grpc_env \<Rightarrow> proto_lib \<Rightarrow> (nat \<Rightarrow> env) \<Rightarrow> gostring \<Rightarrow> ('m app_state, rpc_reply) grpc_handler
   \<Rightarrow> rpc_request \<Rightarrow> ('m app_state, rpc_reply) grpc_handler" where
  "serve_call ge lib es service other request c s =
     (if gc_FullMethod c = ''/'' @ service @ ''/'' @ rpc_method request then unary_chain ge (rpc_handler lib es request) c s
      else other c s)"

section \<open>What the interceptors leave alone\<close>

definition call_keeps :: "('s \<Rightarrow> 'd) \<Rightarrow> ('s, 'r) grpc_handler \<Rightarrow> bool" where
  "call_keeps tables h = (\<forall>c s. tables (snd (h c s)) = tables s)"

text \<open>The contract of an interceptor that keeps what the chain behind it keeps, and runs it with the
  projection as it was and without having authorized a tenant.\<close>

definition steady_call :: "('s \<Rightarrow> 'd) \<Rightarrow> grpc_call \<Rightarrow> 's \<Rightarrow> grpc_call \<Rightarrow> 's \<Rightarrow> bool" where
  "steady_call tables c s c' s' =
     (tables s' = tables s \<and> authorizedManagementTenant (gc_ctx c') = authorizedManagementTenant (gc_ctx c))"

locale transparent = gate i "steady_call tables"
  for tables :: "'s \<Rightarrow> 'd" and i :: "('s, 'r) interceptor" +
  assumes frame: "call_keeps tables h \<Longrightarrow> call_keeps tables (i h)"

lemma transparentI:
  assumes "\<And>h c s. call_keeps tables h \<Longrightarrow> tables (snd (i h c s)) = tables s"
    and "\<And>c s h h'. (\<And>c' s'. steady_call tables c s c' s' \<Longrightarrow> h c' s' = h' c' s') \<Longrightarrow> i h c s = i h' c s"
  shows "transparent tables i"
  by unfold_locales (rule assms(2), use assms(1) in \<open>simp_all add: call_keeps_def\<close>)

lemma transparent_compose:
  assumes "transparent tables f" "transparent tables g"
  shows "transparent tables (\<lambda>h. f (g h))"
proof -
  have "gate (\<lambda>h. f (g h)) (steady_call tables)"
    by (rule gate_mono[OF gate_compose[OF transparent.axioms(1)[OF assms(1)] transparent.axioms(1)[OF assms(2)]]])
       (auto simp: steady_call_def)
  then show ?thesis
    using transparent.frame[OF assms(1)] transparent.frame[OF assms(2)] by (intro transparent.intro transparent_axioms.intro) blast+
qed

lemma call_keepsD: "call_keeps tables h \<Longrightarrow> h c s = (r, s') \<Longrightarrow> tables s' = tables s"
  unfolding call_keeps_def by (metis snd_conv)

interpretation environment_call: transparent tables "environmentInterceptor profile"
  by (rule transparentI) (simp_all add: environmentInterceptor_def call_keeps_def steady_call_def environment_WithContext_def)

interpretation request_id_call: transparent tables "requestIDInterceptor split generated"
  by (rule transparentI) (simp_all add: requestIDInterceptor_def call_keeps_def steady_call_def Let_def withRequestMetadata_def
      requestid_WithContext_def requestmeta_WithContext_def)

interpretation idempotency_key_call: transparent tables "idempotencyInterceptor valid"
  by (rule transparentI) (simp_all add: idempotencyInterceptor_def call_keeps_def steady_call_def split: list.split)

interpretation recovery_call: transparent tables recoveryInterceptor
  by (rule transparentI) (auto simp: recoveryInterceptor_def steady_call_def dest: call_keepsD split: prod.split grpc_outcome.split)

lemma transparent_metrics:
  assumes "\<forall>m k s. tables (count m k s) = tables s" "\<forall>x m k s. tables (write_log x m k s) = tables s"
  shows "transparent tables (metricsInterceptor enabled count write_log)"
  by (rule transparentI)
     (auto simp: metricsInterceptor_def Let_def assms steady_call_def dest: call_keepsD split: prod.split grpc_outcome.split)

lemma authenticateGRPC_keeps:
  assumes "\<forall>x raw s. tables (snd (verify x raw s)) = tables s" "authenticateGRPC verify cfg c s = (r, s')"
  shows "tables s' = tables s \<and> (\<forall>c'. r = Inr c' \<longrightarrow> authorizedManagementTenant (gc_ctx c') = authorizedManagementTenant (gc_ctx c))"
proof -
  have v: "tables s2 = tables s1" if "verify x raw s1 = (q, s2)" for x raw s1 q s2 using assms(1) that by (metis snd_conv)
  show ?thesis using assms(2) by (auto simp: authenticateGRPC_def Let_def dest: v split: if_splits prod.splits sum.splits)
qed

lemma transparent_auth:
  assumes "\<forall>x raw s. tables (snd (verify x raw s)) = tables s"
  shows "transparent tables (authInterceptor verify cfg)"
proof (rule transparentI)
  fix h :: "('a, 'c) grpc_handler" and c s
  assume h: "call_keeps tables h"
  show "tables (snd (authInterceptor verify cfg h c s)) = tables s"
    using h[unfolded call_keeps_def] by (auto simp: authInterceptor_def dest!: authenticateGRPC_keeps[OF assms] split: prod.split sum.split)
next
  fix c s and h h' :: "('a, 'c) grpc_handler"
  assume a: "\<And>c' s'. steady_call tables c s c' s' \<Longrightarrow> h c' s' = h' c' s'"
  show "authInterceptor verify cfg h c s = authInterceptor verify cfg h' c s"
    by (auto simp: authInterceptor_def steady_call_def intro!: a dest!: authenticateGRPC_keeps[OF assms] split: prod.split sum.split)
qed

lemma transparent_authorization:
  assumes "\<forall>x p m r v s. tables (snd (evaluate x p m r v s)) = tables s"
  shows "transparent tables (databaseAuthorizationInterceptor enabled service evaluate)"
proof -
  have v: "tables s2 = tables s1" if "evaluate x p m r n s1 = (q, s2)" for x p m r n s1 q s2 using assms that by (metis snd_conv)
  show ?thesis
    by (rule transparentI)
       (auto simp: databaseAuthorizationInterceptor_def call_keeps_def steady_call_def dest!: v split: prod.split option.split)
qed

text \<open>The collaborators of the interceptors leave a projection alone; the interceptor of the shared
  idempotency package, of which nothing else is known, is transparent for every part of it.\<close>

definition grpc_collaborators_keep :: "('s \<Rightarrow> 'd) \<Rightarrow> ('s, 'r) grpc_env \<Rightarrow> bool" where
  "grpc_collaborators_keep tables ge =
     ((\<forall>x raw s. tables (snd (ge_verify ge x raw s)) = tables s) \<and> (\<forall>x p m r v s. tables (snd (ge_evaluate ge x p m r v s)) = tables s)
      \<and> (\<forall>m k s. tables (ge_count ge m k s) = tables s) \<and> (\<forall>x m k s. tables (ge_log ge x m k s) = tables s)
      \<and> (\<forall>part :: 'd \<Rightarrow> 'd. transparent (\<lambda>s. part (tables s)) (ge_idempotency ge)))"

lemma grpc_collaborators_part:
  fixes tables :: "'s \<Rightarrow> 'd" and part :: "'d \<Rightarrow> 'd"
  assumes "grpc_collaborators_keep tables ge"
  shows "grpc_collaborators_keep (\<lambda>s. part (tables s)) ge"
proof -
  have "transparent (\<lambda>s. part' (part (tables s))) (ge_idempotency ge)" for part' :: "'d \<Rightarrow> 'd"
    using spec[of "\<lambda>part. transparent (\<lambda>s. part (tables s)) (ge_idempotency ge)" "part' \<circ> part"] assms
    by (simp add: grpc_collaborators_keep_def)
  with assms show ?thesis by (simp add: grpc_collaborators_keep_def)
qed

lemma unary_chain_transparent:
  assumes "grpc_collaborators_keep tables ge"
  shows "transparent tables (unary_chain ge)"
proof -
  have v: "\<forall>x raw s. tables (snd (ge_verify ge x raw s)) = tables s" and e: "\<forall>x p m r v s. tables (snd (ge_evaluate ge x p m r v s)) = tables s"
    and m: "\<forall>m k s. tables (ge_count ge m k s) = tables s" "\<forall>x m k s. tables (ge_log ge x m k s) = tables s"
    and i: "transparent tables (ge_idempotency ge)"
    using assms spec[of "\<lambda>part. transparent (\<lambda>s. part (tables s)) (ge_idempotency ge)" "\<lambda>d. d"]
    by (simp_all add: grpc_collaborators_keep_def)
  show ?thesis
    unfolding unary_chain_def[abs_def] Let_def
    by (rule transparent_compose[OF environment_call.transparent_axioms transparent_compose[OF request_id_call.transparent_axioms
          transparent_compose[OF idempotency_key_call.transparent_axioms transparent_compose[OF recovery_call.transparent_axioms
          transparent_compose[OF transparent_auth[OF v] transparent_compose[OF transparent_authorization[OF e]
          transparent_compose[OF i transparent_metrics[OF m]]]]]]]])
qed

end
