(* ===== verification/Grpc_Endpoint_Properties.thy ===== *)
theory Grpc_Endpoint_Properties
  imports Grpc_Endpoints Endpoint_Properties Grpc_Properties
begin

text \<open>
  The counterpart of \<open>Endpoint_Properties\<close> for gRPC: what a call can change in the policy tables.
\<close>

section \<open>The procedures\<close>

fun rpc_manages :: "rpc_request \<Rightarrow> bool" where
  "rpc_manages (RpcCreatePermission m) = True"
| "rpc_manages (RpcUpdatePermission m) = True"
| "rpc_manages (RpcCreateRole m) = True"
| "rpc_manages (RpcUpdateRole m) = True"
| "rpc_manages (RpcGrantRolePermission t r p) = True"
| "rpc_manages (RpcRevokeRolePermission t i v) = True"
| "rpc_manages (RpcCreateBinding m) = True"
| "rpc_manages (RpcRevokeBinding t i v) = True"
| "rpc_manages request = False"

lemma rpc_Check_kept: "rpc_Check lib e x m w = (r, w') \<Longrightarrow> w_db w' = w_db w"
  by (auto simp: rpc_Check_def apfst_conv_iff dest: check_frame)

lemma rpc_checks_kept: "rpc_checks lib es n x checks ds w = (r, w') \<Longrightarrow> w_db w' = w_db w"
  by (induction lib es n x checks ds w arbitrary: r w' rule: rpc_checks.induct)
    (auto split: prod.splits sum.splits dest: rpc_Check_kept)

text \<open>A procedure that manages the policy is one step of the service; every other leaves the tables alone.\<close>

lemma rpc_run_reads:
  assumes "rpc_run lib es x request w = (r, w')" "\<not> rpc_manages request"
  shows "w_db w' = w_db w"
  using assms
  by (cases request)
    (auto simp: apfst_conv_iff reading_def rpc_BatchCheck_def rpc_ResolveDataScope_def rpc_InvalidateSubject_def
      dest: rpc_Check_kept rpc_checks_kept split: prod.splits option.splits)

lemma rpc_run_manages:
  assumes "rpc_run lib es x request w = (r, w')" "rpc_manages request"
  shows "service_step (es 0) x w w'"
  using assms
  by (cases request)
    (auto simp: apfst_conv_iff rpc_CreatePermission_def rpc_UpdatePermission_def rpc_CreateRole_def rpc_UpdateRole_def
      rpc_GrantRolePermission_def rpc_RevokeRolePermission_def rpc_CreateBinding_def rpc_RevokeBinding_def intro: svc_steps)

lemma rpc_run_effect:
  assumes "rpc_run lib es x request w = (r, w')" "world_ok w"
  shows "world_ok w' \<and> (tenant_view u (w_db w') \<noteq> tenant_view u (w_db w) \<longrightarrow> rpc_manages request \<and> caller_may_manage (es 0) x u)"
proof (cases "rpc_manages request")
  case True
  note step = rpc_run_manages[OF assms(1) True]
  from service_step_effect[OF step assms(2)] step_other_tenant[OF step assms(2)] True show ?thesis by blast
next
  case False
  from rpc_run_reads[OF assms(1) False] assms(2) show ?thesis by (simp add: world_ok_def)
qed

lemma rpc_handler_world: "as_world (snd (rpc_handler lib es request c s)) = snd (rpc_run lib es (gc_ctx c) request (as_world s))"
  by (simp add: rpc_handler_def split: prod.split sum.split)

text \<open>A part of the state that differs after a call was changed by the procedure, for an admitted call, on
  what the call found there.\<close>

lemma call_changes:
  assumes keep: "grpc_collaborators_keep base ge" and idem: "gate (ge_idempotency ge) (\<lambda>c s c' s'. c' = c)"
    and run: "unary_chain ge h c s = (r, s1)" and changed: "base s1 \<noteq> base s"
  obtains c' s' where "grpc_admitted ge c c'" "steady_call base c s c' s'" "base (snd (h c' s')) = base s1"
proof -
  define part where "part d = (if d = base s1 then base s1 else base s)" for d
  define tables where "tables s = part (base s)" for s
  define h' where "h' c s = (if tables (snd (h c s)) = tables s then h c s else (GrpcPanic, s))" for c s
  have "call_keeps tables (unary_chain ge h')"
    using transparent.frame[OF unary_chain_transparent[OF grpc_collaborators_part[OF keep, of part, folded tables_def[abs_def]]], of h']
    by (simp add: call_keeps_def h'_def)
  then have "tables (snd (unary_chain ge h' c s)) = tables s" by (simp add: call_keeps_def)
  moreover have "tables s1 \<noteq> tables s" using changed by (simp add: tables_def part_def)
  ultimately have d: "unary_chain ge h c s \<noteq> unary_chain ge h' c s" using run by (metis snd_conv)
  obtain c' s' where a: "grpc_admitted ge c c'" "steady_call base c s c' s'" and n: "h c' s' \<noteq> h' c' s'"
    using gate.reached[where mw = "unary_chain ge" and c = c and s = s and h = h and h' = h',
        OF gate_conj[OF unary_chain_gate[OF idem] transparent.axioms(1)[OF unary_chain_transparent[OF keep]]] d] by blast
  have "tables (snd (h c' s')) \<noteq> tables s'" using n by (auto simp: h'_def)
  then have "base (snd (h c' s')) = base s1"
    using a(2) changed by (auto simp: tables_def part_def steady_call_def split: if_splits)
  with a that show thesis by blast
qed

section \<open>Properties\<close>

text \<open>C10. The rows of a tenant are changed over gRPC only by those who may. Suppose that the collaborators of
  the interceptors and the answer to methods that are not registered leave the policy tables alone, and
  that the interceptor of the shared idempotency package runs the procedure, if at all, on the call it
  was given. Then every call keeps the invariant of the tables; and if the rows of a tenant differ after
  a call, it called a procedure that manages the policy, passed the authentication and the policy of its
  method, and the tenant is open to the caller that these gave it.\<close>

theorem calls_change_only_permitted_rows:
  assumes "grpc_collaborators_keep (\<lambda>s. w_db (as_world s)) ge" "call_keeps (\<lambda>s. w_db (as_world s)) other"
    and idem: "gate (ge_idempotency ge) (\<lambda>c s c' s'. c' = c)" and run: "serve_call ge lib es service other request c s = (r, s1)"
    and "authorizedManagementTenant (gc_ctx c) = None" "world_ok (as_world s)"
  shows "world_ok (as_world s1) \<and>
    (tenant_view u (w_db (as_world s1)) \<noteq> tenant_view u (w_db (as_world s)) \<longrightarrow>
      gc_FullMethod c = ''/'' @ service @ ''/'' @ rpc_method request \<and> rpc_manages request \<and>
      (\<exists>c'. grpc_admitted ge c c' \<and> authorizedManagementTenant (gc_ctx c') = None \<and> caller_may_manage (es 0) (gc_ctx c') u \<and>
         (\<not> MatchesAny (gc_FullMethod c) (at_SkipGRPCMethods (cfg_Auth (ge_config ge))) \<longrightarrow> ctx_principal (gc_ctx c') \<noteq> None)))"
proof (cases "w_db (as_world s1) = w_db (as_world s)")
  case True
  with assms(6) show ?thesis by (simp add: world_ok_def)
next
  case False
  then have m: "gc_FullMethod c = ''/'' @ service @ ''/'' @ rpc_method request"
    using run call_keepsD[OF assms(2), of c s r s1] by (auto simp: serve_call_def split: if_splits)
  with run have chain: "unary_chain ge (rpc_handler lib es request) c s = (r, s1)" by (simp add: serve_call_def)
  obtain c' s' where a: "grpc_admitted ge c c'" and st: "steady_call (\<lambda>s. w_db (as_world s)) c s c' s'"
    and final: "w_db (as_world (snd (rpc_handler lib es request c' s'))) = w_db (as_world s1)"
    by (rule call_changes[OF assms(1) idem chain False])
  have found: "w_db (as_world s') = w_db (as_world s)" "authorizedManagementTenant (gc_ctx c') = None"
    using st assms(5) by (simp_all add: steady_call_def)
  then have "world_ok (as_world s')" using assms(6) by (simp add: world_ok_def)
  from rpc_run_effect[OF prod.collapse[symmetric] this, of lib es "gc_ctx c'" request u]
  have "world_ok (as_world s1) \<and> (tenant_view u (w_db (as_world s1)) \<noteq> tenant_view u (w_db (as_world s)) \<longrightarrow>
      rpc_manages request \<and> caller_may_manage (es 0) (gc_ctx c') u)"
    using final found(1) by (simp add: rpc_handler_world world_ok_def)
  with m a found(2) grpc_admitted_identity[OF a] show ?thesis by blast
qed

definition rpc_env0 :: "(unit app_state, rpc_reply) grpc_env" where
  "rpc_env0 =
     \<lparr>ge_config = sample_config, ge_verify = sample_verify, ge_evaluate = (\<lambda>x p m r v s. (None, s)), ge_idempotency = (\<lambda>h. h),
      ge_validKey = (\<lambda>k. True), ge_SplitHostPort = (\<lambda>a. Inr a), ge_generated = ''generated'', ge_setHeader = None,
      ge_count = (\<lambda>m c s. s), ge_log = (\<lambda>x m c s. s)\<rparr>"

definition rpc_call0 :: grpc_call where
  "rpc_call0 = sample_call\<lparr>gc_FullMethod := ''/authorization.v1.AuthorizationService/CreateRole''\<rparr>"

definition rpc_role0 :: rpc_request where
  "rpc_role0 = RpcCreateRole \<lparr>cr_TenantId = ''t1'', cr_Code = ''writer'', cr_Name = ''Writer'', cr_Description = [], cr_DataScope = ''self''\<rparr>"

lemma identity_transparent: "transparent tables (\<lambda>h. h)"
  by (rule transparentI) (simp_all add: call_keeps_def steady_call_def)

lemma rpc_env0_keeps: "grpc_collaborators_keep tables rpc_env0" "gate (ge_idempotency rpc_env0) (\<lambda>c s c' s'. c' = c)"
  by (simp_all add: grpc_collaborators_keep_def rpc_env0_def sample_verify_def identity_transparent gate_def)

lemma rpc_config:
  "at_SkipGRPCMethods (cfg_Auth sample_config) = [''/grpc.health.v1.Health/*'']"
  "MatchesAny ''/authorization.v1.AuthorizationService/CreateRole'' [''/grpc.health.v1.Health/*''] = False"
  "exempt_method ''/authorization.v1.AuthorizationService/CreateRole'' = False"
  by (simp_all add: sample_config_def setDefaults_def default_access_def) (code_simp+)

lemma rpc_reaches:
  "snd (unary_chain rpc_env0 (rpc_handler lib es request) rpc_call0 s)
   = s\<lparr>as_world := snd (rpc_run lib es (app_ctx\<lparr>ctx_clientIP := []\<rparr>) request (as_world s))\<rparr>"
  by (simp add: unary_chain_def Let_def rpc_env0_def rpc_call0_def sample_call_def environmentInterceptor_def requestIDInterceptor_def
      call_request_id_def withRequestMetadata_def idempotencyInterceptor_def recoveryInterceptor_def authInterceptor_def authenticateGRPC_def
      databaseAuthorizationInterceptor_def metricsInterceptor_def rpc_config app_config app_paths sample_verify_def rpc_handler_def
      empty_ctx_def app_ctx_def context_defs split: prod.split sum.split)

text \<open>Witness of C10: a user creates a role of its tenant over gRPC.\<close>

theorem calls_change_only_permitted_rows_witness:
  "let s1 = snd (serve_call rpc_env0 sample_lib (\<lambda>n. sample_env) ''authorization.v1.AuthorizationService'' (\<lambda>c s. (GrpcPanic, s)) rpc_role0 rpc_call0 app_state0) in
   length (roles (tenant_view ''t1'' (w_db (as_world s1)))) = 2 \<and> world_ok (as_world s1) \<and>
   (\<exists>c'. grpc_admitted rpc_env0 rpc_call0 c' \<and> caller_may_manage sample_env (gc_ctx c') ''t1'')"
proof -
  let ?r = "serve_call rpc_env0 sample_lib (\<lambda>n. sample_env) ''authorization.v1.AuthorizationService'' (\<lambda>c s. (GrpcPanic, s)) rpc_role0 rpc_call0 app_state0"
  let ?w = "snd (rpc_run sample_lib (\<lambda>n. sample_env) (app_ctx\<lparr>ctx_clientIP := []\<rparr>) rpc_role0 (as_world app_state0))"
  have "as_world (snd ?r) = ?w"
    using rpc_reaches[of sample_lib "\<lambda>n. sample_env" rpc_role0 app_state0]
    by (simp add: serve_call_def rpc_call0_def rpc_role0_def sample_call_def)
  moreover have "length (roles (tenant_view ''t1'' (w_db ?w))) = 2" by code_simp
  ultimately have two: "length (roles (tenant_view ''t1'' (w_db (as_world (snd ?r))))) = 2" by simp
  have one: "length (roles (tenant_view ''t1'' (w_db (as_world app_state0)))) = 1" by code_simp
  have k: "call_keeps (\<lambda>s. w_db (as_world s)) (\<lambda>c s. (GrpcPanic, s))" by (simp add: call_keeps_def)
  have hyps: "authorizedManagementTenant (gc_ctx rpc_call0) = None" "world_ok (as_world app_state0)" by code_simp+
  have "tenant_view ''t1'' (w_db (as_world (snd ?r))) \<noteq> tenant_view ''t1'' (w_db (as_world app_state0))" using two one by auto
  with calls_change_only_permitted_rows[OF rpc_env0_keeps(1) k rpc_env0_keeps(2) prod.collapse[symmetric] hyps, of sample_lib "\<lambda>n. sample_env"
      "''authorization.v1.AuthorizationService''" rpc_role0 "''t1''"] two
  show ?thesis unfolding Let_def by blast
qed

end
