(* ===== verification/Outbound.thy ===== *)
theory Outbound
  imports Grpc_Access
begin

text \<open>
  Calls to other services: the HTTP client with retries and circuit breaker of
  \<open>internal/outbound/http.go\<close>, the gRPC client of \<open>internal/grpcclient/client.go\<close> and the registry of
  both (\<open>internal/outbound/registry.go\<close>).

  The network, timers, URL functions and TLS files are arguments; the circuit breaker of \<open>gobreaker\<close>
  is a function that runs a call or refuses it. The loops over the attempts are recursive functions
  with a termination proof, so that they return is part of their definition.
\<close>

section \<open>Policies\<close>

definition retryableMethod :: "ctx \<Rightarrow> gostring \<Rightarrow> bool" where
  "retryableMethod x method =
     (if method = ''GET'' \<or> method = ''HEAD'' \<or> method = ''OPTIONS'' \<or> method = ''PUT'' \<or> method = ''DELETE'' then True
      else ctx_idempotencyKey x \<noteq> None)"

definition retryableHTTPStatus :: "int \<Rightarrow> bool" where
  "retryableHTTPStatus status = (status = 429 \<or> status = 502 \<or> status = 503 \<or> status = 504)"

text \<open>\<open>float64(x)\<close> of an integer: 53 significant bits, to nearest, ties to even.\<close>

function excess_bits :: "int \<Rightarrow> nat" where
  "excess_bits n = (if n < 2 ^ 53 then 0 else Suc (excess_bits (n div 2)))"
  by pat_completeness auto
termination
  by (relation "measure nat") auto

declare excess_bits.simps [simp del]

definition float_round :: "int \<Rightarrow> int" where
  "float_round x =
     (let a = \<bar>x\<bar>; k = excess_bits a; q = a div 2 ^ k; r = a mod 2 ^ k;
          q' = (if 2 * r > 2 ^ k \<or> (2 * r = 2 ^ k \<and> odd q) then q + 1 else q) in
      (if x < 0 then - 1 else 1) * (q' * 2 ^ k))"

text \<open>The delay before the next HTTP attempt; \<open>out_of_range\<close> is what the platform makes of a
  \<open>float64\<close> that does not fit into 64 bits.\<close>

definition http_backoff :: "int \<Rightarrow> Retry \<Rightarrow> int \<Rightarrow> time" where
  "http_backoff out_of_range retry attempt =
     (let product = float_round (rty_InitialBackoff retry) * 2 ^ nat (attempt - 1);
          delay = (if - (2 ^ 63) \<le> product \<and> product < 2 ^ 63 then product else out_of_range) in
      if delay > rty_MaxBackoff retry then rty_MaxBackoff retry else delay)"

definition grpc_backoff :: "Retry \<Rightarrow> int \<Rightarrow> time" where
  "grpc_backoff retry attempt =
     (let delay = wrap64 (rty_InitialBackoff retry * 2 ^ nat (attempt - 1)) in
      if delay > rty_MaxBackoff retry then rty_MaxBackoff retry else delay)"

section \<open>The HTTP client\<close>

record http_message =
  hm_Method :: gostring
  hm_URL :: gostring
  hm_Header :: "(gostring \<times> gostring) list"
  hm_Body :: gostring

record http_response =
  hr_StatusCode :: int
  hr_Content :: gostring

record URL =
  url_Scheme :: gostring
  url_Host :: gostring
  url_Text :: gostring

text \<open>The packages \<open>net/url\<close> and \<open>net/http\<close>, the timers and the platform.\<close>

record 's net =
  nt_Parse :: "gostring \<Rightarrow> URL result"
  nt_ResolveReference :: "URL \<Rightarrow> URL \<Rightarrow> gostring"
  nt_NewRequest :: "gostring \<Rightarrow> gostring \<Rightarrow> goerr option"
  nt_Do :: "http_message \<Rightarrow> 's \<Rightarrow> http_response option result \<times> 's"
  nt_wait :: "ctx \<Rightarrow> time \<Rightarrow> 's \<Rightarrow> goerr option \<times> 's" \<comment> \<open>the error of the context if it ends first\<close>
  nt_out_of_range :: int

datatype call_error = PlainError goerr | StatusError http_response

type_synonym 's call = "'s \<Rightarrow> (call_error + http_response option) \<times> 's"

record 's HTTPClient =
  hc_name :: gostring
  hc_baseURL :: URL
  hc_cfg :: HTTPUpstream
  hc_breaker :: "('s call \<Rightarrow> 's call) option"

definition httpTransport :: "tls_files \<Rightarrow> ClientTLS \<Rightarrow> goerr option" where
  "httpTransport files cfg =
     (case load_ca files ''read outbound HTTP CA'' ''parse outbound HTTP CA'' (ctl_CAFile cfg) of
        Some err \<Rightarrow> Some err
      | None \<Rightarrow>
          if ctl_CertFile cfg \<noteq> []
          then map_option (Wrapf ''load outbound HTTP client certificate'') (tf_KeyPair files (ctl_CertFile cfg) (ctl_KeyFile cfg))
          else None)"

definition NewHTTPClient ::
  "'s net \<Rightarrow> tls_files \<Rightarrow> (Breaker \<Rightarrow> 's call \<Rightarrow> 's call) \<Rightarrow> gostring \<Rightarrow> HTTPUpstream \<Rightarrow> 's HTTPClient result" where
  "NewHTTPClient net files NewCircuitBreaker name cfg =
     (if ca_Type (hu_Auth cfg) \<noteq> [] \<and> \<not> ctl_Enabled (hu_TLS cfg)
      then Inl (OtherError ''refusing to send outbound HTTP credentials without TLS'')
      else case nt_Parse net (hu_BaseURL cfg) of
        Inl err \<Rightarrow> Inl (OtherError (''parse outbound HTTP base URL '' @ quoted (hu_BaseURL cfg)))
      | Inr baseURL \<Rightarrow>
          if url_Scheme baseURL = [] \<or> url_Host baseURL = []
          then Inl (OtherError (''parse outbound HTTP base URL '' @ quoted (hu_BaseURL cfg)))
          else case httpTransport files (hu_TLS cfg) of
            Some err \<Rightarrow> Inl err
          | None \<Rightarrow> Inr \<lparr>hc_name = name, hc_baseURL = baseURL, hc_cfg = cfg,
                       hc_breaker = (if brk_Enabled (hu_Breaker cfg) then Some (NewCircuitBreaker (hu_Breaker cfg)) else None)\<rparr>)"

definition applyHTTPAuth :: "ClientAuth \<Rightarrow> (gostring \<times> gostring) list \<Rightarrow> (gostring \<times> gostring) list" where
  "applyHTTPAuth a headers =
     (if ca_Type a = ''bearer'' then AList.update ''Authorization'' (''Bearer '' @ ca_Token a) headers
      else if ca_Type a = ''psk'' then AList.update ''Authorization'' (''PSK '' @ ca_Token a) headers
      else headers)"

definition build_request :: "HTTPUpstream \<Rightarrow> gostring \<Rightarrow> gostring \<Rightarrow> gostring \<Rightarrow> (gostring \<times> gostring) list \<Rightarrow> http_message" where
  "build_request cfg method target body headers =
     \<lparr>hm_Method = method, hm_URL = target,
      hm_Header = applyHTTPAuth (hu_Auth cfg)
        (if body \<noteq> [] \<and> (case map_of headers ''Content-Type'' of None \<Rightarrow> True | Some v \<Rightarrow> v = [])
         then AList.update ''Content-Type'' ''application/json'' headers else headers),
      hm_Body = body\<rparr>"

function attempt_http ::
  "'s net \<Rightarrow> ctx \<Rightarrow> Retry \<Rightarrow> goerr option \<Rightarrow> http_message \<Rightarrow> int \<Rightarrow> int \<Rightarrow> 's \<Rightarrow> http_response option result \<times> 's" where
  "attempt_http net x retry newRequest request maxAttempts attempt s =
     (if attempt > maxAttempts then (Inl (OtherError ''outbound HTTP attempts exhausted''), s)
      else case newRequest of
        Some err \<Rightarrow> (Inl (Wrapf ''create outbound HTTP request'' err), s)
      | None \<Rightarrow>
          (case nt_Do net request s of (r, s1) \<Rightarrow>
            if (case r of Inl err \<Rightarrow> False | Inr None \<Rightarrow> True
                | Inr (Some response) \<Rightarrow> \<not> retryableHTTPStatus (hr_StatusCode response) \<or> attempt = maxAttempts)
            then (r, s1)
            else if isl r \<and> attempt = maxAttempts then (Inl (Wrapf ''call outbound HTTP service'' (projl r)), s1)
            else
              case (if attempt < maxAttempts then nt_wait net x (http_backoff (nt_out_of_range net) retry attempt) s1 else (None, s1)) of
                (Some err, s2) \<Rightarrow> (Inl err, s2)
              | (None, s2) \<Rightarrow> attempt_http net x retry newRequest request maxAttempts (attempt + 1) s2))"
  by pat_completeness auto
termination
  by (relation "measure (\<lambda>(net, x, retry, nr, request, maxAttempts, attempt, s). nat (maxAttempts + 1 - attempt))") auto

declare attempt_http.simps [simp del]

definition doWithRetry ::
  "'s net \<Rightarrow> 's HTTPClient \<Rightarrow> ctx \<Rightarrow> gostring \<Rightarrow> gostring \<Rightarrow> gostring \<Rightarrow> (gostring \<times> gostring) list \<Rightarrow> 's
   \<Rightarrow> http_response option result \<times> 's" where
  "doWithRetry net c x method requestPath body headers s =
     (case nt_Parse net requestPath of
        Inl err \<Rightarrow> (Inl (OtherError ''outbound HTTP path must be relative''), s)
      | Inr reference \<Rightarrow>
          if url_Scheme reference \<noteq> [] \<or> url_Host reference \<noteq> []
          then (Inl (OtherError ''outbound HTTP path must be relative''), s)
          else
            let target = nt_ResolveReference net (hc_baseURL c) reference;
                maxAttempts = (if retryableMethod x method then rty_MaxAttempts (hu_Retry (hc_cfg c)) else 1) in
            attempt_http net x (hu_Retry (hc_cfg c)) (nt_NewRequest net method target)
              (build_request (hc_cfg c) method target body headers) maxAttempts 1 s)"

text \<open>With a breaker a retryable status counts as a failure of the call, but the caller still gets
  the response.\<close>

definition breaker_call :: "('s \<Rightarrow> http_response option result \<times> 's) \<Rightarrow> 's call" where
  "breaker_call f s =
     (case f s of
        (Inr (Some response), s') \<Rightarrow>
          (if retryableHTTPStatus (hr_StatusCode response) then (Inl (StatusError response), s') else (Inr (Some response), s'))
      | (Inr None, s') \<Rightarrow> (Inr None, s')
      | (Inl err, s') \<Rightarrow> (Inl (PlainError err), s'))"

definition http_execute ::
  "'s net \<Rightarrow> 's HTTPClient \<Rightarrow> ctx \<Rightarrow> gostring \<Rightarrow> gostring \<Rightarrow> gostring \<Rightarrow> (gostring \<times> gostring) list \<Rightarrow> 's
   \<Rightarrow> http_response option result \<times> 's" where
  "http_execute net c x method requestPath body headers s =
     (case hc_breaker c of
        None \<Rightarrow> doWithRetry net c x method requestPath body headers s
      | Some Execute \<Rightarrow>
          (case Execute (breaker_call (doWithRetry net c x method requestPath body headers)) s of
             (Inl (StatusError response), s') \<Rightarrow> (Inr (Some response), s')
           | (Inl (PlainError err), s') \<Rightarrow> (Inl err, s')
           | (Inr r, s') \<Rightarrow> (Inr r, s')))"

definition HTTP_Do ::
  "(gostring \<Rightarrow> gostring \<Rightarrow> 's \<Rightarrow> 's) option \<Rightarrow> 's net \<Rightarrow> 's HTTPClient \<Rightarrow> ctx \<Rightarrow> gostring \<Rightarrow> gostring \<Rightarrow> gostring
   \<Rightarrow> (gostring \<times> gostring) list \<Rightarrow> 's \<Rightarrow> http_response option result \<times> 's" where
  "HTTP_Do metrics net c x method requestPath body headers s =
     (let (r, s1) = http_execute net c x method requestPath body headers s;
          status = (case r of Inr (Some response) \<Rightarrow> Itoa (hr_StatusCode response) | _ \<Rightarrow> ''error'') in
      (r, case metrics of Some count \<Rightarrow> count (hc_name c) status s1 | None \<Rightarrow> s1))"

section \<open>The gRPC client\<close>

datatype client_code = ClientOK | ClientUnavailable | ClientResourceExhausted | ClientDeadlineExceeded | ClientOther nat

datatype client_error = StatusCode client_code gostring | ContextError goerr

text \<open>\<open>status.Code\<close>; the errors of a context are not status errors.\<close>

definition status_Code :: "client_error option \<Rightarrow> client_code" where
  "status_Code err = (case err of None \<Rightarrow> ClientOK | Some (StatusCode c m) \<Rightarrow> c | Some (ContextError e) \<Rightarrow> ClientOther 2)"

record outgoing =
  og_ctx :: ctx
  og_hasDeadline :: bool
  og_timeout :: "time option" \<comment> \<open>a deadline set by the client\<close>
  og_Method :: gostring
  og_metadata :: "(gostring \<times> gostring) list"

type_synonym 's invoker = "outgoing \<Rightarrow> 's \<Rightarrow> client_error option \<times> 's"

definition retryGRPCMethod :: "ctx \<Rightarrow> gostring \<Rightarrow> gostring list \<Rightarrow> bool" where
  "retryGRPCMethod x method patterns =
     (if ctx_idempotencyKey x \<noteq> None then True else list_ex (\<lambda>p. path_Match p method = Some True) patterns)"

function attempt_grpc ::
  "(ctx \<Rightarrow> time \<Rightarrow> 's \<Rightarrow> goerr option \<times> 's) \<Rightarrow> Retry \<Rightarrow> 's invoker \<Rightarrow> outgoing \<Rightarrow> int \<Rightarrow> client_error option \<Rightarrow> 's
   \<Rightarrow> client_error option \<times> 's" where
  "attempt_grpc wait cfg invoke call attempt err s =
     (if attempt > rty_MaxAttempts cfg then (err, s)
      else
        case invoke call s of (e, s1) \<Rightarrow>
          if status_Code e \<noteq> ClientUnavailable \<and> status_Code e \<noteq> ClientResourceExhausted then (e, s1)
          else
            case (if attempt < rty_MaxAttempts cfg then wait (og_ctx call) (grpc_backoff cfg attempt) s1 else (None, s1)) of
              (Some err', s2) \<Rightarrow> (Some (ContextError err'), s2)
            | (None, s2) \<Rightarrow> attempt_grpc wait cfg invoke call (attempt + 1) e s2)"
  by pat_completeness auto
termination
  by (relation "measure (\<lambda>(w, cfg, inv, call, attempt, e, s). nat (rty_MaxAttempts cfg + 1 - attempt))") auto

declare attempt_grpc.simps [simp del]

definition retryInterceptor :: "(ctx \<Rightarrow> time \<Rightarrow> 's \<Rightarrow> goerr option \<times> 's) \<Rightarrow> Retry \<Rightarrow> 's invoker \<Rightarrow> 's invoker" where
  "retryInterceptor wait cfg invoke call s =
     (if \<not> retryGRPCMethod (og_ctx call) (og_Method call) (rty_Methods cfg) then invoke call s
      else attempt_grpc wait cfg invoke call 1 None s)"

definition timeoutInterceptor :: "time \<Rightarrow> 's invoker \<Rightarrow> 's invoker" where
  "timeoutInterceptor timeout invoke call =
     (if og_hasDeadline call then invoke call else invoke (call\<lparr>og_hasDeadline := True, og_timeout := Some timeout\<rparr>))"

definition metadataInterceptor :: "gostring \<Rightarrow> gostring \<Rightarrow> 's invoker \<Rightarrow> 's invoker" where
  "metadataInterceptor token psk invoke call =
     (let p1 = (if token \<noteq> [] then [(''authorization'', ''Bearer '' @ token)]
                else if psk \<noteq> [] then [(''authorization'', ''PSK '' @ psk)] else []);
          p2 = (case requestid_FromContext (og_ctx call) of (i, ok) \<Rightarrow> if ok then [(''x-request-id'', i)] else []);
          p3 = (case ctx_idempotencyKey (og_ctx call) of Some key \<Rightarrow> [(''idempotency-key'', key)] | None \<Rightarrow> []) in
      invoke (call\<lparr>og_metadata := og_metadata call @ p1 @ p2 @ p3\<rparr>))"

definition breaker_excluded :: "client_error option \<Rightarrow> bool" where
  "breaker_excluded err =
     (let code = status_Code err in
      code \<noteq> ClientUnavailable \<and> code \<noteq> ClientResourceExhausted \<and> code \<noteq> ClientDeadlineExceeded)"

record TLSConfig =
  tc_TLS :: ClientTLS
  tc_AllowInsecureToken :: bool

record client_Config =
  cc_Target :: gostring
  cc_Timeout :: time
  cc_Token :: gostring
  cc_PSK :: gostring
  cc_TLS :: TLSConfig
  cc_Name :: gostring
  cc_Retry :: Retry
  cc_Breaker :: Breaker

definition transportCredentials :: "tls_files \<Rightarrow> ClientTLS \<Rightarrow> goerr option" where
  "transportCredentials files cfg =
     (if \<not> ctl_Enabled cfg then None
      else case load_ca files ''read grpc CA'' ''parse grpc CA'' (ctl_CAFile cfg) of
        Some err \<Rightarrow> Some err
      | None \<Rightarrow>
          if ctl_CertFile cfg \<noteq> [] \<or> ctl_KeyFile cfg \<noteq> [] then
            (if ctl_CertFile cfg = [] \<or> ctl_KeyFile cfg = []
             then Some (OtherError ''grpc client certificate and key must be configured together'')
             else map_option (Wrapf ''load grpc client certificate'') (tf_KeyPair files (ctl_CertFile cfg) (ctl_KeyFile cfg)))
          else None)"

definition Dial :: "tls_files \<Rightarrow> client_Config \<Rightarrow> goerr option" where
  "Dial files cfg =
     (if cc_Target cfg = [] then Some (OtherError ''grpc client target is required'')
      else if cc_Timeout cfg \<le> 0 then Some (OtherError ''grpc client timeout must be positive'')
      else case transportCredentials files (tc_TLS (cc_TLS cfg)) of
        Some err \<Rightarrow> Some err
      | None \<Rightarrow>
          if cc_Token cfg \<noteq> [] \<and> \<not> ctl_Enabled (tc_TLS (cc_TLS cfg)) \<and> \<not> tc_AllowInsecureToken (cc_TLS cfg)
          then Some (OtherError ''refusing to send grpc bearer token without TLS'')
          else if cc_PSK cfg \<noteq> [] \<and> cc_Token cfg \<noteq> []
          then Some (OtherError ''grpc client bearer token and PSK are mutually exclusive'')
          else if cc_PSK cfg \<noteq> [] \<and> \<not> ctl_Enabled (tc_TLS (cc_TLS cfg)) \<and> \<not> tc_AllowInsecureToken (cc_TLS cfg)
          then Some (OtherError ''refusing to send grpc PSK without TLS'')
          else None)"

text \<open>The circuit breaker runs the call and counts what is not excluded; \<open>gobreaker\<close> is the argument
  \<open>Execute\<close>.\<close>

definition breakerInterceptor ::
  "(Breaker \<Rightarrow> (client_error option \<Rightarrow> bool) \<Rightarrow> ('s \<Rightarrow> client_error option \<times> 's) \<Rightarrow> 's \<Rightarrow> client_error option \<times> 's)
   \<Rightarrow> Breaker \<Rightarrow> 's invoker \<Rightarrow> 's invoker" where
  "breakerInterceptor Execute cfg invoke call s = Execute cfg breaker_excluded (invoke call) s"

definition client_metricsInterceptor :: "gostring \<Rightarrow> (gostring \<Rightarrow> client_code \<Rightarrow> 's \<Rightarrow> 's) \<Rightarrow> 's invoker \<Rightarrow> 's invoker" where
  "client_metricsInterceptor name count invoke call s = (case invoke call s of (err, s') \<Rightarrow> (err, count name (status_Code err) s'))"

text \<open>The interceptors that \<open>Dial\<close> installs, from the outside in.\<close>

definition client_chain ::
  "(ctx \<Rightarrow> time \<Rightarrow> 's \<Rightarrow> goerr option \<times> 's)
   \<Rightarrow> (Breaker \<Rightarrow> (client_error option \<Rightarrow> bool) \<Rightarrow> ('s \<Rightarrow> client_error option \<times> 's) \<Rightarrow> 's \<Rightarrow> client_error option \<times> 's)
   \<Rightarrow> (gostring \<Rightarrow> client_code \<Rightarrow> 's \<Rightarrow> 's) option \<Rightarrow> client_Config \<Rightarrow> 's invoker \<Rightarrow> 's invoker" where
  "client_chain wait Execute metrics cfg invoke =
     (let i1 = (if rty_MaxAttempts (cc_Retry cfg) > 1 then retryInterceptor wait (cc_Retry cfg) invoke else invoke);
          i2 = (if brk_Enabled (cc_Breaker cfg) then breakerInterceptor Execute (cc_Breaker cfg) i1 else i1);
          i3 = (case metrics of Some count \<Rightarrow> client_metricsInterceptor (cc_Name cfg) count i2 | None \<Rightarrow> i2) in
      timeoutInterceptor (cc_Timeout cfg) (metadataInterceptor (cc_Token cfg) (cc_PSK cfg) i3))"

section \<open>The registry\<close>

definition grpc_client_config :: "gostring \<Rightarrow> GRPCUpstream \<Rightarrow> client_Config" where
  "grpc_client_config name u =
     \<lparr>cc_Target = gu_Target u, cc_Timeout = gu_Timeout u,
      cc_Token = (if ca_Type (gu_Auth u) = ''bearer'' then ca_Token (gu_Auth u) else []),
      cc_PSK = (if ca_Type (gu_Auth u) = ''psk'' then ca_Token (gu_Auth u) else []),
      cc_TLS = \<lparr>tc_TLS = gu_TLS u, tc_AllowInsecureToken = False\<rparr>, cc_Name = name, cc_Retry = gu_Retry u, cc_Breaker = gu_Breaker u\<rparr>"

record 's Registry =
  rg_http :: "(gostring \<times> 's HTTPClient) list"
  rg_grpc :: "(gostring \<times> client_Config) list"

fun http_clients ::
  "(gostring \<Rightarrow> HTTPUpstream \<Rightarrow> 's HTTPClient result) \<Rightarrow> (gostring \<times> HTTPUpstream) list \<Rightarrow> (gostring \<times> 's HTTPClient) list result" where
  "http_clients create [] = Inr []"
| "http_clients create ((name, u) # rest) =
     (case create name u of
        Inl err \<Rightarrow> Inl (Wrapf (''create outbound HTTP client '' @ quoted name) err)
      | Inr client \<Rightarrow> map_sum id (\<lambda>cs. AList.update name client cs) (http_clients create rest))"

fun grpc_clients ::
  "(client_Config \<Rightarrow> goerr option) \<Rightarrow> (gostring \<times> GRPCUpstream) list \<Rightarrow> (gostring \<times> client_Config) list result" where
  "grpc_clients dial [] = Inr []"
| "grpc_clients dial ((name, u) # rest) =
     (case dial (grpc_client_config name u) of
        Some err \<Rightarrow> Inl (Wrapf (''create outbound gRPC client '' @ quoted name) err)
      | None \<Rightarrow> map_sum id (\<lambda>cs. AList.update name (grpc_client_config name u) cs) (grpc_clients dial rest))"

definition NewRegistry ::
  "'s net \<Rightarrow> tls_files \<Rightarrow> (Breaker \<Rightarrow> 's call \<Rightarrow> 's call) \<Rightarrow> Config \<Rightarrow> 's Registry result" where
  "NewRegistry net files NewCircuitBreaker cfg =
     (case http_clients (NewHTTPClient net files NewCircuitBreaker) (ogo_HTTP (cfg_Outbound cfg)) of
        Inl err \<Rightarrow> Inl err
      | Inr hs \<Rightarrow>
          (case grpc_clients (Dial files) (ogo_GRPC (cfg_Outbound cfg)) of
             Inl err \<Rightarrow> Inl err
           | Inr gs \<Rightarrow> Inr \<lparr>rg_http = hs, rg_grpc = gs\<rparr>))"

definition Registry_HTTP :: "'s Registry \<Rightarrow> gostring \<Rightarrow> 's HTTPClient option" where
  "Registry_HTTP r name = map_of (rg_http r) name"

definition Registry_GRPC :: "'s Registry \<Rightarrow> gostring \<Rightarrow> client_Config option" where
  "Registry_GRPC r name = map_of (rg_grpc r) name"

text \<open>\<open>close\<close> releases every client and reports the first connection that fails to close.\<close>

fun close_connections :: "(client_Config \<Rightarrow> goerr option) \<Rightarrow> (gostring \<times> client_Config) list \<Rightarrow> goerr option \<Rightarrow> goerr option" where
  "close_connections Close [] closeErr = closeErr"
| "close_connections Close ((name, connection) # rest) closeErr =
     close_connections Close rest
       (case Close connection of
          Some err \<Rightarrow> if closeErr = None then Some (Wrapf (''close outbound gRPC client '' @ quoted name) err) else closeErr
        | None \<Rightarrow> closeErr)"

definition Registry_close :: "(client_Config \<Rightarrow> goerr option) \<Rightarrow> 's Registry \<Rightarrow> goerr option" where
  "Registry_close Close r = close_connections Close (rg_grpc r) None"

text \<open>Credentials never travel in clear: no client with a token or a key is created without TLS.\<close>

lemma Dial_credentials:
  "Dial files (grpc_client_config name u) = None \<Longrightarrow> ca_Token (gu_Auth u) \<noteq> [] \<Longrightarrow> ca_Type (gu_Auth u) \<in> {''bearer'', ''psk''} \<Longrightarrow>
     ctl_Enabled (gu_TLS u)"
  by (auto simp: Dial_def grpc_client_config_def split: if_splits option.splits)

lemma NewHTTPClient_credentials:
  "NewHTTPClient net files br name u = Inr c \<Longrightarrow> ca_Type (hu_Auth u) \<noteq> [] \<Longrightarrow> ctl_Enabled (hu_TLS u)"
  by (auto simp: NewHTTPClient_def split: if_splits)

lemma close_connections_reports: "close_connections Close cs (Some e) = Some e"
  by (induction cs) (auto split: option.splits)

lemma Registry_close_None: "Registry_close Close r = None \<longleftrightarrow> (\<forall>(name, c) \<in> set (rg_grpc r). Close c = None)"
proof -
  have "close_connections Close cs None = None \<longleftrightarrow> (\<forall>(name, c) \<in> set cs. Close c = None)" for cs
    by (induction cs) (auto simp: close_connections_reports split: option.splits)
  then show ?thesis by (simp add: Registry_close_def)
qed

end
