(* ===== verification/Outbound_Properties.thy ===== *)
theory Outbound_Properties
  imports Outbound
begin

text \<open>
  The retry loops of the outbound clients: they make at most as many attempts as the validated policy
  allows, wait only between attempts and only as long as the policy says, and calls that are not
  idempotent are made once. Attempts and waits are counted by instrumenting the network and the timer.
\<close>

section \<open>Counting attempts and waits\<close>

type_synonym 't counted = "(nat \<times> time list) \<times> 't"

definition counting :: "('q \<Rightarrow> 't \<Rightarrow> 'r \<times> 't) \<Rightarrow> 'q \<Rightarrow> 't counted \<Rightarrow> 'r \<times> 't counted" where
  "counting f q st = (case f q (snd st) of (r, t') \<Rightarrow> (r, ((fst (fst st) + 1, snd (fst st)), t')))"

definition timing :: "(ctx \<Rightarrow> time \<Rightarrow> 't \<Rightarrow> 'r \<times> 't) \<Rightarrow> ctx \<Rightarrow> time \<Rightarrow> 't counted \<Rightarrow> 'r \<times> 't counted" where
  "timing f x d st = (case f x d (snd st) of (r, t') \<Rightarrow> (r, ((fst (fst st), snd (fst st) @ [d]), t')))"

definition counted_net :: "'t net \<Rightarrow> 't counted net" where
  "counted_net net =
     \<lparr>nt_Parse = nt_Parse net, nt_ResolveReference = nt_ResolveReference net, nt_NewRequest = nt_NewRequest net,
      nt_Do = counting (nt_Do net), nt_wait = timing (nt_wait net), nt_out_of_range = nt_out_of_range net\<rparr>"

lemma counted_net_simps [simp]:
  "nt_Do (counted_net net) = counting (nt_Do net)" "nt_wait (counted_net net) = timing (nt_wait net)"
  "nt_Parse (counted_net net) = nt_Parse net" "nt_NewRequest (counted_net net) = nt_NewRequest net"
  "nt_ResolveReference (counted_net net) = nt_ResolveReference net" "nt_out_of_range (counted_net net) = nt_out_of_range net"
  by (simp_all add: counted_net_def)

lemma counting_apply: "counting f q ((n, ws), t) = (case f q t of (r, t') \<Rightarrow> (r, (n + 1, ws), t'))"
  by (simp add: counting_def)

lemma timing_apply: "timing f x d ((n, ws), t) = (case f x d t of (r, t') \<Rightarrow> (r, (n, ws @ [d]), t'))"
  by (simp add: timing_def)

section \<open>The delays\<close>

text \<open>A policy as \<open>validateClientPolicy\<close> accepts it, with a first delay that a \<open>float64\<close> holds exactly
  (about 104 days).\<close>

definition retry_policy :: "Retry \<Rightarrow> bool" where
  "retry_policy r =
     (1 \<le> rty_MaxAttempts r \<and> rty_MaxAttempts r \<le> 5 \<and> 0 < rty_InitialBackoff r \<and> rty_InitialBackoff r \<le> rty_MaxBackoff r
      \<and> rty_InitialBackoff r < 2 ^ 53)"

lemma first_error_Cons_None: "first_error ((c, err) # xs) = None \<longleftrightarrow> \<not> c \<and> first_error xs = None"
  by simp

lemma first_error_append_None: "first_error (xs @ ys) = None \<longleftrightarrow> first_error xs = None \<and> first_error ys = None"
  by (auto simp: first_error_append split: option.splits)

lemma validateClientPolicy_retry:
  assumes "validateClientPolicy name a r b t = None" "rty_InitialBackoff r < 2 ^ 53"
  shows "retry_policy r"
proof -
  have "\<not> (rty_MaxAttempts r < 1 \<or> rty_MaxAttempts r > 5 \<or> rty_InitialBackoff r \<le> 0 \<or> rty_MaxBackoff r < rty_InitialBackoff r)"
    using assms(1) unfolding validateClientPolicy_def first_error_append_None first_error_Cons_None by blast
  with assms(2) show ?thesis unfolding retry_policy_def by auto
qed

lemma float_round_exact: "0 \<le> x \<Longrightarrow> x < 2 ^ 53 \<Longrightarrow> float_round x = x"
proof -
  assume x: "0 \<le> x" "x < 2 ^ 53"
  then have "\<bar>x\<bar> < 2 ^ 53" by simp
  then have "excess_bits \<bar>x\<bar> = 0" by (subst excess_bits.simps) simp
  with x show "float_round x = x" by (simp add: float_round_def Let_def)
qed

text \<open>The delay after an attempt: doubling from the first, capped.\<close>

definition backoff :: "Retry \<Rightarrow> int \<Rightarrow> time" where
  "backoff r attempt = min (rty_MaxBackoff r) (rty_InitialBackoff r * 2 ^ nat (attempt - 1))"

lemma product_fits:
  assumes "retry_policy r" "1 \<le> attempt" "attempt < 5"
  shows "0 < rty_InitialBackoff r * 2 ^ nat (attempt - 1)" "rty_InitialBackoff r * 2 ^ nat (attempt - 1) < 2 ^ 63"
proof -
  have "nat (attempt - 1) \<le> 3" using assms by simp
  then have "(2::int) ^ nat (attempt - 1) \<le> 2 ^ 3" by (rule power_increasing) simp
  then have "rty_InitialBackoff r * 2 ^ nat (attempt - 1) \<le> rty_InitialBackoff r * 2 ^ 3"
    using assms(1) by (intro mult_left_mono) (auto simp: retry_policy_def)
  moreover have "rty_InitialBackoff r * 2 ^ 3 < 2 ^ 63" using assms(1) by (simp add: retry_policy_def)
  ultimately show "rty_InitialBackoff r * 2 ^ nat (attempt - 1) < 2 ^ 63" by (rule order.strict_trans1)
  show "0 < rty_InitialBackoff r * 2 ^ nat (attempt - 1)" using assms(1) by (simp add: retry_policy_def)
qed

lemma http_backoff_exact:
  assumes "retry_policy r" "1 \<le> attempt" "attempt < 5"
  shows "http_backoff oor r attempt = backoff r attempt"
proof -
  have "float_round (rty_InitialBackoff r) = rty_InitialBackoff r"
    using assms(1) by (intro float_round_exact) (auto simp: retry_policy_def)
  moreover have "- (2 ^ 63) \<le> rty_InitialBackoff r * 2 ^ nat (attempt - 1)"
    by (rule order.trans[of _ 0]) (simp, rule less_imp_le[OF product_fits(1)[OF assms]])
  ultimately show ?thesis
    using product_fits(2)[OF assms] unfolding http_backoff_def backoff_def Let_def min_def by auto
qed

lemma grpc_backoff_exact:
  assumes "retry_policy r" "1 \<le> attempt" "attempt < 5"
  shows "grpc_backoff r attempt = backoff r attempt"
proof -
  have "- (2 ^ 63) \<le> rty_InitialBackoff r * 2 ^ nat (attempt - 1)"
    by (rule order.trans[of _ 0]) (simp, rule less_imp_le[OF product_fits(1)[OF assms]])
  then have "wrap64 (rty_InitialBackoff r * 2 ^ nat (attempt - 1)) = rty_InitialBackoff r * 2 ^ nat (attempt - 1)"
    using product_fits(2)[OF assms] by (rule wrap64_id)
  then show ?thesis unfolding grpc_backoff_def backoff_def Let_def min_def by auto
qed

section \<open>The loops\<close>

text \<open>\<open>bounded_from a m st st'\<close>: from \<open>st\<close> to \<open>st'\<close> at least one and at most \<open>m - a + 1\<close> attempts were
  made, with one wait before every attempt but the first, of the delays of the policy (a call that
  is cancelled while waiting has one wait more).\<close>

definition bounded_from :: "Retry \<Rightarrow> int \<Rightarrow> int \<Rightarrow> nat \<times> time list \<Rightarrow> nat \<times> time list \<Rightarrow> bool" where
  "bounded_from r a m st st' =
     (\<exists>k w. 1 \<le> k \<and> int k \<le> m - a + 1 \<and> fst st' = fst st + k \<and> k - 1 \<le> w \<and> w \<le> k \<and> int w \<le> m - a
        \<and> snd st' = snd st @ map (\<lambda>i. backoff r (a + int i)) [0..<w])"

lemma bounded_one: "a \<le> m \<Longrightarrow> bounded_from r a m (n, ws) (Suc n, ws)"
  unfolding bounded_from_def by (rule exI[of _ 1], rule exI[of _ 0]) simp

lemma bounded_cancelled: "a < m \<Longrightarrow> bounded_from r a m (n, ws) (Suc n, ws @ [backoff r a])"
  unfolding bounded_from_def by (rule exI[of _ 1], rule exI[of _ 1]) simp

lemma bounded_step:
  assumes "bounded_from r (a + 1) m (n + 1, ws @ [backoff r a]) st'"
  shows "bounded_from r a m (n, ws) st'"
proof -
  obtain k w where k: "1 \<le> k" "int k \<le> m - (a + 1) + 1" "fst st' = n + 1 + k" "k - 1 \<le> w" "w \<le> k" "int w \<le> m - (a + 1)"
    "snd st' = (ws @ [backoff r a]) @ map (\<lambda>i. backoff r (a + 1 + int i)) [0..<w]"
    using assms unfolding bounded_from_def by auto
  have "map (\<lambda>i. backoff r (a + int i)) [0..<Suc w] = backoff r a # map (\<lambda>i. backoff r (a + 1 + int i)) [0..<w]"
    unfolding map_upt_Suc by (simp add: add.assoc)
  with k show ?thesis unfolding bounded_from_def
    by (intro exI[of _ "Suc k"] exI[of _ "Suc w"]) (simp del: upt_Suc)
qed

lemma attempt_http_bounded:
  assumes "retry_policy r" "1 \<le> a" "a \<le> m" "m \<le> 5"
    "attempt_http (counted_net net) x r None q m a ((n, ws), t) = (res, st', t')"
  shows "bounded_from r a m (n, ws) st'"
  using assms(2-)
proof (induction "nat (m - a)" arbitrary: a n ws t)
  case 0
  then have "a = m" by simp
  with "0.prems" show ?case
    by (auto simp: attempt_http.simps[of _ _ _ _ _ m m] counting_apply bounded_one attempt_http.simps[of _ _ _ _ _ m "m + 1"]
          split: prod.splits if_splits sum.splits option.splits)
next
  case (Suc k)
  then have a: "a < m" "k = nat (m - (a + 1))" by auto
  obtain d t1 where d: "nt_Do net q t = (d, t1)" by (cases "nt_Do net q t") auto
  obtain w t2 where w: "nt_wait net x (backoff r a) t1 = (w, t2)" by (cases "nt_wait net x (backoff r a) t1") auto
  have b: "http_backoff (nt_out_of_range net) r a = backoff r a"
    using assms(1) Suc.prems a by (intro http_backoff_exact) auto
  from Suc.prems(4) a(1) have "st' = (n + 1, ws) \<or> (st' = (n + 1, ws @ [backoff r a])) \<or>
      attempt_http (counted_net net) x r None q m (a + 1) ((n + 1, ws @ [backoff r a]), t2) = (res, st', t')"
    by (auto simp: attempt_http.simps[of _ _ _ _ _ m a] counting_apply timing_apply d w b
          split: prod.splits if_splits sum.splits option.splits)
  then show ?case
  proof (elim disjE)
    assume "attempt_http (counted_net net) x r None q m (a + 1) ((n + 1, ws @ [backoff r a]), t2) = (res, st', t')"
    then have "bounded_from r (a + 1) m (n + 1, ws @ [backoff r a]) st'"
      using Suc.prems a by (intro Suc.hyps(1)) auto
    then show ?thesis by (rule bounded_step)
  qed (use a in \<open>simp_all add: bounded_one bounded_cancelled\<close>)
qed

lemma attempt_grpc_bounded:
  assumes "retry_policy r" "1 \<le> a" "a \<le> rty_MaxAttempts r"
    "attempt_grpc (timing wait) r (counting invoke) call a e ((n, ws), t) = (res, st', t')"
  shows "bounded_from r a (rty_MaxAttempts r) (n, ws) st'"
  using assms(2-)
proof (induction "nat (rty_MaxAttempts r - a)" arbitrary: a e n ws t)
  case 0
  then have "a = rty_MaxAttempts r" by simp
  with "0.prems" show ?case
    by (auto simp: attempt_grpc.simps[of _ r _ _ "rty_MaxAttempts r"] counting_apply bounded_one attempt_grpc.simps[of _ r _ _ "rty_MaxAttempts r + 1"]
          split: prod.splits if_splits)
next
  case (Suc k)
  then have a: "a < rty_MaxAttempts r" by auto
  obtain d t1 where d: "invoke call t = (d, t1)" by (cases "invoke call t") auto
  obtain w t2 where w: "wait (og_ctx call) (backoff r a) t1 = (w, t2)" by (cases "wait (og_ctx call) (backoff r a) t1") auto
  have b: "grpc_backoff r a = backoff r a"
    using assms(1) Suc.prems a by (intro grpc_backoff_exact) (auto simp: retry_policy_def)
  from Suc.prems(3) a have "st' = (n + 1, ws) \<or> (st' = (n + 1, ws @ [backoff r a])) \<or>
      attempt_grpc (timing wait) r (counting invoke) call (a + 1) d ((n + 1, ws @ [backoff r a]), t2) = (res, st', t')"
    by (auto simp: attempt_grpc.simps[of _ r _ _ a] counting_apply timing_apply d w b
          split: prod.splits if_splits option.splits)
  then show ?case
  proof (elim disjE)
    assume "attempt_grpc (timing wait) r (counting invoke) call (a + 1) d ((n + 1, ws @ [backoff r a]), t2) = (res, st', t')"
    then have "bounded_from r (a + 1) (rty_MaxAttempts r) (n + 1, ws @ [backoff r a]) st'"
      using Suc.prems Suc.hyps(2) a by (intro Suc.hyps(1)) auto
    then show ?thesis by (rule bounded_step)
  qed (use a in \<open>simp_all add: bounded_one bounded_cancelled\<close>)
qed

section \<open>The property\<close>

text \<open>At most \<open>limit\<close> attempts, a wait only after an attempt that is not the last allowed one, and the
  waits double from the first delay up to the cap.\<close>

definition within_policy :: "Retry \<Rightarrow> int \<Rightarrow> nat \<Rightarrow> time list \<Rightarrow> bool" where
  "within_policy r limit n ws =
     (int n \<le> limit \<and> length ws \<le> n \<and> int (length ws) \<le> limit - 1
      \<and> ws = map (\<lambda>i. min (rty_MaxBackoff r) (rty_InitialBackoff r * 2 ^ i)) [0..<length ws])"

lemma bounded_within:
  assumes "bounded_from r 1 m (0, []) (n, ws)"
  shows "within_policy r m n ws \<and> 1 \<le> n"
proof -
  have "(\<lambda>i. backoff r (1 + int i)) = (\<lambda>i. min (rty_MaxBackoff r) (rty_InitialBackoff r * 2 ^ i))"
    by (simp add: backoff_def fun_eq_iff)
  with assms show ?thesis unfolding bounded_from_def within_policy_def by auto
qed

lemma within_none: "1 \<le> m \<Longrightarrow> within_policy r m 0 []"
  by (simp add: within_policy_def)

text \<open>A call that gets as far as the network: its path is relative and the request can be created.\<close>

definition sendable :: "'t net \<Rightarrow> 't counted HTTPClient \<Rightarrow> gostring \<Rightarrow> gostring \<Rightarrow> bool" where
  "sendable net c method path =
     (case nt_Parse net path of
        Inl err \<Rightarrow> False
      | Inr reference \<Rightarrow> url_Scheme reference = [] \<and> url_Host reference = [] \<and>
          nt_NewRequest net method (nt_ResolveReference net (hc_baseURL c) reference) = None)"

lemma doWithRetry_within:
  assumes r: "retry_policy (hu_Retry (hc_cfg c))"
    and d: "doWithRetry (counted_net net) c x method path body headers ((0, []), s) = (res, (n, ws), s')"
  shows "within_policy (hu_Retry (hc_cfg c)) (if retryableMethod x method then rty_MaxAttempts (hu_Retry (hc_cfg c)) else 1) n ws \<and>
    (1 \<le> n \<longleftrightarrow> sendable net c method path)"
proof -
  let ?m = "if retryableMethod x method then rty_MaxAttempts (hu_Retry (hc_cfg c)) else 1"
  have m: "1 \<le> ?m" "?m \<le> 5" using r by (auto simp: retry_policy_def)
  have "within_policy (hu_Retry (hc_cfg c)) ?m n ws \<and> (1 \<le> n \<longleftrightarrow> nr = None)"
    if "attempt_http (counted_net net) x (hu_Retry (hc_cfg c)) nr q ?m 1 ((0, []), s) = (res, (n, ws), s')" for nr q
  proof (cases nr)
    case None
    with attempt_http_bounded[OF r _ m(1) m(2)] that bounded_within show ?thesis by fastforce
  next
    case (Some err)
    with that m have "n = 0" "ws = []"
      by (auto simp: attempt_http.simps[of _ _ _ _ _ ?m 1] simp del: split_paired_All split: if_splits)
    with within_none[OF m(1)] Some show ?thesis by simp
  qed
  with d within_none[OF m(1), of "hu_Retry (hc_cfg c)"] show ?thesis
    by (auto simp: doWithRetry_def sendable_def Let_def split: sum.splits if_splits)
qed


definition sample_retry :: Retry where
  "sample_retry = \<lparr>rty_MaxAttempts = 3, rty_InitialBackoff = 100, rty_MaxBackoff = 150, rty_Methods = [''/platform.S/*'']\<rparr>"

definition plain_auth :: ClientAuth where
  "plain_auth = \<lparr>ca_Type = [], ca_Token = []\<rparr>"

definition no_breaker :: Breaker where
  "no_breaker = \<lparr>brk_Enabled = False, brk_FailureThreshold = 0, brk_OpenTimeout = 0\<rparr>"

definition no_tls :: ClientTLS where
  "no_tls = \<lparr>ctl_Enabled = False, ctl_ServerName = [], ctl_CAFile = [], ctl_CertFile = [], ctl_KeyFile = []\<rparr>"

text \<open>A network on which every answer is 503 and every wait ends in time.\<close>

definition failing_net :: "unit net" where
  "failing_net =
     \<lparr>nt_Parse = (\<lambda>p. Inr \<lparr>url_Scheme = [], url_Host = [], url_Text = p\<rparr>), nt_ResolveReference = (\<lambda>b r. url_Text r),
      nt_NewRequest = (\<lambda>m u. None), nt_Do = (\<lambda>q s. (Inr (Some \<lparr>hr_StatusCode = 503, hr_Content = []\<rparr>), s)),
      nt_wait = (\<lambda>x d s. (None, s)), nt_out_of_range = 0\<rparr>"

definition sample_client :: "unit counted HTTPClient" where
  "sample_client =
     \<lparr>hc_name = ''up'', hc_baseURL = \<lparr>url_Scheme = ''http'', url_Host = ''up'', url_Text = []\<rparr>,
      hc_cfg = \<lparr>hu_BaseURL = ''http://up'', hu_Timeout = 1, hu_Auth = plain_auth, hu_Retry = sample_retry, hu_Breaker = no_breaker, hu_TLS = no_tls\<rparr>,
      hc_breaker = None\<rparr>"

definition plain_ctx :: ctx where
  "plain_ctx = \<lparr>ctx_principal = None, authorizedManagementTenant = None, ctx_requestID = None, ctx_clientIP = [],
     ctx_userAgent = [], ctx_idempotencyKey = None, ctx_environment = None\<rparr>"

definition sample_outgoing :: outgoing where
  "sample_outgoing = \<lparr>og_ctx = plain_ctx, og_hasDeadline = False, og_timeout = None, og_Method = ''/platform.S/Do'', og_metadata = []\<rparr>"


end
