(* ===== verification/Migrations.thy ===== *)
theory Migrations
  imports Config
begin

text \<open>
  Schema migrations at start-up: \<open>internal/migration/migration.go\<close> and \<open>runStartupMigration\<close> of
  \<open>internal/app/app.go\<close>.

  The migration library, the file system, \<open>net/url\<close> and the connection that creates the schema are
  arguments (\<open>migrate_lib\<close>). A parsed URL keeps its query as the list of its key and value pairs;
  \<open>url.Values\<close> groups them by key, and \<open>Set\<close> and \<open>Del\<close> act on all the pairs of a key.
\<close>

section \<open>Options of the database URL\<close>

record parsed_url =
  pu_Base :: gostring \<comment> \<open>scheme, user and host\<close>
  pu_Path :: gostring
  pu_Query :: "(gostring \<times> gostring) list"

definition query_Del :: "gostring \<Rightarrow> (gostring \<times> gostring) list \<Rightarrow> (gostring \<times> gostring) list" where
  "query_Del k q = filter (\<lambda>(k', v). k' \<noteq> k) q"

definition query_Set :: "gostring \<Rightarrow> gostring \<Rightarrow> (gostring \<times> gostring) list \<Rightarrow> (gostring \<times> gostring) list" where
  "query_Set k v q = query_Del k q @ [(k, v)]"

text \<open>\<open>strings.IndexByte\<close> and \<open>strings.LastIndex\<close> for one byte, as the text up to and including the
  last occurrence.\<close>

definition before_query :: "gostring \<Rightarrow> gostring \<times> gostring" where
  "before_query s = (takeWhile (\<lambda>c. c \<noteq> CHR ''?'') s, dropWhile (\<lambda>c. c \<noteq> CHR ''?'') s)"

definition through_last_slash :: "gostring \<Rightarrow> gostring option" where
  "through_last_slash s =
     (if CHR ''/'' \<in> set s then Some (rev (dropWhile (\<lambda>c. c \<noteq> CHR ''/'') (rev s))) else None)"

text \<open>One statement of the schema creation can fail at each of four places.\<close>

record migrate_lib =
  ml_Abs :: "gostring \<Rightarrow> gostring result"
  ml_FileURL :: "gostring \<Rightarrow> gostring"
  ml_Parse :: "gostring \<Rightarrow> parsed_url result"
  ml_String :: "parsed_url \<Rightarrow> gostring"
  ml_QueryEscape :: "gostring \<Rightarrow> gostring"
  ml_New :: "gostring \<Rightarrow> gostring \<Rightarrow> goerr option"
  ml_Steps :: "int \<Rightarrow> (goerr \<times> bool) option" \<comment> \<open>an error, and whether it is \<open>ErrNoChange\<close>\<close>
  ml_Down :: "(goerr \<times> bool) option"
  ml_Up :: "(goerr \<times> bool) option"
  ml_CloseSource :: "goerr option"
  ml_CloseDatabase :: "goerr option"
  ml_Open :: "gostring \<Rightarrow> goerr option"
  ml_Begin :: "goerr option"
  ml_Lock :: "gostring \<Rightarrow> goerr option"
  ml_Create :: "gostring \<Rightarrow> goerr option"
  ml_Commit :: "goerr option"

definition mysql_options :: "migrate_lib \<Rightarrow> gostring \<Rightarrow> gostring \<Rightarrow> gostring \<Rightarrow> gostring result" where
  "mysql_options lib databaseURL databaseName table =
     (case (if databaseName = [] then Inr databaseURL
            else case before_query databaseURL of (path, query) \<Rightarrow>
              (case through_last_slash path of
                 None \<Rightarrow> Inl (OtherError ''mysql migration URL is missing database path'')
               | Some front \<Rightarrow> Inr (front @ databaseName @ query))) of
        Inl err \<Rightarrow> Inl err
      | Inr u \<Rightarrow>
          if table = [] then Inr u
          else Inr (u @ (if CHR ''?'' \<in> set u then ''&'' else ''?'') @ ''x-migrations-table='' @ ml_QueryEscape lib table))"

definition withMigrationOptions :: "migrate_lib \<Rightarrow> gostring \<Rightarrow> gostring \<Rightarrow> gostring \<Rightarrow> gostring \<Rightarrow> gostring result" where
  "withMigrationOptions lib databaseURL databaseName table schema =
     (if databaseName = [] \<and> table = [] \<and> schema = [] then Inr databaseURL
      else if prefix ''mysql://'' databaseURL then mysql_options lib databaseURL databaseName table
      else case ml_Parse lib databaseURL of
        Inl err \<Rightarrow> Inl (Wrapf ''parse migration database URL'' err)
      | Inr parsed \<Rightarrow>
          let q1 = (if table \<noteq> [] then query_Set ''x-migrations-table'' table (pu_Query parsed) else pu_Query parsed);
              q2 = (if schema \<noteq> [] then query_Set ''search_path'' schema q1 else q1);
              p = (if databaseName \<noteq> [] then ''/'' @ databaseName else pu_Path parsed) in
          Inr (ml_String lib (parsed\<lparr>pu_Path := p, pu_Query := q2\<rparr>)))"

section \<open>Creating the schema and running\<close>

definition createSchema :: "migrate_lib \<Rightarrow> gostring \<Rightarrow> goerr option" where
  "createSchema lib schema =
     (case ml_Begin lib of
        Some err \<Rightarrow> Some (Wrapf ''begin schema creation'' err)
      | None \<Rightarrow> (case ml_Lock lib (''platform-schema:'' @ schema) of
        Some err \<Rightarrow> Some (Wrapf (''lock migration schema '' @ quoted schema) err)
      | None \<Rightarrow> (case ml_Create lib (''CREATE SCHEMA IF NOT EXISTS '' @ quoted schema) of
        Some err \<Rightarrow> Some (Wrapf (''create migration schema '' @ quoted schema) err)
      | None \<Rightarrow> map_option (Wrapf (''commit migration schema '' @ quoted schema)) (ml_Commit lib))))"

definition ensureSchema :: "migrate_lib \<Rightarrow> Migration \<Rightarrow> gostring \<Rightarrow> goerr option" where
  "ensureSchema lib cfg databaseURL =
     (if \<not> mi_CreateSchema cfg \<or> mi_Schema cfg = [] \<or> prefix ''mysql://'' (mi_DatabaseURL cfg) then None
      else if \<not> validMigrationTable (mi_Schema cfg) then Some (OtherError ''invalid migration schema'')
      else case ml_Parse lib databaseURL of
        Inl err \<Rightarrow> Some (Wrapf ''parse database URL for schema creation'' err)
      | Inr parsed \<Rightarrow>
          (case ml_Open lib (ml_String lib (parsed\<lparr>pu_Query := query_Del ''x-migrations-table'' (pu_Query parsed)\<rparr>)) of
             Some err \<Rightarrow> Some (Wrapf ''open database to create schema'' err)
           | None \<Rightarrow> createSchema lib (mi_Schema cfg)))"

text \<open>\<open>errors.Join\<close> of the outcome with the errors of closing; an outcome is the list of joined errors.\<close>

definition close_errors :: "migrate_lib \<Rightarrow> goerr list" where
  "close_errors lib =
     (case ml_CloseSource lib of Some err \<Rightarrow> [Wrapf ''close migration source'' err] | None \<Rightarrow> [])
     @ (case ml_CloseDatabase lib of Some err \<Rightarrow> [Wrapf ''close migration database'' err] | None \<Rightarrow> [])"

definition migration_Run :: "migrate_lib \<Rightarrow> Migration \<Rightarrow> gostring \<Rightarrow> int \<Rightarrow> goerr list" where
  "migration_Run lib cfg direction steps =
     (if mi_DatabaseURL cfg = [] then [OtherError ''migration.database_url is required'']
      else case ml_Abs lib (mi_Path cfg) of
        Inl err \<Rightarrow> [Wrapf ''resolve migration path'' err]
      | Inr absPath \<Rightarrow>
      (case withMigrationOptions lib (mi_DatabaseURL cfg) (mi_DatabaseName cfg) (mi_Table cfg) (mi_Schema cfg) of
        Inl err \<Rightarrow> [err]
      | Inr databaseURL \<Rightarrow>
      (case ensureSchema lib cfg databaseURL of
        Some err \<Rightarrow> [err]
      | None \<Rightarrow>
      (case ml_New lib (ml_FileURL lib absPath) databaseURL of
        Some err \<Rightarrow> [Wrapf ''create migrator'' err]
      | None \<Rightarrow>
          (case (if steps \<noteq> 0 then ml_Steps lib steps else if direction = ''down'' then ml_Down lib else ml_Up lib) of
             Some (err, noChange) \<Rightarrow> if noChange then [] else [Wrapf ''run migration'' err]
           | None \<Rightarrow> [])
          @ close_errors lib))))"

definition runStartupMigration :: "migrate_lib \<Rightarrow> Config \<Rightarrow> goerr list" where
  "runStartupMigration lib cfg =
     (if \<not> mi_AutoUp (cfg_Migration cfg) then []
      else map (Wrapf ''startup database migration'') (migration_Run lib (cfg_Migration cfg) ''up'' 0))"

section \<open>Laws\<close>

text \<open>The URL of a MySQL database that names a database after its host.\<close>

lemma through_last_slash_append:
  assumes "CHR ''/'' \<notin> set b"
  shows "through_last_slash (a @ ''/'' @ b) = Some (a @ ''/'')"
proof -
  have "\<forall>c\<in>set (rev b). c \<noteq> CHR ''/''" using assms by auto
  then have "dropWhile (\<lambda>c. c \<noteq> CHR ''/'') (rev b @ CHR ''/'' # rev a) = CHR ''/'' # rev a"
    by (subst dropWhile_append2) auto
  then show ?thesis by (simp add: through_last_slash_def)
qed

lemma mysql_database_replaced:
  assumes "CHR ''?'' \<notin> set a" "CHR ''?'' \<notin> set old" "CHR ''/'' \<notin> set old" "databaseName \<noteq> []"
    and that: "q = [] \<or> hd q = CHR ''?''"
  shows "mysql_options lib (''mysql://'' @ a @ ''/'' @ old @ q) databaseName [] = Inr (''mysql://'' @ a @ ''/'' @ databaseName @ q)"
proof -
  have "takeWhile (\<lambda>c. c \<noteq> CHR ''?'') q = []" "dropWhile (\<lambda>c. c \<noteq> CHR ''?'') q = q"
    using that by (cases q; simp)+
  moreover have "\<forall>c\<in>set (''mysql://'' @ a @ ''/'' @ old). c \<noteq> CHR ''?''" using assms by auto
  ultimately have b: "before_query ((''mysql://'' @ a @ ''/'' @ old) @ q) = (''mysql://'' @ a @ ''/'' @ old, q)"
    unfolding before_query_def by (subst takeWhile_append2, blast, subst dropWhile_append2, blast) simp
  show ?thesis
    using b assms through_last_slash_append[OF assms(3), of "''mysql://'' @ a"] by (simp add: mysql_options_def)
qed

text \<open>The error for a missing database path cannot occur: the two slashes of the scheme always count. A
  URL without a path loses its host.\<close>

lemma mysql_path_never_missing: "prefix ''mysql://'' u \<Longrightarrow> \<exists>v. mysql_options lib u databaseName table = Inr v"
proof -
  assume "prefix ''mysql://'' u"
  then have "CHR ''/'' \<in> set (fst (before_query u))" by (auto simp: prefix_def before_query_def)
  then show ?thesis by (auto simp: mysql_options_def through_last_slash_def split: prod.splits)
qed

lemma mysql_host_lost:
  "mysql_options lib ''mysql://user@tcp(db:3306)'' ''platform'' [] = Inr ''mysql://platform''"
  by (simp add: mysql_options_def before_query_def through_last_slash_def)

text \<open>A schema statement is only sent for a name that needs no quoting.\<close>

lemma quoted_plain: "validMigrationTable s \<Longrightarrow> CHR 0x22 \<notin> set s"
  by (cases s) (auto simp: list_all_iff lower_letter_def ascii_digit_def)

end
