(* ===== verification/Runtime.thy ===== *)
theory Runtime
  imports Operations Migrations Projections
begin

text \<open>
  Process start-up: database and Redis connections (\<open>internal/database/database.go\<close>,
  \<open>internal/cache/redis.go\<close>, \<open>internal/app/app.go\<close>), the token service of
  \<open>internal/auth/jwt.go\<close>, the event runtime (\<open>internal/app/eventbus.go\<close>) and the commands under
  \<open>cmd\<close>.

  Drivers, the event bus, the outbox dispatcher and the retention cleaner are arguments. A background
  loop is a function of the ticks it sees until its context is cancelled.
\<close>

section \<open>Connections\<close>

text \<open>What the two drivers parse from a data source name, as far as it is changed.\<close>

record dsn_config =
  dc_Database :: gostring
  dc_Params :: "(gostring \<times> gostring) list"
  dc_ParseTime :: bool
  dc_Loc :: gostring

record 'd drivers =
  dr_pgxParse :: "gostring \<Rightarrow> dsn_config result"
  dr_mysqlParse :: "gostring \<Rightarrow> dsn_config result"
  dr_LoadLocation :: "gostring \<Rightarrow> gostring result"
  dr_OpenDB :: "dsn_config \<Rightarrow> 'd"
  dr_FormatDSN :: "dsn_config \<Rightarrow> gostring"
  dr_Open :: "gostring \<Rightarrow> gostring \<Rightarrow> 'd result"
  dr_Ping :: "'d \<Rightarrow> time \<Rightarrow> goerr option"

record 'd pool =
  pl_DB :: 'd
  pl_MaxOpenConns :: int
  pl_MaxIdleConns :: int
  pl_ConnMaxLifetime :: time
  pl_ConnMaxIdleTime :: time

definition database_driverName :: "gostring \<Rightarrow> gostring result" where
  "database_driverName dbType =
     (if dbType = ''mysql'' then Inr ''mysql''
      else if dbType = ''postgres'' \<or> dbType = ''kingbase'' then Inr ''pgx''
      else Inl (OtherError (''unsupported database type '' @ quoted dbType)))"

definition pgx_config :: "Database \<Rightarrow> dsn_config \<Rightarrow> dsn_config" where
  "pgx_config cfg cc =
     (let cc1 = (if dbs_Name cfg \<noteq> [] then cc\<lparr>dc_Database := dbs_Name cfg\<rparr> else cc);
          cc2 = (if dbs_Schema cfg \<noteq> [] then cc1\<lparr>dc_Params := AList.update ''search_path'' (dbs_Schema cfg) (dc_Params cc1)\<rparr> else cc1)
      in cc2\<lparr>dc_Params := AList.update ''timezone'' ''Asia/Shanghai'' (dc_Params cc2)\<rparr>)"

definition mysql_config :: "Database \<Rightarrow> gostring \<Rightarrow> dsn_config \<Rightarrow> dsn_config" where
  "mysql_config cfg location cc =
     (let cc1 = (if dbs_Name cfg \<noteq> [] then cc\<lparr>dc_Database := dbs_Name cfg\<rparr> else cc)
      in cc1\<lparr>dc_ParseTime := True, dc_Loc := location, dc_Params := AList.update ''time_zone'' (CHR 0x27 # ''+08:00'' @ [CHR 0x27]) (dc_Params cc1)\<rparr>)"

definition open_driver :: "'d drivers \<Rightarrow> Database \<Rightarrow> gostring \<Rightarrow> 'd result" where
  "open_driver dr cfg driver =
     (if driver = ''pgx'' then
        (case dr_pgxParse dr (dbs_DSN cfg) of
           Inl e \<Rightarrow> Inl (Wrapf ''parse database dsn'' e)
         | Inr cc \<Rightarrow> Inr (dr_OpenDB dr (pgx_config cfg cc)))
      else if driver = ''mysql'' then
        (case dr_mysqlParse dr (dbs_DSN cfg) of
           Inl e \<Rightarrow> Inl (Wrapf ''parse database dsn'' e)
         | Inr cc \<Rightarrow>
             (case dr_LoadLocation dr ''Asia/Shanghai'' of
                Inl e \<Rightarrow> Inl (Wrapf ''load database timezone'' e)
              | Inr location \<Rightarrow> wrap ''open database'' (dr_Open dr driver (dr_FormatDSN dr (mysql_config cfg location cc)))))
      else wrap ''open database'' (dr_Open dr driver (dbs_DSN cfg)))"

definition database_Open :: "'d drivers \<Rightarrow> Database \<Rightarrow> 'd pool result" where
  "database_Open dr cfg =
     (case database_driverName (dbs_Type cfg) of
        Inl e \<Rightarrow> Inl e
      | Inr driver \<Rightarrow>
          (case open_driver dr cfg driver of
             Inl e \<Rightarrow> Inl e
           | Inr db \<Rightarrow>
               (case dr_Ping dr db (dbs_PingTimeout cfg) of
                  Some e \<Rightarrow> Inl (Wrapf ''ping database'' e)
                | None \<Rightarrow> Inr \<lparr>pl_DB = db, pl_MaxOpenConns = dbs_MaxOpenConns cfg, pl_MaxIdleConns = dbs_MaxIdleConns cfg,
                             pl_ConnMaxLifetime = dbs_ConnMaxLifetime cfg, pl_ConnMaxIdleTime = dbs_ConnMaxIdleTime cfg\<rparr>)))"

text \<open>The optional connections of the application: nil when disabled.\<close>

definition newDatabase :: "'d drivers \<Rightarrow> Config \<Rightarrow> 'd pool option result" where
  "newDatabase dr cfg =
     (if \<not> dbs_Enabled (cfg_Database cfg) then Inr None
      else case database_Open dr (cfg_Database cfg) of Inl e \<Rightarrow> Inl e | Inr db \<Rightarrow> Inr (Some db))"

record 'c redis_driver =
  rv_NewClient :: "Redis \<Rightarrow> 'c"
  rv_Ping :: "'c \<Rightarrow> goerr option"
  rv_Instrument :: "'c \<Rightarrow> goerr option"

definition cache_Open :: "'c redis_driver \<Rightarrow> Redis \<Rightarrow> 'c result" where
  "cache_Open rv cfg =
     (let client = rv_NewClient rv cfg in
      case rv_Ping rv client of Some e \<Rightarrow> Inl (Wrapf ''ping redis'' e) | None \<Rightarrow> Inr client)"

definition newRedis :: "'c redis_driver \<Rightarrow> Config \<Rightarrow> bool \<Rightarrow> 'c option result" where
  "newRedis rv cfg tracing =
     (if \<not> rd_Enabled (cfg_Redis cfg) then Inr None
      else case cache_Open rv (cfg_Redis cfg) of
        Inl e \<Rightarrow> Inl e
      | Inr client \<Rightarrow>
          (if tracing then case rv_Instrument rv client of Some e \<Rightarrow> Inl (Wrapf ''instrument redis tracing'' e) | None \<Rightarrow> Inr (Some client)
           else Inr (Some client)))"

definition newLocker :: "('c \<Rightarrow> 's redsync) \<Rightarrow> 'c option \<Rightarrow> 's redsync option" where
  "newLocker pool client = (case client of None \<Rightarrow> None | Some c \<Rightarrow> Some (pool c))"

text \<open>An accepted configuration names a supported database, so an unsupported type cannot stop the
  connection; the session time zone is fixed and the configured schema is the search path.\<close>

lemma driverName_supported: "isDBType t \<Longrightarrow> \<exists>d\<in>{''pgx'', ''mysql''}. database_driverName t = Inr d"
  by (auto simp: isDBType_def database_driverName_def)

lemma database_Open_Inr:
  assumes "database_Open dr cfg = Inr p" "dbs_Type cfg = ''postgres''"
  shows "\<exists>cc. dr_pgxParse dr (dbs_DSN cfg) = Inr cc \<and> pl_DB p = dr_OpenDB dr (pgx_config cfg cc)
    \<and> map_of (dc_Params (pgx_config cfg cc)) ''timezone'' = Some ''Asia/Shanghai''
    \<and> (dbs_Schema cfg \<noteq> [] \<longrightarrow> map_of (dc_Params (pgx_config cfg cc)) ''search_path'' = Some (dbs_Schema cfg))
    \<and> (dbs_Name cfg \<noteq> [] \<longrightarrow> dc_Database (pgx_config cfg cc) = dbs_Name cfg)
    \<and> dr_Ping dr (pl_DB p) (dbs_PingTimeout cfg) = None"
  using assms
  by (auto simp: database_Open_def database_driverName_def open_driver_def pgx_config_def Let_def update_conv split: sum.splits option.splits)

section \<open>The token service\<close>

definition auth_New :: "Config \<Rightarrow> auth_Service" where
  "auth_New cfg =
     \<lparr>au_issuer = jw_Issuer (cfg_JWT cfg), au_secret = jw_Secret (cfg_JWT cfg), au_ttl = jw_TTL (cfg_JWT cfg),
      au_clientID = at_ClientID (cfg_Auth cfg), au_clientSecret = at_ClientSecret (cfg_Auth cfg), au_verifier = False\<rparr>"

text \<open>The verifier is built from URL, issuer and audience.\<close>

definition auth_NewRuntime :: "(gostring \<Rightarrow> gostring \<Rightarrow> gostring \<Rightarrow> goerr option) \<Rightarrow> Config \<Rightarrow> auth_Service result" where
  "auth_NewRuntime newVerifier cfg =
     (let service = auth_New cfg; ac = cfg_Auth cfg in
      if at_JWKSURL ac = [] then Inr service
      else case newVerifier (at_JWKSURL ac) (at_Issuer ac) (at_Audience ac) of
        Some err \<Rightarrow> Inl (Wrapf ''configure identity token verifier'' err)
      | None \<Rightarrow> Inr (service\<lparr>au_verifier := True\<rparr>))"

text \<open>With a key set configured, locally signed tokens are never accepted: verification is the key
  set's.\<close>

lemma remote_verification:
  assumes "auth_NewRuntime nv cfg = Inr s" "at_JWKSURL (cfg_Auth cfg) \<noteq> []"
  shows "auth_Verify lib s x raw = tk_VerifyBearer lib x raw"
  using assms by (auto simp: auth_NewRuntime_def auth_Verify_def Let_def split: option.splits)

section \<open>The event runtime\<close>

record bus_Config =
  bc_URLs :: "gostring list"
  bc_ClientName :: gostring
  bc_StreamName :: gostring
  bc_Subjects :: "gostring list"
  bc_Storage :: gostring
  bc_MaxAge :: time
  bc_DuplicateWindow :: time
  bc_ConnectTimeout :: time
  bc_PublishTimeout :: time

text \<open>The bus with its constructor, the dispatcher (batch size, lease, retry delay) and the cleaner
  (retention, batch size) on a state \<open>'s\<close>.\<close>

record 'b event_lib =
  el_NewBus :: "bus_Config \<Rightarrow> 'b result"
  el_NewDispatcher :: "int \<Rightarrow> time \<Rightarrow> time \<Rightarrow> goerr option"
  el_NewCleaner :: "time \<Rightarrow> int \<Rightarrow> goerr option"
  el_Publish :: "'b \<Rightarrow> gostring \<Rightarrow> Envelope \<Rightarrow> goerr option"
  el_Close :: "'b \<Rightarrow> goerr option"

datatype background = DispatchLoop | CleanLoop | ConsumeLoop gostring gostring

record 'b eventRuntime =
  ev_store :: bool \<comment> \<open>whether the outbox store is not nil\<close>
  ev_bus :: "'b option"
  ev_cancel :: bool
  ev_running :: "background list"
  ev_closed :: "'b list"

definition newEventRuntime :: "bool \<Rightarrow> 'b eventRuntime" where
  "newEventRuntime store = \<lparr>ev_store = store, ev_bus = None, ev_cancel = False, ev_running = [], ev_closed = []\<rparr>"

definition event_bus_config :: "Config \<Rightarrow> bus_Config" where
  "event_bus_config cfg =
     (let eb = cfg_EventBus cfg in
      \<lparr>bc_URLs = eb_URLs eb, bc_ClientName = ap_Name (cfg_App cfg), bc_StreamName = eb_StreamName eb, bc_Subjects = [''platform.>''],
       bc_Storage = eb_Storage eb, bc_MaxAge = eb_MaxAge eb, bc_DuplicateWindow = eb_DuplicateWindow eb,
       bc_ConnectTimeout = eb_ConnectTimeout eb, bc_PublishTimeout = eb_PublishTimeout eb\<rparr>)"

definition event_start :: "'b event_lib \<Rightarrow> Config \<Rightarrow> 'b eventRuntime \<Rightarrow> goerr option \<times> 'b eventRuntime" where
  "event_start lib cfg r =
     (let eb = cfg_EventBus cfg in
      if \<not> eb_Enabled eb then (None, r)
      else if \<not> ev_store r then (Some (OtherError ''enabled event bus requires database outbox''), r)
      else case el_NewBus lib (event_bus_config cfg) of
        Inl err \<Rightarrow> (Some err, r)
      | Inr bus \<Rightarrow>
      (case el_NewDispatcher lib (eb_DispatchBatchSize eb) (eb_DispatchLease eb) (eb_DispatchRetryDelay eb) of
        Some err \<Rightarrow> (Some err, r\<lparr>ev_closed := bus # ev_closed r\<rparr>)
      | None \<Rightarrow>
      (let r1 = r\<lparr>ev_bus := Some bus, ev_cancel := True\<rparr> in
       case el_NewCleaner lib (eb_PublishedRetention eb) (eb_CleanupBatchSize eb) of
        Some err \<Rightarrow> (Some err, r1\<lparr>ev_closed := bus # ev_closed r1\<rparr>)
      | None \<Rightarrow>
          (None, r1\<lparr>ev_running := ev_running r1 @
             [DispatchLoop, CleanLoop,
              ConsumeLoop ''authorization-tenant-groups-v1'' ''platform.tenant.group.changed.v1'',
              ConsumeLoop ''authorization-tenant-bootstrap-v1'' ''platform.tenant.tenant.created.v1'']\<rparr>))))"

text \<open>\<open>stop\<close> cancels the loops and waits for all of them.\<close>

definition event_stop :: "'b event_lib \<Rightarrow> 'b eventRuntime \<Rightarrow> goerr option \<times> 'b eventRuntime" where
  "event_stop lib r =
     (let r1 = (if ev_cancel r then r\<lparr>ev_running := []\<rparr> else r) in
      case ev_bus r1 of
        Some bus \<Rightarrow> (el_Close lib bus, r1\<lparr>ev_closed := bus # ev_closed r1\<rparr>)
      | None \<Rightarrow> (None, r1))"

definition event_Publish :: "'b event_lib \<Rightarrow> 'b eventRuntime option \<Rightarrow> gostring \<Rightarrow> Envelope \<Rightarrow> goerr option" where
  "event_Publish lib r subj envelope =
     (case r of
        None \<Rightarrow> Some (OtherError ''authorization event bus is unavailable'')
      | Some rt \<Rightarrow>
          (case ev_bus rt of
             None \<Rightarrow> Some (OtherError ''authorization event bus is unavailable'')
           | Some bus \<Rightarrow> el_Publish lib bus subj envelope))"

text \<open>What a waiting loop sees next.\<close>

datatype loop_event = LoopTick | LoopDone

text \<open>One run and then one for every tick until the context is done; the messages it logs.\<close>

fun dispatch_loop :: "('s \<Rightarrow> goerr option \<times> 's) \<Rightarrow> (goerr \<Rightarrow> bool) \<Rightarrow> loop_event list \<Rightarrow> 's \<Rightarrow> goerr list \<times> 's" where
  "dispatch_loop runOnce canceled events s =
     (case runOnce s of (err, s') \<Rightarrow>
        let entries = (case err of Some e \<Rightarrow> if canceled e then [] else [e] | None \<Rightarrow> []) in
        case events of
          LoopTick # es \<Rightarrow> (case dispatch_loop runOnce canceled es s' of (later, s'') \<Rightarrow> (entries @ later, s''))
        | _ \<Rightarrow> (entries, s'))"

datatype clean_entry = CleanFailed goerr | Cleaned int

fun clean_loop :: "('s \<Rightarrow> (int \<times> goerr option) \<times> 's) \<Rightarrow> (goerr \<Rightarrow> bool) \<Rightarrow> loop_event list \<Rightarrow> 's \<Rightarrow> clean_entry list \<times> 's" where
  "clean_loop runOnce canceled events s =
     (case runOnce s of ((deleted, err), s') \<Rightarrow>
        let entries = (case err of
                         Some e \<Rightarrow> if canceled e then (if deleted > 0 then [Cleaned deleted] else []) else [CleanFailed e]
                       | None \<Rightarrow> if deleted > 0 then [Cleaned deleted] else []) in
        case events of
          LoopTick # es \<Rightarrow> (case clean_loop runOnce canceled es s' of (later, s'') \<Rightarrow> (entries @ later, s''))
        | _ \<Rightarrow> (entries, s'))"

declare dispatch_loop.simps [simp del] clean_loop.simps [simp del]

text \<open>What the two loops have in common, as far as the state goes: a run for every tick, and one more
  before the end. A failed run does not end a loop.\<close>

locale background_loop =
  fixes loop :: "loop_event list \<Rightarrow> 's \<Rightarrow> 'l \<times> 's" and run :: "'s \<Rightarrow> 's"
  assumes ticked: "snd (loop (LoopTick # es) s) = snd (loop es (run s))"
    and ended: "snd (loop (LoopDone # es) s) = run s"
begin

lemma runs: "snd (loop (replicate n LoopTick @ LoopDone # rest) s) = (run ^^ Suc n) s"
proof (induction n arbitrary: s)
  case (Suc n)
  have "snd (loop (replicate (Suc n) LoopTick @ LoopDone # rest) s) = (run ^^ Suc n) (run s)"
    by (simp only: replicate_Suc append_Cons ticked Suc.IH)
  then show ?case by (simp only: funpow_Suc_right[of "Suc n"] comp_apply)
qed (simp add: ended)

end

interpretation dispatching: background_loop "dispatch_loop runOnce canceled" "\<lambda>s. snd (runOnce s)"
  by unfold_locales (subst dispatch_loop.simps, simp split: prod.split)+

interpretation cleaning: background_loop "clean_loop runOnce canceled" "\<lambda>s. snd (runOnce s)"
  by unfold_locales (subst clean_loop.simps, simp split: prod.split)+

lemmas dispatch_loop_runs = dispatching.runs

lemmas clean_loop_runs = cleaning.runs

text \<open>A start that fails leaves nothing running and every bus it opened closed; after a stop nothing
  runs.\<close>

lemma event_start_failed:
  assumes "event_start lib cfg (newEventRuntime store) = (Some err, r)"
  shows "ev_running r = [] \<and> (\<forall>bus. ev_bus r = Some bus \<longrightarrow> bus \<in> set (ev_closed r))"
  using assms
  by (auto simp: event_start_def newEventRuntime_def Let_def split: if_splits sum.splits option.splits)

lemma event_stop_stops:
  assumes "event_start lib cfg (newEventRuntime store) = (None, r)" "event_stop lib r = (e, r')"
  shows "ev_running r' = [] \<and> (\<forall>bus. ev_bus r' = Some bus \<longrightarrow> bus \<in> set (ev_closed r'))"
  using assms
  by (auto simp: event_start_def event_stop_def newEventRuntime_def Let_def split: if_splits sum.splits option.splits)

section \<open>Commands\<close>

text \<open>The exit codes of \<open>cmd/migrate\<close>: 2 for a wrong direction, 1 for a configuration or migration that
  fails.\<close>

definition migrate_main :: "viper_lib \<Rightarrow> migrate_lib \<Rightarrow> gostring \<Rightarrow> gostring \<Rightarrow> gostring \<Rightarrow> int \<Rightarrow> int" where
  "migrate_main vp lib configPath profile direction steps =
     (if direction \<noteq> ''up'' \<and> direction \<noteq> ''down'' then 2
      else case LoadWithProfile vp configPath profile of
        Inl err \<Rightarrow> 1
      | Inr cfg \<Rightarrow> if migration_Run lib (cfg_Migration cfg) direction steps \<noteq> [] then 1 else 0)"

text \<open>\<open>cmd/api\<close>: print the version, fail on the configuration, or run the application with it.\<close>

datatype api_outcome = ShowVersion gostring | ExitCode int | RunApp Config

definition api_main :: "viper_lib \<Rightarrow> gostring \<Rightarrow> gostring \<Rightarrow> gostring \<Rightarrow> gostring \<Rightarrow> gostring \<Rightarrow> bool \<Rightarrow> api_outcome" where
  "api_main vp version commit built configPath profile showVersion =
     (if showVersion then ShowVersion (''version='' @ version @ '' commit='' @ commit @ '' build_time='' @ built @ [CHR 0x0A])
      else case LoadWithProfile vp configPath profile of Inl err \<Rightarrow> ExitCode 1 | Inr cfg \<Rightarrow> RunApp cfg)"

text \<open>\<open>run\<close> of \<open>cmd/bootstrap-admin\<close> from the start: load the configuration, open the database, grant.\<close>

definition bootstrap_run ::
  "viper_lib \<Rightarrow> 'd drivers \<Rightarrow> projection_env \<Rightarrow> ctx \<Rightarrow> gostring \<Rightarrow> gostring \<Rightarrow> admin_options \<Rightarrow> database \<Rightarrow> GrantResult result \<times> database" where
  "bootstrap_run vp dr e x configPath profile opts db =
     (case LoadWithProfile vp configPath profile of
        Inl err \<Rightarrow> (Inl (Wrapf ''load configuration'' err), db)
      | Inr cfg \<Rightarrow>
          if \<not> dbs_Enabled (cfg_Database cfg) then (Inl (OtherError ''database must be enabled''), db)
          else case database_Open dr (cfg_Database cfg) of
            Inl err \<Rightarrow> (Inl (Wrapf ''open database'' err), db)
          | Inr pool \<Rightarrow> admin_run e x opts db)"

end
