(* ===== verification/Observability.thy ===== *)
theory Observability
  imports Runtime
begin

text \<open>
  Metrics, traces, logs and the recorders: \<open>internal/observability/metrics.go\<close> and \<open>tracing.go\<close>,
  \<open>internal/logging/logging.go\<close>, \<open>internal/idempotency/manager.go\<close> and the constructors of
  \<open>internal/app/eventbus.go\<close>. The Prometheus, OpenTelemetry, slog and platform constructors are
  arguments; a metric family is its name with the names of its labels, and an observation is a family
  with the values of its labels.
\<close>

section \<open>Metrics\<close>

type_synonym family = "gostring \<times> gostring list"

definition metric_families :: "family list" where
  "metric_families =
     [(''http_requests_total'', [''method'', ''route'', ''status'']),
      (''http_request_duration_seconds'', [''method'', ''route'']),
      (''cron_runs_total'', [''job'', ''status'']),
      (''cron_run_duration_seconds'', [''job'']),
      (''grpc_server_requests_total'', [''method'', ''code'']),
      (''grpc_server_duration_seconds'', [''method'']),
      (''outbound_requests_total'', [''protocol'', ''client'', ''status'']),
      (''outbound_request_duration_seconds'', [''protocol'', ''client'']),
      (''route_policy_refresh_total'', [''source'', ''status'']),
      (''route_policy_refresh_duration_seconds'', [''source'']),
      (''authorization_decision_cache_invalidation_total'', [''source'', ''status''])]"

definition registerRedisMetrics :: "gostring list" where
  "registerRedisMetrics =
     [''redis_pool_hits_total'', ''redis_pool_misses_total'', ''redis_pool_timeouts_total'', ''redis_pool_connections'',
      ''redis_pool_idle_connections'']"

record Metrics =
  mt_enabled :: bool
  mt_families :: "family list"
  mt_collectors :: "gostring list"
  mt_gauges :: "gostring list"
  mt_observed :: "(gostring \<times> gostring list) list"

definition NewMetrics :: "Config \<Rightarrow> bool \<Rightarrow> bool \<Rightarrow> Metrics" where
  "NewMetrics cfg db client =
     \<lparr>mt_enabled = obs_MetricsEnabled (cfg_Observability cfg), mt_families = metric_families,
      mt_collectors = [''go'', ''process''] @ (if db then [''primary''] else []),
      mt_gauges = (if client then registerRedisMetrics else []), mt_observed = []\<rparr>"

text \<open>\<open>WithLabelValues\<close> panics when the number of values is not the number of labels.\<close>

definition WithLabelValues :: "gostring \<Rightarrow> gostring list \<Rightarrow> Metrics \<Rightarrow> Metrics option" where
  "WithLabelValues name labels m =
     (case map_of (mt_families m) name of
        Some names \<Rightarrow> if length names = length labels then Some (m\<lparr>mt_observed := mt_observed m @ [(name, labels)]\<rparr>) else None
      | None \<Rightarrow> None)"

definition ObserveRoutePolicyRefresh :: "gostring \<Rightarrow> gostring \<Rightarrow> Metrics \<Rightarrow> Metrics option" where
  "ObserveRoutePolicyRefresh source status m =
     (if \<not> mt_enabled m then Some m
      else case WithLabelValues ''route_policy_refresh_total'' [source, status] m of
        None \<Rightarrow> None
      | Some m' \<Rightarrow> WithLabelValues ''route_policy_refresh_duration_seconds'' [source] m')"

definition ObserveCron :: "gostring \<Rightarrow> gostring \<Rightarrow> Metrics \<Rightarrow> Metrics option" where
  "ObserveCron job status m =
     (if \<not> mt_enabled m then Some m
      else case WithLabelValues ''cron_runs_total'' [job, status] m of
        None \<Rightarrow> None
      | Some m' \<Rightarrow> WithLabelValues ''cron_run_duration_seconds'' [job] m')"

text \<open>Observing never panics and never changes the families, and does nothing when metrics are
  disabled.\<close>

lemma WithLabelValues_families: "WithLabelValues name labels m = Some m' \<Longrightarrow> mt_families m' = mt_families m \<and> mt_enabled m' = mt_enabled m"
  by (auto simp: WithLabelValues_def split: option.splits if_splits)

lemma observations_do_not_panic:
  assumes "mt_families m = metric_families"
  shows "\<exists>m'. ObserveCron job status m = Some m' \<and> mt_families m' = metric_families"
    and "\<exists>m'. ObserveRoutePolicyRefresh source status m = Some m' \<and> mt_families m' = metric_families"
  using assms by (auto simp: ObserveCron_def ObserveRoutePolicyRefresh_def WithLabelValues_def metric_families_def)

section \<open>Traces and logs\<close>

record Tracing =
  tg_enabled :: bool
  tg_resource :: "(gostring \<times> gostring) list"

definition NewTracing :: "(gostring \<Rightarrow> goerr option) \<Rightarrow> gostring \<Rightarrow> Config \<Rightarrow> Tracing result" where
  "NewTracing newExporter version cfg =
     (let ob = cfg_Observability cfg in
      if \<not> obs_TracingEnabled ob then Inr \<lparr>tg_enabled = False, tg_resource = []\<rparr>
      else case newExporter (obs_TracingEndpoint ob) of
        Some err \<Rightarrow> Inl (Wrapf ''create OTLP trace exporter'' err)
      | None \<Rightarrow> Inr \<lparr>tg_enabled = True, tg_resource = [(''service.name'', ap_Name (cfg_App cfg)), (''service.version'', version)]\<rparr>)"

datatype log_format = TextHandler | JSONHandler

text \<open>\<open>filepath.Dir\<close> and the directory creation, and the parser of level names, are arguments.\<close>

definition logging_New :: "(gostring \<Rightarrow> goerr option) \<Rightarrow> (gostring \<Rightarrow> int result) \<Rightarrow> Log \<Rightarrow> (int \<times> log_format) result" where
  "logging_New mkdirFor parseLevel cfg =
     (case mkdirFor (lg_File cfg) of
        Some err \<Rightarrow> Inl (Wrapf ''create log directory'' err)
      | None \<Rightarrow>
          (case parseLevel (ToLower (lg_Level cfg)) of
             Inl err \<Rightarrow> Inl (Wrapf ''parse log level'' err)
           | Inr level \<Rightarrow> Inr (level, if lg_Format cfg = ''text'' then TextHandler else JSONHandler)))"

end
