(* ===== verification/Wiring.thy ===== *)
theory Wiring
  imports Runtime Observability Coherence
begin

text \<open>
  How the parts are put together: the scheduler (\<open>internal/scheduler/scheduler.go\<close>), the
  constructors of \<open>internal/app\<close> and \<open>internal/idempotency\<close> that hand the configuration on to the
  platform packages, the authorization service and its cache runtime as they are created, and the
  whole administrator command (\<open>cmd/bootstrap-admin/main.go\<close>).

  Cron, cobra, the recorders, the outbox store and the idempotency manager of the platform packages
  are arguments.
\<close>

section \<open>The scheduler\<close>

record cron_lib =
  cl_LoadLocation :: "gostring \<Rightarrow> gostring result"
  cl_AddFunc :: "gostring \<Rightarrow> goerr option" \<comment> \<open>parsing the specification of a job\<close>

record cron_runner =
  cj_location :: gostring
  cj_seconds :: bool
  cj_jobs :: "gostring list"
  cj_running :: bool

definition scheduler_New :: "cron_lib \<Rightarrow> Config \<Rightarrow> cron_runner result" where
  "scheduler_New lib cfg =
     (case cl_LoadLocation lib (cn_Timezone (cfg_Cron cfg)) of
        Inl err \<Rightarrow> Inl err
      | Inr location \<Rightarrow>
          (let runner = \<lparr>cj_location = location, cj_seconds = True, cj_jobs = [], cj_running = False\<rparr>;
               spec = cn_SampleSpec (cfg_Cron cfg) in
           if spec = [] then Inr runner
           else case cl_AddFunc lib spec of
             Some err \<Rightarrow> Inl err
           | None \<Rightarrow> Inr (runner\<lparr>cj_jobs := [spec]\<rparr>)))"

definition scheduler_OnStart :: "Config \<Rightarrow> cron_runner \<Rightarrow> goerr option \<times> cron_runner" where
  "scheduler_OnStart cfg runner = (None, if cn_Enabled (cfg_Cron cfg) then runner\<lparr>cj_running := True\<rparr> else runner)"

text \<open>\<open>runner.Stop\<close> stops the runner at once; the hook then waits for the running job or for the end of
  its own context, which is the argument.\<close>

definition scheduler_OnStop :: "goerr option \<Rightarrow> cron_runner \<Rightarrow> goerr option \<times> cron_runner" where
  "scheduler_OnStop contextDone runner = (contextDone, runner\<lparr>cj_running := False\<rparr>)"

text \<open>One activation of the registered function: the job, then its metrics.\<close>

definition cron_fire :: "'s redsync option \<Rightarrow> Metrics \<Rightarrow> 's \<Rightarrow> Metrics option \<times> job_event list \<times> 's" where
  "cron_fire locker m s =
     (case sample_job locker s of ((job, status), events, s') \<Rightarrow> (ObserveCron job status m, events, s'))"

text \<open>A configuration whose time zone and specification are accepted gives a scheduler that holds the
  sample job exactly when one is specified, and that runs exactly between a start with the scheduler
  enabled and the next stop, whatever the stop reports.\<close>

lemma scheduler_lifecycle:
  assumes "scheduler_New lib cfg = Inr runner"
  shows "cj_jobs runner = (if cn_SampleSpec (cfg_Cron cfg) = [] then [] else [cn_SampleSpec (cfg_Cron cfg)])"
    and "\<not> cj_running runner"
    and "cj_running (snd (scheduler_OnStart cfg runner)) \<longleftrightarrow> cn_Enabled (cfg_Cron cfg)"
    and "\<not> cj_running (snd (scheduler_OnStop e (snd (scheduler_OnStart cfg runner))))"
  using assms by (auto simp: scheduler_New_def scheduler_OnStart_def scheduler_OnStop_def Let_def split: sum.splits option.splits if_splits)

text \<open>An activation never panics on its metrics, and under a working lock service it runs the job exactly
  when no other instance holds the lock, and returns the lock.\<close>

lemma cron_fire_exclusive:
  assumes "lock_contract rd held" "mt_families m = metric_families"
  shows "\<exists>m'. fst (cron_fire (Some rd) m s) = Some m'"
    and "fst (snd (cron_fire (Some rd) m s)) = (if ''lock:cron:sample'' \<in> held s then [JobSkipped] else [JobExecuted])"
    and "held (snd (snd (cron_fire (Some rd) m s))) = held s"
proof -
  obtain err events s' where r: "runSample (Some rd) s = (err, events, s')" by (cases "runSample (Some rd) s") auto
  show "\<exists>m'. fst (cron_fire (Some rd) m s) = Some m'"
    using observations_do_not_panic(1)[OF assms(2)] by (auto simp: cron_fire_def sample_job_def r)
  show "fst (snd (cron_fire (Some rd) m s)) = (if ''lock:cron:sample'' \<in> held s then [JobSkipped] else [JobExecuted])"
    "held (snd (snd (cron_fire (Some rd) m s))) = held s"
    using runSample_exclusive[OF assms(1), of s] by (simp_all add: cron_fire_def sample_job_def r)
qed

section \<open>Constructors of the platform packages\<close>

record Logger =
  lo_level :: int
  lo_format :: log_format
  lo_attributes :: "(gostring \<times> gostring) list"

definition newLogger :: "(gostring \<Rightarrow> goerr option) \<Rightarrow> (gostring \<Rightarrow> int result) \<Rightarrow> Config \<Rightarrow> Logger result" where
  "newLogger mkdirFor parseLevel cfg =
     (case logging_New mkdirFor parseLevel (cfg_Log cfg) of
        Inl err \<Rightarrow> Inl err
      | Inr (level, format) \<Rightarrow>
          Inr \<lparr>lo_level = level, lo_format = format,
               lo_attributes = [(''service'', ap_Name (cfg_App cfg)), (''environment'', rt_ActiveProfile (cfg_Runtime cfg))]\<rparr>)"

record recorder_Config =
  rc_Enabled :: bool
  rc_Subject :: gostring
  rc_MaxPayloadBytes :: int

definition newOperationLogRecorder :: "(recorder_Config \<Rightarrow> 'p \<Rightarrow> 'r result) \<Rightarrow> Config \<Rightarrow> 'p \<Rightarrow> 'r result" where
  "newOperationLogRecorder operationlog_New cfg publisher =
     operationlog_New \<lparr>rc_Enabled = opl_Enabled (cfg_OperationLog cfg), rc_Subject = opl_Subject (cfg_OperationLog cfg),
       rc_MaxPayloadBytes = opl_MaxPayloadBytes (cfg_OperationLog cfg)\<rparr> publisher"

record security_Config = recorder_Config +
  rc_HashKey :: gostring
  rc_FailClosed :: bool

definition newSecurityLogRecorder :: "(security_Config \<Rightarrow> 'p \<Rightarrow> 'r result) \<Rightarrow> Config \<Rightarrow> 'p \<Rightarrow> 'r result" where
  "newSecurityLogRecorder securitylog_New cfg publisher =
     securitylog_New \<lparr>rc_Enabled = sel_Enabled (cfg_SecurityLog cfg), rc_Subject = sel_Subject (cfg_SecurityLog cfg),
       rc_MaxPayloadBytes = sel_MaxPayloadBytes (cfg_SecurityLog cfg), rc_HashKey = sel_HashKey (cfg_SecurityLog cfg),
       rc_FailClosed = sel_FailClosed (cfg_SecurityLog cfg)\<rparr> publisher"

definition newAuthorizationOutboxStore :: "('d \<Rightarrow> gostring \<Rightarrow> 'o result) \<Rightarrow> 'd option \<Rightarrow> 'o option result" where
  "newAuthorizationOutboxStore newSQLStore db =
     (case db of
        None \<Rightarrow> Inr None
      | Some d \<Rightarrow> (case newSQLStore d ''authorization_outbox_events'' of Inl err \<Rightarrow> Inl err | Inr store \<Rightarrow> Inr (Some store)))"

record idem_Config =
  ic_Enabled :: bool
  ic_Service :: gostring
  ic_ProcessingTTL :: time
  ic_ResultTTL :: time
  ic_FailureTTL :: time

definition idempotency_New :: "('c option \<Rightarrow> idem_Config \<Rightarrow> 'm) \<Rightarrow> 'c option \<Rightarrow> Config \<Rightarrow> 'm" where
  "idempotency_New platform_New client cfg =
     platform_New client \<lparr>ic_Enabled = ie_Enabled (cfg_Idempotency cfg), ic_Service = ap_Name (cfg_App cfg),
       ic_ProcessingTTL = ie_ProcessingTTL (cfg_Idempotency cfg), ic_ResultTTL = ie_ResultTTL (cfg_Idempotency cfg),
       ic_FailureTTL = ie_FailureTTL (cfg_Idempotency cfg)\<rparr>"

section \<open>The service and its cache runtime\<close>

text \<open>\<open>NewService\<close> over the tables as they are: an empty cache with the default time to live.\<close>

definition NewService :: "database \<Rightarrow> world" where
  "NewService db = \<lparr>w_db = db, w_cache = [], w_cacheTTL = 30 * 10 ^ 9, w_notified = [], w_operations = [], w_security = []\<rparr>"

record cache_process =
  cp_cancel :: bool \<comment> \<open>\<open>cancel\<close> is set\<close>
  cp_loop :: bool \<comment> \<open>the loop runs\<close>

definition cache_start :: "cache_process \<Rightarrow> goerr option \<times> cache_process" where
  "cache_start p = (None, p\<lparr>cp_cancel := True, cp_loop := True\<rparr>)"

definition cache_stop :: "cache_process \<Rightarrow> goerr option \<times> cache_process" where
  "cache_stop p = (None, if cp_cancel p then p\<lparr>cp_loop := False\<rparr> else p)"

text \<open>The service of a configuration: \<open>NewDecisionCacheRuntime\<close> sets the configured time to live.\<close>

definition wired_service :: "bool \<Rightarrow> bool \<Rightarrow> Config \<Rightarrow> database \<Rightarrow> DecisionCacheRuntime \<times> world" where
  "wired_service client metrics cfg db =
     (case NewDecisionCacheRuntime client metrics (rt_ActiveProfile (cfg_Runtime cfg)) (ap_Name (cfg_App cfg))
             (az_PolicyRefreshInterval (cfg_Authorization cfg)) (az_DecisionCacheTTL (cfg_Authorization cfg))
             (w_cacheTTL (NewService db)) of
        (runtime, ttl) \<Rightarrow> (runtime, (NewService db)\<lparr>w_cacheTTL := ttl\<rparr>))"

text \<open>A created service is coherent with its tables, so the theorems about histories apply from the
  start, and its cached decisions expire: time to live and refresh interval are positive for every
  configuration.\<close>

lemma wired_service_starts:
  assumes "wired_service client metrics cfg db = (runtime, w)"
  shows "coherent e w" "w_db w = db" "0 < w_cacheTTL w" "0 < rt_interval runtime"
  using assms by (auto simp: wired_service_def NewDecisionCacheRuntime_def NewService_def coherent_def Let_def)

lemma cache_stop_ends: "\<not> cp_loop (snd (cache_stop (snd (cache_start p))))"
  by (simp add: cache_start_def cache_stop_def)

section \<open>The administrator command\<close>

text \<open>What cobra parsed: a flag error, or the flags that were given and the remaining arguments, which
  \<open>NoArgs\<close> checks. Flags that were not given have their defaults.\<close>

record parsed_args =
  pa_flags :: "gostring \<rightharpoonup> gostring"
  pa_args :: "gostring list"

definition command_flag :: "parsed_args \<Rightarrow> gostring \<Rightarrow> gostring \<Rightarrow> gostring" where
  "command_flag p name otherwise = (case pa_flags p name of Some v \<Rightarrow> v | None \<Rightarrow> otherwise)"

datatype command_error = UsageError goerr | RunError goerr

definition newCommand ::
  "(gostring list \<Rightarrow> goerr option) \<Rightarrow> (gostring \<Rightarrow> gostring \<Rightarrow> admin_options \<Rightarrow> 's \<Rightarrow> 'r result \<times> 's) \<Rightarrow> ('r \<Rightarrow> goerr option) \<Rightarrow> goerr + parsed_args \<Rightarrow> 's
     \<Rightarrow> command_error option \<times> 's" where
  "newCommand NoArgs grant encode parsed s =
     (case parsed of
        Inl err \<Rightarrow> (Some (UsageError err), s)
      | Inr p \<Rightarrow>
          (case NoArgs (pa_args p) of
             Some err \<Rightarrow> (Some (UsageError err), s)
           | None \<Rightarrow>
            let opts = \<lparr>opt_userID = command_flag p ''user-id'' [], opt_serviceAccountID = command_flag p ''service-account-id'' []\<rparr> in
            case PreRunE opts of
              Some err \<Rightarrow> (Some (UsageError err), s)
            | None \<Rightarrow>
                (case grant (command_flag p ''config'' ''config/config.yaml'') (command_flag p ''env'' []) opts s of
                   (Inl err, s') \<Rightarrow> (Some (RunError err), s')
                 | (Inr r, s') \<Rightarrow> (map_option RunError (encode r), s'))))"

definition bootstrap_main ::
  "(gostring list \<Rightarrow> goerr option) \<Rightarrow> viper_lib \<Rightarrow> 'd drivers \<Rightarrow> projection_env \<Rightarrow> ctx \<Rightarrow> (GrantResult \<Rightarrow> goerr option) \<Rightarrow> goerr + parsed_args \<Rightarrow> database \<Rightarrow> int \<times> database" where
  "bootstrap_main NoArgs vp dr e x encode parsed db =
     (case newCommand NoArgs (bootstrap_run vp dr e x) encode parsed db of
        (Some (UsageError err), db') \<Rightarrow> (2, db')
      | (Some (RunError err), db') \<Rightarrow> (1, db')
      | (None, db') \<Rightarrow> (0, db'))"

text \<open>The exit code tells: 2 for a call that is refused before anything is read, which leaves the tables
  alone; 0 only after a grant.\<close>

lemma bootstrap_exit_codes:
  assumes "bootstrap_main NoArgs vp dr e x encode parsed db = (code, db')"
  shows "code = 2 \<Longrightarrow> db' = db"
    and "code = 0 \<Longrightarrow> \<exists>configPath profile opts r. bootstrap_run vp dr e x configPath profile opts db = (Inr r, db')"
    and "code \<in> {0, 1, 2}"
  using assms
  by (auto simp: bootstrap_main_def newCommand_def Let_def split: sum.splits option.splits if_splits prod.splits command_error.splits)

end
