(* ===== verification/Spec2Isabelle.thy ===== *)
theory Spec2Isabelle
  imports Policy_Properties Mutation_Properties Cache_Properties Search_Properties Http_Properties Grpc_Properties
    Projection_Properties Route_Policy_Properties Access_Properties Server_Properties Endpoint_Properties
    Grpc_Endpoint_Properties Outbound_Properties Wiring
begin

text \<open>
  A verification development of the authorization service: a multi-tenant role-based access control
  service with attribute conditions, reached over HTTP and gRPC.

  \<^bold>\<open>The program.\<close> The policy of a tenant is a set of permissions, roles, grants of permissions to roles
  and bindings of subjects to roles, kept in SQL tables (\<open>internal/authorization/repository.go\<close>). The
  service (\<open>internal/authorization/service.go\<close>) changes it in transactions that also raise the policy
  version of the tenant and write an outbox event, and answers checks from it. Decisions are cached
  in the process and invalidated locally, through Redis messages and by polling
  (\<open>decision_cache_runtime.go\<close>). Events of other services are projected into the same tables
  (\<open>group_projection.go\<close>, \<open>tenant_bootstrap_projection.go\<close>). Route policies (\<open>internal/routepolicy\<close>)
  decide which caller may call which HTTP or gRPC route. The HTTP server
  (\<open>internal/transport/http\<close>) and the gRPC server (\<open>internal/transport/grpc\<close>) put authentication,
  route policies, rate limits and idempotency in front of the handlers. Around this are
  configuration, migrations, health, a distributed lock, a scheduled job, outbound clients, the event
  runtime, metrics and logs.

  \<^bold>\<open>Conventions.\<close> Structs are records, methods are functions from the state to a result and the new
  state, an error is the left of a sum (\<open>result\<close>) or an option, and a Go string is a list of bytes.
  \<open>int\<close> is an unbounded integer with the wrap-around of 64 bits written out where it matters
  (\<open>Prelude\<close>), protocol integers are words. A table is a list of rows with their deletion mark, a
  statement is a function on tables that a connection can make fail at any point (\<open>Database\<close>), and a
  transaction keeps the old tables when it fails. Code outside the repository (SQL drivers, Redis,
  redsync, gin, gRPC, viper, cobra, cron, the CEL engine, JSON and protobuf, the platform packages) is an argument;
  what a property needs of it is a named hypothesis (\<open>idem_contract\<close>, \<open>reload_contract\<close>,
  \<open>new_route_contract\<close>, \<open>driver_ok\<close>, the law of the broker), and a witness shows that it can hold. Go maps that are ranged over
  are lists in the order of iteration. Concurrency appears as explicit sequences: histories of
  operations, messages and ticks, arrival orders, and tables that change between two statements.

  \<^bold>\<open>Theories and sources.\<close>
  \<^item> \<open>Prelude\<close>: bytes, strings, integers and shared list facts. \<open>Errors\<close>: \<open>internal/apperror\<close> and the
    translation of errors. \<open>Model\<close>: \<open>internal/authorization/model.go\<close>. \<open>Database\<close>:
    \<open>internal/database/transaction.go\<close> and the statements of the driver.
  \<^item> \<open>Repository\<close> and \<open>Repository_Laws\<close>: \<open>repository.go\<close> with its unique keys, references and affected
    rows, and what each statement promises.
  \<^item> \<open>Validation\<close>, \<open>Service_Core\<close>, \<open>Service\<close>, \<open>Service_Laws\<close>, \<open>Update_Laws\<close>: normalisation, the mutation
    wrapper and every operation of \<open>service.go\<close>. \<open>Atomicity\<close>: result and effect of the eight
    management operations together. \<open>Decisions\<close>: checks, conditions and the local
    authorizer of \<open>enforcer.go\<close>. \<open>Decision_Cache\<close>: the cache and its runtime, with the interface of a
    cache as a locale. \<open>Peers\<close>: the instances of a deployment and the channel between them.
    \<open>Coherence\<close>: cache and tables together. \<open>Sample\<close>: a concrete instance.
  \<^item> \<open>Projections\<close> and \<open>Projection_Laws\<close>: the two event projections as interpretations of one consumer
    contract, and \<open>internal/bootstrap/admin.go\<close>.
  \<^item> \<open>Route_Policy\<close> and \<open>Route_Policy_Laws\<close>: repository, manager and service of \<open>internal/routepolicy\<close>.
  \<^item> \<open>Http_Requests\<close>, \<open>Http_Handlers\<close>, \<open>Http_Laws\<close>, \<open>Http_Managed\<close>: the request bodies with their binding
    rules and the handlers. \<open>Grpc\<close>: the remote procedures and their conversions.
  \<^item> \<open>Access\<close>: \<open>internal/auth\<close>, path patterns, request identifiers. \<open>Config\<close>: \<open>internal/config\<close>.
    \<open>Gates\<close>: the contract of middleware and interceptors as a locale, with composition.
    \<open>Middleware\<close>, \<open>Middleware_Laws\<close>: \<open>middleware.go\<close>, every middleware interpreted as a gate and as
    answering. \<open>Grpc_Access\<close>: the interceptors of \<open>grpc/server.go\<close>, as gates too.
  \<^item> \<open>Servers\<close>, \<open>Server_Laws\<close>: the routes, groups, discovery and start hooks of both servers.
    \<open>Frames\<close>: what the middleware leaves alone, and what a handler finds when it runs.
  \<^item> \<open>Endpoints\<close>, \<open>Endpoint_Laws\<close>: the handlers bound to the routes, on the state of the whole service,
    each an instance of the contract of its kind. \<open>Grpc_Endpoints\<close>: the same for the remote procedures.
  \<^item> \<open>Outbound\<close>: \<open>internal/outbound\<close> and \<open>internal/grpcclient\<close>. \<open>Migrations\<close>: \<open>internal/migration\<close>.
    \<open>Operations\<close>: \<open>internal/health\<close>, \<open>internal/cache\<close>, \<open>internal/scheduler\<close>, \<open>handler.go\<close>. \<open>Runtime\<close>:
    \<open>internal/database/database.go\<close>, \<open>internal/app\<close> and the commands. \<open>Observability\<close>: metrics, traces
    and logs. \<open>Wiring\<close>: the scheduler and the constructors that hand the configuration on.

  \<^bold>\<open>Properties.\<close>
  \<^item> \<open>Policy_Properties\<close> and \<open>Mutation_Properties\<close>: tenants are isolated from callers who may not manage
    them; every operation keeps unique keys and references inside a tenant; a check in any history
    returns what the tables determine; an allowed decision is justified and its content exact;
    mutations are atomic, version-checked and reported; withdrawals take effect and bindings grant.
  \<^item> \<open>Cache_Properties\<close>: freshness, identity of keys, exact invalidation, propagation and repair.
    \<open>Search_Properties\<close>: exact and complete pages, duplicates.
  \<^item> \<open>Http_Properties\<close> and \<open>Grpc_Properties\<close>: who may do what through the handlers, batch checks, pages
    and bindings at protocol width.
  \<^item> \<open>Projection_Properties\<close>: redelivery, order of arrival, new tenants, the platform administrator.
    \<open>Route_Policy_Properties\<close>: exact writes and refreshes.
  \<^item> \<open>Access_Properties\<close> and \<open>Server_Properties\<close>: which requests reach which handler and as whom, that
    every request is answered, idempotent execution, what an accepted configuration guarantees, and
    what a started server has registered.
  \<^item> \<open>Endpoint_Properties\<close> and \<open>Grpc_Endpoint_Properties\<close>: from the request to the tables. Rows of a
    tenant change only through admitted requests and calls whose caller may change them there, route
    policies only through the request that sets one, and the invariant of the tables is kept. Here the
    hypotheses are that the collaborators of the middleware leave the tables alone.
  \<^item> \<open>Outbound_Properties\<close>: outbound retries end within their policy.

  \<^bold>\<open>Bounds and termination.\<close> All definitions are total. Loops over data are structural; the retry loops
  and the pattern matcher have termination proofs; background loops are functions of the finite
  sequence of events they have seen. Pages are exact up to page \<open>2 ^ 56\<close>, where the offset still fits
  64 bits; the backoff of the HTTP client is exact below \<open>2 ^ 53\<close> nanoseconds, where a floating-point
  number is. Checks are about requests in normal form (\<open>request_ok\<close>), keys and fingerprints about parts
  without NUL bytes; the findings of the manifest say what happens otherwise.

  \<^bold>\<open>Not modelled.\<close> \<open>docs/docs.go\<close>, which is a generated string; the dependency-injection graph (\<open>fx\<close>);
  the parsing of flags; the firing times of cron; network listeners, TLS handshakes and the contents of certificates;
  the texts of log messages; gin's answer to unknown paths and to a connection that the client has
  closed. Timeouts are modelled by whether they pass, not by clocks. A check is one step, so the race
  between resolving grants and storing the decision is outside the model. Letter case is folded for
  ASCII only, texts are compared exactly (the MySQL collation ignores case), rows come in the order of
  the tables where a statement has no \<open>ORDER BY\<close>, times have the precision of the columns, and policy
  versions do not reach the end of \<open>BIGINT\<close>.
\<close>

end
